(* ===== verification/Prelude.thy ===== *)
theory Prelude
  imports Main
begin

text \<open>
  Shared material of the development: the shape of a service call (a result or an error,
  with the state that survives it), rows of a database table and the three things SQL does
  to them, and the string operations of JavaScript that the sources use.

  A JavaScript string is modelled as a \<open>string\<close> (a list of 8-bit characters), that is, for
  code units below 256.
\<close>

named_theorems op_defs \<open>definitions of the operations of a component\<close>
named_theorems table_simps \<open>what the table operations do to lookups and filters\<close>

type_synonym user_id = string
type_synonym tenant_id = string
type_synonym uuid = string

subsection \<open>Calls that may throw\<close>

text \<open>
  A call returns \<open>Inr\<close> a value or throws \<open>Inl\<close> an error. The state after the call is kept in
  both cases: what was written before a throw stays written, unless a transaction undoes it.
\<close>

fun andThen :: "('e + 'a) \<times> 's \<Rightarrow> ('a \<Rightarrow> 's \<Rightarrow> ('e + 'b) \<times> 's) \<Rightarrow> ('e + 'b) \<times> 's" where
  "andThen (Inl e, s) f = (Inl e, s)"
| "andThen (Inr a, s) f = f a s"

text \<open>\<open>try { ... } catch { }\<close>: the error is dropped, the state kept.\<close>

fun swallow :: "('e + 'a) \<times> 's \<Rightarrow> 's" where
  "swallow (r, s) = s"

lemma andThen_Inr_iff:
  "andThen p f = (Inr b, s') \<longleftrightarrow> (\<exists>a s. p = (Inr a, s) \<and> f a s = (Inr b, s'))"
  by (cases p; cases "fst p") auto

lemma andThen_state:
  "snd (andThen p f) = (case fst p of Inl _ \<Rightarrow> snd p | Inr a \<Rightarrow> snd (f a (snd p)))"
  by (cases p; cases "fst p") auto

lemma andThen_keeps:
  assumes "P (snd p)" and "\<And>a. P (snd p) \<Longrightarrow> P (snd (f a (snd p)))"
  shows "P (snd (andThen p f))"
  using assms by (auto simp: andThen_state split: sum.splits)

subsection \<open>Tables\<close>

text \<open>\<open>UPDATE t SET ... WHERE p\<close>.\<close>

definition update_where :: "('r \<Rightarrow> bool) \<Rightarrow> ('r \<Rightarrow> 'r) \<Rightarrow> 'r list \<Rightarrow> 'r list" where
  "update_where p f rows = map (\<lambda>r. if p r then f r else r) rows"

text \<open>\<open>DELETE FROM t WHERE p\<close>.\<close>

definition delete_where :: "('r \<Rightarrow> bool) \<Rightarrow> 'r list \<Rightarrow> 'r list" where
  "delete_where p rows = filter (\<lambda>r. \<not> p r) rows"

text \<open>The \<open>rowCount\<close> of an UPDATE or a SELECT with the condition \<open>p\<close>.\<close>

definition row_count :: "('r \<Rightarrow> bool) \<Rightarrow> 'r list \<Rightarrow> nat" where
  "row_count p rows = length (filter p rows)"

lemma row_count_0_iff: "row_count p rows = 0 \<longleftrightarrow> (\<forall>r\<in>set rows. \<not> p r)"
  by (simp add: row_count_def filter_empty_conv)

lemma row_count_pos_iff: "0 < row_count p rows \<longleftrightarrow> (\<exists>r\<in>set rows. p r)"
  using row_count_0_iff [of p rows] by auto

lemma length_update_where [simp]: "length (update_where p f rows) = length rows"
  by (simp add: update_where_def)

lemma update_where_Nil [simp]: "update_where p f [] = []"
  by (simp add: update_where_def)

lemma update_where_Cons [simp]:
  "update_where p f (r # rows) = (if p r then f r else r) # update_where p f rows"
  by (simp add: update_where_def)

lemma set_update_where: "set (update_where p f rows) = (\<lambda>r. if p r then f r else r) ` set rows"
  by (simp add: update_where_def)

lemma update_where_none: "(\<And>r. r \<in> set rows \<Longrightarrow> \<not> p r) \<Longrightarrow> update_where p f rows = rows"
  by (auto simp: update_where_def intro!: map_idI)

lemma update_where_keeps_mem: "r \<in> set rows \<Longrightarrow> \<not> p r \<Longrightarrow> r \<in> set (update_where p f rows)"
  by (auto simp: set_update_where intro!: image_eqI)

lemma map_update_where:
  assumes "\<And>r. p r \<Longrightarrow> k (f r) = k r"
  shows "map k (update_where p f rows) = map k rows"
  using assms by (induction rows) auto

lemma filter_update_where:
  assumes "\<And>r. r \<in> set rows \<Longrightarrow> p r \<Longrightarrow> q (f r) = q r"
  shows "filter q (update_where p f rows) = update_where p f (filter q rows)"
  using assms by (induction rows) auto

lemma find_update_where:
  assumes "\<And>r. p r \<Longrightarrow> q (f r) = q r"
  shows "find q (update_where p f rows) = map_option (\<lambda>r. if p r then f r else r) (find q rows)"
  using assms by (induction rows) auto

text \<open>An update of the rows with a key keeps their key and the rows with other keys.\<close>

lemma find_update_same:
  "(\<And>r. p r \<Longrightarrow> p (f r)) \<Longrightarrow> find p (update_where p f rows) = map_option f (find p rows)"
  by (induction rows) auto

lemma find_update_other:
  "(\<And>r. p r \<Longrightarrow> \<not> q r \<and> \<not> q (f r)) \<Longrightarrow> find q (update_where p f rows) = find q rows"
  by (induction rows) auto

lemma find_SomeD: "find p xs = Some x \<Longrightarrow> x \<in> set xs \<and> p x"
  by (induction xs) (auto split: if_splits)

lemma find_None_iff_all: "find p xs = None \<longleftrightarrow> (\<forall>x\<in>set xs. \<not> p x)"
  by (induction xs) auto

lemma find_append: "find p (xs @ ys) = (case find p xs of None \<Rightarrow> find p ys | Some x \<Rightarrow> Some x)"
  by (induction xs) auto

text \<open>A key determines its row when the keys of a table are distinct (PRIMARY KEY).\<close>

lemma distinct_key_unique:
  assumes "distinct (map k rows)" and "r \<in> set rows" and "r' \<in> set rows" and "k r = k r'"
  shows "r = r'"
  using assms by (metis distinct_map inj_onD)

lemma find_key_unique:
  assumes "distinct (map k rows)" and "r \<in> set rows" and "k r = x" and "q r"
  shows "find (\<lambda>r. k r = x \<and> q r) rows = Some r"
proof (cases "find (\<lambda>r. k r = x \<and> q r) rows")
  case None
  with assms show ?thesis by (auto simp: find_None_iff_all)
next
  case (Some r')
  then have "r' \<in> set rows" and "k r' = x" by (auto dest: find_SomeD)
  with assms have "r' = r" by (blast intro: distinct_key_unique)
  with Some show ?thesis by simp
qed

lemmas table_facts = set_update_where delete_where_def row_count_0_iff row_count_pos_iff

declare find_update_where [table_simps] map_update_where [table_simps]
  filter_update_where [table_simps] find_append [table_simps]

subsection \<open>Optional values and strings of JavaScript\<close>

text \<open>An optional string is truthy when it is present and not empty.\<close>

fun truthy :: "string option \<Rightarrow> bool" where
  "truthy None = False"
| "truthy (Some s) = (s \<noteq> [])"

text \<open>\<open>a ?? b\<close> on optional values.\<close>

fun coalesce :: "'a option \<Rightarrow> 'a option \<Rightarrow> 'a option" where
  "coalesce (Some a) b = Some a"
| "coalesce None b = b"

text \<open>\<open>x ?? d\<close>.\<close>

definition js_or :: "'v option \<Rightarrow> 'v \<Rightarrow> 'v" where
  "js_or x d = (case x of None \<Rightarrow> d | Some v \<Rightarrow> v)"

text \<open>White space and line terminators of ECMAScript with a code unit below 256.\<close>

definition js_space :: "char \<Rightarrow> bool" where
  "js_space c = (let n = of_char c :: nat in (9 \<le> n \<and> n \<le> 13) \<or> n = 32 \<or> n = 160)"

definition js_trim :: "string \<Rightarrow> string" where
  "js_trim s = rev (dropWhile js_space (rev (dropWhile js_space s)))"

lemma length_js_trim: "length (js_trim s) \<le> length s"
  unfolding js_trim_def
  by (metis length_dropWhile_le length_rev order_trans)

definition js_lower_char :: "char \<Rightarrow> char" where
  "js_lower_char c =
     (let n = of_char c :: nat in
      if (65 \<le> n \<and> n \<le> 90) \<or> (192 \<le> n \<and> n \<le> 222 \<and> n \<noteq> 215) then char_of (n + 32) else c)"

definition js_toLowerCase :: "string \<Rightarrow> string" where
  "js_toLowerCase s = map js_lower_char s"

text \<open>
  \<open>toUpperCase\<close>; the two letters whose upper case lies outside the 8-bit range stay as they are.
\<close>

definition js_upper_char :: "char \<Rightarrow> string" where
  "js_upper_char c =
     (let n = of_char c :: nat in
      if (97 \<le> n \<and> n \<le> 122) \<or> (224 \<le> n \<and> n \<le> 254 \<and> n \<noteq> 247) then [char_of (n - 32)]
      else if n = 223 then ''SS''
      else [c])"

definition js_toUpperCase :: "string \<Rightarrow> string" where
  "js_toUpperCase s = concat (map js_upper_char s)"

fun js_startsWith :: "string \<Rightarrow> string \<Rightarrow> bool" where
  "js_startsWith s [] = True"
| "js_startsWith [] (p # ps) = False"
| "js_startsWith (c # s) (p # ps) = (c = p \<and> js_startsWith s ps)"

fun js_includes :: "string \<Rightarrow> string \<Rightarrow> bool" where
  "js_includes [] p = (p = [])"
| "js_includes (c # s) p = (js_startsWith (c # s) p \<or> js_includes s p)"

text \<open>\<open>s.split(sep)\<close> for a separator of one character.\<close>

fun js_split :: "char \<Rightarrow> string \<Rightarrow> string list" where
  "js_split sep [] = [[]]"
| "js_split sep (c # s) =
     (if c = sep then [] # js_split sep s
      else case js_split sep s of [] \<Rightarrow> [[c]] | w # ws \<Rightarrow> (c # w) # ws)"

text \<open>\<open>xs.join(sep)\<close>.\<close>

fun js_join :: "string \<Rightarrow> string list \<Rightarrow> string" where
  "js_join sep [] = []"
| "js_join sep [x] = x"
| "js_join sep (x # y # xs) = x @ sep @ js_join sep (y # xs)"

definition is_digit :: "char \<Rightarrow> bool" where
  "is_digit c = (let n = of_char c :: nat in 48 \<le> n \<and> n \<le> 57)"

definition digit_val :: "char \<Rightarrow> nat" where
  "digit_val c = of_char c - 48"

definition digit_char :: "nat \<Rightarrow> char" where
  "digit_char d = char_of (48 + d)"

text \<open>The decimal digits of a natural number, most significant first.\<close>

fun nat_string :: "nat \<Rightarrow> string" where
  "nat_string n =
     (if n < 10 then [digit_char n] else nat_string (n div 10) @ [digit_char (n mod 10)])"

declare nat_string.simps [simp del]

definition digits_value :: "string \<Rightarrow> nat" where
  "digits_value s = foldl (\<lambda>v c. 10 * v + digit_val c) 0 s"

text \<open>\<open>String(n).padStart(w, '0')\<close>.\<close>

definition pad_zero :: "nat \<Rightarrow> string \<Rightarrow> string" where
  "pad_zero w s = replicate (w - length s) (CHR ''0'') @ s"

lemma of_char_digit_char: "d < 10 \<Longrightarrow> (of_char (digit_char d) :: nat) = 48 + d"
  by (simp add: digit_char_def of_char_of)

lemma is_digit_digit_char [simp]: "d < 10 \<Longrightarrow> is_digit (digit_char d)"
  by (simp add: is_digit_def of_char_digit_char Let_def)

lemma digit_val_digit_char [simp]: "d < 10 \<Longrightarrow> digit_val (digit_char d) = d"
  by (simp add: digit_val_def of_char_digit_char)

lemma digit_char_neq_dot: "d < 10 \<Longrightarrow> digit_char d \<noteq> CHR ''.''"
proof
  assume "d < 10" and "digit_char d = CHR ''.''"
  then have "48 + d = (of_char CHR ''.'' :: nat)" by (metis of_char_digit_char)
  then show False by simp
qed

lemma nat_string_digits: "c \<in> set (nat_string n) \<Longrightarrow> is_digit c"
proof (induction n rule: nat_string.induct)
  case (1 n)
  then show ?case by (subst (asm) nat_string.simps) (auto split: if_splits)
qed

lemma nat_string_not_Nil [simp]: "nat_string n \<noteq> []"
  by (subst nat_string.simps) simp

lemma digits_value_snoc: "digits_value (s @ [c]) = 10 * digits_value s + digit_val c"
  by (simp add: digits_value_def)

lemma digits_value_nat_string [simp]: "digits_value (nat_string n) = n"
proof (induction n rule: nat_string.induct)
  case (1 n)
  show ?case
  proof (cases "n < 10")
    case True
    then show ?thesis by (subst nat_string.simps) (simp add: digits_value_def)
  next
    case False
    with 1 show ?thesis by (subst nat_string.simps) (simp add: digits_value_snoc)
  qed
qed

lemma length_nat_string:
  assumes "10 ^ k \<le> n" and "n < 10 ^ Suc k"
  shows "length (nat_string n) = Suc k"
  using assms
proof (induction k arbitrary: n)
  case 0
  then show ?case by (subst nat_string.simps) simp
next
  case (Suc k)
  then have "10 ^ k \<le> n div 10" and "n div 10 < 10 ^ Suc k"
    by (auto simp: less_mult_imp_div_less)
  moreover have "\<not> n < 10"
    using Suc.prems(1) self_le_power [of "10 :: nat" "Suc k"] by linarith
  ultimately show ?case using Suc.IH by (subst nat_string.simps) simp
qed

lemma dot_not_digit: "\<not> is_digit CHR ''.''"
  by (simp add: is_digit_def)

lemma js_split_no_sep: "sep \<notin> set s \<Longrightarrow> js_split sep s = [s]"
  by (induction s) auto

lemma js_split_append:
  "sep \<notin> set s \<Longrightarrow> js_split sep (s @ sep # t) = s # js_split sep t"
  by (induction s) auto

end
