(* ===== verification/JsNumber.thy ===== *)
theory JsNumber
  imports Complex_Main Prelude
begin

text \<open>
  The Number type of ECMAScript: IEEE 754 double precision. A finite number is kept as the
  exact rational it denotes, and every operation rounds its exact result to the nearest double,
  ties to even (\<open>to_num\<close>). \<open>-0\<close> is identified with \<open>0\<close>: no source function modelled here tells
  them apart. The decimal text of a number (\<open>String(n)\<close>) is the shortest decimal that rounds
  back to it, as ECMAScript specifies; \<open>dec_val\<close> is the value of that text, which is also what
  decimal.js reads from a number and what PostgreSQL receives for a numeric parameter.
\<close>

datatype number = NaN | PosInf | NegInf | Fin rat

subsection \<open>Integer logarithms of rationals\<close>

text \<open>The number of digits of \<open>p\<close> in base \<open>b\<close>.\<close>

function ilen :: "int \<Rightarrow> int \<Rightarrow> int" where
  "ilen b p = (if 0 < p \<and> 1 < b then 1 + ilen b (p div b) else 0)"
  by pat_completeness auto
termination
  by (relation "measure (\<lambda>(b, p). nat p)") (auto simp: int_div_less_self)

declare ilen.simps [simp del]

text \<open>The largest \<open>k\<close> with \<open>b ^ k \<le> x\<close>, for \<open>x > 0\<close> and \<open>b > 1\<close>.\<close>

definition ilog :: "int \<Rightarrow> rat \<Rightarrow> int" where
  "ilog b x =
     (let (p, q) = quotient_of x; k = ilen b p - ilen b q
      in if of_int b powi k \<le> x then k else k - 1)"

subsection \<open>Rounding to a double\<close>

definition round_even :: "rat \<Rightarrow> int" where
  "round_even y =
     (let f = \<lfloor>y\<rfloor>; d = y - of_int f
      in if d < 1 / 2 then f else if 1 / 2 < d then f + 1 else if even f then f else f + 1)"

text \<open>The exponent of the last bit of the double next to \<open>x\<close>; \<open>-1074\<close> below the normal range.\<close>

definition ulp_exp :: "rat \<Rightarrow> int" where
  "ulp_exp x = max (-1074) (ilog 2 \<bar>x\<bar> - 52)"

definition rnd_rat :: "rat \<Rightarrow> rat" where
  "rnd_rat x =
     (if x = 0 then 0
      else of_int (round_even (x / 2 powi ulp_exp x)) * 2 powi ulp_exp x)"

definition to_num :: "rat \<Rightarrow> number" where
  "to_num x =
     (let r = rnd_rat x
      in if r \<noteq> 0 \<and> 1024 \<le> ilog 2 \<bar>r\<bar> then (if 0 < r then PosInf else NegInf) else Fin r)"

subsection \<open>The shortest decimal of a double\<close>

text \<open>
  Of the two multiples of \<open>10 ^ e\<close> next to \<open>x\<close>, one that rounds to \<open>x\<close>: the closer one when both
  do, the even one when they are equally close.
\<close>

definition dec_cand :: "rat \<Rightarrow> int \<Rightarrow> int option" where
  "dec_cand x e =
     (let q = x / 10 powi e; lo = \<lfloor>q\<rfloor>; hi = lo + 1;
          ok = (\<lambda>s. rnd_rat (of_int s * 10 powi e) = x);
          dlo = q - of_int lo; dhi = of_int hi - q
      in if ok lo \<and> ok hi
         then Some (if dlo < dhi then lo else if dhi < dlo then hi else if even lo then lo else hi)
         else if ok lo then Some lo
         else if ok hi then Some hi
         else None)"

text \<open>
  The least number of digits for which there is such a decimal; \<open>n\<close> is the position of the
  decimal point (\<open>10 ^ (n - 1) \<le> x < 10 ^ n\<close>). Seventeen digits always suffice for a double.
\<close>

fun dec_search :: "nat list \<Rightarrow> rat \<Rightarrow> int \<Rightarrow> int \<times> int" where
  "dec_search [] x n = (round_even (x / 10 powi (n - 17)), n - 17)"
| "dec_search (k # ks) x n =
     (case dec_cand x (n - int k) of
        Some s \<Rightarrow> (s, n - int k)
      | None \<Rightarrow> dec_search ks x n)"

definition shortest :: "rat \<Rightarrow> int \<times> int" where
  "shortest x = dec_search [1..<18] x (ilog 10 x + 1)"

text \<open>The digits and the exponent of \<open>String(x)\<close>, without trailing zeros, for \<open>x > 0\<close>.\<close>

function strip_zeros :: "int \<Rightarrow> int \<Rightarrow> int \<times> int" where
  "strip_zeros s e =
     (if 0 < s \<and> s mod 10 = 0 then strip_zeros (s div 10) (e + 1) else (s, e))"
  by pat_completeness auto
termination
  by (relation "measure (\<lambda>(s, e). nat s)") (auto simp: int_div_less_self)

declare strip_zeros.simps [simp del]

definition dec_digits :: "rat \<Rightarrow> int \<times> int" where
  "dec_digits x = (let (s, e) = shortest x in strip_zeros s e)"

definition dec_val :: "rat \<Rightarrow> rat" where
  "dec_val x =
     (if x = 0 then 0
      else let (s, e) = dec_digits \<bar>x\<bar> in sgn x * of_int s * 10 powi e)"

text \<open>The decimal digits of a positive integer.\<close>

function int_string :: "int \<Rightarrow> string" where
  "int_string n =
     (if n < 10 then [digit_char (nat n)]
      else int_string (n div 10) @ [digit_char (nat (n mod 10))])"
  by pat_completeness auto
termination
  by (relation "measure nat") (auto simp: int_div_less_self)

declare int_string.simps [simp del]

text \<open>The text of a positive number with the digits \<open>ds\<close> and the decimal point at \<open>n\<close>.\<close>

definition exp_text :: "int \<Rightarrow> string" where
  "exp_text m =
     (if m < 0 then ''-'' @ nat_string (nat (- m)) else ''+'' @ nat_string (nat m))"

definition layout :: "string \<Rightarrow> int \<Rightarrow> string" where
  "layout ds n =
     (let k = int (length ds) in
      if k \<le> n \<and> n \<le> 21 then ds @ replicate (nat (n - k)) (CHR ''0'')
      else if 0 < n \<and> n \<le> 21 then take (nat n) ds @ CHR ''.'' # drop (nat n) ds
      else if - 6 < n \<and> n \<le> 0 then ''0.'' @ replicate (nat (- n)) (CHR ''0'') @ ds
      else if k = 1 then ds @ CHR ''e'' # exp_text (n - 1)
      else take 1 ds @ CHR ''.'' # drop 1 ds @ CHR ''e'' # exp_text (n - 1))"

definition pos_text :: "rat \<Rightarrow> string" where
  "pos_text x =
     (let (s, e) = dec_digits x; ds = int_string s in layout ds (e + int (length ds)))"

fun num_text :: "number \<Rightarrow> string" where
  "num_text NaN = ''NaN''"
| "num_text PosInf = ''Infinity''"
| "num_text NegInf = ''-Infinity''"
| "num_text (Fin x) =
     (if x = 0 then ''0'' else if x < 0 then CHR ''-'' # pos_text (- x) else pos_text x)"

subsection \<open>Operations and comparisons\<close>

fun is_finite :: "number \<Rightarrow> bool" where
  "is_finite (Fin x) = True"
| "is_finite _ = False"

fun num_less :: "number \<Rightarrow> number \<Rightarrow> bool" where
  "num_less NaN b = False"
| "num_less a NaN = False"
| "num_less (Fin x) (Fin y) = (x < y)"
| "num_less (Fin x) PosInf = True"
| "num_less (Fin x) NegInf = False"
| "num_less NegInf b = (b \<noteq> NegInf)"
| "num_less PosInf b = False"

fun num_eq :: "number \<Rightarrow> number \<Rightarrow> bool" where
  "num_eq NaN b = False"
| "num_eq a NaN = False"
| "num_eq a b = (a = b)"

definition num_le :: "number \<Rightarrow> number \<Rightarrow> bool" where
  "num_le a b = (num_less a b \<or> num_eq a b)"

definition num_max :: "number \<Rightarrow> number \<Rightarrow> number" where
  "num_max a b = (if a = NaN \<or> b = NaN then NaN else if num_less a b then b else a)"

definition num_min :: "number \<Rightarrow> number \<Rightarrow> number" where
  "num_min a b = (if a = NaN \<or> b = NaN then NaN else if num_less b a then b else a)"

text \<open>\<open>a + b\<close>, \<open>-a\<close> and \<open>a - b\<close>.\<close>

fun num_plus :: "number \<Rightarrow> number \<Rightarrow> number" where
  "num_plus (Fin x) (Fin y) = to_num (x + y)"
| "num_plus NaN b = NaN"
| "num_plus a NaN = NaN"
| "num_plus PosInf NegInf = NaN"
| "num_plus NegInf PosInf = NaN"
| "num_plus PosInf b = PosInf"
| "num_plus NegInf b = NegInf"
| "num_plus (Fin x) b = b"

fun num_neg :: "number \<Rightarrow> number" where
  "num_neg (Fin x) = Fin (- x)"
| "num_neg NaN = NaN"
| "num_neg PosInf = NegInf"
| "num_neg NegInf = PosInf"

fun num_abs :: "number \<Rightarrow> number" where
  "num_abs (Fin x) = Fin \<bar>x\<bar>"
| "num_abs NaN = NaN"
| "num_abs PosInf = PosInf"
| "num_abs NegInf = PosInf"

definition num_minus :: "number \<Rightarrow> number \<Rightarrow> number" where
  "num_minus a b = num_plus a (num_neg b)"

subsection \<open>Properties of the logarithm\<close>

lemma ilen_pos: "0 < p \<Longrightarrow> 1 < b \<Longrightarrow> 1 \<le> ilen b p"
proof (induction b p rule: ilen.induct)
  case (1 b p)
  have "0 \<le> ilen b (p div b)"
  proof (cases "0 < p div b")
    case True
    with 1 show ?thesis by simp
  next
    case False
    then show ?thesis by (subst ilen.simps) simp
  qed
  with 1 show ?case by (subst ilen.simps) simp
qed

lemma ilen_bounds:
  "0 < p \<Longrightarrow> 1 < b \<Longrightarrow> b ^ nat (ilen b p - 1) \<le> p \<and> p < b ^ nat (ilen b p)"
proof (induction b p rule: ilen.induct)
  case (1 b p)
  have len: "ilen b p = 1 + ilen b (p div b)"
    using 1 by (subst ilen.simps) simp
  show ?case
  proof (cases "0 < p div b")
    case True
    let ?l = "ilen b (p div b)"
    have l1: "1 \<le> ?l" using ilen_pos [OF True] 1 by simp
    have IH: "b ^ nat (?l - 1) \<le> p div b" "p div b < b ^ nat ?l"
      using 1 True by auto
    have "b ^ nat ?l = b ^ nat (?l - 1) * b"
      using l1 by (metis Suc_nat_eq_nat_zadd1 add.commute diff_add_cancel diff_ge_0_iff_ge power_Suc2)
    also have "\<dots> \<le> p div b * b" using IH(1) 1(3) by (intro mult_right_mono) auto
    also have "\<dots> \<le> p"
      using pos_mod_sign [of b p] div_mult_mod_eq [of p b] 1(3) by linarith
    finally have low: "b ^ nat ?l \<le> p" .
    have "p < (p div b + 1) * b"
      using pos_mod_bound [of b p] div_mult_mod_eq [of p b] 1(3)
      unfolding distrib_right by linarith
    also have "\<dots> \<le> b ^ nat ?l * b" using IH(2) 1(3) by (intro mult_right_mono) auto
    also have "\<dots> = b ^ nat (1 + ?l)" using l1 by (simp add: nat_add_distrib)
    finally show ?thesis using low by (simp add: len)
  next
    case False
    with 1 have "p < b" using pos_imp_zdiv_pos_iff [of b p] by linarith
    moreover have "ilen b (p div b) = 0" using False by (subst ilen.simps) simp
    ultimately show ?thesis using 1 by (simp add: len)
  qed
qed

lemma ilog_bounds:
  assumes "0 < x" and "1 < b"
  shows "of_int b powi ilog b x \<le> x" and "x < of_int b powi (ilog b x + 1)"
proof -
  obtain p q where pq: "quotient_of x = (p, q)" by force
  then have q: "0 < q" by (rule quotient_of_denom_pos)
  have x: "x = of_int p / of_int q" by (rule quotient_of_div) (rule pq)
  with assms(1) q have p: "0 < p" by (simp add: zero_less_divide_iff)
  define B :: rat where "B = of_int b"
  have B: "1 < B" "0 < B" "B \<noteq> 0" using assms(2) by (auto simp: B_def)
  define fp where "fp = ilen b p"
  define fq where "fq = ilen b q"
  have f1: "1 \<le> fp" "1 \<le> fq" using ilen_pos p q assms(2) by (auto simp: fp_def fq_def)
  have nn: "b ^ nat (fp - 1) \<le> p" "p < b ^ nat fp" "b ^ nat (fq - 1) \<le> q" "q < b ^ nat fq"
    using ilen_bounds p q assms(2) by (auto simp: fp_def fq_def)
  have pw: "B powi k = of_int (b ^ nat k)" if "0 \<le> k" for k
    using that by (simp add: B_def power_int_def)
  have p1: "B powi (fp - 1) \<le> of_int p" "of_int p < B powi fp"
    and q1: "B powi (fq - 1) \<le> of_int q" "of_int q < B powi fq"
    using nn f1 by (simp_all add: pw of_int_le_iff of_int_less_iff del: of_int_power)
  let ?k = "fp - fq"
  have "B powi (?k + 1) = B powi fp / B powi (fq - 1)"
    using B by (simp add: power_int_diff [symmetric] algebra_simps)
  moreover have "x < B powi fp / B powi (fq - 1)"
    unfolding x using p1(2) q1(1) q p B by (intro frac_less) auto
  ultimately have up: "x < B powi (?k + 1)" by simp
  have "B powi (?k - 1) = B powi (fp - 1) / B powi fq"
    using B by (simp add: power_int_diff [symmetric] algebra_simps)
  moreover have "B powi (fp - 1) / B powi fq \<le> x"
    unfolding x using p1(1) q1(2) q p B by (intro frac_le) auto
  ultimately have low: "B powi (?k - 1) \<le> x" by simp
  have "ilog b x = (if B powi ?k \<le> x then ?k else ?k - 1)"
    by (simp add: ilog_def pq fp_def fq_def B_def Let_def)
  with up low show "of_int b powi ilog b x \<le> x" "x < of_int b powi (ilog b x + 1)"
    by (auto simp: B_def [symmetric] split: if_splits)
qed

lemma powi_less_imp_less:
  assumes "(a :: rat) powi m < a powi n" and "1 < a"
  shows "m < n"
proof (rule ccontr)
  assume "\<not> m < n"
  then have "a powi n \<le> a powi m" using assms(2) by (intro power_int_increasing) auto
  with assms(1) show False by simp
qed

subsection \<open>Properties of rounding\<close>

lemma round_even_error: "\<bar>of_int (round_even y) - y\<bar> \<le> 1 / 2"
proof -
  define f where "f = \<lfloor>y\<rfloor>"
  have "of_int f \<le> y" and "y < of_int f + 1" unfolding f_def by linarith+
  then show ?thesis
    unfolding round_even_def Let_def f_def [symmetric] by (auto simp: abs_le_iff field_simps)
qed

lemma round_even_of_int [simp]: "round_even (of_int k) = k"
  by (simp add: round_even_def)

lemma rnd_rat_0 [simp]: "rnd_rat 0 = 0"
  by (simp add: rnd_rat_def)

lemma round_even_minus: "round_even (- y) = - round_even y"
proof -
  define f where "f = \<lfloor>y\<rfloor>"
  have fy: "of_int f \<le> y" "y < of_int f + 1" unfolding f_def by linarith+
  show ?thesis
  proof (cases "y = of_int f")
    case True
    then show ?thesis by (metis of_int_minus round_even_of_int)
  next
    case False
    with fy have m: "\<lfloor>- y\<rfloor> = - f - 1" by (intro floor_unique) auto
    show ?thesis
      unfolding round_even_def Let_def f_def [symmetric] m by (auto simp: field_simps)
  qed
qed

lemma rnd_rat_minus: "rnd_rat (- x) = - rnd_rat x"
  by (simp add: rnd_rat_def ulp_exp_def round_even_minus)

lemma rnd_rat_error:
  assumes "x \<noteq> 0"
  shows "\<bar>rnd_rat x - x\<bar> \<le> 2 powi ulp_exp x / 2"
proof -
  let ?u = "(2 :: rat) powi ulp_exp x"
  have u: "0 < ?u" by simp
  have "\<bar>of_int (round_even (x / ?u)) - x / ?u\<bar> * ?u \<le> 1 / 2 * ?u"
    using round_even_error [of "x / ?u"] u by (intro mult_right_mono) auto
  moreover have "\<bar>of_int (round_even (x / ?u)) - x / ?u\<bar> * ?u
      = \<bar>of_int (round_even (x / ?u)) * ?u - x\<bar>"
  proof -
    have "\<bar>of_int (round_even (x / ?u)) - x / ?u\<bar> * ?u
        = \<bar>(of_int (round_even (x / ?u)) - x / ?u) * ?u\<bar>"
      using u by (simp only: abs_mult abs_of_pos)
    also have "(of_int (round_even (x / ?u)) - x / ?u) * ?u = of_int (round_even (x / ?u)) * ?u - x"
      by (simp add: left_diff_distrib)
    finally show ?thesis .
  qed
  ultimately show ?thesis using assms by (simp add: rnd_rat_def)
qed

text \<open>A relative error of at most \<open>2 ^ -53\<close> in the normal range.\<close>

lemma rnd_rat_rel_error:
  assumes "1 / 2 ^ 1022 \<le> \<bar>x\<bar>"
  shows "\<bar>rnd_rat x - x\<bar> \<le> \<bar>x\<bar> / 2 ^ 53"
proof -
  have pos: "0 < \<bar>x\<bar>" using assms by (rule less_le_trans [rotated]) simp
  let ?l = "ilog 2 \<bar>x\<bar>"
  have l: "(2 :: rat) powi ?l \<le> \<bar>x\<bar>" "\<bar>x\<bar> < 2 powi (?l + 1)"
    using ilog_bounds [OF pos, of 2] by simp_all
  have "(2 :: rat) powi (-1022) < 2 powi (?l + 1)"
    using assms l(2) by (simp add: power_int_minus divide_simps)
  then have "- 1022 < ?l + 1" by (rule powi_less_imp_less) simp
  then have e: "ulp_exp x = ?l - 52" by (simp add: ulp_exp_def)
  have "\<bar>rnd_rat x - x\<bar> \<le> 2 powi (?l - 52) / 2"
    using rnd_rat_error [of x] pos e by auto
  also have "\<dots> = 2 powi ?l / 2 ^ 53"
    by (simp add: power_int_diff)
  also have "\<dots> \<le> \<bar>x\<bar> / 2 ^ 53"
    using l(1) by (simp add: divide_right_mono)
  finally show ?thesis .
qed

lemma rnd_rat_pos:
  assumes "1 / 2 ^ 1022 \<le> x"
  shows "0 < rnd_rat x"
proof -
  have "0 < x" using assms by (rule less_le_trans [rotated]) simp
  moreover have "\<bar>rnd_rat x - x\<bar> \<le> x / 2 ^ 53"
    using rnd_rat_rel_error [of x] assms \<open>0 < x\<close> by simp
  moreover have "x / 2 ^ 53 < x" using \<open>0 < x\<close> by simp
  ultimately show ?thesis unfolding abs_le_iff by linarith
qed

subsection \<open>The shortest decimal of a rounded decimal\<close>

lemma dec_cand_rounds: "dec_cand x e = Some s \<Longrightarrow> rnd_rat (of_int s * 10 powi e) = x"
  by (auto simp: dec_cand_def Let_def split: if_splits)

lemma dec_cand_near:
  "dec_cand x e = Some s \<Longrightarrow> s = \<lfloor>x / 10 powi e\<rfloor> \<or> s = \<lfloor>x / 10 powi e\<rfloor> + 1"
  by (auto simp: dec_cand_def Let_def split: if_splits)

lemma dec_cand_complete:
  assumes "rnd_rat (of_int s * 10 powi e) = x" and "\<bar>x / 10 powi e - of_int s\<bar> < 1"
  shows "dec_cand x e \<noteq> None"
proof -
  define q where "q = x / 10 powi e"
  have "s = \<lfloor>q\<rfloor> \<or> s = \<lfloor>q\<rfloor> + 1"
    using assms(2) unfolding q_def [symmetric] by linarith
  with assms(1) show ?thesis
    unfolding dec_cand_def Let_def q_def [symmetric] by auto
qed

lemma dec_search_least:
  assumes "sorted ks" and "k \<in> set ks" and "dec_cand x (n - int k) \<noteq> None"
  shows "\<exists>k'\<in>set ks. \<exists>s. k' \<le> k \<and> dec_cand x (n - int k') = Some s
           \<and> dec_search ks x n = (s, n - int k')"
  using assms
proof (induction ks)
  case Nil
  then show ?case by simp
next
  case (Cons j ks)
  show ?case
  proof (cases "dec_cand x (n - int j)")
    case None
    with Cons.prems(2,3) have "k \<in> set ks" by auto
    with Cons None show ?thesis by auto
  next
    case (Some s)
    with Cons.prems(1,2) show ?thesis by auto
  qed
qed

text \<open>Two multiples of the unit of the fifteenth digit cannot round to the same double.\<close>

lemma rnd_rat_close:
  assumes d: "1 / 2 ^ 1022 \<le> d" and y: "rnd_rat d = y" and g: "y < 10 ^ 15 * g" "0 < g"
  shows "\<bar>y - d\<bar> < g / 4" and "d / 2 \<le> y"
proof -
  have d0: "0 < d" using d by (rule less_le_trans [rotated]) simp
  have e: "\<bar>y - d\<bar> \<le> d / 2 ^ 53"
    using rnd_rat_rel_error [of d] d d0 y by simp
  then have le: "d - d / 2 ^ 53 \<le> y" unfolding abs_le_iff by linarith
  then show "d / 2 \<le> y" using d0 by simp
  from le have "d \<le> 2 * y" using d0 by simp
  with e have "\<bar>y - d\<bar> \<le> y / 2 ^ 52" by simp
  also have "\<dots> < 10 ^ 15 * g / 2 ^ 52"
    using g by (simp add: divide_strict_right_mono)
  also have "\<dots> < g / 4" using g(2) by simp
  finally show "\<bar>y - d\<bar> < g / 4" .
qed

lemma multiples_apart:
  assumes "\<bar>y - of_int a * g\<bar> < g / 4" and "\<bar>y - of_int b * g\<bar> < g / 4" and "0 < (g :: rat)"
  shows "a = b"
proof -
  have "\<bar>of_int a * g - of_int b * g\<bar> < g"
    using assms by linarith
  then have "\<bar>of_int (a - b) * g\<bar> < 1 * g" by (simp add: left_diff_distrib)
  then have "\<bar>of_int (a - b) :: rat\<bar> < 1"
    using assms(3) by (simp add: abs_mult)
  then show ?thesis by linarith
qed

lemma shortest_of_rounded:
  assumes d: "1 / 2 ^ 1000 \<le> d" and y: "y = rnd_rat d"
    and a: "d = of_int a * 10 powi (ilog 10 y + 1 - 15)"
    and sh: "shortest y = (s, e)"
  shows "of_int s * 10 powi e = d" and "0 \<le> s"
proof -
  define n where "n = ilog 10 y + 1"
  define g :: rat where "g = 10 powi (n - 15)"
  have d22: "1 / 2 ^ 1022 \<le> d"
    using d by (rule order_trans [rotated]) (simp add: frac_le)
  have y0: "0 < y" using rnd_rat_pos [OF d22] y by simp
  have yb: "10 powi (n - 1) \<le> y" "y < 10 powi n"
    using ilog_bounds [OF y0, of 10] by (simp_all add: n_def)
  have g0: "0 < g" by (simp add: g_def)
  have yg: "y < 10 ^ 15 * g" using yb(2) by (simp add: g_def power_int_diff)
  have ag: "d = of_int a * g" using a by (simp add: g_def n_def)
  note close = rnd_rat_close [OF d22 y [symmetric] yg g0]
  have "\<bar>y / g - of_int a\<bar> < 1"
  proof -
    have "\<bar>y / g - of_int a\<bar> * g = \<bar>(y / g - of_int a) * g\<bar>"
      using g0 by (simp only: abs_mult abs_of_pos)
    also have "(y / g - of_int a) * g = y - d" using g0 ag by (simp add: left_diff_distrib)
    also have "\<bar>y - d\<bar> < 1 * g" using close(1) g0 by linarith
    finally show ?thesis using g0 by simp
  qed
  then have "dec_cand y (n - int 15) \<noteq> None"
    using dec_cand_complete [of a "n - 15" y] y ag by (simp add: g_def)
  then obtain k t where k: "k \<in> set [1..<18]" "k \<le> 15"
    and t: "dec_cand y (n - int k) = Some t" "shortest y = (t, n - int k)"
    using dec_search_least [of "[1..<18]" 15 y n] by (auto simp: shortest_def n_def)
  with sh have se: "s = t" "e = n - int k" by auto
  define p :: rat where "p = 10 powi e"
  have p0: "0 < p" by (simp add: p_def)
  have "(10 :: rat) powi e \<le> 10 powi (n - 1)"
    using k se(2) by (intro power_int_increasing) auto
  then have q1: "1 \<le> y / p" using yb(1) p0 by (simp add: p_def)
  have s_near: "s = \<lfloor>y / p\<rfloor> \<or> s = \<lfloor>y / p\<rfloor> + 1"
    using dec_cand_near [OF t(1)] se by (simp add: p_def)
  then have s1: "1 \<le> s" using q1 by linarith
  have "y / p \<le> 2 * of_int s"
    using s_near s1 by linarith
  then have half: "y / 2 \<le> of_int s * p" using p0 by (simp add: field_simps)
  show "0 \<le> s" using s1 by simp
  have d2: "1 / 2 ^ 1022 \<le> of_int s * p"
  proof -
    have "(1 :: rat) / 2 ^ 1022 \<le> 1 / 2 ^ 1000 / 4" by (simp add: frac_le)
    also have "\<dots> \<le> d / 4" using d by (rule divide_right_mono) simp
    also have "\<dots> \<le> of_int s * p" using half close(2) by linarith
    finally show ?thesis .
  qed
  have rs: "rnd_rat (of_int s * p) = y"
    using dec_cand_rounds [OF t(1)] se by (simp add: p_def)
  have sg: "of_int s * p = of_int (s * 10 ^ (15 - k)) * g"
  proof -
    have "p = 10 powi (int (15 - k) + (n - 15))"
      using k(2) se(2) by (simp add: p_def of_nat_diff)
    also have "\<dots> = 10 ^ (15 - k) * g"
      by (simp add: power_int_add g_def)
    finally show ?thesis by simp
  qed
  have "\<bar>y - of_int (s * 10 ^ (15 - k)) * g\<bar> < g / 4"
    using rnd_rat_close(1) [OF d2 rs yg g0] sg by simp
  moreover have "\<bar>y - of_int a * g\<bar> < g / 4" using close(1) ag by simp
  ultimately have "s * 10 ^ (15 - k) = a" using g0 by (rule multiples_apart)
  then show "of_int s * 10 powi e = d" using sg ag by (simp add: p_def)
qed

lemma strip_zeros_value:
  assumes "strip_zeros s e = (s', e')"
  shows "of_int s' * 10 powi e' = (of_int s * 10 powi e :: rat)"
  using assms
proof (induction s e rule: strip_zeros.induct)
  case (1 s e)
  show ?case
  proof (cases "0 < s \<and> s mod 10 = 0")
    case True
    then have "s = 10 * (s div 10)" by auto
    then have s10: "(of_int s :: rat) = 10 * of_int (s div 10)"
      by (metis of_int_mult of_int_numeral)
    have "strip_zeros (s div 10) (e + 1) = (s', e')"
      using 1(2) True by (subst (asm) strip_zeros.simps) simp
    with 1(1) True have "of_int s' * 10 powi e' = (of_int (s div 10) * 10 powi (e + 1) :: rat)"
      by blast
    also have "\<dots> = of_int s * 10 powi e"
      by (simp add: s10 power_int_add)
    finally show ?thesis .
  next
    case False
    then have "strip_zeros s e = (s, e)" by (subst strip_zeros.simps) auto
    with 1(2) show ?thesis by simp
  qed
qed

lemma dec_val_0 [simp]: "dec_val 0 = 0"
  by (simp add: dec_val_def)

lemma dec_val_minus: "dec_val (- x) = - dec_val x"
  by (simp add: dec_val_def sgn_minus split: prod.splits)

lemma dec_val_of_rounded:
  assumes d: "1 / 2 ^ 1000 \<le> d" and a: "d = of_int a * 10 powi (ilog 10 (rnd_rat d) + 1 - 15)"
  shows "dec_val (rnd_rat d) = d"
proof -
  let ?y = "rnd_rat d"
  have "1 / 2 ^ 1022 \<le> d"
    using d by (rule order_trans [rotated]) (simp add: frac_le)
  then have y0: "0 < ?y" by (rule rnd_rat_pos)
  obtain s e where sh: "shortest ?y = (s, e)" by force
  obtain s' e' where st: "strip_zeros s e = (s', e')" by force
  have "of_int s * 10 powi e = d"
    using shortest_of_rounded [OF d refl a sh] by simp
  then have "of_int s' * 10 powi e' = d"
    using strip_zeros_value [OF st] by simp
  then show ?thesis
    using y0 by (simp add: dec_val_def dec_digits_def sh st)
qed

text \<open>Every amount of fewer than fifteen digits in cents survives the trip through a double.\<close>

lemma dec_val_cents_pos:
  assumes "0 < c" and "c < 10 ^ 15"
  shows "dec_val (rnd_rat (of_int c / 100)) = of_int c / 100"
proof (rule dec_val_of_rounded)
  let ?d = "of_int c / 100 :: rat"
  have c1: "1 / 100 \<le> ?d" using assms(1) by simp
  show d: "1 / 2 ^ 1000 \<le> ?d"
    using c1 by (rule order_trans [rotated]) (simp add: frac_le)
  have d22: "1 / 2 ^ 1022 \<le> ?d"
    using d by (rule order_trans [rotated]) (simp add: frac_le)
  let ?y = "rnd_rat ?d"
  have y0: "0 < ?y" using d22 by (rule rnd_rat_pos)
  have "c \<le> 10 ^ 15 - 1" using assms(2) by simp
  then have "(of_int c :: rat) \<le> of_int (10 ^ 15 - 1)" by (simp only: of_int_le_iff)
  then have dmax: "?d \<le> 10 ^ 13 - 1 / 100" by simp
  have "\<bar>?y - ?d\<bar> \<le> ?d / 2 ^ 53"
    using rnd_rat_rel_error [of ?d] d22 assms(1) by simp
  then have "?y \<le> ?d + ?d / 2 ^ 53" unfolding abs_le_iff by linarith
  also have "\<dots> \<le> (10 ^ 13 - 1 / 100) + (10 ^ 13 - 1 / 100) / 2 ^ 53"
    using dmax by (intro add_mono divide_right_mono) auto
  also have "\<dots> < 10 ^ 13" by simp
  finally have "?y < 10 ^ 13" .
  then have "(10 :: rat) powi ilog 10 ?y < 10 powi 13"
    using ilog_bounds(1) [OF y0, of 10] by simp
  then have "ilog 10 ?y < 13" by (rule powi_less_imp_less) simp
  then have m: "ilog 10 ?y + 1 - 15 = - 2 - int (nat (12 - ilog 10 ?y))" by simp
  show "?d = of_int (c * 10 ^ nat (12 - ilog 10 ?y)) * 10 powi (ilog 10 ?y + 1 - 15)"
    unfolding m by (simp add: power_int_diff power_int_minus del: int_nat_eq)
qed

lemma dec_val_cents:
  assumes "\<bar>c\<bar> < 10 ^ 15"
  shows "dec_val (rnd_rat (of_int c / 100)) = of_int c / 100"
proof (cases c "0 :: int" rule: linorder_cases)
  case less
  then have "dec_val (rnd_rat (of_int (- c) / 100)) = of_int (- c) / 100"
    using assms by (intro dec_val_cents_pos) auto
  then show ?thesis by (simp add: rnd_rat_minus dec_val_minus)
qed (use assms dec_val_cents_pos in auto)

end
