(* ===== verification/Json.thy ===== *)
theory Json
  imports JsNumber "HOL-Library.List_Lexorder" "HOL-Library.Char_ord" "HOL-Library.Multiset"
begin

text \<open>
  JSON values and their deterministic serialisation: \<open>src/src/lib/canonical_json.ts\<close> (the
  keys-only variant) and the \<open>canonicalizeForHash\<close> of
  \<open>src/src/db/repositories/audit_ledger_repository.ts\<close>.

  An object is the list of its properties in the order in which JavaScript enumerates them:
  array-index keys first, ascending, then the others in insertion order. Keys are compared as
  strings by \<open>sort()\<close>. \<open>jsonb_roundtrip\<close> is what a value becomes when it is written to a JSONB
  column as \<open>JSON.stringify\<close> of it and read back.
\<close>

datatype json =
    JUndef
  | JNull
  | JBool bool
  | JNum number
  | JStr string
  | JArr "json list"
  | JObj "(string \<times> json) list"

subsection \<open>Objects\<close>

text \<open>A canonical array index: digits without a leading zero, below \<open>2 ^ 32 - 1\<close>.\<close>

definition is_index_key :: "string \<Rightarrow> bool" where
  "is_index_key k =
     (k \<noteq> [] \<and> list_all is_digit k \<and> (k = ''0'' \<or> hd k \<noteq> CHR ''0'')
      \<and> digits_value k < 4294967295)"

text \<open>The enumeration order of the properties assigned in the given order (distinct keys).\<close>

definition own_order :: "(string \<times> 'a) list \<Rightarrow> (string \<times> 'a) list" where
  "own_order kvs =
     sort_key (\<lambda>p. digits_value (fst p)) (filter (\<lambda>p. is_index_key (fst p)) kvs)
     @ filter (\<lambda>p. \<not> is_index_key (fst p)) kvs"

text \<open>Assigning the properties in the order of their sorted keys.\<close>

definition sorted_object :: "(string \<times> 'a) list \<Rightarrow> (string \<times> 'a) list" where
  "sorted_object kvs = own_order (sort_key fst kvs)"

subsection \<open>canonicalizeKeysOnly, canonicalizeForHash\<close>

primrec canonicalizeKeysOnly :: "json \<Rightarrow> json" where
  "canonicalizeKeysOnly JUndef = JUndef"
| "canonicalizeKeysOnly JNull = JNull"
| "canonicalizeKeysOnly (JBool b) = JBool b"
| "canonicalizeKeysOnly (JNum n) = JNum n"
| "canonicalizeKeysOnly (JStr s) = JStr s"
| "canonicalizeKeysOnly (JArr vs) = JArr (map canonicalizeKeysOnly vs)"
| "canonicalizeKeysOnly (JObj kvs) =
     JObj (sorted_object (filter (\<lambda>p. snd p \<noteq> JUndef)
             (map (map_prod id canonicalizeKeysOnly) kvs)))"

primrec canonicalizeForHash :: "json \<Rightarrow> json" where
  "canonicalizeForHash JUndef = JUndef"
| "canonicalizeForHash JNull = JNull"
| "canonicalizeForHash (JBool b) = JBool b"
| "canonicalizeForHash (JNum n) = JNum n"
| "canonicalizeForHash (JStr s) = JStr s"
| "canonicalizeForHash (JArr vs) = JArr (map canonicalizeForHash vs)"
| "canonicalizeForHash (JObj kvs) =
     JObj (sorted_object (map (map_prod id canonicalizeForHash) kvs))"

subsection \<open>JSON.stringify\<close>

definition hex_digit :: "nat \<Rightarrow> char" where
  "hex_digit d = (if d < 10 then char_of (48 + d) else char_of (87 + d))"

definition quote_char :: "char \<Rightarrow> string" where
  "quote_char c =
     (let n = of_char c :: nat in
      if n = 34 then [CHR 0x5C, c]
      else if n = 92 then [c, c]
      else if n = 8 then [CHR 0x5C, CHR ''b'']
      else if n = 9 then [CHR 0x5C, CHR ''t'']
      else if n = 10 then [CHR 0x5C, CHR ''n'']
      else if n = 12 then [CHR 0x5C, CHR ''f'']
      else if n = 13 then [CHR 0x5C, CHR ''r'']
      else if n < 32 then [CHR 0x5C, CHR ''u'', CHR ''0'', CHR ''0'',
                           hex_digit (n div 16), hex_digit (n mod 16)]
      else [c])"

definition quote :: "string \<Rightarrow> string" where
  "quote s = CHR 0x22 # concat (map quote_char s) @ [CHR 0x22]"

text \<open>\<open>undefined\<close> has no text (\<open>None\<close>): it is \<open>null\<close> in an array and skipped in an object.\<close>

definition members :: "(string \<times> string option) list \<Rightarrow> string list" where
  "members ps = map (\<lambda>p. quote (fst p) @ '':'' @ the (snd p)) (filter (\<lambda>p. snd p \<noteq> None) ps)"

primrec stringify :: "json \<Rightarrow> string option" where
  "stringify JUndef = None"
| "stringify JNull = Some ''null''"
| "stringify (JBool b) = Some (if b then ''true'' else ''false'')"
| "stringify (JNum n) = Some (if is_finite n then num_text n else ''null'')"
| "stringify (JStr s) = Some (quote s)"
| "stringify (JArr vs) =
     Some (''['' @ js_join '','' (map (\<lambda>t. case t of None \<Rightarrow> ''null'' | Some t \<Rightarrow> t)
                                  (map stringify vs)) @ '']'')"
| "stringify (JObj kvs) = Some (''{'' @ js_join '','' (members (map (map_prod id stringify) kvs)) @ ''}'')"

definition canonicalStringifyKeysOnly :: "json \<Rightarrow> string option" where
  "canonicalStringifyKeysOnly v = stringify (canonicalizeKeysOnly v)"

text \<open>PostgreSQL orders the keys of a JSONB object by length, then bytewise.\<close>

definition jsonb_order :: "(string \<times> 'a) list \<Rightarrow> (string \<times> 'a) list" where
  "jsonb_order kvs = sort_key (\<lambda>p. length (fst p)) (sort_key fst kvs)"

primrec jsonb_roundtrip :: "json \<Rightarrow> json" where
  "jsonb_roundtrip JUndef = JUndef"
| "jsonb_roundtrip JNull = JNull"
| "jsonb_roundtrip (JBool b) = JBool b"
| "jsonb_roundtrip (JNum n) = (if is_finite n then JNum n else JNull)"
| "jsonb_roundtrip (JStr s) = JStr s"
| "jsonb_roundtrip (JArr vs) =
     JArr (map (\<lambda>v. if v = JUndef then JNull else v) (map jsonb_roundtrip vs))"
| "jsonb_roundtrip (JObj kvs) =
     JObj (own_order (jsonb_order
             (filter (\<lambda>p. snd p \<noteq> JUndef) (map (map_prod id jsonb_roundtrip) kvs))))"

text \<open>The keys of every object are distinct, as in every JavaScript object.\<close>

primrec wf_json :: "json \<Rightarrow> bool" where
  "wf_json JUndef = True"
| "wf_json JNull = True"
| "wf_json (JBool b) = True"
| "wf_json (JNum n) = True"
| "wf_json (JStr s) = True"
| "wf_json (JArr vs) = list_all (\<lambda>b. b) (map wf_json vs)"
| "wf_json (JObj kvs) =
     (distinct (map fst kvs) \<and> list_all snd (map (map_prod id wf_json) kvs))"

subsection \<open>Sorting by distinct keys\<close>

lemma filter_key_singleton:
  assumes "distinct (map f xs)" and "x \<in> set xs"
  shows "filter (\<lambda>y. f x = f y) xs = [x]"
  using assms
proof (induction xs)
  case Nil
  then show ?case by simp
next
  case (Cons a xs)
  show ?case
  proof (cases "a = x")
    case True
    with Cons.prems(1) have "\<forall>y\<in>set xs. f x \<noteq> f y" by auto
    then have "filter (\<lambda>y. f x = f y) xs = []" by (simp add: filter_empty_conv)
    with True show ?thesis by simp
  next
    case False
    with Cons have "x \<in> set xs" and "f a \<noteq> f x" by (auto simp: rev_image_eqI)
    with Cons show ?thesis by auto
  qed
qed

lemma sort_key_perm:
  assumes "mset xs = mset ys" and "distinct (map f xs)"
  shows "sort_key f xs = sort_key f ys"
proof (rule properties_for_sort_key [symmetric, THEN sym])
  show "mset (sort_key f ys) = mset xs" using assms(1) by simp
  show "sorted (map f (sort_key f ys))" by simp
  fix k
  assume k: "k \<in> set (sort_key f ys)"
  have dys: "distinct (map f ys)"
    using assms by (metis mset_eq_imp_distinct_iff mset_map)
  have "distinct (map f (sort_key f ys))"
    using dys by (metis mset_eq_imp_distinct_iff mset_map mset_sort)
  moreover have "k \<in> set xs" using k assms(1) by (metis mset_eq_setD set_sort)
  ultimately show "filter (\<lambda>x. f k = f x) (sort_key f ys) = filter (\<lambda>x. f k = f x) xs"
    using filter_key_singleton assms(2) k by metis
qed

lemma mset_own_order [simp]: "mset (own_order kvs) = mset kvs"
  by (simp add: own_order_def)

lemma mset_sorted_object [simp]: "mset (sorted_object kvs) = mset kvs"
  by (simp add: sorted_object_def)

lemma mset_jsonb_order [simp]: "mset (jsonb_order kvs) = mset kvs"
  by (simp add: jsonb_order_def)

lemma set_object_orders [simp]:
  "set (own_order kvs) = set kvs" "set (sorted_object kvs) = set kvs"
  "set (jsonb_order kvs) = set kvs"
  using mset_own_order [of kvs] mset_sorted_object [of kvs] mset_jsonb_order [of kvs]
  by (metis set_mset_mset)+

lemma sorted_object_perm:
  "mset xs = mset ys \<Longrightarrow> distinct (map fst xs) \<Longrightarrow> sorted_object xs = sorted_object ys"
  unfolding sorted_object_def using sort_key_perm [of xs ys fst] by simp

lemma insort_key_map: "insort_key f (h x) (map h ys) = map h (insort_key (f \<circ> h) x ys)"
  by (induction ys) auto

lemma sort_key_map: "sort_key f (map h kvs) = map h (sort_key (f \<circ> h) kvs)"
  by (induction kvs) (simp_all add: insort_key_map comp_def)

lemma key_of_map_prod:
  "(\<lambda>p. g (fst p)) \<circ> map_prod id h = (\<lambda>p. g (fst p))" "fst \<circ> map_prod id h = fst"
  by (auto simp: fun_eq_iff)

lemma own_order_map: "own_order (map (map_prod id h) kvs) = map (map_prod id h) (own_order kvs)"
  by (simp add: own_order_def filter_map sort_key_map key_of_map_prod
      key_of_map_prod(1) [where g = is_index_key]
      key_of_map_prod(1) [where g = "\<lambda>k. \<not> is_index_key k"])

lemma sorted_object_map:
  "sorted_object (map (map_prod id h) kvs) = map (map_prod id h) (sorted_object kvs)"
  by (simp add: sorted_object_def sort_key_map key_of_map_prod own_order_map)

lemma own_order_filter: "own_order (filter P kvs) = filter P (own_order kvs)"
  by (simp add: own_order_def filter_sort conj_commute)

lemma sorted_object_filter: "sorted_object (filter P kvs) = filter P (sorted_object kvs)"
  by (simp add: sorted_object_def filter_sort own_order_filter [symmetric])

subsection \<open>The canonical text\<close>

text \<open>The text that is hashed for a value, and the properties of an object that have a text.\<close>

definition hash_text :: "json \<Rightarrow> string option" where
  "hash_text v = stringify (canonicalizeForHash v)"

definition present :: "(string \<times> 'a option) list \<Rightarrow> (string \<times> 'a option) list" where
  "present ps = filter (\<lambda>p. snd p \<noteq> None) ps"

lemma hash_text_simps [simp]:
  "hash_text JUndef = None"
  "hash_text JNull = Some ''null''"
  "hash_text (JBool b) = Some (if b then ''true'' else ''false'')"
  "hash_text (JNum n) = Some (if is_finite n then num_text n else ''null'')"
  "hash_text (JStr s) = Some (quote s)"
  by (simp_all add: hash_text_def)

lemma hash_text_arr:
  "hash_text (JArr vs) =
     Some (''['' @ js_join '','' (map (\<lambda>v. case hash_text v of None \<Rightarrow> ''null'' | Some t \<Rightarrow> t) vs)
           @ '']'')"
  by (simp add: hash_text_def comp_def)

lemma members_present: "members ps = members (present ps)"
  by (simp add: members_def present_def)

lemma hash_text_obj:
  "hash_text (JObj kvs) =
     Some (''{'' @ js_join '',''
       (members (sorted_object (present (map (map_prod id hash_text) kvs)))) @ ''}'')"
proof -
  have e: "map_prod id stringify \<circ> map_prod id canonicalizeForHash = map_prod id hash_text"
    by (auto simp: fun_eq_iff hash_text_def)
  have "map (map_prod id stringify) (sorted_object (map (map_prod id canonicalizeForHash) kvs))
      = sorted_object (map (map_prod id hash_text) kvs)"
    by (simp only: sorted_object_map [symmetric] map_map e)
  then show ?thesis
    by (simp add: hash_text_def members_present [of "sorted_object _"] present_def
        sorted_object_filter del: filter_filter)
qed

lemma hash_text_None_iff [simp]: "hash_text v = None \<longleftrightarrow> v = JUndef"
  by (cases v) (simp_all add: hash_text_arr hash_text_obj)

lemma jsonb_roundtrip_Undef_iff [simp]: "jsonb_roundtrip v = JUndef \<longleftrightarrow> v = JUndef"
  by (cases v) simp_all

lemma distinct_present: "distinct (map fst ps) \<Longrightarrow> distinct (map fst (present ps))"
  by (induction ps) (auto simp: present_def)

lemma distinct_fst_map_prod [simp]: "map fst (map (map_prod id h) kvs) = map fst kvs"
  by simp

text \<open>Two objects whose present properties have the same texts, in whatever order, hash alike.\<close>

lemma hash_text_obj_perm:
  assumes "mset (present (map (map_prod id hash_text) kvs))
    = mset (present (map (map_prod id hash_text) kvs'))"
    and "distinct (map fst kvs)"
  shows "hash_text (JObj kvs) = hash_text (JObj kvs')"
proof -
  have "distinct (map fst (present (map (map_prod id hash_text) kvs)))"
    using assms(2) by (intro distinct_present) simp
  from sorted_object_perm [OF assms(1) this] show ?thesis by (simp add: hash_text_obj)
qed

text \<open>
  Writing a value to a JSONB column and reading it back does not change its canonical text: the
  hash that \<open>verifyChain\<close> recomputes from the stored payload is the hash \<open>appendEntry\<close> computed
  from the payload it was given.
\<close>

lemma hash_text_jsonb_roundtrip: "wf_json v \<Longrightarrow> hash_text (jsonb_roundtrip v) = hash_text v"
proof (induction v)
  case (JArr vs)
  then show ?case
    by (auto simp: hash_text_arr list_all_iff comp_def intro!: arg_cong [where f = "js_join '',''"])
next
  case (JObj kvs)
  have eq: "hash_text (jsonb_roundtrip (snd p)) = hash_text (snd p)" if "p \<in> set kvs" for p
    using JObj that by (cases p) (fastforce simp: list_all_iff)
  let ?rt = "filter (\<lambda>p. snd p \<noteq> JUndef) (map (map_prod id jsonb_roundtrip) kvs)"
  have "present (map (map_prod id hash_text) ?rt) = present (map (map_prod id hash_text) kvs)"
    unfolding present_def using eq
    by (simp add: filter_map comp_def) (auto intro!: map_cong filter_cong)
  moreover have "mset (present (map (map_prod id hash_text) (own_order (jsonb_order ?rt))))
      = mset (present (map (map_prod id hash_text) ?rt))"
    by (simp add: present_def)
  ultimately have "hash_text (JObj kvs) = hash_text (JObj (own_order (jsonb_order ?rt)))"
    using JObj.prems by (intro hash_text_obj_perm) (simp_all del: mset_filter mset_map)
  then show ?case by simp
qed simp_all

end
