(* ===== verification/JsonText.thy ===== *)
theory JsonText
  imports Json
begin

text \<open>
  The text of a JSON value can be read back: no text of a value is a proper prefix of another one
  where a comma or a closing bracket follows. This is what makes a hash of the text a hash of the
  value, and of each of its members.
\<close>

definition punct :: "char \<Rightarrow> bool" where
  "punct c = (c \<in> set '',:[]{}'' \<or> c = CHR 0x22)"

definition delim :: "string \<Rightarrow> bool" where
  "delim r = (r = [] \<or> hd r \<in> set '',]}'')"

text \<open>A token: a number, \<open>true\<close>, \<open>false\<close> or \<open>null\<close>.\<close>

definition atom :: "string \<Rightarrow> bool" where
  "atom t = (t \<noteq> [] \<and> list_all (\<lambda>c. \<not> punct c) t)"

subsection \<open>The texts of numbers are tokens\<close>

lemma digit_not_punct: "is_digit c \<Longrightarrow> \<not> punct c"
  by (auto simp: punct_def is_digit_def Let_def)

lemma digit_char_digit: "d < 10 \<Longrightarrow> is_digit (digit_char d)"
  by (simp add: is_digit_def digit_char_def)

lemma int_string_digits: "list_all is_digit (int_string n)"
proof (induction n rule: int_string.induct)
  case (1 n)
  then show ?case by (subst int_string.simps) (auto intro!: digit_char_digit)
qed

lemma int_string_not_Nil [simp]: "int_string n \<noteq> []"
  by (subst int_string.simps) simp

lemma exp_text_not_punct: "c \<in> set (exp_text m) \<Longrightarrow> \<not> punct c"
  by (auto simp: exp_text_def punct_def is_digit_def Let_def dest!: nat_string_digits split: if_splits)

lemma plain_not_punct [simp]:
  "\<not> punct (CHR ''0'')" "\<not> punct (CHR ''.'')" "\<not> punct (CHR ''e'')" "\<not> punct (CHR ''-'')"
  by (simp_all add: punct_def)

lemma layout_atom:
  assumes "list_all is_digit ds" and "ds \<noteq> []"
  shows "atom (layout ds n)"
proof -
  have d: "\<not> punct c" if "c \<in> set ds" for c
    using assms(1) that by (auto simp: list_all_iff digit_not_punct)
  have "\<not> punct c" if "c \<in> set (layout ds n)" for c
    using that
    by (auto simp: layout_def Let_def d exp_text_not_punct dest: in_set_takeD in_set_dropD
        split: if_splits)
  moreover have "layout ds n \<noteq> []" using assms(2) by (simp add: layout_def Let_def)
  ultimately show ?thesis by (auto simp: atom_def list_all_iff)
qed

lemma num_text_atom: "is_finite n \<Longrightarrow> atom (num_text n)"
proof (cases n)
  case (Fin x)
  have "atom (pos_text y)" for y
    using layout_atom [OF int_string_digits] by (simp add: pos_text_def Let_def split: prod.splits)
  with Fin show ?thesis by (auto simp: atom_def punct_def)
qed simp_all

subsection \<open>Quoted strings\<close>

definition hex_value :: "char \<Rightarrow> nat" where
  "hex_value c = (let n = of_char c in if n < 58 then n - 48 else n - 87)"

definition unescape :: "char \<Rightarrow> char" where
  "unescape e =
     (if e = CHR ''b'' then CHR 0x08 else if e = CHR ''t'' then CHR 0x09
      else if e = CHR ''n'' then CHR 0x0A else if e = CHR ''f'' then CHR 0x0C
      else if e = CHR ''r'' then CHR 0x0D else e)"

text \<open>The first character of a quoted text and what follows it.\<close>

definition unquote :: "string \<Rightarrow> char \<times> string" where
  "unquote s =
     (if s ! 0 \<noteq> CHR 0x5C then (s ! 0, drop 1 s)
      else if s ! 1 \<noteq> CHR ''u'' then (unescape (s ! 1), drop 2 s)
      else (char_of (16 * hex_value (s ! 4) + hex_value (s ! 5)), drop 6 s))"

lemma hex_value_digit: "d < 16 \<Longrightarrow> hex_value (hex_digit d) = d"
  by (simp add: hex_value_def hex_digit_def Let_def)

lemma unquote_quote_char: "unquote (quote_char c @ x) = (c, x)"
proof (cases "of_char c \<in> {34, 92, 8, 9, 10, 12, 13 :: nat}")
  case True
  then have "c \<in> char_of ` {34, 92, 8, 9, 10, 12, 13 :: nat}"
    by (metis char_of_char image_eqI)
  then have "c \<in> {CHR 0x22, CHR 0x5C, CHR 0x08, CHR 0x09, CHR 0x0A, CHR 0x0C, CHR 0x0D}"
    by (simp add: char_of_def bit_simps)
  then show ?thesis by (auto simp: quote_char_def unquote_def unescape_def)
next
  case False
  let ?n = "of_char c :: nat"
  have h: "hex_value (hex_digit (?n div 16)) = ?n div 16"
      "hex_value (hex_digit (?n mod 16)) = ?n mod 16" if "?n < 32"
    using that by (simp_all add: hex_value_digit)
  have ne: "c \<noteq> CHR 0x5C" using False by auto
  show ?thesis
  proof (cases "?n < 32")
    case True
    with False show ?thesis by (simp add: quote_char_def Let_def unquote_def h)
  next
    case False
    with \<open>of_char c \<notin> _\<close> ne show ?thesis by (simp add: quote_char_def Let_def unquote_def)
  qed
qed

lemma quote_char_code:
  assumes "quote_char c @ x = quote_char d @ y"
  shows "c = d \<and> x = y"
  using arg_cong [where f = unquote, OF assms] by (simp add: unquote_quote_char)

lemma quote_char_hd: "quote_char c \<noteq> [] \<and> hd (quote_char c) \<noteq> CHR 0x22"
  by (auto simp: quote_char_def Let_def)

lemma quoted_code:
  "concat (map quote_char s) @ CHR 0x22 # x
     = concat (map quote_char s') @ CHR 0x22 # y \<Longrightarrow> s = s' \<and> x = y"
proof (induction s arbitrary: s')
  case Nil
  show ?case
  proof (cases s')
    case Nil
    with Nil.prems show ?thesis by simp
  next
    case (Cons c t)
    with Nil.prems show ?thesis using quote_char_hd [of c] by (cases "quote_char c") auto
  qed
next
  case (Cons c s)
  show ?case
  proof (cases s')
    case Nil
    with Cons.prems show ?thesis using quote_char_hd [of c] by (cases "quote_char c") auto
  next
    case (Cons d t)
    with Cons.prems have "c = d \<and> concat (map quote_char s) @ CHR 0x22 # x
        = concat (map quote_char t) @ CHR 0x22 # y"
      using quote_char_code by simp
    with Cons Cons.IH show ?thesis by blast
  qed
qed

lemma quote_code: "quote s @ x = quote s' @ y \<Longrightarrow> s = s' \<and> x = y"
  using quoted_code [of s x s' y] by (simp add: quote_def)

lemma quote_inj [simp]: "quote s = quote s' \<longleftrightarrow> s = s'"
  using quote_code [of s "[]" s' "[]"] by auto

subsection \<open>Reading a text back\<close>

text \<open>\<open>t\<close> and \<open>t'\<close> end at the same place wherever both are followed by a delimiter.\<close>

definition same_end :: "string \<Rightarrow> string \<Rightarrow> bool" where
  "same_end t t' = (\<forall>r r'. t @ r = t' @ r' \<longrightarrow> delim r \<longrightarrow> delim r' \<longrightarrow> t = t' \<and> r = r')"

lemma same_endD: "same_end t t' \<Longrightarrow> t @ r = t' @ r' \<Longrightarrow> delim r \<Longrightarrow> delim r' \<Longrightarrow> t = t' \<and> r = r'"
  by (auto simp: same_end_def)

lemma takeWhile_atom: "atom t \<Longrightarrow> delim r \<Longrightarrow> takeWhile (\<lambda>c. \<not> punct c) (t @ r) = t"
  by (cases r) (auto simp: atom_def delim_def punct_def list_all_iff takeWhile_append2)

lemma same_end_atom: "atom t \<Longrightarrow> atom t' \<Longrightarrow> same_end t t'"
  unfolding same_end_def by (metis takeWhile_atom same_append_eq)

lemma same_end_quote: "same_end (quote s) (quote s')"
  unfolding same_end_def using quote_code by metis

text \<open>The kinds of texts are told apart by their first character.\<close>

definition kind :: "char \<Rightarrow> nat" where
  "kind c = (if c = CHR 0x22 then 1 else if c = CHR ''['' then 2 else if c = CHR ''{'' then 3
     else if punct c then 4 else 0)"

lemma same_end_kind:
  assumes "t \<noteq> []" and "t' \<noteq> []" and "kind (hd t) \<noteq> kind (hd t')"
  shows "same_end t t'"
  using assms unfolding same_end_def by (metis hd_append2)

lemma delim_simps [simp]:
  "delim []" "delim (CHR '','' # r)" "delim (CHR '']'' # r)" "delim (CHR ''}'' # r)"
  by (simp_all add: delim_def)

text \<open>A closing bracket ends a list of texts, none of which begins with one.\<close>

lemma join_code:
  assumes "\<And>t t'. t \<in> set ts \<Longrightarrow> t' \<in> set ts' \<Longrightarrow> same_end t t'"
    and "\<And>t. t \<in> set ts \<union> set ts' \<Longrightarrow> t \<noteq> [] \<and> hd t \<notin> set '']},''"
    and "c = CHR '']'' \<or> c = CHR ''}''"
    and "js_join '','' ts @ c # r = js_join '','' ts' @ c # r'"
  shows "ts = ts' \<and> r = r'"
  using assms
proof (induction "'',''" ts arbitrary: ts' rule: js_join.induct)
  case 1
  show ?case
  proof (cases ts')
    case Nil
    with 1 show ?thesis by simp
  next
    case (Cons y ys)
    with "1.prems"(2) have "y \<noteq> []" "hd y \<notin> set '']},''" by auto
    with Cons "1.prems"(3,4) show ?thesis by (cases ys; cases y) auto
  qed
next
  case (2 x)
  then have x: "x \<noteq> []" "hd x \<notin> set '']},''" by auto
  have e: "x @ c # r = js_join '','' ts' @ c # r'" using 2 by simp
  show ?case
  proof (cases "('','', ts')" rule: js_join.cases)
    case (1 sep)
    with e x 2(3) show ?thesis by (cases x) auto
  next
    case (2 sep y)
    with e show ?thesis using same_endD [of x y "c # r" "c # r'"] "2.prems"(1,3) by auto
  next
    case (3 sep y z zs)
    with e have "x = y \<and> c # r = CHR '','' # js_join '','' (z # zs) @ c # r'"
      using "2.prems"(1,3) by (intro same_endD) auto
    with "2.prems"(3) show ?thesis by auto
  qed
next
  case (3 x y xs)
  then have x: "x \<noteq> []" "hd x \<notin> set '']},''" by auto
  have e: "x @ CHR '','' # js_join '','' (y # xs) @ c # r = js_join '','' ts' @ c # r'"
    using 3 by simp
  show ?case
  proof (cases "('','', ts')" rule: js_join.cases)
    case (1 sep)
    with e x 3(4) show ?thesis by (cases x) auto
  next
    case (2 sep z)
    with e have "x = z \<and> CHR '','' # js_join '','' (y # xs) @ c # r = c # r'"
      using "3.prems"(1,3) by (intro same_endD) auto
    with "3.prems"(3) show ?thesis by auto
  next
    case (3 sep z w ws)
    with e have eq: "x = z \<and> CHR '','' # js_join '','' (y # xs) @ c # r
        = CHR '','' # js_join '','' (w # ws) @ c # r'"
      using "3.prems"(1) by (intro same_endD) auto
    have "y # xs = w # ws \<and> r = r'"
      using "3.prems"(1,2,3) eq 3 by (intro "3.hyps") auto
    with eq 3 show ?thesis by simp
  qed
qed

lemma bracket_code:
  assumes "\<And>t t'. t \<in> set ts \<Longrightarrow> t' \<in> set ts' \<Longrightarrow> same_end t t'"
    and "\<And>t. t \<in> set ts \<union> set ts' \<Longrightarrow> t \<noteq> [] \<and> hd t \<notin> set '']},''"
    and "c = CHR '']'' \<or> c = CHR ''}''"
  shows "same_end (b # js_join '','' ts @ [c]) (b # js_join '','' ts' @ [c])"
  unfolding same_end_def using join_code [OF assms] by auto

subsection \<open>The text of a value\<close>

definition json_kind :: "json \<Rightarrow> nat" where
  "json_kind v = (case v of JStr _ \<Rightarrow> 1 | JArr _ \<Rightarrow> 2 | JObj _ \<Rightarrow> 3 | _ \<Rightarrow> 0)"

lemma stringify_atom: "stringify v = Some t \<Longrightarrow> json_kind v = 0 \<Longrightarrow> atom t"
  by (cases v) (auto simp: json_kind_def num_text_atom split: if_splits, auto simp: atom_def punct_def)

lemma stringify_kind: "stringify v = Some t \<Longrightarrow> t \<noteq> [] \<and> kind (hd t) = json_kind v"
proof (cases "json_kind v = 0")
  case True
  assume "stringify v = Some t"
  with True have "atom t" by (rule stringify_atom [rotated])
  with True show ?thesis by (cases t) (auto simp: atom_def kind_def punct_def)
next
  case False
  assume "stringify v = Some t"
  with False show ?thesis by (cases v) (auto simp: json_kind_def kind_def quote_def)
qed

lemma other_kind:
  "stringify v = Some t \<Longrightarrow> stringify w = Some u \<Longrightarrow> json_kind v \<noteq> json_kind w \<Longrightarrow> same_end t u"
  using stringify_kind [of v t] stringify_kind [of w u] by (auto intro: same_end_kind)

lemma atom_kind:
  "stringify v = Some t \<Longrightarrow> stringify w = Some u \<Longrightarrow> json_kind v = 0 \<Longrightarrow> same_end t u"
  using other_kind [of v t w u] stringify_atom [of v t] stringify_atom [of w u] same_end_atom [of t u]
  by (cases "json_kind w = 0") auto

lemma kind_close: "kind c \<noteq> 4 \<Longrightarrow> c \<notin> set '']},''"
  by (auto simp: kind_def punct_def split: if_splits)

text \<open>The texts of the elements of an array, where \<open>undefined\<close> is \<open>null\<close>.\<close>

definition elem_text :: "json \<Rightarrow> string" where
  "elem_text v = (case stringify v of None \<Rightarrow> ''null'' | Some t \<Rightarrow> t)"

lemma elem_text_abs: "elem_text = (\<lambda>v. case stringify v of None \<Rightarrow> ''null'' | Some t \<Rightarrow> t)"
  by (simp add: fun_eq_iff elem_text_def)

lemma elem_text_stringify: "stringify (if v = JUndef then JNull else v) = Some (elem_text v)"
  by (cases v) (simp_all add: elem_text_def)

lemma stringify_arr: "stringify (JArr vs) = Some (''['' @ js_join '','' (map elem_text vs) @ '']'')"
  by (simp add: elem_text_abs comp_def)

lemma stringify_None_iff: "stringify v = None \<longleftrightarrow> v = JUndef"
  by (cases v) simp_all

lemma members_Cons:
  "members ((k, t) # ps) = (case t of None \<Rightarrow> members ps | Some t \<Rightarrow> (quote k @ '':'' @ t) # members ps)"
  by (simp add: members_def split: option.splits)

lemma members_map:
  "members (map (map_prod id stringify) kvs)
     = map (\<lambda>(k, v). quote k @ '':'' @ elem_text v) (filter (\<lambda>p. snd p \<noteq> JUndef) kvs)"
proof (induction kvs)
  case (Cons p kvs)
  show ?case
  proof (cases p)
    case (Pair k v)
    with Cons.IH show ?thesis
      by (cases "stringify v") (simp_all add: members_Cons elem_text_def stringify_None_iff [symmetric])
  qed
qed (simp add: members_def)

lemma stringify_obj:
  "stringify (JObj kvs) = Some (''{'' @ js_join '',''
     (map (\<lambda>(k, v). quote k @ '':'' @ elem_text v) (filter (\<lambda>p. snd p \<noteq> JUndef) kvs)) @ ''}'')"
  by (simp add: members_map)

lemma elem_text_start: "elem_text v \<noteq> [] \<and> hd (elem_text v) \<notin> set '']},''"
proof -
  have "kind (hd (elem_text v)) \<noteq> 4"
    using stringify_kind [OF elem_text_stringify [of v]] by (auto simp: json_kind_def split: json.splits)
  then show ?thesis using stringify_kind [OF elem_text_stringify [of v]] kind_close by blast
qed

lemma quote_start: "quote k @ x \<noteq> [] \<and> hd (quote k @ x) \<notin> set '']},''"
  by (simp add: quote_def)

lemma elem_text_code:
  assumes "\<And>t w u. stringify v = Some t \<Longrightarrow> stringify w = Some u \<Longrightarrow> same_end t u"
  shows "same_end (elem_text v) (elem_text w)"
proof (cases "v = JUndef")
  case True
  let ?w = "if w = JUndef then JNull else w"
  have v: "atom (elem_text v)" using True by (simp add: elem_text_def atom_def punct_def)
  show ?thesis
  proof (cases "json_kind ?w = 0")
    case True
    then have "atom (elem_text w)" using elem_text_stringify stringify_atom by blast
    with v show ?thesis by (rule same_end_atom)
  next
    case False
    with True show ?thesis
      using stringify_kind [OF elem_text_stringify [of v]] stringify_kind [OF elem_text_stringify [of w]]
      by (intro same_end_kind) (auto simp: json_kind_def)
  qed
next
  case False
  with assms show ?thesis using elem_text_stringify [of v] elem_text_stringify [of w] by simp
qed

lemma member_code:
  assumes "same_end (elem_text v) (elem_text w)"
  shows "same_end (quote k @ '':'' @ elem_text v) (quote l @ '':'' @ elem_text w)"
  using assms unfolding same_end_def by (auto dest!: quote_code)

text \<open>Two values with texts that start at the same place have the same text.\<close>

lemma stringify_code: "stringify v = Some t \<Longrightarrow> stringify w = Some u \<Longrightarrow> same_end t u"
proof (induction v arbitrary: t w u)
  case (JArr vs)
  show ?case
  proof (cases w)
    case (JArr ws)
    have sub: "same_end a b" if "a \<in> set (map elem_text vs)" "b \<in> set (map elem_text ws)" for a b
      using that JArr.IH by (auto intro!: elem_text_code)
    have start: "t \<noteq> [] \<and> hd t \<notin> set '']},''"
      if "t \<in> set (map elem_text vs) \<union> set (map elem_text ws)" for t
      using that elem_text_start by force
    have "same_end (''['' @ js_join '','' (map elem_text vs) @ '']'')
        (''['' @ js_join '','' (map elem_text ws) @ '']'')"
      using bracket_code [of "map elem_text vs" "map elem_text ws" "CHR '']''" "CHR ''[''", OF sub start]
      by simp
    with JArr JArr.prems show ?thesis by (simp add: stringify_arr del: stringify.simps)
  qed (use JArr.prems in \<open>auto intro: other_kind simp: json_kind_def simp del: stringify.simps\<close>)
next
  case (JObj kvs)
  show ?case
  proof (cases w)
    case (JObj lws)
    let ?m = "\<lambda>kvs. map (\<lambda>(k, v). quote k @ '':'' @ elem_text v) (filter (\<lambda>p. snd p \<noteq> JUndef) kvs)"
    have elem: "same_end (elem_text v) (elem_text w)" if "(k, v) \<in> set kvs" for k v w
      using JObj.IH [OF that] by (intro elem_text_code) auto
    have sub: "same_end a b" if "a \<in> set (?m kvs)" "b \<in> set (?m lws)" for a b
      using that elem member_code by (auto simp del: append.simps)
    have start: "t \<noteq> [] \<and> hd t \<notin> set '']},''" if "t \<in> set (?m kvs) \<union> set (?m lws)" for t
      using that quote_start by (auto simp del: append.simps)
    have "same_end (''{'' @ js_join '','' (?m kvs) @ ''}'') (''{'' @ js_join '','' (?m lws) @ ''}'')"
      using bracket_code [of "?m kvs" "?m lws" "CHR ''}''" "CHR ''{''", OF sub start] by simp
    with JObj JObj.prems show ?thesis by (simp add: stringify_obj del: stringify.simps)
  qed (use JObj.prems in \<open>auto intro: other_kind simp: json_kind_def simp del: stringify.simps\<close>)
next
  case (JStr s)
  show ?case
  proof (cases "json_kind w = 1")
    case True
    with JStr show ?thesis by (cases w) (auto simp: json_kind_def same_end_quote)
  next
    case False
    with JStr.prems show ?thesis
      by (intro other_kind [of "JStr s" t w u]) (simp_all add: json_kind_def)
  qed
qed (auto intro: atom_kind other_kind simp: json_kind_def simp del: stringify.simps)

text \<open>The text of an object determines its keys and the texts of its members, in their order.\<close>

lemma stringify_obj_members:
  assumes "stringify (JObj kvs) = stringify (JObj lws)"
  shows "map (map_prod id elem_text) (filter (\<lambda>p. snd p \<noteq> JUndef) kvs)
    = map (map_prod id elem_text) (filter (\<lambda>p. snd p \<noteq> JUndef) lws)"
proof -
  let ?m = "\<lambda>kvs. map (\<lambda>(k, v). quote k @ '':'' @ elem_text v) (filter (\<lambda>p. snd p \<noteq> JUndef) kvs)"
  let ?f = "\<lambda>kvs. map (map_prod id elem_text) (filter (\<lambda>p. snd p \<noteq> JUndef) kvs)"
  have sub: "same_end a b" if "a \<in> set (?m kvs)" "b \<in> set (?m lws)" for a b
    using that stringify_code by (auto intro!: member_code elem_text_code simp del: append.simps)
  have start: "t \<noteq> [] \<and> hd t \<notin> set '']},''" if "t \<in> set (?m kvs) \<union> set (?m lws)" for t
    using that quote_start by (auto simp del: append.simps)
  have "js_join '','' (?m kvs) @ CHR ''}'' # [] = js_join '','' (?m lws) @ CHR ''}'' # []"
    using assms by (simp add: stringify_obj del: stringify.simps)
  with join_code [OF sub start] have m: "?m kvs = ?m lws" by blast
  have f: "map (\<lambda>(k, t). quote k @ '':'' @ t) (?f xs) = ?m xs" for xs
    by (simp add: comp_def case_prod_unfold)
  have "map (\<lambda>(k, t). quote k @ '':'' @ t) (?f kvs) = map (\<lambda>(k, t). quote k @ '':'' @ t) (?f lws)"
    using m unfolding f .
  moreover have "inj (\<lambda>(k, t). quote k @ '':'' @ t)"
    by (auto simp: inj_def dest!: quote_code)
  ultimately show ?thesis by (metis inj_map_eq_map)
qed

lemma elem_text_simps [simp]:
  "elem_text JNull = ''null''" "elem_text (JStr s) = quote s"
  by (simp_all add: elem_text_def)

lemma quote_not_null [simp]: "quote s \<noteq> ''null''" "''null'' \<noteq> quote s"
  by (simp_all add: quote_def)

end
