(* ===== verification/Period.thy ===== *)
theory Period
  imports Prelude
begin

text \<open>
  \<open>src/src/utils/period.ts\<close>: period labels \<open>YYYY-MM\<close>, the first and last day of a month, the
  prior month. A date constructed from a year below 100 is in the twentieth century, as
  \<open>new Date(y, m, d)\<close> has it.
\<close>

subsection \<open>Definitions\<close>

text \<open>The expression \<open>/^(\d{4})-(\d{2})$/\<close>, with its two groups.\<close>

fun match_label :: "string \<Rightarrow> (string \<times> string) option" where
  "match_label [a, b, c, d, h, e, f] =
     (if is_digit a \<and> is_digit b \<and> is_digit c \<and> is_digit d \<and> h = CHR ''-''
         \<and> is_digit e \<and> is_digit f
      then Some ([a, b, c, d], [e, f]) else None)"
| "match_label _ = None"

definition toPeriodLabel :: "string option \<Rightarrow> string option" where
  "toPeriodLabel input =
     (let s = js_trim (case input of None \<Rightarrow> [] | Some s \<Rightarrow> s) in
      if length s = 0 then None
      else if match_label s \<noteq> None then Some s
      else if 7 \<le> length s \<and> match_label (take 7 s) \<noteq> None then Some (take 7 s)
      else None)"

definition toPeriodStart :: "string \<Rightarrow> string option" where
  "toPeriodStart periodLabel =
     (case match_label (js_trim periodLabel) of
        None \<Rightarrow> None
      | Some (y, m) \<Rightarrow> Some (y @ ''-'' @ m @ ''-01''))"

definition leap :: "nat \<Rightarrow> bool" where
  "leap y = (y mod 4 = 0 \<and> (y mod 100 \<noteq> 0 \<or> y mod 400 = 0))"

text \<open>\<open>new Date(year, month, 0).getDate()\<close> for a month from 1 to 12.\<close>

definition last_day :: "nat \<Rightarrow> nat \<Rightarrow> nat" where
  "last_day year month =
     (let y = (if year \<le> 99 then 1900 + year else year) in
      if month = 2 then (if leap y then 29 else 28)
      else if month \<in> {4, 6, 9, 11} then 30 else 31)"

definition toPeriodEnd :: "string \<Rightarrow> string option" where
  "toPeriodEnd periodLabel =
     (case match_label (js_trim periodLabel) of
        None \<Rightarrow> None
      | Some (y, m) \<Rightarrow>
          (let year = digits_value y; month = digits_value m in
           if month < 1 \<or> 12 < month then None
           else Some (y @ ''-'' @ m @ ''-'' @ pad_zero 2 (nat_string (last_day year month)))))"

definition toPeriodBounds :: "string \<Rightarrow> (string \<times> string) option" where
  "toPeriodBounds periodLabel =
     (case (toPeriodStart periodLabel, toPeriodEnd periodLabel) of
        (Some start, Some end') \<Rightarrow>
          (if start = [] \<or> end' = [] then None else Some (start, end'))
      | _ \<Rightarrow> None)"

definition int_text :: "int \<Rightarrow> string" where
  "int_text i = (if i < 0 then ''-'' @ nat_string (nat (- i)) else nat_string (nat i))"

definition priorPeriodLabel :: "string \<Rightarrow> string option" where
  "priorPeriodLabel periodLabel =
     (case match_label (js_trim periodLabel) of
        None \<Rightarrow> None
      | Some (y, m) \<Rightarrow>
          (let year = int (digits_value y); month = int (digits_value m) - 1;
               (year', month') = (if month < 1 then (year - 1, 12) else (year, month))
           in Some (int_text year' @ ''-'' @ pad_zero 2 (int_text month'))))"

definition isDateInPeriod :: "string \<Rightarrow> string \<Rightarrow> bool" where
  "isDateInPeriod dateStr periodLabel = (toPeriodLabel (Some dateStr) = Some periodLabel)"

text \<open>The label of a month.\<close>

definition label_of :: "nat \<Rightarrow> nat \<Rightarrow> string" where
  "label_of y m = pad_zero 4 (nat_string y) @ ''-'' @ pad_zero 2 (nat_string m)"

subsection \<open>Lemmas\<close>

lemma is_digit_not_space: "is_digit c \<Longrightarrow> \<not> js_space c"
  by (auto simp: is_digit_def js_space_def Let_def)

lemma js_trim_ends:
  assumes "s \<noteq> []" and "\<not> js_space (hd s)" and "\<not> js_space (last s)"
  shows "js_trim s = s"
proof -
  have "dropWhile js_space s = s" using assms by (cases s) auto
  moreover have "dropWhile js_space (rev s) = rev s"
    using assms by (cases "rev s") (auto simp: last_rev [symmetric] hd_rev)
  ultimately show ?thesis by (simp add: js_trim_def)
qed

lemma match_label_Some_iff:
  "match_label s = Some (y, m) \<longleftrightarrow>
     length y = 4 \<and> length m = 2 \<and> list_all is_digit y \<and> list_all is_digit m \<and> s = y @ ''-'' @ m"
  by (cases s rule: match_label.cases)
    (auto simp: length_Suc_conv numeral_eq_Suc split: if_splits)

lemma match_label_trim:
  assumes "match_label s = Some (y, m)"
  shows "js_trim s = s"
proof (rule js_trim_ends)
  from assms have s: "s = y @ ''-'' @ m" and "length y = 4" and "length m = 2"
    and d: "list_all is_digit y" "list_all is_digit m"
    by (simp_all add: match_label_Some_iff)
  then have ne: "y \<noteq> []" "m \<noteq> []" by auto
  then show "s \<noteq> []" using s by simp
  show "\<not> js_space (hd s)" "\<not> js_space (last s)"
    using ne d s by (auto simp: list_all_iff intro!: is_digit_not_space)
qed

lemma pad_zero_digits:
  assumes "list_all is_digit s"
  shows "list_all is_digit (pad_zero w s)"
  using assms by (auto simp: pad_zero_def list_all_iff is_digit_def)

lemma digits_value_append_zeros:
  "digits_value (replicate n (CHR ''0'') @ s) = digits_value s"
proof (induction n)
  case 0
  then show ?case by simp
next
  case (Suc n)
  then show ?case by (simp add: digits_value_def digit_val_def)
qed

lemma digits_value_pad_zero [simp]: "digits_value (pad_zero w (nat_string n)) = n"
  by (simp add: pad_zero_def digits_value_append_zeros)

lemma list_all_nat_string: "list_all is_digit (nat_string n)"
  by (auto simp: list_all_iff nat_string_digits)

lemma length_nat_string_le: "n < 10 ^ k \<Longrightarrow> 0 < k \<Longrightarrow> length (nat_string n) \<le> k"
proof (induction n arbitrary: k rule: nat_string.induct)
  case (1 n)
  show ?case
  proof (cases "n < 10")
    case True
    with 1(3) show ?thesis by (subst nat_string.simps) simp
  next
    case False
    with 1(2,3) obtain j where j: "k = Suc j" "0 < j" by (cases k; cases "k = 1") auto
    with 1(2) have "n div 10 < 10 ^ j" by (simp add: less_mult_imp_div_less)
    with 1(1) False j show ?thesis by (subst nat_string.simps) simp
  qed
qed

lemma length_pad_zero: "length s \<le> w \<Longrightarrow> length (pad_zero w s) = w"
  by (simp add: pad_zero_def)

lemma match_label_of:
  assumes "y < 10000" and "m < 100"
  shows "match_label (label_of y m) = Some (pad_zero 4 (nat_string y), pad_zero 2 (nat_string m))"
proof -
  have "length (pad_zero 4 (nat_string y)) = 4" "length (pad_zero 2 (nat_string m)) = 2"
    using assms length_nat_string_le [of y 4] length_nat_string_le [of m 2]
    by (simp_all add: length_pad_zero)
  then show ?thesis
    by (simp add: match_label_Some_iff label_of_def pad_zero_digits list_all_nat_string)
qed

lemmas label_trim = match_label_trim [OF match_label_of]

lemma pad_zero_4: "1000 \<le> y \<Longrightarrow> y < 10000 \<Longrightarrow> pad_zero 4 (nat_string y) = nat_string y"
  using length_nat_string [of 3 y] by (simp add: pad_zero_def)

subsection \<open>Properties\<close>

lemma last_day_bounds: "28 \<le> last_day y m \<and> last_day y m \<le> 31"
  by (simp add: last_day_def Let_def)

lemma priorPeriodLabel_unfold:
  assumes "y < 10000" and "m < 100"
  shows "priorPeriodLabel (label_of y m) =
     (let month = int m - 1;
          (year', month') = (if month < 1 then (int y - 1, 12) else (int y, month))
      in Some (int_text year' @ ''-'' @ pad_zero 2 (int_text month')))"
  using assms by (simp add: priorPeriodLabel_def match_label_of label_trim)

text \<open>The prior label counts the months of the calendar down by one.\<close>

lemma priorPeriodLabel_label:
  assumes "1000 \<le> y" and "y < 10000" and "1 \<le> m" and "m \<le> 12"
    and "12 * 1000 \<le> 12 * y + (m - 1) - 1"
  shows "priorPeriodLabel (label_of y m)
       = Some (label_of ((12 * y + (m - 1) - 1) div 12) ((12 * y + (m - 1) - 1) mod 12 + 1))"
proof (cases "m = 1")
  case True
  then have y1: "1001 \<le> y" using assms by simp
  have "12 * y - 1 = 11 + 12 * (y - 1)" using y1 by simp
  then have d: "(12 * y - 1) div 12 = y - 1" "(12 * y - 1) mod 12 = 11" by simp_all
  have t: "int_text (int y - 1) = nat_string (y - 1)" "int_text 12 = nat_string 12"
    using y1 by (simp_all add: int_text_def nat_diff_distrib)
  have p: "pad_zero 4 (nat_string (y - 1)) = nat_string (y - 1)"
    using y1 assms(2) by (intro pad_zero_4) auto
  have "priorPeriodLabel (label_of y m) = Some (int_text (int y - 1) @ ''-'' @ pad_zero 2 (int_text 12))"
    using assms True by (simp add: priorPeriodLabel_unfold)
  with True d t p show ?thesis by (simp add: label_of_def)
next
  case False
  define k where "k = m - 2"
  have k: "m = Suc (Suc k)" "k \<le> 10" using False assms by (auto simp: k_def)
  then have d: "(12 * y + (m - 1) - 1) div 12 = y" "(12 * y + (m - 1) - 1) mod 12 = k" by simp_all
  have t: "int_text (int y) = nat_string y" "int_text (int m - 1) = nat_string (Suc k)"
  proof -
    have "nat (int m - 1) = Suc k" and "\<not> int m - 1 < 0" using k(1) by arith+
    then show "int_text (int y) = nat_string y" "int_text (int m - 1) = nat_string (Suc k)"
      by (simp_all add: int_text_def)
  qed
  have "priorPeriodLabel (label_of y m) = Some (int_text (int y) @ ''-'' @ pad_zero 2 (int_text (int m - 1)))"
    using assms k by (simp add: priorPeriodLabel_unfold)
  with d t pad_zero_4 [OF assms(1,2)] show ?thesis by (simp add: label_of_def)
qed

lemma toPeriodLabel_prefix:
  assumes "match_label s = Some (y, m)" and "list_all is_digit t" and "t \<noteq> []"
  shows "toPeriodLabel (Some (s @ ''-'' @ t)) = Some s"
proof -
  from assms(1) have s: "s = y @ ''-'' @ m" and y: "length y = 4" "list_all is_digit y"
    and m: "length m = 2" by (simp_all add: match_label_Some_iff)
  then have len: "length s = 7" by simp
  have ne: "y \<noteq> []" using y by auto
  have trim: "js_trim (s @ ''-'' @ t) = s @ ''-'' @ t"
    using s ne y(2) assms(2,3)
    by (intro js_trim_ends) (auto simp: list_all_iff intro!: is_digit_not_space)
  have no: "match_label (s @ ''-'' @ t) = None"
  proof (rule ccontr)
    assume "match_label (s @ ''-'' @ t) \<noteq> None"
    then obtain y' m' where "match_label (s @ ''-'' @ t) = Some (y', m')" by auto
    then have "length (s @ ''-'' @ t) = 7" by (auto simp: match_label_Some_iff)
    then show False using len by simp
  qed
  have "take 7 (s @ ''-'' @ t) = s" using len by simp
  then show ?thesis
    using trim no assms(1) len by (simp add: toPeriodLabel_def)
qed

lemma toPeriodBounds_Some:
  assumes "toPeriodBounds l = Some (start, e)"
  shows "\<exists>y m. match_label (js_trim l) = Some (y, m) \<and> 1 \<le> digits_value m \<and> digits_value m \<le> 12
       \<and> start = js_trim l @ ''-'' @ ''01''
       \<and> e = js_trim l @ ''-'' @ pad_zero 2 (nat_string (last_day (digits_value y) (digits_value m)))"
proof -
  from assms obtain y m where ym: "match_label (js_trim l) = Some (y, m)"
    by (auto simp: toPeriodBounds_def toPeriodStart_def split: option.splits)
  then have "js_trim l = y @ ''-'' @ m" by (simp add: match_label_Some_iff)
  with assms ym show ?thesis
    by (auto simp: toPeriodBounds_def toPeriodStart_def toPeriodEnd_def Let_def split: if_splits)
qed

end
