(* ===== verification/World.thy ===== *)
theory World
  imports JsonText Period
begin

text \<open>
  What every service runs on: the errors it may throw, the readings of the clock and of the random
  supply, the transactions of \<open>src/src/db/transaction.ts\<close>, and the timestamps of JavaScript.

  The state of the program is a record that each component extends with its own tables, so that an
  operation of a component is defined on every state that has the tables it uses. \<open>calls\<close> is
  the trace of the calls into services that the development does not model.
\<close>

subsection \<open>Errors\<close>

text \<open>
  \<open>ServiceError code message\<close> is \<open>JournalEntryError\<close>, \<open>CloseSessionError\<close>, \<open>IssueServiceError\<close>
  and \<open>SubsequentEventError\<close>; \<open>DbError\<close> is an error that PostgreSQL raises: the name of a violated
  constraint, or the message of a trigger.
\<close>

datatype error =
    ServiceError string string
  | AdvanceBlockedError "string list"
  | JsError string
  | DbError string

subsection \<open>Clock, random supply, calls\<close>

type_synonym timestamp = int

datatype call = Call string "string list"

record world =
  clock :: "nat \<Rightarrow> timestamp"
  ticks :: nat
  rands :: "nat \<Rightarrow> string"
  drawn :: nat
  calls :: "call list"

definition now :: "'a world_scheme \<Rightarrow> timestamp \<times> 'a world_scheme" where
  "now s = (clock s (ticks s), s\<lparr>ticks := Suc (ticks s)\<rparr>)"

definition random_text :: "'a world_scheme \<Rightarrow> string \<times> 'a world_scheme" where
  "random_text s = (rands s (drawn s), s\<lparr>drawn := Suc (drawn s)\<rparr>)"

definition record_call :: "string \<Rightarrow> string list \<Rightarrow> 'a world_scheme \<Rightarrow> 'a world_scheme" where
  "record_call f args s = s\<lparr>calls := calls s @ [Call f args]\<rparr>"

subsection \<open>withTransaction\<close>

text \<open>A rollback restores the tables; time, random texts and calls are not undone.\<close>

fun withTransaction ::
  "('a world_scheme \<Rightarrow> (error + 'b) \<times> 'a world_scheme) \<Rightarrow> 'a world_scheme
     \<Rightarrow> (error + 'b) \<times> 'a world_scheme" where
  "withTransaction fn s =
     (case fn s of
        (Inr result, s') \<Rightarrow> (Inr result, s')
      | (Inl err, s') \<Rightarrow> (Inl err, s\<lparr>ticks := ticks s', drawn := drawn s', calls := calls s'\<rparr>))"

declare withTransaction.simps [simp del]

lemma withTransaction_Inr:
  "withTransaction fn s = (Inr b, s') \<longleftrightarrow> fn s = (Inr b, s')"
  by (simp add: withTransaction.simps split: prod.splits sum.splits)

lemma withTransaction_Inl:
  "withTransaction fn s = (Inl e, s')
     \<longleftrightarrow> (\<exists>t. fn s = (Inl e, t) \<and> s' = s\<lparr>ticks := ticks t, drawn := drawn t, calls := calls t\<rparr>)"
  by (auto simp: withTransaction.simps split: prod.splits sum.splits)

lemma fst_withTransaction [simp]: "fst (withTransaction fn s) = fst (fn s)"
  by (simp add: withTransaction.simps split: prod.splits sum.splits)

subsection \<open>Date.prototype.toISOString\<close>

definition days_to_civil :: "int \<Rightarrow> int \<times> int \<times> int" where
  "days_to_civil z0 =
     (let z = z0 + 719468;
          era = z div 146097;
          doe = z - era * 146097;
          yoe = (doe - doe div 1460 + doe div 36524 - doe div 146096) div 365;
          doy = doe - (365 * yoe + yoe div 4 - yoe div 100);
          mp = (5 * doy + 2) div 153;
          d = doy - (153 * mp + 2) div 5 + 1;
          m = (if mp < 10 then mp + 3 else mp - 9)
      in (yoe + era * 400 + (if m \<le> 2 then 1 else 0), m, d))"

definition pad_int :: "nat \<Rightarrow> int \<Rightarrow> string" where
  "pad_int w i = pad_zero w (int_string i)"

definition iso_year :: "int \<Rightarrow> string" where
  "iso_year y =
     (if 0 \<le> y \<and> y \<le> 9999 then pad_int 4 y
      else if 0 \<le> y then ''+'' @ pad_int 6 y else ''-'' @ pad_int 6 (- y))"

definition iso_date :: "int \<Rightarrow> string" where
  "iso_date day =
     (let (y, m, d) = days_to_civil day in iso_year y @ ''-'' @ pad_int 2 m @ ''-'' @ pad_int 2 d)"

definition toISOString :: "timestamp \<Rightarrow> string" where
  "toISOString t =
     (let ms = t mod 86400000 in
      iso_date (t div 86400000) @ ''T'' @ pad_int 2 (ms div 3600000) @ '':''
      @ pad_int 2 (ms div 60000 mod 60) @ '':'' @ pad_int 2 (ms div 1000 mod 60) @ ''.''
      @ pad_int 3 (ms mod 1000) @ ''Z'')"

text \<open>The UTC date of a time stamp, as a DATE column and \<open>toISOString().slice(0, 10)\<close> hold it.\<close>

definition date_text :: "timestamp \<Rightarrow> string" where
  "date_text t = iso_date (t div 86400000)"

lemma ticks_now [simp]: "snd (now s) = s\<lparr>ticks := Suc (ticks s)\<rparr>" "fst (now s) = clock s (ticks s)"
  by (simp_all add: now_def)

lemma drawn_random [simp]:
  "snd (random_text s) = s\<lparr>drawn := Suc (drawn s)\<rparr>" "fst (random_text s) = rands s (drawn s)"
  by (simp_all add: random_text_def)

text \<open>An identifier drawn from a supply without repetitions is new.\<close>

lemma fresh_draw: "inj f \<Longrightarrow> \<forall>x\<in>X. \<exists>n<m. k x = f n \<Longrightarrow> f (m :: nat) \<notin> k ` X"
  by (metis imageE injD less_irrefl)

end
