(* ===== verification/AuditLedger.thy ===== *)
theory AuditLedger
  imports World "HOL-Library.Word"
begin

text \<open>
  The hash-chained audit ledger: \<open>src/src/db/repositories/audit_ledger_repository.ts\<close>,
  \<open>src/src/services/audit_ledger_service.ts\<close> and \<open>src/src/services/audit_service.ts\<close>, with
  the INSERT trigger of \<open>migrations/156\<close> and the primary key of \<open>migrations/051\<close>.

  \<open>H\<close> is the hex digest of SHA-256 on the UTF-8 encoding of a text. \<open>ORDER BY created_at\<close> reads
  the index on \<open>(tenant_id, created_at)\<close> forwards or backwards: rows of one millisecond keep
  the order of their insertion or reverse it.
\<close>

subsection \<open>Tables\<close>

record ledger_row =
  al_id :: string
  al_tenant :: tenant_id
  al_period :: "string option"
  al_event :: string
  al_flags :: json
  al_dissent :: "json option"
  al_rationale :: string
  al_prev :: "string option"
  al_hash :: string
  al_created_at :: timestamp
  al_created_by :: "string option"
  al_version :: "nat option"
  al_before :: "json option"
  al_after :: "json option"

record checkpoint =
  cp_tenant :: tenant_id
  cp_entry_id :: string
  cp_hash :: string
  cp_entries :: nat
  cp_verified_at :: timestamp

record ledger_db = world +
  audit_ledger :: "ledger_row list"
  checkpoints :: "checkpoint list"

type_synonym ('a, 'b) op = "'a ledger_db_scheme \<Rightarrow> (error + 'b) \<times> 'a ledger_db_scheme"

subsection \<open>Hashes\<close>

record HashPayload =
  hp_tenant :: tenant_id
  hp_period :: "string option"
  hp_event :: string
  hp_flags :: json
  hp_dissent :: json
  hp_rationale :: string
  hp_prev :: "string option"
  hp_created_at :: string

definition opt_json :: "string option \<Rightarrow> json" where
  "opt_json x = (case x of None \<Rightarrow> JNull | Some s \<Rightarrow> JStr s)"

definition payload_json :: "HashPayload \<Rightarrow> (json \<Rightarrow> json) \<Rightarrow> json" where
  "payload_json p c = JObj
     [(''tenantId'', JStr (hp_tenant p)),
      (''periodLabel'', opt_json (hp_period p)),
      (''eventType'', JStr (hp_event p)),
      (''deterministicFlagSnapshot'', c (hp_flags p)),
      (''agentDissentSnapshot'', c (hp_dissent p)),
      (''userPromptRationale'', JStr (hp_rationale p)),
      (''previousEntryHash'', opt_json (hp_prev p)),
      (''createdAt'', JStr (hp_created_at p))]"

definition payload_text :: "nat \<Rightarrow> HashPayload \<Rightarrow> string" where
  "payload_text version p =
     the (stringify (payload_json p (if version = 2 then canonicalizeForHash else id)))"

definition computeEntryHashV1 :: "(string \<Rightarrow> string) \<Rightarrow> HashPayload \<Rightarrow> string" where
  "computeEntryHashV1 H p = H (payload_text 1 p)"

definition computeEntryHashV2 :: "(string \<Rightarrow> string) \<Rightarrow> HashPayload \<Rightarrow> string" where
  "computeEntryHashV2 H p = H (payload_text 2 p)"

subsection \<open>getLatestHash, appendEntry\<close>

definition tenant_rows :: "tenant_id \<Rightarrow> 'a ledger_db_scheme \<Rightarrow> ledger_row list" where
  "tenant_rows tenantId s = filter (\<lambda>r. al_tenant r = tenantId) (audit_ledger s)"

definition by_time :: "ledger_row list \<Rightarrow> ledger_row list" where
  "by_time rows = sort_key al_created_at rows"

definition getLatestHash :: "tenant_id \<Rightarrow> 'a ledger_db_scheme \<Rightarrow> string option" where
  "getLatestHash tenantId s =
     (case rev (by_time (tenant_rows tenantId s)) of [] \<Rightarrow> None | r # _ \<Rightarrow> Some (al_hash r))"

definition ledger_id :: "timestamp \<Rightarrow> string \<Rightarrow> string" where
  "ledger_id t r = ''al-'' @ int_string t @ ''-'' @ r"

text \<open>\<open>hash = ((hash << 5) - hash + c) | 0\<close> on 32-bit integers, starting from 0x41554449.\<close>

definition lock_step :: "32 word \<Rightarrow> char \<Rightarrow> 32 word" where
  "lock_step h c = push_bit 5 h - h + of_nat (of_char c)"

definition hashTenantIdToLockKey :: "tenant_id \<Rightarrow> string" where
  "hashTenantIdToLockKey tenantId = int_text (sint (foldl lock_step 0x41554449 tenantId))"

text \<open>The trigger \<open>audit_ledger_enforce_chain\<close> and the primary key.\<close>

definition insert_ledger_row :: "ledger_row \<Rightarrow> ('a, unit) op" where
  "insert_ledger_row r s =
     (if al_prev r \<noteq> getLatestHash (al_tenant r) s then (Inl (DbError ''audit_ledger chain violation''), s)
      else if al_id r \<in> al_id ` set (audit_ledger s) then (Inl (DbError ''audit_ledger_pkey''), s)
      else (Inr (), s\<lparr>audit_ledger := audit_ledger s @ [r]\<rparr>))"

record AuditLedgerEntryInput =
  in_tenant :: tenant_id
  in_period :: "string option"
  in_event :: string
  in_flags :: json
  in_dissent :: "json option"
  in_rationale :: string
  in_created_by :: "string option"
  in_before :: "json option"
  in_after :: "json option"

definition appendEntryInternal ::
  "(string \<Rightarrow> string) \<Rightarrow> AuditLedgerEntryInput \<Rightarrow> ('a, ledger_row) op" where
  "appendEntryInternal H input s =
     (let (t0, s0) = now s;
          (rand, s1) = random_text s0;
          entry_id = ledger_id t0 rand;
          (t, s2) = now s1;
          previousEntryHash = getLatestHash (in_tenant input) s2;
          entryHash = computeEntryHashV2 H
            \<lparr>hp_tenant = in_tenant input, hp_period = in_period input, hp_event = in_event input,
             hp_flags = in_flags input,
             hp_dissent = (case in_dissent input of None \<Rightarrow> JNull | Some d \<Rightarrow> d),
             hp_rationale = in_rationale input, hp_prev = previousEntryHash,
             hp_created_at = toISOString t\<rparr>;
          row = \<lparr>al_id = entry_id, al_tenant = in_tenant input, al_period = in_period input,
             al_event = in_event input, al_flags = jsonb_roundtrip (in_flags input),
             al_dissent = map_option jsonb_roundtrip (in_dissent input),
             al_rationale = in_rationale input, al_prev = previousEntryHash, al_hash = entryHash,
             al_created_at = t, al_created_by = in_created_by input, al_version = Some 2,
             al_before = map_option jsonb_roundtrip (in_before input),
             al_after = map_option jsonb_roundtrip (in_after input)\<rparr>
      in andThen (insert_ledger_row row s2) (\<lambda>_ s. (Inr row, s)))"

text \<open>On a pool the append runs in a transaction of its own, on a client in the caller's.\<close>

definition appendEntry ::
  "bool \<Rightarrow> (string \<Rightarrow> string) \<Rightarrow> AuditLedgerEntryInput \<Rightarrow> ('a, ledger_row) op" where
  "appendEntry isPool H input s =
     (if isPool then withTransaction (appendEntryInternal H input) s
      else appendEntryInternal H input s)"

subsection \<open>Queries\<close>

record LedgerFilter =
  lf_eventType :: "string option"
  lf_createdBy :: "string option"
  lf_dateFrom :: "timestamp option"
  lf_dateTo :: "timestamp option"

definition ledger_where :: "tenant_id \<Rightarrow> string \<Rightarrow> LedgerFilter \<Rightarrow> ledger_row \<Rightarrow> bool" where
  "ledger_where tenantId periodLabel opts r =
     (al_tenant r = tenantId \<and> al_period r = Some periodLabel
      \<and> (truthy (lf_eventType opts) \<longrightarrow> al_event r = the (lf_eventType opts))
      \<and> (truthy (lf_createdBy opts) \<longrightarrow> al_created_by r = lf_createdBy opts)
      \<and> (case lf_dateFrom opts of None \<Rightarrow> True | Some d \<Rightarrow> d \<le> al_created_at r)
      \<and> (case lf_dateTo opts of None \<Rightarrow> True | Some d \<Rightarrow> al_created_at r \<le> d))"

record LedgerListItem =
  li_id :: string
  li_eventType :: string
  li_description :: string
  li_userId :: "string option"
  li_timestamp :: string
  li_beforeState :: "json option"
  li_afterState :: "json option"
  li_metadata :: json
  li_hash :: string
  li_previousHash :: "string option"

fun json_member :: "string \<Rightarrow> json \<Rightarrow> json" where
  "json_member k (JObj kvs) = (case map_of kvs k of None \<Rightarrow> JUndef | Some v \<Rightarrow> v)"
| "json_member k v = JUndef"

definition ledger_list_item :: "ledger_row \<Rightarrow> LedgerListItem" where
  "ledger_list_item r =
     (let metadata = (case al_flags r of JObj kvs \<Rightarrow> JObj kvs | JArr vs \<Rightarrow> JArr vs | _ \<Rightarrow> JObj []) in
      \<lparr>li_id = al_id r, li_eventType = al_event r,
       li_description = (case json_member ''detail'' metadata of JStr d \<Rightarrow> d | _ \<Rightarrow> al_rationale r),
       li_userId = al_created_by r, li_timestamp = toISOString (al_created_at r),
       li_beforeState = al_before r, li_afterState = al_after r, li_metadata = metadata,
       li_hash = al_hash r, li_previousHash = al_prev r\<rparr>)"

definition page :: "nat option \<Rightarrow> nat option \<Rightarrow> 'a list \<Rightarrow> 'a list" where
  "page limit offset xs =
     (let ys = (case offset of None \<Rightarrow> xs | Some n \<Rightarrow> drop n xs) in
      case limit of None \<Rightarrow> ys | Some n \<Rightarrow> take n ys)"

definition listByTenantAndPeriod ::
  "tenant_id \<Rightarrow> string \<Rightarrow> LedgerFilter \<Rightarrow> nat option \<Rightarrow> nat option \<Rightarrow> 'a ledger_db_scheme
     \<Rightarrow> LedgerListItem list" where
  "listByTenantAndPeriod tenantId periodLabel opts limit offset s =
     map ledger_list_item
       (page limit offset (rev (by_time (filter (ledger_where tenantId periodLabel opts) (audit_ledger s)))))"

definition countByTenantAndPeriod ::
  "tenant_id \<Rightarrow> string \<Rightarrow> LedgerFilter \<Rightarrow> 'a ledger_db_scheme \<Rightarrow> nat" where
  "countByTenantAndPeriod tenantId periodLabel opts s =
     row_count (ledger_where tenantId periodLabel opts) (audit_ledger s)"

definition countByTenantPeriodAndEventType ::
  "tenant_id \<Rightarrow> string \<Rightarrow> string \<Rightarrow> 'a ledger_db_scheme \<Rightarrow> nat" where
  "countByTenantPeriodAndEventType tenantId periodLabel eventType s =
     row_count (\<lambda>r. al_tenant r = tenantId \<and> al_period r = Some periodLabel \<and> al_event r = eventType)
       (audit_ledger s)"

definition listAllForTenant :: "tenant_id \<Rightarrow> nat option \<Rightarrow> 'a ledger_db_scheme \<Rightarrow> ledger_row list" where
  "listAllForTenant tenantId limit s =
     take (min (case limit of None \<Rightarrow> 100 | Some n \<Rightarrow> n) 500) (rev (by_time (tenant_rows tenantId s)))"

subsection \<open>verifyChain\<close>

definition row_payload :: "ledger_row \<Rightarrow> HashPayload" where
  "row_payload r =
     \<lparr>hp_tenant = al_tenant r, hp_period = al_period r, hp_event = al_event r,
      hp_flags = (if al_flags r = JNull then JObj [] else al_flags r),
      hp_dissent = (case al_dissent r of None \<Rightarrow> JNull | Some d \<Rightarrow> d),
      hp_rationale = al_rationale r, hp_prev = al_prev r,
      hp_created_at = toISOString (al_created_at r)\<rparr>"

definition row_version :: "ledger_row \<Rightarrow> nat" where
  "row_version r = (if al_version r = Some 2 then 2 else 1)"

definition row_digest :: "(string \<Rightarrow> string) \<Rightarrow> ledger_row \<Rightarrow> string" where
  "row_digest H r =
     (if row_version r = 2 then computeEntryHashV2 H (row_payload r)
      else computeEntryHashV1 H (row_payload r))"

fun verify_rows ::
  "(string \<Rightarrow> string) \<Rightarrow> string option \<Rightarrow> ledger_row list \<Rightarrow> (string \<times> string) option" where
  "verify_rows H prevHash [] = None"
| "verify_rows H prevHash (r # rows) =
     (if row_digest H r \<noteq> al_hash r then Some (al_id r, ''Hash mismatch'')
      else if al_prev r \<noteq> prevHash then Some (al_id r, ''Chain link broken (previous_entry_hash)'')
      else verify_rows H (Some (al_hash r)) rows)"

record VerifyResult =
  vr_valid :: bool
  vr_brokenAt :: "string option"
  vr_message :: "string option"
  vr_latestHash :: "string option"
  vr_latestId :: "string option"
  vr_entryCount :: nat
  vr_verifiedAt :: timestamp

definition usable_checkpoint ::
  "bool \<Rightarrow> tenant_id \<Rightarrow> 'a ledger_db_scheme \<Rightarrow> (checkpoint \<times> timestamp) option" where
  "usable_checkpoint useCheckpoint tenantId s =
     (case (if useCheckpoint then find (\<lambda>c. cp_tenant c = tenantId) (checkpoints s) else None) of
        None \<Rightarrow> None
      | Some c \<Rightarrow>
          (case find (\<lambda>r. al_id r = cp_entry_id c \<and> al_tenant r = tenantId) (audit_ledger s) of
             None \<Rightarrow> None
           | Some r \<Rightarrow> Some (c, al_created_at r)))"

definition save_checkpoint :: "checkpoint \<Rightarrow> checkpoint list \<Rightarrow> checkpoint list" where
  "save_checkpoint c cs =
     (if cp_tenant c \<in> cp_tenant ` set cs
      then update_where (\<lambda>d. cp_tenant d = cp_tenant c) (\<lambda>_. c) cs else cs @ [c])"

definition verifyChainInternal ::
  "(string \<Rightarrow> string) \<Rightarrow> tenant_id \<Rightarrow> bool \<Rightarrow> 'a ledger_db_scheme \<Rightarrow> VerifyResult \<times> 'a ledger_db_scheme" where
  "verifyChainInternal H tenantId useCheckpoint s0 =
     (let (verifiedAt, s) = now s0;
          checkpoint = usable_checkpoint useCheckpoint tenantId s;
          rows = by_time (case checkpoint of None \<Rightarrow> tenant_rows tenantId s
            | Some (c, t) \<Rightarrow> filter (\<lambda>r. t < al_created_at r) (tenant_rows tenantId s));
          prevHash = map_option (\<lambda>(c, t). cp_hash c) checkpoint;
          totalEntries = (case checkpoint of None \<Rightarrow> 0 | Some (c, t) \<Rightarrow> cp_entries c) + length rows
      in case verify_rows H prevHash rows of
           Some (broken, message) \<Rightarrow>
             (\<lparr>vr_valid = False, vr_brokenAt = Some broken, vr_message = Some message,
               vr_latestHash = None, vr_latestId = None, vr_entryCount = totalEntries,
               vr_verifiedAt = verifiedAt\<rparr>, s)
         | None \<Rightarrow>
             (let lastEntryId = (if rows = [] then map_option (\<lambda>(c, t). cp_entry_id c) checkpoint
                                 else Some (al_id (last rows)));
                  lastEntryHash = (if rows = [] then prevHash else Some (al_hash (last rows)));
                  s' = (if useCheckpoint \<and> truthy lastEntryId \<and> truthy lastEntryHash
                        then s\<lparr>checkpoints := save_checkpoint
                          \<lparr>cp_tenant = tenantId, cp_entry_id = the lastEntryId,
                           cp_hash = the lastEntryHash, cp_entries = totalEntries,
                           cp_verified_at = verifiedAt\<rparr> (checkpoints s)\<rparr>
                        else s)
              in (\<lparr>vr_valid = True, vr_brokenAt = None, vr_message = None,
                   vr_latestHash = (if truthy lastEntryHash then lastEntryHash else None),
                   vr_latestId = (if truthy lastEntryId then lastEntryId else None),
                   vr_entryCount = totalEntries, vr_verifiedAt = verifiedAt\<rparr>, s')))"

definition verifyFullChain ::
  "(string \<Rightarrow> string) \<Rightarrow> tenant_id \<Rightarrow> 'a ledger_db_scheme \<Rightarrow> VerifyResult \<times> 'a ledger_db_scheme" where
  "verifyFullChain H tenantId s = verifyChainInternal H tenantId False s"

definition verifyChain ::
  "(string \<Rightarrow> string) \<Rightarrow> tenant_id \<Rightarrow> 'a ledger_db_scheme \<Rightarrow> VerifyResult \<times> 'a ledger_db_scheme" where
  "verifyChain H tenantId s = verifyChainInternal H tenantId True s"

section \<open>Chains\<close>

text \<open>The rows of a chain carry their own digest and name the digest of the row before.\<close>

fun chained :: "('r \<Rightarrow> string) \<Rightarrow> ('r \<Rightarrow> string option) \<Rightarrow> ('r \<Rightarrow> string) \<Rightarrow> string option \<Rightarrow> 'r list \<Rightarrow> bool" where
  "chained digest prev stored p [] = True"
| "chained digest prev stored p (r # rs) =
     (digest r = stored r \<and> prev r = p \<and> chained digest prev stored (Some (stored r)) rs)"

definition end_hash :: "('r \<Rightarrow> string) \<Rightarrow> string option \<Rightarrow> 'r list \<Rightarrow> string option" where
  "end_hash stored p rs = (if rs = [] then p else Some (stored (last rs)))"

lemma chained_append:
  "chained digest prev stored p (rs @ qs)
     \<longleftrightarrow> chained digest prev stored p rs \<and> chained digest prev stored (end_hash stored p rs) qs"
  by (induction rs arbitrary: p) (auto simp: end_hash_def)

text \<open>
  A chain of digests \<open>H (content r)\<close> in which the content of a row contains its link: whoever
  knows the last digest knows every row, or holds two contents with the same digest.
\<close>

locale hash_chain =
  fixes H :: "string \<Rightarrow> string" and content :: "'r \<Rightarrow> string"
    and prev :: "'r \<Rightarrow> string option" and stored :: "'r \<Rightarrow> string"
  assumes content_prev: "content r = content q \<Longrightarrow> prev r = prev q"
begin

lemma tamper_evident:
  assumes "chained (\<lambda>r. H (content r)) prev stored None rs"
    and "chained (\<lambda>r. H (content r)) prev stored None qs"
    and "end_hash stored None rs = end_hash stored None qs"
  shows "map content rs = map content qs
    \<or> (\<exists>r\<in>set rs. \<exists>q\<in>set qs. content r \<noteq> content q \<and> H (content r) = H (content q))"
  using assms
proof (induction rs arbitrary: qs rule: rev_induct)
  case Nil
  then show ?case by (simp add: end_hash_def split: if_splits)
next
  case (snoc r rs)
  then obtain qs' q where qs: "qs = qs' @ [q]"
    by (cases qs rule: rev_cases) (auto simp: end_hash_def)
  have rq: "H (content r) = H (content q)"
    and ends: "prev r = end_hash stored None rs" "prev q = end_hash stored None qs'"
    using snoc.prems by (auto simp: qs chained_append end_hash_def)
  show ?case
  proof (cases "content r = content q")
    case True
    then have "end_hash stored None rs = end_hash stored None qs'"
      using content_prev [OF True] ends by simp
    moreover have "chained (\<lambda>r. H (content r)) prev stored None rs"
        "chained (\<lambda>r. H (content r)) prev stored None qs'"
      using snoc.prems(1,2) by (simp_all add: qs chained_append)
    ultimately have "map content rs = map content qs'
        \<or> (\<exists>r\<in>set rs. \<exists>q\<in>set qs'. content r \<noteq> content q \<and> H (content r) = H (content q))"
      using snoc.IH by blast
    then show ?thesis
    proof
      assume "map content rs = map content qs'"
      with True show ?thesis by (simp add: qs)
    next
      assume "\<exists>r\<in>set rs. \<exists>q\<in>set qs'. content r \<noteq> content q \<and> H (content r) = H (content q)"
      then show ?thesis by (auto simp: qs)
    qed
  next
    case False
    with rq show ?thesis by (auto simp: qs)
  qed
qed

end

definition row_text :: "ledger_row \<Rightarrow> string" where
  "row_text r = payload_text (row_version r) (row_payload r)"

lemma row_digest_text: "row_digest H r = H (row_text r)"
  by (simp add: row_digest_def row_text_def computeEntryHashV1_def computeEntryHashV2_def row_version_def)

subsection \<open>The text of a payload determines its fields\<close>

lemma opt_json_text: "elem_text (opt_json x) = elem_text (opt_json y) \<longleftrightarrow> x = y"
  by (auto simp: opt_json_def split: option.splits)

lemma opt_json_defined [simp]: "opt_json x \<noteq> JUndef"
  by (simp add: opt_json_def split: option.splits)

lemma canonical_defined [simp]: "canonicalizeForHash v = JUndef \<longleftrightarrow> v = JUndef"
  by (cases v) simp_all

lemma hash_text_elem:
  "hash_text v = (if v = JUndef then None else Some (elem_text (canonicalizeForHash v)))"
  using elem_text_stringify [of "canonicalizeForHash v"]
  by (cases "v = JUndef") (simp_all add: hash_text_def)

lemma payload_text_fields:
  assumes "payload_text n p = payload_text m q"
  shows "hp_tenant p = hp_tenant q \<and> hp_period p = hp_period q \<and> hp_event p = hp_event q
    \<and> hp_rationale p = hp_rationale q \<and> hp_prev p = hp_prev q \<and> hp_created_at p = hp_created_at q
    \<and> (n = 2 \<longrightarrow> m = 2 \<longrightarrow> hash_text (hp_flags p) = hash_text (hp_flags q)
        \<and> hash_text (hp_dissent p) = hash_text (hp_dissent q))"
proof -
  have "stringify (payload_json p (if n = 2 then canonicalizeForHash else id))
      = stringify (payload_json q (if m = 2 then canonicalizeForHash else id))"
    using assms(1) by (simp add: payload_text_def payload_json_def)
  from stringify_obj_members [OF this [unfolded payload_json_def]] show ?thesis
    by (auto simp: opt_json_text hash_text_elem split: if_splits)
qed

text \<open>The rows of the ledger form such a chain, whatever the digest.\<close>

interpretation ledger: hash_chain H row_text al_prev al_hash for H
proof
  fix r q
  assume "row_text r = row_text q"
  from payload_text_fields [OF this [unfolded row_text_def]] show "al_prev r = al_prev q"
    by (simp add: row_payload_def)
qed

subsection \<open>verifyChain accepts exactly the chains\<close>

abbreviation ledger_chain :: "(string \<Rightarrow> string) \<Rightarrow> string option \<Rightarrow> ledger_row list \<Rightarrow> bool" where
  "ledger_chain H \<equiv> chained (\<lambda>r. H (row_text r)) al_prev al_hash"

lemma verify_rows_None_iff: "verify_rows H p rows = None \<longleftrightarrow> ledger_chain H p rows"
  by (induction rows arbitrary: p) (auto simp: row_digest_text)

lemma verify_rows_Some:
  assumes "verify_rows H p rows = Some (broken, msg)"
  shows "\<exists>pre r post. rows = pre @ r # post \<and> al_id r = broken \<and> ledger_chain H p pre
    \<and> (row_digest H r \<noteq> al_hash r \<or> al_prev r \<noteq> end_hash al_hash p pre)"
  using assms
proof (induction rows arbitrary: p)
  case (Cons a rows)
  show ?case
  proof (cases "row_digest H a \<noteq> al_hash a \<or> al_prev a \<noteq> p")
    case True
    with Cons.prems have "a # rows = [] @ a # rows \<and> al_id a = broken"
      by (auto split: if_splits)
    with True show ?thesis by (intro exI [of _ "[]"]) (auto simp: end_hash_def)
  next
    case False
    with Cons.prems have "verify_rows H (Some (al_hash a)) rows = Some (broken, msg)" by simp
    from Cons.IH [OF this] obtain pre r post where
      "rows = pre @ r # post" "al_id r = broken" "ledger_chain H (Some (al_hash a)) pre"
      "row_digest H r \<noteq> al_hash r \<or> al_prev r \<noteq> end_hash al_hash (Some (al_hash a)) pre" by blast
    with False have "a # rows = (a # pre) @ r # post \<and> al_id r = broken \<and> ledger_chain H p (a # pre)
        \<and> (row_digest H r \<noteq> al_hash r \<or> al_prev r \<noteq> end_hash al_hash p (a # pre))"
      by (auto simp: end_hash_def row_digest_text)
    then show ?thesis by blast
  qed
qed simp

section \<open>The ledger invariant\<close>

text \<open>
  Per tenant, the rows in the order of their insertion carry strictly increasing times and form a
  chain; identifiers are unique and made from earlier readings of the clock; a checkpoint names a
  row, its hash and its position.
\<close>

definition clock_ok :: "'a world_scheme \<Rightarrow> bool" where
  "clock_ok s = (strict_mono (clock s) \<and> 0 \<le> clock s 0)"

definition checkpoint_ok :: "'a ledger_db_scheme \<Rightarrow> checkpoint \<Rightarrow> bool" where
  "checkpoint_ok s c =
     (\<exists>pre r post. tenant_rows (cp_tenant c) s = pre @ r # post \<and> cp_entry_id c = al_id r
        \<and> cp_hash c = al_hash r \<and> cp_entries c = Suc (length pre))"

definition ledger_ok :: "(string \<Rightarrow> string) \<Rightarrow> 'a ledger_db_scheme \<Rightarrow> bool" where
  "ledger_ok H s =
     ((\<forall>t. sorted_wrt (<) (map al_created_at (tenant_rows t s)) \<and> ledger_chain H None (tenant_rows t s))
      \<and> (\<forall>r\<in>set (audit_ledger s). (\<exists>i<ticks s. al_created_at r = clock s i)
           \<and> (\<exists>i<ticks s. \<exists>x. al_id r = ledger_id (clock s i) x))
      \<and> distinct (map al_id (audit_ledger s))
      \<and> distinct (map cp_tenant (checkpoints s)) \<and> (\<forall>c\<in>set (checkpoints s). checkpoint_ok s c))"

lemma sort_key_sorted: "sorted (map f xs) \<Longrightarrow> sort_key f xs = xs"
  by (induction xs) (auto simp: insort_is_Cons)

lemma by_time_sorted:
  assumes "sorted_wrt (<) (map al_created_at rows)"
  shows "by_time rows = rows"
  using assms by (simp add: by_time_def sort_key_sorted strict_sorted_imp_sorted)

lemma getLatestHash_end:
  "sorted_wrt (<) (map al_created_at (tenant_rows t s)) \<Longrightarrow>
   getLatestHash t s = end_hash al_hash None (tenant_rows t s)"
  by (cases "tenant_rows t s" rule: rev_cases) (simp_all add: getLatestHash_def by_time_sorted end_hash_def)

lemma clock_ok_less: "clock_ok s \<Longrightarrow> i < j \<Longrightarrow> clock s i < clock s j"
  by (simp add: clock_ok_def strict_mono_less)

lemma clock_ok_nonneg: "clock_ok s \<Longrightarrow> 0 \<le> clock s i"
  by (metis clock_ok_def le0 order_trans strict_mono_less_eq)

subsection \<open>Identifiers\<close>

lemma digits_value_int_string: "0 \<le> n \<Longrightarrow> digits_value (int_string n) = nat n"
proof (induction n rule: int_string.induct)
  case (1 n)
  show ?case
  proof (cases "n < 10")
    case True
    with 1 have "nat n < 10" by simp
    with True show ?thesis
      by (subst int_string.simps) (simp add: digits_value_def digit_char_def digit_val_def)
  next
    case False
    have "nat (n mod 10) < 10" by simp
    then have "digit_val (digit_char (nat (n mod 10))) = nat (n mod 10)"
      by (simp add: digit_char_def digit_val_def)
    with False 1 show ?thesis
      by (subst int_string.simps) (simp add: digits_value_snoc nat_div_distrib nat_mod_distrib)
  qed
qed

lemma ledger_id_time:
  assumes "ledger_id t x = ledger_id u y" and "0 \<le> t" and "0 \<le> u"
  shows "t = u"
proof -
  have stamp: "takeWhile is_digit (int_string t @ CHR ''-'' # x) = int_string t" for t x
    using int_string_digits [of t] by (simp add: takeWhile_append2 list_all_iff is_digit_def)
  have "int_string t @ CHR ''-'' # x = int_string u @ CHR ''-'' # y"
    using assms(1) by (simp add: ledger_id_def)
  then have "int_string t = int_string u"
    using stamp [of t x] stamp [of u y] by simp
  then show ?thesis using assms(2,3) by (metis digits_value_int_string eq_nat_nat_iff)
qed

subsection \<open>appendEntry\<close>

definition input_ok :: "AuditLedgerEntryInput \<Rightarrow> bool" where
  "input_ok input =
     ((\<exists>kvs. in_flags input = JObj kvs) \<and> wf_json (in_flags input)
      \<and> (case in_dissent input of None \<Rightarrow> True | Some d \<Rightarrow> wf_json d))"

text \<open>The row that an append writes at time \<open>t\<close> behind the entry with the hash \<open>p\<close>.\<close>

definition new_row ::
  "(string \<Rightarrow> string) \<Rightarrow> AuditLedgerEntryInput \<Rightarrow> string \<Rightarrow> timestamp \<Rightarrow> string option \<Rightarrow> ledger_row" where
  "new_row H input i t p =
     \<lparr>al_id = i, al_tenant = in_tenant input, al_period = in_period input,
      al_event = in_event input, al_flags = jsonb_roundtrip (in_flags input),
      al_dissent = map_option jsonb_roundtrip (in_dissent input),
      al_rationale = in_rationale input, al_prev = p,
      al_hash = computeEntryHashV2 H
            \<lparr>hp_tenant = in_tenant input, hp_period = in_period input, hp_event = in_event input,
             hp_flags = in_flags input,
             hp_dissent = (case in_dissent input of None \<Rightarrow> JNull | Some d \<Rightarrow> d),
             hp_rationale = in_rationale input, hp_prev = p,
             hp_created_at = toISOString t\<rparr>,
      al_created_at = t, al_created_by = in_created_by input, al_version = Some 2,
      al_before = map_option jsonb_roundtrip (in_before input),
      al_after = map_option jsonb_roundtrip (in_after input)\<rparr>"

lemma payload_text_cong:
  assumes "hash_text (hp_flags p) = hash_text (hp_flags q)"
    and "hash_text (hp_dissent p) = hash_text (hp_dissent q)"
    and "hp_tenant p = hp_tenant q" "hp_period p = hp_period q" "hp_event p = hp_event q"
      "hp_rationale p = hp_rationale q" "hp_prev p = hp_prev q" "hp_created_at p = hp_created_at q"
  shows "payload_text 2 p = payload_text 2 q"
  using assms by (simp add: payload_text_def payload_json_def hash_text_def [symmetric])

lemma new_row_digest: "input_ok input \<Longrightarrow> H (row_text (new_row H input i t p)) = al_hash (new_row H input i t p)"
  unfolding row_text_def new_row_def row_payload_def row_version_def computeEntryHashV2_def input_ok_def
  by (auto intro!: arg_cong [where f = H] payload_text_cong
      simp: hash_text_jsonb_roundtrip simp del: jsonb_roundtrip.simps split: option.splits)
     (auto simp: hash_text_obj)

lemma ledger_frame [simp]:
  "tenant_rows t (s\<lparr>ticks := i\<rparr>) = tenant_rows t s" "tenant_rows t (s\<lparr>drawn := j\<rparr>) = tenant_rows t s"
  "tenant_rows t (s\<lparr>calls := k\<rparr>) = tenant_rows t s" "tenant_rows t (s\<lparr>checkpoints := c\<rparr>) = tenant_rows t s"
  "getLatestHash t (s\<lparr>ticks := i\<rparr>) = getLatestHash t s" "getLatestHash t (s\<lparr>drawn := j\<rparr>) = getLatestHash t s"
  by (simp_all add: getLatestHash_def tenant_rows_def)

lemma appendEntryInternal_unfold:
  "appendEntryInternal H input s =
     (let s2 = s\<lparr>drawn := Suc (drawn s), ticks := ticks s + 2\<rparr>;
          r = new_row H input (ledger_id (clock s (ticks s)) (rands s (drawn s)))
                (clock s (Suc (ticks s))) (getLatestHash (in_tenant input) s)
      in if al_id r \<in> al_id ` set (audit_ledger s) then (Inl (DbError ''audit_ledger_pkey''), s2)
         else (Inr r, s2\<lparr>audit_ledger := audit_ledger s @ [r]\<rparr>))"
  by (simp add: appendEntryInternal_def now_def random_text_def insert_ledger_row_def new_row_def Let_def)

lemma ledger_id_fresh:
  assumes "ledger_ok H s" and "clock_ok s"
  shows "ledger_id (clock s (ticks s)) x \<notin> al_id ` set (audit_ledger s)"
proof
  assume "ledger_id (clock s (ticks s)) x \<in> al_id ` set (audit_ledger s)"
  with assms(1) obtain i y where "i < ticks s" "ledger_id (clock s (ticks s)) x = ledger_id (clock s i) y"
    by (auto simp: ledger_ok_def)
  with assms(2) show False
    by (metis clock_ok_less clock_ok_nonneg ledger_id_time less_irrefl)
qed

text \<open>An append always succeeds and adds one row at the end of the tenant's chain.\<close>

lemma appendEntryInternal_result:
  assumes "ledger_ok H s" and "clock_ok s"
  shows "appendEntryInternal H input s =
    (let r = new_row H input (ledger_id (clock s (ticks s)) (rands s (drawn s)))
               (clock s (Suc (ticks s))) (end_hash al_hash None (tenant_rows (in_tenant input) s))
     in (Inr r, s\<lparr>drawn := Suc (drawn s), ticks := ticks s + 2, audit_ledger := audit_ledger s @ [r]\<rparr>))"
proof -
  have "getLatestHash (in_tenant input) s = end_hash al_hash None (tenant_rows (in_tenant input) s)"
    using assms(1) by (intro getLatestHash_end) (simp add: ledger_ok_def)
  then show ?thesis
    using ledger_id_fresh [OF assms] by (simp add: appendEntryInternal_unfold Let_def new_row_def)
qed

lemma tenant_rows_append:
  "tenant_rows t (s\<lparr>drawn := j, ticks := i, audit_ledger := audit_ledger s @ [r]\<rparr>)
     = tenant_rows t s @ (if al_tenant r = t then [r] else [])"
  by (simp add: tenant_rows_def)

lemma ledger_ok_append:
  assumes "ledger_ok H s" and "clock_ok s" and "input_ok input"
  shows "ledger_ok H (snd (appendEntryInternal H input s))"
proof -
  define r where "r = new_row H input (ledger_id (clock s (ticks s)) (rands s (drawn s)))
    (clock s (Suc (ticks s))) (end_hash al_hash None (tenant_rows (in_tenant input) s))"
  let ?s = "s\<lparr>drawn := Suc (drawn s), ticks := ticks s + 2, audit_ledger := audit_ledger s @ [r]\<rparr>"
  have s': "snd (appendEntryInternal H input s) = ?s"
    using appendEntryInternal_result [OF assms(1,2)] by (simp add: r_def Let_def)
  have r: "al_tenant r = in_tenant input" "al_created_at r = clock s (Suc (ticks s))"
      "al_prev r = end_hash al_hash None (tenant_rows (in_tenant input) s)"
      "al_id r = ledger_id (clock s (ticks s)) (rands s (drawn s))"
    by (simp_all add: r_def new_row_def)
  have later: "al_created_at q < al_created_at r" if "q \<in> set (audit_ledger s)" for q
    using assms(1,2) that r(2) clock_ok_less [OF assms(2)] by (force simp: ledger_ok_def)
  have "sorted_wrt (<) (map al_created_at (tenant_rows t ?s)) \<and> ledger_chain H None (tenant_rows t ?s)" for t
    using assms(1) later r new_row_digest [OF assms(3)]
    by (auto simp: ledger_ok_def tenant_rows_append sorted_wrt_append chained_append end_hash_def r_def
        tenant_rows_def)
  moreover have "checkpoint_ok ?s c" if "checkpoint_ok s c" for c
    using that by (fastforce simp: checkpoint_ok_def tenant_rows_append)
  moreover have "distinct (map al_id (audit_ledger ?s))"
    using assms(1) ledger_id_fresh [OF assms(1,2)] r(4) by (auto simp: ledger_ok_def)
  moreover have "\<forall>q\<in>set (audit_ledger ?s). (\<exists>i<ticks ?s. al_created_at q = clock ?s i)
      \<and> (\<exists>i<ticks ?s. \<exists>x. al_id q = ledger_id (clock ?s i) x)"
    using assms(1) r(2,4) by (fastforce simp: ledger_ok_def less_Suc_eq)
  ultimately show ?thesis
    using assms(1) unfolding s' by (simp add: ledger_ok_def)
qed

subsection \<open>verifyChain on a ledger that keeps the invariant\<close>

lemma filter_after:
  assumes "sorted_wrt (<) (map f (pre @ r # post))"
  shows "filter (\<lambda>q. f r < (f q :: int)) (pre @ r # post) = post"
proof -
  have "\<forall>q\<in>set pre. \<not> f r < f q" and "\<forall>q\<in>set post. f r < f q"
    using assms by (fastforce simp: sorted_wrt_append)+
  then show ?thesis by (simp add: filter_empty_conv filter_id_conv)
qed

lemma usable_checkpoint_SomeD:
  assumes "ledger_ok H s" and "usable_checkpoint b t s = Some (c, u)"
  shows "\<exists>pre r post. tenant_rows t s = pre @ r # post \<and> u = al_created_at r \<and> cp_entry_id c = al_id r
    \<and> cp_hash c = al_hash r \<and> cp_entries c = Suc (length pre)"
proof -
  from assms(2) obtain q where c: "c \<in> set (checkpoints s)" "cp_tenant c = t"
    and q: "q \<in> set (audit_ledger s)" "al_id q = cp_entry_id c" "u = al_created_at q"
    by (auto simp: usable_checkpoint_def split: option.splits if_splits dest!: find_SomeD)
  from assms(1) c have "checkpoint_ok s c" by (auto simp: ledger_ok_def)
  with c(2) obtain pre r post where r: "tenant_rows t s = pre @ r # post" "cp_entry_id c = al_id r"
      "cp_hash c = al_hash r" "cp_entries c = Suc (length pre)"
    by (auto simp: checkpoint_ok_def)
  then have "r \<in> set (tenant_rows t s)" by simp
  then have "r \<in> set (audit_ledger s)" by (simp add: tenant_rows_def)
  with q r assms(1) have "q = r"
    by (intro distinct_key_unique [of al_id "audit_ledger s"]) (simp_all add: ledger_ok_def)
  with r q(3) show ?thesis by blast
qed

lemma save_checkpoint_set:
  "set (save_checkpoint c cs) \<subseteq> insert c (set cs)"
  "distinct (map cp_tenant cs) \<Longrightarrow> distinct (map cp_tenant (save_checkpoint c cs))"
proof -
  show "set (save_checkpoint c cs) \<subseteq> insert c (set cs)"
    by (auto simp: save_checkpoint_def set_update_where)
  have "map cp_tenant (update_where (\<lambda>d. cp_tenant d = cp_tenant c) (\<lambda>_. c) cs) = map cp_tenant cs"
    by (intro map_update_where) simp
  then show "distinct (map cp_tenant cs) \<Longrightarrow> distinct (map cp_tenant (save_checkpoint c cs))"
    by (auto simp: save_checkpoint_def)
qed

lemma ledger_ok_tick: "ledger_ok H s \<Longrightarrow> ledger_ok H (s\<lparr>ticks := Suc (ticks s)\<rparr>)"
  by (fastforce simp: ledger_ok_def checkpoint_ok_def less_Suc_eq)

lemma ledger_ok_save:
  assumes "ledger_ok H s" and "checkpoint_ok s c"
  shows "ledger_ok H (s\<lparr>checkpoints := save_checkpoint c (checkpoints s)\<rparr>)"
proof -
  have "checkpoint_ok (s\<lparr>checkpoints := x\<rparr>) d = checkpoint_ok s d" for x d
    by (simp add: checkpoint_ok_def)
  with assms show ?thesis
    using save_checkpoint_set [where c = c and cs = "checkpoints s"] by (auto simp: ledger_ok_def)
qed

lemma end_hash_cases: "rs \<noteq> [] \<Longrightarrow> end_hash h p rs = Some (h (last rs))"
  by (simp add: end_hash_def)

text \<open>What verification reads: the rows behind the checkpoint, or all of them.\<close>

lemma verify_rows_read:
  assumes "ledger_ok H s"
  obtains pre rows where "tenant_rows t s = pre @ rows"
    and "by_time (case usable_checkpoint b t s of None \<Rightarrow> tenant_rows t s
      | Some (c, u) \<Rightarrow> filter (\<lambda>r. u < al_created_at r) (tenant_rows t s)) = rows"
    and "map_option (\<lambda>(c, u). cp_hash c) (usable_checkpoint b t s) = end_hash al_hash None pre"
    and "map_option (\<lambda>(c, u). cp_entry_id c) (usable_checkpoint b t s) = end_hash al_id None pre"
    and "(case usable_checkpoint b t s of None \<Rightarrow> 0 | Some (c, u) \<Rightarrow> cp_entries c) = length pre"
proof (cases "usable_checkpoint b t s")
  case None
  have "sorted_wrt (<) (map al_created_at (tenant_rows t s))" using assms by (simp add: ledger_ok_def)
  with None that [of "[]" "tenant_rows t s"] show thesis by (simp add: by_time_sorted end_hash_def)
next
  case (Some cu)
  then obtain c u where cu: "usable_checkpoint b t s = Some (c, u)" by (cases cu) auto
  from usable_checkpoint_SomeD [OF assms cu] obtain pre r post where
    r: "tenant_rows t s = pre @ r # post" "u = al_created_at r" "cp_entry_id c = al_id r"
      "cp_hash c = al_hash r" "cp_entries c = Suc (length pre)" by blast
  have sorted: "sorted_wrt (<) (map al_created_at (pre @ r # post))"
    using assms r(1) by (metis ledger_ok_def)
  then have "by_time post = post" by (intro by_time_sorted) (simp add: sorted_wrt_append)
  with cu r filter_after [OF sorted] that [of "pre @ [r]" post] show thesis
    by (simp add: end_hash_def)
qed

lemma verifyChainInternal_ok:
  assumes ok: "ledger_ok H s"
  shows "vr_valid (fst (verifyChainInternal H t b s))
    \<and> vr_entryCount (fst (verifyChainInternal H t b s)) = length (tenant_rows t s)
    \<and> ledger_ok H (snd (verifyChainInternal H t b s))"
proof -
  let ?s = "s\<lparr>ticks := Suc (ticks s)\<rparr>"
  have ok': "ledger_ok H ?s" using ok by (rule ledger_ok_tick)
  from verify_rows_read [OF ok'] obtain pre rows where
    rows: "tenant_rows t ?s = pre @ rows"
      "by_time (case usable_checkpoint b t ?s of None \<Rightarrow> tenant_rows t ?s
        | Some (c, u) \<Rightarrow> filter (\<lambda>r. u < al_created_at r) (tenant_rows t ?s)) = rows"
      "map_option (\<lambda>(c, u). cp_hash c) (usable_checkpoint b t ?s) = end_hash al_hash None pre"
      "map_option (\<lambda>(c, u). cp_entry_id c) (usable_checkpoint b t ?s) = end_hash al_id None pre"
      "(case usable_checkpoint b t ?s of None \<Rightarrow> 0 | Some (c, u) \<Rightarrow> cp_entries c) = length pre"
    by blast
  have "ledger_chain H None (pre @ rows)" using ok' rows(1) by (metis ledger_ok_def)
  then have valid: "verify_rows H (end_hash al_hash None pre) rows = None"
    by (simp add: verify_rows_None_iff chained_append)
  define lastId where "lastId = end_hash al_id None (pre @ rows)"
  define lastHash where "lastHash = end_hash al_hash None (pre @ rows)"
  have last: "(if rows = [] then end_hash al_id None pre else Some (al_id (last rows))) = lastId"
      "(if rows = [] then end_hash al_hash None pre else Some (al_hash (last rows))) = lastHash"
    by (auto simp: lastId_def lastHash_def end_hash_def)
  have eq: "verifyChainInternal H t b s =
      (\<lparr>vr_valid = True, vr_brokenAt = None, vr_message = None,
        vr_latestHash = (if truthy lastHash then lastHash else None),
        vr_latestId = (if truthy lastId then lastId else None),
        vr_entryCount = length pre + length rows, vr_verifiedAt = clock s (ticks s)\<rparr>,
       if b \<and> truthy lastId \<and> truthy lastHash
       then ?s\<lparr>checkpoints := save_checkpoint \<lparr>cp_tenant = t, cp_entry_id = the lastId,
          cp_hash = the lastHash, cp_entries = length pre + length rows,
          cp_verified_at = clock s (ticks s)\<rparr> (checkpoints ?s)\<rparr> else ?s)"
    by (simp only: verifyChainInternal_def now_def Let_def prod.case rows(2-5) valid option.case last)
  have cp: "checkpoint_ok ?s \<lparr>cp_tenant = t, cp_entry_id = the lastId, cp_hash = the lastHash,
      cp_entries = length pre + length rows, cp_verified_at = clock s (ticks s)\<rparr>" if "truthy lastId"
  proof -
    have "pre @ rows \<noteq> []" using that by (auto simp: lastId_def end_hash_def)
    then obtain qs q where "pre @ rows = qs @ [q]" by (metis rev_exhaust)
    moreover from this have "length pre + length rows = Suc (length qs)"
      by (metis length_append length_append_singleton)
    ultimately show ?thesis using rows(1)
      unfolding checkpoint_ok_def by (intro exI [of _ qs] exI [of _ q] exI [of _ "[]"])
        (simp add: lastId_def lastHash_def end_hash_def)
  qed
  show ?thesis
    using ledger_ok_save [OF ok' cp] ok' rows(1) by (auto simp: eq)
qed

end
