(* ===== verification/AuditService.thy ===== *)
theory AuditService
  imports AuditLedger
begin

text \<open>
  The writers of the ledger: \<open>src/src/services/audit_service.ts\<close> and
  \<open>src/src/services/audit_ledger_service.ts\<close>. Each builds the input of one \<open>appendEntry\<close>.
\<close>

subsection \<open>Event types\<close>

definition ledger_event_types :: "string list" where
  "ledger_event_types =
     [''flag_override'', ''staging_approval'', ''staging_rejection'', ''integrity_gate_bypass'',
      ''user_induced_variance'', ''cpa_observation'', ''cfa_recommendation'', ''mapping_rule_update'',
      ''issue_status_change'', ''recon_confirmation'', ''recon_signoff'', ''je_approval'',
      ''je_posting'', ''statement_package_generation'', ''export_event'', ''close_lock'',
      ''certify_close'', ''close_session_transition'', ''close_session_reopened'',
      ''close_session_locked'', ''bridge_command'', ''evidence_link'',
      ''legacy_certified_source_used'', ''ai_mapping_suggestion_accepted'',
      ''ai_mapping_suggestion_rejected'', ''ai_mapping_suggestion_edited'',
      ''ai_variance_draft_accepted'', ''ai_variance_draft_rejected'', ''ai_variance_draft_edited'',
      ''mapping_auto_accepted'', ''mapping_auto_recommended'', ''mapping_prior_period_reused'',
      ''template_auto_applied'', ''ai_resolution_proposal'', ''recon_supporting_balance_set'',
      ''subsequent_event_created'', ''subsequent_event_disposition_set'',
      ''subsequent_events_confirmed_none'', ''fx_rounding_adjustment'', ''accounting_correction'',
      ''accounting_memory_change'', ''close_orchestrator_event'', ''audit_log_action'']"

definition ledger_event_map :: "(string \<times> string) list" where
  "ledger_event_map =
     [(''aje_posted'', ''je_posting''), (''aje_approved'', ''je_approval''),
      (''aje_corrected'', ''accounting_correction''), (''close_certified'', ''certify_close''),
      (''close_initiated'', ''close_session_transition''),
      (''close_advanced'', ''close_session_transition''),
      (''close_reopened'', ''close_session_reopened''), (''close_locked'', ''close_session_locked''),
      (''mapping_updated'', ''mapping_rule_update''), (''mapping_created'', ''mapping_rule_update''),
      (''statements_generated'', ''statement_package_generation''),
      (''issue_created'', ''issue_status_change''), (''issue_resolved'', ''issue_status_change''),
      (''issue_verified'', ''issue_status_change''), (''recon_completed'', ''recon_confirmation''),
      (''recon_approved'', ''recon_signoff''), (''audit_log_action'', ''audit_log_action'')]"

definition mapToLedgerEventType :: "string \<Rightarrow> string" where
  "mapToLedgerEventType eventType =
     (case map_of ledger_event_map eventType of None \<Rightarrow> ''mapping_rule_update'' | Some e \<Rightarrow> e)"

subsection \<open>audit_service.ts\<close>

record AuditEvent =
  ae_eventType :: string
  ae_entityId :: "string option"
  ae_periodId :: "string option"
  ae_periodLabel :: "string option"
  ae_userId :: string
  ae_targetType :: string
  ae_targetId :: string
  ae_beforeState :: "json option"
  ae_afterState :: "json option"
  ae_details :: "(string \<times> json) list"

text \<open>Assigning a property keeps the place of a key that exists.\<close>

definition set_member :: "string \<Rightarrow> json \<Rightarrow> (string \<times> json) list \<Rightarrow> (string \<times> json) list" where
  "set_member k v kvs =
     (if k \<in> fst ` set kvs then map (\<lambda>p. if fst p = k then (k, v) else p) kvs else kvs @ [(k, v)])"

definition undef_json :: "string option \<Rightarrow> json" where
  "undef_json x = (case x of None \<Rightarrow> JUndef | Some s \<Rightarrow> JStr s)"

definition event_snapshot :: "AuditEvent \<Rightarrow> json" where
  "event_snapshot event = JObj (own_order
     (foldl (\<lambda>kvs p. set_member (fst p) (snd p) kvs) (ae_details event)
        [(''eventType'', JStr (ae_eventType event)), (''targetType'', JStr (ae_targetType event)),
         (''targetId'', JStr (ae_targetId event)), (''userId'', JStr (ae_userId event)),
         (''entityId'', undef_json (ae_entityId event)),
         (''periodId'', undef_json (ae_periodId event)),
         (''periodLabel'', undef_json (ae_periodLabel event))]))"

definition recordAuditEvent ::
  "bool \<Rightarrow> (string \<Rightarrow> string) \<Rightarrow> tenant_id \<Rightarrow> AuditEvent \<Rightarrow> ('a, unit) op" where
  "recordAuditEvent isPool H tenantId event s =
     andThen (appendEntry isPool H
       \<lparr>in_tenant = tenantId,
        in_period = coalesce (ae_periodLabel event) (ae_periodId event),
        in_event = mapToLedgerEventType (ae_eventType event),
        in_flags = event_snapshot event, in_dissent = None,
        in_rationale = ''Audit: '' @ ae_eventType event @ '' on '' @ ae_targetType event @ '' ''
          @ ae_targetId event,
        in_created_by = Some (ae_userId event),
        in_before = ae_beforeState event, in_after = ae_afterState event\<rparr> s)
       (\<lambda>_ s. (Inr (), s))"

record MaterialEvent =
  me_tenantId :: tenant_id
  me_periodLabel :: "string option"
  me_eventType :: string
  me_snapshot :: "(string \<times> json) list"
  me_dissent :: "json option"
  me_createdBy :: "string option"

definition recordMaterialEvent ::
  "bool \<Rightarrow> (string \<Rightarrow> string) \<Rightarrow> MaterialEvent \<Rightarrow> ('a, unit) op" where
  "recordMaterialEvent isPool H input s =
     andThen (appendEntry isPool H
       \<lparr>in_tenant = me_tenantId input, in_period = me_periodLabel input,
        in_event = me_eventType input, in_flags = JObj (me_snapshot input),
        in_dissent = me_dissent input,
        in_rationale = ''Material event: '' @ me_eventType input,
        in_created_by = me_createdBy input, in_before = None, in_after = None\<rparr> s)
       (\<lambda>_ s. (Inr (), s))"

definition recordLegacyCertifiedSourceUsed ::
  "bool \<Rightarrow> (string \<Rightarrow> string) \<Rightarrow> tenant_id \<Rightarrow> string \<Rightarrow> string option \<Rightarrow> string option \<Rightarrow> ('a, unit) op" where
  "recordLegacyCertifiedSourceUsed isPool H tenantId closeSessionId periodLabel createdBy s =
     recordMaterialEvent isPool H
       \<lparr>me_tenantId = tenantId, me_periodLabel = periodLabel,
        me_eventType = ''legacy_certified_source_used'',
        me_snapshot = [(''closeSessionId'', JStr closeSessionId), (''tenantId'', JStr tenantId),
                       (''resolvedSource'', JStr ''legacy'')],
        me_dissent = None, me_createdBy = createdBy\<rparr> s"

record AuditLogActionEntry =
  la_actor :: string
  la_action :: string
  la_resource :: "string option"
  la_detail :: "string option"
  la_payload :: "json option"
  la_entityId :: "string option"
  la_periodId :: "string option"
  la_periodLabel :: "string option"

definition recordAuditLogAction ::
  "bool \<Rightarrow> (string \<Rightarrow> string) \<Rightarrow> tenant_id \<Rightarrow> AuditLogActionEntry \<Rightarrow> ('a, unit) op" where
  "recordAuditLogAction isPool H tenantId entry s =
     recordAuditEvent isPool H tenantId
       \<lparr>ae_eventType = ''audit_log_action'', ae_entityId = la_entityId entry,
        ae_periodId = la_periodId entry, ae_periodLabel = la_periodLabel entry,
        ae_userId = la_actor entry, ae_targetType = ''audit_log'',
        ae_targetId = (case la_resource entry of None \<Rightarrow> la_action entry | Some r \<Rightarrow> r),
        ae_beforeState = None, ae_afterState = None,
        ae_details =
          [(''action'', JStr (la_action entry)), (''resource'', undef_json (la_resource entry)),
           (''detail'', undef_json (la_detail entry)),
           (''payload'', case la_payload entry of None \<Rightarrow> JUndef | Some p \<Rightarrow> p)]\<rparr> s"

subsection \<open>audit_ledger_service.ts\<close>

record RecordOverrideInput =
  ov_tenantId :: tenant_id
  ov_periodLabel :: "string option"
  ov_eventType :: string
  ov_snapshot :: "(string \<times> json) list"
  ov_dissent :: "json option"
  ov_rationale :: string
  ov_createdBy :: "string option"

definition recordOverride :: "(string \<Rightarrow> string) \<Rightarrow> RecordOverrideInput \<Rightarrow> ('a, unit) op" where
  "recordOverride H input s =
     (if js_trim (ov_rationale input) = []
      then (Inl (JsError ''userPromptRationale is required for audit ledger override''), s)
      else andThen (appendEntry True H
        \<lparr>in_tenant = ov_tenantId input, in_period = ov_periodLabel input,
         in_event = ov_eventType input, in_flags = JObj (ov_snapshot input),
         in_dissent = ov_dissent input, in_rationale = js_trim (ov_rationale input),
         in_created_by = ov_createdBy input, in_before = None, in_after = None\<rparr> s)
        (\<lambda>_ s. (Inr (), s)))"

datatype observation_type = CpaObservation | CfaRecommendation

fun observation_event :: "observation_type \<Rightarrow> string" where
  "observation_event CpaObservation = ''cpa_observation''"
| "observation_event CfaRecommendation = ''cfa_recommendation''"

fun OBSERVATION_RATIONALE :: "observation_type \<Rightarrow> string" where
  "OBSERVATION_RATIONALE CpaObservation = ''System observation.''"
| "OBSERVATION_RATIONALE CfaRecommendation = ''System recommendation.''"

definition recordObservation ::
  "(string \<Rightarrow> string) \<Rightarrow> tenant_id \<Rightarrow> string option \<Rightarrow> observation_type \<Rightarrow> (string \<times> json) list
     \<Rightarrow> json option \<Rightarrow> string option \<Rightarrow> ('a, unit) op" where
  "recordObservation H tenantId periodLabel eventType snapshot dissent createdBy s =
     andThen (appendEntry True H
        \<lparr>in_tenant = tenantId, in_period = periodLabel, in_event = observation_event eventType,
         in_flags = JObj snapshot, in_dissent = dissent,
         in_rationale = OBSERVATION_RATIONALE eventType,
         in_created_by = createdBy, in_before = None, in_after = None\<rparr> s)
        (\<lambda>_ s. (Inr (), s))"

subsection \<open>Every writer keeps the chain\<close>

lemma appendEntry_ok:
  assumes "ledger_ok H s" and "clock_ok s"
  shows "appendEntry b H input s = appendEntryInternal H input s"
  using appendEntryInternal_result [OF assms]
  by (simp add: appendEntry_def withTransaction.simps Let_def)

lemma mapToLedgerEventType_closed: "mapToLedgerEventType e \<in> set ledger_event_types"
proof (cases "map_of ledger_event_map e")
  case None
  then show ?thesis by (simp add: mapToLedgerEventType_def ledger_event_types_def)
next
  case (Some l)
  then have "l \<in> snd ` set ledger_event_map" by (force dest: map_of_SomeD)
  then show ?thesis using Some
    by (auto simp: mapToLedgerEventType_def ledger_event_types_def ledger_event_map_def)
qed

lemma fst_set_member: "k \<notin> fst ` set kvs \<Longrightarrow> map fst (set_member k v kvs) = map fst kvs @ [k]"
  "k \<in> fst ` set kvs \<Longrightarrow> map fst (set_member k v kvs) = map fst kvs"
  by (auto simp: set_member_def)

lemma set_member_wf:
  assumes "wf_json (JObj kvs)" and "wf_json v"
  shows "wf_json (JObj (set_member k v kvs))"
proof -
  have "distinct (map fst (set_member k v kvs))"
    using assms(1) by (cases "k \<in> fst ` set kvs") (auto simp: fst_set_member)
  moreover have "wf_json w" if "(l, w) \<in> set (set_member k v kvs)" for l w
    using that assms by (fastforce simp: set_member_def list_all_iff split: if_splits)
  ultimately show ?thesis by (auto simp: list_all_iff)
qed

lemma set_members_wf:
  "wf_json (JObj kvs) \<Longrightarrow> \<forall>p\<in>set ps. wf_json (snd p)
     \<Longrightarrow> wf_json (JObj (foldl (\<lambda>kvs p. set_member (fst p) (snd p) kvs) kvs ps))"
  by (induction ps arbitrary: kvs) (auto simp del: wf_json.simps intro!: set_member_wf)

lemma own_order_wf: "wf_json (JObj kvs) \<Longrightarrow> wf_json (JObj (own_order kvs))"
proof -
  have "distinct (map fst (own_order kvs)) = distinct (map fst kvs)"
    by (metis mset_eq_imp_distinct_iff mset_map mset_own_order)
  then show "wf_json (JObj kvs) \<Longrightarrow> wf_json (JObj (own_order kvs))"
    by (simp add: list_all_iff)
qed

lemma undef_json_wf [simp]: "wf_json (undef_json x)"
  by (simp add: undef_json_def split: option.splits)

lemma event_snapshot_wf: "wf_json (JObj (ae_details event)) \<Longrightarrow> wf_json (event_snapshot event)"
  unfolding event_snapshot_def by (intro own_order_wf set_members_wf) auto

end
