(* ===== verification/SessionRepo.thy ===== *)
theory SessionRepo
  imports AuditService
begin

text \<open>
  The table \<open>close_sessions\<close> and \<open>src/src/db/repositories/close_session_repository.ts\<close>, with the
  constraints of \<open>migrations/065\<close> and \<open>migrations/220\<close>, and \<open>src/src/lib/session_write_guard.ts\<close>.

  A DATE is its ISO text \<open>YYYY-MM-DD\<close>, compared as text (the process runs in UTC, so reading a
  DATE and printing it gives it back). A status that is not in the CHECK constraint has no value here.
\<close>

datatype CloseSessionStatus =
  Open | InProgress | UnderReview | Certified | SubsequentEventsReview | Locked

fun session_status_text :: "CloseSessionStatus \<Rightarrow> string" where
  "session_status_text Open = ''open''"
| "session_status_text InProgress = ''in_progress''"
| "session_status_text UnderReview = ''under_review''"
| "session_status_text Certified = ''certified''"
| "session_status_text SubsequentEventsReview = ''subsequent_events_review''"
| "session_status_text Locked = ''locked''"

record close_session_row =
  cs_id :: string
  cs_tenant :: tenant_id
  cs_entity :: string
  cs_period_start :: string
  cs_period_end :: string
  cs_basis :: string
  cs_standard :: string
  cs_status :: CloseSessionStatus
  cs_certified_by :: "string option"
  cs_certified_at :: "timestamp option"
  cs_certification_memo :: "string option"
  cs_certified_snapshot_id :: "string option"
  cs_certification_artifact_id :: "string option"
  cs_reopened_at :: "timestamp option"
  cs_reopened_by :: "string option"
  cs_reopen_reason :: "string option"
  cs_statements_stale_since :: "timestamp option"
  cs_advanced_to_review_by :: "string option"
  cs_advanced_to_review_at :: "timestamp option"
  cs_se_confirmed_by :: "string option"
  cs_se_confirmed_at :: "timestamp option"
  cs_created_at :: timestamp
  cs_updated_at :: timestamp

record CloseSession =
  ses_id :: string
  ses_tenantId :: tenant_id
  ses_entityId :: string
  ses_periodStart :: string
  ses_periodEnd :: string
  ses_basis :: string
  ses_standard :: string
  ses_status :: CloseSessionStatus
  ses_certifiedBy :: "string option"
  ses_certifiedAt :: "string option"
  ses_certificationMemo :: "string option"
  ses_certifiedSnapshotId :: "string option"
  ses_certificationArtifactId :: "string option"
  ses_reopenedAt :: "string option"
  ses_reopenedBy :: "string option"
  ses_reopenReason :: "string option"
  ses_statementsStaleSince :: "string option"
  ses_advancedToReviewBy :: "string option"
  ses_advancedToReviewAt :: "string option"
  ses_subsequentEventsConfirmedBy :: "string option"
  ses_subsequentEventsConfirmedAt :: "string option"
  ses_createdAt :: string
  ses_updatedAt :: string

record session_db = ledger_db +
  close_sessions :: "close_session_row list"

type_synonym ('a, 'b) session_op = "'a session_db_scheme \<Rightarrow> (error + 'b) \<times> 'a session_db_scheme"

subsection \<open>Reading\<close>

definition toISODateString :: "string \<Rightarrow> string" where
  "toISODateString v = (if 10 \<le> length v then take 10 v else v)"

definition rowToSession :: "close_session_row \<Rightarrow> CloseSession" where
  "rowToSession row =
     \<lparr>ses_id = cs_id row, ses_tenantId = cs_tenant row, ses_entityId = cs_entity row,
      ses_periodStart = toISODateString (cs_period_start row),
      ses_periodEnd = toISODateString (cs_period_end row),
      ses_basis = cs_basis row, ses_standard = cs_standard row, ses_status = cs_status row,
      ses_certifiedBy = cs_certified_by row,
      ses_certifiedAt = map_option toISOString (cs_certified_at row),
      ses_certificationMemo = cs_certification_memo row,
      ses_certifiedSnapshotId = cs_certified_snapshot_id row,
      ses_certificationArtifactId = cs_certification_artifact_id row,
      ses_reopenedAt = map_option toISOString (cs_reopened_at row),
      ses_reopenedBy = cs_reopened_by row, ses_reopenReason = cs_reopen_reason row,
      ses_statementsStaleSince = map_option toISOString (cs_statements_stale_since row),
      ses_advancedToReviewBy = cs_advanced_to_review_by row,
      ses_advancedToReviewAt = map_option toISOString (cs_advanced_to_review_at row),
      ses_subsequentEventsConfirmedBy = cs_se_confirmed_by row,
      ses_subsequentEventsConfirmedAt = map_option toISOString (cs_se_confirmed_at row),
      ses_createdAt = toISOString (cs_created_at row), ses_updatedAt = toISOString (cs_updated_at row)\<rparr>"

definition session_key :: "tenant_id \<Rightarrow> string \<Rightarrow> close_session_row \<Rightarrow> bool" where
  "session_key tenant i r = (cs_tenant r = tenant \<and> cs_id r = i)"

definition session_row :: "tenant_id \<Rightarrow> string \<Rightarrow> 'a session_db_scheme \<Rightarrow> close_session_row option" where
  "session_row tenant i s = find (session_key tenant i) (close_sessions s)"

definition getCloseSessionById ::
  "tenant_id \<Rightarrow> string \<Rightarrow> 'a session_db_scheme \<Rightarrow> CloseSession option" where
  "getCloseSessionById tenant i s = map_option rowToSession (session_row tenant i s)"

text \<open>\<open>FOR UPDATE\<close> takes a row lock that lasts until the end of the transaction.\<close>

definition getCloseSessionByIdForUpdate ::
  "tenant_id \<Rightarrow> string \<Rightarrow> 'a session_db_scheme \<Rightarrow> CloseSession option" where
  "getCloseSessionByIdForUpdate tenant i s = map_option rowToSession (session_row tenant i s)"

definition overlaps :: "tenant_id \<Rightarrow> string \<Rightarrow> string \<Rightarrow> string \<Rightarrow> close_session_row \<Rightarrow> bool" where
  "overlaps tenant entity pStart pEnd r =
     (cs_tenant r = tenant \<and> cs_entity r = entity \<and> cs_period_start r \<le> pEnd \<and> pStart \<le> cs_period_end r)"

definition hasOverlappingSession ::
  "tenant_id \<Rightarrow> string \<Rightarrow> string \<Rightarrow> string \<Rightarrow> string option \<Rightarrow> 'a session_db_scheme \<Rightarrow> bool" where
  "hasOverlappingSession tenant entity pStart pEnd excludeId s =
     (0 < row_count (\<lambda>r. overlaps tenant entity pStart pEnd r
        \<and> (excludeId = None \<or> Some (cs_id r) \<noteq> excludeId)) (close_sessions s))"

definition getOverlappingSession ::
  "tenant_id \<Rightarrow> string \<Rightarrow> string \<Rightarrow> string \<Rightarrow> 'a session_db_scheme \<Rightarrow> CloseSession option" where
  "getOverlappingSession tenant entity pStart pEnd s =
     map_option rowToSession (find (overlaps tenant entity pStart pEnd) (close_sessions s))"

text \<open>\<open>ORDER BY period_start DESC, created_at DESC\<close>.\<close>

definition listCloseSessions ::
  "tenant_id \<Rightarrow> string option \<Rightarrow> CloseSessionStatus option \<Rightarrow> 'a session_db_scheme \<Rightarrow> CloseSession list" where
  "listCloseSessions tenant entity st s =
     map rowToSession (rev (sort_key cs_period_start (sort_key cs_created_at
       (filter (\<lambda>r. cs_tenant r = tenant \<and> (truthy entity \<longrightarrow> Some (cs_entity r) = entity)
          \<and> (case st of None \<Rightarrow> True | Some x \<Rightarrow> cs_status r = x)) (close_sessions s)))))"

subsection \<open>Writing\<close>

definition is_date :: "string \<Rightarrow> bool" where
  "is_date d =
     (length d = 10 \<and> list_all is_digit (take 4 d) \<and> d ! 4 = CHR ''-'' \<and> list_all is_digit (take 2 (drop 5 d))
      \<and> d ! 7 = CHR ''-'' \<and> list_all is_digit (drop 8 d)
      \<and> (let y = digits_value (take 4 d); m = digits_value (take 2 (drop 5 d)); k = digits_value (drop 8 d)
         in 1 \<le> y \<and> 1 \<le> m \<and> m \<le> 12 \<and> 1 \<le> k \<and> k \<le> last_day y m))"

definition insert_session_row :: "close_session_row \<Rightarrow> ('a, unit) session_op" where
  "insert_session_row r s =
     (if \<not> is_date (cs_period_start r) \<or> \<not> is_date (cs_period_end r)
      then (Inl (DbError ''invalid input syntax for type date''), s)
      else if cs_period_end r < cs_period_start r then (Inl (DbError ''chk_period_order''), s)
      else if cs_basis r \<notin> {''cash'', ''accrual''} then (Inl (DbError ''chk_basis''), s)
      else if cs_id r \<in> cs_id ` set (close_sessions s) then (Inl (DbError ''close_sessions_pkey''), s)
      else if hasOverlappingSession (cs_tenant r) (cs_entity r) (cs_period_start r) (cs_period_end r) None s
      then (Inl (DbError ''no_overlapping_sessions''), s)
      else (Inr (), s\<lparr>close_sessions := close_sessions s @ [r]\<rparr>))"

definition insertCloseSession ::
  "string \<Rightarrow> tenant_id \<Rightarrow> string \<Rightarrow> string \<Rightarrow> string \<Rightarrow> string \<Rightarrow> string \<Rightarrow> CloseSessionStatus
     \<Rightarrow> ('a, CloseSession) session_op" where
  "insertCloseSession i tenant entity pStart pEnd bas std st s0 =
     (let (t, s) = now s0;
          r = \<lparr>cs_id = i, cs_tenant = tenant, cs_entity = entity, cs_period_start = pStart,
               cs_period_end = pEnd, cs_basis = bas, cs_standard = std, cs_status = st,
               cs_certified_by = None, cs_certified_at = None, cs_certification_memo = None,
               cs_certified_snapshot_id = None, cs_certification_artifact_id = None,
               cs_reopened_at = None, cs_reopened_by = None, cs_reopen_reason = None,
               cs_statements_stale_since = None, cs_advanced_to_review_by = None,
               cs_advanced_to_review_at = None, cs_se_confirmed_by = None,
               cs_se_confirmed_at = None, cs_created_at = t, cs_updated_at = t\<rparr>
      in andThen (insert_session_row r s) (\<lambda>_ s.
           (case session_row tenant i s of
              None \<Rightarrow> (Inl (JsError ''Cannot read properties of undefined''), s)
            | Some row \<Rightarrow> (Inr (rowToSession row), s))))"

definition update_session ::
  "tenant_id \<Rightarrow> string \<Rightarrow> (close_session_row \<Rightarrow> close_session_row) \<Rightarrow> 'a session_db_scheme
     \<Rightarrow> 'a session_db_scheme" where
  "update_session tenant i f s =
     s\<lparr>close_sessions := update_where (session_key tenant i) f (close_sessions s)\<rparr>"

definition updateCloseSessionStatus ::
  "tenant_id \<Rightarrow> string \<Rightarrow> CloseSessionStatus \<Rightarrow> string option \<Rightarrow> 'a session_db_scheme
     \<Rightarrow> CloseSession option \<times> 'a session_db_scheme" where
  "updateCloseSessionStatus tenant i st actorUserId s0 =
     (let (t, s) = now s0;
          s' = (if st = UnderReview \<and> truthy actorUserId
                then update_session tenant i (\<lambda>r. r\<lparr>cs_status := st,
                       cs_advanced_to_review_by := actorUserId, cs_advanced_to_review_at := Some t,
                       cs_updated_at := t\<rparr>) s
                else if st = InProgress
                then update_session tenant i (\<lambda>r. r\<lparr>cs_status := st,
                       cs_advanced_to_review_by := None, cs_advanced_to_review_at := None,
                       cs_updated_at := t\<rparr>) s
                else update_session tenant i (\<lambda>r. r\<lparr>cs_status := st, cs_updated_at := t\<rparr>) s)
      in (getCloseSessionById tenant i s', s'))"

definition updateCertification ::
  "tenant_id \<Rightarrow> string \<Rightarrow> string \<Rightarrow> timestamp \<Rightarrow> string option \<Rightarrow> string option \<Rightarrow> string option
     \<Rightarrow> 'a session_db_scheme \<Rightarrow> CloseSession option \<times> 'a session_db_scheme" where
  "updateCertification tenant i certBy certAt memo snapshotId artifactId s0 =
     (let (t, s) = now s0;
          s' = update_session tenant i (\<lambda>r. r\<lparr>cs_status := Certified, cs_certified_by := Some certBy,
                 cs_certified_at := Some certAt, cs_certification_memo := memo,
                 cs_certified_snapshot_id := coalesce snapshotId (cs_certified_snapshot_id r),
                 cs_certification_artifact_id := coalesce artifactId (cs_certification_artifact_id r),
                 cs_updated_at := t\<rparr>) s
      in if row_count (session_key tenant i) (close_sessions s) = 0 then (None, s')
         else (getCloseSessionById tenant i s', s'))"

definition setStatementsStaleSince ::
  "tenant_id \<Rightarrow> string \<Rightarrow> 'a session_db_scheme \<Rightarrow> 'a session_db_scheme" where
  "setStatementsStaleSince tenant i s0 =
     (let (t, s) = now s0 in
      update_session tenant i (\<lambda>r. r\<lparr>cs_statements_stale_since := Some t, cs_updated_at := t\<rparr>) s)"

definition clearStatementsStaleSince ::
  "tenant_id \<Rightarrow> string \<Rightarrow> timestamp option \<Rightarrow> 'a session_db_scheme \<Rightarrow> bool \<times> 'a session_db_scheme" where
  "clearStatementsStaleSince tenant i generationStartedAt s0 =
     (let (t, s) = now s0;
          clear = (\<lambda>r. r\<lparr>cs_statements_stale_since := None, cs_updated_at := t\<rparr>)
      in case generationStartedAt of
           Some g \<Rightarrow>
             (let fresh = (\<lambda>r. session_key tenant i r \<and> (case cs_statements_stale_since r of
                None \<Rightarrow> True | Some u \<Rightarrow> u \<le> g))
              in (0 < row_count fresh (close_sessions s),
                  s\<lparr>close_sessions := update_where fresh clear (close_sessions s)\<rparr>))
         | None \<Rightarrow> (True, update_session tenant i clear s))"

definition updateReopen ::
  "tenant_id \<Rightarrow> string \<Rightarrow> string \<Rightarrow> string \<Rightarrow> 'a session_db_scheme \<Rightarrow> CloseSession option \<times> 'a session_db_scheme" where
  "updateReopen tenant i by reason s0 =
     (let (t, s) = now s0;
          s' = update_session tenant i (\<lambda>r. r\<lparr>cs_status := InProgress, cs_reopened_at := Some t,
                 cs_reopened_by := Some by, cs_reopen_reason := Some reason, cs_updated_at := t\<rparr>) s
      in if row_count (session_key tenant i) (close_sessions s) = 0 then (None, s')
         else (getCloseSessionById tenant i s', s'))"

subsection \<open>session_write_guard.ts\<close>

definition FROZEN_STATUSES :: "CloseSessionStatus list" where
  "FROZEN_STATUSES = [Certified, Locked]"

text \<open>\<open>Inl\<close> is the HTTP status that was sent.\<close>

definition guardSessionWritable :: "tenant_id \<Rightarrow> string \<Rightarrow> 'a session_db_scheme \<Rightarrow> nat + unit" where
  "guardSessionWritable tenant sessionId s =
     (case getCloseSessionById tenant sessionId s of
        None \<Rightarrow> Inl 404
      | Some session \<Rightarrow> if ses_status session \<in> set FROZEN_STATUSES then Inl 409 else Inr ())"

section \<open>Lemmas\<close>

lemma rowToSession_simps [simp]:
  "ses_status (rowToSession r) = cs_status r" "ses_id (rowToSession r) = cs_id r"
  "ses_tenantId (rowToSession r) = cs_tenant r" "ses_entityId (rowToSession r) = cs_entity r"
  "ses_advancedToReviewBy (rowToSession r) = cs_advanced_to_review_by r"
  "ses_certifiedBy (rowToSession r) = cs_certified_by r"
  "ses_subsequentEventsConfirmedBy (rowToSession r) = cs_se_confirmed_by r"
  by (simp_all add: rowToSession_def)

lemma session_row_frame [simp]:
  "session_row t i (s\<lparr>ticks := a\<rparr>) = session_row t i s" "session_row t i (s\<lparr>drawn := b\<rparr>) = session_row t i s"
  "session_row t i (s\<lparr>calls := c\<rparr>) = session_row t i s"
  "session_row t i (s\<lparr>audit_ledger := d\<rparr>) = session_row t i s"
  by (simp_all add: session_row_def)

lemma session_row_key: "session_row t i s = Some r \<Longrightarrow> r \<in> set (close_sessions s) \<and> cs_tenant r = t \<and> cs_id r = i"
  by (auto simp: session_row_def session_key_def dest: find_SomeD)

text \<open>An update of one session by a function that keeps its key.\<close>

lemma session_row_update:
  assumes "\<And>r. session_key t i r \<Longrightarrow> cs_tenant (f r) = cs_tenant r \<and> cs_id (f r) = cs_id r"
  shows "session_row u j (update_session t i f s) =
    (if u = t \<and> j = i then map_option f (session_row t i s) else session_row u j s)"
proof (cases "u = t \<and> j = i")
  case True
  have "find (session_key t i) (update_where (session_key t i) f rows)
      = map_option f (find (session_key t i) rows)" for rows
    using assms by (intro find_update_same) (auto simp: session_key_def)
  with True show ?thesis by (simp add: session_row_def update_session_def)
next
  case False
  then have "find (session_key u j) (update_where (session_key t i) f rows) = find (session_key u j) rows" for rows
    using assms by (intro find_update_other) (auto simp: session_key_def)
  with False show ?thesis by (auto simp: session_row_def update_session_def)
qed

lemma row_count_session: "row_count (session_key t i) (close_sessions s) = 0 \<longleftrightarrow> session_row t i s = None"
  by (simp add: row_count_0_iff session_row_def find_None_iff_all)

end
