(* ===== verification/IssueService.thy ===== *)
theory IssueService
  imports SessionRepo
begin

text \<open>
  The issues of a close: \<open>src/src/db/repositories/close_issue_repository.ts\<close> and
  \<open>src/src/services/issue_service.ts\<close>, with the constraints of \<open>migrations/099\<close>. \<open>notify\<close> is a
  call of \<open>notification_service.ts\<close>; its failure is swallowed.
\<close>

datatype CloseIssueSeverity = Critical | Blocking | Warning | Info

datatype CloseIssueCategory =
  Ingestion | Reconciliation | Adjustment | Statement | Review | JournalEntryCategory | General

datatype CloseIssueStatus = Detected | Assigned | IssueInProgress | Resolved | Verified | Waived

fun severity_text :: "CloseIssueSeverity \<Rightarrow> string" where
  "severity_text Critical = ''critical''"
| "severity_text Blocking = ''blocking''"
| "severity_text Warning = ''warning''"
| "severity_text Info = ''info''"

fun issue_status_text :: "CloseIssueStatus \<Rightarrow> string" where
  "issue_status_text Detected = ''detected''"
| "issue_status_text Assigned = ''assigned''"
| "issue_status_text IssueInProgress = ''in_progress''"
| "issue_status_text Resolved = ''resolved''"
| "issue_status_text Verified = ''verified''"
| "issue_status_text Waived = ''waived''"

record CloseIssue =
  ci_id :: string
  ci_tenant :: tenant_id
  ci_period :: string
  ci_entity :: string
  ci_type :: string
  ci_severity :: CloseIssueSeverity
  ci_category :: CloseIssueCategory
  ci_status :: CloseIssueStatus
  ci_title :: string
  ci_description :: string
  ci_affected_accounts :: "string list option"
  ci_affected_amount :: "string option"
  ci_source_check :: "string option"
  ci_source_details :: "json option"
  ci_assigned_to :: "string option"
  ci_assigned_at :: "timestamp option"
  ci_assigned_by :: "string option"
  ci_resolution_type :: "string option"
  ci_resolution_description :: "string option"
  ci_resolution_aje_id :: "string option"
  ci_resolution_recon_id :: "string option"
  ci_resolution_mapping_change :: "json option"
  ci_resolved_by :: "string option"
  ci_resolved_at :: "timestamp option"
  ci_verified_by :: "string option"
  ci_verified_at :: "timestamp option"
  ci_verification_method :: "string option"
  ci_created_at :: timestamp
  ci_updated_at :: timestamp

record IssueHistoryEntry =
  ih_id :: string
  ih_issue :: string
  ih_from :: CloseIssueStatus
  ih_to :: CloseIssueStatus
  ih_changed_by :: string
  ih_changed_at :: timestamp
  ih_comment :: "string option"

record issue_db = session_db +
  close_issues :: "CloseIssue list"
  issue_history :: "IssueHistoryEntry list"

type_synonym ('a, 'b) issue_op = "'a issue_db_scheme \<Rightarrow> (error + 'b) \<times> 'a issue_db_scheme"

section \<open>close_issue_repository.ts\<close>

definition json_object :: "json option \<Rightarrow> json option" where
  "json_object v = (case v of Some (JObj kvs) \<Rightarrow> Some (JObj kvs) | Some (JArr vs) \<Rightarrow> Some (JArr vs) | _ \<Rightarrow> None)"

definition rowToIssue :: "CloseIssue \<Rightarrow> CloseIssue" where
  "rowToIssue r = r
     \<lparr>ci_affected_accounts := Some (case ci_affected_accounts r of None \<Rightarrow> [] | Some xs \<Rightarrow> xs),
      ci_source_details := Some (case json_object (ci_source_details r) of None \<Rightarrow> JObj [] | Some v \<Rightarrow> v),
      ci_resolution_mapping_change := json_object (ci_resolution_mapping_change r)\<rparr>"

definition issue_key :: "tenant_id \<Rightarrow> string \<Rightarrow> CloseIssue \<Rightarrow> bool" where
  "issue_key tenant i r = (ci_tenant r = tenant \<and> ci_id r = i)"

definition issue_row :: "tenant_id \<Rightarrow> string \<Rightarrow> 'a issue_db_scheme \<Rightarrow> CloseIssue option" where
  "issue_row tenant i s = find (issue_key tenant i) (close_issues s)"

definition getCloseIssueById :: "tenant_id \<Rightarrow> string \<Rightarrow> 'a issue_db_scheme \<Rightarrow> CloseIssue option" where
  "getCloseIssueById tenant i s = map_option rowToIssue (issue_row tenant i s)"

record CreateCloseIssueInput =
  ni_tenantId :: tenant_id
  ni_periodId :: string
  ni_entityId :: string
  ni_issueType :: string
  ni_severity :: CloseIssueSeverity
  ni_category :: CloseIssueCategory
  ni_title :: string
  ni_description :: "string option"
  ni_affectedAccounts :: "string list option"
  ni_affectedAmount :: "string option"
  ni_sourceCheck :: "string option"
  ni_sourceDetails :: "json option"

text \<open>The CHECK of \<open>migrations/099\<close> on \<open>category\<close>, the foreign key and the primary key.\<close>

definition insert_issue_row :: "CloseIssue \<Rightarrow> ('a, unit) issue_op" where
  "insert_issue_row r s =
     (if ci_category r = JournalEntryCategory
      then (Inl (DbError ''tenant_close_issues_category_check''), s)
      else if ci_id r \<in> ci_id ` set (close_issues s) then (Inl (DbError ''tenant_close_issues_pkey''), s)
      else if ci_period r \<notin> cs_id ` set (close_sessions s)
      then (Inl (DbError ''tenant_close_issues_period_id_fkey''), s)
      else (Inr (), s\<lparr>close_issues := close_issues s @ [r]\<rparr>))"

definition new_issue_row ::
  "string \<Rightarrow> CreateCloseIssueInput \<Rightarrow> CloseIssueStatus \<Rightarrow> timestamp \<Rightarrow> CloseIssue" where
  "new_issue_row issueId input st t =
     \<lparr>ci_id = issueId, ci_tenant = ni_tenantId input, ci_period = ni_periodId input,
      ci_entity = ni_entityId input, ci_type = ni_issueType input,
      ci_severity = ni_severity input, ci_category = ni_category input, ci_status = st,
      ci_title = ni_title input,
      ci_description = (case ni_description input of None \<Rightarrow> [] | Some d \<Rightarrow> d),
      ci_affected_accounts = Some (case ni_affectedAccounts input of None \<Rightarrow> [] | Some xs \<Rightarrow> xs),
      ci_affected_amount = ni_affectedAmount input, ci_source_check = ni_sourceCheck input,
      ci_source_details = Some (case ni_sourceDetails input of None \<Rightarrow> JObj []
        | Some d \<Rightarrow> jsonb_roundtrip d),
      ci_assigned_to = None, ci_assigned_at = None, ci_assigned_by = None,
      ci_resolution_type = None, ci_resolution_description = None,
      ci_resolution_aje_id = None, ci_resolution_recon_id = None,
      ci_resolution_mapping_change = None, ci_resolved_by = None, ci_resolved_at = None,
      ci_verified_by = None, ci_verified_at = None, ci_verification_method = None,
      ci_created_at = t, ci_updated_at = t\<rparr>"

definition insertCloseIssue ::
  "string \<Rightarrow> CreateCloseIssueInput \<Rightarrow> CloseIssueStatus \<Rightarrow> ('a, CloseIssue) issue_op" where
  "insertCloseIssue issueId input st s0 =
     (let (t, s) = now s0 in
      andThen (insert_issue_row (new_issue_row issueId input st t) s) (\<lambda>_ s.
        (case getCloseIssueById (ni_tenantId input) issueId s of
           None \<Rightarrow> (Inl (JsError ''Cannot read properties of undefined''), s)
         | Some issue \<Rightarrow> (Inr issue, s))))"

record IssueFilter =
  if_periodId :: "string option"
  if_status :: "CloseIssueStatus option"
  if_severity :: "string option"
  if_category :: "CloseIssueCategory option"
  if_issueType :: "string option"

definition listCloseIssues :: "tenant_id \<Rightarrow> IssueFilter \<Rightarrow> 'a issue_db_scheme \<Rightarrow> CloseIssue list" where
  "listCloseIssues tenant f s =
     map rowToIssue (rev (sort_key ci_created_at (filter (\<lambda>r. ci_tenant r = tenant
        \<and> (truthy (if_periodId f) \<longrightarrow> Some (ci_period r) = if_periodId f)
        \<and> (if_status f \<noteq> None \<longrightarrow> Some (ci_status r) = if_status f)
        \<and> (truthy (if_severity f) \<longrightarrow> Some (severity_text (ci_severity r)) = if_severity f)
        \<and> (if_category f \<noteq> None \<longrightarrow> Some (ci_category r) = if_category f)
        \<and> (truthy (if_issueType f) \<longrightarrow> Some (ci_type r) = if_issueType f)) (close_issues s))))"

definition insert_history_row :: "IssueHistoryEntry \<Rightarrow> ('a, unit) issue_op" where
  "insert_history_row h s =
     (if ih_id h \<in> ih_id ` set (issue_history s)
      then (Inl (DbError ''tenant_close_issue_history_pkey''), s)
      else if ih_issue h \<notin> ci_id ` set (close_issues s)
      then (Inl (DbError ''tenant_close_issue_history_issue_id_fkey''), s)
      else (Inr (), s\<lparr>issue_history := issue_history s @ [h]\<rparr>))"

definition appendIssueHistory ::
  "string \<Rightarrow> CloseIssueStatus \<Rightarrow> CloseIssueStatus \<Rightarrow> string \<Rightarrow> string option \<Rightarrow> ('a, unit) issue_op" where
  "appendIssueHistory issueId fromStatus toStatus changedBy comment s0 =
     (let (historyId, s1) = random_text s0; (t, s) = now s1 in
      insert_history_row \<lparr>ih_id = historyId, ih_issue = issueId, ih_from = fromStatus, ih_to = toStatus,
        ih_changed_by = changedBy, ih_changed_at = t, ih_comment = comment\<rparr> s)"

definition getIssueHistory :: "string \<Rightarrow> 'a issue_db_scheme \<Rightarrow> IssueHistoryEntry list" where
  "getIssueHistory issueId s =
     sort_key ih_changed_at (filter (\<lambda>h. ih_issue h = issueId) (issue_history s))"

text \<open>In \<open>extra\<close>, \<open>None\<close> is \<open>undefined\<close> (the column is left alone) and \<open>Some None\<close> is \<open>null\<close>.\<close>

record IssueExtra =
  ex_assignedTo :: "string option option"
  ex_assignedAt :: "timestamp option"
  ex_assignedBy :: "string option option"
  ex_resolutionType :: "string option option"
  ex_resolutionDescription :: "string option option"
  ex_resolutionAjeId :: "string option option"
  ex_resolutionReconId :: "string option option"
  ex_resolutionMappingChange :: "json option option"
  ex_resolvedBy :: "string option option"
  ex_resolvedAt :: "timestamp option"
  ex_verifiedBy :: "string option option"
  ex_verifiedAt :: "timestamp option"
  ex_verificationMethod :: "string option option"

definition no_extra :: IssueExtra where
  "no_extra = \<lparr>ex_assignedTo = None, ex_assignedAt = None, ex_assignedBy = None,
     ex_resolutionType = None, ex_resolutionDescription = None, ex_resolutionAjeId = None,
     ex_resolutionReconId = None, ex_resolutionMappingChange = None, ex_resolvedBy = None,
     ex_resolvedAt = None, ex_verifiedBy = None, ex_verifiedAt = None, ex_verificationMethod = None\<rparr>"

definition set_col :: "'v option \<Rightarrow> 'v \<Rightarrow> 'v" where
  "set_col p old = (case p of None \<Rightarrow> old | Some v \<Rightarrow> v)"

definition apply_extra :: "IssueExtra \<Rightarrow> CloseIssue \<Rightarrow> CloseIssue" where
  "apply_extra x r = r
     \<lparr>ci_assigned_to := set_col (ex_assignedTo x) (ci_assigned_to r),
      ci_assigned_at := set_col (map_option Some (ex_assignedAt x)) (ci_assigned_at r),
      ci_assigned_by := set_col (ex_assignedBy x) (ci_assigned_by r),
      ci_resolution_type := set_col (ex_resolutionType x) (ci_resolution_type r),
      ci_resolution_description := set_col (ex_resolutionDescription x) (ci_resolution_description r),
      ci_resolution_aje_id := set_col (ex_resolutionAjeId x) (ci_resolution_aje_id r),
      ci_resolution_recon_id := set_col (ex_resolutionReconId x) (ci_resolution_recon_id r),
      ci_resolution_mapping_change := set_col (map_option (map_option jsonb_roundtrip)
        (ex_resolutionMappingChange x)) (ci_resolution_mapping_change r),
      ci_resolved_by := set_col (ex_resolvedBy x) (ci_resolved_by r),
      ci_resolved_at := set_col (map_option Some (ex_resolvedAt x)) (ci_resolved_at r),
      ci_verified_by := set_col (ex_verifiedBy x) (ci_verified_by r),
      ci_verified_at := set_col (map_option Some (ex_verifiedAt x)) (ci_verified_at r),
      ci_verification_method := set_col (ex_verificationMethod x) (ci_verification_method r)\<rparr>"

definition updateIssueStatus ::
  "tenant_id \<Rightarrow> string \<Rightarrow> CloseIssueStatus \<Rightarrow> IssueExtra \<Rightarrow> 'a issue_db_scheme
     \<Rightarrow> CloseIssue option \<times> 'a issue_db_scheme" where
  "updateIssueStatus tenant issueId st x s0 =
     (let (t, s) = now s0;
          s' = s\<lparr>close_issues := update_where (issue_key tenant issueId)
                   (\<lambda>r. apply_extra x (r\<lparr>ci_status := st, ci_updated_at := t\<rparr>)) (close_issues s)\<rparr>
      in if row_count (issue_key tenant issueId) (close_issues s) = 0 then (None, s')
         else (getCloseIssueById tenant issueId s', s'))"

section \<open>issue_service.ts\<close>

definition TERMINAL_STATUSES :: "CloseIssueStatus list" where
  "TERMINAL_STATUSES = [Verified, Waived]"

definition BLOCKING_SEVERITIES :: "CloseIssueSeverity list" where
  "BLOCKING_SEVERITIES = [Critical, Blocking]"

definition WAIVABLE_SEVERITIES :: "CloseIssueSeverity list" where
  "WAIVABLE_SEVERITIES = [Warning, Info]"

definition issue_not_found :: error where
  "issue_not_found = ServiceError ''NOT_FOUND'' ''Issue not found''"

definition terminal_error :: "CloseIssueStatus \<Rightarrow> error" where
  "terminal_error st = ServiceError ''INVALID_STATUS'' (''Issue is in terminal status: '' @ issue_status_text st)"

definition createIssue :: "CreateCloseIssueInput \<Rightarrow> ('a, CloseIssue) issue_op" where
  "createIssue input s0 =
     (let (issueId, s) = random_text s0 in
      andThen (insertCloseIssue issueId input Detected s) (\<lambda>issue s.
      andThen (appendIssueHistory (ci_id issue) Detected Detected ''system'' (Some ''Issue created'') s) (\<lambda>_ s.
        (Inr issue,
         if ni_severity input \<in> {Critical, Blocking}
         then record_call ''notify'' [ni_tenantId input, ''blocking_issue_detected'', issueId] s else s))))"

text \<open>\<open>assertIssue(updated)\<close>, the history entry, and the updated issue.\<close>

definition finish_update ::
  "CloseIssue option \<times> 'a issue_db_scheme \<Rightarrow> string \<Rightarrow> CloseIssueStatus \<Rightarrow> CloseIssueStatus \<Rightarrow> string
     \<Rightarrow> string option \<Rightarrow> (error + CloseIssue) \<times> 'a issue_db_scheme" where
  "finish_update upd issueId fromStatus toStatus changedBy comment =
     (case upd of (updated, s) \<Rightarrow>
       (case updated of
          None \<Rightarrow> (Inl issue_not_found, s)
        | Some issue \<Rightarrow>
            andThen (appendIssueHistory issueId fromStatus toStatus changedBy comment s)
              (\<lambda>_ s. (Inr issue, s))))"

definition assignIssue :: "tenant_id \<Rightarrow> string \<Rightarrow> string \<Rightarrow> string \<Rightarrow> ('a, CloseIssue) issue_op" where
  "assignIssue tenant issueId assignedTo assignedBy s =
     (case getCloseIssueById tenant issueId s of
        None \<Rightarrow> (Inl issue_not_found, s)
      | Some current \<Rightarrow>
          if ci_status current \<in> set TERMINAL_STATUSES then (Inl (terminal_error (ci_status current)), s)
          else let (t, s) = now s in
            finish_update (updateIssueStatus tenant issueId Assigned
                (no_extra\<lparr>ex_assignedTo := Some (Some assignedTo), ex_assignedAt := Some t,
                  ex_assignedBy := Some (Some assignedBy)\<rparr>) s)
              issueId (ci_status current) Assigned assignedBy (Some (''Assigned to '' @ assignedTo)))"

definition startProgress :: "tenant_id \<Rightarrow> string \<Rightarrow> string \<Rightarrow> ('a, CloseIssue) issue_op" where
  "startProgress tenant issueId userId s =
     (case getCloseIssueById tenant issueId s of
        None \<Rightarrow> (Inl issue_not_found, s)
      | Some current \<Rightarrow>
          if ci_status current \<in> set TERMINAL_STATUSES then (Inl (terminal_error (ci_status current)), s)
          else finish_update (updateIssueStatus tenant issueId IssueInProgress no_extra s)
            issueId (ci_status current) IssueInProgress userId None)"

record ResolveIssueInput =
  ri_resolutionType :: string
  ri_resolutionDescription :: string
  ri_resolvedBy :: string
  ri_resolutionAjeId :: "string option"
  ri_resolutionReconId :: "string option"
  ri_resolutionMappingChange :: "json option"

definition resolveIssue :: "tenant_id \<Rightarrow> string \<Rightarrow> ResolveIssueInput \<Rightarrow> ('a, CloseIssue) issue_op" where
  "resolveIssue tenant issueId resolution s =
     (case getCloseIssueById tenant issueId s of
        None \<Rightarrow> (Inl issue_not_found, s)
      | Some current \<Rightarrow>
          if ci_status current \<in> set TERMINAL_STATUSES then (Inl (terminal_error (ci_status current)), s)
          else if js_trim (ri_resolutionDescription resolution) = []
          then (Inl (ServiceError ''VALIDATION'' ''Resolution description is required''), s)
          else let (t, s) = now s in
            finish_update (updateIssueStatus tenant issueId Resolved
                (no_extra\<lparr>ex_resolutionType := Some (Some (ri_resolutionType resolution)),
                  ex_resolutionDescription := Some (Some (ri_resolutionDescription resolution)),
                  ex_resolutionAjeId := Some (ri_resolutionAjeId resolution),
                  ex_resolutionReconId := Some (ri_resolutionReconId resolution),
                  ex_resolutionMappingChange := Some (ri_resolutionMappingChange resolution),
                  ex_resolvedBy := Some (Some (ri_resolvedBy resolution)),
                  ex_resolvedAt := Some t\<rparr>) s)
              issueId (ci_status current) Resolved (ri_resolvedBy resolution)
              (Some (ri_resolutionDescription resolution)))"

definition verifyIssue :: "tenant_id \<Rightarrow> string \<Rightarrow> string \<Rightarrow> string \<Rightarrow> ('a, CloseIssue) issue_op" where
  "verifyIssue tenant issueId verifiedBy verMethod s =
     (case getCloseIssueById tenant issueId s of
        None \<Rightarrow> (Inl issue_not_found, s)
      | Some current \<Rightarrow>
          if ci_status current \<noteq> Resolved
          then (Inl (ServiceError ''INVALID_STATUS''
                  (''Verify only from resolved; current: '' @ issue_status_text (ci_status current))), s)
          else let (t, s) = now s in
            finish_update (updateIssueStatus tenant issueId Verified
                (no_extra\<lparr>ex_verifiedBy := Some (Some verifiedBy), ex_verifiedAt := Some t,
                  ex_verificationMethod := Some (Some verMethod)\<rparr>) s)
              issueId Resolved Verified verifiedBy (Some verMethod))"

definition waiveIssue :: "tenant_id \<Rightarrow> string \<Rightarrow> string \<Rightarrow> string \<Rightarrow> ('a, CloseIssue) issue_op" where
  "waiveIssue tenant issueId justification waivedBy s =
     (case getCloseIssueById tenant issueId s of
        None \<Rightarrow> (Inl issue_not_found, s)
      | Some current \<Rightarrow>
          if ci_severity current \<notin> set WAIVABLE_SEVERITIES
          then (Inl (ServiceError ''CANNOT_WAIVE'' (''Cannot waive '' @ severity_text (ci_severity current)
                  @ '' issue; only warning and info can be waived'')), s)
          else if js_trim justification = []
          then (Inl (ServiceError ''VALIDATION'' ''Waive justification is required''), s)
          else if ci_status current \<in> set TERMINAL_STATUSES then (Inl (terminal_error (ci_status current)), s)
          else finish_update (updateIssueStatus tenant issueId Waived no_extra s)
            issueId (ci_status current) Waived waivedBy (Some justification))"

definition reopenIssue :: "tenant_id \<Rightarrow> string \<Rightarrow> string \<Rightarrow> string \<Rightarrow> ('a, CloseIssue) issue_op" where
  "reopenIssue tenant issueId reason userId s =
     (case getCloseIssueById tenant issueId s of
        None \<Rightarrow> (Inl issue_not_found, s)
      | Some current \<Rightarrow>
          if ci_status current \<noteq> Resolved \<and> ci_status current \<noteq> Verified
          then (Inl (ServiceError ''INVALID_STATUS'' (''Reopen only from resolved or verified; current: ''
                  @ issue_status_text (ci_status current))), s)
          else if js_trim reason = []
          then (Inl (ServiceError ''VALIDATION'' ''Reopen reason is required''), s)
          else finish_update (updateIssueStatus tenant issueId IssueInProgress
              (no_extra\<lparr>ex_resolutionType := None, ex_resolutionDescription := None,
                ex_resolvedBy := None, ex_resolvedAt := None, ex_verifiedBy := None,
                ex_verifiedAt := None, ex_verificationMethod := None\<rparr>) s)
            issueId (ci_status current) IssueInProgress userId (Some reason))"

definition all_issues :: "string \<Rightarrow> IssueFilter" where
  "all_issues periodId = \<lparr>if_periodId = Some periodId, if_status = None, if_severity = None,
     if_category = None, if_issueType = None\<rparr>"

definition getOpenIssuesForPeriod :: "string \<Rightarrow> tenant_id \<Rightarrow> 'a issue_db_scheme \<Rightarrow> CloseIssue list" where
  "getOpenIssuesForPeriod periodId tenant s =
     filter (\<lambda>i. ci_status i \<notin> set TERMINAL_STATUSES) (listCloseIssues tenant (all_issues periodId) s)"

definition getBlockingIssuesForPeriod :: "string \<Rightarrow> tenant_id \<Rightarrow> 'a issue_db_scheme \<Rightarrow> CloseIssue list" where
  "getBlockingIssuesForPeriod periodId tenant s =
     filter (\<lambda>i. ci_severity i \<in> set BLOCKING_SEVERITIES) (getOpenIssuesForPeriod periodId tenant s)"

record SeveritySummary =
  sm_open :: nat
  sm_resolved :: nat
  sm_verified :: nat
  sm_waived :: nat

definition add_to_summary :: "CloseIssue \<Rightarrow> (CloseIssueSeverity \<Rightarrow> SeveritySummary) \<Rightarrow> CloseIssueSeverity \<Rightarrow> SeveritySummary" where
  "add_to_summary i summary =
     (let v = summary (ci_severity i) in
      summary (ci_severity i :=
        (case ci_status i of
           Verified \<Rightarrow> v\<lparr>sm_verified := sm_verified v + 1\<rparr>
         | Waived \<Rightarrow> v\<lparr>sm_waived := sm_waived v + 1\<rparr>
         | Resolved \<Rightarrow> v\<lparr>sm_resolved := sm_resolved v + 1\<rparr>
         | _ \<Rightarrow> v\<lparr>sm_open := sm_open v + 1\<rparr>)))"

definition getIssueSummaryForPeriod ::
  "string \<Rightarrow> tenant_id \<Rightarrow> 'a issue_db_scheme \<Rightarrow> CloseIssueSeverity \<Rightarrow> SeveritySummary" where
  "getIssueSummaryForPeriod periodId tenant s =
     foldl (\<lambda>summary i. add_to_summary i summary)
       (\<lambda>_. \<lparr>sm_open = 0, sm_resolved = 0, sm_verified = 0, sm_waived = 0\<rparr>)
       (listCloseIssues tenant (all_issues periodId) s)"

definition autoVerifyIssue :: "tenant_id \<Rightarrow> string \<Rightarrow> ('a, CloseIssue option) issue_op" where
  "autoVerifyIssue tenant issueId s =
     (case getCloseIssueById tenant issueId s of
        None \<Rightarrow> (Inr None, s)
      | Some current \<Rightarrow>
          if ci_status current \<in> set TERMINAL_STATUSES then (Inr None, s)
          else let (t, s1) = now s;
                   (updated, s) = updateIssueStatus tenant issueId Verified
                     (no_extra\<lparr>ex_verifiedBy := Some (Some ''system''), ex_verifiedAt := Some t,
                       ex_verificationMethod := Some (Some ''automatic_recheck'')\<rparr>) s1
               in case updated of
                    None \<Rightarrow> (Inr None, s)
                  | Some issue \<Rightarrow>
                      andThen (appendIssueHistory issueId (ci_status current) Verified ''system''
                          (Some ''Automatic recheck passed'') s)
                        (\<lambda>_ s. (Inr (Some issue), s)))"

definition mapLegacyCategoryToClose :: "string \<Rightarrow> CloseIssueCategory" where
  "mapLegacyCategoryToClose category =
     (case map_of [(''intake'', Ingestion), (''classification'', Ingestion),
        (''reconciliation'', Reconciliation), (''posting'', Adjustment), (''policy'', Review),
        (''presentation'', Statement), (''export_blocker'', Statement)] category of
        None \<Rightarrow> General | Some c \<Rightarrow> c)"

definition mapLegacySeverityToClose :: "string \<Rightarrow> CloseIssueSeverity" where
  "mapLegacySeverityToClose severity =
     (case map_of [(''low'', Info), (''med'', Warning), (''high'', Blocking), (''critical'', Critical)] severity of
        None \<Rightarrow> Warning | Some c \<Rightarrow> c)"

record CreateIssueForSessionInput =
  fs_closeSessionId :: string
  fs_tenantId :: tenant_id
  fs_entityId :: "string option"
  fs_issueType :: "string option"
  fs_category :: string
  fs_severity :: string
  fs_title :: string
  fs_description :: "string option"
  fs_sourceRef :: "json option"

definition createIssueForSession :: "CreateIssueForSessionInput \<Rightarrow> ('a, CloseIssue) issue_op" where
  "createIssueForSession input s =
     createIssue
       \<lparr>ni_tenantId = fs_tenantId input, ni_periodId = fs_closeSessionId input,
        ni_entityId = (case fs_entityId input of
            Some e \<Rightarrow> e
          | None \<Rightarrow> (case getCloseSessionById (fs_tenantId input) (fs_closeSessionId input) s of
              None \<Rightarrow> ''unknown'' | Some session \<Rightarrow> ses_entityId session)),
        ni_issueType = (case fs_issueType input of None \<Rightarrow> ''manual_flag'' | Some t \<Rightarrow> t),
        ni_severity = mapLegacySeverityToClose (fs_severity input),
        ni_category = mapLegacyCategoryToClose (fs_category input),
        ni_title = fs_title input, ni_description = fs_description input,
        ni_affectedAccounts = None, ni_affectedAmount = None,
        ni_sourceCheck = Some ''migrated_from_legacy'',
        ni_sourceDetails = Some (case fs_sourceRef input of None \<Rightarrow> JObj [] | Some r \<Rightarrow> r)\<rparr> s"

definition createIssueFromIntegrityFailure ::
  "tenant_id \<Rightarrow> string \<Rightarrow> string \<Rightarrow> string option \<Rightarrow> string option \<Rightarrow> string option \<Rightarrow> json option
     \<Rightarrow> ('a, CloseIssue) issue_op" where
  "createIssueFromIntegrityFailure tenant closeSessionId title description severity category sourceRef s =
     createIssueForSession
       \<lparr>fs_closeSessionId = closeSessionId, fs_tenantId = tenant, fs_entityId = None, fs_issueType = None,
        fs_category = (case category of None \<Rightarrow> ''posting'' | Some c \<Rightarrow> c),
        fs_severity = (case severity of None \<Rightarrow> ''high'' | Some v \<Rightarrow> v),
        fs_title = title, fs_description = description, fs_sourceRef = sourceRef\<rparr> s"

end
