(* ===== verification/SubsequentEvents.thy ===== *)
theory SubsequentEvents
  imports IssueService
begin

text \<open>
  Subsequent events (ASC 855): \<open>src/src/db/repositories/subsequent_event_repository.ts\<close> and
  \<open>src/src/services/subsequent_event_service.ts\<close>, with the table of \<open>migrations/182\<close>.
\<close>

datatype SubsequentEventDisposition = NoImpact | RequiresAdjustment | RequiresDisclosure

fun disposition_text :: "SubsequentEventDisposition \<Rightarrow> string" where
  "disposition_text NoImpact = ''no_impact''"
| "disposition_text RequiresAdjustment = ''requires_adjustment''"
| "disposition_text RequiresDisclosure = ''requires_disclosure''"

record subsequent_event_row =
  se_id :: string
  se_tenant :: tenant_id
  se_session :: string
  se_event_date :: string
  se_description :: string
  se_impact :: "string option"
  se_disposition :: "SubsequentEventDisposition option"
  se_reviewed_by :: "string option"
  se_reviewed_at :: "timestamp option"
  se_created_by :: string
  se_created_at :: timestamp
  se_updated_at :: timestamp

record SubsequentEvent =
  ev_id :: string
  ev_tenantId :: tenant_id
  ev_closeSessionId :: string
  ev_eventDate :: string
  ev_description :: string
  ev_impactAssessment :: "string option"
  ev_disposition :: "SubsequentEventDisposition option"
  ev_reviewedBy :: "string option"
  ev_reviewedAt :: "string option"
  ev_createdBy :: string
  ev_createdAt :: string
  ev_updatedAt :: string

record event_db = issue_db +
  subsequent_events :: "subsequent_event_row list"

type_synonym ('a, 'b) event_op = "'a event_db_scheme \<Rightarrow> (error + 'b) \<times> 'a event_db_scheme"

section \<open>subsequent_event_repository.ts\<close>

definition rowToEvent :: "subsequent_event_row \<Rightarrow> SubsequentEvent" where
  "rowToEvent row =
     \<lparr>ev_id = se_id row, ev_tenantId = se_tenant row, ev_closeSessionId = se_session row,
      ev_eventDate = take 10 (se_event_date row), ev_description = se_description row,
      ev_impactAssessment = se_impact row, ev_disposition = se_disposition row,
      ev_reviewedBy = se_reviewed_by row, ev_reviewedAt = map_option toISOString (se_reviewed_at row),
      ev_createdBy = se_created_by row, ev_createdAt = toISOString (se_created_at row),
      ev_updatedAt = toISOString (se_updated_at row)\<rparr>"

record CreateSubsequentEventInput =
  ne_tenantId :: tenant_id
  ne_closeSessionId :: string
  ne_eventDate :: string
  ne_description :: string
  ne_impactAssessment :: "string option"
  ne_createdBy :: string

definition event_key :: "tenant_id \<Rightarrow> string \<Rightarrow> subsequent_event_row \<Rightarrow> bool" where
  "event_key tenant i r = (se_id r = i \<and> se_tenant r = tenant)"

definition insert_event_row :: "subsequent_event_row \<Rightarrow> ('a, unit) event_op" where
  "insert_event_row r s =
     (if \<not> is_date (se_event_date r) then (Inl (DbError ''invalid input syntax for type date''), s)
      else if se_id r \<in> se_id ` set (subsequent_events s) then (Inl (DbError ''subsequent_events_pkey''), s)
      else if se_session r \<notin> cs_id ` set (close_sessions s)
      then (Inl (DbError ''subsequent_events_close_session_id_fkey''), s)
      else (Inr (), s\<lparr>subsequent_events := subsequent_events s @ [r]\<rparr>))"

definition event_getById :: "tenant_id \<Rightarrow> string \<Rightarrow> 'a event_db_scheme \<Rightarrow> SubsequentEvent option" where
  "event_getById tenant i s = map_option rowToEvent (find (event_key tenant i) (subsequent_events s))"

definition createSubsequentEvent :: "CreateSubsequentEventInput \<Rightarrow> ('a, SubsequentEvent) event_op" where
  "createSubsequentEvent input s0 =
     (let (i, s1) = random_text s0;
          (t, s) = now s1
      in andThen (insert_event_row
           \<lparr>se_id = i, se_tenant = ne_tenantId input, se_session = ne_closeSessionId input,
            se_event_date = ne_eventDate input, se_description = ne_description input,
            se_impact = ne_impactAssessment input, se_disposition = None, se_reviewed_by = None,
            se_reviewed_at = None, se_created_by = ne_createdBy input, se_created_at = t,
            se_updated_at = t\<rparr> s) (\<lambda>_ s.
         (case event_getById (ne_tenantId input) i s of
            None \<Rightarrow> (Inl (JsError ''Cannot read properties of undefined''), s)
          | Some ev \<Rightarrow> (Inr ev, s))))"

definition session_events :: "tenant_id \<Rightarrow> string \<Rightarrow> 'a event_db_scheme \<Rightarrow> subsequent_event_row list" where
  "session_events tenant sessionId s =
     filter (\<lambda>r. se_tenant r = tenant \<and> se_session r = sessionId) (subsequent_events s)"

definition listBySession :: "tenant_id \<Rightarrow> string \<Rightarrow> 'a event_db_scheme \<Rightarrow> SubsequentEvent list" where
  "listBySession tenant sessionId s =
     map rowToEvent (sort_key se_event_date (sort_key se_created_at (session_events tenant sessionId s)))"

definition updateDisposition ::
  "tenant_id \<Rightarrow> string \<Rightarrow> SubsequentEventDisposition \<Rightarrow> string option \<Rightarrow> string \<Rightarrow> 'a event_db_scheme
     \<Rightarrow> SubsequentEvent option \<times> 'a event_db_scheme" where
  "updateDisposition tenant i disposition impact reviewedBy s0 =
     (let (t, s) = now s0;
          s' = s\<lparr>subsequent_events := update_where (event_key tenant i)
                  (\<lambda>r. r\<lparr>se_disposition := Some disposition, se_impact := coalesce impact (se_impact r),
                        se_reviewed_by := Some reviewedBy, se_reviewed_at := Some t,
                        se_updated_at := t\<rparr>) (subsequent_events s)\<rparr>
      in if row_count (event_key tenant i) (subsequent_events s) = 0 then (None, s')
         else (event_getById tenant i s', s'))"

section \<open>subsequent_event_service.ts\<close>

definition createEvent ::
  "(string \<Rightarrow> string) \<Rightarrow> CreateSubsequentEventInput \<Rightarrow> ('a, SubsequentEvent) event_op" where
  "createEvent H input s =
     (if length (js_trim (ne_description input)) < 5
      then (Inl (ServiceError ''VALIDATION'' ''Description must be at least 5 characters''), s)
      else andThen (createSubsequentEvent input s) (\<lambda>ev s.
           andThen (recordMaterialEvent True H
             \<lparr>me_tenantId = ne_tenantId input, me_periodLabel = None,
              me_eventType = ''subsequent_event_created'',
              me_snapshot = [(''eventId'', JStr (ev_id ev)), (''closeSessionId'', JStr (ne_closeSessionId input)),
                (''eventDate'', JStr (ne_eventDate input)), (''description'', JStr (ne_description input))],
              me_dissent = None, me_createdBy = Some (ne_createdBy input)\<rparr> s) (\<lambda>_ s.
           (Inr ev, s))))"

definition updateEventDisposition ::
  "(string \<Rightarrow> string) \<Rightarrow> tenant_id \<Rightarrow> string \<Rightarrow> SubsequentEventDisposition \<Rightarrow> string option \<Rightarrow> string
     \<Rightarrow> ('a, SubsequentEvent) event_op" where
  "updateEventDisposition H tenant eventId disposition impact reviewedBy s0 =
     (case updateDisposition tenant eventId disposition impact reviewedBy s0 of
        (None, s) \<Rightarrow> (Inl (ServiceError ''NOT_FOUND'' ''Subsequent event not found''), s)
      | (Some updated, s) \<Rightarrow>
          andThen (recordMaterialEvent True H
            \<lparr>me_tenantId = tenant, me_periodLabel = None,
             me_eventType = ''subsequent_event_disposition_set'',
             me_snapshot = [(''eventId'', JStr eventId), (''disposition'', JStr (disposition_text disposition)),
               (''impactAssessment'', undef_json impact)],
             me_dissent = None, me_createdBy = Some reviewedBy\<rparr> s) (\<lambda>_ s.
          (Inr updated, s)))"

text \<open>\<open>Inl\<close> carries the reason why the review is not complete.\<close>

definition isReviewComplete ::
  "tenant_id \<Rightarrow> string \<Rightarrow> string option \<Rightarrow> 'a event_db_scheme \<Rightarrow> string + unit" where
  "isReviewComplete tenant sessionId confirmedBy s =
     (if truthy confirmedBy then Inr ()
      else let events = listBySession tenant sessionId s;
               unresolved = filter (\<lambda>e. ev_disposition e = None) events
           in if events = [] then Inl ''No subsequent events recorded and no explicit confirmation provided''
              else if unresolved \<noteq> []
              then Inl (nat_string (length unresolved) @ '' subsequent event(s) without disposition'')
              else Inr ())"

subsection \<open>Properties\<close>

lemma review_complete_cases:
  "isReviewComplete tenant sessionId confirmedBy s = Inr ()
   \<longleftrightarrow> truthy confirmedBy
       \<or> (session_events tenant sessionId s \<noteq> []
          \<and> list_all (\<lambda>e. se_disposition e \<noteq> None) (session_events tenant sessionId s))"
proof -
  have "listBySession tenant sessionId s = [] \<longleftrightarrow> session_events tenant sessionId s = []"
    by (metis (no_types) listBySession_def map_is_Nil_conv set_empty set_sort)
  then show ?thesis
    by (auto simp: isReviewComplete_def Let_def filter_empty_conv listBySession_def rowToEvent_def
        list_all_iff)
qed

text \<open>
  The review of a session is complete exactly when somebody confirmed that there were no subsequent
  events, or there are events and each of them has a disposition.
\<close>

theorem review_complete_iff:
  "isReviewComplete tenant sessionId confirmedBy s = Inr ()
   \<longleftrightarrow> truthy confirmedBy
       \<or> (session_events tenant sessionId s \<noteq> []
          \<and> list_all (\<lambda>e. se_disposition e \<noteq> None) (session_events tenant sessionId s))"
  by (rule review_complete_cases)

end
