(* ===== verification/Decimal.thy ===== *)
theory Decimal
  imports JsNumber
begin

text \<open>
  \<open>src/src/utils/decimal.ts\<close>, over the package decimal.js. The package is a parameter
  \<open>D\<close> of the definitions: the record of its operations that the sources call. What the sources
  rely on is the locale \<open>decimal_js\<close>: with the value \<open>v\<close> of a finite Decimal, a number enters by
  its decimal text, sums and differences are exact up to the default precision of twenty
  significant digits, \<open>toDecimalPlaces\<close> rounds half away from zero and \<open>toNumber\<close> rounds to the
  nearest double. \<open>dec_model\<close> is an instance with these rules, on rationals.
\<close>

subsection \<open>The operations of the package\<close>

record 'd decimal_ops =
  d_of_num :: "number \<Rightarrow> 'd"
  d_of_text :: "string \<Rightarrow> 'd option"
  d_plus :: "'d \<Rightarrow> 'd \<Rightarrow> 'd"
  d_minus :: "'d \<Rightarrow> 'd \<Rightarrow> 'd"
  d_times :: "'d \<Rightarrow> 'd \<Rightarrow> 'd"
  d_dividedBy :: "'d \<Rightarrow> 'd \<Rightarrow> 'd"
  d_abs :: "'d \<Rightarrow> 'd"
  d_toDecimalPlaces :: "'d \<Rightarrow> nat \<Rightarrow> 'd"
  d_toNumber :: "'d \<Rightarrow> number"
  d_toFixed :: "'d \<Rightarrow> nat \<Rightarrow> string"
  d_isZero :: "'d \<Rightarrow> bool"
  d_greaterThan :: "'d \<Rightarrow> 'd \<Rightarrow> bool"
  d_lessThanOrEqualTo :: "'d \<Rightarrow> 'd \<Rightarrow> bool"
  d_gte :: "'d \<Rightarrow> 'd \<Rightarrow> bool"
  d_equals :: "'d \<Rightarrow> 'd \<Rightarrow> bool"

subsection \<open>The functions of decimal.ts\<close>

text \<open>An argument of type \<open>number | string\<close>; an invalid text makes the package throw (\<open>None\<close>).\<close>

datatype num_arg = ANum number | AText string

definition DP :: nat where
  "DP = 2"

fun decimal_from :: "'d decimal_ops \<Rightarrow> num_arg \<Rightarrow> 'd option" where
  "decimal_from D (ANum n) = Some (d_of_num D n)"
| "decimal_from D (AText s) = d_of_text D s"

definition sumRound2 :: "'d decimal_ops \<Rightarrow> number list \<Rightarrow> number" where
  "sumRound2 D values =
     (if values = [] then Fin 0
      else d_toNumber D (d_toDecimalPlaces D
             (foldl (\<lambda>acc v. d_plus D acc (d_of_num D v)) (d_of_num D (Fin 0)) values) DP))"

definition binary2 :: "'d decimal_ops \<Rightarrow> ('d \<Rightarrow> 'd \<Rightarrow> 'd) \<Rightarrow> num_arg \<Rightarrow> num_arg \<Rightarrow> number option" where
  "binary2 D f a b =
     (case (decimal_from D a, decimal_from D b) of
        (Some x, Some y) \<Rightarrow> Some (d_toNumber D (d_toDecimalPlaces D (f x y) DP))
      | _ \<Rightarrow> None)"

definition decimal_minus :: "'d decimal_ops \<Rightarrow> num_arg \<Rightarrow> num_arg \<Rightarrow> number option" where
  "decimal_minus D a b = binary2 D (d_minus D) a b"

definition decimal_plus :: "'d decimal_ops \<Rightarrow> num_arg \<Rightarrow> num_arg \<Rightarrow> number option" where
  "decimal_plus D a b = binary2 D (d_plus D) a b"

definition decimal_mul :: "'d decimal_ops \<Rightarrow> num_arg \<Rightarrow> num_arg \<Rightarrow> number option" where
  "decimal_mul D a b = binary2 D (d_times D) a b"

definition decimal_div :: "'d decimal_ops \<Rightarrow> num_arg \<Rightarrow> num_arg \<Rightarrow> number option" where
  "decimal_div D a b =
     binary2 D (\<lambda>x y. let d = d_dividedBy D x y
                      in if is_finite (d_toNumber D d) then d else d_of_num D (Fin 0)) a b"

definition round_to :: "'d decimal_ops \<Rightarrow> nat \<Rightarrow> num_arg \<Rightarrow> number option" where
  "round_to D dp v = map_option (\<lambda>d. d_toNumber D (d_toDecimalPlaces D d dp)) (decimal_from D v)"

definition round2 :: "'d decimal_ops \<Rightarrow> num_arg \<Rightarrow> number option" where
  "round2 D v = round_to D DP v"

definition round4 :: "'d decimal_ops \<Rightarrow> num_arg \<Rightarrow> number option" where
  "round4 D v = round_to D 4 v"

definition absGt :: "'d decimal_ops \<Rightarrow> num_arg \<Rightarrow> num_arg \<Rightarrow> number \<Rightarrow> bool option" where
  "absGt D a b tolerance =
     (case (decimal_from D a, decimal_from D b) of
        (Some x, Some y) \<Rightarrow> Some (d_greaterThan D (d_abs D (d_minus D x y)) (d_of_num D tolerance))
      | _ \<Rightarrow> None)"

definition absLt :: "'d decimal_ops \<Rightarrow> num_arg \<Rightarrow> num_arg \<Rightarrow> number \<Rightarrow> bool option" where
  "absLt D a b tolerance =
     (case (decimal_from D a, decimal_from D b) of
        (Some x, Some y) \<Rightarrow>
          Some (d_lessThanOrEqualTo D (d_abs D (d_minus D x y)) (d_of_num D tolerance))
      | _ \<Rightarrow> None)"

text \<open>
  \<open>normalizeMoney\<close>, after the conversion \<open>Number(value)\<close>: \<open>None\<close> stands for null, undefined or
  the empty string.
\<close>

definition normalizeMoney :: "'d decimal_ops \<Rightarrow> number option \<Rightarrow> string" where
  "normalizeMoney D value =
     (let n = (case value of None \<Rightarrow> Fin 0 | Some n \<Rightarrow> n)
      in if \<not> is_finite n then ''0.00''
         else d_toFixed D (d_toDecimalPlaces D (d_of_num D n) DP) 2)"

subsection \<open>Rounding half away from zero, significant digits\<close>

definition round_half_up :: "rat \<Rightarrow> int" where
  "round_half_up x = (if 0 \<le> x then \<lfloor>x + 1 / 2\<rfloor> else - \<lfloor>- x + 1 / 2\<rfloor>)"

definition round_dp :: "nat \<Rightarrow> rat \<Rightarrow> rat" where
  "round_dp n x = of_int (round_half_up (x * 10 ^ n)) / 10 ^ n"

text \<open>At most twenty significant digits.\<close>

definition prec20 :: "rat \<Rightarrow> bool" where
  "prec20 r \<longleftrightarrow> (\<exists>m e. r = of_int m * 10 powi e \<and> \<bar>m\<bar> < 10 ^ 20)"

definition round_sig20 :: "rat \<Rightarrow> rat" where
  "round_sig20 r =
     (if r = 0 then 0
      else let e = ilog 10 \<bar>r\<bar> - 19 in of_int (round_half_up (r / 10 powi e)) * 10 powi e)"

lemma round_half_up_of_int [simp]: "round_half_up (of_int k) = k"
proof -
  have "\<lfloor>of_int j + 1 / 2 :: rat\<rfloor> = j" for j
    by (intro floor_unique) auto
  from this [of k] this [of "- k"] show ?thesis
    by (simp add: round_half_up_def)
qed

lemma round_half_up_int: "x \<in> \<int> \<Longrightarrow> of_int (round_half_up x) = x"
  by (auto elim: Ints_cases)

text \<open>An amount of \<open>c\<close> cents.\<close>

definition money :: "int \<Rightarrow> rat" where
  "money c = of_int c / 100"

lemma money_add: "money c + money d = money (c + d)"
  by (simp add: money_def add_divide_distrib)

lemma money_diff: "money c - money d = money (c - d)"
  by (simp add: money_def diff_divide_distrib)

lemma money_abs: "\<bar>money c\<bar> = money \<bar>c\<bar>"
  by (simp add: money_def)

lemma money_0 [simp]: "money 0 = 0"
  by (simp add: money_def)

lemma money_eq_iff [simp]: "money c = money d \<longleftrightarrow> c = d" "money c = 0 \<longleftrightarrow> c = 0"
  by (simp_all add: money_def)

lemma money_le_iff [simp]: "money c \<le> money d \<longleftrightarrow> c \<le> d"
  by (simp add: money_def divide_le_cancel)

lemma prec20_money: "\<bar>c\<bar> < 10 ^ 20 \<Longrightarrow> prec20 (money c)"
  unfolding prec20_def money_def
  by (rule exI [of _ c], rule exI [of _ "-2"]) (simp add: power_int_minus)

lemma round_dp_money [simp]: "round_dp 2 (money c) = money c"
  by (simp add: round_dp_def money_def)

lemma round_sig20_exact:
  assumes "prec20 r"
  shows "round_sig20 r = r"
proof (cases "r = 0")
  case True
  then show ?thesis by (simp add: round_sig20_def)
next
  case False
  from assms obtain m e where r: "r = of_int m * 10 powi e" and m: "\<bar>m\<bar> < 10 ^ 20"
    by (auto simp: prec20_def)
  let ?l = "ilog 10 \<bar>r\<bar>"
  have "10 powi ?l \<le> \<bar>r\<bar>"
    using ilog_bounds(1) [of "\<bar>r\<bar>" 10] False by simp
  also have "\<bar>r\<bar> < 10 powi (20 + e)"
  proof -
    have "\<bar>of_int m :: rat\<bar> < 10 ^ 20"
      using m by (metis of_int_abs of_int_less_iff of_int_numeral of_int_power)
    then have "\<bar>of_int m :: rat\<bar> * 10 powi e < 10 ^ 20 * 10 powi e"
      by (intro mult_strict_right_mono) auto
    then show ?thesis by (simp add: r abs_mult power_int_add)
  qed
  finally have "?l < 20 + e" by (rule powi_less_imp_less) simp
  then have j: "e = int (nat (e - (?l - 19))) + (?l - 19)" by simp
  define j where "j = nat (e - (?l - 19))"
  have "e = int j + (?l - 19)" using j by (simp only: j_def)
  then have "10 powi e = (10 powi int j * 10 powi (?l - 19) :: rat)"
    by (metis power_int_add zero_neq_numeral)
  then have "r = of_int m * (10 powi int j * 10 powi (?l - 19))"
    using r by (metis (full_types))
  then have "r / 10 powi (?l - 19) = of_int m * 10 powi int j"
    by (simp add: nonzero_divide_eq_eq mult.assoc)
  then have "r / 10 powi (?l - 19) = of_int (m * 10 ^ j)" by simp
  then have "of_int (round_half_up (r / 10 powi (?l - 19))) = r / 10 powi (?l - 19)"
    by (metis round_half_up_of_int)
  with False show ?thesis by (simp add: round_sig20_def Let_def)
qed

subsection \<open>What the sources rely on\<close>

locale decimal_js =
  fixes D :: "'d decimal_ops"
    and fin :: "'d \<Rightarrow> bool"
    and v :: "'d \<Rightarrow> rat"
  assumes of_num: "fin (d_of_num D (Fin x))" "v (d_of_num D (Fin x)) = dec_val x"
    and fin_plus: "fin a \<Longrightarrow> fin b \<Longrightarrow> fin (d_plus D a b)"
    and plus_exact: "fin a \<Longrightarrow> fin b \<Longrightarrow> prec20 (v a + v b) \<Longrightarrow> v (d_plus D a b) = v a + v b"
    and fin_minus: "fin a \<Longrightarrow> fin b \<Longrightarrow> fin (d_minus D a b)"
    and minus_exact: "fin a \<Longrightarrow> fin b \<Longrightarrow> prec20 (v a - v b) \<Longrightarrow> v (d_minus D a b) = v a - v b"
    and abs: "fin a \<Longrightarrow> fin (d_abs D a)" "fin a \<Longrightarrow> v (d_abs D a) = \<bar>v a\<bar>"
    and toDP: "fin a \<Longrightarrow> fin (d_toDecimalPlaces D a n)"
      "fin a \<Longrightarrow> v (d_toDecimalPlaces D a n) = round_dp n (v a)"
    and toNumber: "fin a \<Longrightarrow> d_toNumber D a = to_num (v a)"
    and isZero: "fin a \<Longrightarrow> d_isZero D a \<longleftrightarrow> v a = 0"
    and greaterThan: "fin a \<Longrightarrow> fin b \<Longrightarrow> d_greaterThan D a b \<longleftrightarrow> v b < v a"
    and lessThanOrEqualTo: "fin a \<Longrightarrow> fin b \<Longrightarrow> d_lessThanOrEqualTo D a b \<longleftrightarrow> v a \<le> v b"
    and gte: "fin a \<Longrightarrow> fin b \<Longrightarrow> d_gte D a b \<longleftrightarrow> v b \<le> v a"
    and equals: "fin a \<Longrightarrow> fin b \<Longrightarrow> d_equals D a b \<longleftrightarrow> v a = v b"

text \<open>A number whose decimal text is a whole number of cents.\<close>

fun has_cents :: "number \<Rightarrow> int \<Rightarrow> bool" where
  "has_cents (Fin x) c = (dec_val x = money c)"
| "has_cents _ c = False"

lemma has_cents_unique: "has_cents n c \<Longrightarrow> has_cents n c' \<Longrightarrow> c = c'"
  by (cases n) auto

lemma has_cents_0: "has_cents (Fin 0) 0"
  by simp

lemma to_num_cents:
  assumes "\<bar>c\<bar> < 10 ^ 15"
  shows "to_num (money c) = Fin (rnd_rat (money c))"
proof -
  let ?d = "of_int c / 100 :: rat" let ?r = "rnd_rat ?d"
  have "ilog 2 \<bar>?r\<bar> < 1024" if "?r \<noteq> 0"
  proof -
    have c: "?d \<noteq> 0" using that by auto
    then have d1: "1 / 100 \<le> \<bar>?d\<bar>" by simp
    have d22: "1 / 2 ^ 1022 \<le> \<bar>?d\<bar>"
      using d1 by (rule order_trans [rotated]) (simp add: frac_le)
    have "\<bar>of_int c :: rat\<bar> < 10 ^ 15"
      using assms by (metis of_int_abs of_int_less_iff of_int_numeral of_int_power)
    then have "\<bar>?d\<bar> < 2 ^ 60" by simp
    moreover have "\<bar>?r\<bar> \<le> 2 * \<bar>?d\<bar>"
    proof -
      have "\<bar>?r\<bar> \<le> \<bar>?d\<bar> + \<bar>?d\<bar> / 2 ^ 53"
        using rnd_rat_rel_error [OF d22] by linarith
      also have "\<dots> \<le> 2 * \<bar>?d\<bar>" using c by simp
      finally show ?thesis .
    qed
    ultimately have "\<bar>?r\<bar> < 2 powi 61" by simp
    then have "(2 :: rat) powi ilog 2 \<bar>?r\<bar> < 2 powi 61"
      using ilog_bounds(1) [of "\<bar>?r\<bar>" 2] that by simp
    then have "ilog 2 \<bar>?r\<bar> < 61" by (rule powi_less_imp_less) simp
    then show ?thesis by simp
  qed
  then show ?thesis by (auto simp: to_num_def Let_def money_def)
qed

lemma has_cents_to_num: "\<bar>c\<bar> < 10 ^ 15 \<Longrightarrow> has_cents (to_num (money c)) c"
  by (simp add: to_num_cents) (simp add: dec_val_cents money_def)

context decimal_js
begin

lemma has_cents_of_num:
  assumes "has_cents n c"
  shows "fin (d_of_num D n)" and "v (d_of_num D n) = money c"
  using assms of_num by (cases n; simp)+

text \<open>The running sum of amounts in cents is exact while it stays below \<open>10 ^ 20\<close> cents.\<close>

lemma sum_cents:
  assumes "list_all2 has_cents ns cs" and "fin a" and "v a = money c"
    and "\<bar>c\<bar> + (\<Sum>x\<leftarrow>cs. \<bar>x\<bar>) < 10 ^ 20"
  shows "fin (foldl (\<lambda>acc n. d_plus D acc (d_of_num D n)) a ns)
       \<and> v (foldl (\<lambda>acc n. d_plus D acc (d_of_num D n)) a ns) = money (c + sum_list cs)"
  using assms
proof (induction ns cs arbitrary: a c rule: list_all2_induct)
  case Nil
  then show ?case by simp
next
  case (Cons n ns k cs)
  note n = has_cents_of_num [OF Cons.hyps(1)]
  have "0 \<le> (\<Sum>x\<leftarrow>cs. \<bar>x\<bar>)" by (induction cs) auto
  then have bound: "\<bar>c + k\<bar> + (\<Sum>x\<leftarrow>cs. \<bar>x\<bar>) < 10 ^ 20" "\<bar>c + k\<bar> < 10 ^ 20"
    using Cons.prems(3) by auto
  have sum: "v a + v (d_of_num D n) = money (c + k)"
    using Cons.prems(2) n(2) by (simp add: money_add)
  have "v (d_plus D a (d_of_num D n)) = money (c + k)"
    using plus_exact [OF Cons.prems(1) n(1)] prec20_money [OF bound(2)] sum by simp
  moreover have "fin (d_plus D a (d_of_num D n))"
    using Cons.prems(1) n(1) by (rule fin_plus)
  ultimately show ?case
    using Cons.IH [of "d_plus D a (d_of_num D n)" "c + k"] bound(1) by (simp add: add.assoc)
qed

lemma sumRound2_cents:
  assumes "list_all2 has_cents ns cs" and "(\<Sum>x\<leftarrow>cs. \<bar>x\<bar>) < 10 ^ 20"
  shows "sumRound2 D ns = to_num (money (sum_list cs))"
proof (cases "ns = []")
  case True
  with assms(1) show ?thesis by (simp add: sumRound2_def to_num_def)
next
  case False
  have z: "fin (d_of_num D (Fin 0))" "v (d_of_num D (Fin 0)) = money 0"
    using of_num [of 0] by simp_all
  from sum_cents [OF assms(1) z] assms(2) False show ?thesis
    by (simp add: sumRound2_def DP_def toDP toNumber)
qed

lemma minus_cents:
  assumes "has_cents a c" and "has_cents b d" and "\<bar>c - d\<bar> < 10 ^ 20"
  shows "fin (d_minus D (d_of_num D a) (d_of_num D b))"
    and "v (d_minus D (d_of_num D a) (d_of_num D b)) = money (c - d)"
proof -
  note a = has_cents_of_num [OF assms(1)] and b = has_cents_of_num [OF assms(2)]
  show "fin (d_minus D (d_of_num D a) (d_of_num D b))"
    using a(1) b(1) by (rule fin_minus)
  have "v (d_of_num D a) - v (d_of_num D b) = money (c - d)"
    using a(2) b(2) by (simp add: money_diff)
  then show "v (d_minus D (d_of_num D a) (d_of_num D b)) = money (c - d)"
    using minus_exact [OF a(1) b(1)] prec20_money [OF assms(3)] by simp
qed

lemma plus_cents:
  assumes "has_cents a c" and "has_cents b d" and "\<bar>c + d\<bar> < 10 ^ 20"
  shows "fin (d_plus D (d_of_num D a) (d_of_num D b))"
    and "v (d_plus D (d_of_num D a) (d_of_num D b)) = money (c + d)"
proof -
  note a = has_cents_of_num [OF assms(1)] and b = has_cents_of_num [OF assms(2)]
  show "fin (d_plus D (d_of_num D a) (d_of_num D b))"
    using a(1) b(1) by (rule fin_plus)
  have "v (d_of_num D a) + v (d_of_num D b) = money (c + d)"
    using a(2) b(2) by (simp add: money_add)
  then show "v (d_plus D (d_of_num D a) (d_of_num D b)) = money (c + d)"
    using plus_exact [OF a(1) b(1)] prec20_money [OF assms(3)] by simp
qed

text \<open>A Decimal that holds cents comes out of \<open>toDecimalPlaces(2).toNumber()\<close> unchanged.\<close>

lemma out_cents:
  assumes "fin x" and "v x = money c" and "\<bar>c\<bar> < 10 ^ 15"
  shows "has_cents (d_toNumber D (d_toDecimalPlaces D x DP)) c"
  using assms has_cents_to_num by (simp add: toDP toNumber DP_def)

lemma decimal_arith_cents:
  assumes "has_cents a c" and "has_cents b d"
  shows "\<bar>c - d\<bar> < 10 ^ 15 \<Longrightarrow>
           \<exists>n. decimal_minus D (ANum a) (ANum b) = Some n \<and> has_cents n (c - d)"
    and "\<bar>c + d\<bar> < 10 ^ 15 \<Longrightarrow>
           \<exists>n. decimal_plus D (ANum a) (ANum b) = Some n \<and> has_cents n (c + d)"
  using out_cents [OF minus_cents [OF assms]] out_cents [OF plus_cents [OF assms]]
  by (auto simp: decimal_minus_def decimal_plus_def binary2_def)

text \<open>The test for zero on a difference of amounts.\<close>

lemma diff_isZero_cents:
  assumes "has_cents a c" and "has_cents b d" and "\<bar>c - d\<bar> < 10 ^ 20"
  shows "d_isZero D (d_abs D (d_minus D (d_of_num D a) (d_of_num D b))) \<longleftrightarrow> c = d"
  using minus_cents [OF assms] by (simp add: isZero abs money_abs)

lemma gte_cents:
  assumes "has_cents a c" and "has_cents b d"
  shows "d_gte D (d_of_num D a) (d_of_num D b) \<longleftrightarrow> d \<le> c"
  using has_cents_of_num [OF assms(1)] has_cents_of_num [OF assms(2)]
  by (simp add: gte)

end

subsection \<open>An instance of the package\<close>

text \<open>
  Decimals as rationals, \<open>None\<close> for NaN and the infinities: every result is rounded to twenty
  significant digits, half away from zero, the package's default settings.
\<close>

definition lift2 :: "(rat \<Rightarrow> rat \<Rightarrow> rat option) \<Rightarrow> rat option \<Rightarrow> rat option \<Rightarrow> rat option" where
  "lift2 f a b = (case (a, b) of (Some x, Some y) \<Rightarrow> f x y | _ \<Rightarrow> None)"

definition rel2 :: "(rat \<Rightarrow> rat \<Rightarrow> bool) \<Rightarrow> rat option \<Rightarrow> rat option \<Rightarrow> bool" where
  "rel2 f a b = (case (a, b) of (Some x, Some y) \<Rightarrow> f x y | _ \<Rightarrow> False)"

definition fixed_text :: "nat \<Rightarrow> rat \<Rightarrow> string" where
  "fixed_text n x =
     (let k = round_half_up (\<bar>x\<bar> * 10 ^ n);
          whole = int_string (k div 10 ^ n);
          frac = pad_zero n (int_string (k mod 10 ^ n))
      in (if x < 0 \<and> k \<noteq> 0 then ''-'' else []) @ whole
         @ (if n = 0 then [] else CHR ''.'' # frac))"

definition dec_model :: "rat option decimal_ops" where
  "dec_model = \<lparr>
     d_of_num = (\<lambda>n. case n of Fin x \<Rightarrow> Some (dec_val x) | _ \<Rightarrow> None),
     d_of_text = (\<lambda>s. case js_split (CHR ''.'') s of
          [w] \<Rightarrow> if w \<noteq> [] \<and> list_all is_digit w then Some (Some (of_nat (digits_value w))) else None
        | [w, f] \<Rightarrow> if w \<noteq> [] \<and> f \<noteq> [] \<and> list_all is_digit (w @ f)
            then Some (Some (of_nat (digits_value (w @ f)) / 10 ^ length f)) else None
        | _ \<Rightarrow> None),
     d_plus = lift2 (\<lambda>x y. Some (round_sig20 (x + y))),
     d_minus = lift2 (\<lambda>x y. Some (round_sig20 (x - y))),
     d_times = lift2 (\<lambda>x y. Some (round_sig20 (x * y))),
     d_dividedBy = lift2 (\<lambda>x y. if y = 0 then None else Some (round_sig20 (x / y))),
     d_abs = map_option (\<lambda>x. \<bar>x\<bar>),
     d_toDecimalPlaces = (\<lambda>a n. map_option (round_dp n) a),
     d_toNumber = (\<lambda>a. case a of Some x \<Rightarrow> to_num x | None \<Rightarrow> NaN),
     d_toFixed = (\<lambda>a n. case a of Some x \<Rightarrow> fixed_text n x | None \<Rightarrow> ''NaN''),
     d_isZero = (\<lambda>a. a = Some 0),
     d_greaterThan = rel2 (\<lambda>x y. y < x),
     d_lessThanOrEqualTo = rel2 (\<lambda>x y. x \<le> y),
     d_gte = rel2 (\<lambda>x y. y \<le> x),
     d_equals = rel2 (\<lambda>x y. x = y) \<rparr>"

definition dec_model_val :: "rat option \<Rightarrow> rat" where
  "dec_model_val a = (case a of Some x \<Rightarrow> x | None \<Rightarrow> 0)"

interpretation dec: decimal_js dec_model "\<lambda>a. a \<noteq> None" dec_model_val
  by unfold_locales
    (auto simp: dec_model_def dec_model_val_def lift2_def rel2_def round_sig20_exact)

end
