(* ===== verification/JournalEntryRepo.thy ===== *)
theory JournalEntryRepo
  imports SubsequentEvents Decimal
begin

text \<open>
  The journal entry tables and \<open>src/src/db/repositories/journal_entry_repository.ts\<close>, with the
  constraints and triggers of \<open>migrations/072\<close>, \<open>107\<close>, \<open>130\<close>, \<open>131\<close>, \<open>155\<close>, \<open>181\<close>, \<open>215\<close> and
  \<open>217\<close>; the reads of the evidence tables and the shadow audit findings that posting uses.

  A NUMERIC(20,2) column is a number of cents. A JavaScript number is written to it by its decimal
  text, rounded to cents half away from zero, and read back as \<open>Number(text)\<close>.
\<close>

datatype JournalEntryStatus = Draft | Proposed | Approved | Posted | Exported | Rejected

fun je_status_text :: "JournalEntryStatus \<Rightarrow> string" where
  "je_status_text Draft = ''draft''"
| "je_status_text Proposed = ''proposed''"
| "je_status_text Approved = ''approved''"
| "je_status_text Posted = ''posted''"
| "je_status_text Exported = ''exported''"
| "je_status_text Rejected = ''rejected''"

datatype JournalEntrySource = Manual | Suggestion | Recon | Accrual

datatype AmountProvenance =
    LedgerExact "string option" "string option"
  | EngineCalculation string string "json option"
  | HumanEntered string "string option"

record je_row =
  je_id :: string
  je_session :: string
  je_tenant :: tenant_id
  je_status :: JournalEntryStatus
  je_memo :: "string option"
  je_source :: JournalEntrySource
  je_created_by :: "string option"
  je_approved_by :: "string option"
  je_posted_at :: "timestamp option"
  je_reversal_date :: "string option"
  je_rejection_reason :: "string option"
  je_rejected_by :: "string option"
  je_rejected_at :: "timestamp option"
  je_created_at :: timestamp
  je_updated_at :: timestamp
  je_reversed_by :: "string option"
  je_reverses :: "string option"
  je_is_reversal :: bool

record line_row =
  jl_je :: string
  jl_index :: nat
  jl_account :: string
  jl_debit :: int
  jl_credit :: int
  jl_description :: "string option"
  jl_provenance :: "AmountProvenance option"

record attachment_row =
  at_id :: string
  at_je :: string
  at_file_ref :: string
  at_uploaded_at :: timestamp

record evidence_link_row =
  el_id :: string
  el_tenant :: tenant_id
  el_evidence :: string
  el_object_type :: string
  el_object_id :: string

record shadow_finding_row =
  sf_id :: string
  sf_tenant :: tenant_id
  sf_period :: string
  sf_je :: string
  sf_severity :: string
  sf_findings :: "(string \<times> string) list"
  sf_actor :: "string option"

text \<open>
  \<open>evidence_policies\<close> holds the threshold text per tenant (\<open>None\<close>: NULL). A linked evidence record
  exists: the foreign key of \<open>evidence_links\<close> cascades.
\<close>

record je_db = event_db +
  journal_entries :: "je_row list"
  journal_entry_lines :: "line_row list"
  je_attachments :: "attachment_row list"
  evidence_links :: "evidence_link_row list"
  evidence_policies :: "(tenant_id \<times> string option) list"
  shadow_findings :: "shadow_finding_row list"

type_synonym ('a, 'b) je_op = "'a je_db_scheme \<Rightarrow> (error + 'b) \<times> 'a je_db_scheme"

text \<open>The objects of the service. \<open>rowToJE\<close> sets only the columns that \<open>JE_COLS\<close> selects.\<close>

record JournalEntry =
  entry_id :: string
  closeSessionId :: string
  entry_tenantId :: tenant_id
  entry_status :: JournalEntryStatus
  memo :: "string option"
  source :: JournalEntrySource
  createdBy :: "string option"
  approvedBy :: "string option"
  postedAt :: "timestamp option"
  entryDate :: "string option"
  reversalDate :: "string option"
  isReversal :: "bool option"
  reversesJeId :: "string option"
  reversedByJeId :: "string option"
  rejectionReason :: "string option"
  rejectedBy :: "string option"
  rejectedAt :: "timestamp option"

definition rowToJE :: "je_row \<Rightarrow> JournalEntry" where
  "rowToJE row =
     \<lparr>entry_id = je_id row, closeSessionId = je_session row, entry_tenantId = je_tenant row,
      entry_status = je_status row, memo = je_memo row, source = je_source row,
      createdBy = je_created_by row, approvedBy = je_approved_by row, postedAt = je_posted_at row,
      entryDate = None, reversalDate = je_reversal_date row, isReversal = None, reversesJeId = None,
      reversedByJeId = None, rejectionReason = je_rejection_reason row,
      rejectedBy = je_rejected_by row, rejectedAt = je_rejected_at row\<rparr>"

section \<open>Reading\<close>

definition je_key :: "string \<Rightarrow> tenant_id \<Rightarrow> je_row \<Rightarrow> bool" where
  "je_key i tenant r = (je_id r = i \<and> je_tenant r = tenant)"

definition je_find :: "string \<Rightarrow> tenant_id \<Rightarrow> 'a je_db_scheme \<Rightarrow> je_row option" where
  "je_find i tenant s = find (je_key i tenant) (journal_entries s)"

definition getJournalEntryById :: "string \<Rightarrow> tenant_id \<Rightarrow> 'a je_db_scheme \<Rightarrow> JournalEntry option" where
  "getJournalEntryById i tenant s = map_option rowToJE (je_find i tenant s)"

definition listJournalEntries ::
  "tenant_id \<Rightarrow> string option \<Rightarrow> JournalEntryStatus option \<Rightarrow> nat option \<Rightarrow> 'a je_db_scheme
     \<Rightarrow> JournalEntry list" where
  "listJournalEntries tenant sessionId st limit s =
     map rowToJE
       (let rows = rev (sort_key je_created_at (filter (\<lambda>r. je_tenant r = tenant
              \<and> (truthy sessionId \<longrightarrow> Some (je_session r) = sessionId)
              \<and> (st \<noteq> None \<longrightarrow> Some (je_status r) = st)) (journal_entries s)))
        in case limit of Some n \<Rightarrow> if 0 < n then take n rows else rows | None \<Rightarrow> rows)"

definition lines_of :: "string \<Rightarrow> 'a je_db_scheme \<Rightarrow> line_row list" where
  "lines_of jeId s = filter (\<lambda>l. jl_je l = jeId) (journal_entry_lines s)"

definition listJournalEntryLines :: "string \<Rightarrow> 'a je_db_scheme \<Rightarrow> line_row list" where
  "listJournalEntryLines jeId s = sort_key jl_index (lines_of jeId s)"

text \<open>\<open>Number(line.debit)\<close> on the text of a NUMERIC(20,2).\<close>

definition cents_num :: "int \<Rightarrow> number" where
  "cents_num c = to_num (money c)"

definition listJournalEntryLinesBatch ::
  "string list \<Rightarrow> 'a je_db_scheme \<Rightarrow> string \<Rightarrow> line_row list option" where
  "listJournalEntryLinesBatch jeIds s =
     (\<lambda>jeId. let ls = filter (\<lambda>l. jl_je l = jeId)
                (sort_key jl_je (sort_key jl_index (filter (\<lambda>l. jl_je l \<in> set jeIds) (journal_entry_lines s))))
             in if ls = [] then None else Some ls)"

section \<open>Writing\<close>

text \<open>SQL \<open>TRIM\<close> removes spaces only.\<close>

definition sql_trim :: "string \<Rightarrow> string" where
  "sql_trim m = rev (dropWhile (\<lambda>c. c = CHR '' '') (rev (dropWhile (\<lambda>c. c = CHR '' '') m)))"

definition insert_je_row :: "je_row \<Rightarrow> ('a, unit) je_op" where
  "insert_je_row r s =
     (if sql_trim (case je_memo r of None \<Rightarrow> [] | Some m \<Rightarrow> m) = [] then (Inl (DbError ''je_memo_required''), s)
      else if je_id r \<in> je_id ` set (journal_entries s) then (Inl (DbError ''journal_entries_pkey''), s)
      else (Inr (), s\<lparr>journal_entries := journal_entries s @ [r]\<rparr>))"

definition new_je_row ::
  "string \<Rightarrow> string \<Rightarrow> tenant_id \<Rightarrow> JournalEntryStatus \<Rightarrow> string option \<Rightarrow> JournalEntrySource \<Rightarrow> string option
     \<Rightarrow> timestamp \<Rightarrow> je_row" where
  "new_je_row i sessionId tenant st mem src creator t =
     \<lparr>je_id = i, je_session = sessionId, je_tenant = tenant, je_status = st, je_memo = mem,
      je_source = src, je_created_by = creator, je_approved_by = None, je_posted_at = None,
      je_reversal_date = None, je_rejection_reason = None, je_rejected_by = None,
      je_rejected_at = None, je_created_at = t, je_updated_at = t, je_reversed_by = None,
      je_reverses = None, je_is_reversal = False\<rparr>"

definition insertJournalEntry ::
  "string \<Rightarrow> string \<Rightarrow> tenant_id \<Rightarrow> JournalEntryStatus \<Rightarrow> string option \<Rightarrow> JournalEntrySource \<Rightarrow> string option
     \<Rightarrow> ('a, JournalEntry) je_op" where
  "insertJournalEntry i sessionId tenant st mem src creator s0 =
     (let (t, s) = now s0 in
      andThen (insert_je_row (new_je_row i sessionId tenant st mem src creator t) s) (\<lambda>_ s.
        (case getJournalEntryById i tenant s of
           None \<Rightarrow> (Inl (JsError ''Cannot read properties of undefined''), s)
         | Some je \<Rightarrow> (Inr je, s))))"

text \<open>
  The triggers on UPDATE of \<open>journal_entries\<close>: a posted or exported row is immutable, and a row
  becomes posted only when its lines balance. A statement that meets one of them changes nothing.
\<close>

definition je_frozen :: "je_row \<Rightarrow> bool" where
  "je_frozen r = (je_status r = Posted \<or> je_status r = Exported)"

definition je_balanced :: "string \<Rightarrow> 'a je_db_scheme \<Rightarrow> bool" where
  "je_balanced i s = (sum_list (map jl_debit (lines_of i s)) = sum_list (map jl_credit (lines_of i s)))"

definition update_je ::
  "(je_row \<Rightarrow> bool) \<Rightarrow> (je_row \<Rightarrow> je_row) \<Rightarrow> ('a, nat) je_op" where
  "update_je p f s =
     (let hits = filter p (journal_entries s) in
      if list_ex je_frozen hits then (Inl (DbError ''Posted/exported journal entries are immutable''), s)
      else if list_ex (\<lambda>r. je_status (f r) = Posted \<and> \<not> je_balanced (je_id r) s) hits
      then (Inl (DbError ''Cannot post journal entry: Entry must balance''), s)
      else (Inr (length hits), s\<lparr>journal_entries := update_where p f (journal_entries s)\<rparr>))"

fun STATUS_TRANSITION_GUARD :: "JournalEntryStatus \<Rightarrow> JournalEntryStatus option" where
  "STATUS_TRANSITION_GUARD Proposed = Some Draft"
| "STATUS_TRANSITION_GUARD Approved = Some Proposed"
| "STATUS_TRANSITION_GUARD Rejected = Some Proposed"
| "STATUS_TRANSITION_GUARD Posted = Some Approved"
| "STATUS_TRANSITION_GUARD Exported = Some Posted"
| "STATUS_TRANSITION_GUARD Draft = None"

record JEPatch =
  pt_approvedBy :: "string option"
  pt_postedAt :: "timestamp option"
  pt_reversalDate :: "string option option"
  pt_rejectedBy :: "string option"
  pt_rejectedAt :: "timestamp option"
  pt_rejectionReason :: "string option"
  pt_expectedStatus :: "JournalEntryStatus option"

definition no_patch :: JEPatch where
  "no_patch = \<lparr>pt_approvedBy = None, pt_postedAt = None, pt_reversalDate = None, pt_rejectedBy = None,
     pt_rejectedAt = None, pt_rejectionReason = None, pt_expectedStatus = None\<rparr>"

definition status_set :: "JournalEntryStatus \<Rightarrow> JEPatch \<Rightarrow> timestamp \<Rightarrow> je_row \<Rightarrow> je_row" where
  "status_set st patch t r =
     (if st = Rejected \<and> truthy (pt_rejectionReason patch)
      then r\<lparr>je_status := st, je_updated_at := t, je_rejection_reason := pt_rejectionReason patch,
             je_rejected_by := pt_rejectedBy patch,
             je_rejected_at := Some (case pt_rejectedAt patch of None \<Rightarrow> t | Some u \<Rightarrow> u)\<rparr>
      else r\<lparr>je_status := st, je_updated_at := t,
             je_approved_by := coalesce (pt_approvedBy patch) (je_approved_by r),
             je_posted_at := coalesce (pt_postedAt patch) (je_posted_at r),
             je_reversal_date := (case pt_reversalDate patch of None \<Rightarrow> je_reversal_date r | Some d \<Rightarrow> d)\<rparr>)"

definition updateJournalEntryStatus ::
  "string \<Rightarrow> tenant_id \<Rightarrow> JournalEntryStatus \<Rightarrow> JEPatch \<Rightarrow> ('a, JournalEntry option) je_op" where
  "updateJournalEntryStatus i tenant st patch s0 =
     (let (t, s) = now s0;
          expectedStatus = coalesce (pt_expectedStatus patch) (STATUS_TRANSITION_GUARD st);
          guard = (\<lambda>r. je_key i tenant r \<and> (case expectedStatus of None \<Rightarrow> True | Some e \<Rightarrow> je_status r = e))
      in andThen (update_je guard (status_set st patch t) s) (\<lambda>rowCount s.
           if rowCount = 0 then (Inr None, s) else (Inr (getJournalEntryById i tenant s), s)))"

text \<open>
  The trigger of \<open>migrations/181\<close> on deletion of an evidence link, and that of \<open>migrations/217\<close> on
  every UPDATE or DELETE of a line: it reads \<open>OLD.journal_entry_id\<close>, a column the table does not
  have, so the statement fails. Deleting an entry cascades to its lines.
\<close>

definition evidence_link_frozen :: "'a je_db_scheme \<Rightarrow> evidence_link_row \<Rightarrow> bool" where
  "evidence_link_frozen s l =
     (el_object_type l = ''journal_entry''
      \<and> (case find (je_key (el_object_id l) (el_tenant l)) (journal_entries s) of
           None \<Rightarrow> False
         | Some je \<Rightarrow>
             (case find (\<lambda>c. cs_id c = je_session je \<and> cs_tenant c = je_tenant je) (close_sessions s) of
                None \<Rightarrow> False
              | Some c \<Rightarrow> cs_status c \<in> {Certified, Locked, SubsequentEventsReview})))"

definition deleteJournalEntry :: "string \<Rightarrow> tenant_id \<Rightarrow> ('a, unit) je_op" where
  "deleteJournalEntry i tenant s0 =
     (let link = (\<lambda>l. el_tenant l = tenant \<and> el_object_type l = ''journal_entry'' \<and> el_object_id l = i) in
      if list_ex (evidence_link_frozen s0) (filter link (evidence_links s0))
      then (Inl (DbError ''Cannot delete evidence from a certified/locked close session''), s0)
      else let s = s0\<lparr>evidence_links := delete_where link (evidence_links s0)\<rparr>;
               hits = filter (je_key i tenant) (journal_entries s)
           in if list_ex je_frozen hits
              then (Inl (DbError ''Posted/exported journal entries are immutable''), s)
              else if list_ex (\<lambda>r. lines_of (je_id r) s \<noteq> []) hits
              then (Inl (DbError ''record old has no field journal_entry_id''), s)
              else (Inr (), s\<lparr>journal_entries := delete_where (je_key i tenant) (journal_entries s),
                      je_attachments := delete_where (\<lambda>a. at_je a \<in> je_id ` set hits) (je_attachments s)\<rparr>))"

record LineInput =
  ln_accountRef :: string
  ln_debit :: "number option"
  ln_credit :: "number option"
  ln_description :: "string option"
  ln_provenance :: "AmountProvenance option"

text \<open>
  A number as the parameter of a NUMERIC(20,2) column: its text is read as a decimal and rounded to
  cents; NaN and the infinities are refused, and so is a value of 10 ^ 18 or more.
\<close>

fun to_cents :: "number \<Rightarrow> int option" where
  "to_cents (Fin x) =
     (let c = round_half_up (dec_val x * 100) in if \<bar>c\<bar> < 10 ^ 20 then Some c else None)"
| "to_cents _ = None"

definition insert_line_row :: "line_row \<Rightarrow> ('a, unit) je_op" where
  "insert_line_row l s =
     (if jl_je l \<notin> je_id ` set (journal_entries s) then (Inl (DbError ''fk_je_lines_je''), s)
      else if jl_debit l < 0 \<or> jl_credit l < 0 then (Inl (DbError ''chk_je_line_debit_credit''), s)
      else if \<not> (0 < jl_debit l \<or> 0 < jl_credit l) then (Inl (DbError ''chk_no_zero_zero_line''), s)
      else if jl_provenance l = None then (Inl (DbError ''chk_amount_provenance_required''), s)
      else if (jl_je l, jl_index l) \<in> (\<lambda>k. (jl_je k, jl_index k)) ` set (journal_entry_lines s)
      then (Inl (DbError ''journal_entry_lines_pkey''), s)
      else (Inr (), s\<lparr>journal_entry_lines := journal_entry_lines s @ [l]\<rparr>))"

fun insert_lines :: "string \<Rightarrow> nat \<Rightarrow> LineInput list \<Rightarrow> ('a, unit) je_op" where
  "insert_lines jeId i [] s = (Inr (), s)"
| "insert_lines jeId i (l # ls) s =
     (case (to_cents (case ln_debit l of None \<Rightarrow> Fin 0 | Some x \<Rightarrow> x),
            to_cents (case ln_credit l of None \<Rightarrow> Fin 0 | Some x \<Rightarrow> x)) of
        (Some d, Some c) \<Rightarrow>
          andThen (insert_line_row \<lparr>jl_je = jeId, jl_index = i, jl_account = ln_accountRef l, jl_debit = d,
              jl_credit = c, jl_description = ln_description l, jl_provenance = ln_provenance l\<rparr> s)
            (\<lambda>_ s. insert_lines jeId (Suc i) ls s)
      | _ \<Rightarrow> (Inl (DbError ''numeric field overflow''), s))"

definition insertJournalEntryLines :: "string \<Rightarrow> LineInput list \<Rightarrow> ('a, unit) je_op" where
  "insertJournalEntryLines jeId lines s = insert_lines jeId 0 lines s"

record JEAttachment =
  ja_id :: string
  ja_jeId :: string
  ja_fileRef :: string
  ja_uploadedAt :: timestamp

definition rowToAttachment :: "attachment_row \<Rightarrow> JEAttachment" where
  "rowToAttachment r = \<lparr>ja_id = at_id r, ja_jeId = at_je r, ja_fileRef = at_file_ref r,
     ja_uploadedAt = at_uploaded_at r\<rparr>"

definition getJEAttachmentById :: "tenant_id \<Rightarrow> string \<Rightarrow> 'a je_db_scheme \<Rightarrow> JEAttachment option" where
  "getJEAttachmentById tenant attachmentId s =
     map_option rowToAttachment (find (\<lambda>a. at_id a = attachmentId
       \<and> list_ex (\<lambda>je. je_id je = at_je a \<and> je_tenant je = tenant) (journal_entries s)) (je_attachments s))"

definition insertJEAttachment ::
  "string \<Rightarrow> string \<Rightarrow> string \<Rightarrow> tenant_id \<Rightarrow> ('a, JEAttachment) je_op" where
  "insertJEAttachment i jeId fileRef tenant s =
     (if i \<in> at_id ` set (je_attachments s) then (Inl (DbError ''je_attachments_pkey''), s)
      else if jeId \<notin> je_id ` set (journal_entries s) then (Inl (DbError ''fk_je_attachments_je''), s)
      else let (t, s) = now s;
               s = s\<lparr>je_attachments := je_attachments s @ [\<lparr>at_id = i, at_je = jeId, at_file_ref = fileRef,
                     at_uploaded_at = t\<rparr>]\<rparr>
           in case getJEAttachmentById tenant i s of
                None \<Rightarrow> (Inl (JsError ''Cannot read properties of undefined''), s)
              | Some a \<Rightarrow> (Inr a, s))"

definition listJEAttachments :: "string \<Rightarrow> 'a je_db_scheme \<Rightarrow> JEAttachment list" where
  "listJEAttachments jeId s =
     map rowToAttachment (sort_key at_uploaded_at (filter (\<lambda>a. at_je a = jeId) (je_attachments s)))"

section \<open>Evidence and findings\<close>

definition evidence_for_object :: "tenant_id \<Rightarrow> string \<Rightarrow> string \<Rightarrow> 'a je_db_scheme \<Rightarrow> evidence_link_row list" where
  "evidence_for_object tenant objectType objectId s =
     filter (\<lambda>l. el_tenant l = tenant \<and> el_object_type l = objectType \<and> el_object_id l = objectId)
       (evidence_links s)"

text \<open>The tenant's threshold text: no policy and a NULL column are both \<open>undefined\<close> to the caller.\<close>

definition evidence_threshold :: "tenant_id \<Rightarrow> 'a je_db_scheme \<Rightarrow> string option" where
  "evidence_threshold tenant s = Option.bind (map_of (evidence_policies s) tenant) (\<lambda>x. x)"

definition createFinding ::
  "tenant_id \<Rightarrow> string \<Rightarrow> string \<Rightarrow> string \<Rightarrow> (string \<times> string) list \<Rightarrow> string option \<Rightarrow> 'a je_db_scheme
     \<Rightarrow> string \<times> 'a je_db_scheme" where
  "createFinding tenant periodLabel jeId severity findings actor s0 =
     (let (i, s) = random_text s0 in
      (i, s\<lparr>shadow_findings := shadow_findings s @ [\<lparr>sf_id = i, sf_tenant = tenant, sf_period = periodLabel,
         sf_je = jeId, sf_severity = severity, sf_findings = findings, sf_actor = actor\<rparr>]\<rparr>))"

end
