(* ===== verification/Provenance.thy ===== *)
theory Provenance
  imports JournalEntryRepo
begin

text \<open>
  \<open>src/src/types/amount_provenance.ts\<close>: every non-zero amount of a journal entry says where it
  comes from.
\<close>

record ProvLine =
  pl_account :: string
  pl_amount :: "number option"
  pl_provenance :: "AmountProvenance option"

fun isValidProvenance :: "AmountProvenance \<Rightarrow> bool" where
  "isValidProvenance (LedgerExact a b) = True"
| "isValidProvenance (EngineCalculation ruleId ruleVersion inputs) = (ruleId \<noteq> [] \<and> ruleVersion \<noteq> [])"
| "isValidProvenance (HumanEntered enteredBy enteredAt) = (enteredBy \<noteq> [])"

definition provenance_message :: "string \<Rightarrow> nat \<Rightarrow> number \<Rightarrow> string \<Rightarrow> string" where
  "provenance_message label i amount account =
     label @ ''['' @ nat_string i @ '']: amount '' @ num_text amount @ '' ('' @ account
     @ '') has no valid amountProvenance (required: ledger_exact | engine_calculation | human_entered).''"

text \<open>The errors, in the order of the lines; no errors is \<open>valid\<close>.\<close>

fun provenance_errors :: "string \<Rightarrow> nat \<Rightarrow> ProvLine list \<Rightarrow> string list" where
  "provenance_errors label i [] = []"
| "provenance_errors label i (l # ls) =
     (case pl_amount l of
        None \<Rightarrow> []
      | Some amount \<Rightarrow>
          if num_eq amount (Fin 0) then []
          else (case pl_provenance l of
                  Some p \<Rightarrow> if isValidProvenance p then [] else [provenance_message label i amount (pl_account l)]
                | None \<Rightarrow> [provenance_message label i amount (pl_account l)]))
     @ provenance_errors label (Suc i) ls"

definition validateDebitCreditLines :: "ProvLine list \<Rightarrow> string \<Rightarrow> string list" where
  "validateDebitCreditLines lines lineLabel = provenance_errors lineLabel 0 lines"

definition validateJEProvenance :: "ProvLine list \<Rightarrow> ProvLine list \<Rightarrow> string list" where
  "validateJEProvenance debits credits =
     validateDebitCreditLines debits ''debits'' @ validateDebitCreditLines credits ''credits''"

record Proposal =
  pp_accountName :: string
  pp_debit :: "number option"
  pp_credit :: "number option"
  pp_provenance :: "AmountProvenance option"

definition nonzero :: "number option \<Rightarrow> bool" where
  "nonzero x = (case x of None \<Rightarrow> False | Some n \<Rightarrow> \<not> num_eq n (Fin 0))"

definition validateAdjustmentProposals :: "Proposal list \<Rightarrow> string list" where
  "validateAdjustmentProposals proposals =
     validateDebitCreditLines
       (concat (map (\<lambda>p.
          (if nonzero (pp_debit p) then [\<lparr>pl_account = pp_accountName p, pl_amount = pp_debit p,
             pl_provenance = pp_provenance p\<rparr>] else [])
          @ (if nonzero (pp_credit p) then [\<lparr>pl_account = pp_accountName p, pl_amount = pp_credit p,
               pl_provenance = pp_provenance p\<rparr>] else [])) proposals)) ''adjustment''"

definition sourced :: "ProvLine \<Rightarrow> bool" where
  "sourced l = (nonzero (pl_amount l) \<longrightarrow> (\<exists>p. pl_provenance l = Some p \<and> isValidProvenance p))"

lemma provenance_errors_Nil: "provenance_errors label i ls = [] \<longleftrightarrow> list_all sourced ls"
  by (induction ls arbitrary: i) (auto simp: sourced_def nonzero_def split: option.splits if_splits)

lemma validateJEProvenance_Nil:
  "validateJEProvenance ds cs = [] \<longleftrightarrow> list_all sourced ds \<and> list_all sourced cs"
  by (simp add: validateJEProvenance_def validateDebitCreditLines_def provenance_errors_Nil)

end
