(* ===== verification/JournalEntryService.thy ===== *)
theory JournalEntryService
  imports Provenance
begin

text \<open>
  The lifecycle of journal entries: \<open>src/src/services/journal_entry_service.ts\<close> and the pre-post
  checks of \<open>src/src/services/shadow_auditor_service.ts\<close>.

  The environment \<open>E\<close> holds what the services take from outside: SHA-256, the package decimal.js,
  the variables of the process, and the answers of the AI (\<open>runShadowAudit\<close>, \<open>runJustifier\<close>) for
  an entry. A dash outside the 8-bit characters is written \<open>--\<close> in a message.
\<close>

datatype ShadowAuditSeverity = SevOk | SevWarn | SevBlock

fun shadow_severity_text :: "ShadowAuditSeverity \<Rightarrow> string" where
  "shadow_severity_text SevOk = ''ok''"
| "shadow_severity_text SevWarn = ''warn''"
| "shadow_severity_text SevBlock = ''block''"

record FindingItem =
  fi_code :: string
  fi_message :: string
  fi_severity :: "ShadowAuditSeverity option"
  fi_rule_ids :: "string list option"
  fi_refs :: "string list option"

record AiShadowResult =
  ai_severity :: ShadowAuditSeverity
  ai_findings :: "FindingItem list"

record JustifierResult =
  ju_ok :: bool
  ju_error :: "string option"

record 'd env =
  e_sha256 :: "string \<Rightarrow> string"
  e_decimal :: "'d decimal_ops"
  e_vars :: "string \<Rightarrow> string option"
  e_shadow :: "string \<Rightarrow> AiShadowResult"
  e_justifier :: "string \<Rightarrow> JustifierResult"

section \<open>Number(text)\<close>

text \<open>Decimal literals; the other literals of JavaScript (0x, 0o, 0b) count as NaN here.\<close>

definition exponent_of :: "string \<Rightarrow> int option" where
  "exponent_of t =
     (if t = [] then Some 0
      else if hd t \<in> {CHR ''e'', CHR ''E''}
      then let u = tl t; neg = (u \<noteq> [] \<and> hd u = CHR ''-'');
               ds = (if u \<noteq> [] \<and> hd u \<in> {CHR ''+'', CHR ''-''} then tl u else u)
           in if ds = [] \<or> \<not> list_all is_digit ds then None
              else Some (if neg then - int (digits_value ds) else int (digits_value ds))
      else None)"

definition parse_decimal :: "string \<Rightarrow> rat option" where
  "parse_decimal u =
     (let whole = takeWhile is_digit u; rest = dropWhile is_digit u;
          point = (rest \<noteq> [] \<and> hd rest = CHR ''.'');
          frac = (if point then takeWhile is_digit (tl rest) else []);
          tail = (if point then dropWhile is_digit (tl rest) else rest)
      in if whole = [] \<and> frac = [] then None
         else map_option (\<lambda>e. of_nat (digits_value (whole @ frac)) / 10 ^ length frac * 10 powi e)
                (exponent_of tail))"

definition number_of_text :: "string \<Rightarrow> number" where
  "number_of_text s =
     (let t = js_trim s; neg = (t \<noteq> [] \<and> hd t = CHR ''-'');
          u = (if t \<noteq> [] \<and> hd t \<in> {CHR ''+'', CHR ''-''} then tl t else t)
      in if t = [] then Fin 0
         else if u = ''Infinity'' then (if neg then NegInf else PosInf)
         else case parse_decimal u of None \<Rightarrow> NaN | Some x \<Rightarrow> to_num (if neg then - x else x))"

section \<open>Amounts\<close>

definition MAX_AMOUNT :: number where
  "MAX_AMOUNT = to_num (money 9999999999999999)"

definition je_error :: "string \<Rightarrow> string \<Rightarrow> error" where
  "je_error code message = ServiceError code message"

definition sanitizeAmount :: "number \<Rightarrow> error + number" where
  "sanitizeAmount n =
     (if \<not> is_finite n
      then Inl (je_error ''VALIDATION'' (''Invalid amount: value must be a finite number, received '' @ num_text n))
      else if num_less n (Fin 0)
      then Inl (je_error ''VALIDATION'' (''Invalid amount: value must be >= 0, received '' @ num_text n))
      else if num_less MAX_AMOUNT n
      then Inl (je_error ''VALIDATION'' (''Invalid amount: value '' @ num_text n @ '' exceeds maximum allowed (''
                  @ num_text MAX_AMOUNT @ '')''))
      else let parts = js_split (CHR ''.'') (num_text n) in
           if 1 < length parts \<and> 2 < length (parts ! 1)
           then Inl (je_error ''VALIDATION'' (''Invalid amount: value '' @ num_text n
                  @ '' has more than 2 decimal places (sub-penny precision not allowed)''))
           else Inr n)"

definition isSameUserApproveAllowed :: "'d env \<Rightarrow> bool" where
  "isSameUserApproveAllowed E =
     (let nodeEnv = js_or (e_vars E ''NODE_ENV'') []; mode = js_or (e_vars E ''MODE'') [] in
      if nodeEnv \<in> {''production'', ''staging'', ''demo''} \<or> mode \<in> {''prod'', ''staging'', ''demo''} then False
      else e_vars E ''ALLOW_SAME_USER_APPROVE'' = Some ''1''
           \<or> e_vars E ''ALLOW_SAME_USER_APPROVE'' = Some ''true'')"

text \<open>The errors of \<open>validateBalanced\<close> on the debits and credits; none is \<open>valid\<close>.\<close>

definition validateBalanced :: "'d decimal_ops \<Rightarrow> (number \<times> number) list \<Rightarrow> string list" where
  "validateBalanced D lines =
     (let totalDebit = sumRound2 D (map fst lines);
          totalCredit = sumRound2 D (map snd lines);
          diff = d_abs D (d_minus D (d_of_num D totalDebit) (d_of_num D totalCredit))
      in if d_isZero D diff then []
         else [''Total debits ('' @ num_text totalDebit @ '') do not equal total credits ('' @ num_text totalCredit
               @ ''); difference: '' @ num_text (d_toNumber D diff)])"

definition input_amounts :: "LineInput list \<Rightarrow> (number \<times> number) list" where
  "input_amounts lines = map (\<lambda>l. (js_or (ln_debit l) (Fin 0), js_or (ln_credit l) (Fin 0))) lines"

definition row_amounts :: "line_row list \<Rightarrow> (number \<times> number) list" where
  "row_amounts lines = map (\<lambda>l. (cents_num (jl_debit l), cents_num (jl_credit l))) lines"

section \<open>createDraftJE\<close>

record CreateDraftJEInput =
  cd_closeSessionId :: string
  cd_tenantId :: tenant_id
  cd_memo :: "string option"
  cd_source :: JournalEntrySource
  cd_createdBy :: "string option"
  cd_lines :: "LineInput list"

definition sanitize_opt :: "number option \<Rightarrow> error + number" where
  "sanitize_opt x = (case x of None \<Rightarrow> Inr (Fin 0) | Some n \<Rightarrow> sanitizeAmount n)"

definition line_error :: "nat \<Rightarrow> error \<Rightarrow> error" where
  "line_error i e = (case e of ServiceError c m \<Rightarrow>
     ServiceError ''VALIDATION'' (''Line '' @ nat_string (Suc i) @ '': '' @ m) | _ \<Rightarrow> e)"

fun sanitize_lines :: "nat \<Rightarrow> LineInput list \<Rightarrow> error + LineInput list" where
  "sanitize_lines i [] = Inr []"
| "sanitize_lines i (l # ls) =
     (case sanitize_opt (ln_debit l) of
        Inl e \<Rightarrow> Inl (line_error i e)
      | Inr d \<Rightarrow>
          (case sanitize_opt (ln_credit l) of
             Inl e \<Rightarrow> Inl (line_error i e)
           | Inr c \<Rightarrow>
               (case sanitize_lines (Suc i) ls of
                  Inl e \<Rightarrow> Inl e
                | Inr ls' \<Rightarrow> Inr (l\<lparr>ln_debit := Some d, ln_credit := Some c\<rparr> # ls'))))"

definition prov_lines :: "(LineInput \<Rightarrow> number option) \<Rightarrow> LineInput list \<Rightarrow> ProvLine list" where
  "prov_lines amount lines =
     map (\<lambda>l. \<lparr>pl_account = ln_accountRef l, pl_amount = amount l, pl_provenance = ln_provenance l\<rparr>)
       (filter (\<lambda>l. num_less (Fin 0) (js_or (amount l) (Fin 0))) lines)"

definition is_zero_line :: "LineInput \<Rightarrow> bool" where
  "is_zero_line l = (num_eq (js_or (ln_debit l) (Fin 0)) (Fin 0) \<and> num_eq (js_or (ln_credit l) (Fin 0)) (Fin 0))"

text \<open>The checks before anything is written, on the sanitised lines.\<close>

definition check_draft :: "'d env \<Rightarrow> CreateDraftJEInput \<Rightarrow> error + LineInput list" where
  "check_draft E input =
     (let trimmed = js_trim (js_or (cd_memo input) []) in
      if trimmed = [] then Inl (je_error ''VALIDATION'' ''Journal entry memo/description is required'')
      else if length trimmed < 5 then Inl (je_error ''VALIDATION'' ''Journal entry memo must be at least 5 characters'')
      else case sanitize_lines 0 (cd_lines input) of
        Inl e \<Rightarrow> Inl e
      | Inr lines \<Rightarrow>
          let zeroLines = filter is_zero_line lines;
              balanceErrors = validateBalanced (e_decimal E) (input_amounts lines);
              provErrors = validateJEProvenance (prov_lines ln_debit lines) (prov_lines ln_credit lines)
          in if zeroLines \<noteq> []
             then Inl (je_error ''VALIDATION'' (nat_string (length zeroLines)
               @ '' line(s) have both debit and credit equal to zero -- remove them or assign an amount''))
             else if balanceErrors \<noteq> []
             then Inl (je_error ''VALIDATION'' (''Journal entry must balance: '' @ js_join ''; '' balanceErrors))
             else if provErrors \<noteq> []
             then Inl (je_error ''VALIDATION''
               (''Amount provenance required for non-zero amounts: '' @ js_join ''; '' provErrors))
             else Inr lines)"

definition createDraftJE :: "'d env \<Rightarrow> CreateDraftJEInput \<Rightarrow> ('a, JournalEntry) je_op" where
  "createDraftJE E input s =
     (case check_draft E input of
        Inl e \<Rightarrow> (Inl e, s)
      | Inr lines \<Rightarrow>
          let (i, s) = random_text s in
          andThen (insertJournalEntry i (cd_closeSessionId input) (cd_tenantId input) Draft (cd_memo input)
              (cd_source input) (cd_createdBy input) s) (\<lambda>_ s.
          andThen (insertJournalEntryLines i lines s) (\<lambda>_ s.
            (case getJournalEntryById i (cd_tenantId input) s of
               None \<Rightarrow> (Inl (je_error ''NOT_FOUND'' ''Journal entry not found after insert''), s)
             | Some je \<Rightarrow> (Inr je, s)))))"

section \<open>proposeJE, approveJE, rejectJE\<close>

definition je_not_found :: error where
  "je_not_found = je_error ''NOT_FOUND'' ''Journal entry not found''"

definition status_now :: "string \<Rightarrow> tenant_id \<Rightarrow> 'a je_db_scheme \<Rightarrow> string" where
  "status_now i tenant s = (case getJournalEntryById i tenant s of
     None \<Rightarrow> ''unknown'' | Some je \<Rightarrow> je_status_text (entry_status je))"

definition cannot :: "string \<Rightarrow> string \<Rightarrow> tenant_id \<Rightarrow> 'a je_db_scheme \<Rightarrow> error" where
  "cannot verb i tenant s = je_error ''INVALID_STATUS'' (''Journal entry '' @ i @ '' is in status '' @ [CHR 0x27]
     @ status_now i tenant s @ [CHR 0x27] @ '', cannot '' @ verb)"

definition wrong_status :: "string \<Rightarrow> JournalEntryStatus \<Rightarrow> error" where
  "wrong_status what st = je_error ''INVALID_STATUS'' (what @ ''; current status: '' @ je_status_text st)"

definition session_period :: "tenant_id \<Rightarrow> string \<Rightarrow> 'a je_db_scheme \<Rightarrow> string option" where
  "session_period tenant sessionId s =
     (if sessionId = [] then None
      else map_option (\<lambda>c. take 7 (ses_periodEnd c)) (getCloseSessionById tenant sessionId s))"

definition proposeJE :: "'d env \<Rightarrow> tenant_id \<Rightarrow> string \<Rightarrow> ('a, JournalEntry) je_op" where
  "proposeJE E tenant i s =
     (case getJournalEntryById i tenant s of
        None \<Rightarrow> (Inl je_not_found, s)
      | Some je \<Rightarrow>
          if entry_status je \<noteq> Draft then (Inl (wrong_status ''Only draft JEs can be proposed'' (entry_status je)), s)
          else let errors = validateBalanced (e_decimal E) (row_amounts (listJournalEntryLines i s)) in
            if errors \<noteq> [] then (Inl (je_error ''VALIDATION'' (''JE does not balance: '' @ js_join ''; '' errors)), s)
            else andThen (updateJournalEntryStatus i tenant Proposed (no_patch\<lparr>pt_expectedStatus := Some Draft\<rparr>) s)
              (\<lambda>updated s. case updated of
                 None \<Rightarrow> (Inl (cannot ''propose'' i tenant s), s)
               | Some je \<Rightarrow> (Inr je, s)))"

definition sod_error :: error where
  "sod_error = je_error ''SEGREGATION''
     ''Segregation of duties: approver cannot be the same as preparer (created_by). SoD is enforced in production.''"

definition approveJE :: "'d env \<Rightarrow> tenant_id \<Rightarrow> string \<Rightarrow> string \<Rightarrow> ('a, JournalEntry) je_op" where
  "approveJE E tenant i approver s =
     (case getJournalEntryById i tenant s of
        None \<Rightarrow> (Inl je_not_found, s)
      | Some je \<Rightarrow>
          if entry_status je \<noteq> Proposed then (Inl (wrong_status ''Only proposed JEs can be approved'' (entry_status je)), s)
          else if \<not> isSameUserApproveAllowed E \<and> truthy (createdBy je) \<and> createdBy je = Some approver
          then (Inl sod_error, s)
          else andThen (updateJournalEntryStatus i tenant Approved
              (no_patch\<lparr>pt_approvedBy := Some approver, pt_expectedStatus := Some Proposed\<rparr>) s)
            (\<lambda>updated s. case updated of
               Some je \<Rightarrow> (Inr je, s)
             | None \<Rightarrow>
                 (case getJournalEntryById i tenant s of
                    Some current \<Rightarrow>
                      if entry_status current = Approved
                      then (Inl (je_error ''INVALID_STATUS'' (''Journal entry '' @ i @ '' was already approved by ''
                             @ js_or (approvedBy current) ''unknown'')), s)
                      else (Inl (cannot ''approve'' i tenant s), s)
                  | None \<Rightarrow> (Inl (cannot ''approve'' i tenant s), s))))"

definition rejectJE :: "'d env \<Rightarrow> tenant_id \<Rightarrow> string \<Rightarrow> string \<Rightarrow> string \<Rightarrow> ('a, JournalEntry) je_op" where
  "rejectJE E tenant i reason who s =
     (case getJournalEntryById i tenant s of
        None \<Rightarrow> (Inl je_not_found, s)
      | Some je \<Rightarrow>
          if entry_status je \<noteq> Proposed then (Inl (wrong_status ''Only proposed JEs can be rejected'' (entry_status je)), s)
          else let reasonTrimmed = js_trim reason in
            if length reasonTrimmed < 10
            then (Inl (je_error ''VALIDATION'' ''Rejection reason is required (minimum 10 characters)''), s)
            else let (t, s) = now s in
              andThen (updateJournalEntryStatus i tenant Rejected
                  (no_patch\<lparr>pt_rejectionReason := Some reasonTrimmed, pt_rejectedBy := Some who,
                    pt_rejectedAt := Some t, pt_expectedStatus := Some Proposed\<rparr>) s)
                (\<lambda>updated s. case updated of
                   None \<Rightarrow> (Inl (cannot ''reject'' i tenant s), s)
                 | Some upd \<Rightarrow>
                     andThen (recordMaterialEvent True (e_sha256 E)
                       \<lparr>me_tenantId = tenant, me_periodLabel = session_period tenant (closeSessionId je) s,
                        me_eventType = ''je_posting'',
                        me_snapshot = [(''jeId'', JStr i), (''event'', JStr ''je_rejected''),
                          (''reason'', JStr reasonTrimmed), (''rejectedBy'', JStr who),
                          (''rejectedAt'', JStr (toISOString t))],
                        me_dissent = None, me_createdBy = None\<rparr> s)
                     (\<lambda>_ s. (Inr upd, s))))"

section \<open>Shadow auditor\<close>

definition getRestrictedAccounts :: "'d env \<Rightarrow> string list" where
  "getRestrictedAccounts E =
     (case e_vars E ''SHADOW_AUDITOR_RESTRICTED_ACCOUNTS'' of
        None \<Rightarrow> []
      | Some raw \<Rightarrow> if js_trim raw = [] then []
          else filter (\<lambda>x. x \<noteq> []) (map js_trim (js_split (CHR '','') raw)))"

definition getMaterialityThreshold :: "'d env \<Rightarrow> number option" where
  "getMaterialityThreshold E =
     (case e_vars E ''SHADOW_AUDITOR_MATERIALITY_THRESHOLD'' of
        None \<Rightarrow> None
      | Some raw \<Rightarrow> if js_trim raw = [] then None
          else let n = number_of_text raw in if is_finite n \<and> num_less (Fin 0) n then Some n else None)"

definition flag :: "string \<Rightarrow> string \<Rightarrow> ShadowAuditSeverity \<Rightarrow> FindingItem" where
  "flag code message sev = \<lparr>fi_code = code, fi_message = message, fi_severity = Some sev,
     fi_rule_ids = None, fi_refs = None\<rparr>"

definition line_flags :: "'d env \<Rightarrow> nat \<Rightarrow> line_row \<Rightarrow> FindingItem list" where
  "line_flags E i l =
     (let accountRef = js_trim (jl_account l);
          debit = cents_num (jl_debit l); credit = cents_num (jl_credit l);
          restricted = list_ex (\<lambda>r. js_toLowerCase accountRef = js_toLowerCase r
             \<or> js_includes (js_toLowerCase accountRef) (js_toLowerCase r)) (getRestrictedAccounts E);
          n = nat_string (Suc i)
      in (if restricted then [flag ''RESTRICTED_ACCOUNT'' (''Account '' @ [CHR 0x22] @ accountRef @ [CHR 0x22]
             @ '' is on the restricted/related-party list. Posting blocked.'') SevBlock] else [])
       @ (if num_less debit (Fin 0) \<or> num_less credit (Fin 0)
          then [flag ''NEGATIVE_AMOUNT'' (''Line '' @ n @ '': debit='' @ num_text debit @ '', credit=''
             @ num_text credit @ ''. Debit and credit must be non-negative.'') SevBlock] else [])
       @ (if num_eq debit (Fin 0) \<and> num_eq credit (Fin 0)
          then [flag ''ZERO_LINE'' (''Line '' @ n @ '': account '' @ [CHR 0x22] @ accountRef @ [CHR 0x22]
             @ '' has zero debit and credit. Lines must have a non-zero debit or credit.'') SevBlock] else [])
       @ (case getMaterialityThreshold E of
            None \<Rightarrow> []
          | Some m \<Rightarrow> if num_le m debit \<or> num_le m credit
              then [flag ''MATERIALITY_THRESHOLD'' (''Line '' @ n @ '': amount '' @ num_text (num_max debit credit)
                 @ '' exceeds materiality threshold '' @ num_text m @ ''.'') SevWarn] else []))"

fun runPrePostChecks_from :: "'d env \<Rightarrow> nat \<Rightarrow> line_row list \<Rightarrow> FindingItem list" where
  "runPrePostChecks_from E i [] = []"
| "runPrePostChecks_from E i (l # ls) = line_flags E i l @ runPrePostChecks_from E (Suc i) ls"

text \<open>\<open>severity\<close> is raised to block by every blocking flag and to warn by a warning unless it blocks.\<close>

definition raise_severity :: "ShadowAuditSeverity \<Rightarrow> FindingItem \<Rightarrow> ShadowAuditSeverity" where
  "raise_severity sev f = (if fi_severity f = Some SevBlock then SevBlock
     else if sev \<noteq> SevBlock then SevWarn else sev)"

definition runPrePostChecks :: "'d env \<Rightarrow> line_row list \<Rightarrow> FindingItem list \<times> ShadowAuditSeverity" where
  "runPrePostChecks E lines =
     (let flags = runPrePostChecks_from E 0 lines in (flags, foldl raise_severity SevOk flags))"

definition toFindingItems :: "FindingItem list \<Rightarrow> string \<Rightarrow> FindingItem list" where
  "toFindingItems flags jeId =
     map (\<lambda>f. f\<lparr>fi_rule_ids := Some (js_or (fi_rule_ids f) []), fi_refs := Some (js_or (fi_refs f) [jeId])\<rparr>) flags"

record PrePostResult =
  pr_flags :: "FindingItem list"
  pr_severity :: ShadowAuditSeverity
  pr_findingId :: string

definition merge_severity :: "ShadowAuditSeverity \<Rightarrow> ShadowAuditSeverity \<Rightarrow> ShadowAuditSeverity" where
  "merge_severity a b =
     (if a = SevBlock \<or> b = SevBlock then SevBlock else if a = SevWarn \<or> b = SevWarn then SevWarn else SevOk)"

definition runPrePostChecksAndStore ::
  "'d env \<Rightarrow> tenant_id \<Rightarrow> string \<Rightarrow> string \<Rightarrow> string option \<Rightarrow> line_row list \<Rightarrow> 'a je_db_scheme
     \<Rightarrow> PrePostResult \<times> 'a je_db_scheme" where
  "runPrePostChecksAndStore E tenant periodLabel jeId actor lines s0 =
     (let (flags, severity) = runPrePostChecks E lines;
          s = record_call ''runShadowAudit'' [tenant, periodLabel, jeId] s0;
          aiResult = e_shadow E jeId;
          mergedSeverity = merge_severity severity (ai_severity aiResult);
          aiItems = map (\<lambda>f. f\<lparr>fi_severity := None\<rparr>) (ai_findings aiResult);
          mergedFindings = toFindingItems flags jeId @ aiItems;
          (findingId, s') = createFinding tenant periodLabel jeId (shadow_severity_text mergedSeverity)
            (map (\<lambda>f. (fi_code f, fi_message f)) mergedFindings) actor s
      in (\<lparr>pr_flags = mergedFindings, pr_severity = mergedSeverity, pr_findingId = findingId\<rparr>, s'))"

end
