(* ===== verification/JournalPosting.thy ===== *)
theory JournalPosting
  imports JournalEntryService
begin

text \<open>
  The second half of \<open>src/src/services/journal_entry_service.ts\<close>: posting, export, the validations,
  the queries, deletion, reversal and attachments. \<open>createJustificationFromAI\<close>, \<open>executeCascade\<close> and
  the event emitter are noted as calls, with the identifiers they get.
\<close>

section \<open>Validations\<close>

text \<open>Dates are ISO texts, so comparing them as \<open>Date\<close> is comparing them as text.\<close>

definition validatePeriod :: "tenant_id \<Rightarrow> string \<Rightarrow> string option \<Rightarrow> 'a je_db_scheme \<Rightarrow> string list" where
  "validatePeriod tenant sessionId date s =
     (case getCloseSessionById tenant sessionId s of
        None \<Rightarrow> [''Close session '' @ sessionId @ '' not found'']
      | Some session \<Rightarrow>
          if truthy date \<and> ses_periodStart session \<noteq> [] \<and> ses_periodEnd session \<noteq> []
             \<and> (the date < ses_periodStart session \<or> ses_periodEnd session < the date)
          then [''Entry date '' @ the date @ '' is outside the close period ['' @ ses_periodStart session @ '', ''
                @ ses_periodEnd session @ '']'']
          else [])"

definition validateNoPriorPeriodConflict ::
  "tenant_id \<Rightarrow> string \<Rightarrow> string \<Rightarrow> 'a je_db_scheme \<Rightarrow> string list" where
  "validateNoPriorPeriodConflict tenant date currentSessionId s =
     (case find (\<lambda>c. cs_tenant c = tenant \<and> cs_id c \<noteq> currentSessionId \<and> cs_status c \<in> {Certified, Locked}
          \<and> cs_period_start c \<le> date \<and> date \<le> cs_period_end c) (close_sessions s) of
        None \<Rightarrow> []
      | Some c \<Rightarrow> [''Cannot post to date '' @ date @ '': period ['' @ cs_period_start c @ '', '' @ cs_period_end c
          @ ''] is already '' @ session_status_text (cs_status c) @ '' (session '' @ cs_id c @ '')''])"

text \<open>\<open>triage\<close> is the threshold of \<open>getLatestTriage\<close>, if there is one.\<close>

definition validateMaterialityWarnings ::
  "number option \<Rightarrow> (number option \<times> number option) list \<Rightarrow> number option \<Rightarrow> string list" where
  "validateMaterialityWarnings triage lines materialityThreshold =
     (let threshold = (case materialityThreshold of
            Some m \<Rightarrow> if num_le m (Fin 0) then js_or triage (Fin 0) else m
          | None \<Rightarrow> js_or triage (Fin 0))
      in if num_le threshold (Fin 0) then []
         else concat (map (\<lambda>(i, (d, c)).
           let amt = num_max (js_or d (Fin 0)) (js_or c (Fin 0)) in
           if num_less threshold amt
           then [''Line '' @ nat_string (Suc i) @ '' amount '' @ num_text amt @ '' exceeds materiality threshold ''
                 @ num_text threshold] else []) (zip [0..<length lines] lines)))"

section \<open>postJE\<close>

definition computeJETotalAmount :: "'d env \<Rightarrow> line_row list \<Rightarrow> number" where
  "computeJETotalAmount E lines = sumRound2 (e_decimal E) (map (\<lambda>l. cents_num (jl_debit l)) lines)"

fun num_toFixed2 :: "number \<Rightarrow> string" where
  "num_toFixed2 (Fin x) = fixed_text 2 x"
| "num_toFixed2 n = num_text n"

definition evidence_missing :: "'d env \<Rightarrow> tenant_id \<Rightarrow> string \<Rightarrow> line_row list \<Rightarrow> 'a je_db_scheme \<Rightarrow> error option" where
  "evidence_missing E tenant i lines s =
     (let thresholdNum = (case evidence_threshold tenant s of
            None \<Rightarrow> Fin 0 | Some t \<Rightarrow> if t = [] then Fin 0 else number_of_text t);
          totalAmount = computeJETotalAmount E lines;
          D = e_decimal E
      in if num_less (Fin 0) thresholdNum \<and> d_gte D (d_of_num D totalAmount) (d_of_num D thresholdNum)
            \<and> evidence_for_object tenant ''journal_entry'' i s = []
         then Some (je_error ''VALIDATION'' (''Cannot post: journal entry total of $'' @ num_toFixed2 totalAmount
                @ '' meets or exceeds the evidence threshold of $'' @ num_toFixed2 thresholdNum
                @ ''. Supporting documentation is required. Upload invoices, contracts, calculations, or other supporting documents before posting.''))
         else None)"

definition shadow_issue :: "tenant_id \<Rightarrow> string \<Rightarrow> string \<Rightarrow> string \<Rightarrow> string \<Rightarrow> string \<Rightarrow> FindingItem \<Rightarrow> string
     \<Rightarrow> CreateIssueForSessionInput" where
  "shadow_issue tenant sessionId i findingId label severity f sev =
     \<lparr>fs_closeSessionId = sessionId, fs_tenantId = tenant, fs_entityId = None,
      fs_issueType = Some ''shadow_audit'', fs_category = ''journal_entry'', fs_severity = severity,
      fs_title = ''Shadow Audit '' @ label @ '': '' @ fi_code f @ '' on JE '' @ i,
      fs_description = Some (fi_message f),
      fs_sourceRef = Some (JObj [(''journalEntryId'', JStr i), (''findingId'', JStr findingId),
        (''code'', JStr (fi_code f)), (''severity'', JStr sev)])\<rparr>"

definition raise_issues :: "CreateIssueForSessionInput list \<Rightarrow> 'a je_db_scheme \<Rightarrow> 'a je_db_scheme" where
  "raise_issues inputs s = foldl (\<lambda>s input. swallow (createIssueForSession input s)) s inputs"

definition surface_findings ::
  "tenant_id \<Rightarrow> string \<Rightarrow> string \<Rightarrow> PrePostResult \<Rightarrow> 'a je_db_scheme \<Rightarrow> 'a je_db_scheme" where
  "surface_findings tenant sessionId i shadow s =
     (if pr_severity shadow \<in> {SevBlock, SevWarn} \<and> sessionId \<noteq> []
      then raise_issues
        (map (\<lambda>f. shadow_issue tenant sessionId i (pr_findingId shadow) ''BLOCK'' ''critical'' f ''block'')
           (filter (\<lambda>f. fi_severity f = Some SevBlock) (pr_flags shadow))
         @ map (\<lambda>f. shadow_issue tenant sessionId i (pr_findingId shadow) ''WARNING'' ''warning'' f ''warn'')
           (filter (\<lambda>f. fi_severity f = Some SevWarn) (pr_flags shadow))) s
      else s)"

record PostJEResult =
  po_journalEntry :: JournalEntry
  po_aiWarning :: "string option"
  po_shadowWarnings :: "(string \<times> string) list"

text \<open>What follows the status change: the ledger entry, the justification, the cascade and the events.\<close>

definition after_post ::
  "'d env \<Rightarrow> tenant_id \<Rightarrow> string \<Rightarrow> JournalEntry \<Rightarrow> string \<Rightarrow> timestamp \<Rightarrow> ('a, string option) je_op" where
  "after_post E tenant i je periodLabel t s =
     andThen (recordMaterialEvent True (e_sha256 E)
       \<lparr>me_tenantId = tenant, me_periodLabel = Some periodLabel, me_eventType = ''je_posting'',
        me_snapshot = [(''jeId'', JStr i), (''closeSessionId'', JStr (closeSessionId je)),
          (''previousStatus'', JStr ''approved''), (''newStatus'', JStr ''posted''),
          (''postedAt'', JStr (toISOString t))],
        me_dissent = None, me_createdBy = None\<rparr> s)
       (\<lambda>_ s.
         let s = record_call ''createJustificationFromAI'' [tenant, periodLabel, i]
                   (record_call ''runJustifier'' [tenant, periodLabel, i] s);
             warning = (if ju_ok (e_justifier E i) then None
                        else Some (js_or (ju_error (e_justifier E i)) ''Justifier failed''));
             s = (if closeSessionId je = [] then s
                  else record_call ''emit GATE_CHECK_REQUESTED'' [tenant, closeSessionId je, ''je_posted'']
                    (case getCloseSessionById tenant (closeSessionId je) s of
                       None \<Rightarrow> s
                     | Some session \<Rightarrow> record_call ''executeCascade'' [''AJE_POSTED'', tenant, closeSessionId je,
                         ses_entityId session, js_or (approvedBy je) ''system'', i] s))
         in (Inr warning, s))"

definition postJE :: "'d env \<Rightarrow> tenant_id \<Rightarrow> string \<Rightarrow> ('a, PostJEResult) je_op" where
  "postJE E tenant i s =
     (case getJournalEntryById i tenant s of
        None \<Rightarrow> (Inl je_not_found, s)
      | Some je \<Rightarrow>
          if entry_status je \<noteq> Approved then (Inl (wrong_status ''Only approved JEs can be posted'' (entry_status je)), s)
          else if js_trim (js_or (memo je) []) = []
          then (Inl (je_error ''VALIDATION'' ''Cannot post journal entry without a memo''), s)
          else let dateErrors = (if closeSessionId je \<noteq> [] \<and> getCloseSessionById tenant (closeSessionId je) s \<noteq> None
                                    \<and> truthy (entryDate je)
                 then (let p = validatePeriod tenant (closeSessionId je) (entryDate je) s in
                       if p \<noteq> [] then p
                       else validateNoPriorPeriodConflict tenant (the (entryDate je)) (closeSessionId je) s)
                 else [])
          in if dateErrors \<noteq> [] then (Inl (je_error ''VALIDATION'' (js_join ''; '' dateErrors)), s)
          else let lines = listJournalEntryLines i s in
          case evidence_missing E tenant i lines s of
            Some e \<Rightarrow> (Inl e, s)
          | None \<Rightarrow>
            let periodLabel = js_or (session_period tenant (closeSessionId je) s) i;
                (shadow, s) = runPrePostChecksAndStore E tenant periodLabel i (approvedBy je) lines s;
                s = surface_findings tenant (closeSessionId je) i shadow s
            in if pr_severity shadow = SevBlock
               then (Inl (je_error ''SHADOW_AUDIT_BLOCK'' (''Shadow Auditor blocked post: ''
                       @ js_join ''; '' (map fi_message (pr_flags shadow)))), s)
               else let warned = (pr_severity shadow = SevWarn \<and> pr_flags shadow \<noteq> []);
                        shadowWarnings = (if warned then map (\<lambda>f. (fi_code f, fi_message f))
                          (filter (\<lambda>f. fi_code f = ''MATERIALITY_THRESHOLD'') (pr_flags shadow)) else []);
                        s = (if warned then record_call ''emit JE_POLICY_VIOLATION'' [tenant, i, periodLabel] s else s);
                        (t, s) = now s
                    in andThen (updateJournalEntryStatus i tenant Posted
                         (no_patch\<lparr>pt_postedAt := Some t, pt_expectedStatus := Some Approved\<rparr>) s)
                       (\<lambda>updated s. case updated of
                          None \<Rightarrow> (Inl (cannot ''post'' i tenant s), s)
                        | Some upd \<Rightarrow>
                            andThen (after_post E tenant i je periodLabel t s) (\<lambda>warning s.
                            (Inr \<lparr>po_journalEntry = upd, po_aiWarning = warning,
                                  po_shadowWarnings = shadowWarnings\<rparr>, s))))"

definition exportJE :: "tenant_id \<Rightarrow> string \<Rightarrow> ('a, JournalEntry) je_op" where
  "exportJE tenant i s =
     (case getJournalEntryById i tenant s of
        None \<Rightarrow> (Inl je_not_found, s)
      | Some je \<Rightarrow>
          if entry_status je \<noteq> Posted then (Inl (wrong_status ''Only posted JEs can be exported'' (entry_status je)), s)
          else andThen (updateJournalEntryStatus i tenant Exported (no_patch\<lparr>pt_expectedStatus := Some Posted\<rparr>) s)
            (\<lambda>updated s. case updated of
               None \<Rightarrow> (Inl (cannot ''export'' i tenant s), s)
             | Some je \<Rightarrow> (Inr je, s)))"

section \<open>Queries\<close>

definition getJournalEntryWithLines ::
  "tenant_id \<Rightarrow> string \<Rightarrow> 'a je_db_scheme \<Rightarrow> (JournalEntry \<times> line_row list) option" where
  "getJournalEntryWithLines tenant i s =
     map_option (\<lambda>je. (je, listJournalEntryLines i s)) (getJournalEntryById i tenant s)"

definition listPostableJournalEntries ::
  "tenant_id \<Rightarrow> string option \<Rightarrow> 'a je_db_scheme \<Rightarrow> JournalEntry list" where
  "listPostableJournalEntries tenant sessionId s =
     filter (\<lambda>je. entry_status je = Posted \<or> entry_status je = Exported)
       (listJournalEntries tenant sessionId None (Some 5000) s)"

definition getPostableJEAdjustments ::
  "tenant_id \<Rightarrow> string option \<Rightarrow> 'a je_db_scheme \<Rightarrow> ((string \<times> number) list \<times> (string \<times> number) list) list" where
  "getPostableJEAdjustments tenant sessionId s =
     (let postable = listPostableJournalEntries tenant sessionId s;
          linesMap = listJournalEntryLinesBatch (map entry_id postable) s
      in map (\<lambda>je. let lines = js_or (linesMap (entry_id je)) [] in
           (map (\<lambda>l. (jl_account l, cents_num (jl_debit l)))
              (filter (\<lambda>l. num_less (Fin 0) (cents_num (jl_debit l))) lines),
            map (\<lambda>l. (jl_account l, cents_num (jl_credit l)))
              (filter (\<lambda>l. num_less (Fin 0) (cents_num (jl_credit l))) lines))) postable)"

section \<open>deleteDraftJE\<close>

definition deleteDraftJE :: "'d env \<Rightarrow> tenant_id \<Rightarrow> string \<Rightarrow> string \<Rightarrow> ('a, string) je_op" where
  "deleteDraftJE E tenant i userId s =
     (case getJournalEntryById i tenant s of
        None \<Rightarrow> (Inl je_not_found, s)
      | Some je \<Rightarrow>
          if entry_status je \<notin> {Draft, Rejected}
          then (Inl (je_error ''INVALID_STATUS'' (''Cannot delete journal entry in '' @ [CHR 0x27]
                  @ je_status_text (entry_status je) @ [CHR 0x27]
                  @ '' status. Only draft or rejected entries can be deleted.'')), s)
          else andThen (deleteJournalEntry i tenant s) (\<lambda>_ s.
               andThen (recordMaterialEvent True (e_sha256 E)
                 \<lparr>me_tenantId = tenant, me_periodLabel = session_period tenant (closeSessionId je) s,
                  me_eventType = ''je_posting'',
                  me_snapshot = [(''event'', JStr ''je_deleted''), (''jeId'', JStr i),
                    (''previousStatus'', JStr (je_status_text (entry_status je))), (''deletedBy'', JStr userId)],
                  me_dissent = None, me_createdBy = None\<rparr> s)
               (\<lambda>_ s. (Inr i, s))))"

section \<open>Reversals\<close>

definition reversal_input :: "tenant_id \<Rightarrow> string \<Rightarrow> string \<Rightarrow> JournalEntry \<Rightarrow> line_row list \<Rightarrow> CreateDraftJEInput" where
  "reversal_input tenant originalId userId original originalLines =
     \<lparr>cd_closeSessionId = closeSessionId original, cd_tenantId = tenant,
      cd_memo = Some (js_trim (''Reversal of JE '' @ originalId @ '': '' @ js_or (memo original) [])),
      cd_source = Manual, cd_createdBy = Some userId,
      cd_lines = map (\<lambda>l. \<lparr>ln_accountRef = jl_account l, ln_debit = Some (cents_num (jl_credit l)),
          ln_credit = Some (cents_num (jl_debit l)),
          ln_description = Some (''Reversal: '' @ js_or (jl_description l) (jl_account l)),
          ln_provenance = Some (HumanEntered userId None)\<rparr>) originalLines\<rparr>"

definition reversePostedJE ::
  "'d env \<Rightarrow> tenant_id \<Rightarrow> string \<Rightarrow> string \<Rightarrow> string option \<Rightarrow> ('a, JournalEntry) je_op" where
  "reversePostedJE E tenant originalId userId revDate s =
     (case getJournalEntryById originalId tenant s of
        None \<Rightarrow> (Inl je_not_found, s)
      | Some original \<Rightarrow>
          if entry_status original \<noteq> Posted \<and> entry_status original \<noteq> Exported
          then (Inl (wrong_status ''Only posted or exported JEs can be reversed'' (entry_status original)), s)
          else if truthy (reversedByJeId original)
          then (Inl (je_error ''VALIDATION'' (''Journal entry '' @ originalId @ '' has already been reversed by JE ''
                  @ the (reversedByJeId original))), s)
          else andThen (createDraftJE E (reversal_input tenant originalId userId original
                 (listJournalEntryLines originalId s)) s) (\<lambda>reversalJE s.
               let s = swallow (update_je (je_key (entry_id reversalJE) tenant)
                         (\<lambda>r. r\<lparr>je_reverses := Some originalId, je_is_reversal := True\<rparr>) s);
                   s = swallow (update_je (\<lambda>r. je_key originalId tenant r \<and> je_frozen r)
                         (\<lambda>r. r\<lparr>je_reversed_by := Some (entry_id reversalJE)\<rparr>) s)
               in andThen (recordMaterialEvent True (e_sha256 E)
                    \<lparr>me_tenantId = tenant, me_periodLabel = session_period tenant (closeSessionId original) s,
                     me_eventType = ''je_posting'',
                     me_snapshot = [(''event'', JStr ''je_reversal_created''), (''originalJeId'', JStr originalId),
                       (''reversalJeId'', JStr (entry_id reversalJE)), (''reversalDate'', undef_json revDate),
                       (''createdBy'', JStr userId)],
                     me_dissent = None, me_createdBy = None\<rparr> s)
                  (\<lambda>_ s. (Inr reversalJE, s))))"

definition due_reversal :: "tenant_id \<Rightarrow> string \<Rightarrow> je_row \<Rightarrow> bool" where
  "due_reversal tenant asOfDate r =
     (je_tenant r = tenant \<and> je_frozen r
      \<and> (case je_reversal_date r of None \<Rightarrow> False | Some d \<Rightarrow> d \<le> asOfDate)
      \<and> je_reversed_by r = None \<and> \<not> je_is_reversal r)"

fun reverse_all ::
  "'d env \<Rightarrow> tenant_id \<Rightarrow> string \<Rightarrow> string list \<Rightarrow> string list \<Rightarrow> string list \<Rightarrow> 'a je_db_scheme
     \<Rightarrow> (string list \<times> string list) \<times> 'a je_db_scheme" where
  "reverse_all E tenant userId [] created skipped s = ((created, skipped), s)"
| "reverse_all E tenant userId (i # is) created skipped s =
     (case reversePostedJE E tenant i userId None s of
        (Inr reversal, s') \<Rightarrow> reverse_all E tenant userId is (created @ [entry_id reversal]) skipped s'
      | (Inl e, s') \<Rightarrow> reverse_all E tenant userId is created (skipped @ [i]) s')"

definition processScheduledReversals ::
  "'d env \<Rightarrow> tenant_id \<Rightarrow> string \<Rightarrow> string \<Rightarrow> 'a je_db_scheme
     \<Rightarrow> (string list \<times> string list) \<times> 'a je_db_scheme" where
  "processScheduledReversals E tenant asOfDate userId s =
     reverse_all E tenant userId (map je_id (filter (due_reversal tenant asOfDate) (journal_entries s))) [] [] s"

section \<open>Attachments\<close>

definition addJEAttachment :: "tenant_id \<Rightarrow> string \<Rightarrow> string \<Rightarrow> ('a, JEAttachment) je_op" where
  "addJEAttachment tenant jeId fileRef s =
     (case getJournalEntryById jeId tenant s of
        None \<Rightarrow> (Inl je_not_found, s)
      | Some je \<Rightarrow> let (i, s) = random_text s in insertJEAttachment i jeId fileRef tenant s)"

end
