(* ===== verification/JournalAmounts.thy ===== *)
theory JournalAmounts
  imports JournalPosting
begin

text \<open>
  The amounts of journal entries: cents in the tables, doubles in the service, decimals in the
  balance check. Below \<open>10 ^ 15\<close> cents nothing is lost on the way.
\<close>

section \<open>Numbers and NUMERIC(20,2)\<close>

lemma to_cents_has: "has_cents n c \<Longrightarrow> \<bar>c\<bar> < 10 ^ 20 \<Longrightarrow> to_cents n = Some c"
  by (cases n) (simp_all add: money_def)

lemma has_cents_num: "\<bar>c\<bar> < 10 ^ 15 \<Longrightarrow> has_cents (cents_num c) c"
  by (simp add: cents_num_def has_cents_to_num)

text \<open>
  An amount read from a NUMERIC(20,2) column as a JavaScript number and written back is the same
  amount, below ten thousand billion (\<open>10 ^ 15\<close> cents).
\<close>

theorem cents_roundtrip:
  assumes "\<bar>c\<bar> < 10 ^ 15"
  shows "to_cents (cents_num c) = Some c"
  using assms by (intro to_cents_has has_cents_num) auto

theorem cents_roundtrip_witness: "to_cents (cents_num 123456789012345) = Some 123456789012345"
  using cents_roundtrip [of 123456789012345] by simp

section \<open>The balance check\<close>

context decimal_js
begin

lemma validateBalanced_cents:
  assumes "list_all2 has_cents (map fst lines) ds" and "list_all2 has_cents (map snd lines) cs"
    and "(\<Sum>x\<leftarrow>ds. \<bar>x\<bar>) < 10 ^ 15" and "(\<Sum>x\<leftarrow>cs. \<bar>x\<bar>) < 10 ^ 15"
  shows "validateBalanced D lines = [] \<longleftrightarrow> sum_list ds = sum_list cs"
proof -
  have d: "\<bar>sum_list ds\<bar> < 10 ^ 15" and c: "\<bar>sum_list cs\<bar> < 10 ^ 15"
    using sum_list_abs [of ds] sum_list_abs [of cs] assms(3,4) by linarith+
  have "sumRound2 D (map fst lines) = to_num (money (sum_list ds))"
    "sumRound2 D (map snd lines) = to_num (money (sum_list cs))"
    using assms by (auto intro!: sumRound2_cents)
  with diff_isZero_cents [OF has_cents_to_num [OF d] has_cents_to_num [OF c]] d c show ?thesis
    by (auto simp: validateBalanced_def Let_def)
qed

end

lemma row_amounts_cents:
  assumes "list_all (\<lambda>l. 0 \<le> jl_debit l \<and> jl_debit l < 10 ^ 15 \<and> 0 \<le> jl_credit l \<and> jl_credit l < 10 ^ 15) ls"
  shows "list_all2 has_cents (map fst (row_amounts ls)) (map jl_debit ls)"
    and "list_all2 has_cents (map snd (row_amounts ls)) (map jl_credit ls)"
  using assms by (induction ls) (auto simp: row_amounts_def has_cents_num)

lemma sum_list_member_le: "list_all (\<lambda>x. 0 \<le> x) xs \<Longrightarrow> x \<in> set xs \<Longrightarrow> (x :: int) \<le> sum_list xs \<and> 0 \<le> sum_list xs"
  by (simp add: list_all_iff member_le_sum_list sum_list_nonneg)

lemma sum_list_abs_id: "list_all (\<lambda>x. 0 \<le> (x :: int)) xs \<Longrightarrow> (\<Sum>x\<leftarrow>xs. \<bar>x\<bar>) = sum_list xs"
  by (induction xs) auto

text \<open>
  C17. On the stored lines of an entry, all non-negative and of less than \<open>10 ^ 15\<close> cents in total,
  the check of \<open>proposeJE\<close> with doubles and decimal.js finds an error exactly when the debits and the
  credits differ in cents, which is what the database trigger checks before posting. What
  decimal.js does is the hypothesis \<open>decimal_js\<close>.
\<close>

theorem validateBalanced_exact:
  assumes "decimal_js D fin v" and "list_all (\<lambda>l. 0 \<le> jl_debit l \<and> 0 \<le> jl_credit l) ls"
    and "sum_list (map jl_debit ls) < 10 ^ 15" and "sum_list (map jl_credit ls) < 10 ^ 15"
  shows "validateBalanced D (row_amounts ls) = [] \<longleftrightarrow> sum_list (map jl_debit ls) = sum_list (map jl_credit ls)"
proof (rule decimal_js.validateBalanced_cents [OF assms(1)])
  have d: "list_all (\<lambda>x. 0 \<le> x) (map jl_debit ls)" and c: "list_all (\<lambda>x. 0 \<le> x) (map jl_credit ls)"
    using assms(2) by (simp_all add: list_all_iff)
  have "list_all (\<lambda>l. 0 \<le> jl_debit l \<and> jl_debit l < 10 ^ 15 \<and> 0 \<le> jl_credit l \<and> jl_credit l < 10 ^ 15) ls"
    using assms(2-4) sum_list_member_le [OF d] sum_list_member_le [OF c] by (fastforce simp: list_all_iff)
  from row_amounts_cents [OF this]
  show "list_all2 has_cents (map fst (row_amounts ls)) (map jl_debit ls)"
    and "list_all2 has_cents (map snd (row_amounts ls)) (map jl_credit ls)" .
  show "(\<Sum>x\<leftarrow>map jl_debit ls. \<bar>x\<bar>) < 10 ^ 15" "(\<Sum>x\<leftarrow>map jl_credit ls. \<bar>x\<bar>) < 10 ^ 15"
    using assms(3,4) d c by (simp_all only: sum_list_abs_id)
qed

definition amount_line :: "nat \<Rightarrow> int \<Rightarrow> int \<Rightarrow> line_row" where
  "amount_line n d c = \<lparr>jl_je = ''a'', jl_index = n, jl_account = ''6000'', jl_debit = d, jl_credit = c,
     jl_description = None, jl_provenance = Some (HumanEntered ''ann'' None)\<rparr>"

theorem validateBalanced_exact_witness:
  "validateBalanced dec_model (row_amounts [amount_line 0 10 0, amount_line 1 20 0, amount_line 2 0 30]) = []
   \<and> validateBalanced dec_model (row_amounts [amount_line 0 10 0, amount_line 1 20 0, amount_line 2 0 31]) \<noteq> []"
  using validateBalanced_exact [OF dec.decimal_js_axioms, of "[amount_line 0 10 0, amount_line 1 20 0, amount_line 2 0 30]"]
    validateBalanced_exact [OF dec.decimal_js_axioms, of "[amount_line 0 10 0, amount_line 1 20 0, amount_line 2 0 31]"]
  by (simp add: amount_line_def)

section \<open>sanitizeAmount\<close>

lemma strip_zeros_last:
  assumes "strip_zeros s e = (s', e')" and "0 < s"
  shows "0 < s' \<and> s' mod 10 \<noteq> 0"
  using assms
proof (induction s e rule: strip_zeros.induct)
  case (1 s e)
  show ?case
  proof (cases "s mod 10 = 0")
    case True
    with 1(3) have "0 < s div 10" by presburger
    moreover have "strip_zeros (s div 10) (e + 1) = (s', e')"
      using 1(2,3) True by (subst (asm) strip_zeros.simps) simp
    ultimately show ?thesis using 1(1,3) True by simp
  next
    case False
    then have "strip_zeros s e = (s, e)" by (subst strip_zeros.simps) simp
    with 1(2,3) False show ?thesis by simp
  qed
qed

lemma int_text_digits: "c \<in> set (int_string n) \<Longrightarrow> 0 \<le> n \<Longrightarrow> is_digit c"
proof (induction n rule: int_string.induct)
  case (1 n)
  then show ?case by (subst (asm) int_string.simps) (auto split: if_splits)
qed

lemma int_string_Nil [simp]: "int_string n \<noteq> []"
  by (subst int_string.simps) simp

lemma int_string_lower: "0 < n \<Longrightarrow> 10 ^ (length (int_string n) - 1) \<le> n"
proof (induction n rule: int_string.induct)
  case (1 n)
  show ?case
  proof (cases "n < 10")
    case True
    with 1(2) show ?thesis by (subst int_string.simps) simp
  next
    case False
    then have "10 ^ (length (int_string (n div 10)) - 1) \<le> n div 10" using 1 by simp
    then have "10 * 10 ^ (length (int_string (n div 10)) - 1) \<le> n" by linarith
    moreover have "length (int_string n) - 1 = Suc (length (int_string (n div 10)) - 1)"
      using False by (subst int_string.simps) (simp add: Suc_pred)
    ultimately show ?thesis by (simp only: power_Suc)
  qed
qed

lemma cents_digits:
  assumes "0 < c" and "c < 10 ^ 15" and "dec_digits (rnd_rat (money c)) = (s, e)"
  shows "of_int s * 10 powi e = money c" and "0 < s" and "- 2 \<le> e"
proof -
  let ?x = "rnd_rat (money c)"
  have "1 / 2 ^ 1022 \<le> (1 / 100 :: rat)" by (simp add: frac_le)
  also have "\<dots> \<le> money c" using assms(1) by (simp add: money_def)
  finally have "0 < ?x" by (rule rnd_rat_pos)
  then have "of_int s * 10 powi e = dec_val ?x" using assms(3) by (simp add: dec_val_def)
  then show v: "of_int s * 10 powi e = money c"
    using dec_val_cents_pos [OF assms(1,2)] by (simp add: money_def)
  moreover have "0 < money c" using assms(1) by (simp add: money_def)
  ultimately show s: "0 < s" by (metis of_int_0_less_iff zero_less_mult_pos2 zero_less_power_int zero_less_numeral)
  obtain s0 e0 where sh: "shortest ?x = (s0, e0)" by force
  then have st: "strip_zeros s0 e0 = (s, e)" using assms(3) by (simp add: dec_digits_def)
  have "0 < (of_int s0 :: rat) * 10 powi e0" using strip_zeros_value [OF st] v \<open>0 < money c\<close> by simp
  then have "0 < s0" by (metis of_int_0_less_iff zero_less_mult_pos2 zero_less_power_int zero_less_numeral)
  then have last: "s mod 10 \<noteq> 0" using strip_zeros_last [OF st] by simp
  show "- 2 \<le> e"
  proof (rule ccontr)
    assume "\<not> - 2 \<le> e"
    then have e: "- e = int (Suc (nat (- 3 - e))) + 2" by simp
    have "(of_int s :: rat) = of_int s * 10 powi e * 10 powi (- e)" by (simp add: power_int_minus)
    also have "\<dots> = money c * (10 ^ Suc (nat (- 3 - e)) * 100)"
      unfolding v by (subst e, subst power_int_add) (simp_all del: int_nat_eq power_Suc of_nat_Suc)
    also have "\<dots> = of_int (c * 10 ^ Suc (nat (- 3 - e)))" by (simp add: money_def del: power_Suc)
    finally have "s = c * 10 ^ Suc (nat (- 3 - e))" by (simp only: of_int_eq_iff)
    then have "s mod 10 = 0" by simp
    with last show False by contradiction
  qed
qed

lemma layout_places:
  assumes "\<And>c. c \<in> set ds \<Longrightarrow> c \<noteq> CHR ''.''" and "ds \<noteq> []" and "- 2 \<le> n - int (length ds)" and "n \<le> 21"
  shows "\<not> (1 < length (js_split CHR ''.'' (layout ds n)) \<and> 2 < length (js_split CHR ''.'' (layout ds n) ! 1))"
proof (cases "int (length ds) \<le> n")
  case True
  then have "js_split CHR ''.'' (layout ds n) = [layout ds n]"
    using assms by (intro js_split_no_sep) (auto simp: layout_def)
  then show ?thesis by simp
next
  case less: False
  show ?thesis
  proof (cases "0 < n")
    case True
    then have "js_split CHR ''.'' (layout ds n) = [take (nat n) ds, drop (nat n) ds]"
      using less assms js_split_append [of "CHR ''.''" "take (nat n) ds" "drop (nat n) ds"]
        js_split_no_sep [of "CHR ''.''" "drop (nat n) ds"]
      by (simp add: layout_def) (metis in_set_dropD in_set_takeD)
    then show ?thesis using assms less True by simp
  next
    case False
    have "0 < length ds" using assms(2) by simp
    with False assms(3) have "- 6 < n" by linarith
    with False less have "layout ds n = ''0'' @ CHR ''.'' # replicate (nat (- n)) (CHR ''0'') @ ds" by (simp add: layout_def)
    then have "js_split CHR ''.'' (layout ds n) = [''0'', replicate (nat (- n)) (CHR ''0'') @ ds]"
      using assms(1) js_split_append [of "CHR ''.''" "''0''" "replicate (nat (- n)) (CHR ''0'') @ ds"]
        js_split_no_sep [of "CHR ''.''" "replicate (nat (- n)) (CHR ''0'') @ ds"]
      by auto
    then show ?thesis using assms(3) False by simp
  qed
qed

lemma cents_num_text:
  assumes "0 < c" and "c < 10 ^ 15"
  shows "\<not> (1 < length (js_split CHR ''.'' (pos_text (rnd_rat (money c))))
      \<and> 2 < length (js_split CHR ''.'' (pos_text (rnd_rat (money c))) ! 1))"
proof -
  obtain s e where d: "dec_digits (rnd_rat (money c)) = (s, e)" by force
  note digits = cents_digits [OF assms d]
  have "(10 :: rat) powi (int (length (int_string s) - 1) + e) \<le> of_int s * 10 powi e"
    using int_string_lower [OF digits(2)]
    by (simp add: power_int_add)
  also have "\<dots> < 10 powi 13"
    using digits(1) assms(2) by (simp add: money_def)
  finally have "int (length (int_string s) - 1) + e < 13" by (rule powi_less_imp_less) simp
  then have n: "e + int (length (int_string s)) \<le> 21" by linarith
  have dot: "\<And>x. x \<in> set (int_string s) \<Longrightarrow> x \<noteq> CHR ''.''"
    using int_text_digits digits(2) dot_not_digit by fastforce
  show ?thesis
    using layout_places [of "int_string s", OF dot int_string_Nil _ n] digits(3) by (simp add: pos_text_def d Let_def)
qed

text \<open>The double nearest to 99999999999999.99.\<close>

lemma max_amount: "MAX_AMOUNT = Fin (6399999999999999 / 64)"
  by code_simp

text \<open>
  Every amount of whole cents below \<open>10 ^ 15\<close> cents passes \<open>sanitizeAmount\<close> unchanged: the check of
  the decimal places on the text of the double never refuses a legal amount.
\<close>

theorem sanitizeAmount_cents:
  assumes "0 \<le> c" and "c < 10 ^ 15"
  shows "sanitizeAmount (cents_num c) = Inr (cents_num c)"
proof (cases "c = 0")
  case True
  then show ?thesis
    by (simp add: cents_num_def to_num_def sanitizeAmount_def Let_def max_amount)
next
  case False
  let ?x = "rnd_rat (money c)"
  have x: "cents_num c = Fin ?x" using assms by (simp add: cents_num_def to_num_cents)
  have m: "1 / 100 \<le> money c" "money c \<le> 10 ^ 13 - 1 / 100"
  proof -
    have "(of_int c :: rat) \<le> of_int (10 ^ 15 - 1)" using assms(2) by (simp only: of_int_le_iff)
    then show "1 / 100 \<le> money c" "money c \<le> 10 ^ 13 - 1 / 100" using False assms(1) by (simp_all add: money_def)
  qed
  have small: "1 / 2 ^ 1022 \<le> money c" using m(1) by (rule order_trans [rotated]) (simp add: frac_le)
  have pos: "0 < ?x" using small by (rule rnd_rat_pos)
  have "\<bar>?x - money c\<bar> \<le> \<bar>money c\<bar> / 2 ^ 53" using rnd_rat_rel_error [of "money c"] small by simp
  then have "?x \<le> money c + money c / 2 ^ 53" using m(1) unfolding abs_le_iff by simp
  also have "\<dots> \<le> (10 ^ 13 - 1 / 100) + (10 ^ 13 - 1 / 100) / 2 ^ 53"
    using m(2) by (intro add_mono divide_right_mono) auto
  also have "\<dots> \<le> 10 ^ 13" by simp
  finally have "?x \<le> 10 ^ 13" .
  then have "\<not> num_less MAX_AMOUNT (Fin ?x)" by (simp add: max_amount)
  with pos cents_num_text [of c] False assms show ?thesis by (auto simp: x sanitizeAmount_def Let_def)
qed

theorem sanitizeAmount_cents_witness: "sanitizeAmount (cents_num 10) = Inr (cents_num 10)"
  using sanitizeAmount_cents [of 10] by simp

text \<open>
  The check of the decimal places reads the text of the number, so a number whose text has an
  exponent passes it: \<open>1e-7\<close> is accepted, although its message says sub-penny precision is not
  allowed, and the column stores zero cents.
\<close>

theorem sanitizeAmount_exponent:
  "sanitizeAmount (to_num (1 / 10000000)) = Inr (to_num (1 / 10000000)) \<and> to_cents (to_num (1 / 10000000)) = Some 0"
  by code_simp

end
