(* ===== verification/LedgerGuarantees.thy ===== *)
theory LedgerGuarantees
  imports AuditService
begin

text \<open>
  The properties of the audit ledger: appending and verifying agree, what verification protects and
  what it does not, and the key of the lock under which entries are appended.
\<close>

section \<open>Appending and verifying\<close>


definition demo_ledger :: ledger_db where
  "demo_ledger = \<lparr>clock = int, ticks = 0, rands = (\<lambda>n. replicate n (CHR ''x'')), drawn = 0, calls = [],
     audit_ledger = [], checkpoints = []\<rparr>"

definition demo_audit_entry :: AuditLedgerEntryInput where
  "demo_audit_entry = \<lparr>in_tenant = ''t1'', in_period = Some ''2025-06'', in_event = ''certify_close'',
     in_flags = JObj [(''amount'', JNum (Fin 5)), (''by'', JStr ''cfo'')], in_dissent = None, in_rationale = [],
     in_created_by = Some ''cfo'', in_before = None, in_after = None\<rparr>"

lemma demo_ledger_keeps: "ledger_ok H demo_ledger" "clock_ok demo_ledger" "input_ok demo_audit_entry"
  by (simp_all add: ledger_ok_def tenant_rows_def demo_ledger_def clock_ok_def strict_mono_def input_ok_def demo_audit_entry_def)


section \<open>What verification protects\<close>

definition hashed_columns :: "ledger_row \<Rightarrow> tenant_id \<times> string option \<times> string \<times> string \<times> string option \<times> string" where
  "hashed_columns r = (al_tenant r, al_period r, al_event r, al_rationale r, al_prev r, toISOString (al_created_at r))"

lemma full_chain_valid:
  assumes "vr_valid (fst (verifyFullChain H t s))"
  shows "ledger_chain H None (by_time (tenant_rows t s))"
  using assms
  by (auto simp: verifyFullChain_def verifyChainInternal_def usable_checkpoint_def now_def Let_def verify_rows_None_iff [symmetric]
      split: option.splits prod.splits)

lemma full_chain_latest:
  assumes "vr_latestHash (fst (verifyFullChain H t s)) = Some h"
  shows "end_hash al_hash None (by_time (tenant_rows t s)) = Some h"
  using assms
  by (auto simp: verifyFullChain_def verifyChainInternal_def usable_checkpoint_def now_def Let_def end_hash_def
      split: option.splits prod.splits if_splits)



definition rewrite_unhashed ::
  "(ledger_row \<Rightarrow> string option) \<Rightarrow> (ledger_row \<Rightarrow> json option) \<Rightarrow> (ledger_row \<Rightarrow> json option) \<Rightarrow> ledger_row \<Rightarrow> ledger_row" where
  "rewrite_unhashed who b a r = r\<lparr>al_created_by := who r, al_before := b r, al_after := a r\<rparr>"

lemma rewrite_unhashed_simps [simp]:
  "al_id (rewrite_unhashed who b a r) = al_id r" "al_tenant (rewrite_unhashed who b a r) = al_tenant r"
  "al_created_at (rewrite_unhashed who b a r) = al_created_at r" "al_hash (rewrite_unhashed who b a r) = al_hash r"
  "al_prev (rewrite_unhashed who b a r) = al_prev r" "row_digest H (rewrite_unhashed who b a r) = row_digest H r"
  by (simp_all add: rewrite_unhashed_def row_digest_def row_payload_def row_version_def)

text \<open>The answer of a verification, from the checkpoint and the rows of the tenant.\<close>

definition verdict ::
  "(string \<Rightarrow> string) \<Rightarrow> (checkpoint \<times> timestamp) option \<Rightarrow> ledger_row list \<Rightarrow> timestamp \<Rightarrow> VerifyResult" where
  "verdict H cp all at0 =
     (let rows = by_time (case cp of None \<Rightarrow> all | Some (c, t) \<Rightarrow> filter (\<lambda>r. t < al_created_at r) all);
          prevHash = map_option (\<lambda>(c, t). cp_hash c) cp;
          total = (case cp of None \<Rightarrow> 0 | Some (c, t) \<Rightarrow> cp_entries c) + length rows;
          lastId = (if rows = [] then map_option (\<lambda>(c, t). cp_entry_id c) cp else Some (al_id (last rows)));
          lastHash = (if rows = [] then prevHash else Some (al_hash (last rows)))
      in case verify_rows H prevHash rows of
           Some (broken, message) \<Rightarrow> \<lparr>vr_valid = False, vr_brokenAt = Some broken, vr_message = Some message,
             vr_latestHash = None, vr_latestId = None, vr_entryCount = total, vr_verifiedAt = at0\<rparr>
         | None \<Rightarrow> \<lparr>vr_valid = True, vr_brokenAt = None, vr_message = None,
             vr_latestHash = (if truthy lastHash then lastHash else None),
             vr_latestId = (if truthy lastId then lastId else None), vr_entryCount = total, vr_verifiedAt = at0\<rparr>)"

lemma verifyChainInternal_verdict:
  "fst (verifyChainInternal H t k s) = verdict H (usable_checkpoint k t s) (tenant_rows t s) (clock s (ticks s))"
proof -
  have "usable_checkpoint k t (s\<lparr>ticks := j\<rparr>) = usable_checkpoint k t s" for j
    by (auto simp: usable_checkpoint_def split: option.splits)
  then show ?thesis
    by (simp add: verifyChainInternal_def verdict_def now_def Let_def split: option.splits prod.splits)
qed

lemma verify_rows_rewrite: "verify_rows H p (map (rewrite_unhashed who b a) rs) = verify_rows H p rs"
  by (induction rs arbitrary: p) simp_all

lemma verdict_rewrite: "verdict H cp (map (rewrite_unhashed who b a) rs) c = verdict H cp rs c"
proof -
  have rows: "by_time (case cp of None \<Rightarrow> map (rewrite_unhashed who b a) rs
        | Some (c, t) \<Rightarrow> filter (\<lambda>r. t < al_created_at r) (map (rewrite_unhashed who b a) rs))
      = map (rewrite_unhashed who b a) (by_time (case cp of None \<Rightarrow> rs | Some (c, t) \<Rightarrow> filter (\<lambda>r. t < al_created_at r) rs))"
    by (simp add: by_time_def sort_key_map filter_map comp_def split: option.splits)
  show ?thesis unfolding verdict_def Let_def rows by (auto simp: verify_rows_rewrite last_map split: option.splits)
qed

text \<open>
  Verification does not protect the columns that are not hashed: who created an entry and the
  states before and after it can be rewritten in every row, and both verifications answer as before.
\<close>

theorem unhashed_columns:
  fixes s :: "'a ledger_db_scheme"
  shows "fst (verifyFullChain H t (s\<lparr>audit_ledger := map (rewrite_unhashed who b a) (audit_ledger s)\<rparr>)) = fst (verifyFullChain H t s)
    \<and> fst (verifyChain H t (s\<lparr>audit_ledger := map (rewrite_unhashed who b a) (audit_ledger s)\<rparr>)) = fst (verifyChain H t s)"
proof -
  let ?f = "rewrite_unhashed who b a" and ?u = "s\<lparr>audit_ledger := map (rewrite_unhashed who b a) (audit_ledger s)\<rparr>"
  have "tenant_rows t ?u = map ?f (tenant_rows t s)" by (simp add: tenant_rows_def filter_map comp_def)
  moreover have "find (\<lambda>r. al_id r = x \<and> al_tenant r = t) (map ?f rs) = map_option ?f (find (\<lambda>r. al_id r = x \<and> al_tenant r = t) rs)" for x rs
    by (induction rs) simp_all
  then have "usable_checkpoint k t ?u = usable_checkpoint k t s" for k
    by (auto simp: usable_checkpoint_def split: option.splits)
  ultimately show ?thesis
    by (simp add: verifyFullChain_def verifyChain_def verifyChainInternal_verdict verdict_rewrite)
qed

section \<open>The lock of a tenant\<close>

fun poly31 :: "int \<Rightarrow> string \<Rightarrow> int" where
  "poly31 h [] = h"
| "poly31 h (c # cs) = poly31 (31 * h + of_char c) cs"

lemma lock_fold: "foldl lock_step (of_int h) t = of_int (poly31 h t)"
proof (induction t arbitrary: h)
  case (Cons c t)
  have "lock_step (of_int h) c = of_int (31 * h + of_char c)"
    by (simp add: lock_step_def push_bit_eq_mult of_char_def)
  then show ?case by (simp only: foldl_Cons poly31.simps Cons.IH)
qed simp

text \<open>
  The key of a tenant's advisory lock is a function of the tenant alone and fits a 32-bit integer:
  it is the decimal text of the polynomial of the characters at 31, with the constant 0x41554449 in
  front, reduced to a signed 32-bit number.
\<close>

theorem lock_key_bounds:
  "hashTenantIdToLockKey tenant = int_text (signed_take_bit 31 (poly31 0x41554449 tenant))
    \<and> - (2 ^ 31) \<le> signed_take_bit 31 (poly31 0x41554449 tenant) \<and> signed_take_bit 31 (poly31 0x41554449 tenant) < 2 ^ 31"
proof -
  have "foldl lock_step 0x41554449 tenant = of_int (poly31 0x41554449 tenant)" using lock_fold [of "0x41554449" tenant] by simp
  then have "sint (foldl lock_step 0x41554449 tenant) = signed_take_bit 31 (poly31 0x41554449 tenant)"
    by (simp add: signed_of_int)
  moreover have "- (2 ^ 31) \<le> signed_take_bit 31 (poly31 0x41554449 tenant)" "signed_take_bit 31 (poly31 0x41554449 tenant) < 2 ^ 31"
    by (rule signed_take_bit_int_greater_eq_minus_exp, rule signed_take_bit_int_less_exp)
  ultimately show ?thesis by (simp add: hashTenantIdToLockKey_def)
qed

end
