(* ===== verification/CrossStatement.thy ===== *)
theory CrossStatement
  imports JournalEntryService
begin

text \<open>
  The ties between the four statements that a certification re-validates:
  \<open>src/src/services/cross_statement_validation.ts\<close>. The regular expressions with the flag i are
  searches in the lower-case label. The characters of a message outside the 8-bit range are written
  \<open>=/=\<close> and \<open>-\<close>.
\<close>

record StatementLine =
  li_label :: string
  li_amount :: number

record BalanceSheet =
  bs_assets :: "StatementLine list"
  bs_equity :: "StatementLine list"
  bs_totalAssets :: number
  bs_totalLiabilities :: number
  bs_totalEquity :: number

record CashFlowStatement =
  cf_operating :: "StatementLine list"
  cf_investing :: "StatementLine list"
  cf_financing :: "StatementLine list"
  cf_netChangeInCash :: number
  cf_beginningCash :: "number option"
  cf_endingCash :: "number option"
  cf_estimated :: bool

record EquityChangesStatement =
  eq_openingEquity :: "number option"
  eq_changes :: "StatementLine list"
  eq_ociChanges :: "StatementLine list option"
  eq_closingEquity :: "number option"

record ValidationCheck =
  vc_name :: string
  vc_hard :: bool
  vc_passes :: bool
  vc_message :: "string option"

definition hard_check :: "string \<Rightarrow> bool \<Rightarrow> string \<Rightarrow> ValidationCheck" where
  "hard_check name passes message = \<lparr>vc_name = name, vc_hard = True, vc_passes = passes,
     vc_message = (if passes then None else Some message)\<rparr>"

definition label_has :: "string \<Rightarrow> StatementLine \<Rightarrow> bool" where
  "label_has word l = js_includes (js_toLowerCase (li_label l)) word"

definition getCashFromBalanceSheet :: "'d decimal_ops \<Rightarrow> BalanceSheet \<Rightarrow> number" where
  "getCashFromBalanceSheet D bs =
     sumRound2 D (map li_amount (filter (\<lambda>a. label_has ''cash'' a \<or> label_has ''bank'' a) (bs_assets bs)))"

definition dec2 :: "'d decimal_ops \<Rightarrow> number \<Rightarrow> 'd" where
  "dec2 D n = d_toDecimalPlaces D (d_of_num D n) 2"

definition existence_checks ::
  "CashFlowStatement option \<Rightarrow> EquityChangesStatement option \<Rightarrow> ValidationCheck list" where
  "existence_checks cf equity =
     (if cf = None then [hard_check ''cash_flow_exists'' False ''Cash Flow Statement has not been generated''] else [])
     @ (if equity = None then [hard_check ''equity_statement_exists'' False
          ''Statement of changes in equity has not been generated''] else [])"

definition cash_flow_checks :: "'d decimal_ops \<Rightarrow> 'd \<Rightarrow> CashFlowStatement \<Rightarrow> ValidationCheck list" where
  "cash_flow_checks D TOLERANCE cf =
     (let sectionTotal = dec2 D (sumRound2 D (map li_amount (cf_operating cf @ cf_investing cf @ cf_financing cf)));
          valid = is_finite (cf_netChangeInCash cf);
          reportedNetChange = dec2 D (if valid then cf_netChangeInCash cf else Fin 0);
          sectionVariance = d_abs D (d_minus D sectionTotal reportedNetChange);
          sectionsTie = (valid \<and> d_lessThanOrEqualTo D sectionVariance TOLERANCE);
          fixed = (\<lambda>x. d_toFixed D x 2)
      in [hard_check ''cash_flow_sections_tie'' sectionsTie
            (if \<not> valid then ''Cash-flow statement is missing a valid net change in cash.''
             else ''Cash-flow sections total $'' @ fixed sectionTotal @ '' but reported net change is $''
               @ fixed reportedNetChange @ ''; variance $'' @ fixed sectionVariance)]
         @ (case (cf_beginningCash cf, cf_endingCash cf) of
              (Some beginning, Some ending) \<Rightarrow>
                if valid then
                  let expectedEnding = d_toDecimalPlaces D (d_plus D (dec2 D beginning) reportedNetChange) 2;
                      endingCash = dec2 D ending;
                      variance = d_abs D (d_minus D expectedEnding endingCash)
                  in [hard_check ''cash_rollforward_tie'' (d_lessThanOrEqualTo D variance TOLERANCE)
                        (''Beginning cash $'' @ fixed (dec2 D beginning) @ '' plus net change $'' @ fixed reportedNetChange
                         @ '' does not equal ending cash $'' @ fixed endingCash @ ''; variance $'' @ fixed variance)]
                else []
            | _ \<Rightarrow> [])
         @ (if cf_estimated cf then [\<lparr>vc_name = ''cash_flow_estimation_warning'', vc_hard = False, vc_passes = False,
              vc_message = Some ''Cash-flow statement is estimated from trial-balance data and requires reviewer reconciliation to source cash activity.''\<rparr>]
            else []))"

definition balance_sheet_check :: "'d decimal_ops \<Rightarrow> BalanceSheet \<Rightarrow> ValidationCheck" where
  "balance_sheet_check D bs =
     hard_check ''balance_sheet_equation''
       (d_equals D (dec2 D (bs_totalAssets bs))
          (d_plus D (dec2 D (bs_totalLiabilities bs)) (dec2 D (bs_totalEquity bs))))
       (''A='' @ num_text (bs_totalAssets bs) @ '' =/= L+E=''
        @ num_text (num_plus (bs_totalLiabilities bs) (bs_totalEquity bs)))"

definition net_income_check :: "'d decimal_ops \<Rightarrow> number \<Rightarrow> EquityChangesStatement \<Rightarrow> ValidationCheck" where
  "net_income_check D netIncome equity =
     (let equityNetIncome = (case find (label_has ''net income'') (eq_changes equity) of
            None \<Rightarrow> netIncome | Some c \<Rightarrow> li_amount c)
      in hard_check ''net_income_tie'' (d_equals D (dec2 D netIncome) (dec2 D equityNetIncome))
           (''IS net income '' @ num_text netIncome @ '' =/= Equity net income '' @ num_text equityNetIncome))"

definition cash_tie_check :: "'d decimal_ops \<Rightarrow> BalanceSheet \<Rightarrow> number \<Rightarrow> ValidationCheck" where
  "cash_tie_check D bs endingCash =
     (let bsCash = getCashFromBalanceSheet D bs in
      hard_check ''cash_tie'' (d_equals D (dec2 D endingCash) (dec2 D bsCash))
        (''CF ending cash '' @ num_text endingCash @ '' =/= BS cash '' @ num_text bsCash))"

definition equity_tie_check :: "'d decimal_ops \<Rightarrow> BalanceSheet \<Rightarrow> number \<Rightarrow> ValidationCheck" where
  "equity_tie_check D bs closing =
     hard_check ''equity_tie'' (d_equals D (dec2 D closing) (dec2 D (bs_totalEquity bs)))
       (''Equity statement closing '' @ num_text closing @ '' =/= BS total equity '' @ num_text (bs_totalEquity bs))"

definition sum_dec2 :: "'d decimal_ops \<Rightarrow> StatementLine list \<Rightarrow> 'd" where
  "sum_dec2 D ls = foldl (\<lambda>acc c. d_plus D acc (dec2 D (li_amount c))) (d_of_num D (Fin 0)) ls"

definition retained_earnings_check ::
  "'d decimal_ops \<Rightarrow> EquityChangesStatement \<Rightarrow> number \<Rightarrow> number \<Rightarrow> ValidationCheck" where
  "retained_earnings_check D equity openingEquity closingEquity =
     (let changesSum = sum_dec2 D (eq_changes equity);
          ociSum = sum_dec2 D (js_or (eq_ociChanges equity) []);
          expectedClosing = d_toDecimalPlaces D (d_plus D (d_plus D (dec2 D openingEquity) changesSum) ociSum) 2
      in hard_check ''retained_earnings_tie'' (d_equals D expectedClosing (dec2 D closingEquity))
           (''RE tie failed: opening equity '' @ num_text openingEquity @ '' + changes '' @ d_toFixed D changesSum 2
            @ '' + OCI '' @ d_toFixed D ociSum 2 @ '' = '' @ d_toFixed D expectedClosing 2 @ '' =/= closing equity ''
            @ num_text closingEquity))"

definition scf_checks :: "'d decimal_ops \<Rightarrow> 'd \<Rightarrow> number \<Rightarrow> CashFlowStatement \<Rightarrow> ValidationCheck list" where
  "scf_checks D TOLERANCE netIncome cf =
     (case find (label_has ''net income'') (cf_operating cf) of
        None \<Rightarrow> []
      | Some line \<Rightarrow>
          let isNI = dec2 D netIncome; scfNI = dec2 D (li_amount line);
              variance = d_abs D (d_minus D isNI scfNI)
          in [hard_check ''net_income_is_to_scf_tie'' (d_lessThanOrEqualTo D variance TOLERANCE)
                (''Net income tie failed: IS shows $'' @ d_toFixed D isNI 2 @ '', SCF operating start shows $''
                 @ d_toFixed D scfNI 2 @ '', variance $'' @ d_toFixed D variance 2)])"

definition continuity_checks ::
  "'d decimal_ops \<Rightarrow> 'd \<Rightarrow> BalanceSheet \<Rightarrow> number \<Rightarrow> EquityChangesStatement option \<Rightarrow> number option
     \<Rightarrow> ValidationCheck list" where
  "continuity_checks D TOLERANCE bs netIncome equity priorRetainedEarnings =
     (let priorRE = dec2 D (js_or priorRetainedEarnings (Fin 0));
          currentNI = dec2 D netIncome;
          dividends = (case equity of
             Some e \<Rightarrow> dec2 D (sumRound2 D (map li_amount (filter (label_has ''dividend'') (eq_changes e))))
           | None \<Rightarrow> d_of_num D (Fin 0))
      in case find (label_has ''retained earnings'') (bs_equity bs) of
           None \<Rightarrow> []
         | Some line \<Rightarrow>
             let bsRE = dec2 D (li_amount line);
                 expected = d_toDecimalPlaces D (d_minus D (d_plus D priorRE currentNI) dividends) 2;
                 variance = d_abs D (d_minus D bsRE expected); fixed = (\<lambda>x. d_toFixed D x 2)
             in [hard_check ''retained_earnings_continuity'' (d_lessThanOrEqualTo D variance TOLERANCE)
                   (''Retained earnings continuity failed: prior RE $'' @ fixed priorRE @ '' + NI $'' @ fixed currentNI
                    @ '' - dividends $'' @ fixed dividends @ '' = expected $'' @ fixed expected @ '', BS shows $''
                    @ fixed bsRE @ '', variance $'' @ fixed variance)])"

text \<open>
  \<open>opts\<close> is \<open>None\<close> when \<open>priorRetainedEarnings\<close> is undefined, \<open>Some None\<close> when it is null. The text
  0.01 is a valid Decimal; a package that refused it would throw.
\<close>

definition runCrossStatementValidationForCertification ::
  "'d decimal_ops \<Rightarrow> BalanceSheet \<Rightarrow> number \<Rightarrow> CashFlowStatement option \<Rightarrow> EquityChangesStatement option
     \<Rightarrow> number option option \<Rightarrow> error + ValidationCheck list" where
  "runCrossStatementValidationForCertification D bs netIncome cf equity opts =
     (case d_of_text D ''0.01'' of
        None \<Rightarrow> Inl (JsError ''[DecimalError] Invalid argument: 0.01'')
      | Some TOLERANCE \<Rightarrow> Inr
          (existence_checks cf equity
           @ (case cf of None \<Rightarrow> [] | Some c \<Rightarrow> cash_flow_checks D TOLERANCE c)
           @ [balance_sheet_check D bs]
           @ (case equity of None \<Rightarrow> [] | Some e \<Rightarrow> [net_income_check D netIncome e])
           @ (case Option.bind cf cf_endingCash of None \<Rightarrow> [] | Some x \<Rightarrow> [cash_tie_check D bs x])
           @ (case Option.bind equity eq_closingEquity of None \<Rightarrow> [] | Some x \<Rightarrow> [equity_tie_check D bs x])
           @ (case equity of None \<Rightarrow> []
              | Some e \<Rightarrow> (case (eq_openingEquity e, eq_closingEquity e) of
                  (Some x, Some y) \<Rightarrow> [retained_earnings_check D e x y] | _ \<Rightarrow> []))
           @ (case cf of None \<Rightarrow> [] | Some c \<Rightarrow> scf_checks D TOLERANCE netIncome c)
           @ (case opts of None \<Rightarrow> [] | Some prior \<Rightarrow> continuity_checks D TOLERANCE bs netIncome equity prior)))"

definition hard_failures :: "ValidationCheck list \<Rightarrow> ValidationCheck list" where
  "hard_failures checks = filter (\<lambda>c. vc_hard c \<and> \<not> vc_passes c) checks"

end
