(* ===== verification/LedgerSnapshot.thy ===== *)
theory LedgerSnapshot
  imports JournalEntryService
begin

text \<open>
  The immutable snapshots a certification rests on: \<open>src/src/lib/snapshot_hash.ts\<close>,
  \<open>src/src/services/ledger_snapshot_service.ts\<close> and
  \<open>src/src/db/repositories/ledger_snapshot_repository.ts\<close>.

  An amount of a stored payload is \<open>None\<close> when it is null. \<open>localeCompare\<close> compares the collation
  keys of its arguments; the map from strings to keys is a parameter, as are the two legacy texts
  that only old snapshots use.
\<close>

record SnapEntry =
  sn_lineId :: "string option"
  sn_accountName :: string
  sn_debit :: "number option"
  sn_credit :: "number option"
  sn_accountCode :: "string option"
  sn_accountType :: "string option"
  sn_description :: "string option"
  sn_provenance :: "json option"

record GLLine =
  gl_line_number :: int
  gl_account_code :: string
  gl_debit :: "number option"
  gl_credit :: "number option"
  gl_line_description :: "string option"

record GLEntry =
  gl_entry_id :: string
  gl_entry_date :: string
  gl_description :: "string option"
  gl_lines :: "GLLine list"

record Comparative =
  cm_periodLabel :: string
  cm_sourceSnapshotId :: string
  cm_sourceSnapshotHash :: string
  cm_entries :: "SnapEntry list"
  cm_totalDebits :: "number option"
  cm_totalCredits :: "number option"

record SnapPayload =
  sp_tb_entries :: "SnapEntry list"
  sp_totalDebits :: "number option"
  sp_totalCredits :: "number option"
  sp_entries :: "SnapEntry list option"
  sp_manifest :: "json option"
  sp_gl :: "GLEntry list option"
  sp_comparative :: "Comparative option"
  sp_standard :: "string option"

text \<open>
  \<open>sv_collate\<close> is the collation key of a string, \<open>sv_legacy_text\<close> is \<open>canonicalStringifyLegacy\<close> and
  \<open>sv_legacy_json\<close> is \<open>canonicalSnapshotJson\<close>.
\<close>

record snap_env =
  sv_collate :: "string \<Rightarrow> string"
  sv_legacy_text :: "json \<Rightarrow> string"
  sv_legacy_json :: "SnapPayload \<Rightarrow> string"

section \<open>snapshot_hash.ts\<close>

definition HASH_VERSION_LEGACY :: nat where "HASH_VERSION_LEGACY = 1"
definition HASH_VERSION_CANONICAL_MONEY :: nat where "HASH_VERSION_CANONICAL_MONEY = 2"
definition HASH_VERSION_WITH_EVIDENCE_MANIFEST :: nat where "HASH_VERSION_WITH_EVIDENCE_MANIFEST = 3"
definition HASH_VERSION_WITH_GL :: nat where "HASH_VERSION_WITH_GL = 4"
definition HASH_VERSION_WITH_CERTIFIED_CONTEXT :: nat where "HASH_VERSION_WITH_CERTIFIED_CONTEXT = 5"

lemmas hash_versions = HASH_VERSION_LEGACY_def HASH_VERSION_CANONICAL_MONEY_def
  HASH_VERSION_WITH_EVIDENCE_MANIFEST_def HASH_VERSION_WITH_GL_def HASH_VERSION_WITH_CERTIFIED_CONTEXT_def

definition entrySortKey :: "snap_env \<Rightarrow> 'd decimal_ops \<Rightarrow> SnapEntry \<Rightarrow> string" where
  "entrySortKey S D e =
     js_join [CHR 0x00]
       [sn_accountName e, normalizeMoney D (sn_debit e), normalizeMoney D (sn_credit e),
        js_or (sn_lineId e) [], js_or (sn_accountCode e) [], js_or (sn_description e) [],
        (case sn_provenance e of None \<Rightarrow> [] | Some p \<Rightarrow> sv_legacy_text S p)]"

definition sort_entries :: "snap_env \<Rightarrow> 'd decimal_ops \<Rightarrow> SnapEntry list \<Rightarrow> SnapEntry list" where
  "sort_entries S D es = sort_key (\<lambda>e. sv_collate S (entrySortKey S D e)) es"

definition normalizePayloadForHash :: "snap_env \<Rightarrow> 'd decimal_ops \<Rightarrow> SnapPayload \<Rightarrow> SnapPayload" where
  "normalizePayloadForHash S D p =
     \<lparr>sp_tb_entries = sort_entries S D (sp_tb_entries p), sp_totalDebits = sp_totalDebits p,
      sp_totalCredits = sp_totalCredits p,
      sp_entries = (case sp_entries p of None \<Rightarrow> None
         | Some es \<Rightarrow> if es = [] then None else Some (sort_entries S D es)),
      sp_manifest = None, sp_gl = None,
      sp_comparative = map_option (\<lambda>c. c\<lparr>cm_entries := sort_entries S D (cm_entries c)\<rparr>) (sp_comparative p),
      sp_standard = sp_standard p\<rparr>"

definition sortGLEntries :: "snap_env \<Rightarrow> GLEntry list \<Rightarrow> GLEntry list" where
  "sortGLEntries S es =
     map (\<lambda>e. e\<lparr>gl_lines := sort_key gl_line_number (gl_lines e)\<rparr>)
       (sort_key (\<lambda>e. sv_collate S (gl_entry_id e)) es)"

text \<open>The properties of an object; an absent one is left out.\<close>

definition opt_prop :: "string \<Rightarrow> json option \<Rightarrow> (string \<times> json) list" where
  "opt_prop k v = (case v of None \<Rightarrow> [] | Some j \<Rightarrow> [(k, j)])"

definition nonempty :: "string option \<Rightarrow> string option" where
  "nonempty x = (if truthy x then x else None)"

definition num_json :: "number option \<Rightarrow> json" where
  "num_json x = (case x of None \<Rightarrow> JNull | Some n \<Rightarrow> JNum n)"

definition mapEntry :: "'d decimal_ops \<Rightarrow> SnapEntry \<Rightarrow> json" where
  "mapEntry D e =
     JObj ([(''accountName'', JStr (sn_accountName e)), (''debit'', JStr (normalizeMoney D (sn_debit e))),
        (''credit'', JStr (normalizeMoney D (sn_credit e)))]
       @ opt_prop ''lineId'' (map_option JStr (nonempty (sn_lineId e)))
       @ opt_prop ''accountCode'' (map_option JStr (sn_accountCode e))
       @ opt_prop ''description'' (map_option JStr (nonempty (sn_description e)))
       @ opt_prop ''amountProvenance'' (sn_provenance e))"

text \<open>An entry with its amounts as numbers, as it is stored.\<close>

definition entry_json :: "SnapEntry \<Rightarrow> json" where
  "entry_json e =
     JObj (opt_prop ''lineId'' (map_option JStr (sn_lineId e))
       @ [(''accountName'', JStr (sn_accountName e)), (''debit'', num_json (sn_debit e)),
        (''credit'', num_json (sn_credit e))]
       @ opt_prop ''accountCode'' (map_option JStr (sn_accountCode e))
       @ opt_prop ''accountType'' (map_option JStr (sn_accountType e))
       @ opt_prop ''description'' (map_option JStr (sn_description e))
       @ opt_prop ''amountProvenance'' (sn_provenance e))"

definition toCanonicalMoneyPayload :: "'d decimal_ops \<Rightarrow> SnapPayload \<Rightarrow> (string \<times> json) list" where
  "toCanonicalMoneyPayload D p =
     [(''hash_version'', JStr ''v1''),
      (''trialBalance'', JObj [(''entries'', JArr (map (mapEntry D) (sp_tb_entries p))),
         (''totalDebits'', JStr (normalizeMoney D (sp_totalDebits p))),
         (''totalCredits'', JStr (normalizeMoney D (sp_totalCredits p)))])]
     @ opt_prop ''entries'' (case sp_entries p of None \<Rightarrow> None
         | Some es \<Rightarrow> if es = [] then None else Some (JArr (map (mapEntry D) es)))
     @ opt_prop ''comparativeTrialBalance'' (map_option (\<lambda>c.
         JObj [(''periodLabel'', JStr (cm_periodLabel c)), (''sourceSnapshotId'', JStr (cm_sourceSnapshotId c)),
           (''sourceSnapshotHash'', JStr (cm_sourceSnapshotHash c)),
           (''entries'', JArr (map (mapEntry D) (cm_entries c))),
           (''totalDebits'', JStr (normalizeMoney D (cm_totalDebits c))),
           (''totalCredits'', JStr (normalizeMoney D (cm_totalCredits c)))]) (sp_comparative p))
     @ opt_prop ''accountingContext'' (map_option (\<lambda>s. JObj [(''standard'', JStr s)]) (sp_standard p))"

definition plainPayload :: "SnapPayload \<Rightarrow> (string \<times> json) list" where
  "plainPayload p =
     [(''hash_version'', JStr ''v1''),
      (''trialBalance'', JObj [(''entries'', JArr (map entry_json (sp_tb_entries p))),
         (''totalDebits'', num_json (sp_totalDebits p)), (''totalCredits'', num_json (sp_totalCredits p))])]
     @ opt_prop ''entries'' (map_option (\<lambda>es. JArr (map entry_json es)) (sp_entries p))
     @ opt_prop ''comparativeTrialBalance'' (map_option (\<lambda>c.
         JObj [(''periodLabel'', JStr (cm_periodLabel c)), (''sourceSnapshotId'', JStr (cm_sourceSnapshotId c)),
           (''sourceSnapshotHash'', JStr (cm_sourceSnapshotHash c)),
           (''entries'', JArr (map entry_json (cm_entries c))),
           (''totalDebits'', num_json (cm_totalDebits c)), (''totalCredits'', num_json (cm_totalCredits c))])
         (sp_comparative p))
     @ opt_prop ''accountingContext'' (map_option (\<lambda>s. JObj [(''standard'', JStr s)]) (sp_standard p))"

definition buildHashInput :: "snap_env \<Rightarrow> 'd decimal_ops \<Rightarrow> bool \<Rightarrow> SnapPayload \<Rightarrow> (string \<times> json) list" where
  "buildHashInput S D useCanonicalMoney p =
     (let normalized = normalizePayloadForHash S D p in
      if useCanonicalMoney then toCanonicalMoneyPayload D normalized else plainPayload normalized)"

definition gl_json :: "GLEntry \<Rightarrow> json" where
  "gl_json e =
     JObj ([(''entry_id'', JStr (gl_entry_id e)), (''entry_date'', JStr (gl_entry_date e))]
       @ opt_prop ''description'' (map_option JStr (gl_description e))
       @ [(''lines'', JArr (map (\<lambda>l. JObj ([(''line_number'', JNum (Fin (of_int (gl_line_number l)))),
            (''account_code'', JStr (gl_account_code l)), (''debit'', num_json (gl_debit l)),
            (''credit'', num_json (gl_credit l))]
            @ opt_prop ''description'' (map_option JStr (gl_line_description l)))) (gl_lines e)))])"

definition hash_input :: "snap_env \<Rightarrow> 'd decimal_ops \<Rightarrow> nat \<Rightarrow> SnapPayload \<Rightarrow> (string \<times> json) list" where
  "hash_input S D hashVersion p =
     (let input = buildHashInput S D (hashVersion \<noteq> HASH_VERSION_LEGACY) p
        @ opt_prop ''evidenceManifest''
            (if HASH_VERSION_WITH_EVIDENCE_MANIFEST \<le> hashVersion
             then Some (js_or (sp_manifest p) (JObj [(''journalEntries'', JArr [])])) else None)
        @ opt_prop ''generalLedger''
            (if HASH_VERSION_WITH_GL \<le> hashVersion \<and> js_or (sp_gl p) [] \<noteq> []
             then Some (JArr (map gl_json (sortGLEntries S (js_or (sp_gl p) [])))) else None)
      in if hashVersion < HASH_VERSION_WITH_CERTIFIED_CONTEXT
         then filter (\<lambda>kv. fst kv \<notin> {''comparativeTrialBalance'', ''accountingContext''}) input
         else input)"

definition hashSnapshotPayload ::
  "(string \<Rightarrow> string) \<Rightarrow> snap_env \<Rightarrow> 'd decimal_ops \<Rightarrow> SnapPayload \<Rightarrow> nat \<Rightarrow> string" where
  "hashSnapshotPayload H S D p hashVersion =
     H (js_or (canonicalStringifyKeysOnly (JObj (hash_input S D hashVersion p))) [])"

definition getHashVersionForStorage :: nat where
  "getHashVersionForStorage = HASH_VERSION_WITH_EVIDENCE_MANIFEST"

definition hashManifestContent :: "(string \<Rightarrow> string) \<Rightarrow> json \<Rightarrow> string" where
  "hashManifestContent H manifest = H (js_or (canonicalStringifyKeysOnly manifest) [])"

definition hashSnapshotPayloadLegacy :: "(string \<Rightarrow> string) \<Rightarrow> snap_env \<Rightarrow> SnapPayload \<Rightarrow> string" where
  "hashSnapshotPayloadLegacy H S p = H (sv_legacy_json S p)"

section \<open>ledger_snapshot_repository.ts\<close>

record LedgerSnapshot =
  ls_id :: string
  ls_tenant :: tenant_id
  ls_period_label :: string
  ls_created_at :: timestamp
  ls_created_by :: "string option"
  ls_source :: string
  ls_payload :: SnapPayload
  ls_hash :: string
  ls_version :: nat
  ls_session :: "string option"

record artifact_row =
  ca_id :: string
  ca_tenant :: tenant_id
  ca_session :: string
  ca_period_label :: string
  ca_artifact :: json
  ca_hash :: string
  ca_signature :: string
  ca_public_key :: string
  ca_alg :: string
  ca_created_at :: timestamp

text \<open>Neither table allows UPDATE or DELETE (\<open>migrations/091\<close>, \<open>214\<close>).\<close>

record close_db = je_db +
  ledger_snapshots :: "LedgerSnapshot list"
  certification_artifacts :: "artifact_row list"

type_synonym ('a, 'b) close_op = "'a close_db_scheme \<Rightarrow> (error + 'b) \<times> 'a close_db_scheme"

text \<open>A payload as a JSONB column returns it.\<close>

definition stored_num :: "number option \<Rightarrow> number option" where
  "stored_num x = (case x of Some n \<Rightarrow> if is_finite n then Some n else None | None \<Rightarrow> None)"

definition stored_entry :: "SnapEntry \<Rightarrow> SnapEntry" where
  "stored_entry e = e\<lparr>sn_debit := stored_num (sn_debit e), sn_credit := stored_num (sn_credit e),
     sn_provenance := map_option jsonb_roundtrip (sn_provenance e)\<rparr>"

definition stored_payload :: "SnapPayload \<Rightarrow> SnapPayload" where
  "stored_payload p =
     \<lparr>sp_tb_entries = map stored_entry (sp_tb_entries p), sp_totalDebits = stored_num (sp_totalDebits p),
      sp_totalCredits = stored_num (sp_totalCredits p),
      sp_entries = map_option (map stored_entry) (sp_entries p),
      sp_manifest = map_option jsonb_roundtrip (sp_manifest p),
      sp_gl = map_option (map (\<lambda>e. e\<lparr>gl_lines := map (\<lambda>l. l\<lparr>gl_debit := stored_num (gl_debit l),
         gl_credit := stored_num (gl_credit l)\<rparr>) (gl_lines e)\<rparr>)) (sp_gl p),
      sp_comparative = map_option (\<lambda>c. c\<lparr>cm_entries := map stored_entry (cm_entries c),
         cm_totalDebits := stored_num (cm_totalDebits c), cm_totalCredits := stored_num (cm_totalCredits c)\<rparr>)
         (sp_comparative p),
      sp_standard = sp_standard p\<rparr>"

definition insertLedgerSnapshot ::
  "tenant_id \<Rightarrow> string \<Rightarrow> string option \<Rightarrow> string \<Rightarrow> SnapPayload \<Rightarrow> string \<Rightarrow> nat \<Rightarrow> string option
     \<Rightarrow> ('a, LedgerSnapshot) close_op" where
  "insertLedgerSnapshot tenant periodLabel creator src p h v sessionId s0 =
     (let (i, s) = random_text s0; (t, s) = now s;
          row = \<lparr>ls_id = i, ls_tenant = tenant, ls_period_label = periodLabel, ls_created_at = t,
            ls_created_by = creator, ls_source = src, ls_payload = stored_payload p, ls_hash = h,
            ls_version = v, ls_session = sessionId\<rparr>
      in if src \<notin> {''precheck'', ''close_session'', ''import''}
         then (Inl (DbError ''chk_ledger_snapshot_source''), s)
         else if i \<in> ls_id ` set (ledger_snapshots s) then (Inl (DbError ''ledger_snapshots_pkey''), s)
         else (Inr row, s\<lparr>ledger_snapshots := ledger_snapshots s @ [row]\<rparr>))"

definition getLedgerSnapshotById :: "tenant_id \<Rightarrow> string \<Rightarrow> 'a close_db_scheme \<Rightarrow> LedgerSnapshot option" where
  "getLedgerSnapshotById tenant i s = find (\<lambda>r. ls_id r = i \<and> ls_tenant r = tenant) (ledger_snapshots s)"

definition getLatestSnapshotByCloseSessionId ::
  "tenant_id \<Rightarrow> string \<Rightarrow> 'a close_db_scheme \<Rightarrow> LedgerSnapshot option" where
  "getLatestSnapshotByCloseSessionId tenant sessionId s =
     (case rev (sort_key ls_created_at (filter (\<lambda>r. ls_session r = Some sessionId \<and> ls_tenant r = tenant)
        (ledger_snapshots s))) of [] \<Rightarrow> None | r # _ \<Rightarrow> Some r)"

text \<open>The join of the closed sessions of the entity with their snapshots, the latest period first.\<close>

definition getPriorCertifiedSnapshotForEntity ::
  "tenant_id \<Rightarrow> string \<Rightarrow> string \<Rightarrow> 'a close_db_scheme \<Rightarrow> LedgerSnapshot option" where
  "getPriorCertifiedSnapshotForEntity tenant entity periodEnd s =
     (let sessions = rev (sort_key cs_period_end (filter (\<lambda>c. cs_tenant c = tenant \<and> cs_entity c = entity
            \<and> cs_period_end c < periodEnd \<and> cs_status c \<in> {Certified, SubsequentEventsReview, Locked}
            \<and> cs_certified_snapshot_id c \<noteq> None) (close_sessions s)));
          joined = concat (map (\<lambda>c. filter (\<lambda>r. Some (ls_id r) = cs_certified_snapshot_id c
            \<and> ls_tenant r = cs_tenant c) (ledger_snapshots s)) sessions)
      in case joined of [] \<Rightarrow> None | r # _ \<Rightarrow> Some r)"

section \<open>ledger_snapshot_service.ts\<close>

definition js_number_or_0 :: "number option \<Rightarrow> number" where
  "js_number_or_0 x = (case x of None \<Rightarrow> Fin 0 | Some n \<Rightarrow> if n = NaN then Fin 0 else n)"

definition toSnapshotEntry :: "'d decimal_ops \<Rightarrow> SnapEntry \<Rightarrow> SnapEntry" where
  "toSnapshotEntry D row =
     \<lparr>sn_lineId = nonempty (sn_lineId row), sn_accountName = js_trim (sn_accountName row),
      sn_debit = round2 D (ANum (js_number_or_0 (sn_debit row))),
      sn_credit = round2 D (ANum (js_number_or_0 (sn_credit row))),
      sn_accountCode = map_option js_trim (sn_accountCode row),
      sn_accountType = map_option js_trim (nonempty (sn_accountType row)),
      sn_description = map_option js_trim (nonempty (sn_description row)),
      sn_provenance = sn_provenance row\<rparr>"

text \<open>\<open>JSON.parse\<close> of a text that \<open>JSON.stringify\<close> wrote.\<close>

primrec json_reparse :: "json \<Rightarrow> json" where
  "json_reparse JUndef = JUndef"
| "json_reparse JNull = JNull"
| "json_reparse (JBool b) = JBool b"
| "json_reparse (JNum n) = (if is_finite n then JNum n else JNull)"
| "json_reparse (JStr s) = JStr s"
| "json_reparse (JArr vs) = JArr (map (\<lambda>v. if v = JUndef then JNull else v) (map json_reparse vs))"
| "json_reparse (JObj kvs) =
     JObj (own_order (filter (\<lambda>p. snd p \<noteq> JUndef) (map (map_prod id json_reparse) kvs)))"

definition buildSnapshotPayloadFromInput :: "'d decimal_ops \<Rightarrow> SnapPayload \<Rightarrow> SnapPayload" where
  "buildSnapshotPayloadFromInput D input =
     (let total = (\<lambda>x. round2 D (ANum (js_or x (Fin 0)))) in
      \<lparr>sp_tb_entries = map (toSnapshotEntry D) (sp_tb_entries input),
       sp_totalDebits = total (sp_totalDebits input), sp_totalCredits = total (sp_totalCredits input),
       sp_entries = (case js_or (sp_entries input) [] of [] \<Rightarrow> None | es \<Rightarrow> Some (map (toSnapshotEntry D) es)),
       sp_manifest = map_option (\<lambda>m. json_reparse (canonicalizeKeysOnly m)) (sp_manifest input),
       sp_gl = (if js_or (sp_gl input) [] = [] then None else sp_gl input),
       sp_comparative = map_option (\<lambda>c. c\<lparr>cm_entries := map (toSnapshotEntry D) (cm_entries c),
          cm_totalDebits := total (cm_totalDebits c), cm_totalCredits := total (cm_totalCredits c)\<rparr>)
          (sp_comparative input),
       sp_standard = map_option js_trim (sp_standard input)\<rparr>)"

definition createSnapshotFromTrialBalanceAndEntries ::
  "(string \<Rightarrow> string) \<Rightarrow> snap_env \<Rightarrow> 'd decimal_ops \<Rightarrow> tenant_id \<Rightarrow> string \<Rightarrow> string option \<Rightarrow> string
     \<Rightarrow> string option \<Rightarrow> SnapPayload \<Rightarrow> ('a, LedgerSnapshot) close_op" where
  "createSnapshotFromTrialBalanceAndEntries H S D tenant periodLabel creator src sessionId input s =
     (let payload = buildSnapshotPayloadFromInput D input;
          hasGL = (js_or (sp_gl payload) [] \<noteq> []);
          hasCertifiedContext = (sp_comparative payload \<noteq> None \<or> sp_standard payload \<noteq> None);
          hashVersion = (if hasCertifiedContext then HASH_VERSION_WITH_CERTIFIED_CONTEXT
            else if hasGL then HASH_VERSION_WITH_GL else getHashVersionForStorage)
      in insertLedgerSnapshot tenant periodLabel creator src payload (hashSnapshotPayload H S D payload hashVersion)
           hashVersion sessionId s)"

definition verifySnapshotHash :: "(string \<Rightarrow> string) \<Rightarrow> snap_env \<Rightarrow> 'd decimal_ops \<Rightarrow> LedgerSnapshot \<Rightarrow> bool" where
  "verifySnapshotHash H S D snapshot =
     (let v = ls_version snapshot in
      v \<in> {HASH_VERSION_LEGACY, HASH_VERSION_CANONICAL_MONEY, HASH_VERSION_WITH_EVIDENCE_MANIFEST,
           HASH_VERSION_WITH_GL, HASH_VERSION_WITH_CERTIFIED_CONTEXT}
      \<and> (hashSnapshotPayload H S D (ls_payload snapshot) v = ls_hash snapshot
         \<or> v = HASH_VERSION_LEGACY \<and> hashSnapshotPayloadLegacy H S (ls_payload snapshot) = ls_hash snapshot))"

definition recomputeAndVerifySnapshotHash ::
  "(string \<Rightarrow> string) \<Rightarrow> snap_env \<Rightarrow> 'd decimal_ops \<Rightarrow> LedgerSnapshot \<Rightarrow> string \<times> bool" where
  "recomputeAndVerifySnapshotHash H S D snapshot =
     (let v = ls_version snapshot in
      (if v = HASH_VERSION_LEGACY then hashSnapshotPayloadLegacy H S (ls_payload snapshot)
       else hashSnapshotPayload H S D (ls_payload snapshot) v,
       verifySnapshotHash H S D snapshot))"

end
