(* ===== verification/CertificationArtifact.thy ===== *)
theory CertificationArtifact
  imports CrossStatement LedgerSnapshot
begin

text \<open>
  The signed attestation of a certified close: \<open>src/src/services/certification_artifact_service.ts\<close>
  and \<open>src/src/db/repositories/certification_artifact_repository.ts\<close>, with the constraint of one
  artifact per session. The Ed25519 signature, the runtime mode and the AI usage figures are
  parameters (a signature that cannot be made throws).
\<close>

section \<open>Objects\<close>

text \<open>\<open>o.k\<close> for an object; \<open>undefined\<close> where there is no such property.\<close>

fun json_get :: "string \<Rightarrow> json \<Rightarrow> json" where
  "json_get k (JObj kvs) = (case map_of kvs k of None \<Rightarrow> JUndef | Some v \<Rightarrow> v)"
| "json_get k _ = JUndef"

fun json_truthy :: "json \<Rightarrow> bool" where
  "json_truthy JUndef = False"
| "json_truthy JNull = False"
| "json_truthy (JBool b) = b"
| "json_truthy (JNum n) = (n \<noteq> NaN \<and> n \<noteq> Fin 0)"
| "json_truthy (JStr s) = (s \<noteq> [])"
| "json_truthy (JArr _) = True"
| "json_truthy (JObj _) = True"

section \<open>certification_artifact_repository.ts\<close>

definition insertCertificationArtifact ::
  "tenant_id \<Rightarrow> string \<Rightarrow> string \<Rightarrow> json \<Rightarrow> string \<Rightarrow> string \<Rightarrow> string \<Rightarrow> string \<Rightarrow> ('a, string) close_op" where
  "insertCertificationArtifact tenant sessionId periodLabel artifact h sig pk algo s0 =
     (let (i, s) = random_text s0; (t, s) = now s;
          row = \<lparr>ca_id = i, ca_tenant = tenant, ca_session = sessionId, ca_period_label = periodLabel,
            ca_artifact = jsonb_roundtrip artifact, ca_hash = h, ca_signature = sig, ca_public_key = pk,
            ca_alg = algo, ca_created_at = t\<rparr>
      in if i \<in> ca_id ` set (certification_artifacts s) then (Inl (DbError ''certification_artifacts_pkey''), s)
         else if (tenant, sessionId) \<in> (\<lambda>r. (ca_tenant r, ca_session r)) ` set (certification_artifacts s)
         then (Inl (DbError ''certification_artifacts_tenant_id_close_session_id_key''), s)
         else (Inr i, s\<lparr>certification_artifacts := certification_artifacts s @ [row]\<rparr>))"

definition getArtifactByCloseSessionId ::
  "tenant_id \<Rightarrow> string \<Rightarrow> 'a close_db_scheme \<Rightarrow> artifact_row option" where
  "getArtifactByCloseSessionId tenant sessionId s =
     find (\<lambda>r. ca_tenant r = tenant \<and> ca_session r = sessionId) (certification_artifacts s)"

definition getArtifactById :: "tenant_id \<Rightarrow> string \<Rightarrow> 'a close_db_scheme \<Rightarrow> artifact_row option" where
  "getArtifactById tenant i s = find (\<lambda>r. ca_tenant r = tenant \<and> ca_id r = i) (certification_artifacts s)"

definition existsForCloseSession :: "tenant_id \<Rightarrow> string \<Rightarrow> 'a close_db_scheme \<Rightarrow> bool" where
  "existsForCloseSession tenant sessionId s =
     list_ex (\<lambda>r. ca_tenant r = tenant \<and> ca_session r = sessionId) (certification_artifacts s)"

subsection \<open>Prior retained earnings\<close>

text \<open>\<open>Math.round\<close>, and \<open>Math.round(total * 100) / 100\<close>.\<close>

fun round_cents :: "number \<Rightarrow> number" where
  "round_cents (Fin x) =
     (case to_num (x * 100) of Fin y \<Rightarrow> to_num (of_int \<lfloor>y + 1 / 2\<rfloor> / 100) | n \<Rightarrow> n)"
| "round_cents n = n"

definition credit_minus_debit :: "SnapEntry \<Rightarrow> number" where
  "credit_minus_debit e = num_minus (js_or (sn_credit e) (Fin 0)) (js_or (sn_debit e) (Fin 0))"

definition is_retained_earnings :: "SnapEntry \<Rightarrow> bool" where
  "is_retained_earnings e = js_includes (js_toLowerCase (sn_accountName e)) ''retained earnings''"

definition prior_artifacts :: "tenant_id \<Rightarrow> string \<Rightarrow> string \<Rightarrow> 'a close_db_scheme \<Rightarrow> artifact_row list" where
  "prior_artifacts tenant entity periodLabel s =
     rev (sort_key ca_period_label (filter (\<lambda>a. ca_tenant a = tenant \<and> ca_period_label a < periodLabel
       \<and> list_ex (\<lambda>c. cs_id c = ca_session a \<and> cs_tenant c = ca_tenant a \<and> cs_entity c = entity
            \<and> cs_status c \<in> {Certified, SubsequentEventsReview, Locked}) (close_sessions s))
       (certification_artifacts s)))"

definition getPriorPeriodRetainedEarnings ::
  "tenant_id \<Rightarrow> string \<Rightarrow> string \<Rightarrow> 'a close_db_scheme \<Rightarrow> number option" where
  "getPriorPeriodRetainedEarnings tenant entity currentPeriodLabel s =
     (case prior_artifacts tenant entity currentPeriodLabel s of
        [] \<Rightarrow> None
      | a # _ \<Rightarrow>
          (case json_get ''snapshotId'' (json_get ''snapshot'' (ca_artifact a)) of
             JStr snapshotId \<Rightarrow>
               if snapshotId = [] then None
               else (case getLedgerSnapshotById tenant snapshotId s of
                  None \<Rightarrow> None
                | Some snap \<Rightarrow>
                    let reEntries = filter is_retained_earnings (sp_tb_entries (ls_payload snap)) in
                    if reEntries = [] then None
                    else Some (round_cents (foldl (\<lambda>total e. num_plus total (credit_minus_debit e)) (Fin 0) reEntries)))
           | _ \<Rightarrow> None))"

section \<open>certification_artifact_service.ts\<close>

definition computeArtifactHash :: "(string \<Rightarrow> string) \<Rightarrow> json \<Rightarrow> string" where
  "computeArtifactHash H artifact = H (js_or (canonicalStringifyKeysOnly artifact) [])"

record BuildArtifactInput =
  ba_tenantId :: tenant_id
  ba_closeSessionId :: string
  ba_periodLabel :: string
  ba_certifiedAt :: string
  ba_certifiedBy :: string
  ba_snapshotId :: string
  ba_snapshotHash :: string
  ba_hashVersion :: nat
  ba_manifest :: "json option"
  ba_auditChain :: VerifyResult
  ba_validation :: "ValidationCheck list"
  ba_aiMetadata :: "json option"
  ba_gateSnapshot :: "json option"
  ba_manifestComplete :: bool
  ba_chainVerified :: bool

definition check_json :: "ValidationCheck \<Rightarrow> json" where
  "check_json c =
     JObj [(''check_name'', JStr (vc_name c)), (''check_type'', JStr (if vc_hard c then ''hard'' else ''soft'')),
       (''passes'', JBool (vc_passes c)), (''message'', case vc_message c of None \<Rightarrow> JNull | Some m \<Rightarrow> JStr m)]"

definition audit_chain_json :: "VerifyResult \<Rightarrow> json option" where
  "audit_chain_json r =
     (case (vr_latestId r, vr_latestHash r) of
        (Some i, Some h) \<Rightarrow>
          if vr_valid r \<and> i \<noteq> [] \<and> h \<noteq> []
          then Some (JObj [(''lastEntryId'', JStr i), (''lastEntryHash'', JStr h),
            (''entryCount'', JNum (Fin (of_nat (vr_entryCount r)))), (''verifiedAt'', JStr (toISOString (vr_verifiedAt r)))])
          else None
      | _ \<Rightarrow> None)"

definition manifest_has_entries :: "json option \<Rightarrow> bool" where
  "manifest_has_entries m =
     (case map_option (json_get ''journalEntries'') m of Some (JArr vs) \<Rightarrow> vs \<noteq> [] | _ \<Rightarrow> False)"

definition artifact_json ::
  "string \<Rightarrow> string \<Rightarrow> BuildArtifactInput \<Rightarrow> json option \<Rightarrow> json" where
  "artifact_json mode artifactId b manifestRef =
     JObj ([(''contractVersion'', JStr ''v1''), (''artifactId'', JStr artifactId), (''tenantId'', JStr (ba_tenantId b)),
        (''closeSessionId'', JStr (ba_closeSessionId b)), (''periodLabel'', JStr (ba_periodLabel b)),
        (''certifiedAt'', JStr (ba_certifiedAt b)), (''certifiedBy'', JStr (ba_certifiedBy b)),
        (''snapshot'', JObj [(''snapshotId'', JStr (ba_snapshotId b)), (''snapshotHash'', JStr (ba_snapshotHash b)),
           (''hashVersion'', JStr (nat_string (ba_hashVersion b)))])]
       @ opt_prop ''auditChain'' (audit_chain_json (ba_auditChain b))
       @ opt_prop ''evidenceManifest'' manifestRef
       @ opt_prop ''validationStateAtCertification''
           (if ba_validation b = [] then None else Some (JArr (map check_json (ba_validation b))))
       @ opt_prop ''aiMetadata'' (ba_aiMetadata b)
       @ opt_prop ''gateSnapshot'' (ba_gateSnapshot b)
       @ [(''evidenceManifestComplete'', JBool (ba_manifestComplete b)),
          (''auditChainVerified'', JBool (ba_chainVerified b)), (''mode'', JStr mode)])"

text \<open>
  \<open>sign\<close> is \<open>signArtifactHash\<close>: \<open>None\<close> when it throws, otherwise the signature and the public key if
  it signed, and the algorithm. The result is the artifact, its hash, the signature, the public key
  and the algorithm.
\<close>

type_synonym signer = "string \<Rightarrow> ((string \<times> string) option \<times> string) option"

definition buildCertificationArtifact ::
  "(string \<Rightarrow> string) \<Rightarrow> string \<Rightarrow> signer \<Rightarrow> BuildArtifactInput
     \<Rightarrow> ('a, json \<times> string \<times> string \<times> string \<times> string) close_op" where
  "buildCertificationArtifact H mode sign b s0 =
     (let (manifestRef, s) =
            (if manifest_has_entries (ba_manifest b)
             then let (manifestId, s) = random_text s0 in
               (Some (JObj [(''manifestId'', JStr manifestId),
                  (''manifestHash'', JStr (hashManifestContent H (js_or (ba_manifest b) JUndef))),
                  (''hashVersion'', JStr ''v1'')]), s)
             else (None, s0));
          (artifactId, s) = random_text s;
          artifact = artifact_json mode artifactId b manifestRef;
          h = computeArtifactHash H artifact
      in case sign h of
           None \<Rightarrow> (Inl (JsError ''FATAL: Ed25519 signing keys are required in production.''), s)
         | Some (sgd, algo) \<Rightarrow>
             (Inr (artifact, h, (case sgd of None \<Rightarrow> [] | Some (sig, _) \<Rightarrow> sig),
                (case sgd of None \<Rightarrow> [] | Some (_, pk) \<Rightarrow> pk), algo), s))"

text \<open>The artifact names the snapshot it attests.\<close>

lemma artifact_names_snapshot:
  "json_get ''snapshotId'' (json_get ''snapshot'' (artifact_json mode i b m)) = JStr (ba_snapshotId b)"
  by (simp add: artifact_json_def)

end
