(* ===== verification/Segregation.thy ===== *)
theory Segregation
  imports AuditService
begin

text \<open>
  Who may do what: the roles of \<open>src/src/services/segregation_service.ts\<close> and
  \<open>src/src/lib/closeRole.ts\<close>, and the advisory scope of \<open>src/src/lib/ai_boundary.ts\<close> that keeps
  code called by the AI away from the mutation paths.
\<close>

subsection \<open>Roles\<close>

datatype CloseRole = Preparer | Reviewer | Approver

fun role_text :: "CloseRole \<Rightarrow> string" where
  "role_text Preparer = ''preparer''"
| "role_text Reviewer = ''reviewer''"
| "role_text Approver = ''approver''"

datatype ControlledAction =
    CloseChecklistComplete | PeriodLock | JeSuggestApprove | JePost | VarianceConfirm
  | AuditLogRetentionPurge | CertifyClose

fun action_text :: "ControlledAction \<Rightarrow> string" where
  "action_text CloseChecklistComplete = ''close_checklist_complete''"
| "action_text PeriodLock = ''period_lock''"
| "action_text JeSuggestApprove = ''je_suggest_approve''"
| "action_text JePost = ''je_post''"
| "action_text VarianceConfirm = ''variance_confirm''"
| "action_text AuditLogRetentionPurge = ''audit_log_retention_purge''"
| "action_text CertifyClose = ''certify_close''"

fun ACTION_ROLE :: "ControlledAction \<Rightarrow> CloseRole" where
  "ACTION_ROLE CloseChecklistComplete = Reviewer"
| "ACTION_ROLE PeriodLock = Approver"
| "ACTION_ROLE JeSuggestApprove = Approver"
| "ACTION_ROLE JePost = Approver"
| "ACTION_ROLE VarianceConfirm = Reviewer"
| "ACTION_ROLE AuditLogRetentionPurge = Approver"
| "ACTION_ROLE CertifyClose = Approver"

definition ROLE_ORDER :: "CloseRole list" where
  "ROLE_ORDER = [Preparer, Reviewer, Approver]"

fun indexOf :: "'x \<Rightarrow> 'x list \<Rightarrow> int" where
  "indexOf x [] = - 1"
| "indexOf x (y # ys) = (if x = y then 0 else let i = indexOf x ys in if i < 0 then - 1 else i + 1)"

definition roleLevel :: "CloseRole \<Rightarrow> int" where
  "roleLevel r = (let i = indexOf r ROLE_ORDER in if 0 \<le> i then i else - 1)"

definition canPerform :: "CloseRole \<Rightarrow> ControlledAction \<Rightarrow> bool" where
  "canPerform actorRole action = (roleLevel (ACTION_ROLE action) \<le> roleLevel actorRole)"

record AuditLogEntry =
  le_id :: string
  le_timestamp :: string
  le_actor :: string
  le_action :: string
  le_resource :: "string option"
  le_detail :: "string option"
  le_payload :: "(string \<times> json) list"

text \<open>\<open>context\<close> is the tenant whose ledger records the attempt; without it nothing is written.\<close>

definition performControlledAction ::
  "(string \<Rightarrow> string) \<Rightarrow> string \<Rightarrow> CloseRole \<Rightarrow> ControlledAction \<Rightarrow> string option \<Rightarrow> string option
     \<Rightarrow> (string \<times> json) list \<Rightarrow> tenant_id option \<Rightarrow> ('a, bool \<times> AuditLogEntry) op" where
  "performControlledAction H actor actorRole action resource detail payload auditContext s0 =
     (let allowed = canPerform actorRole action;
          entryPayload = foldl (\<lambda>kvs p. set_member (fst p) (snd p) kvs) payload
            [(''actorRole'', JStr (role_text actorRole)),
             (''requiredRole'', JStr (role_text (ACTION_ROLE action))), (''allowed'', JBool allowed)];
          (t, s) = now s0;
          auditEntry = \<lparr>le_id = ''audit-ledger'', le_timestamp = toISOString t, le_actor = actor,
            le_action = action_text action, le_resource = resource,
            le_detail = (case detail of Some d \<Rightarrow> Some d
              | None \<Rightarrow> if allowed then None else Some ''Denied: insufficient role''),
            le_payload = entryPayload\<rparr>
      in case auditContext of
           None \<Rightarrow> (Inr (allowed, auditEntry), s)
         | Some tenantId \<Rightarrow>
             andThen (recordAuditLogAction True H tenantId
               \<lparr>la_actor = actor, la_action = action_text action, la_resource = resource,
                la_detail = le_detail auditEntry, la_payload = Some (JObj (own_order entryPayload)),
                la_entityId = None, la_periodId = None, la_periodLabel = None\<rparr> s)
               (\<lambda>_ s. (Inr (allowed, auditEntry), s)))"

subsection \<open>closeRole.ts\<close>

definition mapApiRoleToCloseRole :: "string option \<Rightarrow> CloseRole" where
  "mapApiRoleToCloseRole r =
     (if \<not> truthy r then Preparer
      else case the r of role \<Rightarrow>
        if role = ''preparer'' then Preparer
        else if role = ''reviewer'' then Reviewer
        else if role = ''approver'' then Approver
        else if role = ''controller'' then Approver
        else if role = ''senior_accountant'' then Preparer
        else if role = ''cfo'' then Approver
        else if role = ''reviewer'' then Reviewer
        else if role = ''internal_auditor'' then Preparer
        else if role = ''pe_operating_partner'' then Preparer
        else if role = ''external_auditor'' then Preparer
        else if role = ''system_admin'' then Approver
        else if role = ''certifier'' \<or> role = ''admin'' \<or> role = ''approver'' then Approver
        else if role = ''accountant'' \<or> role = ''preparer'' then Preparer
        else if role = ''operating_partner'' then Preparer
        else Preparer)"

subsection \<open>ai_boundary.ts\<close>

text \<open>
  The store of the asynchronous chain: none outside \<open>runInBoundaryScope\<close>, otherwise the nesting
  depth of advisory contexts.
\<close>

type_synonym advisory_store = "nat option"

definition enterAdvisoryContext :: "advisory_store \<Rightarrow> advisory_store" where
  "enterAdvisoryContext store = map_option Suc store"

definition exitAdvisoryContext :: "advisory_store \<Rightarrow> advisory_store" where
  "exitAdvisoryContext store = map_option (\<lambda>d. if 0 < d then d - 1 else d) store"

definition ai_boundary_message :: string where
  "ai_boundary_message = ''[AI_BOUNDARY] Mutation path cannot be invoked from AI context. AI is advisory-only and must not mutate ledger, snapshot, or certification.''"

definition assertNoAiMutationContext :: "advisory_store \<Rightarrow> error + unit" where
  "assertNoAiMutationContext store =
     (case store of
        None \<Rightarrow> Inr ()
      | Some d \<Rightarrow> if 0 < d then Inl (JsError ai_boundary_message) else Inr ())"

definition runInBoundaryScope :: "(advisory_store \<Rightarrow> 'b) \<Rightarrow> 'b" where
  "runInBoundaryScope fn = fn (Some 0)"

datatype boundary_event = Enter | Exit

fun run_boundary :: "boundary_event list \<Rightarrow> advisory_store \<Rightarrow> advisory_store" where
  "run_boundary [] st = st"
| "run_boundary (Enter # es) st = run_boundary es (enterAdvisoryContext st)"
| "run_boundary (Exit # es) st = run_boundary es (exitAdvisoryContext st)"

text \<open>Well-nested uses: every enter has its exit, as in \<open>try { ... } finally { exit }\<close>.\<close>

inductive nested :: "boundary_event list \<Rightarrow> bool" where
  empty: "nested []"
| wrap: "nested es \<Longrightarrow> nested (Enter # es @ [Exit])"
| seq: "nested es \<Longrightarrow> nested fs \<Longrightarrow> nested (es @ fs)"

lemma run_boundary_append: "run_boundary (es @ fs) st = run_boundary fs (run_boundary es st)"
  by (induction es st rule: run_boundary.induct) auto

lemma run_nested: "nested es \<Longrightarrow> run_boundary es st = st"
  by (induction arbitrary: st rule: nested.induct)
    (auto simp: run_boundary_append enterAdvisoryContext_def exitAdvisoryContext_def option.map_comp comp_def
      option.map_ident)

subsection \<open>Properties\<close>

text \<open>
  The role check is a threshold on the order preparer, reviewer, approver: approvers may do
  everything, preparers none of the controlled actions, and a higher role never loses a permission.
\<close>

theorem role_threshold:
  "canPerform Approver action \<and> \<not> canPerform Preparer action
   \<and> canPerform Reviewer action = (action \<in> {CloseChecklistComplete, VarianceConfirm})"
  by (cases action) (simp_all add: canPerform_def roleLevel_def ROLE_ORDER_def)

text \<open>
  In a request scope, the mutation guard throws exactly inside an advisory context: after any
  well-nested use of the AI it lets mutations pass, and between an enter and its exit, however deep,
  it refuses them.
\<close>

theorem ai_boundary_enforced:
  assumes "nested before" and "nested inside"
  shows "runInBoundaryScope (\<lambda>st. assertNoAiMutationContext (run_boundary before st)) = Inr ()
    \<and> runInBoundaryScope (\<lambda>st. assertNoAiMutationContext (run_boundary (before @ Enter # inside) st))
        = Inl (JsError ai_boundary_message)"
  using assms
  by (simp add: runInBoundaryScope_def run_boundary_append run_nested enterAdvisoryContext_def
      assertNoAiMutationContext_def)

theorem ai_boundary_enforced_witness:
  "runInBoundaryScope (\<lambda>st. assertNoAiMutationContext (run_boundary [Enter, Exit] st)) = Inr ()"
  using ai_boundary_enforced [OF nested.wrap [OF nested.empty] nested.empty] by simp

end
