(* ===== verification/CloseSession.thy ===== *)
theory CloseSession
  imports CertificationArtifact Segregation
begin

text \<open>
  The state machine of a close session, \<open>src/src/services/close_session_service.ts\<close>: creation,
  transitions, rejection, reopening, subsequent events and locking. Certification is in the theory
  \<open>Certification\<close>, advancing with its side work in \<open>SessionAdvance\<close>.

  \<open>store\<close> is the advisory store of the AI boundary, \<open>H\<close> is SHA-256. The time stamp of a session is
  read back from the text that \<open>toISOString\<close> printed, which is the stored one.
\<close>

section \<open>Transitions\<close>

fun ALLOWED_TRANSITIONS :: "CloseSessionStatus \<Rightarrow> CloseSessionStatus list" where
  "ALLOWED_TRANSITIONS Open = [InProgress]"
| "ALLOWED_TRANSITIONS InProgress = [UnderReview]"
| "ALLOWED_TRANSITIONS UnderReview = [InProgress]"
| "ALLOWED_TRANSITIONS Certified = [InProgress, SubsequentEventsReview]"
| "ALLOWED_TRANSITIONS SubsequentEventsReview = [InProgress, Locked]"
| "ALLOWED_TRANSITIONS Locked = []"

definition cs_error :: "string \<Rightarrow> string \<Rightarrow> error" where
  "cs_error code message = ServiceError code message"

definition session_not_found :: error where
  "session_not_found = cs_error ''NOT_FOUND'' ''Close session not found''"

definition getAllowedTransitions :: "CloseSessionStatus \<Rightarrow> CloseSessionStatus list" where
  "getAllowedTransitions st = ALLOWED_TRANSITIONS st"

definition period_of :: "CloseSession \<Rightarrow> string" where
  "period_of session = take 7 (ses_periodEnd session)"

definition session_event ::
  "bool \<Rightarrow> (string \<Rightarrow> string) \<Rightarrow> tenant_id \<Rightarrow> CloseSession \<Rightarrow> string \<Rightarrow> (string \<times> json) list \<Rightarrow> string option
     \<Rightarrow> ('a, unit) session_op" where
  "session_event isPool H tenant session eventType flags creator s =
     recordMaterialEvent isPool H \<lparr>me_tenantId = tenant, me_periodLabel = Some (period_of session),
       me_eventType = eventType, me_snapshot = flags, me_dissent = None, me_createdBy = creator\<rparr> s"

section \<open>Creation\<close>

record CreateCloseSessionInput =
  cc_tenantId :: tenant_id
  cc_entityId :: string
  cc_periodStart :: string
  cc_periodEnd :: string
  cc_basis :: "string option"
  cc_standard :: "string option"

definition createSession :: "CreateCloseSessionInput \<Rightarrow> ('a, CloseSession) session_op" where
  "createSession input s =
     (let bas = js_or (cc_basis input) ''accrual''; std = js_or (cc_standard input) ''GAAP'' in
      if bas \<noteq> ''cash'' \<and> bas \<noteq> ''accrual''
      then (Inl (cs_error ''VALIDATION'' ''basis must be cash or accrual''), s)
      else if hasOverlappingSession (cc_tenantId input) (cc_entityId input) (cc_periodStart input)
                (cc_periodEnd input) None s
      then (Inl (cs_error ''OVERLAP'' ''Overlapping session exists for same tenant and entity''), s)
      else let (i, s) = random_text s in
        insertCloseSession i (cc_tenantId input) (cc_entityId input) (cc_periodStart input)
          (cc_periodEnd input) bas std Open s)"

text \<open>The Boolean is \<open>created\<close>.\<close>

definition createSessionOrGetExisting ::
  "CreateCloseSessionInput \<Rightarrow> ('a, CloseSession \<times> bool) session_op" where
  "createSessionOrGetExisting input s =
     (case getOverlappingSession (cc_tenantId input) (cc_entityId input) (cc_periodStart input)
        (cc_periodEnd input) s of
        Some existing \<Rightarrow> (Inr (existing, False), s)
      | None \<Rightarrow> andThen (createSession input s) (\<lambda>session s. (Inr (session, True), s)))"

definition periodLabelToPeriodBounds :: "string \<Rightarrow> (string \<times> string) option" where
  "periodLabelToPeriodBounds periodLabel = toPeriodBounds periodLabel"

definition ensureSessionForPeriod ::
  "tenant_id \<Rightarrow> string \<Rightarrow> string \<Rightarrow> string option \<Rightarrow> string option \<Rightarrow> ('a, CloseSession \<times> bool) session_op" where
  "ensureSessionForPeriod tenant entity periodLabel bas std s =
     (case periodLabelToPeriodBounds periodLabel of
        None \<Rightarrow> (Inl (cs_error ''VALIDATION'' ''periodLabel must be YYYY-MM (e.g. 2025-06)''), s)
      | Some (pStart, pEnd) \<Rightarrow>
          createSessionOrGetExisting \<lparr>cc_tenantId = tenant, cc_entityId = entity, cc_periodStart = pStart,
            cc_periodEnd = pEnd, cc_basis = bas, cc_standard = std\<rparr> s)"

definition getSession :: "tenant_id \<Rightarrow> string \<Rightarrow> 'a session_db_scheme \<Rightarrow> CloseSession option" where
  "getSession tenant i s = getCloseSessionById tenant i s"

text \<open>The filters of \<open>listSessions\<close> are those of the repository.\<close>

definition listSessions ::
  "tenant_id \<Rightarrow> string option \<Rightarrow> CloseSessionStatus option \<Rightarrow> 'a session_db_scheme \<Rightarrow> CloseSession list" where
  "listSessions tenant entity st s = listCloseSessions tenant entity st s"

section \<open>Changing the status\<close>

definition updateStatus ::
  "bool \<Rightarrow> (string \<Rightarrow> string) \<Rightarrow> tenant_id \<Rightarrow> string \<Rightarrow> CloseSessionStatus \<Rightarrow> string option
     \<Rightarrow> ('a, CloseSession) session_op" where
  "updateStatus isPool H tenant i newStatus creator s =
     (case getCloseSessionByIdForUpdate tenant i s of
        None \<Rightarrow> (Inl session_not_found, s)
      | Some current \<Rightarrow>
          if newStatus \<notin> set (ALLOWED_TRANSITIONS (ses_status current))
          then (Inl (cs_error ''INVALID_TRANSITION'' (''Transition from '' @ session_status_text (ses_status current)
                  @ '' to '' @ session_status_text newStatus @ '' is not allowed'')), s)
          else (case updateCloseSessionStatus tenant i newStatus creator s of
             (None, s) \<Rightarrow> (Inl session_not_found, s)
           | (Some updated, s) \<Rightarrow>
               andThen (session_event isPool H tenant updated ''close_session_transition''
                 ([(''from'', JStr (session_status_text (ses_status current))),
                   (''to'', JStr (session_status_text newStatus)), (''sessionId'', JStr i)]
                  @ opt_prop ''userId'' (map_option JStr creator))
                 (Some (js_or creator ''api'')) s) (\<lambda>_ s. (Inr updated, s))))"

definition review_issue :: "tenant_id \<Rightarrow> string \<Rightarrow> string \<Rightarrow> string \<Rightarrow> string \<Rightarrow> CreateCloseIssueInput" where
  "review_issue tenant sessionId entity reason rejecter =
     \<lparr>ni_tenantId = tenant, ni_periodId = sessionId, ni_entityId = entity, ni_issueType = ''review_rejection'',
      ni_severity = Blocking, ni_category = Review, ni_title = ''Review rejected: '' @ take 100 reason,
      ni_description = Some (''Close session was rejected by reviewer and sent back to IN_PROGRESS.''
        @ [CHR 0x0A, CHR 0x0A] @ ''Reason: '' @ reason),
      ni_affectedAccounts = None, ni_affectedAmount = None, ni_sourceCheck = Some ''review_rejection'',
      ni_sourceDetails = Some (JObj [(''rejectedBy'', JStr rejecter), (''reason'', JStr reason)])\<rparr>"

text \<open>
  The rejected session has no property \<open>createdBy\<close> (\<open>rowToSession\<close> never sets one), so the issue is
  not assigned.
\<close>

definition rejectSession ::
  "(string \<Rightarrow> string) \<Rightarrow> tenant_id \<Rightarrow> string \<Rightarrow> string \<Rightarrow> string \<Rightarrow> ('a, CloseSession) issue_op" where
  "rejectSession H tenant sessionId reason rejecter s =
     (let reasonTrimmed = js_trim reason in
      if length reasonTrimmed < 10
      then (Inl (cs_error ''VALIDATION'' ''Rejection reason is required (minimum 10 characters)''), s)
      else andThen (withTransaction (\<lambda>s.
             case getCloseSessionByIdForUpdate tenant sessionId s of
               None \<Rightarrow> (Inl session_not_found, s)
             | Some locked \<Rightarrow>
                 if ses_status locked \<noteq> UnderReview
                 then (Inl (cs_error ''NOT_UNDER_REVIEW'' (''Cannot reject session in '' @ [CHR 0x27]
                        @ session_status_text (ses_status locked) @ [CHR 0x27]
                        @ '' state. Can only reject from UNDER_REVIEW.'')), s)
                 else andThen (updateStatus False H tenant sessionId InProgress (Some rejecter) s) (\<lambda>_ s.
                      andThen (createIssue (review_issue tenant sessionId (ses_entityId locked) reasonTrimmed rejecter) s)
                        (\<lambda>_ s. (Inr locked, s)))) s) (\<lambda>session s.
           andThen (session_event True H tenant session ''close_session_transition''
             [(''event'', JStr ''close_session_rejected''), (''sessionId'', JStr sessionId),
              (''rejectedBy'', JStr rejecter), (''reason'', JStr reasonTrimmed),
              (''fromState'', JStr ''under_review''), (''toState'', JStr ''in_progress'')] None s) (\<lambda>_ s.
           case getCloseSessionById tenant sessionId s of
             None \<Rightarrow> (Inl (cs_error ''NOT_FOUND'' ''Close session not found after update''), s)
           | Some updated \<Rightarrow> (Inr updated, s))))"

fun nextStatusTowardUnderReview :: "CloseSessionStatus \<Rightarrow> CloseSessionStatus option" where
  "nextStatusTowardUnderReview Open = Some InProgress"
| "nextStatusTowardUnderReview InProgress = Some UnderReview"
| "nextStatusTowardUnderReview _ = None"

section \<open>Gates\<close>

text \<open>
  The answers of \<open>computeReadiness\<close> (\<open>ready\<close> and the hard blockers) and of the evidence policy check
  (the messages of its blockers) are arguments. The result is \<open>allowed\<close> and the missing items.
\<close>

definition canAdvanceToUnderReview :: "bool \<Rightarrow> string list \<Rightarrow> bool \<times> string list" where
  "canAdvanceToUnderReview ready hardBlockers =
     (if ready \<and> hardBlockers = [] then (True, []) else (False, hardBlockers))"

definition canCertify :: "bool \<Rightarrow> string list \<Rightarrow> string list \<Rightarrow> CloseSession \<Rightarrow> bool \<times> string list" where
  "canCertify ready hardBlockers evidenceBlockers session =
     (if ses_status session \<noteq> UnderReview
      then (False, [''Session must be under_review; current status is '' @ session_status_text (ses_status session)])
      else if \<not> ready \<or> hardBlockers \<noteq> [] then (False, hardBlockers)
      else if hardBlockers @ evidenceBlockers \<noteq> [] then (False, hardBlockers @ evidenceBlockers)
      else (True, []))"

definition canLock :: "CloseSession \<Rightarrow> bool" where
  "canLock session = (ses_status session = SubsequentEventsReview)"

definition canReopen :: "CloseSession \<Rightarrow> string option \<Rightarrow> bool \<Rightarrow> bool \<times> string list" where
  "canReopen session reason hasReopenAuthority =
     (let trimmed = js_trim (js_or reason []) in
      if ses_status session = Locked then (False, [''Cannot reopen: session is locked (terminal state).''])
      else if ses_status session \<noteq> Certified
      then (False, [''Reopen only allowed from certified; current status is '' @ session_status_text (ses_status session)])
      else if \<not> hasReopenAuthority then (False, [''Reopen requires CFO-level or configured reopen authority.''])
      else if trimmed = [] then (False, [''Reopen reason is required and cannot be empty.''])
      else if length trimmed < 10 then (False, [''Reopen reason must be at least 10 characters.''])
      else (True, []))"

definition reopen_refused :: "CloseSession \<Rightarrow> string \<Rightarrow> string list \<Rightarrow> error" where
  "reopen_refused session reason missing =
     (if ses_status session = Locked
      then cs_error ''REOPEN_FORBIDDEN_LOCKED'' (case missing of [] \<Rightarrow> ''Cannot reopen locked session'' | m # _ \<Rightarrow> m)
      else if length (js_trim reason) < 10
      then cs_error ''REOPEN_REASON_REQUIRED''
        (case missing of [] \<Rightarrow> ''Reopen reason required (min 10 characters)'' | m # _ \<Rightarrow> m)
      else cs_error ''INVALID_TRANSITION'' (case missing of [] \<Rightarrow> ''Cannot reopen'' | m # _ \<Rightarrow> m))"

section \<open>Reopening\<close>

definition reopen_issue :: "tenant_id \<Rightarrow> string \<Rightarrow> string \<Rightarrow> string \<Rightarrow> string \<Rightarrow> CreateCloseIssueInput" where
  "reopen_issue tenant sessionId entity userId reason =
     \<lparr>ni_tenantId = tenant, ni_periodId = sessionId, ni_entityId = entity, ni_issueType = ''period_reopened'',
      ni_severity = Info, ni_category = Review, ni_title = ''Period reopened'',
      ni_description = Some (''Period reopened by '' @ userId @ ''. Reason: '' @ js_trim reason),
      ni_affectedAccounts = None, ni_affectedAmount = None, ni_sourceCheck = None,
      ni_sourceDetails = Some (JObj [(''type'', JStr ''period_reopened''), (''reopenedBy'', JStr userId)])\<rparr>"

text \<open>
  \<open>createIssue\<close> runs on the pool while the transaction is open: when it fails, the rollback restores
  every table but those of the issues.
\<close>

definition reopen_rollback :: "'a issue_db_scheme \<Rightarrow> 'a issue_db_scheme \<Rightarrow> 'a issue_db_scheme" where
  "reopen_rollback s s' = s\<lparr>ticks := ticks s', drawn := drawn s', calls := calls s',
     close_issues := close_issues s', issue_history := issue_history s'\<rparr>"

definition reopen_writes ::
  "(string \<Rightarrow> string) \<Rightarrow> string \<Rightarrow> tenant_id \<Rightarrow> string \<Rightarrow> string \<Rightarrow> CloseSession \<Rightarrow> ('a, CloseSession) issue_op" where
  "reopen_writes H sessionId tenant userId reason session s =
     (case updateReopen tenant sessionId userId (js_trim reason) s of
        (None, s) \<Rightarrow> (Inl session_not_found, s)
      | (Some updated, s) \<Rightarrow>
          andThen (session_event False H tenant updated ''close_session_reopened''
            [(''closeSessionId'', JStr sessionId), (''reopenedBy'', JStr userId), (''reason'', JStr (js_trim reason)),
             (''priorCertifiedAt'', undef_json (ses_certifiedAt session)),
             (''priorCertifiedSnapshotId'', case ses_certifiedSnapshotId session of None \<Rightarrow> JNull | Some i \<Rightarrow> JStr i)]
            (Some userId) s) (\<lambda>_ s.
          andThen (createIssue (reopen_issue tenant sessionId (ses_entityId session) userId reason) s)
            (\<lambda>_ s. (Inr updated, s))))"

definition reopenCloseSession ::
  "advisory_store \<Rightarrow> (string \<Rightarrow> string) \<Rightarrow> string \<Rightarrow> tenant_id \<Rightarrow> string \<Rightarrow> string \<Rightarrow> CloseRole
     \<Rightarrow> ('a, CloseSession) issue_op" where
  "reopenCloseSession store H sessionId tenant userId reason actorRole s =
     (case assertNoAiMutationContext store of
        Inl e \<Rightarrow> (Inl e, s)
      | Inr _ \<Rightarrow>
          if \<not> canPerform actorRole CertifyClose
          then (Inl (cs_error ''REOPEN_UNAUTHORIZED'' ''Insufficient role: reopen requires approver''), s)
          else (case getCloseSessionById tenant sessionId s of
             None \<Rightarrow> (Inl session_not_found, s)
           | Some session \<Rightarrow>
               (case canReopen session (Some reason) True of
                  (False, missing) \<Rightarrow> (Inl (reopen_refused session reason missing), s)
                | (True, _) \<Rightarrow>
                    (case reopen_writes H sessionId tenant userId reason session s of
                       (Inr updated, s') \<Rightarrow> (Inr updated, s')
                     | (Inl e, s') \<Rightarrow> (Inl e, reopen_rollback s s')))))"

section \<open>Subsequent events\<close>

definition advanceToSubsequentEventsReview ::
  "advisory_store \<Rightarrow> (string \<Rightarrow> string) \<Rightarrow> string \<Rightarrow> tenant_id \<Rightarrow> string \<Rightarrow> CloseRole
     \<Rightarrow> ('a, CloseSession) session_op" where
  "advanceToSubsequentEventsReview store H sessionId tenant userId actorRole s =
     (case assertNoAiMutationContext store of
        Inl e \<Rightarrow> (Inl e, s)
      | Inr _ \<Rightarrow>
          if \<not> canPerform actorRole PeriodLock
          then (Inl (cs_error ''INSUFFICIENT_ROLE''
                  ''Insufficient role: advancing to subsequent_events_review requires approver''), s)
          else (case getCloseSessionById tenant sessionId s of
             None \<Rightarrow> (Inl session_not_found, s)
           | Some session \<Rightarrow>
               if ses_status session \<noteq> Certified
               then (Inl (cs_error ''INVALID_TRANSITION''
                       (''Can only advance to subsequent_events_review from certified; current status is ''
                        @ session_status_text (ses_status session))), s)
               else withTransaction (\<lambda>s.
                 case updateCloseSessionStatus tenant sessionId SubsequentEventsReview (Some userId) s of
                   (None, s) \<Rightarrow> (Inl session_not_found, s)
                 | (Some updated, s) \<Rightarrow>
                     andThen (session_event False H tenant updated ''close_session_transition''
                       [(''closeSessionId'', JStr sessionId), (''from'', JStr ''certified''),
                        (''to'', JStr ''subsequent_events_review''), (''advancedBy'', JStr userId)]
                       (Some userId) s) (\<lambda>_ s. (Inr updated, s))) s))"

definition confirmNoSubsequentEvents ::
  "advisory_store \<Rightarrow> (string \<Rightarrow> string) \<Rightarrow> string \<Rightarrow> tenant_id \<Rightarrow> string \<Rightarrow> CloseRole
     \<Rightarrow> ('a, CloseSession) session_op" where
  "confirmNoSubsequentEvents store H sessionId tenant userId actorRole s =
     (case assertNoAiMutationContext store of
        Inl e \<Rightarrow> (Inl e, s)
      | Inr _ \<Rightarrow>
          if \<not> canPerform actorRole PeriodLock
          then (Inl (cs_error ''INSUFFICIENT_ROLE''
                  ''Insufficient role: confirming no subsequent events requires approver''), s)
          else (case getCloseSessionById tenant sessionId s of
             None \<Rightarrow> (Inl session_not_found, s)
           | Some session \<Rightarrow>
               if ses_status session \<noteq> SubsequentEventsReview
               then (Inl (cs_error ''INVALID_TRANSITION''
                       (''Confirm no subsequent events only allowed in subsequent_events_review; current status is ''
                        @ session_status_text (ses_status session))), s)
               else let (t, s) = now s;
                        s = update_session tenant sessionId (\<lambda>r. r\<lparr>cs_se_confirmed_by := Some userId,
                              cs_se_confirmed_at := Some t, cs_updated_at := t\<rparr>) s
                    in andThen (session_event True H tenant session ''subsequent_events_confirmed_none''
                         [(''closeSessionId'', JStr sessionId), (''confirmedBy'', JStr userId)] (Some userId) s)
                       (\<lambda>_ s. case getCloseSessionById tenant sessionId s of
                          None \<Rightarrow> (Inl session_not_found, s)
                        | Some updated \<Rightarrow> (Inr updated, s))))"

section \<open>Locking\<close>

definition days_since :: "timestamp option \<Rightarrow> timestamp \<Rightarrow> json" where
  "days_since certAt t =
     (case certAt of None \<Rightarrow> JNull | Some c \<Rightarrow> JNum (Fin (of_int ((t - c) div (24 * 60 * 60 * 1000)))))"

definition lockCloseSession ::
  "advisory_store \<Rightarrow> (string \<Rightarrow> string) \<Rightarrow> string \<Rightarrow> tenant_id \<Rightarrow> string option \<Rightarrow> CloseRole option
     \<Rightarrow> ('a, CloseSession) event_op" where
  "lockCloseSession store H sessionId tenant lockedBy actorRole s =
     (case assertNoAiMutationContext store of
        Inl e \<Rightarrow> (Inl e, s)
      | Inr _ \<Rightarrow>
          if (case actorRole of None \<Rightarrow> False | Some r \<Rightarrow> \<not> canPerform r PeriodLock)
          then (Inl (cs_error ''INSUFFICIENT_ROLE'' ''Insufficient role: period_lock requires approver''), s)
          else (case session_row tenant sessionId s of
             None \<Rightarrow> (Inl session_not_found, s)
           | Some row \<Rightarrow>
               let session = rowToSession row in
               if \<not> canLock session
               then (Inl (cs_error ''INVALID_TRANSITION''
                       (''Lock only allowed from subsequent_events_review; current status is ''
                        @ session_status_text (ses_status session))), s)
               else (case isReviewComplete tenant sessionId (ses_subsequentEventsConfirmedBy session) s of
                  Inl reason \<Rightarrow> (Inl (cs_error ''VALIDATION'' (''Cannot lock: '' @ reason)), s)
                | Inr _ \<Rightarrow>
                    withTransaction (\<lambda>s.
                      case updateCloseSessionStatus tenant sessionId Locked None s of
                        (None, s) \<Rightarrow> (Inl session_not_found, s)
                      | (Some updated, s) \<Rightarrow>
                          let (t, s) = (case cs_certified_at row of None \<Rightarrow> (0, s) | Some _ \<Rightarrow> now s) in
                          andThen (session_event False H tenant updated ''close_session_locked''
                            [(''closeSessionId'', JStr sessionId), (''lockedBy'', JStr (js_or lockedBy ''system'')),
                             (''daysSinceCertification'', days_since (cs_certified_at row) t)]
                            (Some (js_or lockedBy ''system'')) s) (\<lambda>_ s. (Inr updated, s))) s)))"

definition auto_locker :: string where
  "auto_locker = ''system:auto-lock''"

definition confirm_and_lock ::
  "advisory_store \<Rightarrow> (string \<Rightarrow> string) \<Rightarrow> tenant_id \<Rightarrow> string \<Rightarrow> ('a, CloseSession) event_op" where
  "confirm_and_lock store H tenant i s =
     andThen (confirmNoSubsequentEvents store H i tenant auto_locker Approver s) (\<lambda>_ s.
       lockCloseSession store H i tenant (Some auto_locker) (Some Approver) s)"

text \<open>An error of one session is logged and the loop goes on.\<close>

fun lock_reviewed ::
  "advisory_store \<Rightarrow> (string \<Rightarrow> string) \<Rightarrow> tenant_id \<Rightarrow> string list \<Rightarrow> 'a event_db_scheme
     \<Rightarrow> string list \<times> 'a event_db_scheme" where
  "lock_reviewed store H tenant [] s = ([], s)"
| "lock_reviewed store H tenant (i # is) s =
     (case confirm_and_lock store H tenant i s of
        (Inl _, s) \<Rightarrow> lock_reviewed store H tenant is s
      | (Inr _, s) \<Rightarrow> (let (locked, s) = lock_reviewed store H tenant is s in (i # locked, s)))"

fun lock_certified ::
  "advisory_store \<Rightarrow> (string \<Rightarrow> string) \<Rightarrow> tenant_id \<Rightarrow> string list \<Rightarrow> 'a event_db_scheme
     \<Rightarrow> string list \<times> 'a event_db_scheme" where
  "lock_certified store H tenant [] s = ([], s)"
| "lock_certified store H tenant (i # is) s =
     (case andThen (advanceToSubsequentEventsReview store H i tenant auto_locker Approver s)
             (\<lambda>_ s. confirm_and_lock store H tenant i s) of
        (Inl _, s) \<Rightarrow> lock_certified store H tenant is s
      | (Inr _, s) \<Rightarrow> (let (locked, s) = lock_certified store H tenant is s in (i # locked, s)))"

text \<open>The certified sessions past the cutoff, in the order of \<open>listCloseSessions\<close>.\<close>

definition past_cutoff :: "tenant_id \<Rightarrow> timestamp \<Rightarrow> 'a event_db_scheme \<Rightarrow> string list" where
  "past_cutoff tenant cutoff s =
     filter (\<lambda>i. case Option.bind (session_row tenant i s) cs_certified_at of
         None \<Rightarrow> False | Some c \<Rightarrow> c \<le> cutoff)
       (map ses_id (listCloseSessions tenant None (Some Certified) s))"

definition autoLockCertifiedSessions ::
  "advisory_store \<Rightarrow> (string \<Rightarrow> string) \<Rightarrow> tenant_id \<Rightarrow> int \<Rightarrow> 'a event_db_scheme
     \<Rightarrow> string list \<times> 'a event_db_scheme" where
  "autoLockCertifiedSessions store H tenant daysAfterCert s0 =
     (let (reviewed, s) = lock_reviewed store H tenant
            (map ses_id (listCloseSessions tenant None (Some SubsequentEventsReview) s0)) s0;
          candidates = past_cutoff tenant (clock s (ticks s) - daysAfterCert * 24 * 60 * 60 * 1000) s;
          (certified, s) = lock_certified store H tenant candidates (snd (now s))
      in (reviewed @ certified, s))"

end
