(* ===== verification/Certification.thy ===== *)
theory Certification
  imports CloseSession
begin

text \<open>
  \<open>certifyCloseSession\<close> of \<open>src/src/services/close_session_service.ts\<close>, with
  \<open>snapshotPayloadToTrialBalanceResult\<close> of \<open>src/src/services/certified_statements_service.ts\<close>.

  The answers of the services around the certification are the record \<open>certify_answers\<close>: the theorems
  hold whatever they are. \<open>buildCertifiedStatementsFromSnapshot\<close> is a function of the payload, which
  throws with \<open>None\<close>; \<open>getTrialBalanceForCertification\<close> throws with \<open>None\<close>; the general ledger is
  \<open>None\<close> when its query fails; the evidence manifest is \<open>Inl\<close> with the message of its error.
\<close>

record Statements =
  st_balanceSheet :: BalanceSheet
  st_netIncome :: number
  st_cashFlow :: "CashFlowStatement option"
  st_equityChanges :: "EquityChangesStatement option"

record certify_answers =
  an_allowSameUserCertify :: bool
  an_hardBlockers :: "string list"
  an_evidenceBlockers :: "string list"
  an_trialBalance :: "(SnapEntry list \<times> bool) option"
  an_statements :: "SnapPayload \<Rightarrow> Statements option"
  an_generalLedger :: "GLEntry list option"
  an_manifest :: "string + json"
  an_gates :: "(string \<times> json) list option"
  an_aiMetadata :: "json option"
  an_mode :: string
  an_sign :: signer

record CertifyCloseInput =
  cy_tenantId :: tenant_id
  cy_closeSessionId :: string
  cy_certifiedBy :: string
  cy_periodLabel :: "string option"
  cy_memo :: "string option"

section \<open>certified_statements_service.ts\<close>

definition snapshotEntryToTrialBalanceEntry :: "SnapEntry \<Rightarrow> SnapEntry" where
  "snapshotEntryToTrialBalanceEntry e =
     \<lparr>sn_lineId = sn_lineId e, sn_accountName = sn_accountName e, sn_debit = Some (js_or (sn_debit e) (Fin 0)),
      sn_credit = Some (js_or (sn_credit e) (Fin 0)), sn_accountCode = sn_accountCode e,
      sn_accountType = sn_accountType e, sn_description = None, sn_provenance = None\<rparr>"

record TrialBalanceResult =
  tb_entries :: "SnapEntry list"
  tb_totalDebits :: number
  tb_totalCredits :: number
  tb_balances :: bool

text \<open>\<open>plus\<close> and \<open>absLt\<close> do not throw on numbers; \<open>tolerance\<close> is the answer of the rules registry.\<close>

definition snapshotPayloadToTrialBalanceResult ::
  "'d decimal_ops \<Rightarrow> number \<Rightarrow> SnapPayload \<Rightarrow> TrialBalanceResult" where
  "snapshotPayloadToTrialBalanceResult D tolerance p =
     (let tbEntries = map snapshotEntryToTrialBalanceEntry (sp_tb_entries p);
          extraEntries = map snapshotEntryToTrialBalanceEntry (js_or (sp_entries p) []);
          total = (\<lambda>base field. if extraEntries = [] then js_or base (Fin 0)
            else js_or (decimal_plus D (ANum (js_or base (Fin 0)))
              (ANum (sumRound2 D (map (\<lambda>e. js_or (field e) (Fin 0)) extraEntries)))) NaN);
          debits = total (sp_totalDebits p) sn_debit; credits = total (sp_totalCredits p) sn_credit
      in \<lparr>tb_entries = tbEntries @ extraEntries, tb_totalDebits = debits, tb_totalCredits = credits,
          tb_balances = js_or (absLt D (ANum debits) (ANum credits) tolerance) False\<rparr>)"

section \<open>certifyCloseSession\<close>

text \<open>The entries as the payload of a snapshot takes them.\<close>

definition payload_entry :: "SnapEntry \<Rightarrow> SnapEntry" where
  "payload_entry e =
     \<lparr>sn_lineId = nonempty (sn_lineId e), sn_accountName = sn_accountName e,
      sn_debit = Some (js_or (sn_debit e) (Fin 0)), sn_credit = Some (js_or (sn_credit e) (Fin 0)),
      sn_accountCode = sn_accountCode e, sn_accountType = sn_accountType e,
      sn_description = None, sn_provenance = None\<rparr>"

text \<open>The flag \<open>balances\<close> of the prior trial balance is not read here, so its tolerance does not matter.\<close>

definition comparative_of :: "'d decimal_ops \<Rightarrow> LedgerSnapshot \<Rightarrow> Comparative" where
  "comparative_of D prior =
     (let tb = snapshotPayloadToTrialBalanceResult D (Fin 0) (ls_payload prior) in
      \<lparr>cm_periodLabel = ls_period_label prior, cm_sourceSnapshotId = ls_id prior,
       cm_sourceSnapshotHash = ls_hash prior, cm_entries = map payload_entry (tb_entries tb),
       cm_totalDebits = Some (tb_totalDebits tb), cm_totalCredits = Some (tb_totalCredits tb)\<rparr>)"

definition snapshot_payload ::
  "'d decimal_ops \<Rightarrow> SnapEntry list \<Rightarrow> LedgerSnapshot option \<Rightarrow> string \<Rightarrow> SnapPayload" where
  "snapshot_payload D adjusted prior std =
     \<lparr>sp_tb_entries = map payload_entry adjusted,
      sp_totalDebits = Some (sumRound2 D (map (\<lambda>e. js_or (sn_debit e) (Fin 0)) adjusted)),
      sp_totalCredits = Some (sumRound2 D (map (\<lambda>e. js_or (sn_credit e) (Fin 0)) adjusted)),
      sp_entries = None, sp_manifest = None, sp_gl = None,
      sp_comparative = map_option (comparative_of D) prior, sp_standard = Some std\<rparr>"

definition sod_certify_error :: error where
  "sod_certify_error = cs_error ''INSUFFICIENT_ROLE''
     ''Segregation of duties: certifier cannot be the same user who advanced to under_review''"

text \<open>The checks before anything is computed: status, segregation of duties, stale statements, readiness.\<close>

definition certify_preconditions :: "certify_answers \<Rightarrow> CertifyCloseInput \<Rightarrow> CloseSession \<Rightarrow> error + unit" where
  "certify_preconditions A input session =
     (if ses_status session \<noteq> UnderReview
      then Inl (cs_error ''NOT_UNDER_REVIEW'' (''Certification only allowed from under_review; current status is ''
             @ session_status_text (ses_status session)))
      else if truthy (ses_advancedToReviewBy session) \<and> cy_certifiedBy input \<noteq> []
         \<and> ses_advancedToReviewBy session = Some (cy_certifiedBy input) \<and> \<not> an_allowSameUserCertify A
      then Inl sod_certify_error
      else if ses_statementsStaleSince session \<noteq> None
      then Inl (cs_error ''VALIDATION''
             ''Financial statements have changed since last generation; regenerate statements before certifying.'')
      else if an_hardBlockers A \<noteq> []
      then Inl (cs_error
             (if an_evidenceBlockers A \<noteq> [] \<and> list_ex (\<lambda>m. m \<in> set (an_evidenceBlockers A)) (an_hardBlockers A)
              then ''NOT_READY'' else ''HARD_BLOCKERS'')
             (''Cannot certify: '' @ js_join ''; '' (an_hardBlockers A)))
      else Inr ())"

definition anchored_trial_balance :: "certify_answers \<Rightarrow> error + (SnapEntry list \<times> bool)" where
  "anchored_trial_balance A =
     (case an_trialBalance A of
        None \<Rightarrow> Inl (cs_error ''SESSION_DATA_MISSING''
          ''No trial balance anchored to session period; run ingest or resolve staging before certifying.'')
      | Some (entries, hasGL) \<Rightarrow>
          if entries = [] then Inl (cs_error ''SESSION_DATA_MISSING''
            ''The session-anchored trial balance contains no accounts; certification cannot proceed.'')
          else Inr (entries, hasGL))"

text \<open>The statements of the payload and the checks of their ties.\<close>

definition validated_statements ::
  "'d decimal_ops \<Rightarrow> certify_answers \<Rightarrow> SnapPayload \<Rightarrow> number option \<Rightarrow> error + ValidationCheck list" where
  "validated_statements D A payload priorRE =
     (case an_statements A payload of
        None \<Rightarrow> Inl (cs_error ''VALIDATION''
          ''Trial balance does not pass integrity check (Truth Gate). Fix imbalance or balance sheet equation before certifying.'')
      | Some st \<Rightarrow>
          (case runCrossStatementValidationForCertification D (st_balanceSheet st) (st_netIncome st)
              (st_cashFlow st) (st_equityChanges st) (Some priorRE) of
             Inl e \<Rightarrow> Inl e
           | Inr checks \<Rightarrow>
               if hard_failures checks \<noteq> []
               then Inl (cs_error ''VALIDATION'' (''Cross-statement validation failed: ''
                      @ js_join ''; '' (map (\<lambda>c. js_or (vc_message c) (vc_name c)) (hard_failures checks))))
               else Inr checks))"

definition artifact_input ::
  "certify_answers \<Rightarrow> CertifyCloseInput \<Rightarrow> string \<Rightarrow> timestamp \<Rightarrow> LedgerSnapshot \<Rightarrow> ValidationCheck list
     \<Rightarrow> VerifyResult \<Rightarrow> BuildArtifactInput" where
  "artifact_input A input periodLabel certAt snapshot checks chain =
     \<lparr>ba_tenantId = cy_tenantId input, ba_closeSessionId = cy_closeSessionId input,
      ba_periodLabel = periodLabel, ba_certifiedAt = toISOString certAt, ba_certifiedBy = cy_certifiedBy input,
      ba_snapshotId = ls_id snapshot, ba_snapshotHash = ls_hash snapshot, ba_hashVersion = ls_version snapshot,
      ba_manifest = sp_manifest (ls_payload snapshot), ba_auditChain = chain, ba_validation = checks,
      ba_aiMetadata = an_aiMetadata A,
      ba_gateSnapshot = map_option (\<lambda>g. JObj (g @ [(''checkedAt'', JStr (toISOString certAt))])) (an_gates A),
      ba_manifestComplete = True, ba_chainVerified = vr_valid chain\<rparr>"

definition build_and_insert_artifact ::
  "'d env \<Rightarrow> certify_answers \<Rightarrow> BuildArtifactInput \<Rightarrow> ('a, string option) close_op" where
  "build_and_insert_artifact E A b s =
     andThen (buildCertificationArtifact (e_sha256 E) (an_mode A) (an_sign A) b s)
       (\<lambda>(artifact, h, sig, pk, algo) s.
          andThen (insertCertificationArtifact (ba_tenantId b) (ba_closeSessionId b) (ba_periodLabel b)
            artifact h sig pk algo s) (\<lambda>i s. (Inr (Some i), s)))"

text \<open>
  The artifact of a session that has none yet; the result is its identifier. The gates are read, then
  the chain is verified, which may move its checkpoint.
\<close>

definition certify_artifact ::
  "'d env \<Rightarrow> certify_answers \<Rightarrow> CertifyCloseInput \<Rightarrow> string \<Rightarrow> timestamp \<Rightarrow> LedgerSnapshot \<Rightarrow> ValidationCheck list
     \<Rightarrow> ('a, string option) close_op" where
  "certify_artifact E A input periodLabel certAt snapshot checks s =
     (if existsForCloseSession (cy_tenantId input) (cy_closeSessionId input) s then (Inr None, s)
      else let (chain, s) = verifyChain (e_sha256 E) (cy_tenantId input) s in
        if \<not> vr_valid chain
        then (Inl (cs_error ''VALIDATION'' (''Audit ledger integrity verification failed during certification: ''
                @ js_or (vr_message chain) ''hash chain mismatch'')), s)
        else build_and_insert_artifact E A (artifact_input A input periodLabel certAt snapshot checks chain) s)"

text \<open>The writes: the snapshot, the artifact, the session, the ledger entry.\<close>

definition certify_writes ::
  "'d env \<Rightarrow> snap_env \<Rightarrow> certify_answers \<Rightarrow> CertifyCloseInput \<Rightarrow> string \<Rightarrow> SnapPayload \<Rightarrow> ValidationCheck list
     \<Rightarrow> ('a, CloseSession) close_op" where
  "certify_writes E S A input periodLabel payload checks s =
     andThen (createSnapshotFromTrialBalanceAndEntries (e_sha256 E) S (e_decimal E) (cy_tenantId input) periodLabel
       (Some (cy_certifiedBy input)) ''close_session'' (Some (cy_closeSessionId input)) payload s) (\<lambda>snapshot s.
     let (certAt, s) = now s in
     andThen (certify_artifact E A input periodLabel certAt snapshot checks s) (\<lambda>artifactId s.
     case updateCertification (cy_tenantId input) (cy_closeSessionId input) (cy_certifiedBy input) certAt
         (cy_memo input) (Some (ls_id snapshot)) artifactId s of
       (None, s) \<Rightarrow> (Inl session_not_found, s)
     | (Some updated, s) \<Rightarrow>
         andThen (recordMaterialEvent False (e_sha256 E)
           \<lparr>me_tenantId = cy_tenantId input, me_periodLabel = Some periodLabel, me_eventType = ''certify_close'',
            me_snapshot = [(''closeSessionId'', JStr (cy_closeSessionId input)),
              (''certifiedBy'', JStr (cy_certifiedBy input)), (''certifiedAt'', JStr (toISOString certAt)),
              (''certificationMemo'', undef_json (cy_memo input)), (''certifiedSnapshotId'', JStr (ls_id snapshot))],
            me_dissent = None, me_createdBy = Some (cy_certifiedBy input)\<rparr> s) (\<lambda>_ s. (Inr updated, s))))"

definition certify_transaction ::
  "'d env \<Rightarrow> snap_env \<Rightarrow> certify_answers \<Rightarrow> CertifyCloseInput \<Rightarrow> ('a, CloseSession) close_op" where
  "certify_transaction E S A input s =
     (case getCloseSessionById (cy_tenantId input) (cy_closeSessionId input) s of
        None \<Rightarrow> (Inl session_not_found, s)
      | Some session \<Rightarrow>
          (case certify_preconditions A input session of
             Inl e \<Rightarrow> (Inl e, s)
           | Inr _ \<Rightarrow>
          (case anchored_trial_balance A of
             Inl e \<Rightarrow> (Inl e, s)
           | Inr (adjusted, hasGL) \<Rightarrow>
               let periodLabel = js_or (cy_periodLabel input) (period_of session);
                   prior = getPriorCertifiedSnapshotForEntity (cy_tenantId input) (ses_entityId session)
                     (ses_periodEnd session) s;
                   payload = snapshot_payload (e_decimal E) adjusted prior (ses_standard session);
                   priorRE = getPriorPeriodRetainedEarnings (cy_tenantId input) (ses_entityId session) periodLabel s
               in if (case prior of None \<Rightarrow> False | Some p \<Rightarrow> \<not> verifySnapshotHash (e_sha256 E) S (e_decimal E) p)
                  then (Inl (cs_error ''VALIDATION''
                    ''The prior certified ledger snapshot failed hash verification; comparative statements cannot be certified.''), s)
                  else (case validated_statements (e_decimal E) A payload priorRE of
                    Inl e \<Rightarrow> (Inl e, s)
                  | Inr checks \<Rightarrow>
                      (case an_manifest A of
                         Inl message \<Rightarrow> (Inl (cs_error ''VALIDATION''
                           (''Evidence manifest could not be verified and bound to the certified snapshot: '' @ message)), s)
                       | Inr manifest \<Rightarrow>
                           certify_writes E S A input periodLabel
                             (payload\<lparr>sp_manifest := Some manifest,
                                sp_gl := (if hasGL then an_generalLedger A else None)\<rparr>) checks s)))))"

definition certifyCloseSession ::
  "advisory_store \<Rightarrow> 'd env \<Rightarrow> snap_env \<Rightarrow> certify_answers \<Rightarrow> CertifyCloseInput \<Rightarrow> CloseRole
     \<Rightarrow> ('a, CloseSession) close_op" where
  "certifyCloseSession store E S A input actorRole s =
     (case assertNoAiMutationContext store of
        Inl e \<Rightarrow> (Inl e, s)
      | Inr _ \<Rightarrow>
          if \<not> canPerform actorRole CertifyClose
          then (Inl (cs_error ''INSUFFICIENT_ROLE'' ''Insufficient role: certify_close requires approver''), s)
          else withTransaction (certify_transaction E S A input) s)"

end
