(* ===== verification/SessionAdvance.thy ===== *)
theory SessionAdvance
  imports Certification
begin

text \<open>
  \<open>advanceSession\<close> and \<open>autoProposModules\<close> of \<open>src/src/services/close_session_service.ts\<close>: the steps
  from open to in progress and from in progress to under review, and the accounting modules proposed
  when work starts. The services that set up reconciliations, templates and balances are noted calls;
  \<open>av_setup_db_error\<close> says that a statement of theirs failed on the connection of the transaction.
  The modules' own computations are answers. \<open>toUpperCase() === 'GAAP'\<close> is written with the lower-case text. Dashes and the multiplication sign outside the 8-bit
  characters are written \<open>--\<close>, \<open>-\<close> and \<open>x\<close>.
\<close>

section \<open>Module proposals\<close>

record proposal_row =
  mp_tenant :: tenant_id
  mp_session :: string
  mp_module :: string
  mp_standard :: string
  mp_status :: string
  mp_inputs :: json
  mp_flags :: json
  mp_skip_reason :: "string option"

record module_db = close_db +
  module_proposals :: "proposal_row list"

type_synonym ('a, 'b) module_op = "'a module_db_scheme \<Rightarrow> (error + 'b) \<times> 'a module_db_scheme"

definition getModuleStandard :: "string \<Rightarrow> string" where
  "getModuleStandard name =
     (case map_of [(''prepaids'', ''ASC 340''), (''fixed_assets'', ''ASC 360''), (''payroll_accrual'', ''Payroll''),
        (''debt_accrual'', ''Debt''), (''deferred_tax'', ''ASC 740''), (''leases'', ''ASC 842''),
        (''inventory_reserve'', ''ASC 330''), (''stock_compensation'', ''ASC 718''), (''impairment'', ''ASC 350''),
        (''ap_aging'', ''ASC 405''), (''ar_aging'', ''ASC 326''), (''segments'', ''ASC 280''),
        (''revenue_recognition'', ''ASC 606'')] name of None \<Rightarrow> [] | Some x \<Rightarrow> x)"

text \<open>\<open>v?.length\<close> of an array or a string, and the keys of a value.\<close>

fun json_length :: "json \<Rightarrow> json" where
  "json_length (JArr vs) = JNum (Fin (of_nat (length vs)))"
| "json_length (JStr s) = JNum (Fin (of_nat (length s)))"
| "json_length (JObj kvs) = json_get ''length'' (JObj kvs)"
| "json_length _ = JUndef"

fun json_keys :: "json \<Rightarrow> string list" where
  "json_keys (JObj kvs) = map fst kvs"
| "json_keys (JArr vs) = map nat_string [0..<length vs]"
| "json_keys (JStr s) = map nat_string [0..<length s]"
| "json_keys _ = []"

definition nullish :: "json \<Rightarrow> json \<Rightarrow> json" where
  "nullish v d = (if v = JUndef \<or> v = JNull then d else v)"

definition array_count :: "json \<Rightarrow> json" where
  "array_count v = (case v of JArr vs \<Rightarrow> JNum (Fin (of_nat (length vs))) | _ \<Rightarrow> JNum (Fin 0))"

definition primitive_text :: "json \<Rightarrow> string" where
  "primitive_text v = (case v of JBool b \<Rightarrow> if b then ''true'' else ''false'' | JNum n \<Rightarrow> num_text n | JStr s \<Rightarrow> s
     | _ \<Rightarrow> [])"

definition extractComputationInputs :: "string \<Rightarrow> json \<Rightarrow> (string \<times> json) list" where
  "extractComputationInputs moduleName r =
     (if r = JUndef \<or> r = JNull
      then [(''note'', JStr ''Module returned no data -- may not be applicable for this entity'')]
      else if (case r of JArr _ \<Rightarrow> False | JObj _ \<Rightarrow> False | _ \<Rightarrow> True) then [(''rawResult'', JStr (primitive_text r))]
      else if moduleName = ''fixed_assets''
      then [(''assetCount'', nullish (json_length (json_get ''details'' r)) (JNum (Fin 0))),
            (''totalDepreciation'', if json_truthy (json_get ''run'' r)
               then json_get ''totalDepreciation'' (json_get ''run'' r) else JNum (Fin 0)),
            (''method'', JStr ''Straight-line or double-declining (per asset configuration)'')]
      else if moduleName = ''deferred_tax''
      then [(''jeId'', json_get ''jeId'' r),
            (''note'', JStr ''Deferred tax provision based on temporary differences x enacted rate'')]
      else if moduleName = ''stock_compensation''
      then [(''grantCount'', array_count r),
            (''note'', JStr ''Period expense = FV x cumulative vesting fraction - prior recognized'')]
      else if moduleName = ''leases''
      then [(''entryCount'', array_count r),
            (''note'', JStr ''Finance: interest + ROU amortization. Operating: straight-line expense.'')]
      else if moduleName = ''segments''
      then opt_prop ''segmentCount'' (if json_truthy (json_get ''segments'' r)
               then Some (json_length (json_get ''segments'' r)) else None)
           @ [(''aggregateTestPassed'', json_get ''aggregateTestPassed'' r)]
      else if moduleName = ''impairment''
      then [(''totalLoss'', json_get ''totalImpairmentLoss'' r),
            (''cguCount'', if json_truthy (json_get ''byCGU'' r)
               then JNum (Fin (of_nat (length (json_keys (json_get ''byCGU'' r))))) else JNum (Fin 0))]
      else [(''resultKeys'', JArr (map JStr (json_keys r)))])"

definition quality_flag :: "string \<Rightarrow> string \<Rightarrow> string \<Rightarrow> json" where
  "quality_flag message field severity =
     JObj [(''message'', JStr message), (''field'', JStr field), (''severity'', JStr severity)]"

definition detectDataQualityFlags :: "string \<Rightarrow> (string \<times> json) list \<Rightarrow> json list" where
  "detectDataQualityFlags moduleName inputs =
     (if moduleName = ''fixed_assets''
      then if json_get ''assetCount'' (JObj inputs) = JNum (Fin 0)
        then [quality_flag ''No active fixed assets found -- verify asset register is complete'' ''assetCount'' ''info''] else []
      else if moduleName = ''inventory_reserve''
      then [quality_flag ''NRV testing not performed -- CPA should verify net realizable value for significant SKUs''
              ''methodology'' ''warning'']
      else if moduleName = ''deferred_tax''
      then if \<not> json_truthy (json_get ''jeId'' (JObj inputs))
        then [quality_flag ''No deferred tax JE created -- verify temporary differences are recorded'' ''jeId'' ''warning''] else []
      else if moduleName = ''ar_aging''
      then [quality_flag ''CECL uses aging-based loss rates only -- CPA should verify forward-looking adjustments''
              ''methodology'' ''warning'']
      else if moduleName = ''stock_compensation''
      then if json_get ''grantCount'' (JObj inputs) = JNum (Fin 0)
        then [quality_flag ''No active stock grants found -- verify equity compensation plan is recorded'' ''grantCount'' ''info''] else []
      else [])"

text \<open>\<open>INSERT ... ON CONFLICT (tenant_id, close_session_id, module_name) DO UPDATE\<close>.\<close>

definition upsert_proposal ::
  "proposal_row \<Rightarrow> (proposal_row \<Rightarrow> proposal_row) \<Rightarrow> 'a module_db_scheme \<Rightarrow> 'a module_db_scheme" where
  "upsert_proposal row f s =
     (let same = (\<lambda>p. mp_tenant p = mp_tenant row \<and> mp_session p = mp_session row \<and> mp_module p = mp_module row) in
      s\<lparr>module_proposals := (if list_ex same (module_proposals s) then update_where same f (module_proposals s)
         else module_proposals s @ [row])\<rparr>)"

definition store_result :: "tenant_id \<Rightarrow> string \<Rightarrow> string \<Rightarrow> json \<Rightarrow> 'a module_db_scheme \<Rightarrow> 'a module_db_scheme" where
  "store_result tenant sessionId name result s =
     (let inputs = (if result = JNull
            then [(''autoDetected'', JBool True), (''reason'', JStr (''Module '' @ name
              @ '' returned no applicable data for this entity/period. No contracts, schedules, or source data found.''))]
            else extractComputationInputs name result);
          st = (if result = JNull then ''not_applicable'' else ''needs_review'');
          ci = jsonb_roundtrip (JObj inputs); fl = jsonb_roundtrip (JArr (detectDataQualityFlags name inputs))
      in upsert_proposal \<lparr>mp_tenant = tenant, mp_session = sessionId, mp_module = name,
           mp_standard = getModuleStandard name, mp_status = st, mp_inputs = ci, mp_flags = fl, mp_skip_reason = None\<rparr>
           (\<lambda>p. p\<lparr>mp_inputs := ci, mp_flags := fl, mp_status := st\<rparr>) s)"

definition store_failure :: "tenant_id \<Rightarrow> string \<Rightarrow> string \<Rightarrow> string \<Rightarrow> 'a module_db_scheme \<Rightarrow> 'a module_db_scheme" where
  "store_failure tenant sessionId name message s =
     upsert_proposal \<lparr>mp_tenant = tenant, mp_session = sessionId, mp_module = name,
       mp_standard = getModuleStandard name, mp_status = ''failed'', mp_inputs = JObj [], mp_flags = JArr [],
       mp_skip_reason = Some message\<rparr> (\<lambda>p. p\<lparr>mp_status := ''failed'', mp_skip_reason := Some message\<rparr>) s"

section \<open>The modules\<close>

text \<open>
  The answers of the services a module calls: \<open>mo_result\<close> for the modules that make one call (\<open>Inl\<close>
  is the message of its error), the configured tax rate as the column holds it, and what the other
  modules look up first.
\<close>

record module_answers =
  mo_result :: "string \<Rightarrow> string + json"
  mo_taxRate :: "string option"
  mo_deferredTax :: "number \<Rightarrow> string + json"
  mo_reserveConfig :: "string + bool"
  mo_arSnapshots :: "string + bool"
  mo_contracts :: "string + nat"

definition module_issue ::
  "tenant_id \<Rightarrow> string \<Rightarrow> string \<Rightarrow> string \<Rightarrow> string \<Rightarrow> string \<Rightarrow> string \<Rightarrow> 'a module_db_scheme \<Rightarrow> 'a module_db_scheme" where
  "module_issue tenant sessionId entity title description severity category s =
     swallow (createIssueForSession \<lparr>fs_closeSessionId = sessionId, fs_tenantId = tenant, fs_entityId = Some entity,
       fs_issueType = None, fs_category = category, fs_severity = severity, fs_title = title,
       fs_description = Some description, fs_sourceRef = None\<rparr> s)"

definition skipped_module ::
  "tenant_id \<Rightarrow> string \<Rightarrow> string \<Rightarrow> string \<Rightarrow> string \<Rightarrow> string \<Rightarrow> 'a module_db_scheme \<Rightarrow> (string + json) \<times> 'a module_db_scheme" where
  "skipped_module tenant sessionId entity title description severity s =
     (Inr JNull, module_issue tenant sessionId entity title description severity ''data_quality'' s)"

definition tax_rate :: "string option \<Rightarrow> number" where
  "tax_rate rate = (if truthy rate then number_of_text (js_or rate []) else NaN)"

definition rate_usable :: "number \<Rightarrow> bool" where
  "rate_usable r = (r \<noteq> NaN \<and> num_less (Fin 0) r \<and> num_less r (Fin 1))"

definition run_module ::
  "module_answers \<Rightarrow> tenant_id \<Rightarrow> string \<Rightarrow> string \<Rightarrow> string \<Rightarrow> 'a module_db_scheme
     \<Rightarrow> (string + json) \<times> 'a module_db_scheme" where
  "run_module M tenant sessionId entity name s =
     (if name = ''deferred_tax''
      then if rate_usable (tax_rate (mo_taxRate M)) then (mo_deferredTax M (tax_rate (mo_taxRate M)), s)
        else (mo_deferredTax M (to_num (21 / 100)), module_issue tenant sessionId entity
          ''Deferred tax rate not configured -- using US federal default (21%)''
          ''No enacted tax rate is configured in entity settings. The deferred tax module used the US federal default of 21%. Configure the correct rate in Settings > Entity to ensure accurate deferred tax computation.''
          ''medium'' ''configuration'' s)
      else if name = ''inventory_reserve''
      then (case mo_reserveConfig M of
          Inl e \<Rightarrow> (Inl e, s)
        | Inr True \<Rightarrow> (Inr JNull, s)
        | Inr False \<Rightarrow> skipped_module tenant sessionId entity
            ''Inventory reserve module skipped -- no configuration uploaded''
            ''The inventory reserve (obsolescence) module was not proposed because no inventory aging configuration exists. If this entity holds inventory, upload the inventory aging data and re-run. If inventory is not applicable, resolve this issue as N/A.''
            ''medium'' s)
      else if name = ''ar_aging''
      then (case mo_arSnapshots M of
          Inl e \<Rightarrow> (Inl e, s)
        | Inr True \<Rightarrow> (mo_result M name, s)
        | Inr False \<Rightarrow> skipped_module tenant sessionId entity
            ''AR aging / CECL module skipped -- no AR snapshots uploaded''
            ''The AR aging (CECL allowance) module was not proposed because no AR aging snapshots exist. If this entity has accounts receivable, upload the AR aging data and re-run. If AR is not applicable, resolve this issue as N/A.''
            ''medium'' s)
      else if name = ''revenue_recognition''
      then (case mo_contracts M of
          Inl e \<Rightarrow> (Inl e, s)
        | Inr n \<Rightarrow> if 0 < n
            then (Inr (JObj [(''contracts'', JNum (Fin (of_nat n))), (''requiresManualReview'', JBool True)]), s)
            else skipped_module tenant sessionId entity
              ''Revenue recognition module skipped -- no contracts found''
              ''The revenue recognition (ASC 606) module was not proposed because no contracts exist. If this entity has revenue contracts, create them in the revenue module and re-run.''
              ''low'' s)
      else (mo_result M name, s))"

definition MODULES :: "string list" where
  "MODULES = [''prepaids'', ''fixed_assets'', ''payroll_accrual'', ''debt_accrual'', ''deferred_tax'', ''leases'',
     ''inventory_reserve'', ''stock_compensation'', ''impairment'', ''ap_aging'', ''ar_aging'', ''segments'',
     ''revenue_recognition'']"

definition propose_module ::
  "module_answers \<Rightarrow> tenant_id \<Rightarrow> string \<Rightarrow> string \<Rightarrow> string \<Rightarrow> 'a module_db_scheme \<Rightarrow> 'a module_db_scheme" where
  "propose_module M tenant sessionId entity name s =
     (case run_module M tenant sessionId entity name s of
        (Inr result, s) \<Rightarrow> store_result tenant sessionId name result s
      | (Inl message, s) \<Rightarrow> store_failure tenant sessionId name message s)"

definition autoProposModules ::
  "module_answers \<Rightarrow> tenant_id \<Rightarrow> string \<Rightarrow> string \<Rightarrow> 'a module_db_scheme \<Rightarrow> 'a module_db_scheme" where
  "autoProposModules M tenant sessionId entity s =
     record_call ''executeCascade'' [tenant, ''AJE_POSTED'', sessionId]
       (foldl (\<lambda>s name. propose_module M tenant sessionId entity name s) s MODULES)"

section \<open>advanceSession\<close>

text \<open>\<open>n.toFixed(2)\<close> and \<open>Math.abs\<close> on numbers.\<close>

fun num_toFixed2 :: "number \<Rightarrow> string" where
  "num_toFixed2 (Fin x) =
     (if 10 ^ 21 \<le> \<bar>x\<bar> then num_text (Fin x)
      else let k = round_half_up (\<bar>x\<bar> * 100) in
        (if x < 0 then ''-'' else []) @ int_string (k div 100) @ ''.'' @ pad_int 2 (k mod 100))"
| "num_toFixed2 n = num_text n"

fun num_abs :: "number \<Rightarrow> number" where
  "num_abs (Fin x) = Fin \<bar>x\<bar>"
| "num_abs NaN = NaN"
| "num_abs PosInf = PosInf"
| "num_abs NegInf = PosInf"

definition REMEDIATION :: string where
  "REMEDIATION = ''Complete checklist, resolve issues, and ensure integrity before advancing.''"

record AdvanceBlocker =
  bl_code :: string
  bl_message :: string
  bl_remediation :: string

definition mapHardBlockersToBlockers :: "string list \<Rightarrow> AdvanceBlocker list" where
  "mapHardBlockersToBlockers hardBlockers =
     map (\<lambda>m. \<lparr>bl_code = ''NOT_READY'', bl_message = m, bl_remediation = REMEDIATION\<rparr>) hardBlockers"

text \<open>The property \<open>result\<close> of the answer holds three nulls in every case.\<close>

record AdvanceResult =
  ad_success :: bool
  ad_session :: CloseSession
  ad_statusBefore :: CloseSessionStatus
  ad_statusAfter :: CloseSessionStatus
  ad_actionTaken :: string
  ad_blockers :: "AdvanceBlocker list"

definition advance_result ::
  "bool \<Rightarrow> CloseSession \<Rightarrow> CloseSessionStatus \<Rightarrow> AdvanceBlocker list \<Rightarrow> AdvanceResult" where
  "advance_result success session before blockers =
     \<lparr>ad_success = success, ad_session = session, ad_statusBefore = before, ad_statusAfter = ses_status session,
      ad_actionTaken = (if success \<and> ses_status session \<noteq> before then ''advanced'' else ''none''),
      ad_blockers = blockers\<rparr>"

record advance_answers =
  av_ready :: bool
  av_hardBlockers :: "string list"
  av_setup_db_error :: bool
  av_preFilled :: bool
  av_trialBalance :: "SnapEntry list option"
  av_modules :: module_answers

record AdvanceSessionInput =
  ai_tenantId :: tenant_id
  ai_closeSessionId :: string
  ai_certifiedBy :: "string option"

definition continuity_issue ::
  "AdvanceSessionInput \<Rightarrow> CloseSession \<Rightarrow> number \<Rightarrow> number \<Rightarrow> number \<Rightarrow> CreateIssueForSessionInput" where
  "continuity_issue input session openingRE priorRE diff =
     \<lparr>fs_closeSessionId = ai_closeSessionId input, fs_tenantId = ai_tenantId input,
      fs_entityId = Some (ses_entityId session), fs_issueType = None, fs_category = ''data_quality'',
      fs_severity = ''high'',
      fs_title = ''Retained earnings continuity break -- opening RE ($'' @ num_toFixed2 openingRE
        @ '') does not match prior period closing RE ($'' @ num_toFixed2 priorRE @ '')'',
      fs_description = Some (''Prior certified period closing retained earnings was $'' @ num_toFixed2 priorRE
        @ '' but the current period opening retained earnings is $'' @ num_toFixed2 openingRE @ ''. Variance: $''
        @ num_toFixed2 diff @ ''. Investigate and correct before proceeding.''),
      fs_sourceRef = None\<rparr>"

text \<open>The retained earnings check; the Boolean says that a statement of it failed.\<close>

definition continuity_check ::
  "'d decimal_ops \<Rightarrow> advance_answers \<Rightarrow> AdvanceSessionInput \<Rightarrow> CloseSession \<Rightarrow> 'a close_db_scheme
     \<Rightarrow> bool \<times> 'a close_db_scheme" where
  "continuity_check D A input session s =
     (case (getPriorPeriodRetainedEarnings (ai_tenantId input) (ses_entityId session) (period_of session) s,
            av_trialBalance A) of
        (Some priorRE, Some tb) \<Rightarrow>
          let reEntries = filter is_retained_earnings tb;
              openingRE = sumRound2 D (map credit_minus_debit reEntries);
              diff = num_abs (num_minus openingRE priorRE)
          in if reEntries \<noteq> [] \<and> num_less (to_num (1 / 100)) diff
             then (case createIssueForSession (continuity_issue input session openingRE priorRE diff) s of
                (Inl _, s) \<Rightarrow> (True, s) | (Inr _, s) \<Rightarrow> (False, s))
             else (False, s)
      | _ \<Rightarrow> (False, s))"

text \<open>
  The setup when work starts. Its errors are caught, but the statements run on the connection of the
  transaction: after a failed one PostgreSQL refuses the others, and COMMIT rolls back.
\<close>

definition setup_work ::
  "'d decimal_ops \<Rightarrow> advance_answers \<Rightarrow> AdvanceSessionInput \<Rightarrow> CloseSession \<Rightarrow> 'a close_db_scheme
     \<Rightarrow> bool \<times> 'a close_db_scheme" where
  "setup_work D A input session s0 =
     (let args = [ai_tenantId input, ai_closeSessionId input, ses_entityId session];
          s = record_call ''runReconIntelligence'' args (record_call ''proposeTemplatesForPeriod'' args
                (record_call ''initializeReconciliations'' args s0));
          s = (if av_preFilled A then record_call ''applyPreFills'' args s else s)
      in if av_setup_db_error A then (True, s) else continuity_check D A input session s)"

text \<open>The result is the session the transaction returns and whether its commit rolled back.\<close>

definition advance_body ::
  "'d env \<Rightarrow> advance_answers \<Rightarrow> AdvanceSessionInput \<Rightarrow> ('a, CloseSession \<times> bool) close_op" where
  "advance_body E A input s =
     (case getCloseSessionByIdForUpdate (ai_tenantId input) (ai_closeSessionId input) s of
        None \<Rightarrow> (Inl session_not_found, s)
      | Some locked \<Rightarrow>
          (case nextStatusTowardUnderReview (ses_status locked) of
             None \<Rightarrow> (Inr (locked, False), s)
           | Some nxt \<Rightarrow>
               if nxt = UnderReview \<and> \<not> av_ready A \<and> av_hardBlockers A \<noteq> []
               then (Inl (AdvanceBlockedError (av_hardBlockers A)), s)
               else andThen (updateStatus False (e_sha256 E) (ai_tenantId input) (ai_closeSessionId input) nxt
                      (Some (js_or (ai_certifiedBy input) ''advance-api'')) s) (\<lambda>current s.
                    if nxt = InProgress
                    then let (aborted, s) = setup_work (e_decimal E) A input current s in (Inr (current, aborted), s)
                    else (Inr (current, False), s))))"

definition advance_transaction ::
  "'d env \<Rightarrow> advance_answers \<Rightarrow> AdvanceSessionInput \<Rightarrow> ('a, CloseSession) close_op" where
  "advance_transaction E A input s =
     (case withTransaction (advance_body E A input) s of
        (Inr (current, aborted), s') \<Rightarrow>
          (Inr current, if aborted then s\<lparr>ticks := ticks s', drawn := drawn s', calls := calls s'\<rparr> else s')
      | (Inl e, s') \<Rightarrow> (Inl e, s'))"

definition transition_notice :: "CloseSessionStatus \<Rightarrow> string option" where
  "transition_notice st = map_of [(InProgress, ''close_started''), (UnderReview, ''close_under_review''),
     (Certified, ''close_certified''), (Locked, ''close_locked'')] st"

definition announce ::
  "AdvanceSessionInput \<Rightarrow> CloseSessionStatus \<Rightarrow> CloseSessionStatus \<Rightarrow> 'a world_scheme \<Rightarrow> 'a world_scheme" where
  "announce input before after s =
     (let s = record_call ''emitSessionEvent'' [ai_closeSessionId input, ai_tenantId input,
            js_or (ai_certifiedBy input) ''advance-api'', session_status_text before, session_status_text after]
            (snd (now s))
      in case transition_notice after of
           None \<Rightarrow> s
         | Some eventType \<Rightarrow> record_call ''notify'' [ai_tenantId input, eventType, ai_closeSessionId input] s)"

text \<open>The transaction reads the row that was read before it, so a blocked advance answers that session.\<close>

definition advanceSession ::
  "'d env \<Rightarrow> advance_answers \<Rightarrow> AdvanceSessionInput \<Rightarrow> ('a, AdvanceResult) module_op" where
  "advanceSession E A input s =
     (case getCloseSessionById (ai_tenantId input) (ai_closeSessionId input) s of
        None \<Rightarrow> (Inl session_not_found, s)
      | Some session \<Rightarrow>
          if ses_status session \<in> {UnderReview, Certified, SubsequentEventsReview, Locked}
          then (Inr (advance_result True session (ses_status session) []), s)
          else (case advance_transaction E A input s of
             (Inl (AdvanceBlockedError bs), s) \<Rightarrow>
               (Inr (advance_result False session (ses_status session) (mapHardBlockersToBlockers bs)), s)
           | (Inl e, s) \<Rightarrow> (Inl e, s)
           | (Inr current, s) \<Rightarrow>
               let s = (if ses_status current = InProgress \<and> ses_status session = Open
                        \<and> js_toLowerCase (ses_standard current) = ''gaap''
                      then autoProposModules (av_modules A) (ai_tenantId input) (ai_closeSessionId input)
                        (ses_entityId current) s else s);
                   s = (if ses_status current \<noteq> ses_status session
                      then announce input (ses_status session) (ses_status current) s else s)
               in (Inr (advance_result True current (ses_status session) []), s)))"

end
