(* ===== verification/Refinement.thy ===== *)
theory Refinement
  imports World
begin

text \<open>
  The contract between the operations of a service and the abstract machine they refine. \<open>view\<close> is
  what the machine sees of the state, \<open>step\<close> its steps and \<open>ok\<close> its invariant. The lemmas follow the
  control flow of the operations, so that an operation refines the machine when its statements do.
\<close>

definition reaches :: "('c \<Rightarrow> 'c \<Rightarrow> bool) \<Rightarrow> ('s \<Rightarrow> 'c) \<Rightarrow> 's \<Rightarrow> 's \<Rightarrow> bool" where
  "reaches step view s s' \<longleftrightarrow> step\<^sup>*\<^sup>* (view s) (view s')"

lemma reaches_same: "view s' = view s \<Longrightarrow> reaches step view s s'"
  by (simp add: reaches_def)

lemma reaches_step: "step (view s) (view s') \<Longrightarrow> reaches step view s s'"
  by (auto simp: reaches_def)

lemma reaches_trans: "reaches step view s t \<Longrightarrow> reaches step view t u \<Longrightarrow> reaches step view s u"
  by (auto simp: reaches_def intro: rtranclp_trans)

locale refined =
  fixes step :: "'c \<Rightarrow> 'c \<Rightarrow> bool"
    and view :: "'x world_scheme \<Rightarrow> 'c"
    and ok :: "'c \<Rightarrow> bool"
  assumes step_ok: "step c c' \<Longrightarrow> ok c \<Longrightarrow> ok c'"
    and view_frame: "view (s\<lparr>ticks := a\<rparr>) = view s" "view (s\<lparr>drawn := b\<rparr>) = view s" "view (s\<lparr>calls := cs\<rparr>) = view s"
begin

lemma steps_ok: "step\<^sup>*\<^sup>* c c' \<Longrightarrow> ok c \<Longrightarrow> ok c'"
  by (induction rule: rtranclp_induct) (auto intro: step_ok)

lemma reaches_ok: "reaches step view s s' \<Longrightarrow> ok (view s) \<Longrightarrow> ok (view s')"
  by (simp add: reaches_def steps_ok)

lemma reach_andThen:
  assumes "reaches step view s (snd p)" and "ok (view s)"
    and "\<And>a. fst p = Inr a \<Longrightarrow> ok (view (snd p)) \<Longrightarrow> reaches step view (snd p) (snd (f a (snd p)))"
  shows "reaches step view s (snd (andThen p f))"
proof (cases "fst p")
  case (Inl e)
  with assms(1) show ?thesis by (simp add: andThen_state)
next
  case (Inr a)
  with assms(3) reaches_ok [OF assms(1,2)] have "reaches step view (snd p) (snd (andThen p f))"
    by (simp add: andThen_state)
  with assms(1) show ?thesis by (rule reaches_trans)
qed

text \<open>A statement that the machine does not see, then the rest.\<close>

lemma reach_after_frame:
  assumes "view t = view s" and "ok (view s)" and "ok (view t) \<Longrightarrow> reaches step view t u"
  shows "reaches step view s u"
  using assms by (simp add: reaches_def)

lemma reach_withTransaction:
  assumes "reaches step view s (snd (fn s))"
  shows "reaches step view s (snd (withTransaction fn s))"
  using assms by (auto simp: withTransaction.simps view_frame reaches_def split: prod.splits sum.splits)

lemma reach_option:
  "(x = None \<Longrightarrow> reaches step view s (snd n)) \<Longrightarrow> (\<And>a. x = Some a \<Longrightarrow> reaches step view s (snd (f a)))
     \<Longrightarrow> reaches step view s (snd (case x of None \<Rightarrow> n | Some a \<Rightarrow> f a))"
  by (cases x) auto

lemma reach_sum:
  "(\<And>e. x = Inl e \<Longrightarrow> reaches step view s (snd (f e))) \<Longrightarrow> (\<And>a. x = Inr a \<Longrightarrow> reaches step view s (snd (g a)))
     \<Longrightarrow> reaches step view s (snd (case x of Inl e \<Rightarrow> f e | Inr a \<Rightarrow> g a))"
  by (cases x) auto

lemma reach_if:
  "(c \<Longrightarrow> reaches step view s (snd p)) \<Longrightarrow> (\<not> c \<Longrightarrow> reaches step view s (snd q))
     \<Longrightarrow> reaches step view s (snd (if c then p else q))"
  by simp

lemma reach_let: "(\<And>x. x = e \<Longrightarrow> reaches step view s (snd (f x))) \<Longrightarrow> reaches step view s (snd (let x = e in f x))"
  by simp

lemma reach_let_pair:
  "(\<And>x y. e = (x, y) \<Longrightarrow> reaches step view s (snd (f x y))) \<Longrightarrow> reaches step view s (snd (let (x, y) = e in f x y))"
  by (simp add: case_prod_unfold)

lemma reach_pair:
  "(\<And>x y. e = (x, y) \<Longrightarrow> reaches step view s (snd (f x y))) \<Longrightarrow> reaches step view s (snd (case e of (x, y) \<Rightarrow> f x y))"
  by (simp add: case_prod_unfold)

lemma reach_return: "view t = view s \<Longrightarrow> reaches step view s (snd (r, t))"
  by (simp add: reaches_def)

lemmas reach_flow = reach_option reach_sum reach_if reach_let reach_let_pair reach_pair reach_return

end

end
