(* ===== verification/Lifecycle.thy ===== *)
theory Lifecycle
  imports Prelude
begin

text \<open>
  The contract of a component whose entities have a status: a step of the component moves the
  status of an entity along an edge of its state machine, or leaves it alone, and removes an entity
  only in a status that allows it. The issues, the journal entries and the close sessions provide it.
\<close>

locale lifecycle =
  fixes look :: "'s \<Rightarrow> 'k \<Rightarrow> 'st option"
    and step :: "'s \<Rightarrow> 's \<Rightarrow> bool"
    and edge :: "'st \<Rightarrow> 'st \<Rightarrow> bool"
    and mortal :: "'st \<Rightarrow> bool"
  assumes step_moves: "step s s' \<Longrightarrow> look s k = Some a \<Longrightarrow>
      (case look s' k of None \<Rightarrow> mortal a | Some b \<Rightarrow> b = a \<or> edge a b)"
begin

lemma steps_move:
  assumes "step\<^sup>*\<^sup>* s s'" and "look s k = Some a" and "\<And>b. edge\<^sup>*\<^sup>* a b \<Longrightarrow> \<not> mortal b"
  shows "\<exists>b. look s' k = Some b \<and> edge\<^sup>*\<^sup>* a b"
  using assms(1)
proof (induction rule: rtranclp_induct)
  case base
  with assms(2) show ?case by blast
next
  case (step t u)
  then obtain b where b: "look t k = Some b" "edge\<^sup>*\<^sup>* a b" by blast
  with step_moves [OF step.hyps(2) b(1)] assms(3) show ?case
    by (cases "look u k") (auto intro: rtranclp.rtrancl_into_rtrancl)
qed

text \<open>A status that no edge leaves is kept for ever.\<close>

lemma final_stays:
  assumes "step\<^sup>*\<^sup>* s s'" and "look s k = Some a" and "\<And>b. \<not> edge a b" and "\<not> mortal a"
  shows "look s' k = Some a"
proof -
  have only: "b = a" if "edge\<^sup>*\<^sup>* a b" for b
    using that assms(3) by (metis converse_rtranclpE)
  with steps_move [OF assms(1,2)] assms(4) show ?thesis by blast
qed

text \<open>A set of statuses that no edge leaves is not left.\<close>

lemma trapped:
  assumes "step\<^sup>*\<^sup>* s s'" and "look s k = Some a" and "a \<in> T"
    and "\<And>x y. x \<in> T \<Longrightarrow> edge x y \<Longrightarrow> y \<in> T" and "\<And>x. x \<in> T \<Longrightarrow> \<not> mortal x"
  shows "\<exists>b\<in>T. look s' k = Some b"
proof -
  have "b \<in> T" if "edge\<^sup>*\<^sup>* a b" for b
    using that assms(3,4) by (induction rule: rtranclp_induct) auto
  with steps_move [OF assms(1,2)] assms(5) show ?thesis by blast
qed

end

end
