(* ===== verification/CloseBooks.thy ===== *)
theory CloseBooks
  imports SessionAdvance Refinement Lifecycle
begin

text \<open>
  What the close of a period guarantees. \<open>book_step\<close> is the abstract machine of the sessions, the
  ledger snapshots and the certification artifacts; every operation of the close session service
  refines it.
\<close>

section \<open>The abstract machine\<close>

type_synonym close_books = "close_session_row list \<times> LedgerSnapshot list \<times> artifact_row list"

definition books :: "'a close_db_scheme \<Rightarrow> close_books" where
  "books s = (close_sessions s, ledger_snapshots s, certification_artifacts s)"

definition session_edge :: "CloseSessionStatus \<Rightarrow> CloseSessionStatus \<Rightarrow> bool" where
  "session_edge a b \<longleftrightarrow> b \<in> set (ALLOWED_TRANSITIONS a) \<or> a = UnderReview \<and> b = Certified"

definition same_session :: "close_session_row \<Rightarrow> close_session_row \<Rightarrow> bool" where
  "same_session r q \<longleftrightarrow> cs_id q = cs_id r \<and> cs_tenant q = cs_tenant r \<and> cs_entity q = cs_entity r
     \<and> cs_period_start q = cs_period_start r \<and> cs_period_end q = cs_period_end r \<and> cs_basis q = cs_basis r
     \<and> cs_standard q = cs_standard r \<and> cs_created_at q = cs_created_at r"

definition same_attestation :: "close_session_row \<Rightarrow> close_session_row \<Rightarrow> bool" where
  "same_attestation r q \<longleftrightarrow> cs_certified_by q = cs_certified_by r \<and> cs_certified_at q = cs_certified_at r
     \<and> cs_certified_snapshot_id q = cs_certified_snapshot_id r"

text \<open>The session was certified by somebody, on a snapshot of its own that is in the table.\<close>

definition attested :: "LedgerSnapshot list \<Rightarrow> close_session_row \<Rightarrow> bool" where
  "attested ns r \<longleftrightarrow> cs_certified_by r \<noteq> None \<and> cs_certified_at r \<noteq> None
     \<and> list_ex (\<lambda>n. Some (ls_id n) = cs_certified_snapshot_id r \<and> ls_tenant n = cs_tenant r
          \<and> ls_session n = Some (cs_id r)) ns"

definition session_move :: "LedgerSnapshot list \<Rightarrow> close_session_row \<Rightarrow> close_session_row \<Rightarrow> bool" where
  "session_move ns r q \<longleftrightarrow> same_session r q
     \<and> (cs_status q = cs_status r \<and> same_attestation r q
        \<or> cs_status q \<in> set (ALLOWED_TRANSITIONS (cs_status r)) \<and> same_attestation r q
        \<or> cs_status r = UnderReview \<and> cs_status q = Certified \<and> attested ns q)"

inductive book_step :: "close_books \<Rightarrow> close_books \<Rightarrow> bool" where
  create: "cs_status r = Open \<Longrightarrow> cs_period_start r \<le> cs_period_end r \<Longrightarrow> cs_id r \<notin> cs_id ` set ss
    \<Longrightarrow> \<not> list_ex (overlaps (cs_tenant r) (cs_entity r) (cs_period_start r) (cs_period_end r)) ss
    \<Longrightarrow> book_step (ss, ns, as) (ss @ [r], ns, as)"
| move: "(\<And>r. r \<in> set ss \<Longrightarrow> p r \<Longrightarrow> session_move ns r (f r)) \<Longrightarrow> book_step (ss, ns, as) (update_where p f ss, ns, as)"
| snapshot: "ls_id n \<notin> ls_id ` set ns \<Longrightarrow> book_step (ss, ns, as) (ss, ns @ [n], as)"
| artifact: "ca_id a \<notin> ca_id ` set as \<Longrightarrow> (ca_tenant a, ca_session a) \<notin> (\<lambda>b. (ca_tenant b, ca_session b)) ` set as
    \<Longrightarrow> book_step (ss, ns, as) (ss, ns, as @ [a])"

subsection \<open>Its invariant\<close>

definition closed_status :: "CloseSessionStatus \<Rightarrow> bool" where
  "closed_status st \<longleftrightarrow> st \<in> {Certified, SubsequentEventsReview, Locked}"

definition disjoint_periods :: "close_session_row \<Rightarrow> close_session_row \<Rightarrow> bool" where
  "disjoint_periods r q \<longleftrightarrow> (cs_tenant r = cs_tenant q \<and> cs_entity r = cs_entity q
     \<longrightarrow> cs_period_end r < cs_period_start q \<or> cs_period_end q < cs_period_start r)"

definition books_ok :: "close_books \<Rightarrow> bool" where
  "books_ok b =
     (case b of (ss, ns, as) \<Rightarrow>
       distinct (map cs_id ss) \<and> distinct (map ls_id ns)
       \<and> distinct (map ca_id as) \<and> distinct (map (\<lambda>a. (ca_tenant a, ca_session a)) as)
       \<and> list_all (\<lambda>r. cs_period_start r \<le> cs_period_end r) ss
       \<and> sorted_wrt disjoint_periods ss
       \<and> list_all (\<lambda>r. closed_status (cs_status r) \<longrightarrow> attested ns r) ss)"

lemma session_move_id: "session_move ns r q \<Longrightarrow> same_session r q"
  by (simp add: session_move_def)

lemma move_list_rel:
  assumes "\<And>r. r \<in> set ss \<Longrightarrow> p r \<Longrightarrow> session_move ns r (f r)"
  shows "list_all2 (\<lambda>r q. q = r \<or> session_move ns r q) ss (update_where p f ss)"
  using assms by (induction ss) auto

lemma same_session_disjoint:
  "same_session r r' \<Longrightarrow> same_session q q' \<Longrightarrow> disjoint_periods r' q' = disjoint_periods r q"
  by (simp add: disjoint_periods_def same_session_def)

lemma same_session_refl [simp]: "same_session r r"
  by (simp add: same_session_def)

lemma disjoint_all_rel:
  assumes "list_all2 same_session ss ts" and "same_session r q"
  shows "(\<forall>y\<in>set ts. disjoint_periods q y) \<longleftrightarrow> (\<forall>x\<in>set ss. disjoint_periods r x)"
  using assms(1)
  by (induction rule: list_all2_induct) (simp_all add: same_session_disjoint [OF assms(2)])

lemma same_sessions:
  assumes "list_all2 same_session ss ts"
  shows "map cs_id ts = map cs_id ss"
    and "list_all (\<lambda>r. cs_period_start r \<le> cs_period_end r) ts = list_all (\<lambda>r. cs_period_start r \<le> cs_period_end r) ss"
    and "sorted_wrt disjoint_periods ts = sorted_wrt disjoint_periods ss"
  using assms
proof (induction rule: list_all2_induct)
  case (Cons r ss q ts)
  {
    case 1
    with Cons show ?case by (simp add: same_session_def)
  next
    case 2
    with Cons show ?case by (simp add: same_session_def)
  next
    case 3
    with Cons disjoint_all_rel [OF Cons.hyps(2,1)] show ?case by simp
  }
qed simp_all

lemma attested_mono: "attested ns r \<Longrightarrow> attested (ns @ ms) r"
  by (auto simp: attested_def)

lemma session_move_attested:
  assumes "session_move ns r q" and "closed_status (cs_status r) \<longrightarrow> attested ns r" and "closed_status (cs_status q)"
  shows "attested ns q"
  using assms
  by (cases "cs_status r"; cases "cs_status q")
    (auto simp: session_move_def closed_status_def same_attestation_def same_session_def attested_def)

lemma moved_attested:
  assumes "list_all2 (\<lambda>r q. q = r \<or> session_move ns r q) ss ts"
    and "list_all (\<lambda>r. closed_status (cs_status r) \<longrightarrow> attested ns r) ss"
  shows "list_all (\<lambda>r. closed_status (cs_status r) \<longrightarrow> attested ns r) ts"
  using assms
proof (induction rule: list_all2_induct)
  case (Cons r ss q ts)
  with session_move_attested [of ns r q] show ?case by auto
qed simp

lemma book_step_ok:
  assumes "book_step b b'" and "books_ok b"
  shows "books_ok b'"
  using assms
proof (cases rule: book_step.cases)
  case (create r ss ns as)
  then have "disjoint_periods q r" if "q \<in> set ss" for q
    using that by (auto simp: disjoint_periods_def overlaps_def list_ex_iff not_le)
  with create assms(2) show ?thesis by (auto simp: books_ok_def sorted_wrt_append closed_status_def)
next
  case (move ss p ns f as)
  note rel = move_list_rel [of ss p ns f, OF move(3)]
  then have same: "list_all2 same_session ss (update_where p f ss)"
    by (rule list_all2_mono) (auto dest: session_move_id)
  from move assms(2) same_sessions [OF same] moved_attested [OF rel] show ?thesis by (simp add: books_ok_def)
next
  case (snapshot n ns ss as)
  with assms(2) show ?thesis by (auto simp: books_ok_def list_all_iff attested_mono)
next
  case (artifact a as ss ns)
  with assms(2) show ?thesis by (auto simp: books_ok_def)
qed

lemma books_frame [simp]:
  "books (s\<lparr>ticks := a\<rparr>) = books s" "books (s\<lparr>drawn := b\<rparr>) = books s" "books (s\<lparr>calls := c\<rparr>) = books s"
  "books (s\<lparr>audit_ledger := d\<rparr>) = books s" "books (s\<lparr>checkpoints := e\<rparr>) = books s"
  "books (s\<lparr>close_issues := g\<rparr>) = books s" "books (s\<lparr>issue_history := h\<rparr>) = books s"
  by (simp_all add: books_def)

interpretation bk: refined book_step books books_ok
  by unfold_locales (auto intro: book_step_ok)

section \<open>What the machine does not see\<close>

lemma books_record_call [simp]: "books (record_call f args s) = books s"
  by (simp add: record_call_def)

lemma books_recordMaterialEvent [simp]: "books (snd (recordMaterialEvent b H input s)) = books s"
  by (auto simp: recordMaterialEvent_def appendEntry_def appendEntryInternal_unfold withTransaction.simps Let_def
      andThen_state split: sum.splits prod.splits)

lemma books_session_event [simp]: "books (snd (session_event b H t session ev flags creator s)) = books s"
  by (simp add: session_event_def)

lemma books_andThen:
  "books (snd p) = books s \<Longrightarrow> (\<And>a t. books t = books s \<Longrightarrow> books (snd (f a t)) = books s)
     \<Longrightarrow> books (snd (andThen p f)) = books s"
  by (simp add: andThen_state split: sum.splits)

lemma books_andThen_return [simp]:
  "books (snd (andThen p (\<lambda>a u. (g a, u)))) = books (snd p)" "books (snd (andThen p (\<lambda>a. Pair r))) = books (snd p)"
  by (auto simp: andThen_state split: sum.splits)

lemma books_appendIssueHistory [simp]: "books (snd (appendIssueHistory i a b who c s)) = books s"
  by (simp add: appendIssueHistory_def insert_history_row_def random_text_def now_def)

lemma books_insertCloseIssue [simp]: "books (snd (insertCloseIssue i input st s)) = books s"
  by (simp add: insertCloseIssue_def insert_issue_row_def now_def split: option.splits)

lemma books_createIssue [simp]: "books (snd (createIssue input s)) = books s"
  by (simp add: createIssue_def random_text_def) (intro books_andThen; simp)

lemma books_createIssueForSession [simp]: "books (snd (createIssueForSession input s)) = books s"
  by (simp add: createIssueForSession_def)

lemma books_verifyChain [simp]: "books (snd (verifyChain H t s)) = books s"
  by (simp add: verifyChain_def verifyChainInternal_def save_checkpoint_def now_def Let_def split: option.splits prod.splits)

lemma books_buildCertificationArtifact [simp]: "books (snd (buildCertificationArtifact H mode sg b s)) = books s"
  by (simp add: buildCertificationArtifact_def random_text_def Let_def split: option.splits prod.splits)

section \<open>The statements of the repositories\<close>

lemma books_okD: "books_ok (books s) \<Longrightarrow> distinct (map cs_id (close_sessions s))"
  by (simp add: books_ok_def books_def)

lemma session_row_unique:
  assumes "books_ok (books s)" and "session_row t i s = Some r" and "q \<in> set (close_sessions s)" and "session_key t i q"
  shows "q = r"
  using assms books_okD [OF assms(1)] session_row_key [OF assms(2)]
  by (intro distinct_key_unique [of cs_id "close_sessions s"]) (auto simp: session_key_def)

lemma reach_update_session:
  assumes "books_ok (books s)" and "session_row t i s = Some r" and "session_move (ledger_snapshots s) r (f r)"
  shows "reaches book_step books s (update_session t i f s)"
  unfolding reaches_def books_def update_session_def
  using session_row_unique [OF assms(1,2)] assms(3) by (auto intro!: book_step.move)

lemma reach_updateCloseSessionStatus:
  assumes "books_ok (books s)" and "session_row t i s = Some r" and "st \<in> set (ALLOWED_TRANSITIONS (cs_status r))"
  shows "reaches book_step books s (snd (updateCloseSessionStatus t i st actor s))"
proof -
  let ?s = "s\<lparr>ticks := Suc (ticks s)\<rparr>"
  have "reaches book_step books ?s (update_session t i f ?s)"
    if "session_move (ledger_snapshots s) r (f r)" for f
    using assms that by (intro reach_update_session) auto
  moreover have "session_move (ledger_snapshots s) r q"
    if "same_session r q" "cs_status q = st" "same_attestation r q" for q
    using that assms(3) by (simp add: session_move_def)
  ultimately have "reaches book_step books ?s (snd (updateCloseSessionStatus t i st actor s))"
    by (simp add: updateCloseSessionStatus_def now_def Let_def same_session_def same_attestation_def)
  then show ?thesis by (simp add: reaches_def)
qed

lemma reach_updateReopen:
  assumes "books_ok (books s)" and "session_row t i s = Some r" and "cs_status r = Certified"
  shows "reaches book_step books s (snd (updateReopen t i who reason s))"
proof -
  let ?s = "s\<lparr>ticks := Suc (ticks s)\<rparr>"
  have "reaches book_step books ?s (snd (updateReopen t i who reason s))"
    unfolding updateReopen_def now_def Let_def case_prod_conv
    using assms by (auto intro!: reach_update_session simp: session_move_def same_session_def same_attestation_def)
  then show ?thesis by (simp add: reaches_def)
qed

lemma reach_updateCertification:
  assumes "books_ok (books s)" and "session_row t i s = Some r" and "cs_status r = UnderReview"
    and "n \<in> set (ledger_snapshots s)" and "ls_tenant n = t" and "ls_session n = Some i"
  shows "reaches book_step books s (snd (updateCertification t i who certAt m (Some (ls_id n)) artifactId s))"
proof -
  let ?s = "s\<lparr>ticks := Suc (ticks s)\<rparr>"
  have "reaches book_step books ?s (snd (updateCertification t i who certAt m (Some (ls_id n)) artifactId s))"
    unfolding updateCertification_def now_def Let_def case_prod_conv
    using assms session_row_key [OF assms(2)]
    by (auto intro!: reach_update_session bexI [of _ n]
        simp: session_move_def same_session_def attested_def list_ex_iff)
  then show ?thesis by (simp add: reaches_def)
qed

lemma reach_insertLedgerSnapshot: "reaches book_step books s (snd (insertLedgerSnapshot t p c src pl h v sid s))"
  unfolding insertLedgerSnapshot_def
  by (auto simp: random_text_def now_def Let_def reaches_def books_def intro!: book_step.snapshot)

lemma reach_insertCertificationArtifact:
  "reaches book_step books s (snd (insertCertificationArtifact t i p a h sg pk algo s))"
  unfolding insertCertificationArtifact_def
  by (auto simp: random_text_def now_def Let_def reaches_def books_def intro!: book_step.artifact)

lemma reach_insert_session_row:
  assumes "cs_status r = Open"
  shows "reaches book_step books s (snd (insert_session_row r s))"
proof -
  have "book_step (books s) (close_sessions s @ [r], ledger_snapshots s, certification_artifacts s)"
    if "\<not> cs_period_end r < cs_period_start r" "cs_id r \<notin> cs_id ` set (close_sessions s)"
      "\<not> hasOverlappingSession (cs_tenant r) (cs_entity r) (cs_period_start r) (cs_period_end r) None s"
    using that assms unfolding books_def
    by (intro book_step.create) (auto simp: hasOverlappingSession_def row_count_0_iff list_ex_iff)
  then show ?thesis by (auto simp: insert_session_row_def reaches_def) (simp_all add: books_def r_into_rtranclp)
qed

lemma reach_insertCloseSession:
  "reaches book_step books s (snd (insertCloseSession i t e ps pe bas std Open s))"
proof -
  have "reaches book_step books u (snd (andThen (insert_session_row r u) (\<lambda>_ u.
      (case session_row t i u of None \<Rightarrow> (Inl x, u) | Some row \<Rightarrow> (Inr (rowToSession row), u)))))"
    if "cs_status r = Open" for r x and u :: "'a close_db_scheme"
    using reach_insert_session_row [OF that, of u] by (auto simp: andThen_state split: sum.splits option.splits)
  note step = this [of _ "s\<lparr>ticks := Suc (ticks s)\<rparr>"]
  show ?thesis
    unfolding insertCloseSession_def now_def Let_def case_prod_conv
    using step by (simp add: reaches_def)
qed

section \<open>The operations of the service\<close>

lemma reach_createSession: "reaches book_step books s (snd (createSession input s))"
proof -
  have "reaches book_step books s (snd (insertCloseSession i t e ps pe bas std Open (s\<lparr>drawn := d\<rparr>)))" for i t e ps pe bas std d
    using reach_insertCloseSession [of "s\<lparr>drawn := d\<rparr>"] by (simp add: reaches_def)
  then show ?thesis
    unfolding createSession_def by (intro bk.reach_flow) (auto simp: random_text_def reaches_same)
qed

lemma reach_andThen_return:
  assumes "reaches book_step books s (snd p)"
  shows "reaches book_step books s (snd (andThen p (\<lambda>a u. (g a, u))))"
    and "reaches book_step books s (snd (andThen p (\<lambda>a. Pair r)))"
  using assms by (auto simp: reaches_def)

lemma reach_createSessionOrGetExisting: "reaches book_step books s (snd (createSessionOrGetExisting input s))"
  unfolding createSessionOrGetExisting_def
  by (intro bk.reach_flow reach_andThen_return reach_createSession) simp

lemma reach_ensureSessionForPeriod: "reaches book_step books s (snd (ensureSessionForPeriod t e p b d s))"
  unfolding ensureSessionForPeriod_def
  by (intro bk.reach_flow reach_createSessionOrGetExisting) simp

lemma session_found:
  "getCloseSessionById t i s = Some ses \<longleftrightarrow> (\<exists>r. session_row t i s = Some r \<and> ses = rowToSession r)"
  "getCloseSessionByIdForUpdate t i s = Some ses \<longleftrightarrow> (\<exists>r. session_row t i s = Some r \<and> ses = rowToSession r)"
  by (auto simp: getCloseSessionById_def getCloseSessionByIdForUpdate_def)

lemma reach_updated:
  assumes "reaches book_step books s (snd p)" and "\<And>x u. p = (Some x, u) \<Longrightarrow> books (snd (f x u)) = books u"
  shows "reaches book_step books s (snd (case p of (None, u) \<Rightarrow> (Inl e, u) | (Some x, u) \<Rightarrow> f x u))"
  using assms by (cases p; cases "fst p") (auto simp: reaches_def)

lemma reach_updateStatus:
  assumes "books_ok (books s)"
  shows "reaches book_step books s (snd (updateStatus b H t i st creator s))"
proof (cases "session_row t i s")
  case (Some r)
  then have "getCloseSessionByIdForUpdate t i s = Some (rowToSession r)" by (simp add: session_found)
  moreover have "reaches book_step books s (snd (updateCloseSessionStatus t i st creator s))"
    if "st \<in> set (ALLOWED_TRANSITIONS (cs_status r))"
    using assms Some that by (rule reach_updateCloseSessionStatus)
  ultimately show ?thesis
    by (auto simp: updateStatus_def reaches_same intro!: reach_updated)
qed (simp add: updateStatus_def getCloseSessionByIdForUpdate_def reaches_same)

lemma reach_rejectSession:
  assumes ok: "books_ok (books s)"
  shows "reaches book_step books s (snd (rejectSession H t i reason who s))"
proof -
  have inner: "reaches book_step books u (snd (andThen (updateStatus False H t i InProgress (Some who) u) (\<lambda>_ u.
      andThen (createIssue inp u) (\<lambda>_ u. (Inr x, u)))))" if "books_ok (books u)" for u inp x
    using that by (intro bk.reach_andThen reach_updateStatus reach_andThen_return reaches_same) auto
  show ?thesis
    unfolding rejectSession_def
    by (intro bk.reach_flow bk.reach_andThen bk.reach_withTransaction inner ok reaches_same) (auto simp: reaches_same)
qed

lemma reach_reopen_writes:
  assumes "books_ok (books s)" and "session_row t i s = Some r" and "cs_status r = Certified"
  shows "reaches book_step books s (snd (reopen_writes H i t who reason session s))"
proof -
  obtain x u where u: "updateReopen t i who (js_trim reason) s = (x, u)" by fastforce
  then have "reaches book_step books s u" using reach_updateReopen [OF assms, of who "js_trim reason"] by simp
  moreover have "books (snd (andThen (session_event False H t y ev fl cr u) (\<lambda>_ u. andThen (createIssue inp u) (\<lambda>_ u. (Inr y, u)))))
      = books u" for y ev fl cr inp
    by (rule books_andThen) auto
  ultimately show ?thesis by (cases x) (simp_all add: reopen_writes_def u reaches_def)
qed

lemma books_reopen_rollback [simp]: "books (reopen_rollback s s') = books s"
  by (simp add: reopen_rollback_def)

lemma canReopen_True: "canReopen session reason auth = (True, m) \<Longrightarrow> ses_status session = Certified"
  by (auto simp: canReopen_def Let_def split: if_splits)

lemma reach_reopenCloseSession:
  assumes ok: "books_ok (books s)"
  shows "reaches book_step books s (snd (reopenCloseSession store H i t who reason role s))"
proof -
  have "reaches book_step books s u"
    if "session_row t i s = Some r" "canReopen (rowToSession r) (Some reason) True = (True, m)"
      "reopen_writes H i t who reason (rowToSession r) s = (x, u)" for r m x u
    using reach_reopen_writes [OF ok that(1), of H who reason "rowToSession r"] canReopen_True [OF that(2)] that(3) by simp
  then show ?thesis
    unfolding reopenCloseSession_def
    by (auto simp: reaches_same session_found split: sum.splits option.splits prod.splits bool.splits)
qed

lemma reach_advanceToSubsequentEventsReview:
  assumes ok: "books_ok (books s)"
  shows "reaches book_step books s (snd (advanceToSubsequentEventsReview store H i t who role s))"
proof -
  have step: "reaches book_step books s (snd (updateCloseSessionStatus t i SubsequentEventsReview (Some who) s))"
    if "session_row t i s = Some r" "cs_status r = Certified" for r
    using reach_updateCloseSessionStatus [OF ok that(1)] that(2) by simp
  show ?thesis
    unfolding advanceToSubsequentEventsReview_def
    by (intro bk.reach_flow bk.reach_withTransaction reach_updated)
      (auto simp: session_found intro: step)
qed

lemma reach_confirmNoSubsequentEvents:
  assumes ok: "books_ok (books s)"
  shows "reaches book_step books s (snd (confirmNoSubsequentEvents store H i t who role s))"
proof -
  have step: "reaches book_step books s (update_session t i (\<lambda>r. r\<lparr>cs_se_confirmed_by := Some who,
      cs_se_confirmed_at := Some a, cs_updated_at := a\<rparr>) (s\<lparr>ticks := k\<rparr>))"
    if "session_row t i s = Some r" for r a k
    using reach_update_session [of "s\<lparr>ticks := k\<rparr>" t i r] ok that
    by (simp add: reaches_def session_move_def same_session_def same_attestation_def)
  have "reaches book_step books s (snd (andThen (session_event True H t ses ev fl cr u) (\<lambda>_ s.
      case getCloseSessionById t i s of None \<Rightarrow> (Inl e, s) | Some updated \<Rightarrow> (Inr updated, s))))"
    if "reaches book_step books s u" for ses ev fl cr e u
    using that by (auto simp: reaches_def andThen_state split: sum.splits option.splits)
  with step show ?thesis
    unfolding confirmNoSubsequentEvents_def
    by (intro bk.reach_flow) (auto simp: session_found now_def)
qed

lemma reach_lockCloseSession:
  assumes ok: "books_ok (books s)"
  shows "reaches book_step books s (snd (lockCloseSession store H i t who role s))"
proof -
  have step: "reaches book_step books s (snd (updateCloseSessionStatus t i Locked None s))"
    if "session_row t i s = Some r" "cs_status r = SubsequentEventsReview" for r
    using reach_updateCloseSessionStatus [OF ok that(1)] that(2) by simp
  show ?thesis
    unfolding lockCloseSession_def
    by (intro bk.reach_option bk.reach_sum bk.reach_if bk.reach_let bk.reach_return bk.reach_withTransaction reach_updated)
      (auto simp: canLock_def now_def intro: step split: option.splits)
qed

lemma reach_confirm_and_lock:
  assumes "books_ok (books s)"
  shows "reaches book_step books s (snd (confirm_and_lock store H t i s))"
  unfolding confirm_and_lock_def
  using assms by (intro bk.reach_andThen reach_confirmNoSubsequentEvents reach_lockCloseSession)

lemma reach_lock_reviewed:
  assumes "books_ok (books s)"
  shows "reaches book_step books s (snd (lock_reviewed store H t is s))"
  using assms
proof (induction "is" arbitrary: s)
  case (Cons i "is")
  obtain x u where u: "confirm_and_lock store H t i s = (x, u)" by fastforce
  then have su: "reaches book_step books s u" using reach_confirm_and_lock [OF Cons.prems, of store H t i] by simp
  then have "reaches book_step books u (snd (lock_reviewed store H t is u))"
    using Cons.IH bk.reaches_ok [OF su Cons.prems] by blast
  with su show ?case by (cases x) (auto simp: u split: prod.splits intro: reaches_trans)
qed (simp add: reaches_same)

lemma reach_lock_certified:
  assumes "books_ok (books s)"
  shows "reaches book_step books s (snd (lock_certified store H t is s))"
  using assms
proof (induction "is" arbitrary: s)
  case (Cons i "is")
  let ?p = "andThen (advanceToSubsequentEventsReview store H i t auto_locker Approver s)
      (\<lambda>_ s. confirm_and_lock store H t i s)"
  obtain x u where u: "?p = (x, u)" by fastforce
  have "reaches book_step books s (snd ?p)"
    using Cons.prems by (intro bk.reach_andThen reach_advanceToSubsequentEventsReview reach_confirm_and_lock)
  with u have su: "reaches book_step books s u" by simp
  then have "reaches book_step books u (snd (lock_certified store H t is u))"
    using Cons.IH bk.reaches_ok [OF su Cons.prems] by blast
  with su show ?case by (cases x) (auto simp: u split: prod.splits intro: reaches_trans)
qed (simp add: reaches_same)

lemma reach_autoLockCertifiedSessions:
  assumes ok: "books_ok (books s)"
  shows "reaches book_step books s (snd (autoLockCertifiedSessions store H t days s))"
proof -
  obtain xs u where u: "lock_reviewed store H t
      (map ses_id (listCloseSessions t None (Some SubsequentEventsReview) s)) s = (xs, u)" by fastforce
  then have su: "reaches book_step books s u"
    using reach_lock_reviewed [OF ok] by (metis snd_conv)
  have "books_ok (books (snd (now u)))" using bk.reaches_ok [OF su ok] by simp
  then have "reaches book_step books (snd (now u)) (snd (lock_certified store H t cs (snd (now u))))" for cs
    by (rule reach_lock_certified)
  then have "reaches book_step books u (snd (lock_certified store H t cs (snd (now u))))" for cs
    by (simp add: reaches_def)
  with su show ?thesis
    unfolding autoLockCertifiedSessions_def by (auto simp: u Let_def split: prod.splits intro: reaches_trans) (metis reaches_trans snd_conv)
qed

subsection \<open>Certification\<close>

lemma createSnapshot_result:
  assumes "createSnapshotFromTrialBalanceAndEntries H S D t p c src sid input s = (Inr n, s')"
  shows "ls_id n \<notin> ls_id ` set (ledger_snapshots s) \<and> ls_tenant n = t \<and> ls_session n = sid
    \<and> books s' = (close_sessions s, ledger_snapshots s @ [n], certification_artifacts s)"
  using assms
  by (auto simp: createSnapshotFromTrialBalanceAndEntries_def insertLedgerSnapshot_def random_text_def now_def Let_def
      books_def split: if_splits)

lemma createSnapshot_error:
  "createSnapshotFromTrialBalanceAndEntries H S D t p c src sid input s = (Inl e, s') \<Longrightarrow> books s' = books s"
  by (auto simp: createSnapshotFromTrialBalanceAndEntries_def insertLedgerSnapshot_def random_text_def now_def Let_def
      books_def split: if_splits)

lemma insertCertificationArtifact_cases:
  "insertCertificationArtifact t i p a h sg pk algo s = (res, s') \<Longrightarrow>
     (\<exists>e. res = Inl e) \<and> books s' = books s
     \<or> (\<exists>r. res = Inr (ca_id r) \<and> ca_tenant r = t \<and> ca_session r = i \<and> ca_artifact r = jsonb_roundtrip a
          \<and> ca_id r \<notin> ca_id ` set (certification_artifacts s)
          \<and> (t, i) \<notin> (\<lambda>b. (ca_tenant b, ca_session b)) ` set (certification_artifacts s)
          \<and> books s' = (close_sessions s, ledger_snapshots s, certification_artifacts s @ [r]))"
  by (auto simp: insertCertificationArtifact_def random_text_def now_def Let_def books_def split: if_splits)

lemma buildCertificationArtifact_result:
  "buildCertificationArtifact H mode sg b s = (Inr (a, rest), s') \<Longrightarrow> \<exists>i m. a = artifact_json mode i b m"
  by (auto simp: buildCertificationArtifact_def random_text_def Let_def split: if_splits option.splits)

text \<open>The artifact names the snapshot and its hash.\<close>

definition names_snapshot :: "artifact_row \<Rightarrow> LedgerSnapshot \<Rightarrow> bool" where
  "names_snapshot r n \<longleftrightarrow> (\<exists>mode i b m. ca_artifact r = jsonb_roundtrip (artifact_json mode i b m)
     \<and> ba_snapshotId b = ls_id n \<and> ba_snapshotHash b = ls_hash n)"

lemma certify_artifact_cases:
  assumes "certify_artifact E A input p c n checks s = (res, s')"
  shows "books s' = books s \<and> (res = Inr None \<longrightarrow> existsForCloseSession (cy_tenantId input) (cy_closeSessionId input) s)
     \<and> (\<forall>i. res \<noteq> Inr (Some i))
     \<or> (\<exists>r. res = Inr (Some (ca_id r)) \<and> names_snapshot r n \<and> ca_tenant r = cy_tenantId input \<and> ca_session r = cy_closeSessionId input
          \<and> ca_id r \<notin> ca_id ` set (certification_artifacts s)
          \<and> (ca_tenant r, ca_session r) \<notin> (\<lambda>b. (ca_tenant b, ca_session b)) ` set (certification_artifacts s)
          \<and> books s' = (close_sessions s, ledger_snapshots s, certification_artifacts s @ [r]))"
proof (cases "existsForCloseSession (cy_tenantId input) (cy_closeSessionId input) s")
  case True
  with assms show ?thesis by (auto simp: certify_artifact_def)
next
  case False
  obtain chain u where chain: "verifyChain (e_sha256 E) (cy_tenantId input) s = (chain, u)" by fastforce
  then have u: "books u = books s" using books_verifyChain by (metis snd_conv)
  show ?thesis
  proof (cases "vr_valid chain")
    case valid: True
    define b where "b = artifact_input A input p c n checks chain"
    obtain x w where w: "buildCertificationArtifact (e_sha256 E) (an_mode A) (an_sign A) b u = (x, w)" by fastforce
    then have "books w = books s" using u books_buildCertificationArtifact by (metis snd_conv)
    then have parts: "close_sessions w = close_sessions s" "ledger_snapshots w = ledger_snapshots s"
      "certification_artifacts w = certification_artifacts s" by (simp_all add: books_def)
    from assms False chain valid have run: "andThen (x, w) (\<lambda>(artifact, h, sig, pk, algo) s.
        andThen (insertCertificationArtifact (cy_tenantId input) (cy_closeSessionId input) p artifact h sig pk algo s)
          (\<lambda>i s. (Inr (Some i), s))) = (res, s')"
      by (simp add: certify_artifact_def b_def [symmetric] build_and_insert_artifact_def w) (simp add: b_def artifact_input_def)
    show ?thesis
    proof (cases x)
      case (Inl e)
      with run \<open>books w = books s\<close> show ?thesis by auto
    next
      case (Inr y)
      obtain a h sg pk algo where y: "y = (a, h, sg, pk, algo)" by (cases y) auto
      with Inr w obtain i m where "a = artifact_json (an_mode A) i b m"
        using buildCertificationArtifact_result by blast
      then have named: "names_snapshot r n" if "ca_artifact r = jsonb_roundtrip a" for r
        unfolding names_snapshot_def that by (intro exI [of _ "an_mode A"] exI [of _ i] exI [of _ b] exI [of _ m]) (simp add: b_def artifact_input_def)
      obtain v z where v: "insertCertificationArtifact (cy_tenantId input) (cy_closeSessionId input) p a h sg pk algo w = (v, z)"
        by fastforce
      from insertCertificationArtifact_cases [OF v] run Inr y v parts \<open>books w = books s\<close> named show ?thesis
        by (cases v) auto
    qed
  qed (use assms False chain u in \<open>auto simp: certify_artifact_def\<close>)
qed

lemma session_row_books: "books s' = (close_sessions s, n, a) \<Longrightarrow> session_row t i s' = session_row t i s"
  by (simp add: books_def session_row_def)

text \<open>What the writes of a successful certification leave in the tables.\<close>

definition certified_row ::
  "CertifyCloseInput \<Rightarrow> timestamp \<Rightarrow> string \<Rightarrow> string option \<Rightarrow> timestamp \<Rightarrow> close_session_row \<Rightarrow> close_session_row" where
  "certified_row input certAt snapshotId artifactId upd r =
     r\<lparr>cs_status := Certified, cs_certified_by := Some (cy_certifiedBy input), cs_certified_at := Some certAt,
       cs_certification_memo := cy_memo input, cs_certified_snapshot_id := Some snapshotId,
       cs_certification_artifact_id := coalesce artifactId (cs_certification_artifact_id r), cs_updated_at := upd\<rparr>"

lemma certified_row_simps [simp]:
  "cs_status (certified_row input c n a u r) = Certified" "same_session r (certified_row input c n a u r)"
  "cs_certified_by (certified_row input c n a u r) = Some (cy_certifiedBy input)"
  "cs_certified_at (certified_row input c n a u r) = Some c"
  "cs_certified_snapshot_id (certified_row input c n a u r) = Some n"
  "cs_certification_artifact_id (certified_row input c n a u r) = coalesce a (cs_certification_artifact_id r)"
  by (simp_all add: certified_row_def same_session_def)

lemma updateCertification_result:
  assumes "session_row t i s = Some r" and "t = cy_tenantId input" and "i = cy_closeSessionId input"
  shows "\<exists>upd u. updateCertification t i (cy_certifiedBy input) certAt (cy_memo input) (Some n) a s
      = (Some (rowToSession (certified_row input certAt n a upd r)), u)
    \<and> books u = (update_where (session_key t i) (certified_row input certAt n a upd) (close_sessions s),
        ledger_snapshots s, certification_artifacts s)
    \<and> session_row t i u = Some (certified_row input certAt n a upd r)"
proof -
  let ?s = "s\<lparr>ticks := Suc (ticks s)\<rparr>" and ?upd = "clock s (ticks s)"
  have row: "session_row t i (update_session t i (certified_row input certAt n a ?upd) ?s)
      = Some (certified_row input certAt n a ?upd r)"
    using assms(1) by (simp add: session_row_update certified_row_def)
  moreover have "updateCertification t i (cy_certifiedBy input) certAt (cy_memo input) (Some n) a s
      = (getCloseSessionById t i (update_session t i (certified_row input certAt n a ?upd) ?s),
         update_session t i (certified_row input certAt n a ?upd) ?s)"
    using assms(1) row_count_session [of t i ?s]
    by (simp add: updateCertification_def now_def Let_def certified_row_def [abs_def])
  ultimately show ?thesis
    by (intro exI [of _ ?upd] exI [of _ "update_session t i (certified_row input certAt n a ?upd) ?s"])
      (simp add: getCloseSessionById_def books_def update_session_def)
qed

lemma certify_writes_result:
  fixes s :: "'a close_db_scheme"
  assumes "certify_writes E S A input p payload checks s = (Inr ses, s')"
    and row: "session_row (cy_tenantId input) (cy_closeSessionId input) s = Some r"
  shows "\<exists>n (u :: 'a close_db_scheme) (s1 :: 'a close_db_scheme) certAt a upd. ls_id n \<notin> ls_id ` set (ledger_snapshots s)
    \<and> ls_tenant n = cy_tenantId input \<and> ls_session n = Some (cy_closeSessionId input)
    \<and> books u = (close_sessions s, ledger_snapshots s @ [n], certification_artifacts s)
    \<and> certify_artifact E A input p certAt n checks u = (Inr a, s1)
    \<and> books s' = (update_where (session_key (cy_tenantId input) (cy_closeSessionId input))
          (certified_row input certAt (ls_id n) a upd) (close_sessions s), ledger_snapshots s @ [n], certification_artifacts s1)
    \<and> ses = rowToSession (certified_row input certAt (ls_id n) a upd r)"
proof -
  let ?t = "cy_tenantId input" and ?i = "cy_closeSessionId input"
  obtain n v where n: "createSnapshotFromTrialBalanceAndEntries (e_sha256 E) S (e_decimal E) ?t p
       (Some (cy_certifiedBy input)) ''close_session'' (Some ?i) payload s = (Inr n, v)"
    using assms(1) by (auto simp: certify_writes_def andThen_Inr_iff)
  note snap = createSnapshot_result [OF n]
  define certAt u where "certAt = clock v (ticks v)" and "u = v\<lparr>ticks := Suc (ticks v)\<rparr>"
  from assms(1) n obtain a s1 where a: "certify_artifact E A input p certAt n checks u = (Inr a, s1)"
    by (auto simp: certify_writes_def now_def certAt_def u_def andThen_Inr_iff Let_def)
  have u: "books u = (close_sessions s, ledger_snapshots s @ [n], certification_artifacts s)"
    using snap by (simp add: u_def)
  then have s1: "close_sessions s1 = close_sessions s" "ledger_snapshots s1 = ledger_snapshots s @ [n]"
    using certify_artifact_cases [OF a] by (auto simp: books_def)
  then have "session_row ?t ?i s1 = Some r" using row by (simp add: session_row_def)
  from updateCertification_result [OF this refl refl, of certAt "ls_id n" a] obtain upd w where
    w: "updateCertification ?t ?i (cy_certifiedBy input) certAt (cy_memo input) (Some (ls_id n)) a s1
      = (Some (rowToSession (certified_row input certAt (ls_id n) a upd r)), w)"
    "books w = (update_where (session_key ?t ?i) (certified_row input certAt (ls_id n) a upd) (close_sessions s1),
        ledger_snapshots s1, certification_artifacts s1)" by blast
  from assms(1) n a w(1) have "books s' = books w \<and> ses = rowToSession (certified_row input certAt (ls_id n) a upd r)"
    unfolding certify_writes_def
    by (simp add: now_def certAt_def [symmetric] u_def [symmetric] andThen_Inr_iff)
      (metis books_recordMaterialEvent snd_conv)
  with w(2) s1 snap u a show ?thesis
    by (intro exI [of _ n] exI [of _ u] exI [of _ s1] exI [of _ certAt] exI [of _ a] exI [of _ upd]) simp
qed

lemma reach_certify_artifact: "reaches book_step books s (snd (certify_artifact E A input p c n checks s))"
proof -
  obtain res s' where "certify_artifact E A input p c n checks s = (res, s')" by fastforce
  moreover from certify_artifact_cases [OF this] have "books s' = books s \<or> book_step (books s) (books s')"
    by (auto simp: books_def image_iff intro!: book_step.artifact) fastforce+
  ultimately show ?thesis by (auto simp: reaches_def)
qed

lemma reach_certified_row:
  assumes "books_ok (books s)" and "session_row t i s = Some r" and "cs_status r = UnderReview"
    and "n \<in> set ns" and "ls_tenant n = t" and "ls_session n = Some i"
  shows "book_step (close_sessions s, ns, as) (update_where (session_key t i) (certified_row input c (ls_id n) a upd) (close_sessions s), ns, as)"
proof (rule book_step.move)
  fix q assume "q \<in> set (close_sessions s)" and "session_key t i q"
  with assms(1,2) have "q = r" by (rule session_row_unique)
  with assms session_row_key [OF assms(2)] show "session_move ns q (certified_row input c (ls_id n) a upd q)"
    by (auto simp: session_move_def attested_def list_ex_iff certified_row_def same_session_def)
qed

lemma certify_transaction_result:
  assumes "certify_transaction E S A input s = (Inr ses, s')"
  shows "\<exists>r p adjusted hasGL prior checks manifest.
    session_row (cy_tenantId input) (cy_closeSessionId input) s = Some r
    \<and> certify_preconditions A input (rowToSession r) = Inr ()
    \<and> anchored_trial_balance A = Inr (adjusted, hasGL)
    \<and> prior = getPriorCertifiedSnapshotForEntity (cy_tenantId input) (cs_entity r) (ses_periodEnd (rowToSession r)) s
    \<and> (\<forall>n. prior = Some n \<longrightarrow> verifySnapshotHash (e_sha256 E) S (e_decimal E) n)
    \<and> p = js_or (cy_periodLabel input) (period_of (rowToSession r))
    \<and> validated_statements (e_decimal E) A (snapshot_payload (e_decimal E) adjusted prior (ses_standard (rowToSession r)))
        (getPriorPeriodRetainedEarnings (cy_tenantId input) (cs_entity r) p s) = Inr checks
    \<and> an_manifest A = Inr manifest
    \<and> certify_writes E S A input p (snapshot_payload (e_decimal E) adjusted prior (ses_standard (rowToSession r))
          \<lparr>sp_manifest := Some manifest, sp_gl := (if hasGL then an_generalLedger A else None)\<rparr>) checks s = (Inr ses, s')"
  using assms unfolding certify_transaction_def
  by (auto simp: session_found Let_def split: option.splits sum.splits prod.splits if_splits)

lemma certify_preconditions_status:
  "certify_preconditions A input session = Inr () \<Longrightarrow> ses_status session = UnderReview"
  by (auto simp: certify_preconditions_def split: if_splits)

lemma reach_certifyCloseSession:
  fixes s :: "'a close_db_scheme"
  assumes ok: "books_ok (books s)"
  shows "reaches book_step books s (snd (certifyCloseSession store E S A input role s))"
proof -
  have "reaches book_step books s (snd (withTransaction (certify_transaction E S A input) s))"
  proof (cases "certify_transaction E S A input s")
    case (Pair res s')
    show ?thesis
    proof (cases res)
      case (Inl e)
      with Pair show ?thesis by (simp add: withTransaction.simps reaches_same)
    next
      case (Inr ses)
      from certify_transaction_result [OF Pair [unfolded Inr]] obtain r p payload checks where
        row: "session_row (cy_tenantId input) (cy_closeSessionId input) s = Some r"
        and pre: "certify_preconditions A input (rowToSession r) = Inr ()"
        and writes: "certify_writes E S A input p payload checks s = (Inr ses, s')" by blast
      have r: "cs_status r = UnderReview" using certify_preconditions_status [OF pre] by simp
      from certify_writes_result [OF writes row] obtain n certAt a upd and u s1 :: "'a close_db_scheme" where
        n: "ls_id n \<notin> ls_id ` set (ledger_snapshots s)" "ls_tenant n = cy_tenantId input"
          "ls_session n = Some (cy_closeSessionId input)"
        and u: "books u = (close_sessions s, ledger_snapshots s @ [n], certification_artifacts s)"
        and art: "certify_artifact E A input p certAt n checks u = (Inr a, s1)"
        and s': "books s' = (update_where (session_key (cy_tenantId input) (cy_closeSessionId input))
          (certified_row input certAt (ls_id n) a upd) (close_sessions s), ledger_snapshots s @ [n], certification_artifacts s1)"
        by blast
      have "book_step (books s) (books u)" unfolding u using n by (auto simp: books_def intro!: book_step.snapshot)
      moreover have "book_step\<^sup>*\<^sup>* (books u) (books s1)"
        using reach_certify_artifact [of u E A input p certAt n checks] art by (simp add: reaches_def)
      moreover have "books s1 = (close_sessions s, ledger_snapshots s @ [n], certification_artifacts s1)"
        using certify_artifact_cases [OF art] u by (auto simp: books_def)
      moreover have "book_step (close_sessions s, ledger_snapshots s @ [n], certification_artifacts s1) (books s')"
        unfolding s' using ok row r n by (intro reach_certified_row) auto
      ultimately show ?thesis using Pair Inr
        by (auto simp: withTransaction.simps reaches_def intro: rtranclp_trans converse_rtranclp_into_rtranclp rtranclp.rtrancl_into_rtrancl)
    qed
  qed
  then show ?thesis
    unfolding certifyCloseSession_def by (auto simp: reaches_same split: sum.splits)
qed

subsection \<open>Advancing\<close>

lemma books_update_proposals [simp]: "books (s\<lparr>module_proposals := p\<rparr>) = books s"
  by (simp add: books_def)

lemma books_propose_module [simp]: "books (propose_module M t i e name s) = books s"
proof -
  have issue: "books (module_issue t i e a b c d s) = books s" for a b c d
    by (metis books_createIssueForSession module_issue_def prod.collapse swallow.simps)
  have "books (snd (run_module M t i e name s)) = books s"
    by (auto simp: run_module_def skipped_module_def issue split: sum.splits bool.splits)
  then show ?thesis
    by (auto simp: propose_module_def store_result_def store_failure_def upsert_proposal_def Let_def
        split: prod.splits sum.splits)
qed

lemma books_autoProposModules [simp]: "books (autoProposModules M t i e s) = books s"
proof -
  have "books (foldl (\<lambda>s name. propose_module M t i e name s) s names) = books s" for names
    by (induction names arbitrary: s) auto
  then show ?thesis by (simp add: autoProposModules_def)
qed

lemma books_issue_result: "createIssueForSession input s = (x, u) \<Longrightarrow> books u = books s"
  by (metis books_createIssueForSession snd_conv)

lemma books_continuity_check [simp]: "books (snd (continuity_check D A input session s)) = books s"
  by (auto simp: continuity_check_def Let_def dest: books_issue_result split: option.splits prod.splits sum.splits)

lemma books_setup_work [simp]: "books (snd (setup_work D A input session s)) = books s"
  by (simp add: setup_work_def Let_def)

lemma books_announce [simp]: "books (announce input a b s) = books s"
  by (simp add: announce_def Let_def split: option.splits)

lemma reach_advance_body:
  fixes s :: "'a close_db_scheme"
  assumes ok: "books_ok (books s)"
  shows "reaches book_step books s (snd (advance_body E A input s))"
proof -
  have tail: "books (snd (if c then let (a, u) = setup_work D A input y u in (Inr (y, a), u) else (Inr (y, False), u))) = books u"
    for c D y and u :: "'a close_db_scheme"
    using books_setup_work [of D A input y u] by (simp add: case_prod_unfold Let_def)
  show ?thesis
    unfolding advance_body_def
    by (intro bk.reach_option bk.reach_if bk.reach_return bk.reach_andThen reach_updateStatus ok reaches_same tail) simp_all
qed

lemma reach_advance_transaction:
  assumes ok: "books_ok (books s)"
  shows "reaches book_step books s (snd (advance_transaction E A input s))"
proof -
  obtain x u where u: "withTransaction (advance_body E A input) s = (x, u)" by fastforce
  then have "reaches book_step books s u"
    using bk.reach_withTransaction [of s "advance_body E A input"] reach_advance_body [OF ok, of E A input] by simp
  with u show ?thesis
    by (auto simp: advance_transaction_def reaches_same split: sum.splits prod.splits)
qed

lemma reach_advanceSession:
  assumes ok: "books_ok (books s)"
  shows "reaches book_step books s (snd (advanceSession E A input s))"
proof -
  obtain x u where u: "advance_transaction E A input s = (x, u)" by fastforce
  then have "reaches book_step books s u" using reach_advance_transaction [OF ok, of E A input] by simp
  with u show ?thesis
    by (auto simp: advanceSession_def Let_def reaches_def split: option.splits sum.splits error.splits)
qed

end
