(* ===== verification/JournalEntries.thy ===== *)
theory JournalEntries
  imports JournalPosting Lifecycle
begin

text \<open>
  What the journal entry service guarantees. \<open>core_step\<close> is the abstract machine of the entries and
  their lines; every operation of the service refines it, so that its invariants (balance of what
  is posted, immutability, segregation of duties) hold of the service.
\<close>

section \<open>The abstract machine\<close>

type_synonym je_core = "je_row list \<times> line_row list"

definition core :: "'a je_db_scheme \<Rightarrow> je_core" where
  "core s = (journal_entries s, journal_entry_lines s)"

fun je_edge :: "JournalEntryStatus \<Rightarrow> JournalEntryStatus \<Rightarrow> bool" where
  "je_edge Draft Proposed = True"
| "je_edge Proposed Approved = True"
| "je_edge Proposed Rejected = True"
| "je_edge Approved Posted = True"
| "je_edge _ _ = False"

definition totals_equal :: "string \<Rightarrow> line_row list \<Rightarrow> bool" where
  "totals_equal i ls = (sum_list (map jl_debit (filter (\<lambda>l. jl_je l = i) ls))
     = sum_list (map jl_credit (filter (\<lambda>l. jl_je l = i) ls)))"

definition independent :: "je_row \<Rightarrow> bool" where
  "independent r = (\<exists>a. je_approved_by r = Some a \<and> (truthy (je_created_by r) \<longrightarrow> je_created_by r \<noteq> Some a))"

definition same_entry :: "je_row \<Rightarrow> je_row \<Rightarrow> bool" where
  "same_entry r q = (je_id q = je_id r \<and> je_tenant q = je_tenant r \<and> je_session q = je_session r
     \<and> je_created_by q = je_created_by r \<and> je_memo q = je_memo r \<and> je_source q = je_source r
     \<and> je_created_at q = je_created_at r)"

definition legal_move :: "bool \<Rightarrow> line_row list \<Rightarrow> je_row \<Rightarrow> je_row \<Rightarrow> bool" where
  "legal_move bypass ls r q =
     (\<not> je_frozen r \<and> same_entry r q
      \<and> (je_status q = je_status r \<and> je_approved_by q = je_approved_by r
         \<or> je_edge (je_status r) (je_status q)
           \<and> (if je_status q = Approved then bypass \<or> independent q else je_approved_by q = je_approved_by r)
           \<and> (je_status q = Posted \<longrightarrow> totals_equal (je_id r) ls)))"

definition legal_line :: "line_row \<Rightarrow> bool" where
  "legal_line l = (0 \<le> jl_debit l \<and> 0 \<le> jl_credit l \<and> (0 < jl_debit l \<or> 0 < jl_credit l)
     \<and> jl_provenance l \<noteq> None)"

inductive core_step :: "bool \<Rightarrow> je_core \<Rightarrow> je_core \<Rightarrow> bool" for bypass where
  new: "je_status r = Draft \<Longrightarrow> je_id r \<notin> je_id ` set es \<Longrightarrow> core_step bypass (es, ls) (es @ [r], ls)"
| line: "r \<in> set es \<Longrightarrow> je_status r = Draft \<Longrightarrow> jl_je l = je_id r \<Longrightarrow> legal_line l
    \<Longrightarrow> (jl_je l, jl_index l) \<notin> (\<lambda>k. (jl_je k, jl_index k)) ` set ls
    \<Longrightarrow> core_step bypass (es, ls) (es, ls @ [l])"
| move: "(\<And>r. r \<in> set es \<Longrightarrow> p r \<Longrightarrow> legal_move bypass ls r (f r))
    \<Longrightarrow> core_step bypass (es, ls) (update_where p f es, ls)"
| remove: "(\<And>r. r \<in> set es \<Longrightarrow> p r \<Longrightarrow> je_status r \<in> {Draft, Rejected}
      \<and> filter (\<lambda>l. jl_je l = je_id r) ls = [])
    \<Longrightarrow> core_step bypass (es, ls) (delete_where p es, ls)"

text \<open>The invariant of the tables.\<close>

definition core_ok :: "bool \<Rightarrow> je_core \<Rightarrow> bool" where
  "core_ok bypass c =
     (case c of (es, ls) \<Rightarrow>
       distinct (map je_id es)
       \<and> distinct (map (\<lambda>l. (jl_je l, jl_index l)) ls)
       \<and> jl_je ` set ls \<subseteq> je_id ` set es
       \<and> (\<forall>l\<in>set ls. legal_line l)
       \<and> (\<forall>r\<in>set es. je_frozen r \<longrightarrow> totals_equal (je_id r) ls)
       \<and> (\<forall>r\<in>set es. je_status r \<in> {Approved, Posted, Exported} \<longrightarrow> bypass \<or> independent r))"

lemma same_entry_simps: "same_entry r q \<Longrightarrow> je_id q = je_id r \<and> je_created_by q = je_created_by r"
  by (simp add: same_entry_def)

lemma legal_move_id: "legal_move b ls r q \<Longrightarrow> je_id q = je_id r"
  by (simp add: legal_move_def same_entry_def)

lemma map_id_update:
  assumes "\<And>r. r \<in> set es \<Longrightarrow> p r \<Longrightarrow> legal_move b ls r (f r)"
  shows "map je_id (update_where p f es) = map je_id es"
  using assms by (induction es) (auto intro!: legal_move_id [of b ls])

lemma legal_move_ok:
  assumes "legal_move b ls r q" and "je_frozen r \<longrightarrow> totals_equal (je_id r) ls"
    and "je_status r \<in> {Approved, Posted, Exported} \<longrightarrow> b \<or> independent r"
  shows "(je_frozen q \<longrightarrow> totals_equal (je_id q) ls)
    \<and> (je_status q \<in> {Approved, Posted, Exported} \<longrightarrow> b \<or> independent q)"
  using assms
  by (cases "je_status r"; cases "je_status q")
    (auto simp: legal_move_def je_frozen_def same_entry_def independent_def)

lemma totals_equal_other: "jl_je l \<noteq> i \<Longrightarrow> totals_equal i (ls @ [l]) = totals_equal i ls"
  by (simp add: totals_equal_def)

lemma core_step_ok:
  assumes "core_step b c c'" and "core_ok b c"
  shows "core_ok b c'"
  using assms
proof (cases rule: core_step.cases)
  case (new r es ls)
  then have "\<not> je_frozen r" by (simp add: je_frozen_def)
  with new assms(2) show ?thesis by (auto simp: core_ok_def)
next
  case (line r es l ls)
  have "jl_je l \<noteq> je_id q" if "q \<in> set es" "je_frozen q" for q
  proof
    assume "jl_je l = je_id q"
    with line assms(2) that have "q = r" by (intro distinct_key_unique [of je_id es]) (auto simp: core_ok_def)
    with that line show False by (simp add: je_frozen_def)
  qed
  with line assms(2) show ?thesis by (auto simp: core_ok_def totals_equal_other)
next
  case (move es p ls f)
  have ids: "map je_id (update_where p f es) = map je_id es" using map_id_update move by blast
  then have "je_id ` set (update_where p f es) = je_id ` set es" by (metis list.set_map)
  moreover have "(je_frozen q \<longrightarrow> totals_equal (je_id q) ls)
      \<and> (je_status q \<in> {Approved, Posted, Exported} \<longrightarrow> b \<or> independent q)"
    if "q \<in> set (update_where p f es)" for q
  proof -
    from that obtain r where r: "r \<in> set es" "q = (if p r then f r else r)" by (auto simp: set_update_where)
    with move assms(2) legal_move_ok [of b ls r "f r"] show ?thesis by (auto simp: core_ok_def)
  qed
  ultimately show ?thesis using move assms(2) ids by (auto simp: core_ok_def)
next
  case (remove es p ls)
  have "jl_je l \<in> je_id ` set (delete_where p es)" if l: "l \<in> set ls" for l
  proof -
    from l remove assms(2) obtain r where r: "r \<in> set es" "jl_je l = je_id r" by (auto simp: core_ok_def)
    with l remove(3) [of r] have "\<not> p r" by (auto simp: filter_empty_conv)
    with r show ?thesis by (auto simp: delete_where_def)
  qed
  with remove assms(2) show ?thesis
    by (auto simp: core_ok_def delete_where_def distinct_map intro: inj_on_subset)
qed

lemma core_steps_ok: "(core_step b)\<^sup>*\<^sup>* c c' \<Longrightarrow> core_ok b c \<Longrightarrow> core_ok b c'"
  by (induction rule: rtranclp_induct) (auto intro: core_step_ok)

text \<open>Nothing changes a posted entry or its lines.\<close>

lemma core_step_immutable:
  assumes "core_step b (es, ls) (es', ls')" and "core_ok b (es, ls)" and "r \<in> set es" and "je_frozen r"
  shows "r \<in> set es' \<and> filter (\<lambda>l. jl_je l = je_id r) ls' = filter (\<lambda>l. jl_je l = je_id r) ls"
  using assms(1)
proof (cases rule: core_step.cases)
  case (line q l)
  have "jl_je l \<noteq> je_id r"
  proof
    assume "jl_je l = je_id r"
    with line assms(2,3) have "q = r" by (intro distinct_key_unique [of je_id es]) (auto simp: core_ok_def)
    with assms(4) line show False by (simp add: je_frozen_def)
  qed
  with line assms(3) show ?thesis by simp
next
  case (move p f)
  with assms(3,4) have "\<not> p r" by (auto simp: legal_move_def)
  with move assms(3) show ?thesis by (auto intro: update_where_keeps_mem)
next
  case (remove p)
  with assms(3,4) have "\<not> p r" by (force simp: je_frozen_def)
  with remove assms(3) show ?thesis by (simp add: delete_where_def)
qed (use assms in simp)

lemma core_steps_immutable:
  assumes "(core_step b)\<^sup>*\<^sup>* (es, ls) (es', ls')" and "core_ok b (es, ls)" and "r \<in> set es" and "je_frozen r"
  shows "r \<in> set es' \<and> filter (\<lambda>l. jl_je l = je_id r) ls' = filter (\<lambda>l. jl_je l = je_id r) ls"
  using assms(1)
proof (induction rule: rtranclp_induct2)
  case refl
  with assms(3) show ?case by simp
next
  case (step es1 ls1 es2 ls2)
  have "core_ok b (es1, ls1)" using core_steps_ok [OF step.hyps(1) assms(2)] .
  from core_step_immutable [OF step.hyps(2) this] step.IH assms(4) show ?case by auto
qed

section \<open>Refinement\<close>

text \<open>A call refines the machine when the tables it leaves are reached by steps of the machine.\<close>

abbreviation steps :: "bool \<Rightarrow> 'a je_db_scheme \<Rightarrow> 'b je_db_scheme \<Rightarrow> bool" where
  "steps b s s' \<equiv> (core_step b)\<^sup>*\<^sup>* (core s) (core s')"

lemma steps_refl: "core s' = core s \<Longrightarrow> steps b s s'"
  by simp

lemma steps_trans: "steps b s t \<Longrightarrow> steps b t u \<Longrightarrow> steps b s u"
  by (rule rtranclp_trans)

lemma steps_andThen:
  assumes "steps b s (snd p)" and "core_ok b (core s)"
    and "\<And>a. fst p = Inr a \<Longrightarrow> core_ok b (core (snd p)) \<Longrightarrow> steps b (snd p) (snd (f a (snd p)))"
  shows "steps b s (snd (andThen p f))"
proof (cases "fst p")
  case (Inl e)
  with assms(1) show ?thesis by (simp add: andThen_state)
next
  case (Inr a)
  have "core_ok b (core (snd p))" using core_steps_ok [OF assms(1,2)] .
  with Inr assms(1,3) show ?thesis by (auto simp: andThen_state intro: rtranclp_trans)
qed

lemma core_frame [simp]:
  "core (s\<lparr>ticks := a\<rparr>) = core s" "core (s\<lparr>drawn := b\<rparr>) = core s" "core (s\<lparr>calls := c\<rparr>) = core s"
  "core (s\<lparr>audit_ledger := d\<rparr>) = core s" "core (s\<lparr>close_issues := e\<rparr>) = core s"
  "core (s\<lparr>issue_history := f\<rparr>) = core s" "core (s\<lparr>evidence_links := g\<rparr>) = core s"
  "core (s\<lparr>je_attachments := h\<rparr>) = core s" "core (s\<lparr>shadow_findings := k\<rparr>) = core s"
  by (simp_all add: core_def)

lemma record_call_frame [simp]: "core (record_call f args s) = core s"
  by (simp add: record_call_def)

lemma core_recordMaterialEvent [simp]: "core (snd (recordMaterialEvent b H input s)) = core s"
  by (auto simp: recordMaterialEvent_def appendEntry_def appendEntryInternal_unfold withTransaction.simps Let_def
      andThen_state split: sum.splits prod.splits)

lemma core_andThen:
  "core (snd p) = core s \<Longrightarrow> (\<And>a t. core t = core s \<Longrightarrow> core (snd (f a t)) = core s)
     \<Longrightarrow> core (snd (andThen p f)) = core s"
  by (simp add: andThen_state split: sum.splits)

lemma core_appendIssueHistory [simp]: "core (snd (appendIssueHistory i a b who c s)) = core s"
  by (simp add: appendIssueHistory_def insert_history_row_def random_text_def now_def)

lemma core_insertCloseIssue [simp]: "core (snd (insertCloseIssue i input st s)) = core s"
  by (simp add: insertCloseIssue_def insert_issue_row_def now_def split: option.splits)

lemma core_createIssue [simp]: "core (snd (createIssue input s)) = core s"
  by (simp add: createIssue_def random_text_def) (intro core_andThen; simp)

lemma core_createIssueForSession [simp]: "core (swallow (createIssueForSession input s)) = core s"
  by (metis core_createIssue createIssueForSession_def prod.collapse swallow.simps)

lemma core_raise_issues [simp]: "core (raise_issues inputs s) = core s"
  by (induction inputs arbitrary: s) (simp_all add: raise_issues_def)

lemma core_surface [simp]: "core (surface_findings tenant sessionId i shadow s) = core s"
  by (simp add: surface_findings_def)

lemma core_prepost [simp]: "core (snd (runPrePostChecksAndStore E tenant p i actor lines s)) = core s"
  by (simp add: runPrePostChecksAndStore_def createFinding_def random_text_def Let_def case_prod_unfold)

lemma core_after_post [simp]: "core (snd (after_post E tenant i je p t s)) = core s"
  unfolding after_post_def by (rule core_andThen) (auto simp: Let_def split: option.splits)

subsection \<open>The statements of the repository\<close>

lemma je_balanced_totals: "je_balanced i s = totals_equal i (journal_entry_lines s)"
  by (simp add: je_balanced_def totals_equal_def lines_of_def)

lemma steps_update_je:
  assumes "\<And>r. r \<in> set (journal_entries s) \<Longrightarrow> p r \<Longrightarrow> \<not> je_frozen r
      \<Longrightarrow> (je_status (f r) = Posted \<Longrightarrow> totals_equal (je_id r) (journal_entry_lines s))
      \<Longrightarrow> legal_move b (journal_entry_lines s) r (f r)"
  shows "steps b s (snd (update_je p f s))"
proof -
  have "core_step b (core s) (update_where p f (journal_entries s), journal_entry_lines s)"
    if "\<not> list_ex je_frozen (filter p (journal_entries s))"
      "\<not> list_ex (\<lambda>r. je_status (f r) = Posted \<and> \<not> je_balanced (je_id r) s) (filter p (journal_entries s))"
    unfolding core_def using that assms by (intro core_step.move) (auto simp: list_ex_iff je_balanced_totals)
  then show ?thesis by (auto simp: update_je_def Let_def core_def)
qed

lemma je_find_key: "je_find i t s = Some r \<Longrightarrow> r \<in> set (journal_entries s) \<and> je_id r = i \<and> je_tenant r = t"
  by (auto simp: je_find_def je_key_def dest: find_SomeD)

lemma status_set_same: "same_entry r (status_set st patch t r)" "je_status (status_set st patch t r) = st"
  by (simp_all add: status_set_def same_entry_def)

lemma status_set_approved:
  "je_approved_by (status_set st patch t r)
    = (if st = Rejected \<and> truthy (pt_rejectionReason patch) then je_approved_by r
       else coalesce (pt_approvedBy patch) (je_approved_by r))"
  by (simp add: status_set_def)

text \<open>A guarded status change along an edge.\<close>

lemma steps_status:
  assumes "pt_expectedStatus patch = Some e" and "je_edge e st"
    and "st \<noteq> Approved \<Longrightarrow> pt_approvedBy patch = None"
    and "st = Approved \<Longrightarrow> pt_approvedBy patch = Some a \<and>
      (b \<or> (\<forall>r\<in>set (journal_entries s). je_key i t r \<longrightarrow> truthy (je_created_by r) \<longrightarrow> je_created_by r \<noteq> Some a))"
  shows "steps b s (snd (updateJournalEntryStatus i t st patch s))"
proof -
  let ?p = "\<lambda>r. je_key i t r \<and> je_status r = e"
  have "legal_move b (journal_entry_lines s) r (status_set st patch u r)"
    if "r \<in> set (journal_entries s)" "?p r" "\<not> je_frozen r"
      "st = Posted \<Longrightarrow> totals_equal (je_id r) (journal_entry_lines s)" for r u
    using that assms
    by (auto simp: legal_move_def status_set_same status_set_approved independent_def same_entry_def
        dest: same_entry_simps) (auto simp: status_set_def)
  then have "steps b (s\<lparr>ticks := Suc (ticks s)\<rparr>)
      (snd (update_je ?p (status_set st patch (clock s (ticks s))) (s\<lparr>ticks := Suc (ticks s)\<rparr>)))"
    by (intro steps_update_je) (auto simp: status_set_same)
  then show ?thesis
    using assms(1) by (auto simp: updateJournalEntryStatus_def now_def Let_def andThen_state split: sum.splits)
qed

subsection \<open>The operations of the service\<close>

lemma getJournalEntryById_Some:
  "getJournalEntryById i t s = Some je \<longleftrightarrow> (\<exists>r. je_find i t s = Some r \<and> je = rowToJE r)"
  by (auto simp: getJournalEntryById_def)

lemma rowToJE_simps [simp]:
  "entry_status (rowToJE r) = je_status r" "createdBy (rowToJE r) = je_created_by r"
  "entry_id (rowToJE r) = je_id r" "approvedBy (rowToJE r) = je_approved_by r"
  "entryDate (rowToJE r) = None" "reversedByJeId (rowToJE r) = None"
  "closeSessionId (rowToJE r) = je_session r" "memo (rowToJE r) = je_memo r"
  by (simp_all add: rowToJE_def)

lemma no_patch_simps [simp]:
  "pt_approvedBy no_patch = None" "pt_expectedStatus no_patch = None"
  by (simp_all add: no_patch_def)

lemma steps_propose: "core_ok b (core s) \<Longrightarrow> steps b s (snd (proposeJE E t i s))"
  by (auto simp: proposeJE_def Let_def split: option.splits intro!: steps_andThen steps_status)

lemma steps_approve:
  assumes ok: "core_ok (isSameUserApproveAllowed E) (core s)"
  shows "steps (isSameUserApproveAllowed E) s (snd (approveJE E t i who s))"
proof (cases "je_find i t s")
  case None
  then show ?thesis by (simp add: approveJE_def getJournalEntryById_def)
next
  case (Some r)
  have only: "q = r" if "q \<in> set (journal_entries s)" "je_key i t q" for q
    using that ok je_find_key [OF Some] distinct_key_unique [of je_id "journal_entries s" q r]
    by (auto simp: core_ok_def core_def je_key_def)
  show ?thesis
  proof (cases "je_status r = Proposed
      \<and> \<not> (\<not> isSameUserApproveAllowed E \<and> truthy (je_created_by r) \<and> je_created_by r = Some who)")
    case True
    have "steps (isSameUserApproveAllowed E) s (snd (updateJournalEntryStatus i t Approved
        (no_patch\<lparr>pt_approvedBy := Some who, pt_expectedStatus := Some Proposed\<rparr>) s))"
      using True only by (intro steps_status [where a = who]) auto
    with True Some ok show ?thesis
      by (auto simp: approveJE_def getJournalEntryById_def split: option.splits intro!: steps_andThen)
  next
    case False
    with Some show ?thesis by (auto simp: approveJE_def getJournalEntryById_def)
  qed
qed

lemma steps_status_later:
  assumes "core u = core s" and "pt_expectedStatus p = Some e" and "je_edge e st"
    and "st \<noteq> Approved" and "pt_approvedBy p = None"
  shows "steps b s (snd (updateJournalEntryStatus i t st p u))"
  using steps_status [of p e st "[]" b u i t] assms by auto

text \<open>The control flow of an operation, kept apart from the states it passes through.\<close>

lemma steps_option:
  "(x = None \<Longrightarrow> steps b s (snd A)) \<Longrightarrow> (\<And>y. x = Some y \<Longrightarrow> steps b s (snd (B y)))
     \<Longrightarrow> steps b s (snd (case x of None \<Rightarrow> A | Some y \<Rightarrow> B y))"
  by (cases x) auto

lemma steps_if:
  "(c \<Longrightarrow> steps b s (snd A)) \<Longrightarrow> (\<not> c \<Longrightarrow> steps b s (snd B)) \<Longrightarrow> steps b s (snd (if c then A else B))"
  by simp

lemma steps_let: "(\<And>x. x = e \<Longrightarrow> steps b s (snd (f x))) \<Longrightarrow> steps b s (snd (Let e f))"
  by (simp add: Let_def)

lemma steps_let_pair:
  "(\<And>x y. x = fst e \<Longrightarrow> y = snd e \<Longrightarrow> steps b s (snd (f x y))) \<Longrightarrow> steps b s (snd (let (x, y) = e in f x y))"
  by (simp add: case_prod_unfold)

lemma steps_return: "core u = core s \<Longrightarrow> steps b s (snd (r, u))"
  by simp

lemma steps_frame: "core (snd p) = core s \<Longrightarrow> steps b s (snd p)"
  by simp

lemma core_andThen_return [simp]: "core (snd (andThen p (\<lambda>a u. (g a, u)))) = core (snd p)"
  by (auto simp: andThen_state split: sum.splits)

lemma core_andThen_return' [simp]: "core (snd (andThen p (\<lambda>a. Pair r))) = core (snd p)"
  by (auto simp: andThen_state split: sum.splits)

lemmas steps_flow = steps_option steps_if steps_let_pair steps_let steps_return

lemma steps_reject:
  assumes ok: "core_ok b (core s)"
  shows "steps b s (snd (rejectJE E t i reason who s))"
  unfolding rejectJE_def
  by (intro steps_flow steps_andThen [OF _ ok]) (auto intro!: steps_status_later)

lemma steps_post:
  assumes ok: "core_ok b (core s)"
  shows "steps b s (snd (postJE E t i s))"
  unfolding postJE_def
  by (intro steps_flow steps_andThen [OF _ ok]) (simp_all, auto intro!: steps_status_later)

lemma update_je_frozen:
  assumes "\<And>r. r \<in> set (journal_entries s) \<Longrightarrow> p r \<Longrightarrow> je_frozen r"
  shows "core (snd (update_je p f s)) = core s"
proof (cases "filter p (journal_entries s) = []")
  case True
  then have "update_where p f (journal_entries s) = journal_entries s"
    by (intro update_where_none) (simp add: filter_empty_conv)
  with True show ?thesis by (simp add: update_je_def core_def)
next
  case False
  with assms have "list_ex je_frozen (filter p (journal_entries s))"
    by (fastforce simp: list_ex_iff filter_empty_conv)
  then show ?thesis by (simp add: update_je_def)
qed

lemma core_export: "core (snd (exportJE t i s)) = core s"
proof -
  have "core (snd (updateJournalEntryStatus i t Exported (no_patch\<lparr>pt_expectedStatus := Some Posted\<rparr>) s)) = core s"
    unfolding updateJournalEntryStatus_def Let_def now_def case_prod_conv
    by (rule core_andThen) (auto simp: je_frozen_def intro!: trans [OF update_je_frozen])
  then show ?thesis
    by (auto simp: exportJE_def split: option.splits intro!: core_andThen)
qed

lemma insert_lines_steps:
  assumes "r \<in> set (journal_entries s)" and "je_status r = Draft" and "je_id r = i"
  shows "steps b s (snd (insert_lines i n ls s)) \<and> journal_entries (snd (insert_lines i n ls s)) = journal_entries s"
  using assms
proof (induction ls arbitrary: n s)
  case (Cons l ls)
  have step: "core_step b (core s) (core (s\<lparr>journal_entry_lines := journal_entry_lines s @ [k]\<rparr>))"
    if "insert_line_row k s = (Inr (), u)" "jl_je k = i" for k u
    using that Cons.prems unfolding core_def
    by (auto simp: insert_line_row_def legal_line_def split: if_splits intro!: core_step.line)
  have one: "steps b s (snd (insert_line_row k s)) \<and> journal_entries (snd (insert_line_row k s)) = journal_entries s"
    if "jl_je k = i" for k
    using step [OF _ that] by (auto simp: insert_line_row_def)
  have "steps b s (snd (andThen (insert_line_row k s) (\<lambda>_ s. insert_lines i m ls s)))
      \<and> journal_entries (snd (andThen (insert_line_row k s) (\<lambda>_ s. insert_lines i m ls s))) = journal_entries s"
    if "jl_je k = i" for k m
    using one [OF that] Cons.IH [of "snd (insert_line_row k s)" m] Cons.prems
    by (auto simp: andThen_state split: sum.splits intro: rtranclp_trans)
  then show ?case by (auto split: option.splits)
qed simp

lemma find_new_je: "i \<notin> je_id ` set es \<Longrightarrow> find (je_key i t) es = None"
  by (auto simp: find_None_iff_all je_key_def)

lemma insertJournalEntry_cases:
  "insertJournalEntry i sid t st mem src creator s = (res, u) \<Longrightarrow>
     core u = core s \<and> (\<exists>e. res = Inl e)
     \<or> i \<notin> je_id ` set (journal_entries s)
       \<and> core u = (journal_entries s @ [new_je_row i sid t st mem src creator (clock s (ticks s))], journal_entry_lines s)
       \<and> res = Inr (rowToJE (new_je_row i sid t st mem src creator (clock s (ticks s))))"
  by (auto simp: insertJournalEntry_def insert_je_row_def now_def getJournalEntryById_def je_find_def core_def
      find_append find_new_je new_je_row_def je_key_def split: if_splits option.splits)

lemma new_je_row_simps [simp]:
  "je_id (new_je_row i sid t st mem src creator u) = i" "je_status (new_je_row i sid t st mem src creator u) = st"
  "je_tenant (new_je_row i sid t st mem src creator u) = t"
  by (simp_all add: new_je_row_def)

lemma steps_create:
  fixes s :: "'a je_db_scheme"
  assumes ok: "core_ok b (core s)"
  shows "steps b s (snd (createDraftJE E input s))"
proof -
  have "steps b s (snd (andThen (insertJournalEntry i sid t Draft mem src creator u) (\<lambda>_ u.
      andThen (insertJournalEntryLines i lines u) (\<lambda>_ u. (case getJournalEntryById i t u of
        None \<Rightarrow> (Inl e, u) | Some je \<Rightarrow> (Inr je, u))))))" if "core u = core s" for i sid t mem src creator lines e
      and u :: "'a je_db_scheme"
  proof -
    obtain res v where v: "insertJournalEntry i sid t Draft mem src creator u = (res, v)" by fastforce
    show ?thesis
    proof (cases res)
      case (Inl e)
      with insertJournalEntry_cases [OF v] that v show ?thesis by auto
    next
      case (Inr je)
      with insertJournalEntry_cases [OF v] obtain r where r: "je_id r = i" "je_status r = Draft"
        "i \<notin> je_id ` set (journal_entries u)" "core v = (journal_entries u @ [r], journal_entry_lines u)"
        by (metis new_je_row_simps(1,2) sum.distinct(1))
      then have "core_step b (core s) (core v)" using that by (auto simp: core_def intro: core_step.new)
      moreover have "steps b v (snd (insert_lines i 0 lines v))"
        using r by (intro insert_lines_steps [THEN conjunct1]) (auto simp: core_def)
      ultimately have "steps b s (snd (insert_lines i 0 lines v))" by (rule converse_rtranclp_into_rtranclp)
      with v Inr show ?thesis
        by (auto simp: insertJournalEntryLines_def andThen_state split: sum.splits option.splits)
    qed
  qed
  then show ?thesis
    unfolding createDraftJE_def by (auto simp: random_text_def split: sum.splits)
qed

lemma swallow_snd: "swallow p = snd p"
  by (cases p) simp

lemma steps_delete:
  assumes ok: "core_ok b (core s)"
  shows "steps b s (snd (deleteDraftJE E t i who s))"
proof (cases "je_find i t s")
  case None
  then show ?thesis by (simp add: deleteDraftJE_def getJournalEntryById_def)
next
  case (Some r)
  have only: "q = r" if "q \<in> set (journal_entries s)" "je_key i t q" for q
    using that ok je_find_key [OF Some] distinct_key_unique [of je_id "journal_entries s" q r]
    by (auto simp: core_ok_def core_def je_key_def)
  have "steps b s (snd (deleteJournalEntry i t s))" if "je_status r \<in> {Draft, Rejected}"
  proof -
    have "core_step b (core s) (delete_where (je_key i t) (journal_entries s), journal_entry_lines s)"
      if "\<not> list_ex (\<lambda>r. lines_of (je_id r) s \<noteq> []) (filter (je_key i t) (journal_entries s))"
      unfolding core_def using that only \<open>je_status r \<in> {Draft, Rejected}\<close>
      by (intro core_step.remove) (auto simp: list_ex_iff lines_of_def filter_empty_conv)
    then show ?thesis
      by (auto simp: deleteJournalEntry_def Let_def lines_of_def core_def)
  qed
  with Some ok show ?thesis
    by (auto simp: deleteDraftJE_def getJournalEntryById_def intro!: steps_andThen)
qed

lemma steps_link:
  "steps b s (swallow (update_je p (\<lambda>r. r\<lparr>je_reverses := x, je_is_reversal := y\<rparr>) s))"
  unfolding swallow_snd by (rule steps_update_je) (auto simp: legal_move_def same_entry_def)

lemma core_link_back: "core (swallow (update_je (\<lambda>r. je_key i t r \<and> je_frozen r) f s)) = core s"
  unfolding swallow_snd by (rule update_je_frozen) simp

lemma steps_reverse:
  assumes ok: "core_ok b (core s)"
  shows "steps b s (snd (reversePostedJE E t i who d s))"
proof -
  have "steps b u (snd (let u = swallow (update_je (je_key j t)
        (\<lambda>r. r\<lparr>je_reverses := Some i, je_is_reversal := True\<rparr>) u);
      u = swallow (update_je (\<lambda>r. je_key i t r \<and> je_frozen r) (g j) u)
      in andThen (recordMaterialEvent True (e_sha256 E) (h u) u) (\<lambda>_ v. (Inr z, v))))" for u :: "'a je_db_scheme" and j g h z
    using steps_link [where b = b and s = u and p = "je_key j t" and x = "Some i" and y = True] by (simp add: Let_def core_link_back)
  then show ?thesis
    unfolding reversePostedJE_def
    by (intro steps_option steps_if steps_return steps_andThen [OF steps_create [OF ok] ok]) auto
qed

lemma steps_reverse_all:
  assumes "core_ok b (core s)"
  shows "steps b s (snd (reverse_all E t who is created skipped s))"
  using assms
proof (induction "is" arbitrary: created skipped s)
  case (Cons i "is")
  have one: "steps b s (snd (reversePostedJE E t i who None s))" using steps_reverse [OF Cons.prems] .
  then have "core_ok b (core (snd (reversePostedJE E t i who None s)))" using core_steps_ok Cons.prems by blast
  with one Cons.IH show ?case
    by (auto split: prod.splits sum.splits intro: rtranclp_trans)
qed simp

lemma steps_scheduled:
  "core_ok b (core s) \<Longrightarrow> steps b s (snd (processScheduledReversals E t asOf who s))"
  by (simp add: processScheduledReversals_def steps_reverse_all)

lemma core_attach: "core (snd (addJEAttachment t i ref s)) = core s"
  by (auto simp: addJEAttachment_def insertJEAttachment_def random_text_def now_def Let_def split: option.splits)

section \<open>The service as a machine\<close>

text \<open>Any sequence of calls of the service, each on the state the previous one left.\<close>

inductive je_step :: "'d env \<Rightarrow> 'a je_db_scheme \<Rightarrow> 'a je_db_scheme \<Rightarrow> bool" for E where
  create: "je_step E s (snd (createDraftJE E input s))"
| propose: "je_step E s (snd (proposeJE E t i s))"
| approve: "je_step E s (snd (approveJE E t i who s))"
| reject: "je_step E s (snd (rejectJE E t i reason who s))"
| post: "je_step E s (snd (postJE E t i s))"
| export: "je_step E s (snd (exportJE t i s))"
| delete: "je_step E s (snd (deleteDraftJE E t i who s))"
| reverse: "je_step E s (snd (reversePostedJE E t i who d s))"
| scheduled: "je_step E s (snd (processScheduledReversals E t asOf who s))"
| attach: "je_step E s (snd (addJEAttachment t i ref s))"

lemma je_step_refines:
  "je_step E s s' \<Longrightarrow> core_ok (isSameUserApproveAllowed E) (core s) \<Longrightarrow> steps (isSameUserApproveAllowed E) s s'"
  by (induction rule: je_step.induct)
    (auto simp: core_export core_attach
      intro: steps_create steps_propose steps_approve steps_reject steps_post steps_delete steps_reverse steps_scheduled)

lemma je_steps_refine:
  assumes "(je_step E)\<^sup>*\<^sup>* s s'" and "core_ok (isSameUserApproveAllowed E) (core s)"
  shows "steps (isSameUserApproveAllowed E) s s'"
  using assms(1)
proof (induction rule: rtranclp_induct)
  case (step t u)
  have "core_ok (isSameUserApproveAllowed E) (core t)" using core_steps_ok [OF step.IH assms(2)] .
  with step show ?case by (blast intro: je_step_refines rtranclp_trans)
qed simp

end
