(* ===== verification/Issues.thy ===== *)
theory Issues
  imports IssueService Lifecycle
begin

text \<open>
  What the issue service guarantees: the state machine its operations follow, and the agreement of
  every status with its append-only history.
\<close>

section \<open>The issue machine\<close>

text \<open>The moves that the operations make, and the component's steps.\<close>

definition issue_edge :: "CloseIssueStatus \<Rightarrow> CloseIssueStatus \<Rightarrow> bool" where
  "issue_edge a b =
     (case b of
        Detected \<Rightarrow> False
      | IssueInProgress \<Rightarrow> a \<noteq> Waived
      | _ \<Rightarrow> a \<notin> set TERMINAL_STATUSES)"

inductive issue_step :: "'a issue_db_scheme \<Rightarrow> 'a issue_db_scheme \<Rightarrow> bool" where
  create: "issue_step s (snd (createIssue input s))"
| assign: "issue_step s (snd (assignIssue t i whom who s))"
| start: "issue_step s (snd (startProgress t i who s))"
| resolve: "issue_step s (snd (resolveIssue t i resolution s))"
| verify: "issue_step s (snd (verifyIssue t i who verMethod s))"
| waive: "issue_step s (snd (waiveIssue t i justification who s))"
| reopen: "issue_step s (snd (reopenIssue t i reason who s))"
| autoVerify: "issue_step s (snd (autoVerifyIssue t i s))"

inductive_cases issue_stepE: "issue_step s s'"

text \<open>The history of an issue leads from one status to another.\<close>

fun trail :: "CloseIssueStatus \<Rightarrow> IssueHistoryEntry list \<Rightarrow> CloseIssueStatus \<Rightarrow> bool" where
  "trail a [] b = (a = b)"
| "trail a (h # hs) b = (ih_from h = a \<and> trail (ih_to h) hs b)"

definition history_of :: "string \<Rightarrow> 'a issue_db_scheme \<Rightarrow> IssueHistoryEntry list" where
  "history_of i s = filter (\<lambda>h. ih_issue h = i) (issue_history s)"

text \<open>
  Identifiers are drawn from a supply without repetitions; every issue has the status that its
  history leads to; every entry is a creation or a legal move; only warnings and infos are waived.
\<close>

definition issues_ok :: "'a issue_db_scheme \<Rightarrow> bool" where
  "issues_ok s =
     (inj (rands s)
      \<and> distinct (map ci_id (close_issues s)) \<and> distinct (map ih_id (issue_history s))
      \<and> (\<forall>r\<in>set (close_issues s). \<exists>n<drawn s. ci_id r = rands s n)
      \<and> (\<forall>h\<in>set (issue_history s). \<exists>n<drawn s. ih_id h = rands s n)
      \<and> ih_issue ` set (issue_history s) \<subseteq> ci_id ` set (close_issues s)
      \<and> (\<forall>r\<in>set (close_issues s). trail Detected (history_of (ci_id r) s) (ci_status r))
      \<and> (\<forall>h\<in>set (issue_history s). ih_from h = Detected \<and> ih_to h = Detected \<or> issue_edge (ih_from h) (ih_to h))
      \<and> (\<forall>r\<in>set (close_issues s). ci_status r = Waived \<longrightarrow> ci_severity r \<in> set WAIVABLE_SEVERITIES))"

lemma trail_snoc: "trail a (hs @ [h]) b \<longleftrightarrow> trail a hs (ih_from h) \<and> ih_to h = b"
  by (induction hs arbitrary: a) auto

lemma apply_extra_simps [simp]:
  "ci_id (apply_extra x r) = ci_id r" "ci_tenant (apply_extra x r) = ci_tenant r"
  "ci_status (apply_extra x r) = ci_status r" "ci_severity (apply_extra x r) = ci_severity r"
  "ci_period (apply_extra x r) = ci_period r"
  by (simp_all add: apply_extra_def)

lemma rowToIssue_simps [simp]:
  "ci_id (rowToIssue r) = ci_id r" "ci_tenant (rowToIssue r) = ci_tenant r"
  "ci_status (rowToIssue r) = ci_status r" "ci_severity (rowToIssue r) = ci_severity r"
  "ci_period (rowToIssue r) = ci_period r"
  by (simp_all add: rowToIssue_def)

lemma issue_row_frame [simp]:
  "issue_row t i (s\<lparr>ticks := a\<rparr>) = issue_row t i s" "issue_row t i (s\<lparr>drawn := b\<rparr>) = issue_row t i s"
  "issue_row t i (s\<lparr>calls := c\<rparr>) = issue_row t i s"
  "issue_row t i (s\<lparr>issue_history := d\<rparr>) = issue_row t i s"
  by (simp_all add: issue_row_def)

lemma issue_row_key:
  "issue_row t i s = Some r \<Longrightarrow> r \<in> set (close_issues s) \<and> ci_tenant r = t \<and> ci_id r = i"
  by (auto simp: issue_row_def issue_key_def dest: find_SomeD)

text \<open>The state after a status change at time \<open>u\<close>, with its history entry.\<close>

definition changed ::
  "tenant_id \<Rightarrow> string \<Rightarrow> CloseIssueStatus \<Rightarrow> IssueExtra \<Rightarrow> CloseIssueStatus \<Rightarrow> string \<Rightarrow> string option
     \<Rightarrow> 'a issue_db_scheme \<Rightarrow> 'a issue_db_scheme" where
  "changed t i st x from who c s =
     s\<lparr>ticks := ticks s + 2, close_issues := update_where (issue_key t i)
         (\<lambda>r. apply_extra x (r\<lparr>ci_status := st, ci_updated_at := clock s (ticks s)\<rparr>)) (close_issues s),
       drawn := Suc (drawn s),
       issue_history := issue_history s @ [\<lparr>ih_id = rands s (drawn s), ih_issue = i, ih_from = from,
         ih_to = st, ih_changed_by = who, ih_changed_at = clock s (Suc (ticks s)), ih_comment = c\<rparr>]\<rparr>"

lemma fresh_history: "issues_ok s \<Longrightarrow> rands s (drawn s) \<notin> ih_id ` set (issue_history s)"
  by (rule fresh_draw) (simp_all add: issues_ok_def)

lemma fresh_issue: "issues_ok s \<Longrightarrow> rands s (drawn s) \<notin> ci_id ` set (close_issues s)"
  by (rule fresh_draw) (simp_all add: issues_ok_def)

lemma find_issue_update:
  assumes "issue_row t i s = Some r"
  shows "issue_row t i (s\<lparr>close_issues := update_where (issue_key t i)
      (\<lambda>r. apply_extra x (r\<lparr>ci_status := st, ci_updated_at := u\<rparr>)) (close_issues s)\<rparr>)
    = Some (apply_extra x (r\<lparr>ci_status := st, ci_updated_at := u\<rparr>))"
proof -
  let ?f = "\<lambda>r. apply_extra x (r\<lparr>ci_status := st, ci_updated_at := u\<rparr>)"
  have "find (issue_key t i) (update_where (issue_key t i) ?f rows)
      = map_option ?f (find (issue_key t i) rows)" for rows
    by (rule find_update_same) (simp add: issue_key_def)
  with assms show ?thesis by (simp add: issue_row_def)
qed

lemma issue_ids_update:
  "map ci_id (update_where (issue_key t i)
     (\<lambda>r. apply_extra x (r\<lparr>ci_status := st, ci_updated_at := u\<rparr>)) rows) = map ci_id rows"
  "ci_id ` set (update_where (issue_key t i)
     (\<lambda>r. apply_extra x (r\<lparr>ci_status := st, ci_updated_at := u\<rparr>)) rows) = ci_id ` set rows"
proof -
  show ids: "map ci_id (update_where (issue_key t i)
     (\<lambda>r. apply_extra x (r\<lparr>ci_status := st, ci_updated_at := u\<rparr>)) rows) = map ci_id rows"
    by (rule map_update_where) simp
  show "ci_id ` set (update_where (issue_key t i)
     (\<lambda>r. apply_extra x (r\<lparr>ci_status := st, ci_updated_at := u\<rparr>)) rows) = ci_id ` set rows"
    using arg_cong [OF ids, of set] by simp
qed

lemma row_count_issue: "row_count (issue_key t i) (close_issues s) = 0 \<longleftrightarrow> issue_row t i s = None"
  by (simp add: row_count_0_iff issue_row_def find_None_iff_all)

text \<open>On a state that keeps the invariant, a status change of an existing issue succeeds.\<close>

lemma change_result:
  assumes ok: "issues_ok s" and r: "issue_row t i s = Some r"
  shows "finish_update (updateIssueStatus t i st x s) i from st who c
    = (Inr (rowToIssue (apply_extra x (r\<lparr>ci_status := st, ci_updated_at := clock s (ticks s)\<rparr>))),
       changed t i st x from who c s)"
proof -
  let ?s = "s\<lparr>ticks := Suc (ticks s)\<rparr>"
  have row: "issue_row t i ?s = Some r" using r by simp
  have i: "i \<in> ci_id ` set (close_issues s)" using issue_row_key [OF r] by auto
  then show ?thesis
    using fresh_history [OF ok] find_issue_update [OF row] row_count_issue [of t i ?s] r
    by (simp add: finish_update_def updateIssueStatus_def appendIssueHistory_def insert_history_row_def
        now_def random_text_def Let_def getCloseIssueById_def changed_def issue_ids_update)
qed

lemma changed_ok:
  assumes ok: "issues_ok s" and r: "issue_row t i s = Some r"
    and edge: "issue_edge (ci_status r) st"
    and waive: "st = Waived \<Longrightarrow> ci_severity r \<in> set WAIVABLE_SEVERITIES"
  shows "issues_ok (changed t i st x (ci_status r) who c s)"
proof -
  let ?f = "\<lambda>r. apply_extra x (r\<lparr>ci_status := st, ci_updated_at := clock s (ticks s)\<rparr>)"
  let ?rows = "update_where (issue_key t i) ?f (close_issues s)"
  let ?s = "changed t i st x (ci_status r) who c s"
  have r': "r \<in> set (close_issues s)" "ci_tenant r = t" "ci_id r = i" using issue_row_key [OF r] by auto
  have same: "issue_key t i q \<longleftrightarrow> q = r" if "q \<in> set (close_issues s)" for q
    using that r' ok distinct_key_unique [of ci_id "close_issues s" q r]
    by (auto simp: issues_ok_def issue_key_def)
  have s': "close_issues ?s = ?rows" "rands ?s = rands s" "drawn ?s = Suc (drawn s)"
      "issue_history ?s = issue_history s @ [\<lparr>ih_id = rands s (drawn s), ih_issue = i,
         ih_from = ci_status r, ih_to = st, ih_changed_by = who,
         ih_changed_at = clock s (Suc (ticks s)), ih_comment = c\<rparr>]"
    by (simp_all add: changed_def)
  have rows: "set ?rows = insert (?f r) (set (close_issues s) - {r})"
    using same r'(1) by (auto simp: set_update_where)
  have other: "ci_id q \<noteq> i" if "q \<in> set (close_issues s) - {r}" for q
    using that ok r' distinct_key_unique [of ci_id "close_issues s" q r] by (auto simp: issues_ok_def)
  have hist: "history_of j ?s = history_of j s @ (if j = i then
      [\<lparr>ih_id = rands s (drawn s), ih_issue = i, ih_from = ci_status r, ih_to = st, ih_changed_by = who,
        ih_changed_at = clock s (Suc (ticks s)), ih_comment = c\<rparr>] else [])" for j
    by (simp add: history_of_def changed_def)
  have 1: "\<forall>q\<in>set (close_issues ?s). trail Detected (history_of (ci_id q) ?s) (ci_status q)"
    using rows r' ok other by (auto simp: s' hist trail_snoc issues_ok_def)
  have 2: "\<forall>q\<in>set (close_issues ?s). ci_status q = Waived \<longrightarrow> ci_severity q \<in> set WAIVABLE_SEVERITIES"
    using rows ok waive by (auto simp: s' issues_ok_def)
  have 3: "\<forall>q\<in>set (close_issues ?s). \<exists>n<drawn ?s. ci_id q = rands ?s n"
  proof
    fix q
    assume "q \<in> set (close_issues ?s)"
    then have "ci_id q \<in> ci_id ` set (close_issues s)"
      using issue_ids_update(2) s'(1) by (metis image_eqI)
    then obtain q' where "q' \<in> set (close_issues s)" "ci_id q = ci_id q'" by auto
    with ok obtain n where "n < drawn s" "ci_id q = rands s n" by (auto simp: issues_ok_def)
    then show "\<exists>n<drawn ?s. ci_id q = rands ?s n"
      unfolding s'(2,3) by (auto intro: less_SucI)
  qed
  have 4: "\<forall>h\<in>set (issue_history ?s). \<exists>n<drawn ?s. ih_id h = rands ?s n"
    using ok by (auto simp: issues_ok_def s' Ex_less_Suc)
  have 5: "distinct (map ci_id (close_issues ?s))" "distinct (map ih_id (issue_history ?s))"
      "ih_issue ` set (issue_history ?s) \<subseteq> ci_id ` set (close_issues ?s)" "inj (rands ?s)"
    using ok fresh_history [OF ok] r' by (auto simp: issues_ok_def s' issue_ids_update)
  have 6: "\<forall>h\<in>set (issue_history ?s).
      ih_from h = Detected \<and> ih_to h = Detected \<or> issue_edge (ih_from h) (ih_to h)"
    using ok edge by (auto simp: issues_ok_def s')
  show ?thesis unfolding issues_ok_def using 1 2 3 4 5 6 by blast
qed

text \<open>Reading the clock or noting a call does not touch the issues.\<close>

lemma issues_ok_frame [simp]:
  "issues_ok (s\<lparr>ticks := a\<rparr>) = issues_ok s" "issues_ok (s\<lparr>calls := c\<rparr>) = issues_ok s"
  by (simp_all add: issues_ok_def history_of_def)

lemma getCloseIssueById_Some:
  "getCloseIssueById t i s = Some v \<longleftrightarrow> (\<exists>r. issue_row t i s = Some r \<and> v = rowToIssue r)"
  by (auto simp: getCloseIssueById_def)

lemma change_ok:
  assumes "issues_ok s" and "issue_row t i s = Some r" and "issue_edge (ci_status r) st"
    and "st = Waived \<Longrightarrow> ci_severity r \<in> set WAIVABLE_SEVERITIES"
  shows "issues_ok (snd (finish_update (updateIssueStatus t i st x (s\<lparr>ticks := n\<rparr>)) i (ci_status r) st who c))"
    and "issues_ok (snd (finish_update (updateIssueStatus t i st x s) i (ci_status r) st who c))"
  using changed_ok [OF assms] changed_ok [of "s\<lparr>ticks := n\<rparr>" t i r] assms
    change_result [OF assms(1,2)] change_result [of "s\<lparr>ticks := n\<rparr>" t i r] by simp_all

lemma autoVerify_finish:
  "autoVerifyIssue t i s =
     (case getCloseIssueById t i s of
        None \<Rightarrow> (Inr None, s)
      | Some current \<Rightarrow>
          if ci_status current \<in> set TERMINAL_STATUSES then (Inr None, s)
          else (case finish_update (updateIssueStatus t i Verified
                     (no_extra\<lparr>ex_verifiedBy := Some (Some ''system''), ex_verifiedAt := Some (clock s (ticks s)),
                       ex_verificationMethod := Some (Some ''automatic_recheck'')\<rparr>)
                     (s\<lparr>ticks := Suc (ticks s)\<rparr>))
                   i (ci_status current) Verified ''system'' (Some ''Automatic recheck passed'') of
                  (r, s') \<Rightarrow> (case r of Inr issue \<Rightarrow> Inr (Some issue)
                    | Inl e \<Rightarrow> if e = issue_not_found then Inr None else Inl e, s')))"
  by (auto simp: autoVerifyIssue_def finish_update_def now_def Let_def appendIssueHistory_def
      insert_history_row_def issue_not_found_def split: option.splits prod.splits)

subsection \<open>Every operation keeps the invariant\<close>

lemmas issue_machine = issue_edge_def TERMINAL_STATUSES_def WAIVABLE_SEVERITIES_def

lemma assign_ok:
  assumes "issues_ok s"
  shows "issues_ok (snd (assignIssue t i whom who s))"
proof (cases "issue_row t i s")
  case None
  with assms show ?thesis by (simp add: assignIssue_def getCloseIssueById_def)
next
  case (Some r)
  with change_ok(1) [OF assms Some, of Assigned] assms show ?thesis
    by (simp add: assignIssue_def getCloseIssueById_def now_def Let_def issue_machine)
qed

lemma start_ok:
  assumes "issues_ok s"
  shows "issues_ok (snd (startProgress t i who s))"
proof (cases "issue_row t i s")
  case None
  with assms show ?thesis by (simp add: startProgress_def getCloseIssueById_def)
next
  case (Some r)
  with change_ok(2) [OF assms Some, of IssueInProgress] assms show ?thesis
    by (simp add: startProgress_def getCloseIssueById_def now_def Let_def issue_machine)
qed

lemma resolve_ok:
  assumes "issues_ok s"
  shows "issues_ok (snd (resolveIssue t i resolution s))"
proof (cases "issue_row t i s")
  case None
  with assms show ?thesis by (simp add: resolveIssue_def getCloseIssueById_def)
next
  case (Some r)
  with change_ok(1) [OF assms Some, of Resolved] assms show ?thesis
    by (simp add: resolveIssue_def getCloseIssueById_def now_def Let_def issue_machine)
qed

lemma waive_ok:
  assumes "issues_ok s"
  shows "issues_ok (snd (waiveIssue t i justification who s))"
proof (cases "issue_row t i s")
  case None
  with assms show ?thesis by (simp add: waiveIssue_def getCloseIssueById_def)
next
  case (Some r)
  with change_ok(2) [OF assms Some, of Waived] assms show ?thesis
    by (simp add: waiveIssue_def getCloseIssueById_def now_def Let_def issue_machine)
qed

lemma verify_ok:
  assumes "issues_ok s"
  shows "issues_ok (snd (verifyIssue t i who verMethod s))"
proof (cases "issue_row t i s")
  case None
  with assms show ?thesis by (simp add: verifyIssue_def getCloseIssueById_def)
next
  case (Some r)
  with change_ok(1) [OF assms Some, of Verified] assms show ?thesis
    by (cases "ci_status r")
      (simp_all add: verifyIssue_def getCloseIssueById_def now_def Let_def issue_machine)
qed

lemma reopen_ok:
  assumes "issues_ok s"
  shows "issues_ok (snd (reopenIssue t i reason who s))"
proof (cases "issue_row t i s")
  case None
  with assms show ?thesis by (simp add: reopenIssue_def getCloseIssueById_def)
next
  case (Some r)
  with change_ok(2) [OF assms Some, of IssueInProgress] assms show ?thesis
    by (cases "ci_status r") (simp_all add: reopenIssue_def getCloseIssueById_def issue_machine)
qed

lemma autoVerify_ok:
  assumes "issues_ok s"
  shows "issues_ok (snd (autoVerifyIssue t i s))"
proof (cases "issue_row t i s")
  case None
  with assms show ?thesis by (simp add: autoVerifyIssue_def getCloseIssueById_def)
next
  case (Some r)
  with change_ok(1) [OF assms Some, of Verified] assms show ?thesis
    by (simp add: autoVerify_finish getCloseIssueById_def issue_machine case_prod_unfold)
qed

text \<open>The row that a creation inserts.\<close>

lemma insert_issue_ok:
  assumes ok: "issues_ok s" and r: "ci_id r = rands s n" "n < m" "ci_status r = Detected" "drawn s \<le> n"
  shows "issues_ok (s\<lparr>drawn := m, close_issues := close_issues s @ [r]\<rparr>)"
proof -
  have "\<forall>q\<in>set (close_issues s). \<exists>k<n. ci_id q = rands s k"
    using ok r(4) unfolding issues_ok_def by (meson order.strict_trans2)
  with ok have new: "rands s n \<notin> ci_id ` set (close_issues s)"
    by (intro fresh_draw) (simp_all add: issues_ok_def)
  have "ih_issue ` set (issue_history s) \<subseteq> ci_id ` set (close_issues s)"
    using ok by (simp add: issues_ok_def)
  with new have h: "filter (\<lambda>h. ih_issue h = rands s n) (issue_history s) = []"
    unfolding filter_empty_conv by (metis imageI subsetD)
  have later: "\<exists>k<m. P k" if "\<exists>k<drawn s. P k" for P
    using that r(2,4) by (meson less_trans order.strict_trans2)
  have "\<forall>q\<in>set (close_issues s). \<exists>k<m. ci_id q = rands s k"
      "\<forall>h\<in>set (issue_history s). \<exists>k<m. ih_id h = rands s k"
    using ok later by (auto simp: issues_ok_def)
  with ok new h r show ?thesis by (auto simp: issues_ok_def history_of_def)
qed

lemma issues_ok_draw:
  assumes "issues_ok s" and "drawn s \<le> m"
  shows "issues_ok (s\<lparr>drawn := m\<rparr>)"
proof -
  have "\<exists>k<m. P k" if "\<exists>k<drawn s. P k" for P
    using that assms(2) by (meson order.strict_trans2)
  then have "\<forall>q\<in>set (close_issues s). \<exists>k<m. ci_id q = rands s k"
      "\<forall>h\<in>set (issue_history s). \<exists>k<m. ih_id h = rands s k"
    using assms(1) by (auto simp: issues_ok_def)
  with assms(1) show ?thesis by (auto simp: issues_ok_def history_of_def)
qed

text \<open>The creation entry of an issue that is still in the status \<open>detected\<close>.\<close>

lemma creation_entry_ok:
  assumes ok: "issues_ok s" and r: "r \<in> set (close_issues s)" "ci_status r = Detected"
  shows "issues_ok (snd (appendIssueHistory (ci_id r) Detected Detected who c s))"
proof -
  define h where "h = \<lparr>ih_id = rands s (drawn s), ih_issue = ci_id r, ih_from = Detected, ih_to = Detected,
    ih_changed_by = who, ih_changed_at = clock s (ticks s), ih_comment = c\<rparr>"
  let ?s = "s\<lparr>drawn := Suc (drawn s), ticks := Suc (ticks s), issue_history := issue_history s @ [h]\<rparr>"
  have s': "snd (appendIssueHistory (ci_id r) Detected Detected who c s) = ?s"
    using fresh_history [OF ok] r(1)
    by (simp add: appendIssueHistory_def insert_history_row_def now_def random_text_def h_def)
  have ok1: "issues_ok (s\<lparr>drawn := Suc (drawn s)\<rparr>)" using issues_ok_draw [OF ok] by simp
  have "trail Detected (history_of (ci_id q) ?s) (ci_status q)" if "q \<in> set (close_issues s)" for q
    using that r ok distinct_key_unique [of ci_id "close_issues s" q r]
    by (auto simp: issues_ok_def history_of_def h_def trail_snoc)
  then show ?thesis
    using ok1 fresh_history [OF ok] r(1) unfolding s' by (auto simp: issues_ok_def h_def)
qed

lemma new_issue_row_simps [simp]:
  "ci_id (new_issue_row i input st t) = i" "ci_tenant (new_issue_row i input st t) = ni_tenantId input"
  "ci_status (new_issue_row i input st t) = st" "ci_period (new_issue_row i input st t) = ni_periodId input"
  "ci_severity (new_issue_row i input st t) = ni_severity input"
  "ci_category (new_issue_row i input st t) = ni_category input"
  by (simp_all add: new_issue_row_def)

text \<open>An insertion is refused and changes nothing, or it appends the row and returns it.\<close>

lemma insertCloseIssue_result:
  "insertCloseIssue i input st s =
     (let r = new_issue_row i input st (clock s (ticks s)); s1 = s\<lparr>ticks := Suc (ticks s)\<rparr> in
      case insert_issue_row r s1 of
        (Inl e, s2) \<Rightarrow> (Inl e, s1)
      | (Inr _, s2) \<Rightarrow> (Inr (rowToIssue r), s1\<lparr>close_issues := close_issues s @ [r]\<rparr>))"
proof -
  have "find (issue_key t i) (rows @ [r]) = Some r"
    if "i \<notin> ci_id ` set rows" "ci_tenant r = t" "ci_id r = i" for rows t r
    using that by (induction rows) (auto simp: issue_key_def)
  then show ?thesis
    by (auto simp: insertCloseIssue_def insert_issue_row_def now_def Let_def getCloseIssueById_def issue_row_def)
qed

lemma create_ok:
  assumes ok: "issues_ok s"
  shows "issues_ok (snd (createIssue input s))"
proof -
  let ?s0 = "s\<lparr>drawn := Suc (drawn s)\<rparr>"
  let ?s1 = "?s0\<lparr>ticks := Suc (ticks s)\<rparr>"
  let ?r = "new_issue_row (rands s (drawn s)) input Detected (clock s (ticks s))"
  let ?s2 = "?s1\<lparr>close_issues := close_issues s @ [?r]\<rparr>"
  have ok1: "issues_ok ?s1" using issues_ok_draw [OF ok] by simp
  have ok2: "issues_ok ?s2"
    using insert_issue_ok [OF ok, of ?r "drawn s" "Suc (drawn s)"] by (simp add: issues_ok_def history_of_def)
  have "issues_ok (snd (appendIssueHistory (rands s (drawn s)) Detected Detected who c ?s2))" for who c
    using creation_entry_ok [OF ok2, of ?r] by simp
  with ok1 show ?thesis
    by (auto simp: createIssue_def random_text_def insertCloseIssue_result Let_def andThen_state record_call_def
        split: sum.splits prod.splits)
qed

lemma issue_step_ok:
  assumes "issue_step s s'" and "issues_ok s"
  shows "issues_ok s'"
  using assms
  by (cases rule: issue_step.cases)
    (auto intro: create_ok assign_ok start_ok resolve_ok verify_ok waive_ok reopen_ok autoVerify_ok)

subsection \<open>The lifecycle\<close>

definition issue_status_in :: "CloseIssue list \<Rightarrow> tenant_id \<times> string \<Rightarrow> CloseIssueStatus option" where
  "issue_status_in rows k = map_option ci_status (find (issue_key (fst k) (snd k)) rows)"

definition issue_look :: "'a issue_db_scheme \<Rightarrow> tenant_id \<times> string \<Rightarrow> CloseIssueStatus option" where
  "issue_look s k = issue_status_in (close_issues s) k"

lemma issue_look_ticks [simp]: "issue_look (s\<lparr>ticks := a\<rparr>) k = issue_look s k"
  by (simp add: issue_look_def)

lemma issue_look_row: "issue_look s (t, i) = map_option ci_status (issue_row t i s)"
  by (simp add: issue_look_def issue_status_in_def issue_row_def)

lemma issue_status_in_update:
  "issue_status_in (update_where (issue_key t i)
      (\<lambda>r. apply_extra x (r\<lparr>ci_status := st, ci_updated_at := u\<rparr>)) rows) k
    = (if k = (t, i) then map_option (\<lambda>_. st) (issue_status_in rows k) else issue_status_in rows k)"
proof (cases k)
  case (Pair t' i')
  let ?f = "\<lambda>r. apply_extra x (r\<lparr>ci_status := st, ci_updated_at := u\<rparr>)"
  show ?thesis
  proof (cases "k = (t, i)")
    case True
    have "find (issue_key t i) (update_where (issue_key t i) ?f rows)
        = map_option ?f (find (issue_key t i) rows)"
      by (rule find_update_same) (simp add: issue_key_def)
    with True show ?thesis by (simp add: issue_status_in_def option.map_comp comp_def)
  next
    case False
    with Pair have "find (issue_key t' i') (update_where (issue_key t i) ?f rows)
        = find (issue_key t' i') rows"
      by (intro find_update_other) (auto simp: issue_key_def)
    with Pair False show ?thesis by (auto simp: issue_status_in_def)
  qed
qed

lemma issue_status_in_append:
  "issue_status_in rows k = Some a \<Longrightarrow> issue_status_in (rows @ [r]) k = Some a"
  by (auto simp: issue_status_in_def find_append)

lemma finish_look:
  "issue_look (snd (finish_update (updateIssueStatus t i st x s) i from st who c)) k
    = (if k = (t, i) then map_option (\<lambda>_. st) (issue_look s k) else issue_look s k)"
  by (auto simp: finish_update_def updateIssueStatus_def appendIssueHistory_def insert_history_row_def
      now_def random_text_def Let_def issue_look_def issue_status_in_update split: option.splits)

lemma create_look: "issue_look s k = Some a \<Longrightarrow> issue_look (snd (createIssue input s)) k = Some a"
  by (auto simp: createIssue_def random_text_def insertCloseIssue_result Let_def andThen_state record_call_def
      appendIssueHistory_def insert_history_row_def now_def issue_look_def issue_status_in_append
      split: sum.splits prod.splits)

lemma issue_step_moves:
  assumes "issue_step s s'" and "issue_look s k = Some a"
  shows "\<exists>b. issue_look s' k = Some b \<and> (b = a \<or> issue_edge a b)"
  using assms
proof (cases rule: issue_step.cases)
  case (create input)
  with assms(2) show ?thesis by (auto dest: create_look)
next
  case (assign t i whom who)
  with assms(2) show ?thesis
    by (auto simp: assignIssue_def getCloseIssueById_Some now_def finish_look issue_machine issue_look_row
        split: option.splits)
next
  case (start t i who)
  with assms(2) show ?thesis
    by (auto simp: startProgress_def getCloseIssueById_Some finish_look issue_machine issue_look_row
        split: option.splits)
next
  case (resolve t i resolution)
  with assms(2) show ?thesis
    by (auto simp: resolveIssue_def getCloseIssueById_Some now_def finish_look issue_machine issue_look_row
        split: option.splits)
next
  case (verify t i who verMethod)
  with assms(2) show ?thesis
    by (auto simp: verifyIssue_def getCloseIssueById_Some now_def finish_look issue_machine issue_look_row
        split: option.splits)
next
  case (waive t i justification who)
  with assms(2) show ?thesis
    by (auto simp: waiveIssue_def getCloseIssueById_Some finish_look issue_machine issue_look_row
        split: option.splits)
next
  case (reopen t i reason who)
  with assms(2) show ?thesis
    by (auto simp: reopenIssue_def getCloseIssueById_Some finish_look issue_machine issue_look_row
        split: option.splits)
next
  case (autoVerify t i)
  with assms(2) show ?thesis
    by (auto simp: autoVerify_finish getCloseIssueById_Some finish_look issue_machine issue_look_row
        case_prod_unfold split: option.splits)
qed

interpretation issues: lifecycle issue_look issue_step issue_edge "\<lambda>_. False"
proof
  fix s s' :: "'a issue_db_scheme" and k a
  assume "issue_step s s'" "issue_look s k = Some a"
  from issue_step_moves [OF this] show "case issue_look s' k of None \<Rightarrow> False | Some b \<Rightarrow> b = a \<or> issue_edge a b"
    by auto
qed

lemma issue_steps_ok: "issue_step\<^sup>*\<^sup>* s s' \<Longrightarrow> issues_ok s \<Longrightarrow> issues_ok s'"
  by (induction rule: rtranclp_induct) (auto intro: issue_step_ok)

lemma set_listCloseIssues:
  "set (listCloseIssues t f s) = rowToIssue ` {r \<in> set (close_issues s). ci_tenant r = t
     \<and> (truthy (if_periodId f) \<longrightarrow> Some (ci_period r) = if_periodId f)
     \<and> (if_status f \<noteq> None \<longrightarrow> Some (ci_status r) = if_status f)
     \<and> (truthy (if_severity f) \<longrightarrow> Some (severity_text (ci_severity r)) = if_severity f)
     \<and> (if_category f \<noteq> None \<longrightarrow> Some (ci_category r) = if_category f)
     \<and> (truthy (if_issueType f) \<longrightarrow> Some (ci_type r) = if_issueType f)}"
  by (simp add: listCloseIssues_def)

lemma add_to_summary_counts:
  "sm_verified (add_to_summary i z sev)
     = sm_verified (z sev) + (if ci_severity i = sev \<and> ci_status i = Verified then 1 else 0)"
  "sm_waived (add_to_summary i z sev)
     = sm_waived (z sev) + (if ci_severity i = sev \<and> ci_status i = Waived then 1 else 0)"
  "sm_resolved (add_to_summary i z sev)
     = sm_resolved (z sev) + (if ci_severity i = sev \<and> ci_status i = Resolved then 1 else 0)"
  "sm_open (add_to_summary i z sev) = sm_open (z sev)
     + (if ci_severity i = sev \<and> ci_status i \<in> {Detected, Assigned, IssueInProgress} then 1 else 0)"
  by (cases "ci_status i"; simp add: add_to_summary_def Let_def)+

lemma summary_counts:
  "let f = foldl (\<lambda>summary i. add_to_summary i summary) z xs;
       n = (\<lambda>P. length (filter (\<lambda>i. ci_severity i = sev \<and> P (ci_status i)) xs))
   in sm_verified (f sev) = sm_verified (z sev) + n (\<lambda>st. st = Verified)
    \<and> sm_waived (f sev) = sm_waived (z sev) + n (\<lambda>st. st = Waived)
    \<and> sm_resolved (f sev) = sm_resolved (z sev) + n (\<lambda>st. st = Resolved)
    \<and> sm_open (f sev) = sm_open (z sev) + n (\<lambda>st. st \<in> {Detected, Assigned, IssueInProgress})"
  by (induction xs arbitrary: z) (auto simp: Let_def add_to_summary_counts)

section \<open>Properties\<close>

text \<open>A small state for the witnesses: one session, no issues, a clock and a supply of texts.\<close>

definition demo_session :: close_session_row where
  "demo_session = \<lparr>cs_id = ''s1'', cs_tenant = ''t1'', cs_entity = ''e1'', cs_period_start = ''2025-06-01'',
     cs_period_end = ''2025-06-30'', cs_basis = ''accrual'', cs_standard = ''GAAP'', cs_status = InProgress,
     cs_certified_by = None, cs_certified_at = None, cs_certification_memo = None,
     cs_certified_snapshot_id = None, cs_certification_artifact_id = None, cs_reopened_at = None,
     cs_reopened_by = None, cs_reopen_reason = None, cs_statements_stale_since = None,
     cs_advanced_to_review_by = None, cs_advanced_to_review_at = None, cs_se_confirmed_by = None,
     cs_se_confirmed_at = None, cs_created_at = 0, cs_updated_at = 0\<rparr>"

definition demo_issues :: issue_db where
  "demo_issues = \<lparr>clock = int, ticks = 0, rands = (\<lambda>n. replicate n (CHR ''x'')), drawn = 0, calls = [],
     audit_ledger = [], checkpoints = [], close_sessions = [demo_session], close_issues = [],
     issue_history = []\<rparr>"

definition demo_input :: "CloseIssueSeverity \<Rightarrow> CreateCloseIssueInput" where
  "demo_input sev = \<lparr>ni_tenantId = ''t1'', ni_periodId = ''s1'', ni_entityId = ''e1'',
     ni_issueType = ''tb_imbalance'', ni_severity = sev, ni_category = General, ni_title = ''TB'',
     ni_description = None, ni_affectedAccounts = None, ni_affectedAmount = None, ni_sourceCheck = None,
     ni_sourceDetails = None\<rparr>"

lemma demo_issues_ok: "issues_ok demo_issues"
  by (simp add: issues_ok_def demo_issues_def inj_def)

lemma demo_created: "close_issues (snd (createIssue (demo_input sev) demo_issues))
    = [new_issue_row [] (demo_input sev) Detected 0]"
  by (simp add: createIssue_def random_text_def insertCloseIssue_result insert_issue_row_def demo_issues_def
      demo_input_def demo_session_def appendIssueHistory_def insert_history_row_def now_def record_call_def
      Let_def)

text \<open>
  C22. Every status change is in the history: after any sequence of operations of the issue service, the
  entries of an issue lead, each from where the one before ended, from \<open>detected\<close> to its present
  status, and every entry is the creation or a legal move.
\<close>

theorem issue_history_faithful:
  assumes "issue_step\<^sup>*\<^sup>* s s'" and "issues_ok s" and "r \<in> set (close_issues s')"
  shows "trail Detected (history_of (ci_id r) s') (ci_status r)
    \<and> (\<forall>h\<in>set (history_of (ci_id r) s').
          ih_from h = Detected \<and> ih_to h = Detected \<or> issue_edge (ih_from h) (ih_to h))"
  using issue_steps_ok [OF assms(1,2)] assms(3) by (auto simp: issues_ok_def history_of_def)

theorem issue_history_faithful_witness:
  "let s' = snd (createIssue (demo_input Critical) demo_issues); r = hd (close_issues s') in
   trail Detected (history_of (ci_id r) s') (ci_status r)"
  using issue_history_faithful [OF r_into_rtranclp [of issue_step, OF issue_step.create] demo_issues_ok,
      of "hd (close_issues (snd (createIssue (demo_input Critical) demo_issues)))" "demo_input Critical"]
  by (simp add: demo_created Let_def)

text \<open>
  C21. The certification gate is sound: when the service reports no blocking issue for a period, every
  critical or blocking issue of that period has been verified; none of them was waived.
\<close>

theorem blocking_gate_sound:
  assumes "issue_step\<^sup>*\<^sup>* s s'" and "issues_ok s" and "periodId \<noteq> []"
    and "getBlockingIssuesForPeriod periodId tenant s' = []"
    and "r \<in> set (close_issues s')" and "ci_tenant r = tenant" and "ci_period r = periodId"
    and "ci_severity r \<in> {Critical, Blocking}"
  shows "ci_status r = Verified"
proof (rule ccontr)
  assume "ci_status r \<noteq> Verified"
  moreover have "ci_status r \<noteq> Waived"
    using issue_steps_ok [OF assms(1,2)] assms(5,8) by (auto simp: issues_ok_def WAIVABLE_SEVERITIES_def)
  ultimately have "rowToIssue r \<in> set (getBlockingIssuesForPeriod periodId tenant s')"
    using assms(3,5-8)
    by (auto simp: getBlockingIssuesForPeriod_def getOpenIssuesForPeriod_def set_listCloseIssues
        all_issues_def BLOCKING_SEVERITIES_def TERMINAL_STATUSES_def)
  with assms(4) show False by simp
qed

definition demo_verified :: issue_db where
  "demo_verified = snd (autoVerifyIssue ''t1'' [] (snd (createIssue (demo_input Critical) demo_issues)))"

lemma demo_verified_steps: "issue_step\<^sup>*\<^sup>* demo_issues demo_verified"
  unfolding demo_verified_def
  by (rule rtranclp.rtrancl_into_rtrancl [OF r_into_rtranclp [of issue_step, OF issue_step.create] issue_step.autoVerify])

lemma demo_verified_rows:
  "map (\<lambda>r. (ci_tenant r, ci_period r, ci_severity r, ci_status r)) (close_issues demo_verified)
    = [(''t1'', ''s1'', Critical, Verified)]"
  "getBlockingIssuesForPeriod ''s1'' ''t1'' demo_verified = []"
  by code_simp+

theorem blocking_gate_sound_witness: "ci_status (hd (close_issues demo_verified)) = Verified"
proof -
  obtain r where r: "close_issues demo_verified = [r]" "ci_tenant r = ''t1''" "ci_period r = ''s1''"
      "ci_severity r = Critical"
    using demo_verified_rows(1) by auto
  then show ?thesis
    using blocking_gate_sound [OF demo_verified_steps demo_issues_ok _ demo_verified_rows(2), of r] by simp
qed

text \<open>
  A waived issue stays waived, whatever the service is asked to do afterwards.
\<close>

theorem waived_is_final:
  assumes "issue_step\<^sup>*\<^sup>* s s'" and "issue_look s k = Some Waived"
  shows "issue_look s' k = Some Waived"
  using assms by (rule issues.final_stays) (auto simp: issue_machine split: CloseIssueStatus.splits)

theorem waived_is_final_witness:
  "let s = snd (waiveIssue ''t1'' [] ''accepted by policy'' ''u1''
         (snd (createIssue (demo_input Warning) demo_issues)));
       s' = snd (reopenIssue ''t1'' [] ''please'' ''u2'' s)
   in issue_look s' (''t1'', []) = Some Waived"
proof -
  let ?s = "snd (waiveIssue ''t1'' [] ''accepted by policy'' ''u1''
      (snd (createIssue (demo_input Warning) demo_issues)))"
  have "issue_look ?s (''t1'', []) = Some Waived" by code_simp
  from waived_is_final [OF r_into_rtranclp [of issue_step, OF issue_step.reopen] this] show ?thesis
    unfolding Let_def .
qed

text \<open>
  The dashboard counts every issue of the period once: under each severity, the four counters are
  the numbers of its verified, waived, resolved and other issues.
\<close>

theorem issue_summary_counts:
  "let xs = listCloseIssues tenant (all_issues periodId) s;
       c = getIssueSummaryForPeriod periodId tenant s sev;
       n = (\<lambda>P. length (filter (\<lambda>i. ci_severity i = sev \<and> P (ci_status i)) xs))
   in sm_verified c = n (\<lambda>st. st = Verified) \<and> sm_waived c = n (\<lambda>st. st = Waived)
    \<and> sm_resolved c = n (\<lambda>st. st = Resolved)
    \<and> sm_open c = n (\<lambda>st. st \<in> {Detected, Assigned, IssueInProgress})"
  using summary_counts [of "\<lambda>_. \<lparr>sm_open = 0, sm_resolved = 0, sm_verified = 0, sm_waived = 0\<rparr>"
      "listCloseIssues tenant (all_issues periodId) s" sev]
  by (simp add: getIssueSummaryForPeriod_def Let_def)

text \<open>
  Reopening does not clear the resolution: the fields that \<open>reopenIssue\<close> passes as \<open>undefined\<close> are
  skipped by \<open>updateIssueStatus\<close>, so the reopened issue still names who resolved and verified it.
\<close>

theorem reopen_keeps_resolution:
  assumes "reopenIssue tenant issueId reason userId s = (Inr issue, s')"
    and "getCloseIssueById tenant issueId s = Some current"
  shows "ci_status issue = IssueInProgress
    \<and> ci_resolved_by issue = ci_resolved_by current \<and> ci_resolved_at issue = ci_resolved_at current
    \<and> ci_resolution_description issue = ci_resolution_description current
    \<and> ci_verified_by issue = ci_verified_by current \<and> ci_verified_at issue = ci_verified_at current"
proof -
  from assms(2) obtain r where r: "issue_row tenant issueId s = Some r" "current = rowToIssue r"
    by (auto simp: getCloseIssueById_Some)
  let ?x = "no_extra"
  have "issue = rowToIssue (apply_extra ?x (r\<lparr>ci_status := IssueInProgress, ci_updated_at := clock s (ticks s)\<rparr>))"
    using assms(1) find_issue_update [of tenant issueId "s\<lparr>ticks := Suc (ticks s)\<rparr>" r] r
      row_count_issue [of tenant issueId s]
    by (auto simp: reopenIssue_def getCloseIssueById_def finish_update_def updateIssueStatus_def now_def Let_def
        andThen_Inr_iff no_extra_def split: if_splits)
  then show ?thesis
    by (simp add: r(2) rowToIssue_def apply_extra_def no_extra_def set_col_def)
qed

theorem reopen_keeps_resolution_witness:
  "let issue = projr (fst (reopenIssue ''t1'' [] ''not fixed'' ''u2'' demo_verified)) in
   ci_status issue = IssueInProgress \<and> ci_verified_by issue = Some ''system''"
proof -
  let ?c = "reopenIssue ''t1'' [] ''not fixed'' ''u2'' demo_verified"
  have "\<not> isl (fst ?c)" by code_simp
  then have 1: "?c = (Inr (projr (fst ?c)), snd ?c)" by (metis prod.collapse sum.collapse(2))
  have g: "map_option ci_verified_by (getCloseIssueById ''t1'' [] demo_verified) = Some (Some ''system'')"
    by code_simp
  then obtain current where 2: "getCloseIssueById ''t1'' [] demo_verified = Some current"
    and 3: "ci_verified_by current = Some ''system''" by auto
  from reopen_keeps_resolution [OF 1 2] 3 show ?thesis by (simp add: Let_def)
qed

end
