(* ===== verification/JournalGuarantees.thy ===== *)
theory JournalGuarantees
  imports JournalEntries Issues
begin

text \<open>
  The properties of the journal entry service: what any sequence of calls keeps, the arithmetic of
  the balance check, and the behaviour of single operations.
\<close>

section \<open>A small state\<close>

definition demo_env :: "rat option env" where
  "demo_env = \<lparr>e_sha256 = (\<lambda>x. x), e_decimal = dec_model, e_vars = (\<lambda>_. None),
     e_shadow = (\<lambda>_. \<lparr>ai_severity = SevOk, ai_findings = []\<rparr>),
     e_justifier = (\<lambda>_. \<lparr>ju_ok = True, ju_error = None\<rparr>)\<rparr>"

definition demo_je :: "string \<Rightarrow> JournalEntryStatus \<Rightarrow> string option \<Rightarrow> je_row" where
  "demo_je i st approver = (new_je_row i ''s1'' ''t1'' st (Some ''rent June'') Manual (Some ''ann'') 0)
     \<lparr>je_approved_by := approver, je_reversal_date := Some ''2025-07-01''\<rparr>"

definition demo_line :: "string \<Rightarrow> nat \<Rightarrow> int \<Rightarrow> int \<Rightarrow> line_row" where
  "demo_line i n d c = \<lparr>jl_je = i, jl_index = n, jl_account = ''6000'', jl_debit = d, jl_credit = c,
     jl_description = None, jl_provenance = Some (HumanEntered ''ann'' None)\<rparr>"

definition demo_db :: je_db where
  "demo_db = \<lparr>clock = int, ticks = 0, rands = (\<lambda>n. replicate n (CHR ''x'')), drawn = 0, calls = [],
     audit_ledger = [], checkpoints = [], close_sessions = [demo_session], close_issues = [],
     issue_history = [], subsequent_events = [],
     journal_entries = [demo_je ''a'' Posted (Some ''bob''), demo_je ''b'' Proposed None],
     journal_entry_lines = [demo_line ''a'' 0 100 0, demo_line ''a'' 1 0 100,
       demo_line ''b'' 0 50 0, demo_line ''b'' 1 0 50],
     je_attachments = [], evidence_links = [], evidence_policies = [], shadow_findings = []\<rparr>"

lemma demo_ok: "core_ok False (core demo_db)"
  by (simp add: core_ok_def core_def demo_db_def demo_je_def demo_line_def new_je_row_def je_frozen_def legal_line_def
      totals_equal_def independent_def)

lemma demo_env_strict: "isSameUserApproveAllowed demo_env = False"
  by (simp add: isSameUserApproveAllowed_def demo_env_def js_or_def)

section \<open>What every sequence of calls keeps\<close>

text \<open>
  C4. Whatever sequence of calls is made, in whatever order and by whomever: the identifiers stay
  distinct, every line belongs to an entry and has non-negative amounts, one of them positive, with
  its provenance, every posted entry has equal debits and credits, and every approved or posted
  entry has an approver who is not its preparer, unless the bypass is configured.
\<close>

theorem journal_invariant:
  assumes "(je_step E)\<^sup>*\<^sup>* s s'" and "core_ok (isSameUserApproveAllowed E) (core s)"
  shows "core_ok (isSameUserApproveAllowed E) (core s')"
  using core_steps_ok [OF je_steps_refine [OF assms] assms(2)] .

theorem journal_invariant_witness:
  "core_ok False (core (snd (approveJE demo_env ''t1'' ''b'' ''bob'' demo_db)))
   \<and> map je_status (journal_entries (snd (approveJE demo_env ''t1'' ''b'' ''bob'' demo_db))) = [Posted, Approved]"
proof
  show "core_ok False (core (snd (approveJE demo_env ''t1'' ''b'' ''bob'' demo_db)))"
    using journal_invariant [OF r_into_rtranclp [of "je_step demo_env", OF je_step.approve], of demo_db]
    by (simp add: demo_env_strict demo_ok)
qed code_simp

text \<open>
  C9. A posted (or exported) entry and its lines are never changed nor removed again, by any
  sequence of calls.
\<close>

theorem posted_immutable:
  assumes "(je_step E)\<^sup>*\<^sup>* s s'" and "core_ok (isSameUserApproveAllowed E) (core s)"
    and "r \<in> set (journal_entries s)" and "je_frozen r"
  shows "r \<in> set (journal_entries s') \<and> lines_of (je_id r) s' = lines_of (je_id r) s"
  using core_steps_immutable [OF je_steps_refine [OF assms(1,2), unfolded core_def] assms(2) [unfolded core_def] assms(3,4)]
  by (simp add: lines_of_def)

theorem posted_immutable_witness:
  "demo_je ''a'' Posted (Some ''bob'') \<in> set (journal_entries (snd (rejectJE demo_env ''t1'' ''b'' ''not needed'' ''bob'' demo_db)))
   \<and> lines_of ''a'' (snd (rejectJE demo_env ''t1'' ''b'' ''not needed'' ''bob'' demo_db)) = [demo_line ''a'' 0 100 0, demo_line ''a'' 1 0 100]"
  using posted_immutable [OF r_into_rtranclp [of "je_step demo_env", OF je_step.reject], of demo_db "demo_je ''a'' Posted (Some ''bob'')"]
  by (simp add: demo_env_strict demo_ok) (simp add: demo_db_def demo_je_def je_frozen_def lines_of_def demo_line_def)

section \<open>The lifecycle of an entry\<close>

definition je_look :: "je_core \<Rightarrow> string \<Rightarrow> JournalEntryStatus option" where
  "je_look c i = map_option je_status (find (\<lambda>r. je_id r = i) (fst c))"

definition core_move :: "bool \<Rightarrow> je_core \<Rightarrow> je_core \<Rightarrow> bool" where
  "core_move b c c' = (core_ok b c \<and> core_step b c c')"

lemma je_look_mem:
  "core_ok b (es, ls) \<Longrightarrow> je_look (es, ls) i = Some a \<longleftrightarrow> (\<exists>r\<in>set es. je_id r = i \<and> je_status r = a)"
  using find_key_unique [where k = je_id and q = "\<lambda>_. True" and rows = es]
  by (fastforce simp: je_look_def core_ok_def dest: find_SomeD)

lemma core_move_edge:
  assumes "core_move b c c'" and "je_look c i = Some a"
  shows "case je_look c' i of None \<Rightarrow> a \<in> {Draft, Rejected} | Some a' \<Rightarrow> a' = a \<or> je_edge a a'"
proof -
  obtain es ls es' ls' where c: "c = (es, ls)" "c' = (es', ls')" by (metis surj_pair)
  have ok: "core_ok b (es, ls)" and st: "core_step b (es, ls) (es', ls')" using assms(1) c by (auto simp: core_move_def)
  have ok': "core_ok b (es', ls')" using core_step_ok [OF st ok] .
  obtain r where r: "r \<in> set es" "je_id r = i" "je_status r = a"
    using assms(2) c je_look_mem [OF ok] by blast
  have "(\<exists>q\<in>set es'. je_id q = i \<and> (je_status q = a \<or> je_edge a (je_status q)))
      \<or> (a \<in> {Draft, Rejected} \<and> (\<forall>q\<in>set es'. je_id q \<noteq> i))"
    using st
  proof (cases rule: core_step.cases)
    case (move p f)
    show ?thesis
    proof (cases "p r")
      case True
      with move r have "legal_move b ls r (f r)" "f r \<in> set es'" by (auto simp: set_update_where)
      with r show ?thesis by (auto simp: legal_move_def same_entry_def)
    qed (use move r in \<open>auto intro!: bexI [of _ r] simp: set_update_where image_iff\<close>)
  next
    case (remove p)
    show ?thesis
    proof (cases "p r")
      case True
      have only: "q = r" if "q \<in> set es" "je_id q = i" for q
        using distinct_key_unique [of je_id es q r] that r ok by (auto simp: core_ok_def)
      have "es' = delete_where p es" and "a \<in> {Draft, Rejected}" using remove(1) remove(3) [of r] r True by auto
      with only True show ?thesis by (auto simp: delete_where_def)
    qed (use remove r in \<open>auto simp: delete_where_def\<close>)
  qed (use r in auto)
  then show ?thesis
  proof
    assume "\<exists>q\<in>set es'. je_id q = i \<and> (je_status q = a \<or> je_edge a (je_status q))"
    then obtain q where q: "q \<in> set es'" "je_id q = i" "je_status q = a \<or> je_edge a (je_status q)" by blast
    then have "je_look c' i = Some (je_status q)" using je_look_mem [OF ok'] c by blast
    with q show ?thesis by simp
  next
    assume gone: "a \<in> {Draft, Rejected} \<and> (\<forall>q\<in>set es'. je_id q \<noteq> i)"
    then have "je_look c' i = None" using c by (simp add: je_look_def find_None_iff_all)
    with gone show ?thesis by simp
  qed
qed

interpretation entries: lifecycle je_look "core_move b" je_edge "\<lambda>a. a \<in> {Draft, Rejected}" for b
  by unfold_locales (rule core_move_edge)

lemma steps_moves:
  assumes "(core_step b)\<^sup>*\<^sup>* c c'" and "core_ok b c"
  shows "(core_move b)\<^sup>*\<^sup>* c c'"
  using assms(1)
proof (induction rule: rtranclp_induct)
  case (step d e)
  have "core_ok b d" using core_steps_ok [OF step.hyps(1) assms(2)] .
  with step show ?case by (auto simp: core_move_def intro: rtranclp.rtrancl_into_rtrancl)
qed simp

text \<open>
  The status of an entry only moves along draft, proposed, approved, posted: an entry that has
  been approved is approved or posted ever after, and a posted entry stays posted.
\<close>

theorem approved_only_posts:
  assumes "(je_step E)\<^sup>*\<^sup>* s s'" and "core_ok (isSameUserApproveAllowed E) (core s)"
    and "je_look (core s) i = Some a" and "a \<in> {Approved, Posted}"
  shows "je_look (core s') i \<in> {Some Approved, Some Posted} \<and> (a = Posted \<longrightarrow> je_look (core s') i = Some Posted)"
proof -
  note moves = steps_moves [OF je_steps_refine [OF assms(1,2)] assms(2)]
  have closed: "y \<in> {Approved, Posted} \<and> x \<notin> {Draft, Rejected}"
    if "x \<in> {Approved, Posted}" "je_edge x y \<or> y = x" for x y
    using that by (cases x; cases y) auto
  have 1: "\<exists>b\<in>{Approved, Posted}. je_look (core s') i = Some b"
    using entries.trapped [OF moves assms(3,4)] closed by blast
  show ?thesis using 1 entries.final_stays [OF moves assms(3)] by fastforce
qed

theorem approved_only_posts_witness:
  "je_look (core (snd (rejectJE demo_env ''t1'' ''b'' ''not needed'' ''bob'' demo_db))) ''a'' = Some Posted"
proof -
  have "je_look (core demo_db) ''a'' = Some Posted"
    by (simp add: je_look_def core_def demo_db_def demo_je_def new_je_row_def)
  then show ?thesis
    using approved_only_posts [OF r_into_rtranclp [of "je_step demo_env", OF je_step.reject], of demo_db "''a''" Posted]
    by (simp add: demo_env_strict demo_ok)
qed

end
