(* ===== verification/CloseGuarantees.thy ===== *)
theory CloseGuarantees
  imports CloseBooks JournalGuarantees
begin

text \<open>
  The properties of the close session service: what any sequence of calls keeps, the gates of
  certification, locking and reopening, and the behaviour of single operations.
\<close>

section \<open>Sequences of calls\<close>

inductive close_step :: "'d env \<Rightarrow> 'a module_db_scheme \<Rightarrow> 'a module_db_scheme \<Rightarrow> bool" for E where
  create: "close_step E s (snd (createSession input s))"
| ensure: "close_step E s (snd (ensureSessionForPeriod t entity p bas std s))"
| reject: "close_step E s (snd (rejectSession (e_sha256 E) t i reason who s))"
| reopen: "close_step E s (snd (reopenCloseSession store (e_sha256 E) i t who reason role s))"
| review: "close_step E s (snd (advanceToSubsequentEventsReview store (e_sha256 E) i t who role s))"
| confirm: "close_step E s (snd (confirmNoSubsequentEvents store (e_sha256 E) i t who role s))"
| lock: "close_step E s (snd (lockCloseSession store (e_sha256 E) i t locker optRole s))"
| auto_lock: "close_step E s (snd (autoLockCertifiedSessions store (e_sha256 E) t days s))"
| certify: "close_step E s (snd (certifyCloseSession store E S A cinput role s))"
| advance: "close_step E s (snd (advanceSession E B ainput s))"

lemma close_step_reaches:
  assumes "close_step E s s'" and "books_ok (books s)"
  shows "reaches book_step books s s'"
  using assms
  by (cases rule: close_step.cases)
    (auto intro: reach_createSession reach_ensureSessionForPeriod reach_rejectSession reach_reopenCloseSession
      reach_advanceToSubsequentEventsReview reach_confirmNoSubsequentEvents reach_lockCloseSession
      reach_autoLockCertifiedSessions reach_certifyCloseSession reach_advanceSession)

lemma close_steps_reach:
  assumes "(close_step E)\<^sup>*\<^sup>* s s'" and "books_ok (books s)"
  shows "reaches book_step books s s'"
  using assms(1)
proof (induction rule: rtranclp_induct)
  case (step t u)
  have "books_ok (books t)" using bk.reaches_ok [OF step.IH assms(2)] .
  with step show ?case by (blast intro: reaches_trans close_step_reaches)
qed (simp add: reaches_same)

section \<open>The life of a session\<close>

definition session_look :: "close_books \<Rightarrow> tenant_id \<times> string \<Rightarrow> CloseSessionStatus option" where
  "session_look b k = map_option cs_status (find (session_key (fst k) (snd k)) (fst b))"

lemma find_moved:
  assumes "\<And>r. r \<in> set ss \<Longrightarrow> p r \<Longrightarrow> session_move ns r (f r)"
  shows "find (session_key t i) (update_where p f ss) = map_option (\<lambda>r. if p r then f r else r) (find (session_key t i) ss)"
  using assms by (induction ss) (auto simp: session_move_def same_session_def session_key_def)

lemma session_move_edge: "session_move ns r q \<Longrightarrow> cs_status q = cs_status r \<or> session_edge (cs_status r) (cs_status q)"
  by (auto simp: session_move_def session_edge_def)

interpretation sessions: lifecycle session_look book_step session_edge "\<lambda>_. False"
proof
  fix b b' k a
  assume "book_step b b'" and look: "session_look b k = Some a"
  then show "case session_look b' k of None \<Rightarrow> False | Some c \<Rightarrow> c = a \<or> session_edge a c"
  proof (cases rule: book_step.cases)
    case (create r ss ns as)
    with look show ?thesis by (auto simp: session_look_def find_append split: option.splits)
  next
    case (move ss p ns f as)
    from look move obtain r where r: "find (session_key (fst k) (snd k)) ss = Some r" "cs_status r = a"
      by (auto simp: session_look_def)
    then have "r \<in> set ss" by (auto dest: find_SomeD)
    with move r find_moved [of ss p ns f "fst k" "snd k"] session_move_edge [of ns r "f r"] show ?thesis
      by (auto simp: session_look_def)
  qed (use look in \<open>auto simp: session_look_def\<close>)
qed

lemma session_look_row: "session_look (books s) (t, i) = map_option cs_status (session_row t i s)"
  by (simp add: session_look_def books_def session_row_def)

lemma status_path:
  assumes "(close_step E)\<^sup>*\<^sup>* s s'" and "books_ok (books s)" and "session_row t i s = Some r"
  shows "\<exists>q. session_row t i s' = Some q \<and> session_edge\<^sup>*\<^sup>* (cs_status r) (cs_status q)"
proof -
  have "book_step\<^sup>*\<^sup>* (books s) (books s')" using close_steps_reach [OF assms(1,2)] by (simp add: reaches_def)
  from sessions.steps_move [OF this, of "(t, i)" "cs_status r"] assms(3) show ?thesis
    by (auto simp: session_look_row)
qed

text \<open>A locked session keeps its status, its identity and its attestation.\<close>

lemma locked_row_stays:
  assumes "book_step\<^sup>*\<^sup>* b b'" and "find (session_key t i) (fst b) = Some r" and "cs_status r = Locked"
  shows "\<exists>q. find (session_key t i) (fst b') = Some q \<and> cs_status q = Locked \<and> same_session r q \<and> same_attestation r q"
  using assms(1)
proof (induction rule: rtranclp_induct)
  case base
  with assms(2,3) show ?case by (auto simp: same_attestation_def)
next
  case (step c d)
  then obtain q where q: "find (session_key t i) (fst c) = Some q" "cs_status q = Locked" "same_session r q" "same_attestation r q"
    by blast
  from step.hyps(2) show ?case
  proof (cases rule: book_step.cases)
    case (move ss p ns f as)
    with q have "q \<in> set ss" by (auto dest: find_SomeD)
    then have "p q \<Longrightarrow> cs_status (f q) = Locked \<and> same_session q (f q) \<and> same_attestation q (f q)"
      using move(3) [of q] q(2) by (auto simp: session_move_def)
    with move q find_moved [of ss p ns f t i] show ?thesis
      by (auto simp: same_session_def same_attestation_def)
  qed (use q in \<open>auto simp: find_append\<close>)
qed

section \<open>A small state\<close>

definition demo_row :: "string \<Rightarrow> string \<Rightarrow> string \<Rightarrow> CloseSessionStatus \<Rightarrow> close_session_row" where
  "demo_row i ps pe st = demo_session\<lparr>cs_id := i, cs_tenant := ''t1'', cs_entity := ''e1'', cs_period_start := ps,
     cs_period_end := pe, cs_basis := ''accrual'', cs_standard := ''GAAP'', cs_status := st,
     cs_statements_stale_since := None, cs_advanced_to_review_by := Some ''ann''\<rparr>"

definition demo_snap :: LedgerSnapshot where
  "demo_snap = \<lparr>ls_id = ''n1'', ls_tenant = ''t1'', ls_period_label = ''2025-05'', ls_created_at = 0, ls_created_by = None,
     ls_source = ''close_session'', ls_payload = \<lparr>sp_tb_entries = [], sp_totalDebits = None, sp_totalCredits = None,
       sp_entries = None, sp_manifest = None, sp_gl = None, sp_comparative = None, sp_standard = None\<rparr>,
     ls_hash = [], ls_version = 3, ls_session = Some ''s1''\<rparr>"

definition demo_books :: module_db where
  "demo_books = \<lparr>clock = int, ticks = 0, rands = (\<lambda>n. replicate n (CHR ''x'')), drawn = 0, calls = [],
     audit_ledger = [], checkpoints = [],
     close_sessions = [(demo_row ''s1'' ''2025-05-01'' ''2025-05-31'' Locked)\<lparr>cs_certified_by := Some ''bob'',
         cs_certified_at := Some 0, cs_certified_snapshot_id := Some ''n1''\<rparr>,
       demo_row ''s2'' ''2025-06-01'' ''2025-06-30'' UnderReview],
     close_issues = [], issue_history = [], subsequent_events = [], journal_entries = [], journal_entry_lines = [],
     je_attachments = [], evidence_links = [], evidence_policies = [], shadow_findings = [],
     ledger_snapshots = [demo_snap], certification_artifacts = [], module_proposals = []\<rparr>"

lemma demo_books_ok: "books_ok (books demo_books)"
  by (simp add: demo_books_def books_def books_ok_def demo_row_def demo_snap_def disjoint_periods_def closed_status_def
      attested_def)

section \<open>What every sequence of calls keeps\<close>

text \<open>
  C1. Whatever sequence of calls is made: identifiers stay distinct, the periods of two sessions of an
  entity never overlap, there is at most one certification artifact per session, and every certified
  or locked session names who certified it and when, on a snapshot of its own tenant and session that
  is in the table.
\<close>

theorem close_invariant:
  assumes "(close_step E)\<^sup>*\<^sup>* s s'" and "books_ok (books s)"
  shows "books_ok (books s')"
  using bk.reaches_ok [OF close_steps_reach [OF assms] assms(2)] .

theorem close_invariant_witness:
  "books_ok (books (snd (rejectSession (e_sha256 demo_env) ''t1'' ''s2'' ''numbers are wrong'' ''cfo'' demo_books)))"
  using close_invariant [OF r_into_rtranclp [of "close_step demo_env", OF close_step.reject] demo_books_ok] .

text \<open>
  C3. The status of a session only moves along the transitions of the state machine, from under review
  to certified by certification alone, and a locked session stays locked, with its period and its
  attestation, whatever is called afterwards.
\<close>

theorem session_lifecycle:
  assumes "(close_step E)\<^sup>*\<^sup>* s s'" and "books_ok (books s)" and "session_row t i s = Some r"
  shows "\<exists>q. session_row t i s' = Some q \<and> session_edge\<^sup>*\<^sup>* (cs_status r) (cs_status q)
    \<and> (cs_status r = Locked \<longrightarrow> cs_status q = Locked \<and> same_session r q \<and> same_attestation r q)"
proof -
  obtain q where q: "session_row t i s' = Some q" "session_edge\<^sup>*\<^sup>* (cs_status r) (cs_status q)"
    using status_path [OF assms] by blast
  have "book_step\<^sup>*\<^sup>* (books s) (books s')" using close_steps_reach [OF assms(1,2)] by (simp add: reaches_def)
  from locked_row_stays [OF this, of t i r] assms(3) q(1)
  have "cs_status r = Locked \<Longrightarrow> cs_status q = Locked \<and> same_session r q \<and> same_attestation r q"
    by (auto simp: session_row_def books_def)
  with q show ?thesis by blast
qed

theorem session_lifecycle_witness:
  "\<exists>q. session_row ''t1'' ''s1'' (snd (reopenCloseSession None (e_sha256 demo_env) ''s1'' ''t1'' ''cfo'' ''late invoice'' Approver demo_books))
     = Some q \<and> cs_status q = Locked"
proof -
  have "session_row ''t1'' ''s1'' demo_books = Some (hd (close_sessions demo_books))"
    by (simp add: session_row_def demo_books_def session_key_def demo_row_def)
  from session_lifecycle [OF r_into_rtranclp [of "close_step demo_env", OF close_step.reopen] demo_books_ok this]
  show ?thesis by (fastforce simp: demo_books_def demo_row_def)
qed

section \<open>Certification\<close>

lemma canPerform_approver: "canPerform role CertifyClose \<longleftrightarrow> role = Approver" "canPerform role PeriodLock \<longleftrightarrow> role = Approver"
  by (cases role; simp add: canPerform_def roleLevel_def ROLE_ORDER_def)+

lemma outside_advisory: "assertNoAiMutationContext store = Inr () \<longleftrightarrow> store \<in> {None, Some 0}"
  by (auto simp: assertNoAiMutationContext_def split: option.splits)

lemma certify_Inr:
  "certifyCloseSession store E S A input role s = (Inr ses, s') \<longleftrightarrow>
     store \<in> {None, Some 0} \<and> role = Approver \<and> certify_transaction E S A input s = (Inr ses, s')"
  using outside_advisory [of store]
  by (auto simp: certifyCloseSession_def canPerform_approver withTransaction_Inr split: sum.splits)

lemma certify_preconditions_Inr:
  "certify_preconditions A input (rowToSession r) = Inr () \<longleftrightarrow>
     cs_status r = UnderReview \<and> cs_statements_stale_since r = None \<and> an_hardBlockers A = []
     \<and> (cs_advanced_to_review_by r = Some (cy_certifiedBy input) \<and> cy_certifiedBy input \<noteq> [] \<longrightarrow> an_allowSameUserCertify A)"
  by (auto simp: certify_preconditions_def rowToSession_def)

lemma certification_result:
  fixes s :: "'a close_db_scheme"
  assumes "certifyCloseSession store E S A input role s = (Inr ses, s')"
  shows "role = Approver \<and> store \<in> {None, Some 0}
    \<and> (\<exists>r q n. session_row (cy_tenantId input) (cy_closeSessionId input) s = Some r
       \<and> cs_status r = UnderReview \<and> cs_statements_stale_since r = None \<and> an_hardBlockers A = []
       \<and> (cs_advanced_to_review_by r = Some (cy_certifiedBy input) \<and> cy_certifiedBy input \<noteq> [] \<longrightarrow> an_allowSameUserCertify A)
       \<and> session_row (cy_tenantId input) (cy_closeSessionId input) s' = Some q \<and> ses = rowToSession q
       \<and> cs_status q = Certified \<and> cs_certified_by q = Some (cy_certifiedBy input)
       \<and> cs_certified_snapshot_id q = Some (ls_id n) \<and> ledger_snapshots s' = ledger_snapshots s @ [n]
       \<and> ls_session n = Some (cy_closeSessionId input) \<and> ls_tenant n = cy_tenantId input
       \<and> (\<not> existsForCloseSession (cy_tenantId input) (cy_closeSessionId input) s \<longrightarrow>
           (\<exists>a. certification_artifacts s' = certification_artifacts s @ [a] \<and> names_snapshot a n
              \<and> cs_certification_artifact_id q = Some (ca_id a))))"
proof -
  let ?t = "cy_tenantId input" and ?i = "cy_closeSessionId input"
  from assms have gate: "role = Approver" "store \<in> {None, Some 0}" and tx: "certify_transaction E S A input s = (Inr ses, s')"
    by (auto simp: certify_Inr)
  from certify_transaction_result [OF tx] obtain r p payload checks where
    row: "session_row ?t ?i s = Some r" and pre: "certify_preconditions A input (rowToSession r) = Inr ()"
    and writes: "certify_writes E S A input p payload checks s = (Inr ses, s')" by blast
  from certify_writes_result [OF writes row] obtain n certAt a upd and u s1 :: "'a close_db_scheme" where
    n: "ls_tenant n = ?t" "ls_session n = Some ?i"
    and u: "books u = (close_sessions s, ledger_snapshots s @ [n], certification_artifacts s)"
    and art: "certify_artifact E A input p certAt n checks u = (Inr a, s1)"
    and s': "books s' = (update_where (session_key ?t ?i) (certified_row input certAt (ls_id n) a upd) (close_sessions s),
        ledger_snapshots s @ [n], certification_artifacts s1)"
    and ses: "ses = rowToSession (certified_row input certAt (ls_id n) a upd r)" by blast
  let ?q = "certified_row input certAt (ls_id n) a upd r"
  have q: "session_row ?t ?i s' = Some ?q"
  proof -
    have "find (session_key ?t ?i) (update_where (session_key ?t ?i) (certified_row input certAt (ls_id n) a upd) (close_sessions s))
        = map_option (certified_row input certAt (ls_id n) a upd) (find (session_key ?t ?i) (close_sessions s))"
      by (rule find_update_same) (simp add: certified_row_def session_key_def)
    with s' row show ?thesis by (simp add: session_row_def books_def)
  qed
  have new: "\<exists>b. certification_artifacts s' = certification_artifacts s @ [b] \<and> names_snapshot b n
      \<and> cs_certification_artifact_id ?q = Some (ca_id b)" if "\<not> existsForCloseSession ?t ?i s"
  proof -
    have "\<not> existsForCloseSession ?t ?i u" using that u by (simp add: existsForCloseSession_def books_def)
    with certify_artifact_cases [OF art] s' u show ?thesis by (cases a) (auto simp: books_def)
  qed
  show ?thesis
    using gate row pre [unfolded certify_preconditions_Inr] q ses s' n new
    by (intro conjI exI [of _ r] exI [of _ ?q] exI [of _ n]) (auto simp: books_def)
qed

end
