(* ===== verification/AuditKept.thy ===== *)
theory AuditKept
  imports AuditService
begin

text \<open>
  The interface between the audit ledger and the services that write to it: \<open>audit_kept\<close> relates two
  states when the second is later and its ledger is well-formed if that of the first is. The locale
  \<open>kept\<close> carries such a relation through the control flow of an operation.
\<close>

locale kept =
  fixes R :: "'x world_scheme \<Rightarrow> 'x world_scheme \<Rightarrow> bool"
  assumes kept_refl: "R s s"
    and kept_trans: "R s t \<Longrightarrow> R t u \<Longrightarrow> R s u"
    and kept_rollback: "R s t \<Longrightarrow> R s (s\<lparr>ticks := ticks t, drawn := drawn t, calls := calls t\<rparr>)"
begin

lemma kept_andThen:
  assumes "R s (snd p)" and "\<And>a. fst p = Inr a \<Longrightarrow> R (snd p) (snd (f a (snd p)))"
  shows "R s (snd (andThen p f))"
  using assms kept_trans by (cases "fst p") (auto simp: andThen_state)

lemma kept_withTransaction: "R s (snd (fn s)) \<Longrightarrow> R s (snd (withTransaction fn s))"
  by (auto simp: withTransaction.simps kept_rollback split: prod.splits sum.splits)

lemma kept_option:
  "(x = None \<Longrightarrow> R s (snd n)) \<Longrightarrow> (\<And>a. x = Some a \<Longrightarrow> R s (snd (f a))) \<Longrightarrow> R s (snd (case x of None \<Rightarrow> n | Some a \<Rightarrow> f a))"
  by (cases x) auto

lemma kept_sum:
  "(\<And>e. x = Inl e \<Longrightarrow> R s (snd (f e))) \<Longrightarrow> (\<And>a. x = Inr a \<Longrightarrow> R s (snd (g a)))
     \<Longrightarrow> R s (snd (case x of Inl e \<Rightarrow> f e | Inr a \<Rightarrow> g a))"
  by (cases x) auto

lemma kept_if: "(c \<Longrightarrow> R s (snd p)) \<Longrightarrow> (\<not> c \<Longrightarrow> R s (snd q)) \<Longrightarrow> R s (snd (if c then p else q))"
  by simp

lemma kept_let: "(\<And>x. x = e \<Longrightarrow> R s (snd (f x))) \<Longrightarrow> R s (snd (let x = e in f x))"
  by simp

lemma kept_pair: "(\<And>x y. e = (x, y) \<Longrightarrow> R s (snd (f x y))) \<Longrightarrow> R s (snd (case e of (x, y) \<Rightarrow> f x y))"
  by (simp add: case_prod_unfold)

lemma kept_let_pair: "(\<And>x y. e = (x, y) \<Longrightarrow> R s (snd (f x y))) \<Longrightarrow> R s (snd (let (x, y) = e in f x y))"
  by (simp add: case_prod_unfold)

lemma kept_return: "R s t \<Longrightarrow> R s (snd (r, t))"
  by simp

lemma kept_updated:
  assumes "R s (snd p)" and "\<And>x u. p = (Some x, u) \<Longrightarrow> R u (snd (f x u))"
  shows "R s (snd (case p of (None, u) \<Rightarrow> (e, u) | (Some x, u) \<Rightarrow> f x u))"
  using assms kept_trans by (cases p; cases "fst p") auto

lemmas kept_flow = kept_option kept_sum kept_if kept_let kept_return

end

definition audit_kept :: "(string \<Rightarrow> string) \<Rightarrow> 'a ledger_db_scheme \<Rightarrow> 'a ledger_db_scheme \<Rightarrow> bool" where
  "audit_kept H s s' \<longleftrightarrow> clock s' = clock s \<and> ticks s \<le> ticks s' \<and> (ledger_ok H s \<and> clock_ok s \<longrightarrow> ledger_ok H s')"

lemma ledger_ok_later:
  assumes "ledger_ok H s" and "audit_ledger s' = audit_ledger s" "checkpoints s' = checkpoints s" "clock s' = clock s"
    and "ticks s \<le> ticks s'"
  shows "ledger_ok H s'"
proof -
  have rows: "tenant_rows t s' = tenant_rows t s" for t using assms(2) by (simp add: tenant_rows_def)
  have "\<exists>i<ticks s'. P i" if "\<exists>i<ticks s. P i" for P using that assms(5) by (meson less_le_trans)
  with assms rows show ?thesis unfolding ledger_ok_def checkpoint_ok_def by auto
qed

lemma audit_kept_frame:
  "audit_ledger s' = audit_ledger s \<Longrightarrow> checkpoints s' = checkpoints s \<Longrightarrow> clock s' = clock s \<Longrightarrow> ticks s \<le> ticks s'
     \<Longrightarrow> audit_kept H s s'"
  by (auto simp: audit_kept_def intro: ledger_ok_later)

interpretation aud: kept "audit_kept H" for H
proof
  fix s t u :: "'a ledger_db_scheme"
  show "audit_kept H s s" by (simp add: audit_kept_def)
  assume st: "audit_kept H s t"
  then show "audit_kept H s (s\<lparr>ticks := ticks t, drawn := drawn t, calls := calls t\<rparr>)"
    by (intro audit_kept_frame) (auto simp: audit_kept_def)
  assume "audit_kept H t u"
  with st show "audit_kept H s u" by (auto simp: audit_kept_def clock_ok_def)
qed

section \<open>The writers\<close>

lemma kept_appendEntry: "input_ok input \<Longrightarrow> audit_kept H s (snd (appendEntry b H input s))"
proof -
  assume input: "input_ok input"
  have internal: "audit_kept H u (snd (appendEntryInternal H input u))" for u :: "'a ledger_db_scheme"
    using ledger_ok_append [OF _ _ input, of H u]
    by (auto simp: audit_kept_def appendEntryInternal_unfold Let_def)
  then show ?thesis
    unfolding appendEntry_def by (auto intro!: aud.kept_flow aud.kept_withTransaction)
qed

lemma kept_recordMaterialEvent:
  assumes "wf_json (JObj (me_snapshot input))" and "case me_dissent input of None \<Rightarrow> True | Some d \<Rightarrow> wf_json d"
  shows "audit_kept H s (snd (recordMaterialEvent b H input s))"
  unfolding recordMaterialEvent_def
  using assms by (intro aud.kept_andThen kept_appendEntry) (auto simp: input_ok_def aud.kept_refl)

lemma kept_verifyChain: "audit_kept H s (snd (verifyChain H t s))"
proof -
  have "clock (snd (verifyChain H t s)) = clock s \<and> ticks s \<le> ticks (snd (verifyChain H t s))"
    by (simp add: verifyChain_def verifyChainInternal_def now_def Let_def split: option.splits prod.splits)
  then show ?thesis using verifyChainInternal_ok [of H s t True] by (simp add: audit_kept_def verifyChain_def)
qed

end
