(* ===== verification/CrossStatementTies.thy ===== *)
theory CrossStatementTies
  imports CrossStatement JournalAmounts
begin

text \<open>
  What the cross-statement checks establish. Their reference is \<open>statements_tie\<close>, the accounting
  identities written on whole cents; on statements whose amounts are whole cents the checks, which
  go through doubles, decimal.js and a tolerance of one cent, have no hard failure exactly when the
  identities hold.
\<close>

section \<open>The identities in cents\<close>

definition cents_of :: "number \<Rightarrow> int" where
  "cents_of n = (case n of Fin x \<Rightarrow> round_half_up (dec_val x * 100) | _ \<Rightarrow> 0)"

definition total_cents :: "StatementLine list \<Rightarrow> int" where
  "total_cents ls = (\<Sum>l\<leftarrow>ls. cents_of (li_amount l))"

definition statements_tie ::
  "BalanceSheet \<Rightarrow> number \<Rightarrow> CashFlowStatement \<Rightarrow> EquityChangesStatement \<Rightarrow> number option option \<Rightarrow> bool" where
  "statements_tie bs netIncome cf equity prior \<longleftrightarrow>
     \<bar>total_cents (cf_operating cf @ cf_investing cf @ cf_financing cf) - cents_of (cf_netChangeInCash cf)\<bar> \<le> 1
     \<and> (case (cf_beginningCash cf, cf_endingCash cf) of
          (Some beginning, Some ending) \<Rightarrow>
            \<bar>cents_of beginning + cents_of (cf_netChangeInCash cf) - cents_of ending\<bar> \<le> 1
        | _ \<Rightarrow> True)
     \<and> cents_of (bs_totalAssets bs) = cents_of (bs_totalLiabilities bs) + cents_of (bs_totalEquity bs)
     \<and> (case find (label_has ''net income'') (eq_changes equity) of
          None \<Rightarrow> True | Some c \<Rightarrow> cents_of netIncome = cents_of (li_amount c))
     \<and> (case cf_endingCash cf of
          None \<Rightarrow> True
        | Some ending \<Rightarrow>
            cents_of ending = total_cents (filter (\<lambda>a. label_has ''cash'' a \<or> label_has ''bank'' a) (bs_assets bs)))
     \<and> (case eq_closingEquity equity of None \<Rightarrow> True | Some x \<Rightarrow> cents_of x = cents_of (bs_totalEquity bs))
     \<and> (case (eq_openingEquity equity, eq_closingEquity equity) of
          (Some x, Some y) \<Rightarrow>
            cents_of x + total_cents (eq_changes equity) + total_cents (js_or (eq_ociChanges equity) []) = cents_of y
        | _ \<Rightarrow> True)
     \<and> (case find (label_has ''net income'') (cf_operating cf) of
          None \<Rightarrow> True | Some l \<Rightarrow> \<bar>cents_of netIncome - cents_of (li_amount l)\<bar> \<le> 1)
     \<and> (case (prior, find (label_has ''retained earnings'') (bs_equity bs)) of
          (Some p, Some l) \<Rightarrow>
            \<bar>cents_of (li_amount l) - (cents_of (js_or p (Fin 0)) + cents_of netIncome
               - total_cents (filter (label_has ''dividend'') (eq_changes equity)))\<bar> \<le> 1
        | _ \<Rightarrow> True)"

text \<open>Amounts of whole cents, below \<open>10 ^ 15\<close> cents also in the sum of their absolute values.\<close>

definition in_cents :: "number \<Rightarrow> bool" where
  "in_cents n \<longleftrightarrow> has_cents n (cents_of n) \<and> \<bar>cents_of n\<bar> < 10 ^ 15"

definition lines_in_cents :: "StatementLine list \<Rightarrow> bool" where
  "lines_in_cents ls \<longleftrightarrow> list_all (\<lambda>l. in_cents (li_amount l)) ls \<and> (\<Sum>l\<leftarrow>ls. \<bar>cents_of (li_amount l)\<bar>) < 10 ^ 15"

definition statements_in_cents ::
  "BalanceSheet \<Rightarrow> number \<Rightarrow> CashFlowStatement \<Rightarrow> EquityChangesStatement \<Rightarrow> number option option \<Rightarrow> bool" where
  "statements_in_cents bs netIncome cf equity prior \<longleftrightarrow>
     lines_in_cents (bs_assets bs) \<and> lines_in_cents (bs_equity bs)
     \<and> lines_in_cents (cf_operating cf @ cf_investing cf @ cf_financing cf)
     \<and> lines_in_cents (eq_changes equity) \<and> lines_in_cents (js_or (eq_ociChanges equity) [])
     \<and> list_all in_cents [bs_totalAssets bs, bs_totalLiabilities bs, bs_totalEquity bs, netIncome, cf_netChangeInCash cf]
     \<and> list_all (pred_option in_cents) [cf_beginningCash cf, cf_endingCash cf, eq_openingEquity equity,
          eq_closingEquity equity, js_or prior None]"

lemma cents_of_has: "has_cents n c \<Longrightarrow> cents_of n = c"
  by (cases n) (simp_all add: cents_of_def money_def)

lemma in_cents_finite: "in_cents n \<Longrightarrow> is_finite n"
  by (cases n) (simp_all add: in_cents_def)

lemma in_cents_num: "\<bar>c\<bar> < 10 ^ 15 \<Longrightarrow> in_cents (cents_num c) \<and> cents_of (cents_num c) = c"
  using has_cents_num [of c] cents_of_has by (auto simp: in_cents_def)

lemma in_cents_0 [simp]: "in_cents (Fin 0)" "cents_of (Fin 0) = 0"
  using cents_of_has [OF has_cents_0] by (auto simp: in_cents_def)

lemma sum_list_filter_le:
  fixes f :: "'a \<Rightarrow> int"
  assumes "\<And>x. 0 \<le> f x"
  shows "sum_list (map f (filter P xs)) \<le> sum_list (map f xs)"
  using assms by (induction xs) (auto intro: add_increasing)

lemma lines_in_cents_filter: "lines_in_cents ls \<Longrightarrow> lines_in_cents (filter P ls)"
  using sum_list_filter_le [of "\<lambda>l. \<bar>cents_of (li_amount l)\<bar>" P ls] by (auto simp: lines_in_cents_def list_all_iff)

lemma lines_in_cents_find: "lines_in_cents ls \<Longrightarrow> find P ls = Some l \<Longrightarrow> in_cents (li_amount l)"
  by (auto simp: lines_in_cents_def list_all_iff find_Some_iff)

lemma lines_in_cents_append: "lines_in_cents (xs @ ys) \<Longrightarrow> lines_in_cents xs"
proof -
  assume "lines_in_cents (xs @ ys)"
  moreover have "0 \<le> (\<Sum>l\<leftarrow>ys. \<bar>cents_of (li_amount l)\<bar>)" by (rule sum_list_nonneg) auto
  ultimately show "lines_in_cents xs" by (simp add: lines_in_cents_def)
qed

lemma total_cents_bound: "\<bar>total_cents ls\<bar> \<le> (\<Sum>l\<leftarrow>ls. \<bar>cents_of (li_amount l)\<bar>)"
  using sum_list_abs [of "map (\<lambda>l. cents_of (li_amount l)) ls"] by (simp add: total_cents_def comp_def)

lemma lines_cents:
  assumes "lines_in_cents ls"
  shows "list_all2 has_cents (map li_amount ls) (map (\<lambda>l. cents_of (li_amount l)) ls)"
    and "\<bar>total_cents ls\<bar> < 10 ^ 15"
  using assms total_cents_bound [of ls]
  by (auto simp: lines_in_cents_def list_all_iff in_cents_def list.rel_map list_all2_same)

section \<open>The checks\<close>

lemma hard_failures_append: "hard_failures (xs @ ys) = [] \<longleftrightarrow> hard_failures xs = [] \<and> hard_failures ys = []"
  by (simp add: hard_failures_def)

lemma hard_failures_one: "hard_failures [hard_check name p m] = [] \<longleftrightarrow> p"
  by (simp add: hard_failures_def hard_check_def)

lemma hard_failures_check_Cons: "hard_failures (hard_check name p m # cs) = [] \<longleftrightarrow> p \<and> hard_failures cs = []"
  by (simp add: hard_failures_def hard_check_def)

lemma hard_failures_Nil [simp]: "hard_failures [] = []"
  by (simp add: hard_failures_def)

text \<open>A Decimal that holds \<open>c\<close> cents.\<close>

definition holds :: "('d \<Rightarrow> bool) \<Rightarrow> ('d \<Rightarrow> rat) \<Rightarrow> 'd \<Rightarrow> int \<Rightarrow> bool" where
  "holds fin v x c \<longleftrightarrow> fin x \<and> v x = money c"

context decimal_js
begin

lemma holds_arith:
  assumes "holds fin v x c" and "holds fin v y d"
  shows "\<bar>c + d\<bar> < 10 ^ 20 \<Longrightarrow> holds fin v (d_plus D x y) (c + d)"
    and "\<bar>c - d\<bar> < 10 ^ 20 \<Longrightarrow> holds fin v (d_minus D x y) (c - d)"
  using assms plus_exact [of x y] minus_exact [of x y] prec20_money [of "c + d"] prec20_money [of "c - d"]
  by (auto simp: holds_def fin_plus fin_minus money_add money_diff)

lemma holds_unary:
  assumes "holds fin v x c"
  shows "holds fin v (d_abs D x) \<bar>c\<bar>" and "holds fin v (d_toDecimalPlaces D x 2) c"
  using assms by (auto simp: holds_def abs toDP money_abs)

lemma holds_compare:
  assumes "holds fin v x c" and "holds fin v y d"
  shows "d_equals D x y \<longleftrightarrow> c = d" and "d_lessThanOrEqualTo D x y \<longleftrightarrow> c \<le> d"
  using assms by (auto simp: holds_def equals lessThanOrEqualTo)

lemma holds_dec2: "in_cents n \<Longrightarrow> holds fin v (dec2 D n) (cents_of n)"
  unfolding dec2_def
  by (rule holds_unary(2)) (use has_cents_of_num [of n "cents_of n"] in \<open>simp add: in_cents_def holds_def\<close>)

lemma holds_0: "holds fin v (d_of_num D (Fin 0)) 0"
  using of_num [of 0] by (simp add: holds_def)

lemma sumRound2_lines:
  assumes "lines_in_cents ls"
  shows "in_cents (sumRound2 D (map li_amount ls)) \<and> cents_of (sumRound2 D (map li_amount ls)) = total_cents ls"
proof -
  note l = lines_cents [OF assms]
  have "sumRound2 D (map li_amount ls) = to_num (money (total_cents ls))"
    using sumRound2_cents [OF l(1)] assms by (simp add: lines_in_cents_def total_cents_def comp_def)
  with has_cents_to_num [OF l(2)] l(2) cents_of_has show ?thesis by (auto simp: in_cents_def)
qed

lemma holds_sum_fold:
  assumes "list_all (\<lambda>l. in_cents (li_amount l)) ls" and "holds fin v a c"
    and "\<bar>c\<bar> + (\<Sum>l\<leftarrow>ls. \<bar>cents_of (li_amount l)\<bar>) < 10 ^ 20"
  shows "holds fin v (foldl (\<lambda>acc c. d_plus D acc (dec2 D (li_amount c))) a ls) (c + total_cents ls)"
  using assms
proof (induction ls arbitrary: a c)
  case (Cons l ls)
  let ?k = "cents_of (li_amount l)"
  have "0 \<le> (\<Sum>l\<leftarrow>ls. \<bar>cents_of (li_amount l)\<bar>)" by (rule sum_list_nonneg) auto
  then have b: "\<bar>c + ?k\<bar> < 10 ^ 20" "\<bar>c + ?k\<bar> + (\<Sum>l\<leftarrow>ls. \<bar>cents_of (li_amount l)\<bar>) < 10 ^ 20"
    using Cons.prems(3) by auto
  have "holds fin v (d_plus D a (dec2 D (li_amount l))) (c + ?k)"
    using Cons.prems holds_dec2 b(1) by (intro holds_arith(1)) auto
  from Cons.IH [OF _ this b(2)] Cons.prems(1) show ?case by (simp add: total_cents_def add.assoc)
qed (simp add: total_cents_def)

lemma holds_sum_dec2: "lines_in_cents ls \<Longrightarrow> holds fin v (sum_dec2 D ls) (total_cents ls)"
  using holds_sum_fold [OF _ holds_0, of ls] by (simp add: sum_dec2_def lines_in_cents_def)

lemma variance_check:
  assumes "holds fin v x c" and "holds fin v y d" and "holds fin v t 1" and "\<bar>c - d\<bar> < 10 ^ 20"
  shows "d_lessThanOrEqualTo D (d_abs D (d_minus D x y)) t \<longleftrightarrow> \<bar>c - d\<bar> \<le> 1"
  using assms by (intro holds_compare(2) holds_unary(1) holds_arith(2)) auto

lemma cents_small: "in_cents n \<Longrightarrow> \<bar>cents_of n\<bar> < 10 ^ 15"
  by (simp add: in_cents_def)

lemma cash_flow_ties:
  assumes "lines_in_cents (cf_operating cf @ cf_investing cf @ cf_financing cf)" and "in_cents (cf_netChangeInCash cf)"
    and "pred_option in_cents (cf_beginningCash cf)" and "pred_option in_cents (cf_endingCash cf)" and t: "holds fin v t 1"
  shows "hard_failures (cash_flow_checks D t cf) = [] \<longleftrightarrow>
     \<bar>total_cents (cf_operating cf @ cf_investing cf @ cf_financing cf) - cents_of (cf_netChangeInCash cf)\<bar> \<le> 1
     \<and> (case (cf_beginningCash cf, cf_endingCash cf) of
          (Some beginning, Some ending) \<Rightarrow>
            \<bar>cents_of beginning + cents_of (cf_netChangeInCash cf) - cents_of ending\<bar> \<le> 1
        | _ \<Rightarrow> True)"
proof -
  let ?ls = "cf_operating cf @ cf_investing cf @ cf_financing cf"
  note s = sumRound2_lines [OF assms(1)] and net = holds_dec2 [OF assms(2)]
  have sec: "holds fin v (dec2 D (sumRound2 D (map li_amount ?ls))) (total_cents ?ls)"
    using holds_dec2 [OF conjunct1 [OF s]] s by simp
  have sections: "d_lessThanOrEqualTo D (d_abs D (d_minus D (dec2 D (sumRound2 D (map li_amount ?ls)))
      (dec2 D (cf_netChangeInCash cf)))) t \<longleftrightarrow> \<bar>total_cents ?ls - cents_of (cf_netChangeInCash cf)\<bar> \<le> 1"
    using lines_cents(2) [OF assms(1)] cents_small [OF assms(2)] by (intro variance_check sec net t) auto
  have roll: "d_lessThanOrEqualTo D (d_abs D (d_minus D (d_toDecimalPlaces D (d_plus D (dec2 D b) (dec2 D (cf_netChangeInCash cf))) 2)
      (dec2 D e))) t \<longleftrightarrow> \<bar>cents_of b + cents_of (cf_netChangeInCash cf) - cents_of e\<bar> \<le> 1"
    if "in_cents b" "in_cents e" for b e
    using cents_small [OF that(1)] cents_small [OF that(2)] cents_small [OF assms(2)]
    by (intro variance_check holds_unary(2) holds_arith(1) holds_dec2 net that t) auto
  have est: "hard_failures [\<lparr>vc_name = n, vc_hard = False, vc_passes = p, vc_message = m\<rparr>] = []" for n p m
    by (simp add: hard_failures_def)
  show ?thesis
    using assms(2-4) in_cents_finite [OF assms(2)] sections roll
    by (cases "cf_beginningCash cf"; cases "cf_endingCash cf")
      (simp_all add: cash_flow_checks_def Let_def hard_failures_append hard_failures_check_Cons est)
qed

lemma balance_sheet_ties:
  assumes "in_cents (bs_totalAssets bs)" "in_cents (bs_totalLiabilities bs)" "in_cents (bs_totalEquity bs)"
  shows "hard_failures [balance_sheet_check D bs] = [] \<longleftrightarrow>
    cents_of (bs_totalAssets bs) = cents_of (bs_totalLiabilities bs) + cents_of (bs_totalEquity bs)"
  unfolding balance_sheet_check_def hard_failures_one
  using assms cents_small [OF assms(2)] cents_small [OF assms(3)]
  by (intro holds_compare(1) holds_arith(1) holds_dec2) auto

lemma equal_amounts_tie:
  assumes "in_cents a" "in_cents b"
  shows "d_equals D (dec2 D a) (dec2 D b) \<longleftrightarrow> cents_of a = cents_of b"
  using assms by (intro holds_compare(1) holds_dec2)

lemma net_income_ties:
  assumes "in_cents netIncome" and "lines_in_cents (eq_changes e)"
  shows "hard_failures [net_income_check D netIncome e] = [] \<longleftrightarrow>
     (case find (label_has ''net income'') (eq_changes e) of
        None \<Rightarrow> True | Some c \<Rightarrow> cents_of netIncome = cents_of (li_amount c))"
  using equal_amounts_tie [OF assms(1)] assms(1) lines_in_cents_find [OF assms(2)]
  by (simp add: net_income_check_def Let_def hard_failures_one split: option.split)

lemma cash_ties:
  assumes "in_cents x" and "lines_in_cents (bs_assets bs)"
  shows "hard_failures [cash_tie_check D bs x] = [] \<longleftrightarrow>
     cents_of x = total_cents (filter (\<lambda>a. label_has ''cash'' a \<or> label_has ''bank'' a) (bs_assets bs))"
  using equal_amounts_tie [OF assms(1)]
    sumRound2_lines [OF lines_in_cents_filter [OF assms(2), of "\<lambda>a. label_has ''cash'' a \<or> label_has ''bank'' a"]]
  by (simp add: cash_tie_check_def Let_def hard_failures_one getCashFromBalanceSheet_def)

lemma equity_ties:
  assumes "in_cents x" and "in_cents (bs_totalEquity bs)"
  shows "hard_failures [equity_tie_check D bs x] = [] \<longleftrightarrow> cents_of x = cents_of (bs_totalEquity bs)"
  using equal_amounts_tie [OF assms] by (simp add: equity_tie_check_def hard_failures_one)

lemma retained_earnings_ties:
  assumes "lines_in_cents (eq_changes e)" and "lines_in_cents (js_or (eq_ociChanges e) [])" and "in_cents x" "in_cents y"
  shows "hard_failures [retained_earnings_check D e x y] = [] \<longleftrightarrow>
     cents_of x + total_cents (eq_changes e) + total_cents (js_or (eq_ociChanges e) []) = cents_of y"
  unfolding retained_earnings_check_def Let_def hard_failures_one
  using lines_cents(2) [OF assms(1)] lines_cents(2) [OF assms(2)] cents_small [OF assms(3)]
  by (intro holds_compare(1) holds_unary(2) holds_arith(1) holds_dec2 holds_sum_dec2 assms) auto

lemma scf_ties:
  assumes "in_cents netIncome" and "lines_in_cents (cf_operating cf)" and "holds fin v t 1"
  shows "hard_failures (scf_checks D t netIncome cf) = [] \<longleftrightarrow>
     (case find (label_has ''net income'') (cf_operating cf) of
        None \<Rightarrow> True | Some l \<Rightarrow> \<bar>cents_of netIncome - cents_of (li_amount l)\<bar> \<le> 1)"
proof (cases "find (label_has ''net income'') (cf_operating cf)")
  case (Some l)
  with assms(2) have l: "in_cents (li_amount l)" by (rule lines_in_cents_find)
  have "d_lessThanOrEqualTo D (d_abs D (d_minus D (dec2 D netIncome) (dec2 D (li_amount l)))) t
      \<longleftrightarrow> \<bar>cents_of netIncome - cents_of (li_amount l)\<bar> \<le> 1"
    using cents_small [OF assms(1)] cents_small [OF l] by (intro variance_check holds_dec2 assms l) auto
  with Some show ?thesis by (simp add: scf_checks_def Let_def hard_failures_one)
qed (simp add: scf_checks_def)

lemma continuity_ties:
  assumes "in_cents netIncome" and "lines_in_cents (bs_equity bs)" and "lines_in_cents (eq_changes e)"
    and "pred_option in_cents p" and t: "holds fin v t 1"
  shows "hard_failures (continuity_checks D t bs netIncome (Some e) p) = [] \<longleftrightarrow>
     (case find (label_has ''retained earnings'') (bs_equity bs) of
        None \<Rightarrow> True
      | Some l \<Rightarrow> \<bar>cents_of (li_amount l) - (cents_of (js_or p (Fin 0)) + cents_of netIncome
               - total_cents (filter (label_has ''dividend'') (eq_changes e)))\<bar> \<le> 1)"
proof (cases "find (label_has ''retained earnings'') (bs_equity bs)")
  case (Some l)
  with assms(2) have l: "in_cents (li_amount l)" by (rule lines_in_cents_find)
  have p: "in_cents (js_or p (Fin 0))" using assms(4) by (cases p) (simp_all add: js_or_def)
  note dl = lines_in_cents_filter [OF assms(3), of "label_has ''dividend''"]
  note dv = sumRound2_lines [OF dl]
  let ?div = "dec2 D (sumRound2 D (map li_amount (filter (label_has ''dividend'') (eq_changes e))))"
  have "holds fin v ?div (total_cents (filter (label_has ''dividend'') (eq_changes e)))"
    using holds_dec2 [OF conjunct1 [OF dv]] dv by simp
  then have "d_lessThanOrEqualTo D (d_abs D (d_minus D (dec2 D (li_amount l)) (d_toDecimalPlaces D
        (d_minus D (d_plus D (dec2 D (js_or p (Fin 0))) (dec2 D netIncome)) ?div) 2))) t
      \<longleftrightarrow> \<bar>cents_of (li_amount l) - (cents_of (js_or p (Fin 0)) + cents_of netIncome
               - total_cents (filter (label_has ''dividend'') (eq_changes e)))\<bar> \<le> 1"
    using cents_small [OF assms(1)] cents_small [OF l] cents_small [OF p] lines_cents(2) [OF dl]
    by (intro variance_check holds_unary(2) holds_arith holds_dec2 assms l p) auto
  with Some show ?thesis by (simp add: continuity_checks_def Let_def hard_failures_one)
qed (simp add: continuity_checks_def Let_def)

lemmas statement_ties = cash_flow_ties balance_sheet_ties net_income_ties cash_ties equity_ties
  retained_earnings_ties scf_ties continuity_ties

end

lemma statements_in_cents_D:
  assumes "statements_in_cents bs netIncome cf equity prior"
  shows "pred_option in_cents (cf_beginningCash cf)" "pred_option in_cents (cf_endingCash cf)"
    "pred_option in_cents (eq_openingEquity equity)" "pred_option in_cents (eq_closingEquity equity)"
    "prior = Some p \<Longrightarrow> pred_option in_cents p" "lines_in_cents (cf_operating cf)"
    "in_cents (bs_totalAssets bs)" "in_cents (bs_totalLiabilities bs)" "in_cents (bs_totalEquity bs)"
    "in_cents netIncome" "in_cents (cf_netChangeInCash cf)"
  using assms lines_in_cents_append [of "cf_operating cf" "cf_investing cf @ cf_financing cf"]
  by (simp_all add: statements_in_cents_def js_or_def)

lemma cross_statement_checks:
  assumes "decimal_js D fin v" and "d_of_text D ''0.01'' = Some t" and "fin t" and "v t = 1 / 100"
    and "statements_in_cents bs netIncome cf equity prior"
  shows "\<exists>checks. runCrossStatementValidationForCertification D bs netIncome (Some cf) (Some equity) prior = Inr checks
     \<and> (hard_failures checks = [] \<longleftrightarrow> statements_tie bs netIncome cf equity prior)"
proof -
  note lines = assms(5) [unfolded statements_in_cents_def] and parts = statements_in_cents_D [OF assms(5)]
  have t: "holds fin v t 1" using assms(3,4) by (simp add: holds_def money_def)
  note ties = decimal_js.statement_ties [OF assms(1)]
  have sections: "hard_failures (cash_flow_checks D t cf) = [] \<longleftrightarrow>
     \<bar>total_cents (cf_operating cf @ cf_investing cf @ cf_financing cf) - cents_of (cf_netChangeInCash cf)\<bar> \<le> 1
     \<and> (case (cf_beginningCash cf, cf_endingCash cf) of
          (Some beginning, Some ending) \<Rightarrow>
            \<bar>cents_of beginning + cents_of (cf_netChangeInCash cf) - cents_of ending\<bar> \<le> 1
        | _ \<Rightarrow> True)"
    using lines parts by (intro ties(1) t) auto
  have rest: "hard_failures [balance_sheet_check D bs] = [] \<longleftrightarrow>
      cents_of (bs_totalAssets bs) = cents_of (bs_totalLiabilities bs) + cents_of (bs_totalEquity bs)"
    "hard_failures [net_income_check D netIncome equity] = [] \<longleftrightarrow>
      (case find (label_has ''net income'') (eq_changes equity) of
        None \<Rightarrow> True | Some c \<Rightarrow> cents_of netIncome = cents_of (li_amount c))"
    "hard_failures (scf_checks D t netIncome cf) = [] \<longleftrightarrow>
      (case find (label_has ''net income'') (cf_operating cf) of
        None \<Rightarrow> True | Some l \<Rightarrow> \<bar>cents_of netIncome - cents_of (li_amount l)\<bar> \<le> 1)"
    using lines parts t by (intro ties; simp)+
  have optional: "hard_failures (case cf_endingCash cf of None \<Rightarrow> [] | Some x \<Rightarrow> [cash_tie_check D bs x]) = [] \<longleftrightarrow>
      (case cf_endingCash cf of
          None \<Rightarrow> True
        | Some ending \<Rightarrow>
            cents_of ending = total_cents (filter (\<lambda>a. label_has ''cash'' a \<or> label_has ''bank'' a) (bs_assets bs)))"
    "hard_failures (case eq_closingEquity equity of None \<Rightarrow> [] | Some x \<Rightarrow> [equity_tie_check D bs x]) = [] \<longleftrightarrow>
      (case eq_closingEquity equity of None \<Rightarrow> True | Some x \<Rightarrow> cents_of x = cents_of (bs_totalEquity bs))"
    "hard_failures (case (eq_openingEquity equity, eq_closingEquity equity) of
        (Some x, Some y) \<Rightarrow> [retained_earnings_check D equity x y] | _ \<Rightarrow> []) = [] \<longleftrightarrow>
      (case (eq_openingEquity equity, eq_closingEquity equity) of
          (Some x, Some y) \<Rightarrow>
            cents_of x + total_cents (eq_changes equity) + total_cents (js_or (eq_ociChanges equity) []) = cents_of y
        | _ \<Rightarrow> True)"
    "hard_failures (case prior of None \<Rightarrow> [] | Some p \<Rightarrow> continuity_checks D t bs netIncome (Some equity) p) = [] \<longleftrightarrow>
      (case (prior, find (label_has ''retained earnings'') (bs_equity bs)) of
          (Some p, Some l) \<Rightarrow>
            \<bar>cents_of (li_amount l) - (cents_of (js_or p (Fin 0)) + cents_of netIncome
               - total_cents (filter (label_has ''dividend'') (eq_changes equity)))\<bar> \<le> 1
        | _ \<Rightarrow> True)"
    using lines parts t ties(4,5,6,8) by (auto split: option.split)
  have none: "existence_checks (Some cf) (Some equity) = []" by (simp add: existence_checks_def)
  show ?thesis
    by (simp only: runCrossStatementValidationForCertification_def assms(2) option.case sum.inject ex_simps simp_thms
        bind.bind_lunit none hard_failures_append hard_failures_Nil statements_tie_def sections rest optional conj_assoc)
qed

text \<open>
  C16. On statements in whole cents the validation at certification has no hard failure exactly when
  the accounting identities hold in cents: assets equal liabilities plus equity, net income and
  closing equity agree across the statements, cash agrees with the balance sheet, equity rolls
  forward, and the cash flow sections, the cash roll-forward, the start of the cash flow statement
  and the continuity of retained earnings hold within one cent. What decimal.js does is the
  hypothesis \<open>decimal_js\<close>, and that it reads the text 0.01.
\<close>

theorem cross_statement_exact:
  assumes "decimal_js D fin v" and "d_of_text D ''0.01'' = Some t" and "fin t" and "v t = 1 / 100"
    and "statements_in_cents bs netIncome cf equity prior"
  shows "\<exists>checks. runCrossStatementValidationForCertification D bs netIncome (Some cf) (Some equity) prior = Inr checks
     \<and> (hard_failures checks = [] \<longleftrightarrow> statements_tie bs netIncome cf equity prior)"
  using cross_statement_checks [OF assms] .

definition demo_line_of :: "string \<Rightarrow> int \<Rightarrow> StatementLine" where
  "demo_line_of l c = \<lparr>li_label = l, li_amount = cents_num c\<rparr>"

definition demo_balance_sheet :: BalanceSheet where
  "demo_balance_sheet = \<lparr>bs_assets = [demo_line_of ''Cash at Bank'' 150000],
     bs_equity = [demo_line_of ''Share capital'' 70000, demo_line_of ''Retained Earnings'' 30000],
     bs_totalAssets = cents_num 150000, bs_totalLiabilities = cents_num 50000, bs_totalEquity = cents_num 100000\<rparr>"

definition demo_cash_flow :: CashFlowStatement where
  "demo_cash_flow = \<lparr>cf_operating = [demo_line_of ''Net Income'' 30000], cf_investing = [], cf_financing = [demo_line_of ''Loan'' 50000],
     cf_netChangeInCash = cents_num 80000, cf_beginningCash = Some (cents_num 70000), cf_endingCash = Some (cents_num 150000),
     cf_estimated = False\<rparr>"

definition demo_equity :: EquityChangesStatement where
  "demo_equity = \<lparr>eq_openingEquity = Some (cents_num 70000), eq_changes = [demo_line_of ''Net income for the period'' 30000],
     eq_ociChanges = None, eq_closingEquity = Some (cents_num 100000)\<rparr>"

lemmas demo_statement_defs = demo_balance_sheet_def demo_cash_flow_def demo_equity_def

lemma demo_line_of_amount [simp]: "li_amount (demo_line_of l c) = cents_num c"
  by (simp add: demo_line_of_def)

lemma demo_label_has: "label_has w (demo_line_of l c) = label_has w (demo_line_of l 0)"
  by (simp add: label_has_def demo_line_of_def)

lemma demo_labels:
  "label_has ''cash'' (demo_line_of ''Cash at Bank'' 0)" "label_has ''net income'' (demo_line_of ''Net Income'' 0)"
  "label_has ''net income'' (demo_line_of ''Net income for the period'' 0)"
  "\<not> label_has ''dividend'' (demo_line_of ''Net income for the period'' 0)"
  "\<not> label_has ''retained earnings'' (demo_line_of ''Share capital'' 0)"
  "label_has ''retained earnings'' (demo_line_of ''Retained Earnings'' 0)"
  unfolding label_has_def demo_line_of_def StatementLine.simps by code_simp+

lemma demo_in_cents: "statements_in_cents demo_balance_sheet (cents_num 30000) demo_cash_flow demo_equity (Some None)"
  by (simp add: demo_statement_defs statements_in_cents_def lines_in_cents_def in_cents_num js_or_def)

lemma demo_ties: "statements_tie demo_balance_sheet (cents_num 30000) demo_cash_flow demo_equity (Some None)"
proof -
  note labels = demo_labels [folded demo_label_has [of _ _ 150000]] demo_labels [folded demo_label_has [of _ _ 30000]]
    demo_labels [folded demo_label_has [of _ _ 70000]]
  show ?thesis
    by (simp add: demo_statement_defs statements_tie_def total_cents_def in_cents_num js_or_def labels)
qed

lemma demo_tolerance: "d_of_text dec_model ''0.01'' = Some (Some (1 / 100))"
  by code_simp

lemma demo_validated:
  "\<exists>checks. runCrossStatementValidationForCertification dec_model demo_balance_sheet (cents_num 30000)
       (Some demo_cash_flow) (Some demo_equity) (Some None) = Inr checks \<and> hard_failures checks = []"
  using cross_statement_checks [OF dec.decimal_js_axioms demo_tolerance _ _ demo_in_cents] demo_ties
  by (simp add: dec_model_val_def)

theorem cross_statement_exact_witness:
  "\<exists>checks. runCrossStatementValidationForCertification dec_model demo_balance_sheet (cents_num 30000)
       (Some demo_cash_flow) (Some demo_equity) (Some None) = Inr checks \<and> hard_failures checks = []"
  using cross_statement_exact [OF dec.decimal_js_axioms demo_tolerance _ _ demo_in_cents] demo_ties
  by (simp add: dec_model_val_def)

end
