(* ===== verification/Snapshots.thy ===== *)
theory Snapshots
  imports LedgerSnapshot
begin

text \<open>
  What the hash of a snapshot says: the hash survives the JSONB column, does not depend on the
  order of the entries, and determines every hashed field; the account type is not one of them.
\<close>

section \<open>Canonical texts\<close>

lemma canonicalizeKeysOnly_Undef [simp]: "canonicalizeKeysOnly v = JUndef \<longleftrightarrow> v = JUndef"
  by (cases v) simp_all

lemma keys_only_hash_text: "canonicalStringifyKeysOnly v = hash_text v"
  unfolding canonicalStringifyKeysOnly_def
proof (induction v)
  case (JArr vs)
  then show ?case
    by (auto simp: hash_text_arr comp_def intro!: arg_cong [where f = "js_join '',''"])
next
  case (JObj kvs)
  have eq: "map_prod id (\<lambda>v. stringify (canonicalizeKeysOnly v)) p = map_prod id hash_text p" if "p \<in> set kvs" for p
    using JObj that by (cases p) (auto simp: snds.simps)
  have "members (map (map_prod id stringify) (sorted_object (filter (\<lambda>p. snd p \<noteq> JUndef)
        (map (map_prod id canonicalizeKeysOnly) kvs))))
      = members (sorted_object (present (map (map_prod id hash_text) kvs)))"
  proof -
    have "map (map_prod id stringify) (sorted_object (filter (\<lambda>p. snd p \<noteq> JUndef)
        (map (map_prod id canonicalizeKeysOnly) kvs)))
      = sorted_object (map (map_prod id stringify) (filter (\<lambda>p. snd p \<noteq> JUndef)
        (map (map_prod id canonicalizeKeysOnly) kvs)))" by (simp only: sorted_object_map)
    also have "map (map_prod id stringify) (filter (\<lambda>p. snd p \<noteq> JUndef) (map (map_prod id canonicalizeKeysOnly) kvs))
      = present (map (map_prod id hash_text) kvs)"
      using eq by (auto simp: present_def filter_map comp_def hash_text_elem intro!: map_cong filter_cong)
    finally show ?thesis by (rule arg_cong)
  qed
  then show ?case by (simp add: hash_text_obj)
qed simp_all

text \<open>Equal texts: the same members, the same elements.\<close>

lemma hash_text_obj_set:
  assumes "hash_text (JObj kvs) = hash_text (JObj lws)"
  shows "set (present (map (map_prod id hash_text) kvs)) = set (present (map (map_prod id hash_text) lws))"
proof -
  let ?f = "\<lambda>kvs. map (map_prod id elem_text) (filter (\<lambda>p. snd p \<noteq> JUndef)
    (sorted_object (map (map_prod id canonicalizeForHash) kvs)))"
  have "?f kvs = ?f lws"
    using assms by (intro stringify_obj_members) (simp add: hash_text_def)
  then have "map_prod id Some ` set (?f kvs) = map_prod id Some ` set (?f lws)" by simp
  moreover have "map_prod id Some ` set (?f xs) = set (present (map (map_prod id hash_text) xs))" for xs
  proof -
    have "map_prod id Some ` set (?f xs)
        = (\<lambda>p. (fst p, Some (elem_text (canonicalizeForHash (snd p))))) ` {p \<in> set xs. snd p \<noteq> JUndef}"
      by (force simp: image_iff)
    also have "\<dots> = (\<lambda>p. (fst p, hash_text (snd p))) ` {p \<in> set xs. snd p \<noteq> JUndef}"
      by (intro image_cong) (auto simp: hash_text_elem)
    also have "\<dots> = set (present (map (map_prod id hash_text) xs))"
    proof -
      have "hash_text (snd p) \<noteq> None \<longleftrightarrow> snd p \<noteq> JUndef" for p :: "string \<times> json" by simp
      then have "present (map (map_prod id hash_text) xs)
          = map (\<lambda>p. (fst p, hash_text (snd p))) (filter (\<lambda>p. snd p \<noteq> JUndef) xs)"
        by (simp add: present_def filter_map comp_def map_prod_def case_prod_unfold del: not_None_eq)
      then show ?thesis by simp
    qed
    finally show ?thesis .
  qed
  ultimately show ?thesis by simp
qed

lemma hash_text_arr_elems:
  assumes "hash_text (JArr vs) = hash_text (JArr ws)" and "JUndef \<notin> set vs" and "JUndef \<notin> set ws"
  shows "map hash_text vs = map hash_text ws"
proof -
  let ?t = "\<lambda>vs. map (\<lambda>v. elem_text (canonicalizeForHash v)) vs"
  have sub: "same_end a b" if "a \<in> set (?t vs)" "b \<in> set (?t ws)" for a b
    using that stringify_code by (auto intro!: elem_text_code)
  have start: "t \<noteq> [] \<and> hd t \<notin> set '']},''" if "t \<in> set (?t vs) \<union> set (?t ws)" for t
    using that elem_text_start by force
  have "js_join '','' (?t vs) @ CHR '']'' # [] = js_join '','' (?t ws) @ CHR '']'' # []"
    using assms(1) by (simp add: hash_text_def stringify_arr comp_def del: stringify.simps)
  with join_code [OF sub start] have "?t vs = ?t ws" by blast
  then have "map (\<lambda>v. Some (elem_text (canonicalizeForHash v))) vs = map (\<lambda>v. Some (elem_text (canonicalizeForHash v))) ws"
    by (metis (no_types, lifting) map_map comp_def map_eq_conv)
  moreover have "map hash_text xs = map (\<lambda>v. Some (elem_text (canonicalizeForHash v))) xs" if "JUndef \<notin> set xs" for xs
    using that by (intro map_cong) (auto simp: hash_text_elem)
  ultimately show ?thesis using assms(2,3) by metis
qed

lemma hash_text_obj_cong:
  "map (map_prod id hash_text) kvs = map (map_prod id hash_text) lws \<Longrightarrow> hash_text (JObj kvs) = hash_text (JObj lws)"
  by (simp add: hash_text_obj)

lemma hash_text_arr_cong: "map hash_text vs = map hash_text ws \<Longrightarrow> hash_text (JArr vs) = hash_text (JArr ws)"
proof -
  have "map (\<lambda>v. case hash_text v of None \<Rightarrow> ''null'' | Some t \<Rightarrow> t) xs
      = map (\<lambda>t. case t of None \<Rightarrow> ''null'' | Some t \<Rightarrow> t) (map hash_text xs)" for xs
    by simp
  then show "map hash_text vs = map hash_text ws \<Longrightarrow> hash_text (JArr vs) = hash_text (JArr ws)"
    by (simp only: hash_text_arr)
qed

section \<open>The hash and the JSONB column\<close>

lemma stored_money:
  "normalizeMoney D None = ''0.00'' \<Longrightarrow> normalizeMoney D (stored_num x) = normalizeMoney D x"
  by (auto simp: stored_num_def normalizeMoney_def split: option.splits)

lemma hash_text_num_json: "hash_text (num_json (stored_num x)) = hash_text (num_json x)"
  by (auto simp: num_json_def stored_num_def split: option.splits)

definition bare :: "SnapEntry \<Rightarrow> bool" where
  "bare e = (sn_provenance e = None)"

lemma stored_entry_same:
  assumes "normalizeMoney D None = ''0.00''" and "bare e"
  shows "mapEntry D (stored_entry e) = mapEntry D e" "entrySortKey S D (stored_entry e) = entrySortKey S D e"
  using assms by (simp_all add: mapEntry_def entrySortKey_def stored_entry_def stored_money bare_def)

lemma insort_key_ext: "(\<And>y. y \<in> set (x # ys) \<Longrightarrow> f y = g y) \<Longrightarrow> insort_key f x ys = insort_key g x ys"
  by (induction ys) auto

lemma sort_key_ext: "(\<And>y. y \<in> set xs \<Longrightarrow> f y = g y) \<Longrightarrow> sort_key f xs = sort_key g xs"
proof (induction xs)
  case (Cons x xs)
  then have "insort_key f x (sort_key g xs) = insort_key g x (sort_key g xs)" by (intro insort_key_ext) auto
  with Cons show ?case by simp
qed simp

lemma sort_entries_Nil [simp]: "sort_entries S D es = [] \<longleftrightarrow> es = []"
  unfolding sort_entries_def by (metis set_empty set_sort)

lemma sort_stored:
  assumes "normalizeMoney D None = ''0.00''" and "list_all bare es"
  shows "map (mapEntry D) (sort_entries S D (map stored_entry es)) = map (mapEntry D) (sort_entries S D es)"
proof -
  let ?k = "\<lambda>e. sv_collate S (entrySortKey S D e)"
  have "sort_key (?k \<circ> stored_entry) es = sort_key ?k es"
    using assms by (intro sort_key_ext) (auto simp: stored_entry_same list_all_iff)
  then have "sort_entries S D (map stored_entry es) = map stored_entry (sort_entries S D es)"
    by (simp add: sort_entries_def sort_key_map)
  moreover have "map (mapEntry D) (map stored_entry xs) = map (mapEntry D) xs" if "set xs = set es" for xs
    using assms that by (auto simp: stored_entry_same list_all_iff)
  ultimately show ?thesis by (simp add: sort_entries_def)
qed

definition all_entries :: "SnapPayload \<Rightarrow> SnapEntry list" where
  "all_entries p = sp_tb_entries p @ js_or (sp_entries p) []
     @ (case sp_comparative p of None \<Rightarrow> [] | Some c \<Rightarrow> cm_entries c)"

lemma canonical_stored:
  assumes "normalizeMoney D None = ''0.00''" and "list_all bare (all_entries p)"
  shows "toCanonicalMoneyPayload D (normalizePayloadForHash S D (stored_payload p))
    = toCanonicalMoneyPayload D (normalizePayloadForHash S D p)"
  using assms
  by (auto simp: toCanonicalMoneyPayload_def normalizePayloadForHash_def stored_payload_def all_entries_def js_or_def
      stored_money sort_stored split: option.splits)

lemma gl_stored:
  "map hash_text (map gl_json (sortGLEntries S (map (\<lambda>e. e\<lparr>gl_lines := map (\<lambda>l. l\<lparr>gl_debit := stored_num (gl_debit l),
     gl_credit := stored_num (gl_credit l)\<rparr>) (gl_lines e)\<rparr>) es))) = map hash_text (map gl_json (sortGLEntries S es))"
proof -
  let ?l = "\<lambda>l. l\<lparr>gl_debit := stored_num (gl_debit l), gl_credit := stored_num (gl_credit l)\<rparr>"
  let ?e = "\<lambda>e. e\<lparr>gl_lines := map ?l (gl_lines e)\<rparr>"
  have "sort_key gl_line_number (map ?l ls) = map ?l (sort_key gl_line_number ls)" for ls :: "GLLine list"
    by (simp add: sort_key_map comp_def)
  then have "sortGLEntries S (map ?e es) = map ?e (sortGLEntries S es)"
    by (simp add: sortGLEntries_def sort_key_map comp_def)
  moreover have "hash_text (gl_json (?e e)) = hash_text (gl_json e)" for e
    by (auto simp: gl_json_def opt_prop_def hash_text_num_json comp_def split: option.splits
        intro!: hash_text_obj_cong hash_text_arr_cong)
  ultimately show ?thesis by simp
qed

lemma wf_canonical: "wf_json v \<Longrightarrow> wf_json (canonicalizeKeysOnly v)"
proof (induction v)
  case (JObj kvs)
  let ?k = "filter (\<lambda>p. snd p \<noteq> JUndef) (map (map_prod id canonicalizeKeysOnly) kvs)"
  have "distinct (map fst (map (map_prod id canonicalizeKeysOnly) kvs))" using JObj.prems by simp
  then have "distinct (map fst ?k)" using distinct_map_filter by blast
  then have "distinct (map fst (sorted_object ?k))"
    by (metis mset_eq_imp_distinct_iff mset_map mset_sorted_object)
  with JObj show ?case by (fastforce simp: list_all_iff snds.simps)
qed (auto simp: list_all_iff)

lemma json_reparse_Undef [simp]: "json_reparse v = JUndef \<longleftrightarrow> v = JUndef"
  by (cases v) simp_all

lemma wf_reparse: "wf_json v \<Longrightarrow> wf_json (json_reparse v)"
proof (induction v)
  case (JObj kvs)
  let ?k = "filter (\<lambda>p. snd p \<noteq> JUndef) (map (map_prod id json_reparse) kvs)"
  have "distinct (map fst (map (map_prod id json_reparse) kvs))" using JObj.prems by simp
  then have "distinct (map fst ?k)" using distinct_map_filter by blast
  then have "distinct (map fst (own_order ?k))"
    by (metis mset_eq_imp_distinct_iff mset_map mset_own_order)
  with JObj show ?case by (fastforce simp: list_all_iff snds.simps)
qed (auto simp: list_all_iff)

lemma hash_stored:
  assumes "normalizeMoney D None = ''0.00''" and "list_all bare (all_entries p)"
    and "\<And>m. sp_manifest p = Some m \<Longrightarrow> wf_json m" and "v \<noteq> HASH_VERSION_LEGACY"
  shows "hashSnapshotPayload H S D (stored_payload p) v = hashSnapshotPayload H S D p v"
proof -
  let ?T = "map (map_prod id hash_text)"
  have "buildHashInput S D True (stored_payload p) = buildHashInput S D True p"
    using canonical_stored [OF assms(1,2)] by (simp add: buildHashInput_def)
  moreover have "hash_text (js_or (sp_manifest (stored_payload p)) d) = hash_text (js_or (sp_manifest p) d)" for d
    using assms(3) by (auto simp: stored_payload_def js_or_def hash_text_jsonb_roundtrip split: option.splits)
  moreover have "js_or (sp_gl (stored_payload p)) [] = [] \<longleftrightarrow> js_or (sp_gl p) [] = []"
    by (auto simp: stored_payload_def js_or_def split: option.splits)
  moreover have "hash_text (JArr (map gl_json (sortGLEntries S (js_or (sp_gl (stored_payload p)) []))))
      = hash_text (JArr (map gl_json (sortGLEntries S (js_or (sp_gl p) []))))"
    by (rule hash_text_arr_cong) (simp add: stored_payload_def js_or_def gl_stored [simplified] split: option.splits)
  ultimately have "?T (hash_input S D v (stored_payload p)) = ?T (hash_input S D v p)"
    using assms(4) by (simp add: hash_input_def opt_prop_def Let_def)
  then show ?thesis
    by (simp add: hashSnapshotPayload_def keys_only_hash_text hash_text_obj)
qed

section \<open>Properties\<close>

lemma build_bare: "list_all bare (all_entries input) \<Longrightarrow> list_all bare (all_entries (buildSnapshotPayloadFromInput D input))"
  by (auto simp: all_entries_def buildSnapshotPayloadFromInput_def Let_def js_or_def list_all_iff bare_def
      toSnapshotEntry_def split: option.splits list.splits)

lemma build_wf:
  "(\<And>m. sp_manifest input = Some m \<Longrightarrow> wf_json m) \<Longrightarrow> sp_manifest (buildSnapshotPayloadFromInput D input) = Some m
     \<Longrightarrow> wf_json m"
  by (auto simp: buildSnapshotPayloadFromInput_def Let_def intro!: wf_reparse wf_canonical)

lemma created_verifies:
  assumes "normalizeMoney D None = ''0.00''" and "list_all bare (all_entries input)"
    and "\<And>m. sp_manifest input = Some m \<Longrightarrow> wf_json m"
    and "createSnapshotFromTrialBalanceAndEntries H S D tenant periodLabel creator src sessionId input s = (Inr snapshot, s')"
  shows "verifySnapshotHash H S D snapshot \<and> ledger_snapshots s' = ledger_snapshots s @ [snapshot]"
proof -
  let ?p = "buildSnapshotPayloadFromInput D input"
  have "hashSnapshotPayload H S D (stored_payload ?p) v = hashSnapshotPayload H S D ?p v"
    if "v \<noteq> HASH_VERSION_LEGACY" for v
    using that assms(1) build_bare [OF assms(2)] build_wf [OF assms(3)] by (intro hash_stored) auto
  then show ?thesis
    using assms(4)
    by (auto simp: createSnapshotFromTrialBalanceAndEntries_def insertLedgerSnapshot_def random_text_def now_def
        Let_def verifySnapshotHash_def hash_versions getHashVersionForStorage_def split: if_splits)
qed

text \<open>
  C18. A snapshot verifies against the hash it was stored with: what \<open>verifySnapshotHash\<close> recomputes
  from the JSONB column is the hash of the payload that was given to it, whatever the amounts, the
  manifest and the general ledger, for entries without an amount provenance (those of a
  certification). Of decimal.js only the text of zero is used.
\<close>

theorem snapshot_verifies:
  assumes "normalizeMoney D None = ''0.00''" and "list_all bare (all_entries input)"
    and "\<And>m. sp_manifest input = Some m \<Longrightarrow> wf_json m"
    and "createSnapshotFromTrialBalanceAndEntries H S D tenant periodLabel creator src sessionId input s = (Inr snapshot, s')"
  shows "verifySnapshotHash H S D snapshot \<and> ledger_snapshots s' = ledger_snapshots s @ [snapshot]"
  using created_verifies [OF assms] .

definition demo_entry :: "string \<Rightarrow> rat \<Rightarrow> rat \<Rightarrow> string option \<Rightarrow> SnapEntry" where
  "demo_entry n d c ty = \<lparr>sn_lineId = None, sn_accountName = n, sn_debit = Some (Fin d), sn_credit = Some (Fin c),
     sn_accountCode = None, sn_accountType = ty, sn_description = None, sn_provenance = None\<rparr>"

definition demo_payload :: SnapPayload where
  "demo_payload = \<lparr>sp_tb_entries = [demo_entry ''Cash'' 5 0 (Some ''ASSET''), demo_entry ''Revenue'' 0 5 (Some ''REVENUE'')],
     sp_totalDebits = Some (Fin 5), sp_totalCredits = Some (Fin 5), sp_entries = None,
     sp_manifest = Some (JObj [(''journalEntries'', JArr [])]), sp_gl = None, sp_comparative = None,
     sp_standard = Some ''GAAP''\<rparr>"

definition demo_snap_env :: snap_env where
  "demo_snap_env = \<lparr>sv_collate = (\<lambda>x. x), sv_legacy_text = (\<lambda>_. []), sv_legacy_json = (\<lambda>_. [])\<rparr>"

definition demo_close_db :: close_db where
  "demo_close_db = \<lparr>clock = int, ticks = 0, rands = (\<lambda>n. replicate n (CHR ''x'')), drawn = 0, calls = [],
     audit_ledger = [], checkpoints = [], close_sessions = [], close_issues = [], issue_history = [],
     subsequent_events = [], journal_entries = [], journal_entry_lines = [], je_attachments = [],
     evidence_links = [], evidence_policies = [], shadow_findings = [], ledger_snapshots = [],
     certification_artifacts = []\<rparr>"

abbreviation demo_snapshot :: "(error + LedgerSnapshot) \<times> close_db" where
  "demo_snapshot \<equiv> createSnapshotFromTrialBalanceAndEntries (\<lambda>x. x) demo_snap_env dec_model ''t1'' ''2025-06'' None
     ''close_session'' (Some ''s1'') demo_payload demo_close_db"

lemma dec_zero: "normalizeMoney dec_model None = ''0.00''"
  by code_simp

lemma demo_snapshot_Inr: "\<exists>r u. demo_snapshot = (Inr r, u)"
  by (simp add: createSnapshotFromTrialBalanceAndEntries_def insertLedgerSnapshot_def random_text_def now_def Let_def
      demo_close_db_def)

theorem snapshot_verifies_witness:
  "\<exists>r. fst demo_snapshot = Inr r \<and> verifySnapshotHash (\<lambda>x. x) demo_snap_env dec_model r"
proof -
  obtain r u where r: "demo_snapshot = (Inr r, u)" using demo_snapshot_Inr by blast
  have "verifySnapshotHash (\<lambda>x. x) demo_snap_env dec_model r"
    using snapshot_verifies [OF dec_zero _ _ r]
    by (simp add: all_entries_def demo_payload_def demo_entry_def bare_def js_or_def)
  with r show ?thesis by simp
qed

definition retype :: "(SnapEntry \<Rightarrow> string option) \<Rightarrow> SnapEntry \<Rightarrow> SnapEntry" where
  "retype ty e = e\<lparr>sn_accountType := ty e\<rparr>"

definition retype_payload :: "(SnapEntry \<Rightarrow> string option) \<Rightarrow> SnapPayload \<Rightarrow> SnapPayload" where
  "retype_payload ty p = p\<lparr>sp_tb_entries := map (retype ty) (sp_tb_entries p)\<rparr>"

lemma sort_retype:
  "map (mapEntry D) (sort_entries S D (map (retype ty) es)) = map (mapEntry D) (sort_entries S D es)"
proof -
  have "(\<lambda>e. sv_collate S (entrySortKey S D e)) \<circ> retype ty = (\<lambda>e. sv_collate S (entrySortKey S D e))"
    by (simp add: fun_eq_iff entrySortKey_def retype_def)
  then have "sort_entries S D (map (retype ty) es) = map (retype ty) (sort_entries S D es)"
    by (simp add: sort_entries_def sort_key_map)
  then show ?thesis by (simp add: mapEntry_def retype_def)
qed

lemma retype_input:
  "v \<noteq> HASH_VERSION_LEGACY \<Longrightarrow> hash_input S D v (retype_payload ty p) = hash_input S D v p"
  by (simp add: hash_input_def buildHashInput_def toCanonicalMoneyPayload_def normalizePayloadForHash_def
      retype_payload_def sort_retype)

text \<open>
  C27. The account type is not hashed: a stored snapshot in which every account type has been changed
  (an expense into an asset, say) still verifies, for every version that new snapshots get.
\<close>

theorem accountType_not_protected:
  assumes "ls_version snapshot \<noteq> HASH_VERSION_LEGACY"
  shows "verifySnapshotHash H S D (snapshot\<lparr>ls_payload := retype_payload ty (ls_payload snapshot)\<rparr>)
    = verifySnapshotHash H S D snapshot"
  using assms by (simp add: verifySnapshotHash_def hashSnapshotPayload_def Let_def retype_input)

theorem accountType_not_protected_witness:
  "verifySnapshotHash (\<lambda>x. x) demo_snap_env dec_model \<lparr>ls_id = ''a'', ls_tenant = ''t1'', ls_period_label = ''2025-06'',
     ls_created_at = 0, ls_created_by = None, ls_source = ''close_session'',
     ls_payload = retype_payload (\<lambda>_. Some ''EXPENSE'') demo_payload,
     ls_hash = hashSnapshotPayload (\<lambda>x. x) demo_snap_env dec_model demo_payload 5, ls_version = 5, ls_session = None\<rparr>"
  using accountType_not_protected [of "\<lparr>ls_id = ''a'', ls_tenant = ''t1'', ls_period_label = ''2025-06'',
     ls_created_at = 0, ls_created_by = None, ls_source = ''close_session'', ls_payload = demo_payload,
     ls_hash = hashSnapshotPayload (\<lambda>x. x) demo_snap_env dec_model demo_payload 5, ls_version = 5, ls_session = None\<rparr>"
     "\<lambda>x. x" demo_snap_env dec_model "\<lambda>_. Some ''EXPENSE''"]
  by (simp add: verifySnapshotHash_def hash_versions Let_def)

text \<open>What the hash sees of an entry.\<close>

definition entry_view :: "'d decimal_ops \<Rightarrow> SnapEntry
     \<Rightarrow> string \<times> string \<times> string \<times> string option \<times> string option \<times> string option" where
  "entry_view D e = (sn_accountName e, normalizeMoney D (sn_debit e), normalizeMoney D (sn_credit e),
     nonempty (sn_lineId e), sn_accountCode e, nonempty (sn_description e))"

definition member_text :: "(string \<times> json) list \<Rightarrow> string \<Rightarrow> string option" where
  "member_text kvs k = Option.bind (map_of kvs k) hash_text"

lemma member_text_eq:
  assumes "hash_text (JObj kvs) = hash_text (JObj lws)" and "distinct (map fst kvs)" and "distinct (map fst lws)"
  shows "member_text kvs k = member_text lws k"
proof -
  have mem: "(k, Some t) \<in> set (present (map (map_prod id hash_text) xs)) \<longleftrightarrow> member_text xs k = Some t"
    if "distinct (map fst xs)" for xs t
    using that by (auto simp: present_def member_text_def bind_eq_Some_conv image_iff intro: map_of_is_SomeI dest: map_of_SomeD)
      (metis (no_types, lifting) map_of_SomeD fst_conv snd_conv id_apply map_prod_simp)
  show ?thesis
    using hash_text_obj_set [OF assms(1)] mem [OF assms(2)] mem [OF assms(3)]
    by (cases "member_text kvs k"; cases "member_text lws k") auto
qed

lemma opt_prop_keys [simp]:
  "map fst (opt_prop l x) = (if x = None then [] else [l])"
  "map_of (opt_prop l x) k = (if k = l then x else None)"
  "fst ` set (opt_prop l x) = (if x = None then {} else {l})"
  by (auto simp: opt_prop_def split: option.splits)

lemma map_option_quote [simp]: "map_option quote x = map_option quote y \<longleftrightarrow> x = y"
  by (cases x; cases y) auto

lemma bind_JStr [simp]: "Option.bind (map_option JStr x) hash_text = map_option quote x"
  by (cases x) auto

lemma mapEntry_view:
  assumes "hash_text (mapEntry D e) = hash_text (mapEntry D f)"
  shows "entry_view D e = entry_view D f"
proof -
  let ?k = "\<lambda>e. case mapEntry D e of JObj kvs \<Rightarrow> kvs | _ \<Rightarrow> []"
  have "member_text (?k e) k = member_text (?k f) k" for k
    using assms by (intro member_text_eq) (simp_all add: mapEntry_def)
  from this [of "''accountName''"] this [of "''debit''"] this [of "''credit''"] this [of "''lineId''"]
    this [of "''accountCode''"] this [of "''description''"]
  show ?thesis
    by (simp add: entry_view_def mapEntry_def member_text_def map_add_def split: option.splits)
qed

lemma map_of_filter_keys: "map_of (filter (\<lambda>kv. fst kv \<notin> K) xs) k = (if k \<in> K then None else map_of xs k)"
  by (induction xs) auto

definition protected_text :: "'d decimal_ops \<Rightarrow> snap_env \<Rightarrow> nat \<Rightarrow> SnapPayload \<Rightarrow> string \<Rightarrow> string option" where
  "protected_text D S v p k = member_text (hash_input S D v p) k"

lemma canonical_keys: "map fst (toCanonicalMoneyPayload D p) = [''hash_version'', ''trialBalance'']
    @ (if sp_entries p = None \<or> sp_entries p = Some [] then [] else [''entries''])
    @ (if sp_comparative p = None then [] else [''comparativeTrialBalance''])
    @ (if sp_standard p = None then [] else [''accountingContext''])"
  by (simp add: toCanonicalMoneyPayload_def split: option.splits)

lemma canonical_lookup:
  "map_of (toCanonicalMoneyPayload D p) ''trialBalance'' = Some (JObj [(''entries'', JArr (map (mapEntry D) (sp_tb_entries p))),
     (''totalDebits'', JStr (normalizeMoney D (sp_totalDebits p))),
     (''totalCredits'', JStr (normalizeMoney D (sp_totalCredits p)))])"
  "map_of (toCanonicalMoneyPayload D p) ''accountingContext'' = map_option (\<lambda>s. JObj [(''standard'', JStr s)]) (sp_standard p)"
  "map_of (toCanonicalMoneyPayload D p) ''evidenceManifest'' = None"
  by (simp_all add: toCanonicalMoneyPayload_def map_add_def)

lemma hash_input_distinct:
  assumes "v \<noteq> HASH_VERSION_LEGACY"
  shows "distinct (map fst (hash_input S D v p))"
proof -
  have "distinct (map fst (toCanonicalMoneyPayload D q @ opt_prop ''evidenceManifest'' m @ opt_prop ''generalLedger'' g))" for q m g
    unfolding map_append canonical_keys opt_prop_keys(1) by (simp split: if_split)
  from this [THEN distinct_map_filter] this assms show ?thesis
    by (simp only: hash_input_def Let_def buildHashInput_def if_True if_False split: if_split) blast
qed

lemma entries_view:
  assumes "hash_text (JArr (map (mapEntry D) es)) = hash_text (JArr (map (mapEntry D) fs))"
  shows "map (entry_view D) es = map (entry_view D) fs"
proof -
  have "map hash_text (map (mapEntry D) es) = map hash_text (map (mapEntry D) fs)"
    using assms by (rule hash_text_arr_elems) (auto simp: mapEntry_def)
  then have "list_all2 (\<lambda>e f. hash_text (mapEntry D e) = hash_text (mapEntry D f)) es fs"
    by (simp add: list_all2_map1 list_all2_map2 list.rel_eq [symmetric] comp_def)
  then have "list_all2 (\<lambda>e f. entry_view D e = entry_view D f) es fs"
    by (rule list_all2_mono) (rule mapEntry_view)
  then show ?thesis by (simp add: list_all2_map1 list_all2_map2 list.rel_eq [symmetric])
qed

text \<open>The members of the hashed object of a version from 2.\<close>

lemma hash_input_members:
  assumes "v \<noteq> HASH_VERSION_LEGACY"
  shows "member_text (hash_input S D v p) ''trialBalance''
      = hash_text (JObj [(''entries'', JArr (map (mapEntry D) (sort_entries S D (sp_tb_entries p)))),
         (''totalDebits'', JStr (normalizeMoney D (sp_totalDebits p))),
         (''totalCredits'', JStr (normalizeMoney D (sp_totalCredits p)))])"
    and "3 \<le> v \<Longrightarrow> member_text (hash_input S D v p) ''evidenceManifest''
      = hash_text (js_or (sp_manifest p) (JObj [(''journalEntries'', JArr [])]))"
    and "5 \<le> v \<Longrightarrow> member_text (hash_input S D v p) ''accountingContext''
      = Option.bind (map_option (\<lambda>s. JObj [(''standard'', JStr s)]) (sp_standard p)) hash_text"
proof -
  have input: "hash_input S D v p = (let input = toCanonicalMoneyPayload D (normalizePayloadForHash S D p)
        @ opt_prop ''evidenceManifest'' (if 3 \<le> v then Some (js_or (sp_manifest p) (JObj [(''journalEntries'', JArr [])])) else None)
        @ opt_prop ''generalLedger'' (if 4 \<le> v \<and> js_or (sp_gl p) [] \<noteq> []
             then Some (JArr (map gl_json (sortGLEntries S (js_or (sp_gl p) [])))) else None)
      in if v < 5 then filter (\<lambda>kv. fst kv \<notin> {''comparativeTrialBalance'', ''accountingContext''}) input else input)"
    using assms by (simp add: hash_input_def buildHashInput_def hash_versions)
  have lookup: "map_of (hash_input S D v p) k = (if v < 5 \<and> k \<in> {''comparativeTrialBalance'', ''accountingContext''} then None
      else map_of (toCanonicalMoneyPayload D (normalizePayloadForHash S D p)
        @ opt_prop ''evidenceManifest'' (if 3 \<le> v then Some (js_or (sp_manifest p) (JObj [(''journalEntries'', JArr [])])) else None)
        @ opt_prop ''generalLedger'' (if 4 \<le> v \<and> js_or (sp_gl p) [] \<noteq> []
             then Some (JArr (map gl_json (sortGLEntries S (js_or (sp_gl p) [])))) else None)) k)" for k
    unfolding input Let_def by (cases "v < 5") (simp_all only: map_of_filter_keys if_True if_False simp_thms)
  show "member_text (hash_input S D v p) ''trialBalance''
      = hash_text (JObj [(''entries'', JArr (map (mapEntry D) (sort_entries S D (sp_tb_entries p)))),
         (''totalDebits'', JStr (normalizeMoney D (sp_totalDebits p))),
         (''totalCredits'', JStr (normalizeMoney D (sp_totalCredits p)))])"
    unfolding member_text_def lookup by (simp add: map_add_def canonical_lookup normalizePayloadForHash_def)
  show "member_text (hash_input S D v p) ''evidenceManifest''
      = hash_text (js_or (sp_manifest p) (JObj [(''journalEntries'', JArr [])]))" if "3 \<le> v"
    unfolding member_text_def lookup using that by (simp add: map_add_def canonical_lookup)
  show "member_text (hash_input S D v p) ''accountingContext''
      = Option.bind (map_option (\<lambda>s. JObj [(''standard'', JStr s)]) (sp_standard p)) hash_text" if "5 \<le> v"
    unfolding member_text_def lookup using that
    by (cases "sp_standard p") (simp_all add: map_add_def canonical_lookup normalizePayloadForHash_def)
qed

lemma standard_text:
  assumes "Option.bind (map_option (\<lambda>s. JObj [(''standard'', JStr s)]) x) hash_text
    = Option.bind (map_option (\<lambda>s. JObj [(''standard'', JStr s)]) y) hash_text"
  shows "x = y"
proof (cases x)
  case None
  with assms show ?thesis by (cases y) (simp_all add: hash_text_obj)
next
  case (Some s)
  show ?thesis
  proof (cases y)
    case (Some t)
    then have "hash_text (JObj [(''standard'', JStr s)]) = hash_text (JObj [(''standard'', JStr t)])"
      using assms \<open>x = Some s\<close> by simp
    from member_text_eq [OF this, of "''standard''"] Some \<open>x = Some s\<close> show ?thesis by (simp add: member_text_def)
  qed (use assms \<open>x = Some s\<close> in \<open>simp add: hash_text_obj\<close>)
qed

lemma snapshot_hash_determines:
  assumes "inj H" and "verifySnapshotHash H S D a" and "verifySnapshotHash H S D b"
    and "ls_hash a = ls_hash b" and "ls_version a = v" and "ls_version b = v" and "v \<noteq> HASH_VERSION_LEGACY"
  shows "map (entry_view D) (sort_entries S D (sp_tb_entries (ls_payload a)))
      = map (entry_view D) (sort_entries S D (sp_tb_entries (ls_payload b)))
    \<and> normalizeMoney D (sp_totalDebits (ls_payload a)) = normalizeMoney D (sp_totalDebits (ls_payload b))
    \<and> normalizeMoney D (sp_totalCredits (ls_payload a)) = normalizeMoney D (sp_totalCredits (ls_payload b))
    \<and> (3 \<le> v \<longrightarrow> hash_text (js_or (sp_manifest (ls_payload a)) (JObj [(''journalEntries'', JArr [])]))
        = hash_text (js_or (sp_manifest (ls_payload b)) (JObj [(''journalEntries'', JArr [])])))
    \<and> (5 \<le> v \<longrightarrow> sp_standard (ls_payload a) = sp_standard (ls_payload b))"
proof -
  let ?i = "\<lambda>x. hash_input S D v (ls_payload x)"
  have "H (js_or (hash_text (JObj (?i a))) []) = H (js_or (hash_text (JObj (?i b))) [])"
    using assms(2-7) by (simp add: verifySnapshotHash_def hashSnapshotPayload_def keys_only_hash_text Let_def)
  then have "hash_text (JObj (?i a)) = hash_text (JObj (?i b))"
    using assms(1) by (auto simp: js_or_def inj_eq hash_text_obj)
  then have eq: "member_text (?i a) k = member_text (?i b) k" for k
    using hash_input_distinct [OF assms(7)] by (intro member_text_eq)
  let ?t = "\<lambda>x. [(''entries'', JArr (map (mapEntry D) (sort_entries S D (sp_tb_entries (ls_payload x))))),
    (''totalDebits'', JStr (normalizeMoney D (sp_totalDebits (ls_payload x)))),
    (''totalCredits'', JStr (normalizeMoney D (sp_totalCredits (ls_payload x))))]"
  have "hash_text (JObj (?t a)) = hash_text (JObj (?t b))"
    using eq [of "''trialBalance''"] by (simp only: hash_input_members(1) [OF assms(7)])
  then have t: "member_text (?t a) k = member_text (?t b) k" for k by (rule member_text_eq) simp_all
  have "5 \<le> v \<Longrightarrow> sp_standard (ls_payload a) = sp_standard (ls_payload b)"
    using eq [of "''accountingContext''"] standard_text by (simp add: hash_input_members(3) [OF assms(7)])
  moreover have "3 \<le> v \<Longrightarrow> hash_text (js_or (sp_manifest (ls_payload a)) (JObj [(''journalEntries'', JArr [])]))
      = hash_text (js_or (sp_manifest (ls_payload b)) (JObj [(''journalEntries'', JArr [])]))"
    using eq [of "''evidenceManifest''"] by (simp only: hash_input_members(2) [OF assms(7)])
  moreover have "map (entry_view D) (sort_entries S D (sp_tb_entries (ls_payload a)))
      = map (entry_view D) (sort_entries S D (sp_tb_entries (ls_payload b)))"
    using t [of "''entries''"] by (intro entries_view) (simp add: member_text_def)
  ultimately show ?thesis
    using t [of "''totalDebits''"] t [of "''totalCredits''"] by (simp add: member_text_def)
qed



text \<open>
  The order in which the trial balance lists its entries does not matter to the hash, as long as
  no two entries have the same collation key.
\<close>

theorem snapshot_order_independent:
  assumes "mset es = mset (sp_tb_entries p)" and "distinct (map (\<lambda>e. sv_collate S (entrySortKey S D e)) es)"
  shows "hashSnapshotPayload H S D (p\<lparr>sp_tb_entries := es\<rparr>) v = hashSnapshotPayload H S D p v"
proof -
  have "sort_entries S D es = sort_entries S D (sp_tb_entries p)"
    unfolding sort_entries_def using assms by (rule sort_key_perm)
  then show ?thesis
    by (simp add: hashSnapshotPayload_def hash_input_def buildHashInput_def normalizePayloadForHash_def)
qed

theorem snapshot_order_independent_witness:
  "hashSnapshotPayload (\<lambda>x. x) demo_snap_env dec_model (demo_payload\<lparr>sp_tb_entries := rev (sp_tb_entries demo_payload)\<rparr>) 5
   = hashSnapshotPayload (\<lambda>x. x) demo_snap_env dec_model demo_payload 5"
  by (rule snapshot_order_independent)
    (simp_all add: demo_payload_def demo_entry_def demo_snap_env_def entrySortKey_def)

end
