(* ===== verification/CloseAudit.thy ===== *)
theory CloseAudit
  imports CloseGuarantees AuditKept CrossStatementTies Snapshots
begin

text \<open>
  The close session service and the audit ledger: every operation leaves the hash chain well-formed,
  so that the verification inside a certification passes, and a certification whose gates are
  satisfied succeeds.
\<close>

section \<open>Statements that do not touch the ledger\<close>

lemma kept_session_event: "wf_json (JObj flags) \<Longrightarrow> audit_kept H s (snd (session_event b H t session ev flags creator s))"
  by (simp add: session_event_def kept_recordMaterialEvent)

lemma kept_updateCloseSessionStatus: "audit_kept H s (snd (updateCloseSessionStatus t i st actor s))"
  by (rule audit_kept_frame) (simp_all add: updateCloseSessionStatus_def update_session_def now_def Let_def)

lemma kept_updateReopen: "audit_kept H s (snd (updateReopen t i who reason s))"
  by (rule audit_kept_frame) (simp_all add: updateReopen_def update_session_def now_def Let_def)

lemma kept_updateCertification: "audit_kept H s (snd (updateCertification t i who c m n a s))"
  by (rule audit_kept_frame) (simp_all add: updateCertification_def update_session_def now_def Let_def)

lemma kept_insertCloseSession: "audit_kept H s (snd (insertCloseSession i t e ps pe bas std st s))"
  by (rule audit_kept_frame)
    (simp_all add: insertCloseSession_def insert_session_row_def now_def Let_def andThen_state split: option.splits)

lemma kept_createIssue: "audit_kept H s (snd (createIssue input s))"
proof -
  have "audit_kept H u (snd (insertCloseIssue i input st u))" for i st and u :: "'a issue_db_scheme"
    by (rule audit_kept_frame)
      (simp_all add: insertCloseIssue_def insert_issue_row_def now_def Let_def andThen_state split: option.splits)
  moreover have "audit_kept H u (snd (appendIssueHistory i a b who c u))" for i a b who c and u :: "'a issue_db_scheme"
    by (rule audit_kept_frame) (simp_all add: appendIssueHistory_def insert_history_row_def random_text_def now_def Let_def)
  moreover have "audit_kept H u (record_call f args u)" for f args and u :: "'a issue_db_scheme"
    by (rule audit_kept_frame) (simp_all add: record_call_def)
  ultimately have "audit_kept H (s\<lparr>drawn := d\<rparr>) (snd (createIssue input s))" if "d = Suc (drawn s)" for d
    unfolding that createIssue_def random_text_def Let_def case_prod_conv
    by (intro aud.kept_andThen aud.kept_return) (simp_all add: aud.kept_refl)
  moreover have "audit_kept H s (s\<lparr>drawn := d\<rparr>)" for d by (rule audit_kept_frame) simp_all
  ultimately show ?thesis using aud.kept_trans by blast
qed

lemma kept_createIssueForSession: "audit_kept H s (snd (createIssueForSession input s))"
  by (simp add: createIssueForSession_def kept_createIssue)

lemma kept_createSnapshot:
  "audit_kept H s (snd (createSnapshotFromTrialBalanceAndEntries H' S D t p c src sid input s))"
  by (rule audit_kept_frame)
    (simp_all add: createSnapshotFromTrialBalanceAndEntries_def insertLedgerSnapshot_def random_text_def now_def Let_def)

lemma kept_buildCertificationArtifact: "audit_kept H s (snd (buildCertificationArtifact H' mode sg b s))"
  by (rule audit_kept_frame)
    (simp_all add: buildCertificationArtifact_def random_text_def Let_def split: option.splits prod.splits)

lemma kept_insertCertificationArtifact: "audit_kept H s (snd (insertCertificationArtifact t i p a h sg pk algo s))"
  by (rule audit_kept_frame) (simp_all add: insertCertificationArtifact_def random_text_def now_def Let_def)

lemma kept_now: "audit_kept H s (snd (now s))"
  by (rule audit_kept_frame) simp_all

section \<open>The operations\<close>

lemma kept_createSession: "audit_kept H s (snd (createSession input s))"
proof -
  have "audit_kept H s (s\<lparr>drawn := d\<rparr>)" for d by (rule audit_kept_frame) simp_all
  then have "audit_kept H s (snd (insertCloseSession i t e ps pe bas std st (s\<lparr>drawn := d\<rparr>)))" for i t e ps pe bas std st d
    using kept_insertCloseSession by (rule aud.kept_trans)
  then show ?thesis
    unfolding createSession_def random_text_def Let_def case_prod_conv
    by (intro aud.kept_flow aud.kept_refl)
qed

lemma kept_ensureSessionForPeriod: "audit_kept H s (snd (ensureSessionForPeriod t e p b d s))"
  unfolding ensureSessionForPeriod_def createSessionOrGetExisting_def
  by (intro aud.kept_flow aud.kept_pair aud.kept_andThen kept_createSession aud.kept_refl)

lemma kept_updateStatus: "audit_kept H s (snd (updateStatus b H t i st creator s))"
  unfolding updateStatus_def
  by (intro aud.kept_flow aud.kept_updated aud.kept_andThen kept_updateCloseSessionStatus kept_session_event aud.kept_refl)
    (simp add: opt_prop_def split: option.split)

lemma kept_rejectSession: "audit_kept H s (snd (rejectSession H t i reason who s))"
  unfolding rejectSession_def
  by (intro aud.kept_flow aud.kept_andThen aud.kept_withTransaction kept_updateStatus kept_createIssue
      kept_session_event aud.kept_refl) simp

lemma kept_reopenCloseSession: "audit_kept H s (snd (reopenCloseSession store H i t who reason role s))"
proof -
  have writes: "audit_kept H s (snd (reopen_writes H i t who reason session s))" for session
    unfolding reopen_writes_def
    by (intro aud.kept_flow aud.kept_updated aud.kept_andThen kept_updateReopen kept_session_event kept_createIssue
        aud.kept_refl) (simp split: option.split)
  have "audit_kept H s (reopen_rollback s u)" if "audit_kept H s u" for u
    using that by (intro audit_kept_frame) (simp_all add: reopen_rollback_def audit_kept_def)
  with writes show ?thesis
    unfolding reopenCloseSession_def
    by (auto simp: aud.kept_refl split: sum.splits option.splits prod.splits bool.splits) (metis snd_conv)+
qed

lemma kept_advanceToSubsequentEventsReview:
  "audit_kept H s (snd (advanceToSubsequentEventsReview store H i t who role s))"
  unfolding advanceToSubsequentEventsReview_def
  by (intro aud.kept_flow aud.kept_withTransaction aud.kept_updated aud.kept_andThen kept_updateCloseSessionStatus
      kept_session_event aud.kept_refl) simp

lemma kept_confirmNoSubsequentEvents: "audit_kept H s (snd (confirmNoSubsequentEvents store H i t who role s))"
proof -
  have "audit_kept H s (update_session t i f (s\<lparr>ticks := Suc (ticks s)\<rparr>))" for f
    by (rule audit_kept_frame) (simp_all add: update_session_def)
  moreover have "audit_kept H u (snd (andThen (session_event True H t ses ev
      [(''closeSessionId'', JStr a), (''confirmedBy'', JStr c)] cr u) (\<lambda>_ s.
      case getCloseSessionById t i s of None \<Rightarrow> (Inl e, s) | Some updated \<Rightarrow> (Inr updated, s))))"
    for ses ev a c cr e and u :: "'a session_db_scheme"
    by (intro aud.kept_andThen kept_session_event aud.kept_flow aud.kept_refl) simp
  ultimately show ?thesis
    unfolding confirmNoSubsequentEvents_def now_def Let_def case_prod_conv
    by (intro aud.kept_flow aud.kept_refl) (rule aud.kept_trans)
qed

lemma kept_lockCloseSession: "audit_kept H s (snd (lockCloseSession store H i t who role s))"
proof -
  have tail: "audit_kept H u (snd (case (case c of None \<Rightarrow> (0, u) | Some _ \<Rightarrow> now u) of (d, u) \<Rightarrow>
      andThen (session_event False H t x ev [(''closeSessionId'', JStr i), (''lockedBy'', JStr l),
        (''daysSinceCertification'', days_since c d)] cr u) (\<lambda>_ s. (Inr x, s))))"
    for c x ev l cr and u :: "'a event_db_scheme"
  proof (cases c)
    case None
    then show ?thesis by (auto simp: days_since_def intro!: aud.kept_andThen kept_session_event aud.kept_refl)
  next
    case (Some a)
    have "audit_kept H u (u\<lparr>ticks := Suc (ticks u)\<rparr>)" using kept_now [of H u] by simp
    from aud.kept_trans [OF this kept_session_event] Some show ?thesis
      by (auto simp: now_def days_since_def intro!: aud.kept_andThen aud.kept_refl)
  qed
  show ?thesis
    unfolding lockCloseSession_def Let_def
    by (intro aud.kept_flow aud.kept_withTransaction aud.kept_updated tail kept_updateCloseSessionStatus aud.kept_refl)
qed

lemma kept_confirm_and_lock: "audit_kept H s (snd (confirm_and_lock store H t i s))"
  unfolding confirm_and_lock_def
  by (intro aud.kept_andThen kept_confirmNoSubsequentEvents kept_lockCloseSession)

lemma kept_lock_reviewed: "audit_kept H s (snd (lock_reviewed store H t is s))"
proof (induction "is" arbitrary: s)
  case (Cons i "is")
  show ?case
    using aud.kept_trans [OF kept_confirm_and_lock [of H s store t i] Cons.IH]
    by (auto split: prod.splits sum.splits)
qed (simp add: aud.kept_refl)

lemma kept_lock_certified: "audit_kept H s (snd (lock_certified store H t is s))"
proof (induction "is" arbitrary: s)
  case (Cons i "is")
  have "audit_kept H s (snd (andThen (advanceToSubsequentEventsReview store H i t auto_locker Approver s)
      (\<lambda>_ s. confirm_and_lock store H t i s)))"
    by (intro aud.kept_andThen kept_advanceToSubsequentEventsReview kept_confirm_and_lock)
  from aud.kept_trans [OF this Cons.IH] show ?case by (auto split: prod.splits sum.splits)
qed (simp add: aud.kept_refl)

lemma kept_autoLock: "audit_kept H s (snd (autoLockCertifiedSessions store H t days s))"
proof -
  obtain xs u where u: "lock_reviewed store H t
      (map ses_id (listCloseSessions t None (Some SubsequentEventsReview) s)) s = (xs, u)" by fastforce
  then have su: "audit_kept H s u" using kept_lock_reviewed by (metis snd_conv)
  have "audit_kept H s (snd (lock_certified store H t cs (snd (now u))))" for cs
    using aud.kept_trans [OF su aud.kept_trans [OF kept_now kept_lock_certified]] .
  then show ?thesis
    unfolding autoLockCertifiedSessions_def by (simp add: u Let_def case_prod_unfold)
qed

lemma kept_certify_artifact:
  fixes s :: "'b close_db_scheme"
  shows "audit_kept (e_sha256 E) s (snd (certify_artifact E A input p c n checks s))"
proof -
  have build: "audit_kept H u (snd (build_and_insert_artifact E A b u))" for H b and u :: "'b close_db_scheme"
    unfolding build_and_insert_artifact_def
    by (intro aud.kept_andThen kept_buildCertificationArtifact)
      (auto intro!: aud.kept_andThen kept_insertCertificationArtifact aud.kept_refl split: prod.split)
  obtain chain v where v: "verifyChain (e_sha256 E) (cy_tenantId input) s = (chain, v)" by fastforce
  then have "audit_kept (e_sha256 E) s v" using kept_verifyChain [of "e_sha256 E" s "cy_tenantId input"] by simp
  with aud.kept_trans [OF this build] show ?thesis
    by (simp add: certify_artifact_def v aud.kept_refl)
qed

lemma kept_certify_writes: "audit_kept (e_sha256 E) s (snd (certify_writes E S A input p payload checks s))"
proof -
  have tail: "audit_kept (e_sha256 E) u (snd (let (c, s) = now u in f c s))"
    if "\<And>c s. audit_kept (e_sha256 E) s (snd (f c s))" for f u
    using aud.kept_trans [OF kept_now that] by (simp add: now_def)
  show ?thesis
    unfolding certify_writes_def
    by (intro aud.kept_andThen kept_createSnapshot tail kept_certify_artifact aud.kept_updated kept_updateCertification
        kept_recordMaterialEvent aud.kept_return aud.kept_refl) simp_all
qed

lemma kept_certifyCloseSession: "audit_kept (e_sha256 E) s (snd (certifyCloseSession store E S A input role s))"
  unfolding certifyCloseSession_def certify_transaction_def Let_def
  by (intro aud.kept_flow aud.kept_withTransaction aud.kept_pair kept_certify_writes aud.kept_refl)

lemma kept_module_issue: "audit_kept H s (module_issue t i e a b c d s)"
  using kept_createIssueForSession [of H s] by (metis module_issue_def prod.collapse swallow.simps)

lemma kept_propose_module: "audit_kept H s (propose_module M t i e name s)"
proof -
  have store: "audit_kept H u (upsert_proposal row f u)" for row f and u :: "'a module_db_scheme"
    by (rule audit_kept_frame) (simp_all add: upsert_proposal_def Let_def)
  have "audit_kept H s (snd (run_module M t i e name s))"
    by (auto simp: run_module_def skipped_module_def aud.kept_refl kept_module_issue split: sum.splits bool.splits)
  from aud.kept_trans [OF this store] show ?thesis
    by (auto simp: propose_module_def store_result_def store_failure_def Let_def split: prod.splits sum.splits)
qed

lemma kept_record_call: "audit_kept H s (record_call f args s)"
  by (rule audit_kept_frame) (simp_all add: record_call_def)

lemma kept_autoProposModules: "audit_kept H s (autoProposModules M t i e s)"
proof -
  have "audit_kept H s (foldl (\<lambda>s name. propose_module M t i e name s) s names)" for names
  proof (induction names arbitrary: s)
    case (Cons name names)
    from aud.kept_trans [OF kept_propose_module Cons.IH] show ?case by simp
  qed (simp add: aud.kept_refl)
  from aud.kept_trans [OF this kept_record_call] show ?thesis by (simp add: autoProposModules_def)
qed

lemma kept_setup_work: "audit_kept H s (snd (setup_work D A input session s))"
proof -
  have check: "audit_kept H u (snd (continuity_check D A input session u))" for u :: "'a close_db_scheme"
    using kept_createIssueForSession [of H u]
    by (auto simp: continuity_check_def Let_def aud.kept_refl split: option.splits prod.splits sum.splits) (metis snd_conv)+
  have "audit_kept H s (record_call f a (record_call g b (record_call h c s)))" for f a g b h c
    using aud.kept_trans [OF aud.kept_trans [OF kept_record_call kept_record_call] kept_record_call] .
  note calls = this aud.kept_trans [OF this kept_record_call]
  show ?thesis
    unfolding setup_work_def Let_def
    using calls aud.kept_trans [OF calls(1) check] aud.kept_trans [OF calls(2) check] by simp
qed

lemma kept_advance_transaction: "audit_kept (e_sha256 E) s (snd (advance_transaction E A input s))"
proof -
  have "audit_kept (e_sha256 E) s (snd (advance_body E A input s))"
    unfolding advance_body_def
    by (intro aud.kept_flow aud.kept_andThen kept_updateStatus aud.kept_refl)
      (simp add: case_prod_unfold Let_def kept_setup_work)
  then have "audit_kept (e_sha256 E) s (snd (withTransaction (advance_body E A input) s))"
    by (rule aud.kept_withTransaction)
  with aud.kept_rollback [OF this] show ?thesis
    unfolding advance_transaction_def by (auto split: prod.splits sum.splits)
qed

lemma kept_announce: "audit_kept H s (announce input a b s)"
  by (rule audit_kept_frame) (simp_all add: announce_def record_call_def Let_def split: option.split)

lemma kept_advanceSession: "audit_kept (e_sha256 E) s (snd (advanceSession E A input s))"
proof -
  obtain x u where u: "advance_transaction E A input s = (x, u)" by fastforce
  then have su: "audit_kept (e_sha256 E) s u" using kept_advance_transaction [of E s A input] by simp
  have "audit_kept (e_sha256 E) s (if a then announce input b c (if d then autoProposModules M t i e u else u)
      else (if d then autoProposModules M t i e u else u))" for a b c d M t i e
    using su aud.kept_trans [OF su kept_autoProposModules] aud.kept_trans [OF su kept_announce]
      aud.kept_trans [OF aud.kept_trans [OF su kept_autoProposModules] kept_announce] by simp
  with su u show ?thesis
    unfolding advanceSession_def Let_def
    by (auto simp: aud.kept_refl split: option.splits sum.splits error.splits simp del: if_split)
qed

lemma close_step_audit: "close_step E s s' \<Longrightarrow> audit_kept (e_sha256 E) s s'"
  by (cases rule: close_step.cases)
    (auto intro: kept_createSession kept_ensureSessionForPeriod kept_rejectSession kept_reopenCloseSession
      kept_advanceToSubsequentEventsReview kept_confirmNoSubsequentEvents kept_lockCloseSession kept_autoLock
      kept_certifyCloseSession kept_advanceSession)

lemma close_steps_audit: "(close_step E)\<^sup>*\<^sup>* s s' \<Longrightarrow> audit_kept (e_sha256 E) s s'"
  by (induction rule: rtranclp_induct) (auto intro: aud.kept_refl aud.kept_trans close_step_audit)

section \<open>The chain survives every sequence of calls\<close>

lemma demo_ledger_ok: "ledger_ok H demo_books" "clock_ok demo_books"
  by (simp_all add: ledger_ok_def tenant_rows_def demo_books_def clock_ok_def strict_mono_def)



section \<open>A certification that satisfies its gates succeeds\<close>

lemma createSnapshot_succeeds:
  assumes "\<And>k. rands s k \<notin> ls_id ` set (ledger_snapshots s)"
  shows "\<exists>n u. createSnapshotFromTrialBalanceAndEntries H S D t p c ''close_session'' sid input s = (Inr n, u)
     \<and> books u = (close_sessions s, ledger_snapshots s @ [n], certification_artifacts s) \<and> rands u = rands s"
  using assms
  by (auto simp: createSnapshotFromTrialBalanceAndEntries_def insertLedgerSnapshot_def random_text_def now_def Let_def
      books_def)

lemma buildCertificationArtifact_rands: "rands (snd (buildCertificationArtifact H mode sg b s)) = rands s"
  by (simp add: buildCertificationArtifact_def random_text_def Let_def split: option.splits prod.splits)

lemma buildCertificationArtifact_succeeds:
  assumes "\<And>h. sg h \<noteq> None"
  shows "\<exists>a h sig pk algo u. buildCertificationArtifact H mode sg b s = (Inr (a, h, sig, pk, algo), u)
     \<and> books u = books s \<and> rands u = rands s"
proof -
  obtain x u where u: "buildCertificationArtifact H mode sg b s = (x, u)" by fastforce
  have signs: "sg h = None \<longleftrightarrow> False" for h using assms by simp
  have "x \<noteq> Inl e" for e
    using u by (auto simp: buildCertificationArtifact_def Let_def signs split: option.splits prod.splits)
  then obtain a h sig pk algo where "x = Inr (a, h, sig, pk, algo)" by (cases x) auto
  with u books_buildCertificationArtifact [of H mode sg b s] buildCertificationArtifact_rands [of H mode sg b s]
  show ?thesis by auto
qed

lemma insertCertificationArtifact_succeeds:
  assumes "\<And>k. rands s k \<notin> ca_id ` set (certification_artifacts s)" and "\<not> existsForCloseSession t i s"
  shows "\<exists>a u. insertCertificationArtifact t i p x h sg pk algo s = (Inr a, u) \<and> close_sessions u = close_sessions s"
  using assms by (auto simp: insertCertificationArtifact_def random_text_def now_def Let_def existsForCloseSession_def list_ex_iff)

lemma verifyChain_rands: "rands (snd (verifyChain H t s)) = rands s"
  by (simp add: verifyChain_def verifyChainInternal_def now_def Let_def split: option.splits prod.splits)

lemma certify_artifact_succeeds:
  fixes s :: "'a close_db_scheme"
  assumes fresh: "\<And>k. rands s k \<notin> ca_id ` set (certification_artifacts s)" and "ledger_ok (e_sha256 E) s"
    and "\<And>h. an_sign A h \<noteq> None"
  shows "\<exists>a u. certify_artifact E A input p c n checks s = (Inr a, u) \<and> close_sessions u = close_sessions s"
proof (cases "existsForCloseSession (cy_tenantId input) (cy_closeSessionId input) s")
  case False
  obtain chain v where v: "verifyChain (e_sha256 E) (cy_tenantId input) s = (chain, v)" by fastforce
  then have vb: "books v = books s" "rands v = rands s"
    using books_verifyChain [of "e_sha256 E" "cy_tenantId input" s] verifyChain_rands [of "e_sha256 E" "cy_tenantId input" s]
    by simp_all
  have valid: "vr_valid chain" using verifyChainInternal_ok [OF assms(2)] v by (metis fst_conv verifyChain_def)
  let ?b = "artifact_input A input p c n checks chain"
  have b: "ba_tenantId ?b = cy_tenantId input" "ba_closeSessionId ?b = cy_closeSessionId input"
    by (simp_all add: artifact_input_def)
  obtain x h sig pk algo w where w: "buildCertificationArtifact (e_sha256 E) (an_mode A) (an_sign A) ?b v
      = (Inr (x, h, sig, pk, algo), w)" "books w = books v" "rands w = rands v"
    using buildCertificationArtifact_succeeds [where sg = "an_sign A" and H = "e_sha256 E" and mode = "an_mode A" and b = ?b and s = v, OF assms(3)]
    by blast
  have "\<not> existsForCloseSession (cy_tenantId input) (cy_closeSessionId input) w"
    "\<And>k. rands w k \<notin> ca_id ` set (certification_artifacts w)" "close_sessions w = close_sessions s"
    using False fresh vb w(2,3) by (simp_all add: existsForCloseSession_def books_def)
  with insertCertificationArtifact_succeeds [of w "cy_tenantId input" "cy_closeSessionId input" "ba_periodLabel ?b" x h sig pk algo] w(1)
  have "\<exists>a u. build_and_insert_artifact E A ?b v = (Inr a, u) \<and> close_sessions u = close_sessions s"
    by (auto simp: build_and_insert_artifact_def b)
  then show ?thesis by (simp add: certify_artifact_def False v valid)
qed (auto simp: certify_artifact_def)

text \<open>The gates of a certification, on the answers and the tables.\<close>

definition gates_open :: "'d env \<Rightarrow> snap_env \<Rightarrow> certify_answers \<Rightarrow> CertifyCloseInput \<Rightarrow> 'a close_db_scheme \<Rightarrow> bool" where
  "gates_open E S A input s \<longleftrightarrow>
     (\<exists>r adjusted hasGL checks manifest.
        session_row (cy_tenantId input) (cy_closeSessionId input) s = Some r
        \<and> certify_preconditions A input (rowToSession r) = Inr ()
        \<and> anchored_trial_balance A = Inr (adjusted, hasGL) \<and> an_manifest A = Inr manifest
        \<and> (let prior = getPriorCertifiedSnapshotForEntity (cy_tenantId input) (cs_entity r) (ses_periodEnd (rowToSession r)) s in
           (\<forall>n. prior = Some n \<longrightarrow> verifySnapshotHash (e_sha256 E) S (e_decimal E) n)
           \<and> validated_statements (e_decimal E) A (snapshot_payload (e_decimal E) adjusted prior (ses_standard (rowToSession r)))
               (getPriorPeriodRetainedEarnings (cy_tenantId input) (cs_entity r)
                  (js_or (cy_periodLabel input) (period_of (rowToSession r))) s) = Inr checks))"

lemma certify_writes_succeeds:
  fixes s :: "'a close_db_scheme"
  assumes row: "session_row (cy_tenantId input) (cy_closeSessionId input) s = Some r"
    and ledger: "ledger_ok (e_sha256 E) s" "clock_ok s"
    and fresh: "\<And>k. rands s k \<notin> ls_id ` set (ledger_snapshots s) \<and> rands s k \<notin> ca_id ` set (certification_artifacts s)"
    and signer: "\<And>h. an_sign A h \<noteq> None"
  shows "\<exists>ses s'. certify_writes E S A input p payload checks s = (Inr ses, s')"
proof -
  let ?t = "cy_tenantId input" and ?i = "cy_closeSessionId input"
  obtain n u where n: "createSnapshotFromTrialBalanceAndEntries (e_sha256 E) S (e_decimal E) ?t p
      (Some (cy_certifiedBy input)) ''close_session'' (Some ?i) payload s = (Inr n, u)"
    "books u = (close_sessions s, ledger_snapshots s @ [n], certification_artifacts s)" "rands u = rands s"
    using createSnapshot_succeeds fresh by metis
  define v where "v = u\<lparr>ticks := Suc (ticks u)\<rparr>"
  have "audit_kept (e_sha256 E) s v"
    using aud.kept_trans [OF kept_createSnapshot kept_now] n(1) by (metis v_def snd_conv ticks_now(1))
  then have v: "ledger_ok (e_sha256 E) v" "clock_ok v" using ledger by (auto simp: audit_kept_def clock_ok_def)
  have "\<And>k. rands v k \<notin> ca_id ` set (certification_artifacts v)" using n(2,3) fresh by (simp add: v_def books_def)
  from certify_artifact_succeeds [where input = input, OF this v(1) signer] obtain a w where
    w: "certify_artifact E A input p (clock u (ticks u)) n checks v = (Inr a, w)" "close_sessions w = close_sessions v"
    by blast
  have "audit_kept (e_sha256 E) v w" using kept_certify_artifact w(1) by (metis snd_conv)
  then have "ledger_ok (e_sha256 E) w" "clock_ok w" using v by (auto simp: audit_kept_def clock_ok_def)
  moreover have "session_row ?t ?i w = Some r" using row n(2) w(2) by (simp add: session_row_def v_def books_def)
  ultimately obtain q upd x where x: "updateCertification ?t ?i (cy_certifiedBy input) (clock u (ticks u)) (cy_memo input)
      (Some (ls_id n)) a w = (Some q, x)" "ledger_ok (e_sha256 E) x" "clock_ok x"
    using updateCertification_result [of ?t ?i w r input "clock u (ticks u)" "ls_id n" a]
      kept_updateCertification [of "e_sha256 E" w ?t ?i "cy_certifiedBy input" "clock u (ticks u)" "cy_memo input" "Some (ls_id n)" a]
    by (auto simp: audit_kept_def clock_ok_def)
  have "\<exists>y. recordMaterialEvent False (e_sha256 E) ev x = (Inr (), y)" for ev
    using appendEntry_ok [OF x(2,3)] appendEntryInternal_result [OF x(2,3)]
    by (simp add: recordMaterialEvent_def Let_def)
  then show ?thesis
    unfolding certify_writes_def
    using n(1) w(1) x(1) by (auto simp: now_def v_def [symmetric] andThen_Inr_iff)
qed

lemma certify_succeeds:
  assumes "gates_open E S A input s" and "store \<in> {None, Some 0}"
    and "ledger_ok (e_sha256 E) s" and "clock_ok s"
    and "\<And>k. rands s k \<notin> ls_id ` set (ledger_snapshots s) \<and> rands s k \<notin> ca_id ` set (certification_artifacts s)"
    and "\<And>h. an_sign A h \<noteq> None"
  shows "\<exists>ses s'. certifyCloseSession store E S A input Approver s = (Inr ses, s')"
proof -
  from assms(1) obtain r adjusted hasGL checks manifest where
    row: "session_row (cy_tenantId input) (cy_closeSessionId input) s = Some r" and
    gates: "certify_preconditions A input (rowToSession r) = Inr ()"
      "anchored_trial_balance A = Inr (adjusted, hasGL)" "an_manifest A = Inr manifest" and
    prior: "\<And>n. getPriorCertifiedSnapshotForEntity (cy_tenantId input) (cs_entity r) (ses_periodEnd (rowToSession r)) s = Some n
      \<Longrightarrow> verifySnapshotHash (e_sha256 E) S (e_decimal E) n" and
    checks: "validated_statements (e_decimal E) A (snapshot_payload (e_decimal E) adjusted
        (getPriorCertifiedSnapshotForEntity (cy_tenantId input) (cs_entity r) (ses_periodEnd (rowToSession r)) s)
        (ses_standard (rowToSession r)))
      (getPriorPeriodRetainedEarnings (cy_tenantId input) (cs_entity r)
        (js_or (cy_periodLabel input) (period_of (rowToSession r))) s) = Inr checks"
    by (auto simp: gates_open_def Let_def)
  have found: "getCloseSessionById (cy_tenantId input) (cy_closeSessionId input) s = Some (rowToSession r)"
    using row by (simp add: getCloseSessionById_def)
  have "\<exists>ses s'. certify_transaction E S A input s = (Inr ses, s')"
    unfolding certify_transaction_def
    using certify_writes_succeeds [OF row assms(3-6)] prior
    by (auto simp: found gates checks Let_def split: option.split)
  then show ?thesis using assms(2) by (auto simp: certify_Inr)
qed

subsection \<open>A session that can be certified\<close>

definition demo_review :: module_db where
  "demo_review = demo_books\<lparr>close_sessions := [demo_row ''s2'' ''2025-06-01'' ''2025-06-30'' UnderReview],
     ledger_snapshots := []\<rparr>"

definition demo_answers :: certify_answers where
  "demo_answers = \<lparr>an_allowSameUserCertify = False, an_hardBlockers = [], an_evidenceBlockers = [],
     an_trialBalance = Some ([\<lparr>sn_lineId = None, sn_accountName = ''Cash'', sn_debit = None, sn_credit = None,
        sn_accountCode = None, sn_accountType = None, sn_description = None, sn_provenance = None\<rparr>], False),
     an_statements = (\<lambda>_. Some \<lparr>st_balanceSheet = demo_balance_sheet, st_netIncome = cents_num 30000,
        st_cashFlow = Some demo_cash_flow, st_equityChanges = Some demo_equity\<rparr>),
     an_generalLedger = None, an_manifest = Inr (JObj [(''journalEntries'', JArr [])]), an_gates = None,
     an_aiMetadata = None, an_mode = ''dev'', an_sign = (\<lambda>h. Some (None, ''ed25519''))\<rparr>"

definition demo_certify :: CertifyCloseInput where
  "demo_certify = \<lparr>cy_tenantId = ''t1'', cy_closeSessionId = ''s2'', cy_certifiedBy = ''bob'', cy_periodLabel = None,
     cy_memo = None\<rparr>"

lemma demo_review_simps:
  "close_sessions demo_review = [demo_row ''s2'' ''2025-06-01'' ''2025-06-30'' UnderReview]"
  "ledger_snapshots demo_review = []" "certification_artifacts demo_review = []" "audit_ledger demo_review = []"
  by (simp_all add: demo_review_def demo_books_def)

lemma demo_review_row:
  "session_row ''t1'' ''s2'' demo_review = Some (demo_row ''s2'' ''2025-06-01'' ''2025-06-30'' UnderReview)"
  by (simp add: session_row_def demo_review_simps session_key_def demo_row_def)

lemma demo_gates: "gates_open demo_env demo_snap_env demo_answers demo_certify demo_review"
proof -
  obtain checks where "runCrossStatementValidationForCertification dec_model demo_balance_sheet (cents_num 30000)
       (Some demo_cash_flow) (Some demo_equity) (Some None) = Inr checks" "hard_failures checks = []"
    using demo_validated by blast
  then have "validated_statements dec_model demo_answers payload None = Inr checks" for payload
    by (simp add: validated_statements_def demo_answers_def)
  moreover have "getPriorPeriodRetainedEarnings t e p demo_review = None" for t e p
    by (simp add: getPriorPeriodRetainedEarnings_def prior_artifacts_def demo_review_simps)
  moreover have "getPriorCertifiedSnapshotForEntity t e p demo_review = None" for t e p
    by (simp add: getPriorCertifiedSnapshotForEntity_def demo_review_simps Let_def split: list.split)
  moreover have "certify_preconditions demo_answers demo_certify
      (rowToSession (demo_row ''s2'' ''2025-06-01'' ''2025-06-30'' UnderReview)) = Inr ()"
    by (simp add: certify_preconditions_Inr demo_answers_def demo_certify_def demo_row_def)
  moreover have "anchored_trial_balance demo_answers = Inr (fst (the (an_trialBalance demo_answers)), False)"
    "an_manifest demo_answers = Inr (JObj [(''journalEntries'', JArr [])])"
    by (simp_all add: anchored_trial_balance_def demo_answers_def)
  moreover have "cy_tenantId demo_certify = ''t1''" "cy_closeSessionId demo_certify = ''s2''" "e_decimal demo_env = dec_model"
    by (simp_all add: demo_certify_def demo_env_def)
  ultimately show ?thesis
    using demo_review_row by (simp add: gates_open_def Let_def) blast
qed

lemma demo_review_ok: "ledger_ok H demo_review" "clock_ok demo_review"
  by (simp_all add: ledger_ok_def tenant_rows_def demo_review_def demo_books_def clock_ok_def strict_mono_def)

lemma demo_answers_sign: "an_sign demo_answers h \<noteq> None"
  by (simp add: demo_answers_def)

lemma demo_certified:
  obtains ses s' where "certifyCloseSession None demo_env demo_snap_env demo_answers demo_certify Approver demo_review = (Inr ses, s')"
  using certify_succeeds [OF demo_gates _ demo_review_ok _ demo_answers_sign, of None]
  by (auto simp: demo_review_simps)

text \<open>
  C11. A certification whose gates are open succeeds: the approver, outside every advisory context,
  certifies a session under review that satisfies the preconditions, whose trial balance and evidence
  manifest are there, whose statements tie, and whose prior snapshot verifies, provided the ledger is
  well-formed, the random supply gives new identifiers and the key signs.
\<close>

theorem certification_succeeds:
  assumes "gates_open E S A input s" and "store \<in> {None, Some 0}"
    and "ledger_ok (e_sha256 E) s" and "clock_ok s"
    and "\<And>k. rands s k \<notin> ls_id ` set (ledger_snapshots s) \<and> rands s k \<notin> ca_id ` set (certification_artifacts s)"
    and "\<And>h. an_sign A h \<noteq> None"
  shows "\<exists>ses s'. certifyCloseSession store E S A input Approver s = (Inr ses, s')"
  using certify_succeeds [OF assms] .

theorem certification_succeeds_witness:
  "\<exists>ses s'. certifyCloseSession None demo_env demo_snap_env demo_answers demo_certify Approver demo_review = (Inr ses, s')"
  using certification_succeeds [OF demo_gates _ demo_review_ok _ demo_answers_sign, of None]
  by (simp add: demo_review_simps)

end
