(* ===== verification/SessionProperties.thy ===== *)
theory SessionProperties
  imports CloseAudit
begin

text \<open>
  The properties of the other operations of the close session service: creation, advancing, reopening,
  subsequent events, locking, and the accounting modules.
\<close>

section \<open>Shared facts\<close>

lemma session_event_frame:
  "close_sessions (snd (session_event b H t session ev flags creator s)) = close_sessions s"
  by (auto simp: session_event_def recordMaterialEvent_def appendEntry_def appendEntryInternal_unfold
      withTransaction.simps Let_def andThen_state split: sum.splits prod.splits)

lemma updateCloseSessionStatus_result:
  assumes "session_row t i s = Some r"
  shows "\<exists>q u. updateCloseSessionStatus t i st a s = (Some (rowToSession q), u) \<and> session_row t i u = Some q
    \<and> cs_status q = st \<and> same_session r q \<and> same_attestation r q"
proof -
  have "\<exists>f. updateCloseSessionStatus t i st a s = (getCloseSessionById t i (update_session t i f (s\<lparr>ticks := Suc (ticks s)\<rparr>)),
      update_session t i f (s\<lparr>ticks := Suc (ticks s)\<rparr>)) \<and> cs_status (f r) = st \<and> (\<forall>q. same_session q (f q) \<and> same_attestation q (f q))"
    by (auto simp: updateCloseSessionStatus_def now_def Let_def same_session_def same_attestation_def
        intro: exI [of _ "\<lambda>r. r\<lparr>cs_status := st, cs_advanced_to_review_by := a,
          cs_advanced_to_review_at := Some (clock s (ticks s)), cs_updated_at := clock s (ticks s)\<rparr>"]
        exI [of _ "\<lambda>r. r\<lparr>cs_status := st, cs_advanced_to_review_by := None,
          cs_advanced_to_review_at := None, cs_updated_at := clock s (ticks s)\<rparr>"]
        exI [of _ "\<lambda>r. r\<lparr>cs_status := st, cs_updated_at := clock s (ticks s)\<rparr>"])
  then obtain f where f: "updateCloseSessionStatus t i st a s
      = (getCloseSessionById t i (update_session t i f (s\<lparr>ticks := Suc (ticks s)\<rparr>)),
         update_session t i f (s\<lparr>ticks := Suc (ticks s)\<rparr>))"
    "cs_status (f r) = st" "\<And>q. same_session q (f q)" "\<And>q. same_attestation q (f q)" by blast
  have "session_row t i (update_session t i f (s\<lparr>ticks := Suc (ticks s)\<rparr>)) = Some (f r)"
    using f(3) assms by (subst session_row_update) (auto simp: same_session_def)
  with f show ?thesis by (auto simp: getCloseSessionById_def)
qed

lemma row_after_event:
  assumes "andThen (session_event b H t' session ev flags creator u) (\<lambda>_ w. (Inr x, w)) = (Inr y, v)"
  shows "session_row t i v = session_row t i u"
  using assms session_event_frame [of b H t' session ev flags creator u]
  by (auto simp: andThen_Inr_iff session_row_def)

lemma session_event_ok:
  assumes "ledger_ok H s" and "clock_ok s"
  shows "\<exists>u. session_event b H t session ev flags creator s = (Inr (), u) \<and> close_sessions u = close_sessions s"
proof -
  have "\<exists>u. session_event b H t session ev flags creator s = (Inr (), u)"
    using appendEntry_ok [OF assms] appendEntryInternal_result [OF assms]
    by (simp add: session_event_def recordMaterialEvent_def Let_def)
  then show ?thesis using session_event_frame by (metis snd_conv)
qed

lemma later_ok: "audit_kept H s u \<Longrightarrow> ledger_ok H s \<Longrightarrow> clock_ok s \<Longrightarrow> ledger_ok H u \<and> clock_ok u"
  by (simp add: audit_kept_def clock_ok_def)

lemma updateCloseSessionStatus_other:
  "j \<noteq> i \<Longrightarrow> session_row t j (snd (updateCloseSessionStatus t i st a s)) = session_row t j s"
  by (auto simp: updateCloseSessionStatus_def now_def Let_def session_row_update)

section \<open>Locking\<close>

lemma lock_result:
  assumes "lockCloseSession store H i t who role s = (Inr ses, s')"
  shows "store \<in> {None, Some 0} \<and> role \<in> {None, Some Approver}
    \<and> (\<exists>r q. session_row t i s = Some r \<and> cs_status r = SubsequentEventsReview
       \<and> (truthy (cs_se_confirmed_by r)
          \<or> session_events t i s \<noteq> [] \<and> list_all (\<lambda>e. se_disposition e \<noteq> None) (session_events t i s))
       \<and> session_row t i s' = Some q \<and> cs_status q = Locked \<and> same_session r q \<and> same_attestation r q)"
proof -
  from assms obtain r where r: "session_row t i s = Some r"
    and gate: "store \<in> {None, Some 0}" "role \<in> {None, Some Approver}"
      "cs_status r = SubsequentEventsReview" "isReviewComplete t i (cs_se_confirmed_by r) s = Inr ()"
    by (cases role) (auto simp: lockCloseSession_def outside_advisory canPerform_approver canLock_def Let_def
        split: sum.splits option.splits if_splits)
  obtain q u where q: "updateCloseSessionStatus t i Locked None s = (Some (rowToSession q), u)" "session_row t i u = Some q"
    "cs_status q = Locked" "same_session r q" "same_attestation r q"
    using updateCloseSessionStatus_result [OF r] by blast
  have "session_row t i s' = Some q"
    using assms r gate q(1,2)
    by (cases "cs_certified_at r"; cases role)
      (auto simp: lockCloseSession_def outside_advisory canPerform_approver canLock_def withTransaction_Inr now_def Let_def
        dest: row_after_event [of _ _ _ _ _ _ _ _ _ _ _ t i] split: sum.splits option.splits if_splits)
  with r gate q review_complete_cases show ?thesis by blast
qed

text \<open>
  C20. A session is locked only outside an advisory context, by an approver where a role is given, from
  the review of subsequent events, and only when that review is complete: somebody confirmed that
  there were none, or every recorded event has a disposition. It keeps its identity and attestation.
\<close>

theorem lock_gate:
  assumes "lockCloseSession store H i t who role s = (Inr ses, s')"
  shows "store \<in> {None, Some 0} \<and> role \<in> {None, Some Approver}
    \<and> (\<exists>r q. session_row t i s = Some r \<and> cs_status r = SubsequentEventsReview
       \<and> (truthy (cs_se_confirmed_by r)
          \<or> session_events t i s \<noteq> [] \<and> list_all (\<lambda>e. se_disposition e \<noteq> None) (session_events t i s))
       \<and> session_row t i s' = Some q \<and> cs_status q = Locked \<and> same_session r q \<and> same_attestation r q)"
  using lock_result [OF assms] .

lemma confirm_ok:
  assumes "store \<in> {None, Some 0}" and "ledger_ok H s" and "clock_ok s"
    and "session_row t i s = Some r" and "cs_status r = SubsequentEventsReview"
  shows "\<exists>x u q. confirmNoSubsequentEvents store H i t who Approver s = (Inr x, u) \<and> session_row t i u = Some q
    \<and> cs_status q = SubsequentEventsReview \<and> cs_se_confirmed_by q = Some who
    \<and> (\<forall>j. j \<noteq> i \<longrightarrow> session_row t j u = session_row t j s)"
proof -
  define f where "f = (\<lambda>r :: close_session_row. r\<lparr>cs_se_confirmed_by := Some who, cs_se_confirmed_at := Some (clock s (ticks s)),
    cs_updated_at := clock s (ticks s)\<rparr>)"
  define v where "v = update_session t i f (s\<lparr>ticks := Suc (ticks s)\<rparr>)"
  have rows: "session_row t j v = (if j = i then Some (f r) else session_row t j s)" for j
    unfolding v_def by (subst session_row_update) (use assms(4) in \<open>auto simp: f_def\<close>)
  have "audit_kept H s v" by (rule audit_kept_frame) (simp_all add: v_def update_session_def)
  then have "ledger_ok H v" "clock_ok v" using later_ok assms(2,3) by blast+
  from session_event_ok [OF this, of True t "rowToSession r" "''subsequent_events_confirmed_none''"
      "[(''closeSessionId'', JStr i), (''confirmedBy'', JStr who)]" "Some who"] obtain u where
    u: "session_event True H t (rowToSession r) ''subsequent_events_confirmed_none''
      [(''closeSessionId'', JStr i), (''confirmedBy'', JStr who)] (Some who) v = (Inr (), u)"
    "close_sessions u = close_sessions v" by blast
  then have "session_row t j u = session_row t j v" for j by (simp add: session_row_def)
  with u rows outside_advisory [of store] assms(1,4,5) show ?thesis
    by (simp add: confirmNoSubsequentEvents_def canPerform_approver getCloseSessionById_def now_def
        v_def f_def Let_def)
qed

lemma lock_ok:
  assumes "store \<in> {None, Some 0}" and "ledger_ok H s" and "clock_ok s"
    and "session_row t i s = Some r" and "cs_status r = SubsequentEventsReview" and "truthy (cs_se_confirmed_by r)"
  shows "\<exists>x u q. lockCloseSession store H i t who (Some Approver) s = (Inr x, u) \<and> session_row t i u = Some q
    \<and> cs_status q = Locked \<and> (\<forall>j. j \<noteq> i \<longrightarrow> session_row t j u = session_row t j s)"
proof -
  obtain q v where q: "updateCloseSessionStatus t i Locked None s = (Some (rowToSession q), v)" "session_row t i v = Some q"
    "cs_status q = Locked"
    using updateCloseSessionStatus_result [OF assms(4)] by blast
  have v: "ledger_ok H v" "clock_ok v"
    using later_ok [OF kept_updateCloseSessionStatus assms(2,3), of t i Locked None] q(1) by auto
  have w: "ledger_ok H (snd (now v))" "clock_ok (snd (now v))" using later_ok [OF kept_now v] by auto
  define d where "d = (case cs_certified_at r of None \<Rightarrow> (0, v) | Some _ \<Rightarrow> now v)"
  have d: "ledger_ok H (snd d)" "clock_ok (snd d)" "close_sessions (snd d) = close_sessions v"
    using v w by (auto simp: d_def now_def split: option.splits)
  obtain u where u: "session_event False H t (rowToSession q) ''close_session_locked''
      [(''closeSessionId'', JStr i), (''lockedBy'', JStr (js_or who ''system'')),
       (''daysSinceCertification'', days_since (cs_certified_at r) (fst d))] (Some (js_or who ''system'')) (snd d) = (Inr (), u)"
    "close_sessions u = close_sessions (snd d)"
    using session_event_ok [OF d(1,2)] by blast
  have rows: "session_row t j u = session_row t j v" for j using u(2) d(3) by (simp add: session_row_def)
  have "isReviewComplete t i (cs_se_confirmed_by r) s = Inr ()" using assms(6) review_complete_cases by blast
  then have "lockCloseSession store H i t who (Some Approver) s = (Inr (rowToSession q), u)"
    using outside_advisory [of store] assms(1,4,5) q(1) u(1)
    by (cases d) (simp add: lockCloseSession_def canPerform_approver canLock_def Let_def
        withTransaction_Inr d_def [symmetric])
  then show ?thesis using q(2,3) rows updateCloseSessionStatus_other [of _ i t Locked None s] q(1)
    by (metis snd_conv)
qed

lemma confirm_and_lock_ok:
  assumes "store \<in> {None, Some 0}" and "ledger_ok H s" and "clock_ok s"
    and "session_row t i s = Some r" and "cs_status r = SubsequentEventsReview"
  shows "\<exists>x u q. confirm_and_lock store H t i s = (Inr x, u) \<and> session_row t i u = Some q
    \<and> cs_status q = Locked \<and> (\<forall>j. j \<noteq> i \<longrightarrow> session_row t j u = session_row t j s)"
proof -
  obtain x v q where v: "confirmNoSubsequentEvents store H i t auto_locker Approver s = (Inr x, v)" "session_row t i v = Some q"
    "cs_status q = SubsequentEventsReview" "cs_se_confirmed_by q = Some auto_locker"
    "\<And>j. j \<noteq> i \<Longrightarrow> session_row t j v = session_row t j s"
    using confirm_ok [OF assms, of auto_locker] by blast
  have "ledger_ok H v" "clock_ok v"
    using later_ok [OF kept_confirmNoSubsequentEvents assms(2,3), of store i t auto_locker Approver] v(1) by auto
  from lock_ok [OF assms(1) this v(2,3), of "Some auto_locker"] v show ?thesis
    by (auto simp: confirm_and_lock_def auto_locker_def)
qed

lemma lock_reviewed_all:
  assumes "store \<in> {None, Some 0}" and "ledger_ok H s" and "clock_ok s" and "distinct is"
    and "\<And>i. i \<in> set is \<Longrightarrow> \<exists>r. session_row t i s = Some r \<and> cs_status r = SubsequentEventsReview"
  shows "\<exists>u. lock_reviewed store H t is s = (is, u)
    \<and> (\<forall>i\<in>set is. \<exists>q. session_row t i u = Some q \<and> cs_status q = Locked)
    \<and> (\<forall>j. j \<notin> set is \<longrightarrow> session_row t j u = session_row t j s)"
  using assms(2-)
proof (induction "is" arbitrary: s)
  case (Cons i "is")
  obtain r where "session_row t i s = Some r" "cs_status r = SubsequentEventsReview" using Cons.prems(4) by auto
  from confirm_and_lock_ok [OF assms(1) Cons.prems(1,2) this] obtain x v q where
    v: "confirm_and_lock store H t i s = (Inr x, v)" "session_row t i v = Some q" "cs_status q = Locked"
    "\<And>j. j \<noteq> i \<Longrightarrow> session_row t j v = session_row t j s" by blast
  have "ledger_ok H v" "clock_ok v"
    using later_ok [OF kept_confirm_and_lock Cons.prems(1,2), of store t i] v(1) by auto
  moreover have "\<exists>r. session_row t j v = Some r \<and> cs_status r = SubsequentEventsReview" if "j \<in> set is" for j
    using Cons.prems(3) Cons.prems(4) [of j] v(4) [of j] that by (cases "j = i") auto
  ultimately obtain u where u: "lock_reviewed store H t is v = (is, u)"
    "\<forall>i\<in>set is. \<exists>q. session_row t i u = Some q \<and> cs_status q = Locked"
    "\<forall>j. j \<notin> set is \<longrightarrow> session_row t j u = session_row t j v"
    using Cons.IH [of v] Cons.prems(3) by auto
  with v Cons.prems(3) show ?case by auto
qed simp

text \<open>
  C25. The scheduled job locks every session of the tenant that is in the review of subsequent events,
  whatever was recorded there: it confirms by itself that there were none, so a session whose events
  have no disposition, which \<open>lockCloseSession\<close> refuses to lock, is locked all the same.
\<close>

theorem auto_lock_overrides_review:
  fixes s :: "'a close_db_scheme"
  assumes "store \<in> {None, Some 0}" and "ledger_ok H s" and "clock_ok s" and "books_ok (books s)"
    and "r \<in> set (close_sessions s)" and "cs_status r = SubsequentEventsReview"
    and "isReviewComplete (cs_tenant r) (cs_id r) (cs_se_confirmed_by r) s = Inl reason"
  shows "lockCloseSession store H (cs_id r) (cs_tenant r) who (Some Approver) s
      = (Inl (cs_error ''VALIDATION'' (''Cannot lock: '' @ reason)), s)
    \<and> cs_id r \<in> set (fst (autoLockCertifiedSessions store H (cs_tenant r) days s))
    \<and> (\<exists>q. session_row (cs_tenant r) (cs_id r) (snd (autoLockCertifiedSessions store H (cs_tenant r) days s)) = Some q
         \<and> cs_status q = Locked)"
proof -
  let ?t = "cs_tenant r" and ?i = "cs_id r"
  define js where "js = map ses_id (listCloseSessions ?t None (Some SubsequentEventsReview) s)"
  have ids: "distinct (map cs_id (close_sessions s))" using books_okD [OF assms(4)] .
  have row: "session_row ?t (cs_id q) s = Some q" if "q \<in> set (close_sessions s)" "cs_tenant q = ?t" for q
    using that ids session_row_unique [OF assms(4), of ?t "cs_id q" _ q]
    by (cases "session_row ?t (cs_id q) s") (auto simp: session_key_def session_row_def find_None_iff)
  have js: "set js = cs_id ` {q \<in> set (close_sessions s). cs_tenant q = ?t \<and> cs_status q = SubsequentEventsReview}"
    by (auto simp: js_def listCloseSessions_def)
  have "inj_on cs_id (set (close_sessions s))" using ids by (simp add: distinct_map)
  then have "distinct js" using ids
    by (auto simp: js_def listCloseSessions_def comp_def distinct_map intro: inj_on_subset)
  moreover have "\<exists>q. session_row ?t j s = Some q \<and> cs_status q = SubsequentEventsReview" if "j \<in> set js" for j
    using that js row by auto
  ultimately obtain u where u: "lock_reviewed store H ?t js s = (js, u)"
    "\<forall>j\<in>set js. \<exists>q. session_row ?t j u = Some q \<and> cs_status q = Locked"
    using lock_reviewed_all [OF assms(1-3)] by blast
  have i: "?i \<in> set js" using js assms(5,6) by auto
  then obtain q where q: "session_row ?t ?i u = Some q" "cs_status q = Locked" using u(2) by blast
  obtain cs v where v: "lock_certified store H ?t
      (past_cutoff ?t (clock u (ticks u) - days * 24 * 60 * 60 * 1000) u) (snd (now u)) = (cs, v)" by fastforce
  have "books_ok (books u)" using bk.reaches_ok [OF reach_lock_reviewed [OF assms(4)] assms(4), of store H ?t js] u(1) by simp
  then have "reaches book_step books (snd (now u)) v" using reach_lock_certified [of "snd (now u)" store H ?t] v by (metis snd_conv now_def books_frame(1))
  from locked_row_stays [OF this [unfolded reaches_def], of ?t ?i q] q obtain p where "session_row ?t ?i v = Some p" "cs_status p = Locked"
    by (auto simp: session_row_def books_def now_def)
  moreover have "autoLockCertifiedSessions store H ?t days s = (js @ cs, v)"
    using u(1) v by (simp add: autoLockCertifiedSessions_def js_def)
  moreover have "lockCloseSession store H ?i ?t who (Some Approver) s = (Inl (cs_error ''VALIDATION'' (''Cannot lock: '' @ reason)), s)"
    using outside_advisory [of store] assms(1,6,7) row [OF assms(5)]
    by (simp add: lockCloseSession_def canPerform_approver canLock_def Let_def)
  ultimately show ?thesis using i by auto
qed

text \<open>A session in the review of subsequent events: with an event that nobody disposed of, and confirmed.\<close>

definition demo_event :: subsequent_event_row where
  "demo_event = \<lparr>se_id = ''v1'', se_tenant = ''t1'', se_session = ''s1'', se_event_date = ''2025-06-10'',
     se_description = ''claim filed'', se_impact = None, se_disposition = None, se_reviewed_by = None, se_reviewed_at = None,
     se_created_by = ''ann'', se_created_at = 0, se_updated_at = 0\<rparr>"

definition demo_late :: module_db where
  "demo_late = demo_books\<lparr>close_sessions := map (\<lambda>r. if cs_id r = ''s1'' then r\<lparr>cs_status := SubsequentEventsReview\<rparr> else r)
     (close_sessions demo_books), subsequent_events := [demo_event]\<rparr>"

definition demo_confirmed :: module_db where
  "demo_confirmed = demo_late\<lparr>close_sessions := map (\<lambda>r. if cs_id r = ''s1'' then r\<lparr>cs_se_confirmed_by := Some ''cfo''\<rparr> else r)
     (close_sessions demo_late)\<rparr>"

lemma demo_late_simps:
  "audit_ledger demo_late = audit_ledger demo_books" "checkpoints demo_late = checkpoints demo_books"
  "clock demo_late = clock demo_books" "ticks demo_late = ticks demo_books"
  "audit_ledger demo_confirmed = audit_ledger demo_books" "checkpoints demo_confirmed = checkpoints demo_books"
  "clock demo_confirmed = clock demo_books" "ticks demo_confirmed = ticks demo_books"
  by (simp_all add: demo_late_def demo_confirmed_def)

lemma demo_late_ok:
  "ledger_ok H demo_late" "clock_ok demo_late" "ledger_ok H demo_confirmed" "clock_ok demo_confirmed"
  using demo_ledger_ok(1) [of H] demo_ledger_ok(2) ledger_ok_later [of H demo_books demo_late]
    ledger_ok_later [of H demo_books demo_confirmed]
  by (simp_all add: demo_late_simps clock_ok_def)

lemma demo_late_books: "books_ok (books demo_late)"
  by (simp add: demo_late_def demo_books_def books_def books_ok_def demo_row_def demo_snap_def disjoint_periods_def
      closed_status_def attested_def)

theorem lock_gate_witness:
  "\<exists>ses s' q. lockCloseSession None (e_sha256 demo_env) ''s1'' ''t1'' (Some ''cfo'') (Some Approver) demo_confirmed = (Inr ses, s')
     \<and> session_row ''t1'' ''s1'' s' = Some q \<and> cs_status q = Locked"
proof -
  have "\<exists>r. session_row ''t1'' ''s1'' demo_confirmed = Some r \<and> cs_status r = SubsequentEventsReview \<and> truthy (cs_se_confirmed_by r)"
    by (simp add: demo_confirmed_def demo_late_def demo_books_def session_row_def session_key_def demo_row_def)
  then obtain ses s' where run: "lockCloseSession None (e_sha256 demo_env) ''s1'' ''t1'' (Some ''cfo'') (Some Approver) demo_confirmed
      = (Inr ses, s')"
    using lock_ok [OF _ demo_late_ok(3,4)] by blast
  from lock_gate [OF this] run show ?thesis by blast
qed

theorem auto_lock_overrides_review_witness:
  "\<exists>q. lockCloseSession None (e_sha256 demo_env) ''s1'' ''t1'' (Some ''cfo'') (Some Approver) demo_late
      = (Inl (cs_error ''VALIDATION'' ''Cannot lock: 1 subsequent event(s) without disposition''), demo_late)
    \<and> session_row ''t1'' ''s1'' (snd (autoLockCertifiedSessions None (e_sha256 demo_env) ''t1'' 30 demo_late)) = Some q
    \<and> cs_status q = Locked"
proof -
  define r where "r = hd (close_sessions demo_late)"
  have r: "r \<in> set (close_sessions demo_late)" "cs_status r = SubsequentEventsReview" "cs_tenant r = ''t1''" "cs_id r = ''s1''"
    by (simp_all add: r_def demo_late_def demo_books_def demo_row_def)
  have "isReviewComplete (cs_tenant r) (cs_id r) (cs_se_confirmed_by r) demo_late = Inl ''1 subsequent event(s) without disposition''"
    by (simp add: r_def demo_late_def demo_books_def demo_row_def isReviewComplete_def listBySession_def session_events_def
        demo_event_def rowToEvent_def demo_session_def nat_string.simps digit_char_def char_of_def bit_0)
  from auto_lock_overrides_review [of None, OF _ demo_late_ok(1,2) demo_late_books r(1,2) this] r show ?thesis by auto
qed

end
