(* ===== verification/SessionMoves.thy ===== *)
theory SessionMoves
  imports SessionProperties
begin

text \<open>
  Opening, rejecting and reopening a session, and the step towards the review: what a successful call
  required and what it leaves.
\<close>

section \<open>Rejecting and reopening\<close>

lemma createIssue_result:
  assumes "createIssue input s = (Inr x, u)"
  shows "\<exists>k c. close_issues u = close_issues s @ [new_issue_row k input Detected c] \<and> close_sessions u = close_sessions s"
proof -
  have "close_issues u = close_issues s @ [new_issue_row (rands s (drawn s)) input Detected (clock s (ticks s))]
      \<and> close_sessions u = close_sessions s"
    using assms by (auto simp: createIssue_def random_text_def insertCloseIssue_result insert_issue_row_def Let_def
      andThen_Inr_iff record_call_def appendIssueHistory_def insert_history_row_def now_def split: if_splits)
  then show ?thesis by blast
qed

lemma session_event_issues:
  fixes s :: "'a issue_db_scheme"
  shows "close_issues (snd (session_event b H t session ev flags creator s)) = close_issues s"
  by (auto simp: session_event_def recordMaterialEvent_def appendEntry_def appendEntryInternal_unfold
      withTransaction.simps Let_def andThen_state split: sum.splits prod.splits)

lemma updateStatus_result:
  assumes "updateStatus b H t i st creator s = (Inr ses, u)"
  shows "\<exists>r q. session_row t i s = Some r \<and> st \<in> set (ALLOWED_TRANSITIONS (cs_status r)) \<and> ses = rowToSession q
    \<and> session_row t i u = Some q \<and> cs_status q = st \<and> same_session r q \<and> same_attestation r q"
proof -
  from assms obtain r where r: "session_row t i s = Some r" "st \<in> set (ALLOWED_TRANSITIONS (cs_status r))"
    by (auto simp: updateStatus_def getCloseSessionByIdForUpdate_def split: option.splits if_splits)
  obtain q v where q: "updateCloseSessionStatus t i st creator s = (Some (rowToSession q), v)" "session_row t i v = Some q"
    "cs_status q = st" "same_session r q" "same_attestation r q"
    using updateCloseSessionStatus_result [OF r(1)] by blast
  from assms r q(1) have "ses = rowToSession q" "session_row t i u = session_row t i v"
    by (auto simp: updateStatus_def getCloseSessionByIdForUpdate_def andThen_Inr_iff dest: row_after_event)
      (metis session_event_frame session_row_def snd_conv)+
  with r q show ?thesis by auto
qed

lemma updateStatus_issues:
  fixes s :: "'a issue_db_scheme"
  shows "close_issues (snd (updateStatus b H t i st creator s)) = close_issues s"
proof -
  have "close_issues (snd (updateCloseSessionStatus t i st creator s)) = close_issues s"
    by (simp add: updateCloseSessionStatus_def now_def Let_def update_session_def)
  then show ?thesis
    by (auto simp: updateStatus_def andThen_state session_event_issues split: option.splits prod.splits sum.splits)
qed

text \<open>
  A rejection succeeds only for a session under review and with a reason of at least ten characters
  after trimming. It returns the session to work, and opens one issue on it, of severity blocking,
  that holds the reason.
\<close>

theorem rejection:
  fixes s :: "'a issue_db_scheme"
  assumes "rejectSession H t i reason who s = (Inr ses, s')"
  shows "10 \<le> length (js_trim reason)
    \<and> (\<exists>r q x. session_row t i s = Some r \<and> cs_status r = UnderReview \<and> session_row t i s' = Some q
       \<and> cs_status q = InProgress \<and> same_session r q \<and> same_attestation r q \<and> ses = rowToSession q
       \<and> close_issues s' = close_issues s @ [x] \<and> ci_tenant x = t \<and> ci_period x = i \<and> ci_severity x = Blocking
       \<and> ci_status x = Detected
       \<and> ci_source_details x = Some (jsonb_roundtrip (JObj [(''rejectedBy'', JStr who), (''reason'', JStr (js_trim reason))])))"
proof -
  from assms obtain locked and v w1 w2 :: "'a issue_db_scheme" and y z where long: "10 \<le> length (js_trim reason)"
    and locked: "getCloseSessionByIdForUpdate t i s = Some locked" "ses_status locked = UnderReview"
    and v: "updateStatus False H t i InProgress (Some who) s = (Inr y, v)"
    and w1: "createIssue (review_issue t i (ses_entityId locked) (js_trim reason) who) v = (Inr z, w1)"
    and w2: "session_event True H t locked ''close_session_transition''
             [(''event'', JStr ''close_session_rejected''), (''sessionId'', JStr i),
              (''rejectedBy'', JStr who), (''reason'', JStr (js_trim reason)),
              (''fromState'', JStr ''under_review''), (''toState'', JStr ''in_progress'')] None w1 = (Inr (), s')"
    and ses: "getCloseSessionById t i s' = Some ses"
    by (auto simp: rejectSession_def Let_def andThen_Inr_iff withTransaction_Inr split: if_splits option.splits)
  from updateStatus_result [OF v] obtain r q where r: "session_row t i s = Some r" "session_row t i v = Some q"
    "cs_status q = InProgress" "same_session r q" "same_attestation r q" by blast
  from createIssue_result [OF w1] obtain k c where
    k: "close_issues w1 = close_issues v @ [new_issue_row k (review_issue t i (ses_entityId locked) (js_trim reason) who) Detected c]"
      "close_sessions w1 = close_sessions v" by blast
  have "close_sessions s' = close_sessions w1" "close_issues s' = close_issues w1"
    using session_event_frame session_event_issues w2 by (metis snd_conv)+
  moreover have "close_issues v = close_issues s" using updateStatus_issues v by (metis snd_conv)
  ultimately have s': "session_row t i s' = Some q"
    "close_issues s' = close_issues s @ [new_issue_row k (review_issue t i (ses_entityId locked) (js_trim reason) who) Detected c]"
    using k r(2) by (simp_all add: session_row_def)
  have x: "ci_tenant (new_issue_row k (review_issue t i e (js_trim reason) who) Detected c) = t
      \<and> ci_period (new_issue_row k (review_issue t i e (js_trim reason) who) Detected c) = i
      \<and> ci_severity (new_issue_row k (review_issue t i e (js_trim reason) who) Detected c) = Blocking
      \<and> ci_status (new_issue_row k (review_issue t i e (js_trim reason) who) Detected c) = Detected
      \<and> ci_source_details (new_issue_row k (review_issue t i e (js_trim reason) who) Detected c)
        = Some (jsonb_roundtrip (JObj [(''rejectedBy'', JStr who), (''reason'', JStr (js_trim reason))]))" for e
    by (simp add: new_issue_row_def review_issue_def)
  show ?thesis
    using long locked r ses s' x by (auto simp: getCloseSessionById_def getCloseSessionByIdForUpdate_def)
qed

lemma updateReopen_result:
  assumes "session_row t i s = Some r"
  shows "\<exists>q u. updateReopen t i who reason s = (Some (rowToSession q), u) \<and> session_row t i u = Some q
    \<and> cs_status q = InProgress \<and> same_session r q \<and> same_attestation r q \<and> cs_reopened_by q = Some who
    \<and> cs_reopen_reason q = Some reason"
proof -
  define f where "f = (\<lambda>r :: close_session_row. r\<lparr>cs_status := InProgress, cs_reopened_at := Some (clock s (ticks s)),
    cs_reopened_by := Some who, cs_reopen_reason := Some reason, cs_updated_at := clock s (ticks s)\<rparr>)"
  have row: "session_row t i (update_session t i f (s\<lparr>ticks := Suc (ticks s)\<rparr>)) = Some (f r)"
    using assms by (subst session_row_update) (auto simp: f_def)
  moreover have "row_count (session_key t i) (close_sessions s) \<noteq> 0" using assms row_count_session [of t i s] by simp
  ultimately have "updateReopen t i who reason s = (Some (rowToSession (f r)), update_session t i f (s\<lparr>ticks := Suc (ticks s)\<rparr>))"
    by (simp add: updateReopen_def now_def Let_def getCloseSessionById_def f_def)
  with row show ?thesis by (auto simp: f_def same_session_def same_attestation_def)
qed

text \<open>
  A certified session is reopened only by an approver, outside every advisory context, with a
  reason of at least ten characters after trimming. It goes back to work, keeps who certified it, when
  and on which snapshot, and an issue of severity info records the reopening.
\<close>

theorem reopening:
  fixes s :: "'a issue_db_scheme"
  assumes "reopenCloseSession store H i t who reason role s = (Inr ses, s')"
  shows "store \<in> {None, Some 0} \<and> role = Approver \<and> 10 \<le> length (js_trim reason)
    \<and> (\<exists>r q x. session_row t i s = Some r \<and> cs_status r = Certified \<and> session_row t i s' = Some q
       \<and> cs_status q = InProgress \<and> same_session r q \<and> same_attestation r q \<and> cs_reopened_by q = Some who
       \<and> cs_reopen_reason q = Some (js_trim reason) \<and> ses = rowToSession q
       \<and> close_issues s' = close_issues s @ [x] \<and> ci_tenant x = t \<and> ci_period x = i \<and> ci_severity x = Info)"
proof -
  from assms obtain r where gate: "store \<in> {None, Some 0}" "role = Approver" "session_row t i s = Some r"
    "canReopen (rowToSession r) (Some reason) True = (True, [])"
    and writes: "reopen_writes H i t who reason (rowToSession r) s = (Inr ses, s')"
    by (auto simp: reopenCloseSession_def outside_advisory canPerform_approver getCloseSessionById_def canReopen_def Let_def
        split: sum.splits option.splits if_splits prod.splits)
  obtain q u where q: "updateReopen t i who (js_trim reason) s = (Some (rowToSession q), u)" "session_row t i u = Some q"
    "cs_status q = InProgress" "same_session r q" "same_attestation r q" "cs_reopened_by q = Some who"
    "cs_reopen_reason q = Some (js_trim reason)"
    using updateReopen_result [OF gate(3)] by blast
  from writes q(1) obtain v y ev fl cr where v: "session_event False H t (rowToSession q) ev fl cr u = (Inr (), v)"
    and issue: "createIssue (reopen_issue t i (ses_entityId (rowToSession r)) who reason) v = (Inr y, s')"
    and ses: "ses = rowToSession q"
    by (auto simp: reopen_writes_def andThen_Inr_iff)
  from createIssue_result [OF issue] obtain k c where
    k: "close_issues s' = close_issues v @ [new_issue_row k (reopen_issue t i (ses_entityId (rowToSession r)) who reason) Detected c]"
      "close_sessions s' = close_sessions v" by blast
  have "close_sessions v = close_sessions u" "close_issues v = close_issues u"
    using session_event_frame session_event_issues v by (metis snd_conv)+
  moreover have "close_issues (snd (updateReopen t i who (js_trim reason) s)) = close_issues s"
    by (simp add: updateReopen_def now_def Let_def update_session_def)
  ultimately have "session_row t i s' = Some q"
    "close_issues s' = close_issues s @ [new_issue_row k (reopen_issue t i (ses_entityId (rowToSession r)) who reason) Detected c]"
    using k q(1,2) by (simp_all add: session_row_def)
  with gate q ses show ?thesis
    by (auto simp: canReopen_def Let_def new_issue_row_def reopen_issue_def js_or_def split: if_splits)
qed

subsection \<open>They can succeed\<close>

lemma session_event_rest:
  fixes s :: "'a issue_db_scheme"
  shows "rands (snd (session_event b H t session ev flags creator s)) = rands s"
    and "issue_history (snd (session_event b H t session ev flags creator s)) = issue_history s"
  by (auto simp: session_event_def recordMaterialEvent_def appendEntry_def appendEntryInternal_unfold
      withTransaction.simps Let_def andThen_state split: sum.splits prod.splits)

definition fresh_issues :: "'a issue_db_scheme \<Rightarrow> bool" where
  "fresh_issues s \<longleftrightarrow> (\<forall>k. rands s k \<notin> ci_id ` set (close_issues s) \<and> rands s k \<notin> ih_id ` set (issue_history s))"

lemma createIssue_ok:
  assumes "fresh_issues s" and "ni_category input \<noteq> JournalEntryCategory" and "ni_periodId input \<in> cs_id ` set (close_sessions s)"
  shows "\<exists>x u. createIssue input s = (Inr x, u)"
proof -
  have "ci_category (new_issue_row k input st c) = ni_category input \<and> ci_id (new_issue_row k input st c) = k
      \<and> ci_period (new_issue_row k input st c) = ni_periodId input \<and> ci_id (rowToIssue (new_issue_row k input st c)) = k" for k st c
    by (simp add: new_issue_row_def rowToIssue_def)
  with assms show ?thesis
    by (simp add: createIssue_def random_text_def insertCloseIssue_result insert_issue_row_def Let_def
        appendIssueHistory_def insert_history_row_def now_def fresh_issues_def)
qed

lemma fresh_after_event:
  fixes s :: "'a issue_db_scheme"
  assumes "session_event b H t session ev flags creator s = (x, u)" and "fresh_issues s"
  shows "fresh_issues u"
  using assms session_event_rest [of b H t session ev flags creator s] session_event_issues [of b H t session ev flags creator s]
  by (simp add: fresh_issues_def)

lemma reopening_ok:
  fixes s :: "'a issue_db_scheme"
  assumes "session_row t i s = Some r" and "cs_status r = Certified" and "10 \<le> length (js_trim reason)"
    and "store \<in> {None, Some 0}" and "ledger_ok H s" and "clock_ok s" and "fresh_issues s"
  shows "\<exists>ses s'. reopenCloseSession store H i t who reason Approver s = (Inr ses, s')"
proof -
  obtain q u where q: "updateReopen t i who (js_trim reason) s = (Some (rowToSession q), u)" "session_row t i u = Some q"
    using updateReopen_result [OF assms(1)] by blast
  have u: "ledger_ok H u" "clock_ok u" using later_ok [OF kept_updateReopen assms(5,6)] q(1) by (metis snd_conv)+
  have "close_issues (snd (updateReopen t i who (js_trim reason) s)) = close_issues s
      \<and> issue_history (snd (updateReopen t i who (js_trim reason) s)) = issue_history s
      \<and> rands (snd (updateReopen t i who (js_trim reason) s)) = rands s"
    by (simp add: updateReopen_def now_def Let_def update_session_def)
  then have fresh: "fresh_issues u" using assms(7) q(1) by (simp add: fresh_issues_def)
  have step: "\<exists>y v. andThen (session_event False H t x ev fl cr u) (\<lambda>_ s. andThen (createIssue (reopen_issue t i e who reason) s)
      (\<lambda>_ s. (Inr z, s))) = (Inr y, v)" for x ev fl cr e z
  proof -
    obtain v where v: "session_event False H t x ev fl cr u = (Inr (), v)" "close_sessions v = close_sessions u"
      using session_event_ok [OF u] by blast
    have "i \<in> cs_id ` set (close_sessions v)" using session_row_key [OF q(2)] v(2) by auto
    then have "\<exists>y w. createIssue (reopen_issue t i e who reason) v = (Inr y, w)"
      using fresh_after_event [OF v(1) fresh] by (intro createIssue_ok) (simp_all add: reopen_issue_def)
    with v(1) show ?thesis by auto
  qed
  have "\<exists>y v. reopen_writes H i t who reason (rowToSession r) s = (Inr y, v)"
    unfolding reopen_writes_def q(1) prod.case option.case by (rule step)
  moreover have "canReopen (rowToSession r) (Some reason) True = (True, [])"
    using assms(2,3) by (auto simp: canReopen_def js_or_def Let_def)
  ultimately show ?thesis using outside_advisory [of store] assms(1,4)
    by (auto simp: reopenCloseSession_def canPerform_approver getCloseSessionById_def)
qed

lemma rejection_ok:
  fixes s :: "'a issue_db_scheme"
  assumes "session_row t i s = Some r" and "cs_status r = UnderReview" and "10 \<le> length (js_trim reason)"
    and "ledger_ok H s" and "clock_ok s" and "fresh_issues s"
  shows "\<exists>ses s'. rejectSession H t i reason who s = (Inr ses, s')"
proof -
  obtain q u where q: "updateCloseSessionStatus t i InProgress (Some who) s = (Some (rowToSession q), u)" "session_row t i u = Some q"
    using updateCloseSessionStatus_result [OF assms(1)] by blast
  have u: "ledger_ok H u" "clock_ok u" using later_ok [OF kept_updateCloseSessionStatus assms(4,5)] q(1) by (metis snd_conv)+
  have "close_issues (snd (updateCloseSessionStatus t i InProgress (Some who) s)) = close_issues s
      \<and> issue_history (snd (updateCloseSessionStatus t i InProgress (Some who) s)) = issue_history s
      \<and> rands (snd (updateCloseSessionStatus t i InProgress (Some who) s)) = rands s"
    by (simp add: updateCloseSessionStatus_def now_def Let_def update_session_def)
  then have fresh: "fresh_issues u" using assms(6) q(1) by (simp add: fresh_issues_def)
  have event: "\<exists>v. updateStatus False H t i InProgress (Some who) s = (Inr (rowToSession q), v) \<and> close_sessions v = close_sessions u
      \<and> fresh_issues v \<and> ledger_ok H v \<and> clock_ok v"
  proof -
    obtain v where v: "session_event False H t (rowToSession q) ''close_session_transition''
        ([(''from'', JStr (session_status_text (ses_status (rowToSession r)))), (''to'', JStr (session_status_text InProgress)),
          (''sessionId'', JStr i)] @ opt_prop ''userId'' (map_option JStr (Some who))) (Some (js_or (Some who) ''api'')) u
        = (Inr (), v)" "close_sessions v = close_sessions u"
      using session_event_ok [OF u] by blast
    have "getCloseSessionByIdForUpdate t i s = Some (rowToSession r)" "InProgress \<in> set (ALLOWED_TRANSITIONS (ses_status (rowToSession r)))"
      using assms(1,2) by (simp_all add: getCloseSessionByIdForUpdate_def)
    then have "updateStatus False H t i InProgress (Some who) s = (Inr (rowToSession q), v)"
      unfolding updateStatus_def using q(1) v(1) by simp
    moreover note v(2) fresh_after_event [OF v(1) fresh]
    moreover have "ledger_ok H v \<and> clock_ok v" using later_ok [OF kept_updateStatus assms(4,5), of False t i InProgress "Some who"] calculation(1) by simp
    ultimately show ?thesis by blast
  qed
  then obtain v where v: "updateStatus False H t i InProgress (Some who) s = (Inr (rowToSession q), v)"
    "close_sessions v = close_sessions u" "fresh_issues v" "ledger_ok H v" "clock_ok v" by blast
  have "i \<in> cs_id ` set (close_sessions v)" using session_row_key [OF q(2)] v(2) by auto
  then obtain y w where w: "createIssue (review_issue t i (ses_entityId (rowToSession r)) (js_trim reason) who) v = (Inr y, w)"
    using createIssue_ok [of v "review_issue t i (ses_entityId (rowToSession r)) (js_trim reason) who"] v(3)
    by (auto simp: review_issue_def)
  then have "ledger_ok H w" "clock_ok w" using later_ok [OF kept_createIssue v(4,5)] by (metis snd_conv)+
  then obtain z where z: "session_event True H t (rowToSession r) ''close_session_transition''
             [(''event'', JStr ''close_session_rejected''), (''sessionId'', JStr i),
              (''rejectedBy'', JStr who), (''reason'', JStr (js_trim reason)),
              (''fromState'', JStr ''under_review''), (''toState'', JStr ''in_progress'')] None w = (Inr (), z)"
    "close_sessions z = close_sessions w"
    using session_event_ok by blast
  have "session_row t i z = Some q" using z(2) createIssue_result [OF w] v(2) q(2) by (auto simp: session_row_def)
  with assms(1-3) v(1) w z(1) show ?thesis
    by (simp add: rejectSession_def Let_def withTransaction.simps getCloseSessionByIdForUpdate_def getCloseSessionById_def)
qed

definition demo_settled :: module_db where
  "demo_settled = demo_books\<lparr>close_sessions := map (\<lambda>r. if cs_id r = ''s1'' then r\<lparr>cs_status := Certified\<rparr> else r)
     (close_sessions demo_books)\<rparr>"

lemma demo_settled_ok: "ledger_ok H demo_settled" "clock_ok demo_settled"
  using demo_ledger_ok(1) [of H] demo_ledger_ok(2) ledger_ok_later [of H demo_books demo_settled]
  by (simp_all add: demo_settled_def clock_ok_def)

lemma demo_fresh: "fresh_issues demo_books" "fresh_issues demo_settled"
  by (simp_all add: fresh_issues_def demo_settled_def demo_books_def)

theorem rejection_witness:
  "\<exists>ses s' x. rejectSession (e_sha256 demo_env) ''t1'' ''s2'' ''numbers are wrong'' ''cfo'' demo_books = (Inr ses, s')
     \<and> close_issues s' = [x] \<and> ci_severity x = Blocking"
proof -
  have "\<exists>r. session_row ''t1'' ''s2'' demo_books = Some r \<and> cs_status r = UnderReview"
    by (simp add: session_row_def demo_books_def session_key_def demo_row_def)
  moreover have "10 \<le> length (js_trim ''numbers are wrong'')" by code_simp
  ultimately obtain ses s' where run: "rejectSession (e_sha256 demo_env) ''t1'' ''s2'' ''numbers are wrong'' ''cfo'' demo_books = (Inr ses, s')"
    using rejection_ok [OF _ _ _ demo_ledger_ok demo_fresh(1)] by blast
  have "close_issues demo_books = []" by (simp add: demo_books_def)
  with rejection [OF run] run show ?thesis by auto
qed

theorem reopening_witness:
  "\<exists>ses s' q. reopenCloseSession None (e_sha256 demo_env) ''s1'' ''t1'' ''cfo'' ''late invoice'' Approver demo_settled = (Inr ses, s')
     \<and> session_row ''t1'' ''s1'' s' = Some q \<and> cs_status q = InProgress"
proof -
  have "\<exists>r. session_row ''t1'' ''s1'' demo_settled = Some r \<and> cs_status r = Certified"
    by (simp add: session_row_def demo_settled_def demo_books_def session_key_def demo_row_def)
  moreover have "10 \<le> length (js_trim ''late invoice'')" by code_simp
  ultimately obtain ses s' where run: "reopenCloseSession None (e_sha256 demo_env) ''s1'' ''t1'' ''cfo'' ''late invoice'' Approver demo_settled = (Inr ses, s')"
    using reopening_ok [OF _ _ _ _ demo_settled_ok demo_fresh(2)] by blast
  with reopening [OF run] show ?thesis by blast
qed

section \<open>Opening a session for a period\<close>

lemma insert_row_result:
  assumes "andThen (insert_session_row r s) (\<lambda>_ u. case session_row t i u of None \<Rightarrow> (Inl x, u)
      | Some row \<Rightarrow> (Inr (rowToSession row), u)) = (Inr ses, u)"
    and "cs_tenant r = t" and "cs_id r = i"
  shows "close_sessions u = close_sessions s @ [r]" and "ses = rowToSession r" and "cs_period_start r \<le> cs_period_end r"
    and "\<not> list_ex (overlaps (cs_tenant r) (cs_entity r) (cs_period_start r) (cs_period_end r)) (close_sessions s)"
proof -
  from assms(1) have ok: "i \<notin> cs_id ` set (close_sessions s)" "\<not> cs_period_end r < cs_period_start r"
    "\<not> hasOverlappingSession (cs_tenant r) (cs_entity r) (cs_period_start r) (cs_period_end r) None s"
    "insert_session_row r s = (Inr (), s\<lparr>close_sessions := close_sessions s @ [r]\<rparr>)"
    using assms(3) by (auto simp: insert_session_row_def andThen_Inr_iff split: if_splits)
  have "find (session_key t i) (close_sessions s) = None" using ok(1) by (auto simp: find_None_iff session_key_def)
  then have "session_row t i (s\<lparr>close_sessions := close_sessions s @ [r]\<rparr>) = Some r"
    using assms(2,3) by (simp add: session_row_def find_append session_key_def)
  with assms(1) ok(4) show "close_sessions u = close_sessions s @ [r]" "ses = rowToSession r" by auto
  show "cs_period_start r \<le> cs_period_end r" using ok(2) by simp
  show "\<not> list_ex (overlaps (cs_tenant r) (cs_entity r) (cs_period_start r) (cs_period_end r)) (close_sessions s)"
    using ok(3) by (auto simp: hasOverlappingSession_def row_count_0_iff list_ex_iff list_all_iff)
qed

lemma insert_session_result:
  assumes "insertCloseSession i t e ps pe bas std st s = (Inr ses, u)"
  shows "\<exists>r. close_sessions u = close_sessions s @ [r] \<and> ses = rowToSession r \<and> overlaps t e ps pe r"
proof -
  note run = assms [unfolded insertCloseSession_def now_def Let_def case_prod_conv]
  from insert_row_result [OF run] show ?thesis by (auto simp: overlaps_def)
qed

text \<open>
  Opening a session for a period is idempotent: a second call for the same tenant, entity and period
  returns the session of the first, says that it did not create it, and leaves the database as it is,
  also when it asks for another basis or standard.
\<close>

theorem ensure_idempotent:
  assumes "ensureSessionForPeriod t e p b d s = (Inr (ses, c), s')"
  shows "ensureSessionForPeriod t e p b' d' s' = (Inr (ses, False), s')"
proof -
  from assms obtain ps pe where bounds: "periodLabelToPeriodBounds p = Some (ps, pe)"
    by (auto simp: ensureSessionForPeriod_def split: option.splits)
  have "getOverlappingSession t e ps pe s' = Some ses"
  proof (cases "getOverlappingSession t e ps pe s")
    case (Some x)
    with assms bounds show ?thesis by (auto simp: ensureSessionForPeriod_def createSessionOrGetExisting_def)
  next
    case None
    with assms bounds obtain k bas std u where "insertCloseSession k t e ps pe bas std Open u = (Inr ses, s')"
      "close_sessions u = close_sessions s"
      by (auto simp: ensureSessionForPeriod_def createSessionOrGetExisting_def createSession_def Let_def random_text_def
          andThen_Inr_iff split: if_splits)
    from insert_session_result [OF this(1)] this(2) obtain r where r: "close_sessions s' = close_sessions s @ [r]"
      "ses = rowToSession r" "overlaps t e ps pe r" by auto
    with None show ?thesis by (auto simp: getOverlappingSession_def find_append split: option.splits)
  qed
  with bounds show ?thesis by (simp add: ensureSessionForPeriod_def createSessionOrGetExisting_def)
qed

theorem ensure_idempotent_witness:
  "\<exists>ses s'. ensureSessionForPeriod ''t1'' ''e1'' ''2025-07'' None None demo_books = (Inr (ses, True), s')
     \<and> ensureSessionForPeriod ''t1'' ''e1'' ''2025-07'' (Some ''cash'') (Some ''IFRS'') s' = (Inr (ses, False), s')"
proof -
  have "\<exists>ses s'. ensureSessionForPeriod ''t1'' ''e1'' ''2025-07'' None None demo_books = (Inr (ses, True), s')"
  proof -
    have "toPeriodBounds ''2025-07'' = Some (''2025-07-01'', ''2025-07-31'')" by code_simp
    moreover have "is_date ''2025-07-01'' \<and> is_date ''2025-07-31'' \<and> \<not> ''2025-07-31'' < ''2025-07-01''" by code_simp
    ultimately show ?thesis
      by (simp add: ensureSessionForPeriod_def periodLabelToPeriodBounds_def createSessionOrGetExisting_def
          getOverlappingSession_def overlaps_def demo_books_def demo_row_def demo_session_def createSession_def js_or_def
          hasOverlappingSession_def row_count_def random_text_def Let_def insertCloseSession_def now_def
          insert_session_row_def session_row_def session_key_def)
  qed
  then obtain ses s' where "ensureSessionForPeriod ''t1'' ''e1'' ''2025-07'' None None demo_books = (Inr (ses, True), s')" by blast
  with ensure_idempotent [OF this] show ?thesis by blast
qed

end
