(* ===== verification/SessionWork.thy ===== *)
theory SessionWork
  imports SessionMoves
begin

text \<open>
  Advancing a session: the gate before the review, what a failed set-up leaves, and the accounting
  modules that are proposed when work starts.
\<close>

section \<open>The step to the review\<close>

lemma updateStatus_ok:
  assumes "session_row t i s = Some r" and "st \<in> set (ALLOWED_TRANSITIONS (cs_status r))" and "ledger_ok H s" and "clock_ok s"
  shows "\<exists>ses u. updateStatus b H t i st creator s = (Inr ses, u)"
proof -
  obtain q u where q: "updateCloseSessionStatus t i st creator s = (Some (rowToSession q), u)"
    using updateCloseSessionStatus_result [OF assms(1)] by blast
  have u: "ledger_ok H u" "clock_ok u" using later_ok [OF kept_updateCloseSessionStatus assms(3,4), of t i st creator] q by auto
  have "\<exists>v. session_event b H t x ev fl cr u = (Inr (), v)" for x ev fl cr using session_event_ok [OF u] by blast
  then obtain v where "session_event b H t (rowToSession q) ''close_session_transition''
     ([(''from'', JStr (session_status_text (ses_status (rowToSession r)))), (''to'', JStr (session_status_text st)),
       (''sessionId'', JStr i)] @ opt_prop ''userId'' (map_option JStr creator)) (Some (js_or creator ''api'')) u = (Inr (), v)"
    by blast
  moreover have "getCloseSessionByIdForUpdate t i s = Some (rowToSession r)" using assms(1) by (simp add: session_found)
  ultimately show ?thesis unfolding updateStatus_def using q assms(2) by simp
qed

lemma updateStatus_review:
  assumes "updateStatus b H t i UnderReview (Some who) s = (Inr ses, u)" and "who \<noteq> []"
  shows "\<exists>q. session_row t i u = Some q \<and> cs_advanced_to_review_by q = Some who"
proof -
  from assms(1) obtain r where r: "session_row t i s = Some r"
    by (auto simp: updateStatus_def session_found split: option.splits)
  define f where "f = (\<lambda>r :: close_session_row. r\<lparr>cs_status := UnderReview, cs_advanced_to_review_by := Some who,
    cs_advanced_to_review_at := Some (clock s (ticks s)), cs_updated_at := clock s (ticks s)\<rparr>)"
  define v where "v = update_session t i f (s\<lparr>ticks := Suc (ticks s)\<rparr>)"
  have row: "session_row t i v = Some (f r)"
    unfolding v_def by (subst session_row_update) (use r in \<open>auto simp: f_def\<close>)
  have "updateCloseSessionStatus t i UnderReview (Some who) s = (getCloseSessionById t i v, v)"
    using assms(2) by (simp add: updateCloseSessionStatus_def now_def v_def f_def Let_def)
  with assms(1) row have "session_row t i u = session_row t i v"
    by (auto simp: updateStatus_def getCloseSessionById_def split: option.splits if_splits
        dest: row_after_event [of _ _ _ _ _ _ _ _ _ _ _ t i])
  with row show ?thesis by (simp add: f_def)
qed

lemma session_event_error: "fst (session_event b H t session ev flags creator s) \<noteq> Inl (AdvanceBlockedError bs)"
  by (auto simp: session_event_def recordMaterialEvent_def appendEntry_def appendEntryInternal_unfold
      withTransaction.simps Let_def andThen_state insert_ledger_row_def split: sum.splits prod.splits if_splits)

lemma updateStatus_error:
  assumes "updateStatus b H t i st creator s = (Inl e, u)"
  shows "e \<noteq> AdvanceBlockedError bs"
proof
  assume blocked: "e = AdvanceBlockedError bs"
  have "andThen (session_event b H t x ev fl cr v) (\<lambda>_ w. (Inr y, w)) \<noteq> (Inl e, u)"
    for x ev fl cr v and y :: CloseSession
    using session_event_error [of b H t x ev fl cr v bs] blocked
    by (cases "session_event b H t x ev fl cr v"; cases "fst (session_event b H t x ev fl cr v)") auto
  with assms blocked show False
    by (auto simp: updateStatus_def session_not_found_def cs_error_def split: option.splits if_splits prod.splits)
qed

text \<open>
  From in progress a session goes to review exactly when the readiness check names no hard blocker.
  Then the row is under review and holds who sent it. Otherwise the answer is not an error but the
  list of the blockers, in order, and no table changed.
\<close>

theorem advance_review:
  assumes "session_row (ai_tenantId input) (ai_closeSessionId input) s = Some r" and "cs_status r = InProgress"
    and "advanceSession E A input s = (Inr res, s')" and "av_ready A = (av_hardBlockers A = [])"
  shows "ad_statusBefore res = InProgress
    \<and> (if av_hardBlockers A = []
       then ad_success res \<and> ad_statusAfter res = UnderReview \<and> ad_blockers res = []
         \<and> (\<exists>q. session_row (ai_tenantId input) (ai_closeSessionId input) s' = Some q \<and> cs_status q = UnderReview
            \<and> same_session r q \<and> same_attestation r q
            \<and> (js_or (ai_certifiedBy input) ''advance-api'' \<noteq> [] \<longrightarrow>
                 cs_advanced_to_review_by q = Some (js_or (ai_certifiedBy input) ''advance-api'')))
       else \<not> ad_success res \<and> ad_statusAfter res = InProgress \<and> map bl_message (ad_blockers res) = av_hardBlockers A
         \<and> (\<exists>a b c. s' = s\<lparr>ticks := a, drawn := b, calls := c\<rparr>))"
proof -
  let ?t = "ai_tenantId input" and ?i = "ai_closeSessionId input" and ?w = "js_or (ai_certifiedBy input) ''advance-api''"
  have found: "getCloseSessionById ?t ?i s = Some (rowToSession r)" "getCloseSessionByIdForUpdate ?t ?i s = Some (rowToSession r)"
    using assms(1) by (simp_all add: session_found)
  show ?thesis
  proof (cases "av_hardBlockers A = []")
    case False
    then have "advance_transaction E A input s
        = (Inl (AdvanceBlockedError (av_hardBlockers A)), s\<lparr>ticks := ticks s, drawn := drawn s, calls := calls s\<rparr>)"
      using found assms(2,4) by (simp add: advance_transaction_def advance_body_def withTransaction.simps)
    moreover have "map bl_message (mapHardBlockersToBlockers bs) = bs" for bs
      by (simp add: mapHardBlockersToBlockers_def comp_def)
    moreover have "\<exists>a b c. s = s\<lparr>ticks := a, drawn := b, calls := c\<rparr>"
      by (intro exI [of _ "ticks s"] exI [of _ "drawn s"] exI [of _ "calls s"]) simp
    ultimately show ?thesis using False found(1) assms(2,3) by (auto simp: advanceSession_def advance_result_def)
  next
    case True
    obtain x u where x: "updateStatus False (e_sha256 E) ?t ?i UnderReview (Some ?w) s = (x, u)" by fastforce
    have body: "advance_body E A input s = (case x of Inl e \<Rightarrow> (Inl e, u) | Inr c \<Rightarrow> (Inr (c, False), u))"
      using True found(2) assms(2) x by (cases x) (simp_all add: advance_body_def)
    from assms(3) found(1) assms(2) body obtain c where c: "x = Inr c"
      using updateStatus_error [of False "e_sha256 E" ?t ?i UnderReview "Some ?w" s _ u] x
      by (cases x) (auto simp: advanceSession_def advance_transaction_def withTransaction.simps
          split: error.splits)
    from updateStatus_result [OF x [unfolded c]] assms(1) obtain q where q: "c = rowToSession q" "session_row ?t ?i u = Some q"
      "cs_status q = UnderReview" "same_session r q" "same_attestation r q" by auto
    have "?w \<noteq> [] \<longrightarrow> cs_advanced_to_review_by q = Some ?w" using updateStatus_review [OF x [unfolded c]] q(2) by auto
    moreover have "close_sessions (announce input a b v) = close_sessions v" for a b and v :: "'a module_db_scheme"
      by (simp add: announce_def now_def record_call_def Let_def split: option.splits)
    ultimately show ?thesis using True assms(2,3) found(1) body c q
      by (auto simp: advanceSession_def advance_transaction_def withTransaction.simps advance_result_def session_row_def)
  qed
qed

definition demo_working :: module_db where
  "demo_working = demo_books\<lparr>close_sessions := map (\<lambda>r. if cs_id r = ''s2'' then r\<lparr>cs_status := InProgress\<rparr> else r)
     (close_sessions demo_books)\<rparr>"

definition demo_modules :: module_answers where
  "demo_modules = \<lparr>mo_result = (\<lambda>_. Inl ''service unavailable''), mo_taxRate = None, mo_deferredTax = (\<lambda>_. Inr JNull),
     mo_reserveConfig = Inr False, mo_arSnapshots = Inr False, mo_contracts = Inr 2\<rparr>"

definition demo_advance :: advance_answers where
  "demo_advance = \<lparr>av_ready = True, av_hardBlockers = [], av_setup_db_error = False, av_preFilled = False,
     av_trialBalance = None, av_modules = demo_modules\<rparr>"

definition demo_advance_input :: AdvanceSessionInput where
  "demo_advance_input = \<lparr>ai_tenantId = ''t1'', ai_closeSessionId = ''s2'', ai_certifiedBy = None\<rparr>"

lemma demo_working_ok: "ledger_ok H demo_working" "clock_ok demo_working"
  using demo_ledger_ok(1) [of H] demo_ledger_ok(2) ledger_ok_later [of H demo_books demo_working]
  by (simp_all add: demo_working_def clock_ok_def)

lemma advance_total:
  assumes "session_row (ai_tenantId input) (ai_closeSessionId input) s = Some r" and "cs_status r = InProgress"
    and "av_hardBlockers A = []" and "ledger_ok (e_sha256 E) s" and "clock_ok s"
  shows "\<exists>res s'. advanceSession E A input s = (Inr res, s')"
proof -
  let ?t = "ai_tenantId input" and ?i = "ai_closeSessionId input"
  have found: "getCloseSessionById ?t ?i s = Some (rowToSession r)" "getCloseSessionByIdForUpdate ?t ?i s = Some (rowToSession r)"
    using assms(1) by (simp_all add: session_found)
  obtain c u where "updateStatus False (e_sha256 E) ?t ?i UnderReview (Some (js_or (ai_certifiedBy input) ''advance-api'')) s = (Inr c, u)"
    using updateStatus_ok [of ?t ?i s r UnderReview "e_sha256 E" False "Some (js_or (ai_certifiedBy input) ''advance-api'')"] assms by auto
  then show ?thesis
    using assms(2,3) found by (simp add: advanceSession_def advance_transaction_def advance_body_def withTransaction.simps
        Let_def)
qed

theorem advance_review_witness:
  "\<exists>res s' q. advanceSession demo_env demo_advance demo_advance_input demo_working = (Inr res, s') \<and> ad_success res
     \<and> session_row ''t1'' ''s2'' s' = Some q \<and> cs_advanced_to_review_by q = Some ''advance-api''"
proof -
  have in_working: "ai_tenantId demo_advance_input = ''t1''" "ai_closeSessionId demo_advance_input = ''s2''" "ai_certifiedBy demo_advance_input = None"
    "av_hardBlockers demo_advance = []" "av_ready demo_advance"
    by (simp_all add: demo_advance_input_def demo_advance_def)
  obtain r where r: "session_row (ai_tenantId demo_advance_input) (ai_closeSessionId demo_advance_input) demo_working = Some r"
    "cs_status r = InProgress"
    by (simp add: in_working session_row_def demo_working_def demo_books_def session_key_def demo_row_def)
  obtain res s' where run: "advanceSession demo_env demo_advance demo_advance_input demo_working = (Inr res, s')"
    using advance_total [OF r in_working(4) demo_working_ok] by blast
  from advance_review [OF r run] run in_working show ?thesis by (auto simp: js_or_def)
qed

section \<open>A failed set-up\<close>

text \<open>
  C26. When a statement of the set-up fails on the connection of the transaction, opening a session
  reports success, the session it returns is in progress, and the observers are told so; but the
  commit rolled back, and the session in the database is as it was.
\<close>

theorem advance_reports_lost_work:
  fixes s :: "'a module_db_scheme"
  assumes "session_row (ai_tenantId input) (ai_closeSessionId input) s = Some r" and "cs_status r = Open"
    and "ledger_ok (e_sha256 E) s" and "clock_ok s" and "av_setup_db_error A"
  shows "\<exists>res s'. advanceSession E A input s = (Inr res, s') \<and> ad_success res \<and> ad_statusAfter res = InProgress
    \<and> ad_actionTaken res = ''advanced'' \<and> books s' = books s
    \<and> Call ''notify'' [ai_tenantId input, ''close_started'', ai_closeSessionId input] \<in> set (calls s')
    \<and> session_row (ai_tenantId input) (ai_closeSessionId input) s' = Some r"
proof -
  let ?t = "ai_tenantId input" and ?i = "ai_closeSessionId input"
  have found: "getCloseSessionById ?t ?i s = Some (rowToSession r)" "getCloseSessionByIdForUpdate ?t ?i s = Some (rowToSession r)"
    using assms(1) by (simp_all add: session_found)
  obtain c u where c: "updateStatus False (e_sha256 E) ?t ?i InProgress (Some (js_or (ai_certifiedBy input) ''advance-api'')) s = (Inr c, u)"
    using updateStatus_ok [of ?t ?i s r InProgress "e_sha256 E" False "Some (js_or (ai_certifiedBy input) ''advance-api'')"] assms(1-4) by auto
  have st: "ses_status c = InProgress" using updateStatus_result [OF c] by auto
  obtain v where v: "setup_work (e_decimal E) A input c u = (True, v)"
    using assms(5) by (auto simp: setup_work_def Let_def)
  define w where "w = s\<lparr>ticks := ticks v, drawn := drawn v, calls := calls v\<rparr>"
  have transaction: "advance_transaction E A input s = (Inr c, w)"
    using assms(2) found c v by (simp add: advance_transaction_def advance_body_def withTransaction.simps w_def)
  define x where "x = (if js_toLowerCase (ses_standard c) = ''gaap''
    then autoProposModules (av_modules A) ?t ?i (ses_entityId c) w else w)"
  from transaction have run: "advanceSession E A input s = (Inr (advance_result True c Open []), announce input Open InProgress x)"
    using assms(2) found st by (simp add: advanceSession_def x_def Let_def)
  have x: "books (announce input Open InProgress x) = books s" by (simp add: x_def w_def)
  then have "session_row ?t ?i (announce input Open InProgress x) = Some r"
    using assms(1) by (simp add: books_def session_row_def)
  moreover have "Call ''notify'' [?t, ''close_started'', ?i] \<in> set (calls (announce input Open InProgress x))"
    by (simp add: announce_def transition_notice_def record_call_def Let_def)
  ultimately show ?thesis using st run x by (simp add: advance_result_def)
qed

definition demo_opened :: module_db where
  "demo_opened = demo_books\<lparr>close_sessions := map (\<lambda>r. if cs_id r = ''s2'' then r\<lparr>cs_status := Open\<rparr> else r)
     (close_sessions demo_books)\<rparr>"

theorem advance_reports_lost_work_witness:
  "\<exists>res s'. advanceSession demo_env (demo_advance\<lparr>av_setup_db_error := True\<rparr>) demo_advance_input demo_opened = (Inr res, s')
     \<and> ad_success res \<and> ad_statusAfter res = InProgress
     \<and> map_option cs_status (session_row ''t1'' ''s2'' s') = Some Open"
proof -
  obtain r where r: "session_row (ai_tenantId demo_advance_input) (ai_closeSessionId demo_advance_input) demo_opened = Some r"
    "cs_status r = Open"
    by (simp add: demo_advance_input_def session_row_def demo_opened_def demo_books_def session_key_def demo_row_def)
  have "ledger_ok H demo_opened" "clock_ok demo_opened" for H
    using demo_ledger_ok(1) [of H] demo_ledger_ok(2) ledger_ok_later [of H demo_books demo_opened]
    by (simp_all add: demo_opened_def clock_ok_def)
  from advance_reports_lost_work [OF r this, where E = demo_env and A = "demo_advance\<lparr>av_setup_db_error := True\<rparr>"] obtain res s' where
    "advanceSession demo_env (demo_advance\<lparr>av_setup_db_error := True\<rparr>) demo_advance_input demo_opened = (Inr res, s')"
    "ad_success res" "ad_statusAfter res = InProgress" "session_row ''t1'' ''s2'' s' = Some r"
    by (auto simp: demo_advance_input_def)
  with r(2) show ?thesis by auto
qed

section \<open>The accounting modules\<close>

text \<open>The modules with a proposal for a session, in the order of the table.\<close>

definition proposed :: "tenant_id \<Rightarrow> string \<Rightarrow> 'a module_db_scheme \<Rightarrow> string list" where
  "proposed t i s = map mp_module (filter (\<lambda>p. mp_tenant p = t \<and> mp_session p = i) (module_proposals s))"

lemma createIssueForSession_proposals:
  "module_proposals (snd (createIssueForSession input s)) = module_proposals s"
  by (auto simp: createIssueForSession_def createIssue_def random_text_def insertCloseIssue_result insert_issue_row_def
      Let_def andThen_state record_call_def appendIssueHistory_def insert_history_row_def now_def split: sum.splits prod.splits if_splits)

lemma run_module_proposals: "module_proposals (snd (run_module M t i e name s)) = module_proposals s"
proof -
  have "module_proposals (module_issue t i e a b c d s) = module_proposals s" for a b c d
    by (metis createIssueForSession_proposals module_issue_def prod.collapse swallow.simps)
  then show ?thesis by (auto simp: run_module_def skipped_module_def split: sum.splits bool.splits)
qed

lemma proposed_upsert:
  assumes "mp_tenant row = t" and "mp_session row = i" and "\<And>p. mp_tenant (f p) = mp_tenant p \<and> mp_session (f p) = mp_session p \<and> mp_module (f p) = mp_module p"
  shows "proposed t i (upsert_proposal row f s)
    = (if mp_module row \<in> set (proposed t i s) then proposed t i s else proposed t i s @ [mp_module row])"
proof -
  have "map mp_module (filter (\<lambda>p. mp_tenant p = t \<and> mp_session p = i) (update_where q f ps))
      = map mp_module (filter (\<lambda>p. mp_tenant p = t \<and> mp_session p = i) ps)" for q ps
    using assms(3) by (induction ps) auto
  with assms(1,2) show ?thesis
    by (auto simp: upsert_proposal_def proposed_def Let_def list_ex_iff image_iff)
qed

lemma proposed_propose:
  "proposed t i (propose_module M t i e name s) = (if name \<in> set (proposed t i s) then proposed t i s else proposed t i s @ [name])"
proof -
  obtain x u where u: "run_module M t i e name s = (x, u)" by fastforce
  then have "proposed t i u = proposed t i s" using run_module_proposals [of M t i e name s] by (simp add: proposed_def)
  with u show ?thesis
    by (cases x) (simp_all add: propose_module_def store_result_def store_failure_def Let_def proposed_upsert)
qed

text \<open>
  C23. When the modules have been proposed, each of the thirteen has exactly one proposal for the session,
  in the order of the list, whatever the services of the modules answered: a module that failed or
  does not apply has one too. Running it again adds none.
\<close>

theorem modules_all_reported:
  assumes "proposed t i s = [] \<or> proposed t i s = MODULES"
  shows "proposed t i (autoProposModules M t i e s) = MODULES"
proof -
  have step: "proposed t i (foldl (\<lambda>s name. propose_module M t i e name s) s names)
      = foldl (\<lambda>ns n. if n \<in> set ns then ns else ns @ [n]) (proposed t i s) names" for names
    by (induction names arbitrary: s) (simp_all add: proposed_propose)
  have "proposed t i (record_call f args s) = proposed t i s" for f args and s :: "'a module_db_scheme"
    by (simp add: proposed_def record_call_def)
  moreover have "foldl (\<lambda>ns n. if n \<in> set ns then ns else ns @ [n]) [] MODULES = MODULES"
    "foldl (\<lambda>ns n. if n \<in> set ns then ns else ns @ [n]) MODULES MODULES = MODULES"
    by (simp_all add: MODULES_def)
  ultimately show ?thesis using assms by (auto simp: autoProposModules_def step)
qed

theorem modules_all_reported_witness:
  "length (proposed ''t1'' ''s2'' (autoProposModules demo_modules ''t1'' ''s2'' ''e1'' demo_books)) = 13"
proof -
  have "proposed ''t1'' ''s2'' demo_books = []" by (simp add: proposed_def demo_books_def)
  from modules_all_reported [OF disjI1 [OF this], of demo_modules "''e1''"] show ?thesis by (simp add: MODULES_def)
qed

end
