(* ===== verification/CloseProperties.thy ===== *)
theory CloseProperties
  imports CloseAudit
begin

text \<open>
  The properties of the single operations of the close session service: the gates of certification,
  locking and reopening, what a failed call leaves, and the paths on which the gates give way.
\<close>

section \<open>Certification\<close>

text \<open>
  C2. A session is certified only by an approver, outside every advisory context of the AI, from under
  review, with statements that are not stale, no hard blocker, and a certifier who did not send it to
  review himself unless the entity allows that. Then the session is certified by that certifier, on a
  new snapshot of the session that is the last of the table, and the artifact on file is new and names
  that snapshot if there was none before.
\<close>

theorem certification_gate:
  fixes s :: "'a close_db_scheme"
  assumes "certifyCloseSession store E S A input role s = (Inr ses, s')"
  shows "role = Approver \<and> store \<in> {None, Some 0}
    \<and> (\<exists>r q n. session_row (cy_tenantId input) (cy_closeSessionId input) s = Some r
       \<and> cs_status r = UnderReview \<and> cs_statements_stale_since r = None \<and> an_hardBlockers A = []
       \<and> (cs_advanced_to_review_by r = Some (cy_certifiedBy input) \<and> cy_certifiedBy input \<noteq> [] \<longrightarrow> an_allowSameUserCertify A)
       \<and> session_row (cy_tenantId input) (cy_closeSessionId input) s' = Some q \<and> ses = rowToSession q
       \<and> cs_status q = Certified \<and> cs_certified_by q = Some (cy_certifiedBy input)
       \<and> cs_certified_snapshot_id q = Some (ls_id n) \<and> ledger_snapshots s' = ledger_snapshots s @ [n]
       \<and> ls_session n = Some (cy_closeSessionId input) \<and> ls_tenant n = cy_tenantId input
       \<and> (\<not> existsForCloseSession (cy_tenantId input) (cy_closeSessionId input) s \<longrightarrow>
           (\<exists>a. certification_artifacts s' = certification_artifacts s @ [a] \<and> names_snapshot a n
              \<and> cs_certification_artifact_id q = Some (ca_id a))))"
  using certification_result [OF assms] .

theorem certification_gate_witness:
  "\<exists>ses s' n. certifyCloseSession None demo_env demo_snap_env demo_answers demo_certify Approver demo_review = (Inr ses, s')
     \<and> ledger_snapshots s' = [n] \<and> ls_session n = Some ''s2''"
proof -
  obtain ses s' where run: "certifyCloseSession None demo_env demo_snap_env demo_answers demo_certify Approver demo_review = (Inr ses, s')"
    by (rule demo_certified)
  from certification_gate [OF this] obtain n where
    "ledger_snapshots s' = ledger_snapshots demo_review @ [n]" "ls_session n = Some (cy_closeSessionId demo_certify)"
    by blast
  then have "ledger_snapshots s' = [n] \<and> ls_session n = Some ''s2''"
    by (simp add: demo_review_simps) (simp add: demo_certify_def)
  with run show ?thesis by blast
qed





text \<open>
  C24. Certifying a session again after it was reopened leaves the artifact of the first certification:
  no artifact is written, the session keeps the identifier of the old one, and its new snapshot is
  not one that any older record can name.
\<close>

theorem recertification_keeps_artifact:
  fixes s :: "'a close_db_scheme"
  assumes "certifyCloseSession store E S A input role s = (Inr ses, s')"
    and "existsForCloseSession (cy_tenantId input) (cy_closeSessionId input) s"
    and "session_row (cy_tenantId input) (cy_closeSessionId input) s = Some r"
  shows "certification_artifacts s' = certification_artifacts s
    \<and> ses_certificationArtifactId ses = cs_certification_artifact_id r
    \<and> (\<exists>n. ses_certifiedSnapshotId ses = Some n \<and> n \<notin> ls_id ` set (ledger_snapshots s))"
proof -
  have "certify_transaction E S A input s = (Inr ses, s')" using assms(1) by (simp add: certify_Inr)
  from certify_transaction_result [OF this] obtain p payload checks where
    writes: "certify_writes E S A input p payload checks s = (Inr ses, s')" by blast
  from certify_writes_result [OF writes assms(3)] obtain n certAt a upd and u s1 :: "'a close_db_scheme" where
    n: "ls_id n \<notin> ls_id ` set (ledger_snapshots s)"
    and u: "books u = (close_sessions s, ledger_snapshots s @ [n], certification_artifacts s)"
    and art: "certify_artifact E A input p certAt n checks u = (Inr a, s1)"
    and s': "books s' = (update_where (session_key (cy_tenantId input) (cy_closeSessionId input))
        (certified_row input certAt (ls_id n) a upd) (close_sessions s), ledger_snapshots s @ [n], certification_artifacts s1)"
    and ses: "ses = rowToSession (certified_row input certAt (ls_id n) a upd r)" by blast
  have "existsForCloseSession (cy_tenantId input) (cy_closeSessionId input) u"
    using assms(2) u by (simp add: existsForCloseSession_def books_def)
  with art have "a = None" "s1 = u" by (auto simp: certify_artifact_def)
  with n u s' ses show ?thesis by (auto simp: books_def rowToSession_def)
qed

definition demo_recertify :: module_db where
  "demo_recertify = demo_review\<lparr>certification_artifacts := [\<lparr>ca_id = ''old'', ca_tenant = ''t1'', ca_session = ''s2'',
     ca_period_label = ''2025-06'', ca_artifact = JNull, ca_hash = [], ca_signature = [], ca_public_key = [],
     ca_alg = ''ed25519'', ca_created_at = 0\<rparr>]\<rparr>"

lemma demo_recertified:
  obtains ses s' where "certifyCloseSession None demo_env demo_snap_env demo_answers demo_certify Approver demo_recertify = (Inr ses, s')"
proof -
  have "session_row t i demo_recertify = session_row t i demo_review"
    "getPriorPeriodRetainedEarnings ''t1'' e p demo_recertify = None"
    "getPriorPeriodRetainedEarnings ''t1'' e p demo_review = None"
    "getPriorCertifiedSnapshotForEntity t e p demo_recertify = getPriorCertifiedSnapshotForEntity t e p demo_review" for t i e p
    by (simp_all add: demo_recertify_def session_row_def getPriorPeriodRetainedEarnings_def prior_artifacts_def
        demo_review_simps getPriorCertifiedSnapshotForEntity_def demo_row_def)
  then have "gates_open demo_env demo_snap_env demo_answers demo_certify demo_recertify"
    using demo_gates by (simp add: gates_open_def demo_certify_def)
  moreover have "ledger_ok (e_sha256 demo_env) demo_recertify" "clock_ok demo_recertify"
    using demo_review_ok(1) [of "e_sha256 demo_env"] demo_review_ok(2) ledger_ok_later [of "e_sha256 demo_env" demo_review demo_recertify]
    by (simp_all add: demo_recertify_def clock_ok_def)
  moreover have "rands demo_recertify k \<notin> ls_id ` set (ledger_snapshots demo_recertify)
      \<and> rands demo_recertify k \<notin> ca_id ` set (certification_artifacts demo_recertify)" for k
    by (cases k) (simp_all add: demo_recertify_def demo_review_simps, simp_all add: demo_review_def demo_books_def)
  ultimately show ?thesis
    using certify_succeeds [where E = demo_env and S = demo_snap_env and A = demo_answers and input = demo_certify
      and s = demo_recertify and store = None] demo_answers_sign that by auto
qed

theorem recertification_keeps_artifact_witness:
  "\<exists>ses s'. certifyCloseSession None demo_env demo_snap_env demo_answers demo_certify Approver demo_recertify = (Inr ses, s')
     \<and> map ca_id (certification_artifacts s') = [''old''] \<and> ses_certifiedSnapshotId ses \<noteq> None"
proof -
  obtain ses s' where run: "certifyCloseSession None demo_env demo_snap_env demo_answers demo_certify Approver demo_recertify = (Inr ses, s')"
    by (rule demo_recertified)
  have "existsForCloseSession (cy_tenantId demo_certify) (cy_closeSessionId demo_certify) demo_recertify"
    by (simp add: existsForCloseSession_def demo_recertify_def demo_certify_def)
  moreover have "session_row (cy_tenantId demo_certify) (cy_closeSessionId demo_certify) demo_recertify
      = Some (demo_row ''s2'' ''2025-06-01'' ''2025-06-30'' UnderReview)"
    using demo_review_row by (simp add: demo_recertify_def session_row_def demo_certify_def)
  ultimately show ?thesis
    using recertification_keeps_artifact [OF run] run by (auto simp: demo_recertify_def)
qed

end
