(* ===== verification/AccountClassifier.thy ===== *)
theory AccountClassifier
  imports Decimal
begin

text \<open>
  The classification of accounts by name: \<open>src/src/services/accountClassifier.ts\<close>, with the types
  of \<open>src/src/types/financial.ts\<close> that statements are built from and the references of
  \<open>src/src/constants/codification.ts\<close>.

  An account type read from a database or a snapshot is a text. \<open>SUFFIX_OVERRIDES\<close> is a plain
  object, so a lookup also finds the members it inherits: of the lower-case words these are
  \<open>constructor\<close> and \<open>__proto__\<close>; the member stands in the model as its \<open>String\<close>. The dash of a
  description outside the 8-bit range is written \<open>--\<close>.
\<close>

section \<open>Types\<close>

record CodificationRef =
  cr_framework :: string
  cr_citation :: string
  cr_description :: "string option"

abbreviation ASSET :: string where "ASSET \<equiv> ''ASSET''"
abbreviation LIABILITY :: string where "LIABILITY \<equiv> ''LIABILITY''"
abbreviation EQUITY :: string where "EQUITY \<equiv> ''EQUITY''"
abbreviation REVENUE :: string where "REVENUE \<equiv> ''REVENUE''"
abbreviation EXPENSE :: string where "EXPENSE \<equiv> ''EXPENSE''"

record TrialBalanceEntry =
  te_lineId :: "string option"
  te_accountCode :: "string option"
  te_accountName :: string
  te_debit :: number
  te_credit :: number
  te_accountType :: "string option"
  te_fsLineId :: "string option"
  te_fsLineCode :: "string option"
  te_codificationRef :: "CodificationRef option"
  te_sourceDocumentId :: "string option"
  te_sourceSheet :: "string option"
  te_sourceRowIndex :: "number option"
  te_sourceChunkId :: "string option"
  te_classificationSource :: "string option"
  te_classificationRationale :: "string option"

section \<open>codification.ts\<close>

definition fasb_ref :: "string \<Rightarrow> string \<Rightarrow> CodificationRef" where
  "fasb_ref citation description =
     \<lparr>cr_framework = ''FASB'', cr_citation = citation, cr_description = Some description\<rparr>"

definition BALANCE_SHEET :: CodificationRef where
  "BALANCE_SHEET = fasb_ref ''ASC 210-10-45'' ''Balance Sheet--Overall Presentation''"

definition COMPREHENSIVE_INCOME :: CodificationRef where
  "COMPREHENSIVE_INCOME = fasb_ref ''ASC 220-10-45'' ''Comprehensive Income--Overall Presentation''"

definition ASSET_REF :: CodificationRef where
  "ASSET_REF = fasb_ref ''ASC 210-10-45-4'' ''Balance Sheet--Assets''"

definition LIABILITY_REF :: CodificationRef where
  "LIABILITY_REF = fasb_ref ''ASC 210-10-45-9'' ''Balance Sheet--Liabilities''"

definition EQUITY_REF :: CodificationRef where
  "EQUITY_REF = fasb_ref ''ASC 210-10-45-14'' ''Balance Sheet--Equity''"

definition REVENUE_REF :: CodificationRef where
  "REVENUE_REF = fasb_ref ''ASC 220-10-45-2'' ''Income Statement--Revenue''"

definition EXPENSE_REF :: CodificationRef where
  "EXPENSE_REF = fasb_ref ''ASC 220-10-45-2'' ''Income Statement--Expenses''"

section \<open>The rules\<close>

definition COMPOUND_OVERRIDES :: "(string \<times> string) list" where
  "COMPOUND_OVERRIDES =
     [(''accumulated depreciation'', ASSET), (''accumulated amortization'', ASSET),
      (''allowance for doubtful'', ASSET), (''allowance for'', ASSET),
      (''deferred tax asset'', ASSET), (''deferred tax'', LIABILITY),
      (''deferred revenue'', LIABILITY), (''unearned revenue'', LIABILITY),
      (''deferred income'', LIABILITY), (''unearned income'', LIABILITY),
      (''deferred rent'', LIABILITY), (''prepaid expenses'', ASSET), (''prepaid expense'', ASSET),
      (''prepaid insurance'', ASSET), (''prepaid rent'', ASSET),
      (''accrued expenses'', LIABILITY), (''accrued liabilities'', LIABILITY),
      (''accrued payroll'', LIABILITY), (''income tax expense'', EXPENSE),
      (''income tax'', EXPENSE), (''tax expense'', EXPENSE), (''interest expense'', EXPENSE),
      (''fee income'', REVENUE), (''interest income'', REVENUE), (''other income'', REVENUE),
      (''retained earnings'', EQUITY), (''retained earning'', EQUITY), (''common stock'', EQUITY),
      (''preferred stock'', EQUITY), (''additional paid-in capital'', EQUITY),
      (''treasury stock'', EQUITY), (''net income'', EQUITY), (''accounts receivable'', ASSET),
      (''account receivable'', ASSET), (''notes receivable'', ASSET),
      (''accounts payable'', LIABILITY), (''account payable'', LIABILITY),
      (''notes payable'', LIABILITY), (''gain on'', REVENUE), (''loss on'', EXPENSE),
      (''cost of goods sold'', EXPENSE), (''cost of goods'', EXPENSE),
      (''cost of good'', EXPENSE), (''cost of revenue'', EXPENSE), (''cost of sales'', EXPENSE)]"

text \<open>Longest phrase first; \<open>sort\<close> is stable.\<close>

definition SORTED_COMPOUND_OVERRIDES :: "(string \<times> string) list" where
  "SORTED_COMPOUND_OVERRIDES = sort_key (\<lambda>r. - int (length (fst r))) COMPOUND_OVERRIDES"

definition SUFFIX_OVERRIDES :: "(string \<times> string) list" where
  "SUFFIX_OVERRIDES =
     [(''expense'', EXPENSE), (''expenses'', EXPENSE), (''cost'', EXPENSE), (''costs'', EXPENSE),
      (''revenue'', REVENUE), (''revenues'', REVENUE), (''income'', REVENUE),
      (''sales'', REVENUE), (''receivable'', ASSET), (''receivables'', ASSET),
      (''payable'', LIABILITY), (''payables'', LIABILITY)]"

text \<open>\<open>SUFFIX_OVERRIDES[word]\<close>, inherited members included.\<close>

definition suffix_override :: "string \<Rightarrow> string option" where
  "suffix_override word =
     (case map_of SUFFIX_OVERRIDES word of
        Some t \<Rightarrow> Some t
      | None \<Rightarrow> if word = ''constructor'' then Some ''function Object() { [native code] }''
                else if word = ''__proto__'' then Some ''[object Object]''
                else None)"

definition DEFAULT_KEYWORDS :: "(string \<times> string) list" where
  "DEFAULT_KEYWORDS =
     [(''cash'', ASSET), (''receivable'', ASSET), (''inventory'', ASSET), (''prepaid'', ASSET),
      (''property'', ASSET), (''equipment'', ASSET), (''goodwill'', ASSET),
      (''intangible'', ASSET), (''asset'', ASSET), (''payable'', LIABILITY),
      (''accrued'', LIABILITY), (''debt'', LIABILITY), (''loan'', LIABILITY),
      (''liability'', LIABILITY), (''equity'', EQUITY), (''capital'', EQUITY),
      (''revenue'', REVENUE), (''sales'', REVENUE), (''income'', REVENUE), (''expense'', EXPENSE),
      (''cogs'', EXPENSE), (''salary'', EXPENSE), (''salaries'', EXPENSE), (''wage'', EXPENSE),
      (''wages'', EXPENSE), (''rent'', EXPENSE), (''depreciation'', EXPENSE),
      (''amortization'', EXPENSE), (''insurance'', EXPENSE), (''marketing'', EXPENSE),
      (''advertising'', EXPENSE), (''utilities'', EXPENSE), (''travel'', EXPENSE)]"

definition getCodificationRef :: "string \<Rightarrow> CodificationRef" where
  "getCodificationRef t =
     (if t = ASSET then ASSET_REF
      else if t = LIABILITY then LIABILITY_REF
      else if t = EQUITY then EQUITY_REF
      else if t = REVENUE then REVENUE_REF
      else if t = EXPENSE then EXPENSE_REF
      else ASSET_REF)"

definition codificationRefForType :: "string \<Rightarrow> CodificationRef" where
  "codificationRefForType t = getCodificationRef t"

section \<open>Classifying a name\<close>

text \<open>\<open>s.split(/[\s&,/\-]+/).filter(Boolean)\<close>.\<close>

fun split_at :: "(char \<Rightarrow> bool) \<Rightarrow> string \<Rightarrow> string list" where
  "split_at P [] = [[]]"
| "split_at P (c # s) =
     (if P c then [] # split_at P s
      else case split_at P s of [] \<Rightarrow> [[c]] | w # ws \<Rightarrow> (c # w) # ws)"

definition name_words :: "string \<Rightarrow> string list" where
  "name_words s =
     filter (\<lambda>w. w \<noteq> [])
       (split_at (\<lambda>c. js_space c \<or> c \<in> {CHR ''&'', CHR '','', CHR ''/'', CHR ''-''}) s)"

text \<open>The first rule of a list whose phrase the name contains.\<close>

definition rule_match :: "(string \<times> string) list \<Rightarrow> string \<Rightarrow> (string \<times> string) option" where
  "rule_match rules lower = find (\<lambda>r. js_includes lower (fst r)) rules"

definition suffix_match :: "string list \<Rightarrow> (string \<times> string) option" where
  "suffix_match words =
     (case rev words of
        [] \<Rightarrow> None
      | lastWord # before \<Rightarrow>
          (case suffix_override lastWord of
             Some t \<Rightarrow> Some (''suffix:'' @ lastWord, t)
           | None \<Rightarrow>
               (case before of
                  [] \<Rightarrow> None
                | secondLast # _ \<Rightarrow>
                    map_option (\<lambda>t. (''suffix:'' @ secondLast, t)) (suffix_override secondLast))))"

text \<open>The matched keyword and the account type.\<close>

definition classifyAccountNameWithKeyword :: "string \<Rightarrow> string \<times> string" where
  "classifyAccountNameWithKeyword name =
     (let lower = js_trim (js_toLowerCase name) in
      case rule_match SORTED_COMPOUND_OVERRIDES lower of
        Some r \<Rightarrow> r
      | None \<Rightarrow>
          (case suffix_match (name_words lower) of
             Some r \<Rightarrow> r
           | None \<Rightarrow>
               (case rule_match DEFAULT_KEYWORDS lower of
                  Some r \<Rightarrow> r
                | None \<Rightarrow> (''default'', ASSET))))"

definition classifyAccountName :: "string \<Rightarrow> string" where
  "classifyAccountName name = snd (classifyAccountNameWithKeyword name)"

definition classifyAccount :: "string \<Rightarrow> string \<times> CodificationRef" where
  "classifyAccount accountName =
     (let accountType = classifyAccountName accountName in (accountType, getCodificationRef accountType))"

section \<open>Classifying a trial balance\<close>

definition classify_entry :: "TrialBalanceEntry \<Rightarrow> TrialBalanceEntry" where
  "classify_entry entry =
     (if truthy (te_accountType entry)
      then entry\<lparr>te_codificationRef := Some (getCodificationRef (the (te_accountType entry))),
             te_classificationSource := Some ''deterministic'',
             te_classificationRationale := Some ''CoA template or prior classification applied.''\<rparr>
      else let (matchedKeyword, accountType) = classifyAccountNameWithKeyword (te_accountName entry);
               codificationRef = getCodificationRef accountType
           in entry\<lparr>te_accountType := Some accountType, te_codificationRef := Some codificationRef,
                te_classificationSource := Some ''deterministic'',
                te_classificationRationale :=
                  Some (''Keyword match: '' @ [CHR 0x22] @ matchedKeyword @ [CHR 0x22] @ '' in account name (''
                    @ cr_citation codificationRef @ '').'')\<rparr>)"

definition classifyTrialBalanceDeterministic :: "TrialBalanceEntry list \<Rightarrow> TrialBalanceEntry list" where
  "classifyTrialBalanceDeterministic entries = map classify_entry entries"

text \<open>The suggestions of the quarantined classifier are always empty.\<close>

definition getClassificationSuggestions ::
  "TrialBalanceEntry list \<Rightarrow> TrialBalanceEntry list \<times> (int \<times> string) list \<times> int" where
  "getClassificationSuggestions entries = (classifyTrialBalanceDeterministic entries, [], 0)"

record ClassificationOverride =
  ov_index :: int
  ov_accountType :: string
  ov_rationale :: "string option"

text \<open>\<open>new Map(overrides)\<close>: the last override of an index counts.\<close>

definition override_at :: "ClassificationOverride list \<Rightarrow> int \<Rightarrow> ClassificationOverride option" where
  "override_at overrides idx = find (\<lambda>o'. ov_index o' = idx) (rev overrides)"

definition applyUserClassificationOverrides ::
  "TrialBalanceEntry list \<Rightarrow> ClassificationOverride list \<Rightarrow> TrialBalanceEntry list" where
  "applyUserClassificationOverrides entries overrides =
     map (\<lambda>(idx, entry).
            case override_at overrides (int idx) of
              None \<Rightarrow> entry
            | Some ov \<Rightarrow> entry\<lparr>te_accountType := Some (ov_accountType ov),
                te_codificationRef := Some (getCodificationRef (ov_accountType ov)),
                te_classificationSource := Some ''user_confirmed'',
                te_classificationRationale := Some (js_or (ov_rationale ov) ''User confirmed classification.'')\<rparr>)
       (enumerate 0 (classifyTrialBalanceDeterministic entries))"

definition classifyTrialBalance :: "TrialBalanceEntry list \<Rightarrow> TrialBalanceEntry list" where
  "classifyTrialBalance entries =
     (if list_all (\<lambda>e. truthy (te_accountType e)) entries
      then map (\<lambda>e. e\<lparr>te_codificationRef :=
             Some (js_or (te_codificationRef e) (getCodificationRef (the (te_accountType e))))\<rparr>) entries
      else map (\<lambda>entry.
             let accountType = js_or (te_accountType entry) (classifyAccountName (te_accountName entry))
             in entry\<lparr>te_accountType := Some accountType,
                  te_codificationRef := Some (getCodificationRef accountType)\<rparr>) entries)"

section \<open>Properties\<close>

text \<open>The five types; any other text is no account type.\<close>

definition ACCOUNT_TYPES :: "string list" where
  "ACCOUNT_TYPES = [ASSET, LIABILITY, EQUITY, REVENUE, EXPENSE]"

end
