(* ===== verification/IntegrityGate.thy ===== *)
theory IntegrityGate
  imports Decimal Json
begin

text \<open>
  The gate every set of statements passes: \<open>src/src/services/rules_registry.ts\<close>,
  \<open>src/src/services/integrity_gate_service.ts\<close> and \<open>src/src/services/integrity_check.ts\<close>.

  The rules file is an argument: missing, not readable (or not JSON), or its parsed content. The
  gate takes numbers only, so the functions of \<open>decimal.ts\<close> do not throw here: \<open>minus2\<close>, \<open>plus2\<close>,
  \<open>exceeds\<close> and \<open>within_tol\<close> are \<open>minus\<close>, \<open>plus\<close>, \<open>absGt\<close> and \<open>absLt\<close> on numbers. The en and em
  dashes of the plug pattern lie outside the 8-bit range of the texts, where they cannot occur.
\<close>

section \<open>decimal.ts on numbers\<close>

definition minus2 :: "'d decimal_ops \<Rightarrow> number \<Rightarrow> number \<Rightarrow> number" where
  "minus2 D a b = d_toNumber D (d_toDecimalPlaces D (d_minus D (d_of_num D a) (d_of_num D b)) DP)"

definition plus2 :: "'d decimal_ops \<Rightarrow> number \<Rightarrow> number \<Rightarrow> number" where
  "plus2 D a b = d_toNumber D (d_toDecimalPlaces D (d_plus D (d_of_num D a) (d_of_num D b)) DP)"

definition rounded2 :: "'d decimal_ops \<Rightarrow> number \<Rightarrow> number" where
  "rounded2 D a = d_toNumber D (d_toDecimalPlaces D (d_of_num D a) DP)"

definition exceeds :: "'d decimal_ops \<Rightarrow> number \<Rightarrow> number \<Rightarrow> number \<Rightarrow> bool" where
  "exceeds D a b t = d_greaterThan D (d_abs D (d_minus D (d_of_num D a) (d_of_num D b))) (d_of_num D t)"

definition within_tol :: "'d decimal_ops \<Rightarrow> number \<Rightarrow> number \<Rightarrow> number \<Rightarrow> bool" where
  "within_tol D a b t = d_lessThanOrEqualTo D (d_abs D (d_minus D (d_of_num D a) (d_of_num D b))) (d_of_num D t)"

text \<open>\<open>from(a).minus(b).abs().toNumber()\<close>.\<close>

definition gap :: "'d decimal_ops \<Rightarrow> number \<Rightarrow> number \<Rightarrow> number" where
  "gap D a b = d_toNumber D (d_abs D (d_minus D (d_of_num D a) (d_of_num D b)))"

lemma on_numbers [simp]:
  "decimal_minus D (ANum a) (ANum b) = Some (minus2 D a b)"
  "decimal_plus D (ANum a) (ANum b) = Some (plus2 D a b)"
  "round2 D (ANum a) = Some (rounded2 D a)"
  "absGt D (ANum a) (ANum b) t = Some (exceeds D a b t)"
  "absLt D (ANum a) (ANum b) t = Some (within_tol D a b t)"
  by (simp_all add: decimal_minus_def decimal_plus_def binary2_def round2_def round_to_def absGt_def
      absLt_def minus2_def plus2_def rounded2_def exceeds_def within_tol_def)

section \<open>rules_registry.ts\<close>

record FinancialRules =
  fr_roundingTolerance :: number
  fr_defaultThreshold :: number
  fr_description :: "json option"
  fr_equations :: "json option"

datatype rules_file = RulesMissing | RulesUnreadable | RulesParsed json

text \<open>Reading a property: absent on a value that is no object or has no such property.\<close>

definition json_prop :: "json \<Rightarrow> string \<Rightarrow> json option" where
  "json_prop j k = (case j of JObj ms \<Rightarrow> map_of ms k | _ \<Rightarrow> None)"

text \<open>\<open>x ?? {}\<close> on a value read from the file.\<close>

definition or_empty :: "json option \<Rightarrow> json" where
  "or_empty x = (case x of None \<Rightarrow> JObj [] | Some JNull \<Rightarrow> JObj [] | Some JUndef \<Rightarrow> JObj [] | Some j \<Rightarrow> j)"

definition DEFAULT_ROUNDING_TOLERANCE :: number where
  "DEFAULT_ROUNDING_TOLERANCE = to_num (1 / 100)"

definition DEFAULT_MATERIALITY_THRESHOLD :: number where
  "DEFAULT_MATERIALITY_THRESHOLD = to_num (1 / 100)"

definition default_rules :: FinancialRules where
  "default_rules = \<lparr>fr_roundingTolerance = DEFAULT_ROUNDING_TOLERANCE,
     fr_defaultThreshold = DEFAULT_MATERIALITY_THRESHOLD, fr_description = None, fr_equations = None\<rparr>"

definition finite_or :: "json option \<Rightarrow> number \<Rightarrow> number" where
  "finite_or x d = (case x of Some (JNum n) \<Rightarrow> if is_finite n then n else d | _ \<Rightarrow> d)"

definition getFinancialRules :: "rules_file \<Rightarrow> FinancialRules" where
  "getFinancialRules file =
     (case file of
        RulesMissing \<Rightarrow> default_rules
      | RulesUnreadable \<Rightarrow> default_rules
      | RulesParsed parsed \<Rightarrow>
          if parsed = JNull then default_rules
          else let materiality = or_empty (json_prop parsed ''materiality'') in
            \<lparr>fr_roundingTolerance = finite_or (json_prop parsed ''roundingTolerance'') DEFAULT_ROUNDING_TOLERANCE,
             fr_defaultThreshold = finite_or (json_prop materiality ''defaultThreshold'') DEFAULT_MATERIALITY_THRESHOLD,
             fr_description = json_prop materiality ''description'',
             fr_equations = json_prop parsed ''equations''\<rparr>)"

definition getRoundingTolerance :: "rules_file \<Rightarrow> number" where
  "getRoundingTolerance file = fr_roundingTolerance (getFinancialRules file)"

definition getDefaultMateriality :: "rules_file \<Rightarrow> number" where
  "getDefaultMateriality file = fr_defaultThreshold (getFinancialRules file)"

section \<open>integrity_gate_service.ts\<close>

subsection \<open>Plug accounts\<close>

record PlugEntry =
  pe_accountName :: string
  pe_debit :: number
  pe_credit :: number

record SuspiciousPlugResult =
  su_isSuspicious :: bool
  su_plugAmount :: number
  su_totalNetActivity :: number
  su_plugShare :: number
  su_plugAccountNames :: "string list"
  su_threshold :: number

text \<open>\<open>PLUG_ACCOUNT_PATTERN\<close>: one of the words at the start, then the end, white space or a dash.\<close>

definition plug_word_ends :: "string \<Rightarrow> string \<Rightarrow> bool" where
  "plug_word_ends name word \<longleftrightarrow>
     js_startsWith (js_toLowerCase name) word
     \<and> (let rest = drop (length word) name
        in rest = [] \<or> js_space (hd rest) \<or> hd rest = CHR ''-'')"

definition is_plug_name :: "string \<Rightarrow> bool" where
  "is_plug_name name \<longleftrightarrow> list_ex (plug_word_ends name) [''miscellaneous'', ''suspense'', ''other'']"

text \<open>One turn of the loop over the entries: the total, the plug amount and the names so far.\<close>

definition plug_step ::
  "'d decimal_ops \<Rightarrow> PlugEntry \<Rightarrow> number \<times> number \<times> string list \<Rightarrow> number \<times> number \<times> string list" where
  "plug_step D e acc =
     (case acc of (totalNetActivity, plugAmount, names) \<Rightarrow>
        let net = rounded2 D (gap D (pe_debit e) (pe_credit e));
            name = js_trim (pe_accountName e)
        in (plus2 D totalNetActivity net,
            if is_plug_name name then plus2 D plugAmount net else plugAmount,
            if is_plug_name name \<and> name \<notin> set names then names @ [name] else names))"

definition detectSuspiciousPlugs ::
  "'d decimal_ops \<Rightarrow> PlugEntry list \<Rightarrow> number option \<Rightarrow> SuspiciousPlugResult" where
  "detectSuspiciousPlugs D entries option_threshold =
     (let threshold = js_or option_threshold (to_num (9 / 10));
          (totalNetActivity, plugAmount, names) = fold (plug_step D) entries (Fin 0, Fin 0, []);
          plugShare = (if num_less (Fin 0) totalNetActivity
            then d_toNumber D (d_dividedBy D (d_of_num D plugAmount) (d_of_num D totalNetActivity))
            else Fin 0)
      in \<lparr>su_isSuspicious = (names \<noteq> [] \<and> num_le threshold plugShare), su_plugAmount = plugAmount,
          su_totalNetActivity = totalNetActivity, su_plugShare = plugShare,
          su_plugAccountNames = names, su_threshold = threshold\<rparr>)"

subsection \<open>The gate\<close>

definition INTEGRITY_GATE_CRITICAL_MESSAGE :: string where
  "INTEGRITY_GATE_CRITICAL_MESSAGE =
     ''CRITICAL: Your proposed adjustment unbalances the ledger. Re-calculating.''"

datatype gate_tb = GateTotals number number | GateEntries "(number option \<times> number option) list"

record GateBS =
  gb_totalAssets :: number
  gb_totalLiabilities :: number
  gb_totalEquity :: number

record IntegrityGateInput =
  gi_trialBalance :: gate_tb
  gi_balanceSheet :: GateBS
  gi_tolerance :: "number option"

record IntegrityGateResult =
  gr_passed :: bool
  gr_error :: "string option"
  gr_trialBalanceBalances :: bool
  gr_balanceSheetBalances :: bool

fun getTrialBalanceTotals :: "'d decimal_ops \<Rightarrow> gate_tb \<Rightarrow> number \<times> number" where
  "getTrialBalanceTotals D (GateTotals debits credits) = (debits, credits)"
| "getTrialBalanceTotals D (GateEntries es) =
     (sumRound2 D (map (\<lambda>(d, c). js_or d (Fin 0)) es), sumRound2 D (map (\<lambda>(d, c). js_or c (Fin 0)) es))"

definition MAX_ROUNDING_TOLERANCE :: number where
  "MAX_ROUNDING_TOLERANCE = to_num (1 / 100)"

definition getToleranceForGate :: "FinancialRules \<Rightarrow> number" where
  "getToleranceForGate rules =
     (let equations = or_empty (fr_equations rules);
          tbEq = or_empty (json_prop equations ''debits_equal_credits'');
          raw = (if json_prop tbEq ''toleranceKey'' = Some (JStr ''materiality.defaultThreshold'')
                 then fr_defaultThreshold rules else fr_roundingTolerance rules)
      in num_min raw MAX_ROUNDING_TOLERANCE)"

definition gate_tolerance :: "rules_file \<Rightarrow> IntegrityGateInput \<Rightarrow> number" where
  "gate_tolerance file i = js_or (gi_tolerance i) (getToleranceForGate (getFinancialRules file))"

definition runIntegrityGate ::
  "'d decimal_ops \<Rightarrow> rules_file \<Rightarrow> IntegrityGateInput \<Rightarrow> IntegrityGateResult" where
  "runIntegrityGate D file i =
     (let tolerance = gate_tolerance file i;
          (totalDebits, totalCredits) = getTrialBalanceTotals D (gi_trialBalance i);
          bs = gi_balanceSheet i;
          trialBalanceBalances = (\<not> exceeds D totalDebits totalCredits tolerance);
          rhs = plus2 D (gb_totalLiabilities bs) (gb_totalEquity bs);
          balanceSheetBalances = (\<not> exceeds D (gb_totalAssets bs) rhs tolerance);
          passed = (trialBalanceBalances \<and> balanceSheetBalances)
      in \<lparr>gr_passed = passed, gr_error = (if passed then None else Some INTEGRITY_GATE_CRITICAL_MESSAGE),
          gr_trialBalanceBalances = trialBalanceBalances, gr_balanceSheetBalances = balanceSheetBalances\<rparr>)"

text \<open>The error of \<open>src/src/errors.ts\<close>, with its check, amount and details.\<close>

datatype imbalance_details = TBDetails number number | BSDetails number number number

record MathematicalIntegrityError =
  mi_check :: char
  mi_imbalanceAmount :: number
  mi_details :: imbalance_details
  mi_message :: string

definition integrity_error :: "char \<Rightarrow> number \<Rightarrow> imbalance_details \<Rightarrow> MathematicalIntegrityError" where
  "integrity_error check amount details =
     \<lparr>mi_check = check, mi_imbalanceAmount = amount, mi_details = details,
      mi_message =
        (if check = CHR ''A''
         then ''Trial balance does not balance: Sum(Debits) != Sum(Credits). Imbalance: '' @ num_text amount
              @ ''. Data is illegal for a CPA.''
         else ''Balance sheet equation violated: Total Assets != Total Liabilities + Total Equity. Imbalance: ''
              @ num_text amount @ ''. Data is illegal for a CPA.'')\<rparr>"

definition assertIntegrityGateOrThrow ::
  "'d decimal_ops \<Rightarrow> rules_file \<Rightarrow> IntegrityGateInput \<Rightarrow> MathematicalIntegrityError + unit" where
  "assertIntegrityGateOrThrow D file i =
     (let result = runIntegrityGate D file i;
          (totalDebits, totalCredits) = getTrialBalanceTotals D (gi_trialBalance i);
          bs = gi_balanceSheet i;
          rhs = plus2 D (gb_totalLiabilities bs) (gb_totalEquity bs)
      in if gr_passed result then Inr ()
         else if \<not> gr_trialBalanceBalances result
         then Inl (integrity_error (CHR ''A'') (gap D totalDebits totalCredits) (TBDetails totalDebits totalCredits))
         else if \<not> gr_balanceSheetBalances result
         then Inl (integrity_error (CHR ''B'') (gap D (gb_totalAssets bs) rhs)
                (BSDetails (gb_totalAssets bs) (gb_totalLiabilities bs) (gb_totalEquity bs)))
         else Inl (integrity_error (CHR ''A'') (Fin 0) (TBDetails totalDebits totalCredits)))"

section \<open>integrity_check.ts\<close>

record FinalIntegrityCheckInput =
  fi_trialBalance :: gate_tb
  fi_balanceSheet :: GateBS
  fi_entries :: "PlugEntry list option"
  fi_tolerance :: "number option"

record FinalIntegrityCheckResult =
  fc_passed :: bool
  fc_error :: "string option"
  fc_checks :: "(bool \<times> bool) option"
  fc_suspenseAccounts :: "string list option"
  fc_plugSuspicious :: bool

text \<open>The event \<open>SUSPICIOUS_PLUG\<close> that the check emits.\<close>

record PlugEvent =
  ev_names :: "string list"
  ev_amount :: number
  ev_share :: number
  ev_netActivity :: number
  ev_threshold :: number

text \<open>The totals of the input unless both are zero (or it has none), then those of the entries.\<close>

definition final_totals :: "'d decimal_ops \<Rightarrow> FinalIntegrityCheckInput \<Rightarrow> PlugEntry list \<Rightarrow> number \<times> number" where
  "final_totals D i entries =
     (let (totalDebits, totalCredits) = (case fi_trialBalance i of
            GateTotals d c \<Rightarrow> (d, c) | GateEntries es \<Rightarrow> (Fin 0, Fin 0))
      in if totalDebits = Fin 0 \<and> totalCredits = Fin 0
         then (sumRound2 D (map pe_debit entries), sumRound2 D (map pe_credit entries))
         else (totalDebits, totalCredits))"

definition finalIntegrityCheck ::
  "'d decimal_ops \<Rightarrow> rules_file \<Rightarrow> FinalIntegrityCheckInput \<Rightarrow> FinalIntegrityCheckResult \<times> PlugEvent list" where
  "finalIntegrityCheck D file i =
     (let gateResult = runIntegrityGate D file
            \<lparr>gi_trialBalance = fi_trialBalance i, gi_balanceSheet = fi_balanceSheet i, gi_tolerance = fi_tolerance i\<rparr>;
          checks = (gr_trialBalanceBalances gateResult, gr_balanceSheetBalances gateResult);
          entries = js_or (fi_entries i) [];
          plug = detectSuspiciousPlugs D entries (Some (to_num (9 / 10)));
          (totalDebits, totalCredits) = final_totals D i entries
      in if \<not> gr_passed gateResult
         then (\<lparr>fc_passed = False, fc_error = gr_error gateResult, fc_checks = Some checks,
                fc_suspenseAccounts = None, fc_plugSuspicious = False\<rparr>, [])
         else if entries \<noteq> [] \<and> su_isSuspicious plug
         then (\<lparr>fc_passed = False,
                fc_error = Some (''Export blocked: ledger contains unclassified Suspense/Miscellaneous/Other ''
                  @ ''accounts that absorb material activity.''),
                fc_checks = None, fc_suspenseAccounts = Some (su_plugAccountNames plug), fc_plugSuspicious = True\<rparr>,
               [\<lparr>ev_names = su_plugAccountNames plug, ev_amount = su_plugAmount plug, ev_share = su_plugShare plug,
                 ev_netActivity = num_plus totalDebits totalCredits, ev_threshold = to_num (9 / 10)\<rparr>])
         else (\<lparr>fc_passed = True, fc_error = None, fc_checks = Some checks,
                fc_suspenseAccounts = None, fc_plugSuspicious = False\<rparr>, []))"

end
