(* ===== verification/FinancialStatements.thy ===== *)
theory FinancialStatements
  imports AccountClassifier IntegrityGate
begin

text \<open>
  The balance sheet and the income statement of a classified trial balance:
  \<open>src/src/services/financialStatements.ts\<close>.

  The arrays into which a loop sorts the entries are the filters of the list by the bucket of an
  entry (\<open>bs_bucket\<close>, \<open>pl_bucket\<close>, the tests of the loop in their order). Of an entry the fields
  that no function here reads (mapping explanation, rule version, opening balance) are left out.
\<close>

section \<open>Lines and statements\<close>

record FinancialStatementLine =
  fl_accountCode :: "string option"
  fl_label :: string
  fl_amount :: number
  fl_lineId :: "string option"
  fl_fsLineId :: "string option"
  fl_fsLineCode :: "string option"
  fl_codificationRef :: "CodificationRef option"
  fl_classificationSource :: "string option"
  fl_classificationRationale :: "string option"
  fl_sourceDocumentId :: "string option"
  fl_sourceSheet :: "string option"
  fl_sourceRowIndex :: "number option"
  fl_sourceChunkId :: "string option"

record FinancialPosition =
  fp_assets :: "FinancialStatementLine list"
  fp_liabilities :: "FinancialStatementLine list"
  fp_equity :: "FinancialStatementLine list"
  fp_totalAssets :: number
  fp_totalLiabilities :: number
  fp_totalEquity :: number
  fp_currentAssets :: "FinancialStatementLine list"
  fp_noncurrentAssets :: "FinancialStatementLine list"
  fp_unclassifiedAssets :: "FinancialStatementLine list"
  fp_currentLiabilities :: "FinancialStatementLine list"
  fp_noncurrentLiabilities :: "FinancialStatementLine list"
  fp_unclassifiedLiabilities :: "FinancialStatementLine list"
  fp_totalCurrentAssets :: number
  fp_totalNoncurrentAssets :: number
  fp_totalCurrentLiabilities :: number
  fp_totalNoncurrentLiabilities :: number
  fp_oci :: "(FinancialStatementLine list \<times> number) option"
  fp_balances :: bool
  fp_codificationRef :: CodificationRef

text \<open>The subtotals present when the income statement has detailed categories.\<close>

record DetailedPL =
  pd_cogs :: "FinancialStatementLine list"
  pd_totalCogs :: number
  pd_grossProfit :: number
  pd_operatingExpenses :: "FinancialStatementLine list option"
  pd_totalOperatingExpenses :: number
  pd_operatingIncome :: number
  pd_otherIncomeExpense :: "FinancialStatementLine list"
  pd_totalOtherIncomeExpense :: number
  pd_incomeBeforeTax :: number
  pd_taxExpense :: "FinancialStatementLine list"
  pd_totalTaxExpense :: number
  pd_ebitda :: number

record ProfitAndLoss =
  pl_revenue :: "FinancialStatementLine list"
  pl_expenses :: "FinancialStatementLine list"
  pl_totalRevenue :: number
  pl_totalExpenses :: number
  pl_netIncome :: number
  pl_detail :: "DetailedPL option"
  pl_discontinued :: "(FinancialStatementLine list \<times> number) option"
  pl_codificationRef :: CodificationRef

section \<open>The taxonomy\<close>

definition CREDIT_POSITIVE_FS_LINES :: "string list" where
  "CREDIT_POSITIVE_FS_LINES =
     [''fs_liability'', ''fs_liability_current'', ''fs_liability_ap'', ''fs_liability_accrued'',
      ''fs_liability_current_debt'', ''fs_liability_other_current'',
      ''fs_liability_noncurrent'', ''fs_liability_lt_debt'', ''fs_liability_deferred_tax'',
      ''fs_liability_other_noncurrent'',
      ''fs_liability_deferred_rev_current'', ''fs_liability_deferred_rev_noncurrent'',
      ''fs_equity'', ''fs_equity_common'', ''fs_equity_retained'', ''fs_equity_other'', ''fs_equity_apic'',
      ''fs_equity_aoci'',
      ''fs_equity_treasury'', ''fs_equity_dividends'',
      ''fs_revenue'', ''fs_revenue_product'', ''fs_revenue_service'', ''fs_revenue_other'',
      ''fs_revenue_contra'',
      ''fs_other_income'', ''fs_interest_income'', ''fs_other_other'', ''fs_other_gain_loss'',
      ''fs_oci'', ''fs_oci_unrealized_gains'', ''fs_oci_fx_translation'', ''fs_oci_hedge'',
      ''fs_discontinued_ops'', ''fs_discontinued_disposal'']"

definition OCI_FS_LINES :: "string list" where
  "OCI_FS_LINES =
     [''fs_oci'', ''fs_oci_unrealized_gains'', ''fs_oci_fx_translation'', ''fs_oci_pension'', ''fs_oci_hedge'']"

definition DISCONTINUED_FS_LINES :: "string list" where
  "DISCONTINUED_FS_LINES = [''fs_discontinued_ops'', ''fs_discontinued_disposal'']"

definition BS_CURRENT_ASSET_FS_LINES :: "string list" where
  "BS_CURRENT_ASSET_FS_LINES =
     [''fs_asset_current'', ''fs_asset_cash'', ''fs_asset_ar'', ''fs_asset_ar_allowance'',
      ''fs_asset_inventory'', ''fs_asset_prepaid'', ''fs_asset_other_current'']"

definition BS_NONCURRENT_ASSET_FS_LINES :: "string list" where
  "BS_NONCURRENT_ASSET_FS_LINES =
     [''fs_asset_noncurrent'', ''fs_asset_ppe'', ''fs_asset_ppe_accum_dep'',
      ''fs_asset_intangible'', ''fs_asset_intangible_amort'', ''fs_asset_goodwill'',
      ''fs_asset_other_noncurrent'', ''fs_asset_dta'']"

definition BS_CURRENT_LIAB_FS_LINES :: "string list" where
  "BS_CURRENT_LIAB_FS_LINES =
     [''fs_liability_current'', ''fs_liability_ap'', ''fs_liability_accrued'', ''fs_liability_current_debt'',
      ''fs_liability_other_current'', ''fs_liability_deferred_rev_current'']"

definition BS_NONCURRENT_LIAB_FS_LINES :: "string list" where
  "BS_NONCURRENT_LIAB_FS_LINES =
     [''fs_liability_noncurrent'', ''fs_liability_lt_debt'', ''fs_liability_deferred_tax'',
      ''fs_liability_other_noncurrent'', ''fs_liability_deferred_rev_noncurrent'']"

definition BS_EQUITY_FS_LINES :: "string list" where
  "BS_EQUITY_FS_LINES =
     [''fs_equity'', ''fs_equity_common'', ''fs_equity_retained'', ''fs_equity_treasury'', ''fs_equity_other'',
      ''fs_equity_apic'', ''fs_equity_dividends'', ''fs_equity_aoci'']"

definition COGS_FS_LINES :: "string list" where
  "COGS_FS_LINES = [''fs_cogs'', ''fs_cogs_materials'', ''fs_cogs_labor'', ''fs_cogs_overhead'']"

definition OPEX_FS_LINES :: "string list" where
  "OPEX_FS_LINES = [''fs_opex'', ''fs_opex_sga'', ''fs_opex_rd'', ''fs_opex_da'', ''fs_opex_other'']"

definition OTHER_INCOME_FS_LINES :: "string list" where
  "OTHER_INCOME_FS_LINES =
     [''fs_other_income'', ''fs_interest_income'', ''fs_interest_expense'', ''fs_other_other'', ''fs_other_gain_loss'']"

definition TAX_FS_LINES :: "string list" where
  "TAX_FS_LINES = [''fs_tax_expense'', ''fs_tax_current'', ''fs_tax_deferred'']"

section \<open>Lines\<close>

text \<open>\<open>String(t).toUpperCase() === expected\<close>.\<close>

definition isType :: "string option \<Rightarrow> string \<Rightarrow> bool" where
  "isType t expected = (case t of None \<Rightarrow> False | Some u \<Rightarrow> js_toUpperCase u = expected)"

definition credit_positive :: "TrialBalanceEntry \<Rightarrow> bool" where
  "credit_positive e =
     (case te_fsLineId e of
        Some l \<Rightarrow> l \<in> set CREDIT_POSITIVE_FS_LINES
      | None \<Rightarrow> isType (te_accountType e) LIABILITY \<or> isType (te_accountType e) EQUITY
                \<or> isType (te_accountType e) REVENUE)"

definition netAmount :: "'d decimal_ops \<Rightarrow> TrialBalanceEntry \<Rightarrow> number" where
  "netAmount D e =
     (let net = minus2 D (te_debit e) (te_credit e)
      in rounded2 D (if credit_positive e then num_neg net else net))"

definition toLine :: "'d decimal_ops \<Rightarrow> TrialBalanceEntry \<Rightarrow> FinancialStatementLine" where
  "toLine D e =
     \<lparr>fl_accountCode = te_accountCode e, fl_label = te_accountName e, fl_amount = netAmount D e,
      fl_lineId = te_lineId e, fl_fsLineId = te_fsLineId e, fl_fsLineCode = te_fsLineCode e,
      fl_codificationRef = te_codificationRef e, fl_classificationSource = te_classificationSource e,
      fl_classificationRationale = te_classificationRationale e,
      fl_sourceDocumentId = te_sourceDocumentId e, fl_sourceSheet = te_sourceSheet e,
      fl_sourceRowIndex = te_sourceRowIndex e, fl_sourceChunkId = te_sourceChunkId e\<rparr>"

definition bare_line :: "string \<Rightarrow> number \<Rightarrow> FinancialStatementLine" where
  "bare_line label amount =
     \<lparr>fl_accountCode = None, fl_label = label, fl_amount = amount, fl_lineId = None, fl_fsLineId = None,
      fl_fsLineCode = None, fl_codificationRef = None, fl_classificationSource = None,
      fl_classificationRationale = None, fl_sourceDocumentId = None, fl_sourceSheet = None,
      fl_sourceRowIndex = None, fl_sourceChunkId = None\<rparr>"

definition sumLines :: "'d decimal_ops \<Rightarrow> FinancialStatementLine list \<Rightarrow> number" where
  "sumLines D lines = sumRound2 D (map fl_amount lines)"

definition DEFAULT_MATERIALITY :: number where
  "DEFAULT_MATERIALITY = to_num (1 / 100)"

section \<open>Balance sheet\<close>

datatype BsBucket =
    CurrentAssets | NoncurrentAssets | Assets
  | CurrentLiabilities | NoncurrentLiabilities | Liabilities
  | Equity | Revenue | Expenses | Oci | Discontinued

definition fs_in :: "TrialBalanceEntry \<Rightarrow> string list \<Rightarrow> bool" where
  "fs_in e lines = (case te_fsLineId e of None \<Rightarrow> False | Some l \<Rightarrow> l \<in> set lines)"

text \<open>An entry that meets no test is in no bucket.\<close>

definition bs_bucket :: "TrialBalanceEntry \<Rightarrow> BsBucket option" where
  "bs_bucket e =
     (if fs_in e OCI_FS_LINES then Some Oci
      else if fs_in e DISCONTINUED_FS_LINES then Some Discontinued
      else if fs_in e BS_CURRENT_ASSET_FS_LINES then Some CurrentAssets
      else if fs_in e BS_NONCURRENT_ASSET_FS_LINES then Some NoncurrentAssets
      else if te_fsLineId e = Some ''fs_asset'' then Some Assets
      else if fs_in e BS_CURRENT_LIAB_FS_LINES then Some CurrentLiabilities
      else if fs_in e BS_NONCURRENT_LIAB_FS_LINES then Some NoncurrentLiabilities
      else if te_fsLineId e = Some ''fs_liability'' then Some Liabilities
      else if fs_in e BS_EQUITY_FS_LINES then Some Equity
      else if te_fsLineId e = Some ''fs_revenue'' then Some Revenue
      else if te_fsLineId e = Some ''fs_expense'' then Some Expenses
      else if isType (te_accountType e) ASSET then Some Assets
      else if isType (te_accountType e) LIABILITY then Some Liabilities
      else if isType (te_accountType e) EQUITY then Some Equity
      else if isType (te_accountType e) REVENUE then Some Revenue
      else if isType (te_accountType e) EXPENSE then Some Expenses
      else None)"

definition bucketBsByFsLine :: "TrialBalanceEntry list \<Rightarrow> BsBucket \<Rightarrow> TrialBalanceEntry list" where
  "bucketBsByFsLine entries b = filter (\<lambda>e. bs_bucket e = Some b) entries"

definition bs_lines :: "'d decimal_ops \<Rightarrow> TrialBalanceEntry list \<Rightarrow> BsBucket \<Rightarrow> FinancialStatementLine list" where
  "bs_lines D entries b = map (toLine D) (bucketBsByFsLine entries b)"

definition bs_asset_lines :: "'d decimal_ops \<Rightarrow> TrialBalanceEntry list \<Rightarrow> FinancialStatementLine list" where
  "bs_asset_lines D es = bs_lines D es CurrentAssets @ bs_lines D es NoncurrentAssets @ bs_lines D es Assets"

definition bs_liability_lines :: "'d decimal_ops \<Rightarrow> TrialBalanceEntry list \<Rightarrow> FinancialStatementLine list" where
  "bs_liability_lines D es =
     bs_lines D es CurrentLiabilities @ bs_lines D es NoncurrentLiabilities @ bs_lines D es Liabilities"

text \<open>Equity with the result of the period and other comprehensive income, before rounding.\<close>

definition bs_equity_total :: "'d decimal_ops \<Rightarrow> TrialBalanceEntry list \<Rightarrow> number" where
  "bs_equity_total D es =
     (let equityOnly = sumLines D (bs_lines D es Equity);
          totalRevenue = sumLines D (bs_lines D es Revenue);
          totalExpenses = sumLines D (bs_lines D es Expenses);
          totalOci = sumLines D (bs_lines D es Oci)
      in rounded2 D (plus2 D (plus2 D equityOnly (minus2 D totalRevenue totalExpenses)) totalOci))"

definition bs_difference :: "'d decimal_ops \<Rightarrow> TrialBalanceEntry list \<Rightarrow> number" where
  "bs_difference D es =
     rounded2 D (minus2 D (sumLines D (bs_asset_lines D es))
       (plus2 D (sumLines D (bs_liability_lines D es)) (bs_equity_total D es)))"

text \<open>A difference of at most one cent becomes a line of the equity section.\<close>

definition bs_adjusted :: "number \<Rightarrow> bool" where
  "bs_adjusted bsDiff \<longleftrightarrow> \<not> num_eq bsDiff (Fin 0) \<and> num_le (num_abs bsDiff) (to_num (1 / 100))"

definition bs_total_equity :: "'d decimal_ops \<Rightarrow> TrialBalanceEntry list \<Rightarrow> number" where
  "bs_total_equity D es =
     (let bsDiff = bs_difference D es; totalEquity = bs_equity_total D es
      in if bs_adjusted bsDiff then rounded2 D (plus2 D totalEquity bsDiff) else totalEquity)"

definition bs_gate_input :: "'d decimal_ops \<Rightarrow> number \<Rightarrow> TrialBalanceEntry list \<Rightarrow> IntegrityGateInput" where
  "bs_gate_input D materiality es =
     \<lparr>gi_trialBalance = GateTotals (sumRound2 D (map te_debit es)) (sumRound2 D (map te_credit es)),
      gi_balanceSheet = \<lparr>gb_totalAssets = sumLines D (bs_asset_lines D es),
        gb_totalLiabilities = sumLines D (bs_liability_lines D es), gb_totalEquity = bs_total_equity D es\<rparr>,
      gi_tolerance = Some materiality\<rparr>"

definition buildBalanceSheet ::
  "'d decimal_ops \<Rightarrow> rules_file \<Rightarrow> number option \<Rightarrow> TrialBalanceEntry list \<Rightarrow> FinancialPosition" where
  "buildBalanceSheet D file option_materiality entries =
     (let materiality = js_or option_materiality DEFAULT_MATERIALITY;
          lines = bs_lines D entries;
          bsDiff = bs_difference D entries
      in \<lparr>fp_assets = bs_asset_lines D entries, fp_liabilities = bs_liability_lines D entries,
          fp_equity = lines Equity @ (if bs_adjusted bsDiff then [bare_line ''Rounding adjustment'' bsDiff] else []),
          fp_totalAssets = sumLines D (bs_asset_lines D entries),
          fp_totalLiabilities = sumLines D (bs_liability_lines D entries),
          fp_totalEquity = bs_total_equity D entries,
          fp_currentAssets = lines CurrentAssets, fp_noncurrentAssets = lines NoncurrentAssets,
          fp_unclassifiedAssets = lines Assets,
          fp_currentLiabilities = lines CurrentLiabilities,
          fp_noncurrentLiabilities = lines NoncurrentLiabilities,
          fp_unclassifiedLiabilities = lines Liabilities,
          fp_totalCurrentAssets = sumLines D (lines CurrentAssets),
          fp_totalNoncurrentAssets = sumLines D (lines NoncurrentAssets),
          fp_totalCurrentLiabilities = sumLines D (lines CurrentLiabilities),
          fp_totalNoncurrentLiabilities = sumLines D (lines NoncurrentLiabilities),
          fp_oci = (if lines Oci \<noteq> [] then Some (lines Oci, sumLines D (lines Oci)) else None),
          fp_balances = gr_balanceSheetBalances (runIntegrityGate D file (bs_gate_input D materiality entries)),
          fp_codificationRef = BALANCE_SHEET\<rparr>)"

section \<open>Income statement\<close>

datatype PlBucket =
    PlRevenue | PlCogs | PlOperatingExpenses | PlOtherIncomeExpense | PlTaxExpense | PlExpenses | PlDiscontinued

definition pl_bucket :: "TrialBalanceEntry \<Rightarrow> PlBucket option" where
  "pl_bucket e =
     (if fs_in e DISCONTINUED_FS_LINES then Some PlDiscontinued
      else if fs_in e [''fs_revenue'', ''fs_revenue_contra'', ''fs_revenue_product'',
              ''fs_revenue_service'', ''fs_revenue_other''] then Some PlRevenue
      else if fs_in e COGS_FS_LINES then Some PlCogs
      else if fs_in e OPEX_FS_LINES then Some PlOperatingExpenses
      else if fs_in e OTHER_INCOME_FS_LINES then Some PlOtherIncomeExpense
      else if fs_in e TAX_FS_LINES then Some PlTaxExpense
      else if te_fsLineId e = Some ''fs_expense'' then Some PlExpenses
      else if isType (te_accountType e) REVENUE then Some PlRevenue
      else if isType (te_accountType e) EXPENSE then Some PlExpenses
      else None)"

definition bucketPlByFsLine :: "TrialBalanceEntry list \<Rightarrow> PlBucket \<Rightarrow> TrialBalanceEntry list" where
  "bucketPlByFsLine entries b = filter (\<lambda>e. pl_bucket e = Some b) entries"

definition negated :: "'d decimal_ops \<Rightarrow> FinancialStatementLine \<Rightarrow> FinancialStatementLine" where
  "negated D line = line\<lparr>fl_amount := rounded2 D (num_neg (fl_amount line))\<rparr>"

text \<open>Other income and expense is signed: interest expense counts negative.\<close>

definition other_line :: "'d decimal_ops \<Rightarrow> TrialBalanceEntry \<Rightarrow> FinancialStatementLine" where
  "other_line D e =
     (if te_fsLineId e = Some ''fs_interest_expense'' then negated D (toLine D e) else toLine D e)"

definition pl_lines :: "'d decimal_ops \<Rightarrow> TrialBalanceEntry list \<Rightarrow> PlBucket \<Rightarrow> FinancialStatementLine list" where
  "pl_lines D entries b =
     map (if b = PlOtherIncomeExpense then other_line D else toLine D) (bucketPlByFsLine entries b)"

definition pl_total :: "'d decimal_ops \<Rightarrow> TrialBalanceEntry list \<Rightarrow> PlBucket \<Rightarrow> number" where
  "pl_total D entries b = sumLines D (pl_lines D entries b)"

text \<open>The flat view of the expenses: other income that is negative counts as an expense.\<close>

definition all_expense_lines :: "'d decimal_ops \<Rightarrow> TrialBalanceEntry list \<Rightarrow> FinancialStatementLine list" where
  "all_expense_lines D es =
     pl_lines D es PlCogs @ pl_lines D es PlOperatingExpenses
     @ map (negated D) (filter (\<lambda>l. num_less (fl_amount l) (Fin 0)) (pl_lines D es PlOtherIncomeExpense))
     @ pl_lines D es PlTaxExpense @ pl_lines D es PlExpenses"

text \<open>The subtotals, each rounded from the one before.\<close>

definition gross_profit :: "'d decimal_ops \<Rightarrow> TrialBalanceEntry list \<Rightarrow> number" where
  "gross_profit D es = rounded2 D (minus2 D (pl_total D es PlRevenue) (pl_total D es PlCogs))"

definition operating_income :: "'d decimal_ops \<Rightarrow> TrialBalanceEntry list \<Rightarrow> number" where
  "operating_income D es =
     rounded2 D (minus2 D (gross_profit D es)
       (plus2 D (pl_total D es PlOperatingExpenses) (pl_total D es PlExpenses)))"

definition income_before_tax :: "'d decimal_ops \<Rightarrow> TrialBalanceEntry list \<Rightarrow> number" where
  "income_before_tax D es = rounded2 D (plus2 D (operating_income D es) (pl_total D es PlOtherIncomeExpense))"

definition net_income :: "'d decimal_ops \<Rightarrow> TrialBalanceEntry list \<Rightarrow> number" where
  "net_income D es = rounded2 D (minus2 D (income_before_tax D es) (pl_total D es PlTaxExpense))"

text \<open>Net income before tax, interest expense, depreciation and amortisation.\<close>

definition net_of_line :: "'d decimal_ops \<Rightarrow> TrialBalanceEntry list \<Rightarrow> PlBucket \<Rightarrow> string \<Rightarrow> number" where
  "net_of_line D es b line =
     sumRound2 D (map (netAmount D) (filter (\<lambda>e. te_fsLineId e = Some line) (bucketPlByFsLine es b)))"

definition ebitda_of :: "'d decimal_ops \<Rightarrow> TrialBalanceEntry list \<Rightarrow> number" where
  "ebitda_of D es =
     rounded2 D (plus2 D (plus2 D (plus2 D (net_income D es) (pl_total D es PlTaxExpense))
       (net_of_line D es PlOtherIncomeExpense ''fs_interest_expense''))
       (net_of_line D es PlOperatingExpenses ''fs_opex_da''))"

definition detailed_pl :: "'d decimal_ops \<Rightarrow> TrialBalanceEntry list \<Rightarrow> DetailedPL" where
  "detailed_pl D es =
     (let lines = pl_lines D es; total_of = pl_total D es in
      \<lparr>pd_cogs = lines PlCogs, pd_totalCogs = total_of PlCogs, pd_grossProfit = gross_profit D es,
       pd_operatingExpenses = (if lines PlOperatingExpenses \<noteq> [] then Some (lines PlOperatingExpenses)
         else if lines PlExpenses \<noteq> [] then Some (lines PlExpenses) else None),
       pd_totalOperatingExpenses = rounded2 D (plus2 D (total_of PlOperatingExpenses) (total_of PlExpenses)),
       pd_operatingIncome = operating_income D es,
       pd_otherIncomeExpense = lines PlOtherIncomeExpense, pd_totalOtherIncomeExpense = total_of PlOtherIncomeExpense,
       pd_incomeBeforeTax = income_before_tax D es, pd_taxExpense = lines PlTaxExpense,
       pd_totalTaxExpense = total_of PlTaxExpense, pd_ebitda = ebitda_of D es\<rparr>)"

definition buildProfitAndLoss :: "'d decimal_ops \<Rightarrow> TrialBalanceEntry list \<Rightarrow> ProfitAndLoss" where
  "buildProfitAndLoss D entries =
     (let lines = pl_lines D entries;
          hasDetailedPL = (list_ex (\<lambda>b. lines b \<noteq> []) [PlCogs, PlOperatingExpenses, PlOtherIncomeExpense, PlTaxExpense])
      in \<lparr>pl_revenue = lines PlRevenue, pl_expenses = all_expense_lines D entries,
          pl_totalRevenue = pl_total D entries PlRevenue,
          pl_totalExpenses = sumRound2 D (map fl_amount (all_expense_lines D entries)),
          pl_netIncome = net_income D entries,
          pl_detail = (if hasDetailedPL then Some (detailed_pl D entries) else None),
          pl_discontinued = (if lines PlDiscontinued \<noteq> []
            then Some (lines PlDiscontinued, pl_total D entries PlDiscontinued) else None),
          pl_codificationRef = COMPREHENSIVE_INCOME\<rparr>)"

section \<open>The pipeline\<close>

record TrialBalance =
  tr_entries :: "TrialBalanceEntry list"
  tr_totalDebits :: number
  tr_totalCredits :: number
  tr_balances :: bool

record StatementOptions =
  so_preClassifiedEntries :: "TrialBalanceEntry list option"
  so_materiality :: "number option"
  so_tolerance :: "number option"

definition no_options :: StatementOptions where
  "no_options = \<lparr>so_preClassifiedEntries = None, so_materiality = None, so_tolerance = None\<rparr>"

text \<open>The entries classified before, when there are as many of them, else by their names.\<close>

definition classified_entries :: "StatementOptions \<Rightarrow> TrialBalance \<Rightarrow> TrialBalanceEntry list" where
  "classified_entries options tb =
     (case so_preClassifiedEntries options of
        Some es \<Rightarrow> if length es = length (tr_entries tb) then es
          else classifyTrialBalanceDeterministic (tr_entries tb)
      | None \<Rightarrow> classifyTrialBalanceDeterministic (tr_entries tb))"

definition buildFinancialStatements ::
  "'d decimal_ops \<Rightarrow> rules_file \<Rightarrow> StatementOptions \<Rightarrow> TrialBalance
     \<Rightarrow> FinancialPosition \<times> ProfitAndLoss \<times> TrialBalanceEntry list" where
  "buildFinancialStatements D file options trialBalanceResult =
     (let classified = classified_entries options trialBalanceResult
      in (buildBalanceSheet D file (so_materiality options) classified, buildProfitAndLoss D classified, classified))"

definition position_input :: "FinancialPosition \<Rightarrow> GateBS" where
  "position_input bs = \<lparr>gb_totalAssets = fp_totalAssets bs, gb_totalLiabilities = fp_totalLiabilities bs,
     gb_totalEquity = fp_totalEquity bs\<rparr>"

text \<open>The totals are optional for this function only.\<close>

definition validateTrialBalanceAndBalanceSheet ::
  "'d decimal_ops \<Rightarrow> rules_file \<Rightarrow> TrialBalanceEntry list \<Rightarrow> number option \<Rightarrow> number option \<Rightarrow> FinancialPosition
     \<Rightarrow> number option \<Rightarrow> MathematicalIntegrityError + unit" where
  "validateTrialBalanceAndBalanceSheet D file entries debits credits bs tolerance =
     assertIntegrityGateOrThrow D file
       \<lparr>gi_trialBalance = GateTotals (js_or debits (sumRound2 D (map te_debit entries)))
          (js_or credits (sumRound2 D (map te_credit entries))),
        gi_balanceSheet = position_input bs, gi_tolerance = tolerance\<rparr>"

record ValidatedStatements =
  va_balanceSheet :: FinancialPosition
  va_profitAndLoss :: ProfitAndLoss
  va_classifiedEntries :: "TrialBalanceEntry list"
  va_riskLevel :: string
  va_plugAlert :: "SuspiciousPlugResult option"

definition plug_entry :: "TrialBalanceEntry \<Rightarrow> PlugEntry" where
  "plug_entry e = \<lparr>pe_accountName = te_accountName e, pe_debit = te_debit e, pe_credit = te_credit e\<rparr>"

text \<open>The statements with the risk that the plug accounts show.\<close>

definition risk_assessed ::
  "'d decimal_ops \<Rightarrow> FinancialPosition \<Rightarrow> ProfitAndLoss \<Rightarrow> TrialBalanceEntry list \<Rightarrow> ValidatedStatements" where
  "risk_assessed D bs pl classified =
     (let plugResult = detectSuspiciousPlugs D (map plug_entry classified) (Some (to_num (9 / 10)))
      in \<lparr>va_balanceSheet = bs, va_profitAndLoss = pl, va_classifiedEntries = classified,
          va_riskLevel = (if su_isSuspicious plugResult then ''balanced_but_high_risk'' else ''normal''),
          va_plugAlert = (if su_isSuspicious plugResult then Some plugResult else None)\<rparr>)"

definition validation_input :: "StatementOptions \<Rightarrow> TrialBalance \<Rightarrow> FinancialPosition \<Rightarrow> IntegrityGateInput" where
  "validation_input options tb bs =
     \<lparr>gi_trialBalance = GateTotals (tr_totalDebits tb) (tr_totalCredits tb),
      gi_balanceSheet = position_input bs, gi_tolerance = so_tolerance options\<rparr>"

definition buildValidatedStatements ::
  "'d decimal_ops \<Rightarrow> rules_file \<Rightarrow> StatementOptions \<Rightarrow> TrialBalance
     \<Rightarrow> MathematicalIntegrityError + ValidatedStatements" where
  "buildValidatedStatements D file options trialBalanceResult =
     (let (bs, pl, classified) = buildFinancialStatements D file options trialBalanceResult
      in case assertIntegrityGateOrThrow D file (validation_input options trialBalanceResult bs) of
           Inl e \<Rightarrow> Inl e
         | Inr _ \<Rightarrow> Inr (risk_assessed D bs pl classified))"

end
