(* ===== verification/StatementCents.thy ===== *)
theory StatementCents
  imports FinancialStatements CrossStatementTies
begin

text \<open>
  The arithmetic of the statement builder on whole cents: every amount is exact, so a total is
  \<open>cents_num\<close> of a sum of integers. \<open>net_cents\<close> is the net amount of an entry, debit positive, and
  \<open>line_cents\<close> the amount of its line.
\<close>

section \<open>Amounts in cents\<close>

definition net_cents :: "TrialBalanceEntry \<Rightarrow> int" where
  "net_cents e = cents_of (te_debit e) - cents_of (te_credit e)"

definition line_cents :: "TrialBalanceEntry \<Rightarrow> int" where
  "line_cents e = (if credit_positive e then - net_cents e else net_cents e)"

definition volume :: "TrialBalanceEntry list \<Rightarrow> int" where
  "volume es = (\<Sum>e\<leftarrow>es. \<bar>cents_of (te_debit e)\<bar> + \<bar>cents_of (te_credit e)\<bar>)"

definition entries_in_cents :: "TrialBalanceEntry list \<Rightarrow> bool" where
  "entries_in_cents es \<longleftrightarrow>
     list_all (\<lambda>e. in_cents (te_debit e) \<and> in_cents (te_credit e)) es \<and> volume es < 10 ^ 15"

definition line_total :: "TrialBalanceEntry list \<Rightarrow> int" where
  "line_total es = (\<Sum>e\<leftarrow>es. line_cents e)"

lemma cents_num_0 [simp]: "cents_num 0 = Fin 0"
  by (simp add: cents_num_def to_num_def)

lemma cents_of_num [simp]: "\<bar>c\<bar> < 10 ^ 15 \<Longrightarrow> cents_of (cents_num c) = c"
  using in_cents_num by blast

lemma in_cents_cents_num [simp]: "\<bar>c\<bar> < 10 ^ 15 \<Longrightarrow> in_cents (cents_num c)"
  using in_cents_num by blast

lemma num_neg_cents: "\<bar>c\<bar> < 10 ^ 15 \<Longrightarrow> num_neg (cents_num c) = cents_num (- c)"
  using rnd_rat_minus [of "money c"] to_num_cents [of c] to_num_cents [of "- c"]
  by (simp add: cents_num_def money_def)

text \<open>Below \<open>10 ^ 15\<close> cents the doubles are in the order of the cents.\<close>

lemma rnd_cents_near:
  assumes "\<bar>c\<bar> < 10 ^ 15"
  shows "\<bar>rnd_rat (money c) - money c\<bar> < 1 / 400"
proof (cases "c = 0")
  case False
  have "1 / 2 ^ 1022 \<le> \<bar>money c\<bar>"
  proof -
    have "1 / 2 ^ 1022 \<le> (1 / 100 :: rat)" by (simp add: frac_le)
    also have "\<dots> \<le> \<bar>money c\<bar>" using False by (simp add: money_def)
    finally show ?thesis .
  qed
  then have "\<bar>rnd_rat (money c) - money c\<bar> \<le> \<bar>money c\<bar> / 2 ^ 53" by (rule rnd_rat_rel_error)
  also have "\<bar>money c\<bar> < 10 ^ 13"
  proof -
    have "\<bar>of_int c :: rat\<bar> < 10 ^ 15"
      using assms by (metis of_int_abs of_int_less_iff of_int_numeral of_int_power)
    then show ?thesis by (simp add: money_def)
  qed
  finally show ?thesis by simp
qed simp

lemma cents_num_less:
  assumes "c < d" and "\<bar>c\<bar> < 10 ^ 15" and "\<bar>d\<bar> < 10 ^ 15"
  shows "num_less (cents_num c) (cents_num d)"
proof -
  have "money c + 1 / 100 \<le> money d"
    using assms(1) by (simp add: money_def add_divide_distrib [symmetric] divide_right_mono)
  with rnd_cents_near [OF assms(2)] rnd_cents_near [OF assms(3)]
  have "rnd_rat (money c) < rnd_rat (money d)" by linarith
  then show ?thesis using assms(2,3) by (simp add: cents_num_def to_num_cents)
qed

lemma cents_num_order:
  assumes "\<bar>c\<bar> < 10 ^ 15" and "\<bar>d\<bar> < 10 ^ 15"
  shows "num_eq (cents_num c) (cents_num d) \<longleftrightarrow> c = d"
    and "num_less (cents_num c) (cents_num d) \<longleftrightarrow> c < d"
    and "num_le (cents_num c) (cents_num d) \<longleftrightarrow> c \<le> d"
proof -
  obtain x y where n: "cents_num c = Fin x" "cents_num d = Fin y"
    using assms by (simp add: cents_num_def to_num_cents)
  have less: "c < d \<Longrightarrow> x < y" "d < c \<Longrightarrow> y < x" "c = d \<Longrightarrow> x = y"
    using cents_num_less [of c d] cents_num_less [of d c] assms n by auto
  consider "c < d" | "c = d" | "d < c" by linarith
  then have "(x = y \<longleftrightarrow> c = d) \<and> (x < y \<longleftrightarrow> c < d)"
    using less by cases auto
  then show "num_eq (cents_num c) (cents_num d) \<longleftrightarrow> c = d"
    and "num_less (cents_num c) (cents_num d) \<longleftrightarrow> c < d"
    and "num_le (cents_num c) (cents_num d) \<longleftrightarrow> c \<le> d"
    using n by (auto simp: num_le_def)
qed

lemma num_abs_cents:
  assumes "\<bar>c\<bar> < 10 ^ 15"
  shows "num_abs (cents_num c) = cents_num \<bar>c\<bar>"
proof -
  obtain x where x: "cents_num c = Fin x"
    using assms by (simp add: cents_num_def to_num_cents)
  consider "c < 0" | "c = 0" | "0 < c" by linarith
  then show ?thesis
    using cents_num_less [of c 0] cents_num_less [of 0 c] num_neg_cents [OF assms] assms x by cases auto
qed

lemma cents_small_diff:
  assumes "in_cents a" and "in_cents b"
  shows "\<bar>cents_of a - cents_of b\<bar> < 10 ^ 20" and "\<bar>cents_of a + cents_of b\<bar> < 10 ^ 20"
  using assms by (simp_all add: in_cents_def, linarith+)

lemma member_le_sum:
  fixes f :: "'a \<Rightarrow> int"
  assumes "\<And>y. 0 \<le> f y" and "x \<in> set xs"
  shows "f x \<le> sum_list (map f xs)"
  using assms(2)
proof (induction xs)
  case (Cons y ys)
  have "0 \<le> sum_list (map f ys)" by (rule sum_list_nonneg) (auto simp: assms(1))
  with Cons assms(1) [of y] show ?case by auto
qed simp

lemma net_cents_le: "\<bar>net_cents e\<bar> \<le> \<bar>cents_of (te_debit e)\<bar> + \<bar>cents_of (te_credit e)\<bar>"
  by (simp add: net_cents_def)

lemma line_cents_abs [simp]: "\<bar>line_cents e\<bar> = \<bar>net_cents e\<bar>"
  by (simp add: line_cents_def)

lemma volume_nonneg: "0 \<le> volume es"
  unfolding volume_def by (rule sum_list_nonneg) auto

lemma volume_Cons: "volume (e # es) = \<bar>cents_of (te_debit e)\<bar> + \<bar>cents_of (te_credit e)\<bar> + volume es"
  by (simp add: volume_def)

lemma abs_sum_lines: "(\<Sum>e\<leftarrow>es. \<bar>line_cents e\<bar>) \<le> volume es"
proof (induction es)
  case (Cons e es)
  with net_cents_le [of e] show ?case by (simp add: volume_Cons)
qed (simp add: volume_def)

lemma abs_line_total: "\<bar>line_total es\<bar> \<le> volume es"
  using sum_list_abs [of "map line_cents es"] abs_sum_lines [of es] by (simp add: line_total_def comp_def)

lemma volume_filter: "volume (filter P es) \<le> volume es"
  unfolding volume_def by (rule sum_list_filter_le) simp

lemma entries_in_cents_filter: "entries_in_cents es \<Longrightarrow> entries_in_cents (filter P es)"
  using volume_filter [of P es] by (auto simp: entries_in_cents_def list_all_iff)

lemma entry_small:
  assumes "entries_in_cents es" and "e \<in> set es"
  shows "in_cents (te_debit e)" and "in_cents (te_credit e)" and "\<bar>net_cents e\<bar> < 10 ^ 15"
proof -
  show "in_cents (te_debit e)" "in_cents (te_credit e)"
    using assms by (auto simp: entries_in_cents_def list_all_iff)
  have "\<bar>cents_of (te_debit e)\<bar> + \<bar>cents_of (te_credit e)\<bar> \<le> volume es"
    unfolding volume_def using assms(2)
    by (intro member_le_sum [where f = "\<lambda>e. \<bar>cents_of (te_debit e)\<bar> + \<bar>cents_of (te_credit e)\<bar>"]) auto
  with net_cents_le [of e] assms(1) show "\<bar>net_cents e\<bar> < 10 ^ 15"
    by (simp add: entries_in_cents_def)
qed

lemma line_total_append [simp]: "line_total (xs @ ys) = line_total xs + line_total ys"
  by (simp add: line_total_def)

context decimal_js
begin

lemma minus2_cents:
  assumes "in_cents a" and "in_cents b"
  shows "minus2 D a b = cents_num (cents_of a - cents_of b)"
  using minus_cents [of a "cents_of a" b "cents_of b"] cents_small_diff(1) [OF assms] assms
  by (simp add: minus2_def in_cents_def toDP toNumber DP_def cents_num_def)

lemma plus2_cents:
  assumes "in_cents a" and "in_cents b"
  shows "plus2 D a b = cents_num (cents_of a + cents_of b)"
  using plus_cents [of a "cents_of a" b "cents_of b"] cents_small_diff(2) [OF assms] assms
  by (simp add: plus2_def in_cents_def toDP toNumber DP_def cents_num_def)

lemma rounded2_cents: "in_cents a \<Longrightarrow> rounded2 D a = cents_num (cents_of a)"
  using has_cents_of_num [of a "cents_of a"]
  by (simp add: rounded2_def in_cents_def toDP toNumber DP_def cents_num_def)

lemma holds_gap:
  assumes "in_cents a" and "in_cents b"
  shows "holds fin v (d_abs D (d_minus D (d_of_num D a) (d_of_num D b))) \<bar>cents_of a - cents_of b\<bar>"
  using minus_cents [of a "cents_of a" b "cents_of b"] cents_small_diff(1) [OF assms] assms
  by (intro holds_unary(1)) (simp add: in_cents_def holds_def)

lemma exceeds_cents:
  assumes "in_cents a" and "in_cents b" and "in_cents t"
  shows "exceeds D a b t \<longleftrightarrow> cents_of t < \<bar>cents_of a - cents_of b\<bar>"
  using holds_gap [OF assms(1,2)] has_cents_of_num [of t "cents_of t"] assms(3)
  by (simp add: exceeds_def holds_def in_cents_def greaterThan not_le [symmetric])

lemma netAmount_cents: "entries_in_cents es \<Longrightarrow> e \<in> set es \<Longrightarrow> netAmount D e = cents_num (line_cents e)"
  using entry_small [of es e]
  by (auto simp: netAmount_def Let_def minus2_cents net_cents_def num_neg_cents rounded2_cents line_cents_def)

lemma sum_cents_num:
  assumes "(\<Sum>c\<leftarrow>cs. \<bar>c\<bar>) < 10 ^ 15"
  shows "sumRound2 D (map cents_num cs) = cents_num (sum_list cs)"
proof -
  have "\<bar>c\<bar> < 10 ^ 15" if "c \<in> set cs" for c
    using member_le_sum [of abs, OF _ that] assms by simp
  then have "list_all2 has_cents (map cents_num cs) cs"
    using in_cents_num by (auto simp: list.rel_map list_all2_same in_cents_def)
  with sumRound2_cents [of "map cents_num cs" cs] assms show ?thesis
    by (simp add: cents_num_def)
qed

lemma sumLines_cents:
  assumes "entries_in_cents es"
  shows "sumLines D (map (toLine D) es) = cents_num (line_total es)"
proof -
  have "map fl_amount (map (toLine D) es) = map cents_num (map line_cents es)"
    using netAmount_cents [OF assms] by (simp add: toLine_def)
  moreover have "(\<Sum>c\<leftarrow>map line_cents es. \<bar>c\<bar>) < 10 ^ 15"
    using abs_sum_lines [of es] assms by (simp add: entries_in_cents_def comp_def)
  ultimately show ?thesis
    using sum_cents_num [of "map line_cents es"] by (simp only: sumLines_def line_total_def)
qed

end

end
