(* ===== verification/StatementBalance.thy ===== *)
theory StatementBalance
  imports StatementCents
begin

text \<open>
  When the statements balance. What an entry adds to assets minus liabilities minus equity is its
  net amount as long as the section it is routed to and the sign of its line agree
  (\<open>well_routed\<close>); the imbalance of the statements is that of the ledger minus what the entries that
  are not well routed lose (\<open>misposted\<close>). The gate lets exactly the statements through whose
  imbalance is at most one cent, and those it lets through balance to the cent.
\<close>

section \<open>The gate\<close>

context decimal_js
begin

lemma gate_cents:
  assumes "list_all in_cents [d, c, a, l, e, gate_tolerance file i]" and "\<bar>cents_of l + cents_of e\<bar> < 10 ^ 15"
    and "gi_trialBalance i = GateTotals d c"
    and "gi_balanceSheet i = \<lparr>gb_totalAssets = a, gb_totalLiabilities = l, gb_totalEquity = e\<rparr>"
  shows "gr_trialBalanceBalances (runIntegrityGate D file i)
           \<longleftrightarrow> \<bar>cents_of d - cents_of c\<bar> \<le> cents_of (gate_tolerance file i)"
    and "gr_balanceSheetBalances (runIntegrityGate D file i)
           \<longleftrightarrow> \<bar>cents_of a - (cents_of l + cents_of e)\<bar> \<le> cents_of (gate_tolerance file i)"
  using assms by (simp_all add: runIntegrityGate_def Let_def exceeds_cents plus2_cents not_less)

end

lemma gate_passed_iff:
  "gr_passed (runIntegrityGate D file i)
     \<longleftrightarrow> gr_trialBalanceBalances (runIntegrityGate D file i) \<and> gr_balanceSheetBalances (runIntegrityGate D file i)"
  by (simp add: runIntegrityGate_def Let_def split: prod.split)

lemma assert_gate:
  "assertIntegrityGateOrThrow D file i = Inr () \<longleftrightarrow> gr_passed (runIntegrityGate D file i)"
  "assertIntegrityGateOrThrow D file i = Inl err \<Longrightarrow>
     \<not> gr_passed (runIntegrityGate D file i)
     \<and> (mi_check err = CHR ''A'' \<longleftrightarrow> \<not> gr_trialBalanceBalances (runIntegrityGate D file i))
     \<and> (mi_check err = CHR ''B'' \<longleftrightarrow> gr_trialBalanceBalances (runIntegrityGate D file i))"
  using gate_passed_iff [of D "file" i]
  by (auto simp: assertIntegrityGateOrThrow_def integrity_error_def Let_def split: prod.splits if_splits)

section \<open>Grouping a list by a key\<close>

definition group_total :: "('a \<Rightarrow> 'b option) \<Rightarrow> ('a \<Rightarrow> int) \<Rightarrow> 'a list \<Rightarrow> 'b \<Rightarrow> int" where
  "group_total g f es b = (\<Sum>e\<leftarrow>filter (\<lambda>e. g e = Some b) es. f e)"

lemma group_total_Nil [simp]: "group_total g f [] b = 0"
  by (simp add: group_total_def)

lemma group_total_Cons [simp]:
  "group_total g f (e # es) b = (if g e = Some b then f e else 0) + group_total g f es b"
  by (simp add: group_total_def)

lemma groups_le:
  assumes "distinct bs" and "\<And>e. 0 \<le> f e"
  shows "(\<Sum>b\<leftarrow>bs. group_total g f es b) \<le> (\<Sum>e\<leftarrow>es. f e)"
proof (induction es)
  case Nil
  then show ?case by (induction bs) auto
next
  case (Cons e es)
  have "(\<Sum>b\<leftarrow>bs. if g e = Some b then f e else 0) \<le> f e"
    using assms(1) assms(2) [of e]
  proof (induction bs)
    case (Cons b bs)
    then show ?case
      by (cases "g e = Some b") (auto simp: sum_list_0 intro!: sum_list_nonpos)
  qed simp
  with Cons.IH show ?case by (simp add: sum_list_addf)
qed

definition bucket_cents :: "TrialBalanceEntry list \<Rightarrow> BsBucket \<Rightarrow> int" where
  "bucket_cents = group_total bs_bucket line_cents"

lemma bucket_line_total: "line_total (bucketBsByFsLine es b) = bucket_cents es b"
  by (simp add: line_total_def bucketBsByFsLine_def bucket_cents_def group_total_def)

lemma abs_group_total: "\<bar>group_total g f es b\<bar> \<le> group_total g (\<lambda>e. \<bar>f e\<bar>) es b"
  using sum_list_abs [of "map f (filter (\<lambda>e. g e = Some b) es)"]
  by (simp add: group_total_def comp_def)

lemma net_volume: "(\<Sum>e\<leftarrow>es. \<bar>net_cents e\<bar>) \<le> volume es"
  unfolding volume_def by (rule sum_list_mono) (rule net_cents_le)

lemma groups_volume:
  assumes "distinct bs" and "\<And>e. \<bar>f e\<bar> = \<bar>net_cents e\<bar>"
  shows "(\<Sum>b\<leftarrow>bs. \<bar>group_total g f es b\<bar>) \<le> volume es"
proof -
  have "(\<Sum>b\<leftarrow>bs. \<bar>group_total g f es b\<bar>) \<le> (\<Sum>b\<leftarrow>bs. group_total g (\<lambda>e. \<bar>f e\<bar>) es b)"
    by (rule sum_list_mono) (rule abs_group_total)
  also have "\<dots> \<le> (\<Sum>e\<leftarrow>es. \<bar>f e\<bar>)"
    using assms(1) by (rule groups_le) simp
  also have "\<dots> \<le> volume es" unfolding assms(2) by (rule net_volume)
  finally show ?thesis .
qed

lemma groups_small:
  assumes "entries_in_cents es" and "distinct bs" and "\<And>e. \<bar>f e\<bar> = \<bar>net_cents e\<bar>"
  shows "(\<Sum>b\<leftarrow>bs. \<bar>group_total g f es b\<bar>) < 10 ^ 15"
  using groups_volume [OF assms(2,3)] assms(1) unfolding entries_in_cents_def
  by (blast intro: le_less_trans)

section \<open>The totals of the balance sheet\<close>

definition assets_cents :: "TrialBalanceEntry list \<Rightarrow> int" where
  "assets_cents es = (\<Sum>b\<leftarrow>[CurrentAssets, NoncurrentAssets, Assets]. bucket_cents es b)"

definition liabilities_cents :: "TrialBalanceEntry list \<Rightarrow> int" where
  "liabilities_cents es = (\<Sum>b\<leftarrow>[CurrentLiabilities, NoncurrentLiabilities, Liabilities]. bucket_cents es b)"

text \<open>Equity accounts, the result of the period and other comprehensive income.\<close>

definition equity_cents :: "TrialBalanceEntry list \<Rightarrow> int" where
  "equity_cents es =
     bucket_cents es Equity + (bucket_cents es Revenue - bucket_cents es Expenses) + bucket_cents es Oci"

definition imbalance :: "TrialBalanceEntry list \<Rightarrow> int" where
  "imbalance es = assets_cents es - (liabilities_cents es + equity_cents es)"

text \<open>The rounding line makes up for a single cent.\<close>

definition rounding_cents :: "TrialBalanceEntry list \<Rightarrow> int" where
  "rounding_cents es = (if \<bar>imbalance es\<bar> \<le> 1 then imbalance es else 0)"

lemma all_buckets_small:
  assumes "entries_in_cents es"
  shows "(\<Sum>b\<leftarrow>[CurrentAssets, NoncurrentAssets, Assets, CurrentLiabilities, NoncurrentLiabilities, Liabilities,
           Equity, Revenue, Expenses, Oci]. \<bar>bucket_cents es b\<bar>) < 10 ^ 15"
  unfolding bucket_cents_def using assms by (rule groups_small) simp_all

lemma weighted_sum_le:
  fixes f :: "'b \<Rightarrow> int"
  assumes "\<And>b. \<bar>w b\<bar> \<le> 1"
  shows "\<bar>\<Sum>b\<leftarrow>bs. w b * f b\<bar> \<le> (\<Sum>b\<leftarrow>bs. \<bar>f b\<bar>)"
proof (induction bs)
  case (Cons b bs)
  have "\<bar>w b * f b\<bar> \<le> \<bar>f b\<bar>"
    using mult_right_mono [OF assms [of b], of "\<bar>f b\<bar>"] by (simp add: abs_mult)
  with Cons show ?case using abs_triangle_ineq [of "w b * f b" "\<Sum>b\<leftarrow>bs. w b * f b"] by simp
qed simp

lemma weighted_buckets:
  assumes "entries_in_cents es" and "\<And>b. \<bar>w b\<bar> \<le> 1"
  shows "\<bar>\<Sum>b\<leftarrow>[CurrentAssets, NoncurrentAssets, Assets, CurrentLiabilities, NoncurrentLiabilities, Liabilities,
           Equity, Revenue, Expenses, Oci]. w b * bucket_cents es b\<bar> < 10 ^ 15"
  using weighted_sum_le [OF assms(2)] all_buckets_small [OF assms(1)] by (rule le_less_trans)

lemma statement_bounds:
  assumes "entries_in_cents es"
  shows "\<bar>assets_cents es\<bar> < 10 ^ 15" and "\<bar>liabilities_cents es\<bar> < 10 ^ 15" and "\<bar>equity_cents es\<bar> < 10 ^ 15"
    and "\<bar>liabilities_cents es + equity_cents es\<bar> < 10 ^ 15" and "\<bar>imbalance es\<bar> < 10 ^ 15"
    and "\<bar>bucket_cents es b\<bar> < 10 ^ 15" and "\<bar>bucket_cents es Revenue - bucket_cents es Expenses\<bar> < 10 ^ 15"
    and "\<bar>bucket_cents es Equity + (bucket_cents es Revenue - bucket_cents es Expenses)\<bar> < 10 ^ 15"
    and "\<bar>assets_cents es - liabilities_cents es\<bar> < 10 ^ 15"
proof -
  note defs = assets_cents_def liabilities_cents_def equity_cents_def imbalance_def algebra_simps
  define w :: "BsBucket \<Rightarrow> int \<Rightarrow> int \<Rightarrow> int \<Rightarrow> int \<Rightarrow> int \<Rightarrow> int" where
    "w b a l q r i = (case b of CurrentAssets \<Rightarrow> a | NoncurrentAssets \<Rightarrow> a | Assets \<Rightarrow> a
       | CurrentLiabilities \<Rightarrow> l | NoncurrentLiabilities \<Rightarrow> l | Liabilities \<Rightarrow> l
       | Equity \<Rightarrow> q | Revenue \<Rightarrow> r | Expenses \<Rightarrow> - r | Oci \<Rightarrow> i | Discontinued \<Rightarrow> 0)" for b a l q r i
  have "\<bar>w b a l q r i\<bar> \<le> 1" if "\<bar>a\<bar> \<le> 1" "\<bar>l\<bar> \<le> 1" "\<bar>q\<bar> \<le> 1" "\<bar>r\<bar> \<le> 1" "\<bar>i\<bar> \<le> 1" for b a l q r i
    using that by (simp add: w_def split: BsBucket.split)
  then have sum: "\<bar>a * assets_cents es + l * liabilities_cents es + q * bucket_cents es Equity
      + r * (bucket_cents es Revenue - bucket_cents es Expenses) + i * bucket_cents es Oci\<bar> < 10 ^ 15"
    if "\<bar>a\<bar> \<le> 1" "\<bar>l\<bar> \<le> 1" "\<bar>q\<bar> \<le> 1" "\<bar>r\<bar> \<le> 1" "\<bar>i\<bar> \<le> 1" for a l q r i
    using weighted_buckets [OF assms, of "\<lambda>b. w b a l q r i"] that by (simp add: w_def defs)
  show "\<bar>assets_cents es\<bar> < 10 ^ 15" using sum [of 1 0 0 0 0] by simp
  show "\<bar>liabilities_cents es\<bar> < 10 ^ 15" using sum [of 0 1 0 0 0] by simp
  show "\<bar>equity_cents es\<bar> < 10 ^ 15" using sum [of 0 0 1 1 1] by (simp add: equity_cents_def)
  show "\<bar>liabilities_cents es + equity_cents es\<bar> < 10 ^ 15"
    using sum [of 0 1 1 1 1] by (simp add: equity_cents_def add.assoc)
  show "\<bar>imbalance es\<bar> < 10 ^ 15"
    using sum [of 1 "-1" "-1" "-1" "-1"] by (simp add: equity_cents_def imbalance_def algebra_simps)
  show "\<bar>bucket_cents es b\<bar> < 10 ^ 15"
    using groups_small [OF assms, of "[b]" line_cents bs_bucket] by (simp add: bucket_cents_def)
  show "\<bar>bucket_cents es Revenue - bucket_cents es Expenses\<bar> < 10 ^ 15"
    using sum [of 0 0 0 1 0] by simp
  show "\<bar>bucket_cents es Equity + (bucket_cents es Revenue - bucket_cents es Expenses)\<bar> < 10 ^ 15"
    using sum [of 0 0 1 1 0] by simp
  show "\<bar>assets_cents es - liabilities_cents es\<bar> < 10 ^ 15"
    using sum [of 1 "-1" 0 0 0] by simp
qed

lemma buckets_in_cents:
  assumes "entries_in_cents es" and "distinct bs"
  shows "entries_in_cents (concat (map (bucketBsByFsLine es) bs))"
proof -
  let ?es = "concat (map (bucketBsByFsLine es) bs)"
  have vol: "volume ?es = (\<Sum>b\<leftarrow>bs. group_total bs_bucket (\<lambda>e. \<bar>cents_of (te_debit e)\<bar> + \<bar>cents_of (te_credit e)\<bar>) es b)"
    by (induction bs) (simp_all add: volume_def group_total_def bucketBsByFsLine_def)
  have "volume ?es \<le> volume es"
    unfolding vol unfolding volume_def using assms(2) by (rule groups_le) simp
  moreover have "list_all (\<lambda>e. in_cents (te_debit e) \<and> in_cents (te_credit e)) ?es"
    using assms(1) by (auto simp: entries_in_cents_def list_all_iff bucketBsByFsLine_def)
  ultimately show ?thesis
    using assms(1) by (simp add: entries_in_cents_def)
qed

lemma adjusted_cents:
  assumes "\<bar>d\<bar> < 10 ^ 15"
  shows "bs_adjusted (cents_num d) \<longleftrightarrow> d \<noteq> 0 \<and> \<bar>d\<bar> \<le> 1"
  using cents_num_order(1) [of d 0] cents_num_order(3) [of "\<bar>d\<bar>" 1] assms
  by (simp add: bs_adjusted_def num_abs_cents) (simp add: cents_num_def money_def)

context decimal_js
begin

lemma bs_lines_total:
  assumes "entries_in_cents es" and "distinct bs"
  shows "sumLines D (concat (map (bs_lines D es) bs)) = cents_num (\<Sum>b\<leftarrow>bs. bucket_cents es b)"
proof -
  let ?es = "concat (map (bucketBsByFsLine es) bs)"
  from sumLines_cents [OF buckets_in_cents [OF assms]] have "sumLines D (map (toLine D) ?es) = cents_num (line_total ?es)" .
  moreover have "concat (map (bs_lines D es) bs) = map (toLine D) ?es"
    by (induction bs) (simp_all add: bs_lines_def)
  moreover have "line_total ?es = (\<Sum>b\<leftarrow>bs. bucket_cents es b)"
    by (induction bs) (simp_all add: line_total_def bucket_line_total [symmetric])
  ultimately show ?thesis by simp
qed

lemma bs_total_equity_cents:
  assumes "entries_in_cents es"
  shows "sumLines D (bs_asset_lines D es) = cents_num (assets_cents es)"
    and "sumLines D (bs_liability_lines D es) = cents_num (liabilities_cents es)"
    and "bs_difference D es = cents_num (imbalance es)"
    and "bs_total_equity D es = cents_num (equity_cents es + rounding_cents es)"
proof -
  note total = bs_lines_total [OF assms] and b = statement_bounds [OF assms]
  have one: "sumLines D (bs_lines D es b) = cents_num (bucket_cents es b)" for b
    using total [of "[b]"] by simp
  show assets: "sumLines D (bs_asset_lines D es) = cents_num (assets_cents es)"
    using total [of "[CurrentAssets, NoncurrentAssets, Assets]"] by (simp add: assets_cents_def bs_asset_lines_def)
  show liabilities: "sumLines D (bs_liability_lines D es) = cents_num (liabilities_cents es)"
    using total [of "[CurrentLiabilities, NoncurrentLiabilities, Liabilities]"]
    by (simp add: liabilities_cents_def bs_liability_lines_def)
  have equity: "bs_equity_total D es = cents_num (equity_cents es)"
    using b by (simp add: bs_equity_total_def one minus2_cents plus2_cents rounded2_cents equity_cents_def)
  show diff: "bs_difference D es = cents_num (imbalance es)"
    using b by (simp add: bs_difference_def assets liabilities equity minus2_cents plus2_cents rounded2_cents imbalance_def)
  note adjusted = adjusted_cents [OF b(5)]
  have "\<bar>equity_cents es + imbalance es\<bar> < 10 ^ 15"
    using b(9) by (simp add: imbalance_def)
  with b adjusted show "bs_total_equity D es = cents_num (equity_cents es + rounding_cents es)"
    by (auto simp: bs_total_equity_def equity diff plus2_cents rounded2_cents rounding_cents_def)
qed

lemma position_totals:
  assumes "entries_in_cents es"
  shows "fp_totalAssets (buildBalanceSheet D file m es) = cents_num (assets_cents es)"
    and "fp_totalLiabilities (buildBalanceSheet D file m es) = cents_num (liabilities_cents es)"
    and "fp_totalEquity (buildBalanceSheet D file m es) = cents_num (equity_cents es + rounding_cents es)"
  using bs_total_equity_cents [OF assms] by (simp_all add: buildBalanceSheet_def Let_def)

end

section \<open>The imbalance of the statements and that of the ledger\<close>

text \<open>The side on which the section of an entry stands in assets minus liabilities minus equity.\<close>

definition statement_side :: "TrialBalanceEntry \<Rightarrow> int" where
  "statement_side e =
     (case bs_bucket e of
        None \<Rightarrow> 0 | Some Discontinued \<Rightarrow> 0
      | Some CurrentAssets \<Rightarrow> 1 | Some NoncurrentAssets \<Rightarrow> 1 | Some Assets \<Rightarrow> 1 | Some Expenses \<Rightarrow> 1
      | Some _ \<Rightarrow> - 1)"

definition well_routed :: "TrialBalanceEntry \<Rightarrow> bool" where
  "well_routed e \<longleftrightarrow> statement_side e = (if credit_positive e then - 1 else 1)"

text \<open>What the statements lose of the net amount of an entry.\<close>

definition misposted :: "TrialBalanceEntry \<Rightarrow> int" where
  "misposted e = net_cents e - statement_side e * line_cents e"

lemma misposted_zero: "well_routed e \<Longrightarrow> misposted e = 0"
  by (simp add: misposted_def well_routed_def line_cents_def split: if_splits)

lemma imbalance_ledger: "imbalance es = (\<Sum>e\<leftarrow>es. net_cents e) - (\<Sum>e\<leftarrow>es. misposted e)"
proof (induction es)
  case Nil
  show ?case
    by (simp add: imbalance_def assets_cents_def liabilities_cents_def equity_cents_def bucket_cents_def)
next
  case (Cons e es)
  have "imbalance (e # es) = statement_side e * line_cents e + imbalance es"
    by (simp add: imbalance_def assets_cents_def liabilities_cents_def equity_cents_def bucket_cents_def
        statement_side_def split: option.split BsBucket.split)
  with Cons.IH show ?case by (simp add: misposted_def)
qed

lemma routed_imbalance: "list_all well_routed es \<Longrightarrow> imbalance es = (\<Sum>e\<leftarrow>es. net_cents e)"
  unfolding imbalance_ledger by (induction es) (auto simp: misposted_zero)

lemma risk_assessed_simps [simp]:
  "va_balanceSheet (risk_assessed D bs pl es) = bs"
  "va_profitAndLoss (risk_assessed D bs pl es) = pl"
  "va_classifiedEntries (risk_assessed D bs pl es) = es"
  by (simp_all add: risk_assessed_def Let_def)

context decimal_js
begin

lemma validated_cases:
  fixes options tb
  defines "es \<equiv> classified_entries options tb"
    and "gap_cents \<equiv> \<bar>cents_of (tr_totalDebits tb) - cents_of (tr_totalCredits tb)\<bar>"
  assumes es: "entries_in_cents es" and totals: "in_cents (tr_totalDebits tb)" "in_cents (tr_totalCredits tb)"
    and tolerance: "js_or (so_tolerance options) (getToleranceForGate (getFinancialRules file)) = cents_num t"
    and t: "0 \<le> t" "t \<le> 1"
  shows "case buildValidatedStatements D file options tb of
      Inl err \<Rightarrow> (if mi_check err = CHR ''A'' then t < gap_cents
                  else mi_check err = CHR ''B'' \<and> gap_cents \<le> t \<and> 1 < \<bar>imbalance es\<bar>)
    | Inr st \<Rightarrow> gap_cents \<le> t \<and> \<bar>imbalance es\<bar> \<le> 1
        \<and> va_balanceSheet st = buildBalanceSheet D file (so_materiality options) es
        \<and> va_profitAndLoss st = buildProfitAndLoss D es \<and> va_classifiedEntries st = es
        \<and> cents_of (fp_totalAssets (va_balanceSheet st))
            = cents_of (fp_totalLiabilities (va_balanceSheet st)) + cents_of (fp_totalEquity (va_balanceSheet st))"
proof -
  let ?bs = "buildBalanceSheet D file (so_materiality options) es"
  let ?i = "validation_input options tb ?bs"
  note b = statement_bounds [OF es] and p = position_totals [OF es]
  have "imbalance es = assets_cents es - liabilities_cents es - equity_cents es"
    by (simp add: imbalance_def)
  then have e: "\<bar>equity_cents es + rounding_cents es\<bar> < 10 ^ 15"
    "\<bar>liabilities_cents es + (equity_cents es + rounding_cents es)\<bar> < 10 ^ 15"
    using b(1,3,4,9) by (simp_all add: rounding_cents_def)
  have tol: "gate_tolerance file ?i = cents_num t" using tolerance by (simp add: gate_tolerance_def validation_input_def)
  have vals: "cents_of (fp_totalAssets ?bs) = assets_cents es" "cents_of (fp_totalLiabilities ?bs) = liabilities_cents es"
    "cents_of (fp_totalEquity ?bs) = equity_cents es + rounding_cents es"
    using b(1,2) e(1) by (simp_all only: p cents_of_num)
  have t': "cents_of (gate_tolerance file ?i) = t" "in_cents (cents_num t)" using t by (simp_all add: tol)
  have all: "list_all in_cents [tr_totalDebits tb, tr_totalCredits tb, fp_totalAssets ?bs, fp_totalLiabilities ?bs,
      fp_totalEquity ?bs, gate_tolerance file ?i]"
    using totals b(1,2) e(1) t'(2) by (simp only: p tol list.pred_inject in_cents_cents_num simp_thms)
  have small: "\<bar>cents_of (fp_totalLiabilities ?bs) + cents_of (fp_totalEquity ?bs)\<bar> < 10 ^ 15"
    using e(2) by (simp only: vals)
  have inp: "gi_trialBalance ?i = GateTotals (tr_totalDebits tb) (tr_totalCredits tb)"
    "gi_balanceSheet ?i = \<lparr>gb_totalAssets = fp_totalAssets ?bs, gb_totalLiabilities = fp_totalLiabilities ?bs,
       gb_totalEquity = fp_totalEquity ?bs\<rparr>"
    by (simp_all add: validation_input_def position_input_def)
  have ledger: "gr_trialBalanceBalances (runIntegrityGate D file ?i) \<longleftrightarrow> gap_cents \<le> t"
    using gate_cents(1) [OF all small inp] by (simp only: t' gap_cents_def)
  have left: "assets_cents es - (liabilities_cents es + (equity_cents es + rounding_cents es))
      = imbalance es - rounding_cents es"
    by (simp add: imbalance_def)
  have "gr_balanceSheetBalances (runIntegrityGate D file ?i) \<longleftrightarrow> \<bar>imbalance es - rounding_cents es\<bar> \<le> t"
    using gate_cents(2) [OF all small inp] by (simp only: t' vals left)
  also have "\<dots> \<longleftrightarrow> \<bar>imbalance es\<bar> \<le> 1"
    using t by (auto simp: rounding_cents_def)
  finally have sheet: "gr_balanceSheetBalances (runIntegrityGate D file ?i) \<longleftrightarrow> \<bar>imbalance es\<bar> \<le> 1" .
  have ties: "cents_of (fp_totalAssets ?bs) = cents_of (fp_totalLiabilities ?bs) + cents_of (fp_totalEquity ?bs)"
    if "\<bar>imbalance es\<bar> \<le> 1"
    using that left by (simp add: vals rounding_cents_def)
  have built: "buildValidatedStatements D file options tb
      = (case assertIntegrityGateOrThrow D file ?i of Inl err \<Rightarrow> Inl err
         | Inr u \<Rightarrow> Inr (risk_assessed D ?bs (buildProfitAndLoss D es) es))"
    unfolding buildValidatedStatements_def buildFinancialStatements_def Let_def prod.case es_def by (rule refl)
  show ?thesis
  proof (cases "assertIntegrityGateOrThrow D file ?i")
    case (Inl err)
    from assert_gate(2) [OF this] gate_passed_iff [of D "file" ?i] ledger sheet show ?thesis
      unfolding built Inl by (cases "gap_cents \<le> t") auto
  next
    case (Inr u)
    then have "gap_cents \<le> t" "\<bar>imbalance es\<bar> \<le> 1"
      using assert_gate(1) [of D "file" ?i] gate_passed_iff [of D "file" ?i] ledger sheet by auto
    with ties show ?thesis unfolding built Inr by simp
  qed
qed

end

end
