(* ===== verification/StatementGuarantees.thy ===== *)
theory StatementGuarantees
  imports StatementBalance
begin

text \<open>
  The properties of the statement builder and its gate: what the gate lets through, which ledgers
  it lets through, which entries the taxonomy misplaces, how the two statements articulate, and how
  account names are classified.
\<close>

section \<open>Classification\<close>

lemma find_sorted_least:
  assumes "sorted (map f xs)" and "find P xs = Some x"
  shows "x \<in> set xs \<and> P x \<and> (\<forall>y\<in>set xs. P y \<longrightarrow> f x \<le> (f y :: 'b :: linorder))"
  using assms by (induction xs) (auto split: if_splits)

text \<open>
  A compound phrase found in the name is the longest of those the name contains, whatever their
  order in the table.
\<close>

theorem compound_longest_match:
  assumes "rule_match SORTED_COMPOUND_OVERRIDES lower = Some (phrase, t)"
  shows "(phrase, t) \<in> set COMPOUND_OVERRIDES \<and> js_includes lower phrase
    \<and> (\<forall>(p, u) \<in> set COMPOUND_OVERRIDES. js_includes lower p \<longrightarrow> length p \<le> length phrase)"
  using find_sorted_least [of "\<lambda>r. - int (length (fst r))" SORTED_COMPOUND_OVERRIDES "\<lambda>r. js_includes lower (fst r)"
      "(phrase, t)"] assms
  by (auto simp: rule_match_def SORTED_COMPOUND_OVERRIDES_def)

lemma demo_compound:
  "rule_match SORTED_COMPOUND_OVERRIDES ''income tax expense payable'' = Some (''income tax expense'', EXPENSE)"
  by code_simp

theorem compound_longest_match_witness:
  "(''income tax expense'', EXPENSE) \<in> set COMPOUND_OVERRIDES \<and> js_includes ''income tax expense payable'' ''income tax expense''"
  using compound_longest_match [OF demo_compound] by blast

section \<open>The gate\<close>

lemma dec_search_result:
  "dec_search ks x n = (s, e) \<Longrightarrow> rnd_rat (of_int s * 10 powi e) = x
     \<or> s = round_even (x / 10 powi (n - 17)) \<and> e = n - 17"
  by (induction ks) (auto simp: dec_cand_rounds split: option.splits)

lemma dec_val_pos: "0 < x \<Longrightarrow> \<exists>s e. shortest x = (s, e) \<and> dec_val x = of_int s * 10 powi e"
  using strip_zeros_value
  by (cases "shortest x") (auto simp: dec_val_def dec_digits_def split: prod.splits)

lemma rnd_cent: "rnd_rat (1 / 100) \<le> 1 / 100 + 1 / 100 / 2 ^ 53"
proof -
  have "\<bar>rnd_rat (1 / 100) - 1 / 100\<bar> \<le> \<bar>1 / 100\<bar> / 2 ^ 53"
    by (rule rnd_rat_rel_error) (simp add: frac_le)
  then have "rnd_rat (1 / 100) - 1 / 100 \<le> \<bar>1 / 100\<bar> / 2 ^ 53" by (rule abs_le_D1)
  then show ?thesis by simp
qed

lemma below_cent:
  assumes "0 < x" and "x \<le> rnd_rat (1 / 100)"
  shows "dec_val x < 1 / 50"
proof -
  obtain s e where sh: "shortest x = (s, e)" and val: "dec_val x = of_int s * 10 powi e"
    using dec_val_pos [OF assms(1)] by blast
  let ?y = "of_int s * 10 powi e :: rat" and ?n = "ilog 10 x + 1"
  have x: "x \<le> 1 / 100 + 1 / 100 / 2 ^ 53" using assms(2) rnd_cent by (rule order_trans)
  consider "rnd_rat ?y = x" | "s = round_even (x / 10 powi (?n - 17))" "e = ?n - 17"
    using dec_search_result sh unfolding shortest_def by blast
  then show ?thesis
  proof cases
    case 1
    show ?thesis
    proof (cases "1 / 2 ^ 1022 \<le> \<bar>?y\<bar>")
      case True
      from rnd_rat_rel_error [OF this] 1 have "\<bar>x - ?y\<bar> \<le> \<bar>?y\<bar> / 2 ^ 53" by (simp only:)
      then have "- (x - ?y) \<le> \<bar>?y\<bar> / 2 ^ 53" by (rule abs_le_D2)
      then have "?y \<le> x + \<bar>?y\<bar> / 2 ^ 53" by linarith
      with x show ?thesis unfolding val by (cases "0 \<le> ?y") (simp_all add: abs_if split: if_splits)
    next
      case False
      have "(1 / 2 ^ 1022 :: rat) < 1 / 50" by (simp add: frac_less2)
      with False show ?thesis unfolding val by linarith
    qed
  next
    case 2
    let ?g = "10 powi (?n - 17) :: rat"
    have "?g \<le> 10 powi (?n - 1)" by (rule power_int_increasing) auto
    also have "\<dots> \<le> x" using ilog_bounds(1) [OF assms(1), of 10] by simp
    finally have g: "?g \<le> x" .
    have "of_int s - x / ?g \<le> 1 / 2"
      unfolding 2(1) by (rule abs_le_D1 [OF round_even_error])
    then have "of_int s \<le> x / ?g + 1 / 2" by linarith
    then have "of_int s * ?g \<le> (x / ?g + 1 / 2) * ?g" by (intro mult_right_mono) auto
    also have "\<dots> = x + ?g / 2" by (simp add: distrib_right)
    finally have "?y \<le> x + x / 2" using g 2(2) by simp
    with x show ?thesis unfolding val by simp
  qed
qed

lemma finite_or_finite: "is_finite d \<Longrightarrow> is_finite (finite_or j d)"
  by (auto simp: finite_or_def split: option.split json.split)

lemma cent_finite: "to_num (1 / 100) = Fin (rnd_rat (1 / 100))"
  using to_num_cents [of 1] by (simp add: money_def)

lemma rules_finite:
  "is_finite (fr_roundingTolerance (getFinancialRules f))" "is_finite (fr_defaultThreshold (getFinancialRules f))"
  by (auto simp: getFinancialRules_def default_rules_def DEFAULT_ROUNDING_TOLERANCE_def
      DEFAULT_MATERIALITY_THRESHOLD_def cent_finite Let_def finite_or_finite split: rules_file.split)

lemma tolerance_capped:
  "\<exists>x. getToleranceForGate (getFinancialRules f) = Fin x \<and> x \<le> rnd_rat (1 / 100)"
proof -
  have "\<exists>x. num_min n MAX_ROUNDING_TOLERANCE = Fin x \<and> x \<le> rnd_rat (1 / 100)" if "is_finite n" for n
    using that by (cases n) (auto simp: num_min_def MAX_ROUNDING_TOLERANCE_def cent_finite)
  then show ?thesis using rules_finite by (auto simp: getToleranceForGate_def Let_def)
qed

lemma dec_search_nonneg: "0 < x \<Longrightarrow> dec_search ks x n = (s, e) \<Longrightarrow> 0 \<le> s"
proof (induction ks)
  case Nil
  have "0 \<le> x / 10 powi (n - 17)" using Nil(1) by simp
  then have "0 \<le> \<lfloor>x / 10 powi (n - 17)\<rfloor>" by simp
  with Nil(2) show ?case by (auto simp: round_even_def Let_def split: if_splits)
next
  case (Cons k ks)
  have "0 \<le> \<lfloor>x / 10 powi (n - int k)\<rfloor>" using Cons.prems(1) by simp
  with Cons dec_cand_near [of x "n - int k"] show ?case by (auto split: option.splits)
qed

lemma dec_val_nonpos:
  assumes "x \<le> 0"
  shows "dec_val x \<le> 0"
proof (cases "x = 0")
  case False
  with assms have x: "0 < - x" by simp
  from dec_val_pos [OF x] dec_search_nonneg [OF x] have "0 \<le> dec_val (- x)"
    by (auto simp: shortest_def)
  then show ?thesis by (simp add: dec_val_minus)
qed simp

context decimal_js
begin

lemma within_cap:
  assumes "in_cents a" and "in_cents b" and "\<not> exceeds D a b (getToleranceForGate (getFinancialRules f))"
  shows "\<bar>cents_of a - cents_of b\<bar> \<le> 1"
proof -
  obtain x where x: "getToleranceForGate (getFinancialRules f) = Fin x" "x \<le> rnd_rat (1 / 100)"
    using tolerance_capped by blast
  have "money \<bar>cents_of a - cents_of b\<bar> \<le> dec_val x"
    using holds_gap [OF assms(1,2)] assms(3) of_num [of x]
    by (simp add: exceeds_def holds_def greaterThan x(1) not_less)
  moreover have "dec_val x < 1 / 50"
    using below_cent [of x] dec_val_nonpos [of x] x(2) by (cases "0 < x") auto
  ultimately have "money \<bar>cents_of a - cents_of b\<bar> < money 2" by (simp add: money_def)
  then show ?thesis by (simp add: money_def)
qed

end

text \<open>
  C32. Whatever the rules file says, the gate without an explicit tolerance lets nothing through that
  is off by more than one cent: neither the ledger nor the balance sheet.
\<close>

theorem gate_cap:
  assumes "decimal_js D fin v" and "list_all in_cents [d, c, a, l, e]" and "\<bar>cents_of l + cents_of e\<bar> < 10 ^ 15"
    and "gr_passed (runIntegrityGate D file \<lparr>gi_trialBalance = GateTotals d c,
           gi_balanceSheet = \<lparr>gb_totalAssets = a, gb_totalLiabilities = l, gb_totalEquity = e\<rparr>, gi_tolerance = None\<rparr>)"
  shows "\<bar>cents_of d - cents_of c\<bar> \<le> 1 \<and> \<bar>cents_of a - (cents_of l + cents_of e)\<bar> \<le> 1"
  using decimal_js.within_cap [OF assms(1), of d c "file"]
    decimal_js.within_cap [OF assms(1), of a "cents_num (cents_of l + cents_of e)" "file"] assms(2-4)
  by (simp add: runIntegrityGate_def gate_tolerance_def Let_def js_or_def decimal_js.plus2_cents [OF assms(1)])

lemma default_tolerance: "getToleranceForGate (getFinancialRules RulesMissing) = cents_num 1"
  by (simp add: getFinancialRules_def default_rules_def getToleranceForGate_def or_empty_def json_prop_def
      DEFAULT_ROUNDING_TOLERANCE_def MAX_ROUNDING_TOLERANCE_def num_min_def cent_finite cents_num_def money_def)

theorem gate_cap_witness:
  "\<bar>cents_of (cents_num 120000) - cents_of (cents_num 120001)\<bar> \<le> 1
   \<and> \<bar>cents_of (cents_num 100000) - (cents_of (cents_num 30000) + cents_of (cents_num 70000))\<bar> \<le> 1"
proof (rule gate_cap [OF dec.decimal_js_axioms])
  let ?i = "\<lparr>gi_trialBalance = GateTotals (cents_num 120000) (cents_num 120001),
    gi_balanceSheet = \<lparr>gb_totalAssets = cents_num 100000, gb_totalLiabilities = cents_num 30000,
      gb_totalEquity = cents_num 70000\<rparr>, gi_tolerance = None\<rparr>"
  have "gate_tolerance RulesMissing ?i = cents_num 1" by (simp add: gate_tolerance_def js_or_def default_tolerance)
  then show "gr_passed (runIntegrityGate dec_model RulesMissing ?i)"
    using dec.gate_cents [of "cents_num 120000" "cents_num 120001" "cents_num 100000" "cents_num 30000"
        "cents_num 70000" RulesMissing ?i]
    by (simp add: gate_passed_iff)
qed simp_all

section \<open>Routing\<close>

text \<open>The taxonomy lines that the loop over the entries knows.\<close>

definition ROUTED_FS_LINES :: "string list" where
  "ROUTED_FS_LINES = OCI_FS_LINES @ DISCONTINUED_FS_LINES @ BS_CURRENT_ASSET_FS_LINES
     @ BS_NONCURRENT_ASSET_FS_LINES @ ''fs_asset'' # BS_CURRENT_LIAB_FS_LINES @ BS_NONCURRENT_LIAB_FS_LINES
     @ ''fs_liability'' # BS_EQUITY_FS_LINES @ [''fs_revenue'', ''fs_expense'']"

lemmas taxonomy_defs = ROUTED_FS_LINES_def OCI_FS_LINES_def DISCONTINUED_FS_LINES_def BS_CURRENT_ASSET_FS_LINES_def
  BS_NONCURRENT_ASSET_FS_LINES_def BS_CURRENT_LIAB_FS_LINES_def BS_NONCURRENT_LIAB_FS_LINES_def
  BS_EQUITY_FS_LINES_def CREDIT_POSITIVE_FS_LINES_def

lemma routed_lines:
  "list_all (\<lambda>l. well_routed (e\<lparr>te_fsLineId := Some l\<rparr>)
       \<longleftrightarrow> l \<notin> {''fs_oci_pension'', ''fs_discontinued_ops'', ''fs_discontinued_disposal''}) ROUTED_FS_LINES"
  by (simp add: taxonomy_defs well_routed_def statement_side_def bs_bucket_def fs_in_def credit_positive_def)

text \<open>
  Of the lines of the taxonomy that the balance sheet routes, exactly three are placed against
  their sign: the pension component of other comprehensive income, which is shown debit-positive in a
  credit-positive section, and the two lines of discontinued operations, which are in no section.
\<close>

theorem taxonomy_signs:
  assumes "te_fsLineId e = Some l" and "l \<in> set ROUTED_FS_LINES"
  shows "well_routed e \<longleftrightarrow> l \<notin> {''fs_oci_pension'', ''fs_discontinued_ops'', ''fs_discontinued_disposal''}"
proof -
  have "e\<lparr>te_fsLineId := Some l\<rparr> = e" using assms(1) by (cases e) simp
  with bspec [OF routed_lines [of e, unfolded list_all_iff] assms(2)] show ?thesis by (simp only:)
qed

definition demo_entry :: "string \<Rightarrow> int \<Rightarrow> int \<Rightarrow> string option \<Rightarrow> string option \<Rightarrow> TrialBalanceEntry" where
  "demo_entry name d c t l =
     \<lparr>te_lineId = None, te_accountCode = None, te_accountName = name, te_debit = cents_num d,
      te_credit = cents_num c, te_accountType = t, te_fsLineId = l, te_fsLineCode = None,
      te_codificationRef = None, te_sourceDocumentId = None, te_sourceSheet = None, te_sourceRowIndex = None,
      te_sourceChunkId = None, te_classificationSource = None, te_classificationRationale = None\<rparr>"

lemma demo_entry_simps [simp]:
  "te_accountName (demo_entry name d c t l) = name" "te_accountType (demo_entry name d c t l) = t"
  "te_fsLineId (demo_entry name d c t l) = l" "te_debit (demo_entry name d c t l) = cents_num d"
  "te_credit (demo_entry name d c t l) = cents_num c"
  by (simp_all add: demo_entry_def)

theorem taxonomy_signs_witness:
  "well_routed (demo_entry ''Cash'' 5000 0 None (Some ''fs_asset_cash''))
   \<and> \<not> well_routed (demo_entry ''Pension gain'' 0 5000 None (Some ''fs_oci_pension''))"
  using taxonomy_signs [of "demo_entry ''Cash'' 5000 0 None (Some ''fs_asset_cash'')" "''fs_asset_cash''"]
    taxonomy_signs [of "demo_entry ''Pension gain'' 0 5000 None (Some ''fs_oci_pension'')" "''fs_oci_pension''"]
  by (simp add: taxonomy_defs)

text \<open>Without a taxonomy line the account type alone decides.\<close>

lemma typed_routed:
  "te_fsLineId e = None \<Longrightarrow> well_routed e \<longleftrightarrow> list_ex (isType (te_accountType e)) ACCOUNT_TYPES"
  by (auto simp: well_routed_def statement_side_def bs_bucket_def fs_in_def credit_positive_def ACCOUNT_TYPES_def
      isType_def split: option.splits)

section \<open>Which ledgers have statements\<close>

lemma classify_entry_simps [simp]:
  "te_debit (classify_entry e) = te_debit e" "te_credit (classify_entry e) = te_credit e"
  "te_fsLineId (classify_entry e) = te_fsLineId e" "te_accountName (classify_entry e) = te_accountName e"
  "te_accountType (classify_entry e)
     = (if truthy (te_accountType e) then te_accountType e else Some (classifyAccountName (te_accountName e)))"
  by (simp_all add: classify_entry_def Let_def classifyAccountName_def split: prod.split)

text \<open>
  The totals of the trial balance are those of its entries, the ledger balances, and the tolerance is
  at most one cent.
\<close>

definition balanced_ledger :: "rules_file \<Rightarrow> StatementOptions \<Rightarrow> TrialBalance \<Rightarrow> TrialBalanceEntry list \<Rightarrow> int \<Rightarrow> bool" where
  "balanced_ledger file options tb es t \<longleftrightarrow>
     entries_in_cents es \<and> in_cents (tr_totalDebits tb) \<and> in_cents (tr_totalCredits tb)
     \<and> cents_of (tr_totalDebits tb) = (\<Sum>e\<leftarrow>es. cents_of (te_debit e))
     \<and> cents_of (tr_totalCredits tb) = (\<Sum>e\<leftarrow>es. cents_of (te_credit e))
     \<and> (\<Sum>e\<leftarrow>es. cents_of (te_debit e)) = (\<Sum>e\<leftarrow>es. cents_of (te_credit e))
     \<and> js_or (so_tolerance options) (getToleranceForGate (getFinancialRules file)) = cents_num t
     \<and> 0 \<le> t \<and> t \<le> 1"

lemma balanced_net: "balanced_ledger file options tb es t \<Longrightarrow> (\<Sum>e\<leftarrow>es. net_cents e) = 0"
  by (simp add: balanced_ledger_def net_cents_def sum_list_subtractf)

lemma balanced_cases:
  assumes "decimal_js D fin v" and "balanced_ledger file options tb (classified_entries options tb) t"
  shows "case buildValidatedStatements D file options tb of
      Inl err \<Rightarrow> mi_check err = CHR ''B'' \<and> 1 < \<bar>\<Sum>e\<leftarrow>classified_entries options tb. misposted e\<bar>
    | Inr st \<Rightarrow> \<bar>\<Sum>e\<leftarrow>classified_entries options tb. misposted e\<bar> \<le> 1
        \<and> va_balanceSheet st = buildBalanceSheet D file (so_materiality options) (classified_entries options tb)
        \<and> va_profitAndLoss st = buildProfitAndLoss D (classified_entries options tb)
        \<and> va_classifiedEntries st = classified_entries options tb
        \<and> cents_of (fp_totalAssets (va_balanceSheet st))
            = cents_of (fp_totalLiabilities (va_balanceSheet st)) + cents_of (fp_totalEquity (va_balanceSheet st))"
  using decimal_js.validated_cases [OF assms(1), of options tb "file" t] assms(2) balanced_net [OF assms(2)]
    imbalance_ledger [of "classified_entries options tb"]
  by (auto simp: balanced_ledger_def split: sum.splits if_splits)

text \<open>
  C30. A balanced ledger whose entries are all routed to the side of their sign has statements: the
  gate passes, assets equal liabilities plus equity to the cent, and no rounding line is needed.
\<close>

theorem routed_statements_balance:
  assumes "decimal_js D fin v" and "balanced_ledger file options tb (classified_entries options tb) t"
    and "list_all well_routed (classified_entries options tb)"
  shows "\<exists>st. buildValidatedStatements D file options tb = Inr st
     \<and> cents_of (fp_totalAssets (va_balanceSheet st))
         = cents_of (fp_totalLiabilities (va_balanceSheet st)) + cents_of (fp_totalEquity (va_balanceSheet st))
     \<and> fp_equity (va_balanceSheet st) = bs_lines D (classified_entries options tb) Equity"
proof -
  let ?es = "classified_entries options tb"
  have zero: "(\<Sum>e\<leftarrow>?es. misposted e) = 0"
    using assms(3) misposted_zero by (simp add: list_all_iff cong: map_cong)
  have "imbalance ?es = 0"
    using imbalance_ledger [of ?es] zero balanced_net [OF assms(2)] by simp
  then have "bs_difference D ?es = Fin 0"
    using decimal_js.bs_total_equity_cents(3) [OF assms(1), of ?es] assms(2) by (simp add: balanced_ledger_def)
  then have "fp_equity (buildBalanceSheet D file m ?es) = bs_lines D ?es Equity" for m
    by (simp add: buildBalanceSheet_def Let_def bs_adjusted_def)
  with balanced_cases [OF assms(1,2)] zero show ?thesis by (auto split: sum.splits)
qed

lemma pension_misposted:
  assumes "te_fsLineId e = Some ''fs_oci_pension''"
  shows "misposted e = 2 * net_cents e" and "\<not> well_routed e" and "\<not> fs_in e DISCONTINUED_FS_LINES"
  using assms by (simp_all add: misposted_def well_routed_def statement_side_def bs_bucket_def line_cents_def
      credit_positive_def fs_in_def OCI_FS_LINES_def CREDIT_POSITIVE_FS_LINES_def DISCONTINUED_FS_LINES_def)

lemma discontinued_misposted:
  assumes "fs_in e DISCONTINUED_FS_LINES"
  shows "misposted e = net_cents e" and "\<not> well_routed e"
proof -
  have "te_fsLineId e = Some ''fs_discontinued_ops'' \<or> te_fsLineId e = Some ''fs_discontinued_disposal''"
    using assms by (auto simp: fs_in_def DISCONTINUED_FS_LINES_def split: option.splits)
  then have "\<not> fs_in e OCI_FS_LINES"
    by (elim disjE) (simp_all add: fs_in_def OCI_FS_LINES_def)
  with assms have "statement_side e = 0" by (simp add: statement_side_def bs_bucket_def)
  then show "misposted e = net_cents e" and "\<not> well_routed e"
    by (simp_all add: misposted_def well_routed_def)
qed

lemma sum_misposted:
  assumes "\<forall>e\<in>set es. well_routed e \<or> te_fsLineId e = Some ''fs_oci_pension'' \<or> fs_in e DISCONTINUED_FS_LINES"
  shows "(\<Sum>e\<leftarrow>es. misposted e)
    = 2 * (\<Sum>e\<leftarrow>filter (\<lambda>e. te_fsLineId e = Some ''fs_oci_pension'') es. net_cents e)
      + (\<Sum>e\<leftarrow>filter (\<lambda>e. fs_in e DISCONTINUED_FS_LINES) es. net_cents e)"
  using assms
proof (induction es)
  case (Cons e es)
  then show ?case
    using pension_misposted [of e] discontinued_misposted [of e] misposted_zero [of e]
    by (cases "te_fsLineId e = Some ''fs_oci_pension''"; cases "fs_in e DISCONTINUED_FS_LINES") auto
qed simp

text \<open>
  C31. A balanced ledger is refused, as an imbalance of the balance sheet, when its only entries off
  their side are pension components and discontinued operations and these do not cancel: twice the
  pension components plus the discontinued operations are what the statements lose.
\<close>

theorem misrouted_statements_refused:
  assumes "decimal_js D fin v" and "balanced_ledger file options tb (classified_entries options tb) t"
    and "\<forall>e\<in>set (classified_entries options tb). well_routed e
           \<or> te_fsLineId e = Some ''fs_oci_pension'' \<or> fs_in e DISCONTINUED_FS_LINES"
    and "1 < \<bar>2 * (\<Sum>e\<leftarrow>filter (\<lambda>e. te_fsLineId e = Some ''fs_oci_pension'') (classified_entries options tb). net_cents e)
           + (\<Sum>e\<leftarrow>filter (\<lambda>e. fs_in e DISCONTINUED_FS_LINES) (classified_entries options tb). net_cents e)\<bar>"
  shows "\<exists>err. buildValidatedStatements D file options tb = Inl err \<and> mi_check err = CHR ''B''"
  using balanced_cases [OF assms(1,2)] sum_misposted [OF assms(3)] assms(4) by (auto split: sum.splits)

definition demo_books :: "TrialBalanceEntry list" where
  "demo_books = [demo_entry ''Cash at bank'' 100000 0 None None, demo_entry ''Accounts Payable'' 0 30000 None None,
     demo_entry ''Consulting Revenue'' 0 90000 None None, demo_entry ''Rent Expense'' 20000 0 None None]"

definition demo_ledger_of :: "TrialBalanceEntry list \<Rightarrow> TrialBalance" where
  "demo_ledger_of es =
     \<lparr>tr_entries = es, tr_totalDebits = cents_num (\<Sum>e\<leftarrow>es. cents_of (te_debit e)),
      tr_totalCredits = cents_num (\<Sum>e\<leftarrow>es. cents_of (te_credit e)), tr_balances = True\<rparr>"

lemma demo_types:
  "classifyAccountName ''Cash at bank'' = ASSET" "classifyAccountName ''Accounts Payable'' = LIABILITY"
  "classifyAccountName ''Consulting Revenue'' = REVENUE" "classifyAccountName ''Rent Expense'' = EXPENSE"
  by code_simp+

lemma no_options_classified [simp]: "classified_entries no_options tb = map classify_entry (tr_entries tb)"
  by (simp add: classified_entries_def no_options_def classifyTrialBalanceDeterministic_def)

lemma no_options_tolerance: "so_tolerance no_options = None"
  by (simp add: no_options_def)

lemma demo_balanced:
  "balanced_ledger RulesMissing no_options (demo_ledger_of demo_books) (map classify_entry demo_books) 1"
  by (simp add: balanced_ledger_def demo_ledger_of_def demo_books_def entries_in_cents_def volume_def
      no_options_tolerance js_or_def default_tolerance)

lemma demo_routed: "list_all well_routed (map classify_entry demo_books)"
  by (simp add: demo_books_def typed_routed demo_types ACCOUNT_TYPES_def isType_def) code_simp

theorem routed_statements_balance_witness:
  "\<exists>st. buildValidatedStatements dec_model RulesMissing no_options (demo_ledger_of demo_books) = Inr st
     \<and> cents_of (fp_totalAssets (va_balanceSheet st))
         = cents_of (fp_totalLiabilities (va_balanceSheet st)) + cents_of (fp_totalEquity (va_balanceSheet st))"
  using routed_statements_balance [OF dec.decimal_js_axioms, of RulesMissing no_options "demo_ledger_of demo_books" 1]
    demo_balanced demo_routed
  by (auto simp: demo_ledger_of_def)

definition demo_pension :: "TrialBalanceEntry list" where
  "demo_pension = demo_entry ''Plan assets'' 5000 0 (Some ASSET) None
     # demo_entry ''Pension remeasurement'' 0 5000 None (Some ''fs_oci_pension'') # demo_books"

lemma demo_plan_routed: "well_routed (classify_entry (demo_entry ''Plan assets'' 5000 0 (Some ASSET) None))"
  by (simp add: typed_routed ACCOUNT_TYPES_def isType_def) code_simp

theorem misrouted_statements_refused_witness:
  "\<exists>err. buildValidatedStatements dec_model RulesMissing no_options (demo_ledger_of demo_pension) = Inl err
     \<and> mi_check err = CHR ''B''"
proof (rule misrouted_statements_refused [OF dec.decimal_js_axioms])
  show "balanced_ledger RulesMissing no_options (demo_ledger_of demo_pension)
      (classified_entries no_options (demo_ledger_of demo_pension)) 1"
    by (simp add: balanced_ledger_def demo_ledger_of_def demo_pension_def demo_books_def entries_in_cents_def
        volume_def no_options_tolerance js_or_def default_tolerance)
  show "\<forall>e\<in>set (classified_entries no_options (demo_ledger_of demo_pension)). well_routed e
      \<or> te_fsLineId e = Some ''fs_oci_pension'' \<or> fs_in e DISCONTINUED_FS_LINES"
    using demo_routed demo_plan_routed
    by (auto simp: demo_ledger_of_def demo_pension_def list_all_iff)
  show "1 < \<bar>2 * (\<Sum>e\<leftarrow>filter (\<lambda>e. te_fsLineId e = Some ''fs_oci_pension'')
        (classified_entries no_options (demo_ledger_of demo_pension)). net_cents e)
      + (\<Sum>e\<leftarrow>filter (\<lambda>e. fs_in e DISCONTINUED_FS_LINES)
        (classified_entries no_options (demo_ledger_of demo_pension)). net_cents e)\<bar>"
    by (simp add: demo_ledger_of_def demo_pension_def demo_books_def net_cents_def fs_in_def
        DISCONTINUED_FS_LINES_def)
qed

end
