(* ===== verification/StatementFlows.thy ===== *)
theory StatementFlows
  imports FinancialStatements CrossStatement
begin

text \<open>
  The statements derived from two trial balances: \<open>src/src/services/cashFlow.ts\<close>,
  \<open>src/src/services/equityChanges.ts\<close> and \<open>src/src/services/quality_checks.ts\<close>.

  A regular expression of the source is the list of its alternatives, each a sequence of literal
  texts, \<open>.\<close> and \<open>.*\<close>; the flag i is the search in the lower-case text.
\<close>

section \<open>Regular expressions\<close>

datatype pattern_item = Lit string | Dot | DotStar

definition line_end :: "char \<Rightarrow> bool" where
  "line_end c \<longleftrightarrow> c = CHR 0x0A \<or> c = CHR 0x0D"

fun match_here :: "pattern_item list \<Rightarrow> string \<Rightarrow> bool" where
  "match_here [] s = True"
| "match_here (Lit l # ps) s = (js_startsWith s l \<and> match_here ps (drop (length l) s))"
| "match_here (Dot # ps) [] = False"
| "match_here (Dot # ps) (c # s) = (\<not> line_end c \<and> match_here ps s)"
| "match_here (DotStar # ps) [] = match_here ps []"
| "match_here (DotStar # ps) (c # s) =
     (match_here ps (c # s) \<or> (\<not> line_end c \<and> match_here (DotStar # ps) s))"

fun match_from :: "pattern_item list \<Rightarrow> string \<Rightarrow> bool" where
  "match_from p [] = match_here p []"
| "match_from p (c # s) = (match_here p (c # s) \<or> match_from p s)"

definition regex_test :: "pattern_item list list \<Rightarrow> string \<Rightarrow> bool" where
  "regex_test alternatives s = list_ex (\<lambda>p. match_from p (js_toLowerCase s)) alternatives"

definition words_pattern :: "string list \<Rightarrow> pattern_item list list" where
  "words_pattern ws = map (\<lambda>w. [Lit w]) ws"

definition cash_pattern :: "pattern_item list list" where
  "cash_pattern = words_pattern [''cash'', ''bank'']"

definition depreciation_pattern :: "pattern_item list list" where
  "depreciation_pattern = words_pattern [''depreciation'', ''amort'']"

definition deferred_tax_pattern :: "pattern_item list list" where
  "deferred_tax_pattern = words_pattern [''deferred tax'', ''dta'', ''dtl'', ''tax asset'', ''tax liability'']"

definition fx_pattern :: "pattern_item list list" where
  "fx_pattern = words_pattern [''foreign exchange'', ''fx'', ''currency'', ''translation'']
     @ [[Lit ''unrealized'', DotStar, Lit ''gain''], [Lit ''unrealized'', DotStar, Lit ''loss'']]"

definition sbc_pattern :: "pattern_item list list" where
  "sbc_pattern = [[Lit ''stock'', Dot, Lit ''comp''], [Lit ''option''], [Lit ''rsu''], [Lit ''restricted stock''],
     [Lit ''sbc''], [Lit ''share'', Dot, Lit ''based'']]"

definition ppe_pattern :: "pattern_item list list" where
  "ppe_pattern = words_pattern [''property'', ''plant'', ''equipment'', ''fixed asset'']"

definition debt_pattern :: "pattern_item list list" where
  "debt_pattern = words_pattern [''loan'', ''note'', ''debt'', ''credit line'', ''mortgage'']"

definition equity_pattern :: "pattern_item list list" where
  "equity_pattern = words_pattern [''equity'', ''capital'', ''contribution'', ''share'']"

definition credit_normal_pattern :: "pattern_item list list" where
  "credit_normal_pattern = words_pattern [''payable'', ''liabilit'', ''debt'', ''loan'', ''mortgage'', ''equity'',
     ''capital'', ''retained earnings'', ''revenue'', ''unearned'']"

section \<open>cashFlow.ts\<close>

datatype CashFlowClass = CfOperating | CfInvesting | CfFinancing | CfNotApplicable

datatype NormalBalance = DebitBalance | CreditBalance

record CashFlow = CashFlowStatement +
  cf_note :: string

definition credit_normal :: "NormalBalance option \<Rightarrow> TrialBalanceEntry \<Rightarrow> bool" where
  "credit_normal fallback e \<longleftrightarrow>
     te_accountType e \<in> {Some LIABILITY, Some EQUITY, Some REVENUE}
     \<or> te_accountType e = None \<and> fallback = Some CreditBalance
     \<or> te_accountType e = None \<and> fallback = None \<and> regex_test credit_normal_pattern (te_accountName e)"

definition normalizeNet :: "'d decimal_ops \<Rightarrow> NormalBalance option \<Rightarrow> TrialBalanceEntry \<Rightarrow> number" where
  "normalizeNet D fallback e =
     (let net = minus2 D (te_debit e) (te_credit e)
      in if credit_normal fallback e then rounded2 D (num_neg net) else net)"

definition getNetAmount ::
  "'d decimal_ops \<Rightarrow> TrialBalanceEntry list \<Rightarrow> pattern_item list list \<Rightarrow> NormalBalance option \<Rightarrow> number option" where
  "getNetAmount D entries re fallback =
     (let found = filter (\<lambda>e. regex_test re (te_accountName e)) entries
      in if found = [] then None else Some (sumRound2 D (map (normalizeNet D fallback) found)))"

definition deltaByRegex ::
  "'d decimal_ops \<Rightarrow> TrialBalanceEntry list \<Rightarrow> TrialBalanceEntry list \<Rightarrow> pattern_item list list
     \<Rightarrow> NormalBalance option \<Rightarrow> number" where
  "deltaByRegex D prior current re fallback =
     minus2 D (js_or (getNetAmount D current re fallback) (Fin 0)) (js_or (getNetAmount D prior re fallback) (Fin 0))"

definition sumPLExpense :: "'d decimal_ops \<Rightarrow> ProfitAndLoss \<Rightarrow> pattern_item list list \<Rightarrow> number" where
  "sumPLExpense D pl re = sumRound2 D (map fl_amount (filter (\<lambda>l. regex_test re (fl_label l)) (pl_expenses pl)))"

definition cf_line :: "string \<Rightarrow> number \<Rightarrow> StatementLine" where
  "cf_line label amount = \<lparr>li_label = label, li_amount = amount\<rparr>"

text \<open>A line that is pushed only when its amount is not zero.\<close>

definition nonzero_line :: "string \<Rightarrow> number \<Rightarrow> StatementLine list" where
  "nonzero_line label amount = (if num_eq amount (Fin 0) then [] else [cf_line label amount])"

definition entry_key :: "TrialBalanceEntry \<Rightarrow> string" where
  "entry_key e = js_or (te_accountCode e) (te_accountName e)"

text \<open>The movement of an account that the map classifies: its class, its key and its line.\<close>

definition explicit_movement ::
  "'d decimal_ops \<Rightarrow> (string \<Rightarrow> CashFlowClass option) \<Rightarrow> TrialBalanceEntry list \<Rightarrow> TrialBalanceEntry
     \<Rightarrow> (CashFlowClass \<times> string \<times> StatementLine) option" where
  "explicit_movement D classes prior e =
     (let key = entry_key e in
      case classes key of
        None \<Rightarrow> None
      | Some CfNotApplicable \<Rightarrow> None
      | Some c \<Rightarrow>
          let currentNet = normalizeNet D None e;
              priorNet = (case find (\<lambda>pe. entry_key pe = key) prior of
                Some pe \<Rightarrow> normalizeNet D None pe | None \<Rightarrow> Fin 0);
              delta = minus2 D currentNet priorNet
          in if num_eq delta (Fin 0) then None else Some (c, key, cf_line (te_accountName e) delta))"

definition explicit_movements ::
  "'d decimal_ops \<Rightarrow> (string \<Rightarrow> CashFlowClass option) option \<Rightarrow> TrialBalanceEntry list option
     \<Rightarrow> TrialBalanceEntry list \<Rightarrow> (CashFlowClass \<times> string \<times> StatementLine) list" where
  "explicit_movements D classes prior entries =
     (case (classes, prior) of
        (Some cm, Some pes) \<Rightarrow> List.map_filter (explicit_movement D cm pes) entries
      | _ \<Rightarrow> [])"

definition lines_of_class ::
  "CashFlowClass \<Rightarrow> (CashFlowClass \<times> string \<times> StatementLine) list \<Rightarrow> StatementLine list" where
  "lines_of_class c ms = map (\<lambda>m. snd (snd m)) (filter (\<lambda>m. fst m = c) ms)"

text \<open>The operating section without the explicit lines.\<close>

definition operating_lines ::
  "'d decimal_ops \<Rightarrow> ProfitAndLoss \<Rightarrow> TrialBalanceEntry list option \<Rightarrow> TrialBalanceEntry list \<Rightarrow> StatementLine list" where
  "operating_lines D pl prior current =
     (let change = (\<lambda>re fallback. map_option (\<lambda>p. deltaByRegex D p current re fallback) prior);
          changeDeferredTax = change deferred_tax_pattern None;
          opt_line = (\<lambda>label x. case x of None \<Rightarrow> [] | Some n \<Rightarrow> [cf_line label n])
      in cf_line ''Net income'' (pl_netIncome pl)
         # nonzero_line ''Depreciation & amortization'' (sumPLExpense D pl depreciation_pattern)
         @ (case changeDeferredTax of None \<Rightarrow> []
            | Some n \<Rightarrow> if num_eq n (Fin 0) then []
                        else [cf_line ''Change in deferred tax (net)'' (rounded2 D (num_neg n))])
         @ nonzero_line ''Unrealized (gain)/loss on FX'' (sumPLExpense D pl fx_pattern)
         @ nonzero_line ''Stock-based compensation'' (sumPLExpense D pl sbc_pattern)
         @ opt_line ''Change in accounts receivable''
             (map_option num_neg (change (words_pattern [''receivable'']) (Some DebitBalance)))
         @ opt_line ''Change in inventory''
             (map_option num_neg (change (words_pattern [''inventory'']) (Some DebitBalance)))
         @ opt_line ''Change in accounts payable'' (change (words_pattern [''payable'']) (Some CreditBalance)))"

definition investing_lines ::
  "'d decimal_ops \<Rightarrow> TrialBalanceEntry list option \<Rightarrow> TrialBalanceEntry list \<Rightarrow> StatementLine list" where
  "investing_lines D prior current =
     (case prior of None \<Rightarrow> []
      | Some p \<Rightarrow>
          let changePPE = deltaByRegex D p current ppe_pattern (Some DebitBalance)
          in if num_eq changePPE (Fin 0) then []
             else [cf_line (if num_less (Fin 0) changePPE then ''Capital expenditures'' else ''Proceeds from asset sales'')
                     (num_neg changePPE)])"

definition financing_lines ::
  "'d decimal_ops \<Rightarrow> TrialBalanceEntry list option \<Rightarrow> TrialBalanceEntry list \<Rightarrow> StatementLine list" where
  "financing_lines D prior current =
     (case prior of None \<Rightarrow> []
      | Some p \<Rightarrow>
          let changeDebt = deltaByRegex D p current debt_pattern (Some CreditBalance);
              changeEquity = deltaByRegex D p current equity_pattern (Some CreditBalance)
          in nonzero_line (if num_less (Fin 0) changeDebt then ''Borrowings'' else ''Debt repayments'') changeDebt
             @ nonzero_line (if num_less (Fin 0) changeEquity then ''Equity issued'' else ''Distributions / buybacks'')
                 changeEquity)"

definition buildCashFlowStatement ::
  "'d decimal_ops \<Rightarrow> TrialBalanceEntry list \<Rightarrow> ProfitAndLoss \<Rightarrow> TrialBalanceEntry list option
     \<Rightarrow> (string \<Rightarrow> CashFlowClass option) option \<Rightarrow> CashFlow" where
  "buildCashFlowStatement D entries pl prior classes =
     (let endingCash = getNetAmount D entries cash_pattern (Some DebitBalance);
          beginningCash = (case prior of
            Some p \<Rightarrow> getNetAmount D p cash_pattern (Some DebitBalance) | None \<Rightarrow> Some (Fin 0));
          explicit = explicit_movements D classes prior entries;
          keys = map (\<lambda>m. fst (snd m)) explicit;
          filterExplicit = filter (\<lambda>e. entry_key e \<notin> set keys);
          current = filterExplicit entries;
          filteredPrior = map_option filterExplicit prior
      in \<lparr>cf_operating = operating_lines D pl filteredPrior current @ lines_of_class CfOperating explicit,
          cf_investing = investing_lines D filteredPrior current @ lines_of_class CfInvesting explicit,
          cf_financing = financing_lines D filteredPrior current @ lines_of_class CfFinancing explicit,
          cf_netChangeInCash = (case (beginningCash, endingCash) of
              (Some b, Some e) \<Rightarrow> minus2 D e b | _ \<Rightarrow> pl_netIncome pl),
          cf_beginningCash = beginningCash, cf_endingCash = endingCash, cf_estimated = (prior = None),
          cf_note = (if prior \<noteq> None
            then ''Indirect cash flow derived from trial balance changes; verify with detailed transaction data.''
            else ''Estimated from trial balance; provide beginning cash and detailed transactions for a full cash flow statement.'')\<rparr>)"

subsection \<open>From transactions\<close>

record CashTransaction =
  ct_amount :: number
  ct_description :: "string option"
  ct_category :: "CashFlowClass option"

definition transaction_lines :: "CashFlowClass \<Rightarrow> CashTransaction list \<Rightarrow> StatementLine list" where
  "transaction_lines c txs =
     map (\<lambda>tx. cf_line (js_or (ct_description tx) ''Transaction'') (ct_amount tx))
       (filter (\<lambda>tx. js_or (ct_category tx) CfOperating = c) txs)"

definition buildCashFlowFromTransactions :: "'d decimal_ops \<Rightarrow> CashTransaction list \<Rightarrow> CashFlow" where
  "buildCashFlowFromTransactions D transactions =
     (let operating = transaction_lines CfOperating transactions;
          investing = transaction_lines CfInvesting transactions;
          financing = transaction_lines CfFinancing transactions;
          missingCategory = length (filter (\<lambda>tx. ct_category tx = None) transactions);
          skippedNA = length (filter (\<lambda>tx. ct_category tx = Some CfNotApplicable) transactions);
          sum_of = (\<lambda>ls. sumRound2 D (map li_amount ls))
      in \<lparr>cf_operating = operating, cf_investing = investing, cf_financing = financing,
          cf_netChangeInCash = plus2 D (plus2 D (sum_of operating) (sum_of investing)) (sum_of financing),
          cf_beginningCash = None, cf_endingCash = None, cf_estimated = False,
          cf_note = ''Derived from transaction-level cash activity.''
            @ (if 0 < missingCategory
               then '' '' @ nat_string missingCategory @ '' transaction(s) were not classified and defaulted to Operating.''
               else [])
            @ (if 0 < skippedNA
               then '' '' @ nat_string skippedNA @ '' transaction(s) classified as not_applicable were excluded.''
               else [])\<rparr>)"

section \<open>equityChanges.ts\<close>

record EquityChanges = EquityChangesStatement +
  eq_estimated :: bool
  eq_note :: string

definition statement_line :: "FinancialStatementLine \<Rightarrow> StatementLine" where
  "statement_line l = cf_line (fl_label l) (fl_amount l)"

definition buildEquityChangesStatement ::
  "'d decimal_ops \<Rightarrow> FinancialPosition \<Rightarrow> FinancialPosition option \<Rightarrow> ProfitAndLoss option \<Rightarrow> EquityChanges" where
  "buildEquityChangesStatement D current prior profitAndLoss =
     (let openingEquity = map_option fp_totalEquity prior;
          closingEquity = fp_totalEquity current;
          netIncome = (case profitAndLoss of None \<Rightarrow> Fin 0 | Some pl \<Rightarrow> pl_netIncome pl);
          totalOci = (case fp_oci current of None \<Rightarrow> Fin 0 | Some (items, amount) \<Rightarrow> amount);
          ociChanges = (case fp_oci current of None \<Rightarrow> [] | Some (items, amount) \<Rightarrow> map statement_line items);
          knownChanges = (if num_eq totalOci (Fin 0) then netIncome else plus2 D netIncome totalOci);
          residual = (case openingEquity of None \<Rightarrow> []
            | Some opening \<Rightarrow>
                let r = minus2 D closingEquity (plus2 D opening knownChanges)
                in if d_greaterThan D (d_abs D (d_of_num D r)) (d_of_num D (to_num (1 / 100)))
                   then [cf_line ''Owner contributions / distributions (net)'' r] else [])
      in \<lparr>eq_openingEquity = openingEquity,
          eq_changes = (if profitAndLoss = None then [] else [cf_line ''Net income'' netIncome]) @ residual,
          eq_ociChanges = (if ociChanges = [] then None else Some ociChanges),
          eq_closingEquity = Some closingEquity, eq_estimated = (prior = None),
          eq_note = (if prior \<noteq> None
            then ''Equity changes estimated from net income and equity movement; reconcile with equity ledger for full roll-forward.''
            else ''Estimated from current balance sheet; provide prior period equity and transactions for full equity roll-forward.'')\<rparr>)"

section \<open>quality_checks.ts\<close>

datatype QualitySeverity = QInfo | QWarning | QCritical

record QualityCheck =
  qc_id :: string
  qc_severity :: QualitySeverity
  qc_title :: string
  qc_message :: string
  qc_metric :: "number option"

definition quality_check :: "string \<Rightarrow> QualitySeverity \<Rightarrow> string \<Rightarrow> string \<Rightarrow> number option \<Rightarrow> QualityCheck" where
  "quality_check i sev title message metric =
     \<lparr>qc_id = i, qc_severity = sev, qc_title = title, qc_message = message, qc_metric = metric\<rparr>"

text \<open>\<open>x ? a : b\<close> on a number.\<close>

definition num_truthy :: "number \<Rightarrow> bool" where
  "num_truthy n \<longleftrightarrow> n \<noteq> Fin 0 \<and> n \<noteq> NaN"

definition position_checks :: "FinancialPosition \<Rightarrow> QualityCheck list" where
  "position_checks bs =
     (if fp_balances bs then [] else [quality_check ''imbalance'' QCritical ''Balance Sheet Imbalance''
        ''Assets do not equal Liabilities + Equity. Re-check trial balance classification and totals.'' None])
     @ (if list_ex (\<lambda>a. regex_test cash_pattern (fl_label a)) (fp_assets bs) then []
        else [quality_check ''missing-cash'' QWarning ''Missing Cash Line''
          ''No cash or bank line detected in assets. Verify bank statements or cash accounts.'' None])"

definition margin_checks :: "'d decimal_ops \<Rightarrow> ProfitAndLoss \<Rightarrow> QualityCheck list" where
  "margin_checks D pl =
     (let netMargin = (if num_truthy (pl_totalRevenue pl)
            then d_toNumber D (d_dividedBy D (d_of_num D (pl_netIncome pl)) (d_of_num D (pl_totalRevenue pl)))
            else Fin 0)
      in if num_less (to_num (3 / 5)) netMargin \<or> num_less netMargin (to_num (- 1 / 5))
         then [quality_check ''abnormal-margin'' QWarning ''Abnormal Net Margin''
                 ''Net margin is unusually high or low; verify revenue and expense classification.'' (Some netMargin)]
         else [])"

definition cash_checks :: "'d decimal_ops \<Rightarrow> FinancialPosition \<Rightarrow> CashFlow \<Rightarrow> QualityCheck list" where
  "cash_checks D bs cf =
     (case (cf_beginningCash cf, cf_endingCash cf) of
        (Some beginning, Some ending) \<Rightarrow>
          let delta = gap D (minus2 D ending beginning) (cf_netChangeInCash cf);
              bsCash = map_option fl_amount (find (\<lambda>a. regex_test cash_pattern (fl_label a)) (fp_assets bs))
          in (if num_less (Fin 1) delta
              then [quality_check ''cashflow-recon'' QWarning ''Cash Flow Reconciliation''
                      ''Cash flow net change does not reconcile to beginning/ending cash.'' (Some delta)]
              else [])
             @ (case bsCash of None \<Rightarrow> []
                | Some c \<Rightarrow> if num_less (Fin 1) (gap D c ending)
                    then [quality_check ''cashflow-bs-cash'' QWarning ''Cash vs Balance Sheet''
                            ''Cash Flow ending cash does not match Balance Sheet cash line.'' (Some (minus2 D c ending))]
                    else [])
      | _ \<Rightarrow> [])"

definition evaluateQualityChecks ::
  "'d decimal_ops \<Rightarrow> FinancialPosition \<Rightarrow> ProfitAndLoss \<Rightarrow> CashFlow option \<Rightarrow> EquityChanges option \<Rightarrow> QualityCheck list" where
  "evaluateQualityChecks D bs pl cashFlow equityChanges =
     position_checks bs @ margin_checks D pl
     @ (if num_less (fp_totalEquity bs) (Fin 0)
        then [quality_check ''negative-equity'' QWarning ''Negative Equity''
                ''Equity is negative; review liabilities, accumulated losses, or shareholder balances.''
                (Some (fp_totalEquity bs))]
        else [])
     @ (case cashFlow of None \<Rightarrow> [] | Some cf \<Rightarrow> cash_checks D bs cf)
     @ (case equityChanges of None \<Rightarrow> []
        | Some eq \<Rightarrow>
            (case eq_closingEquity eq of None \<Rightarrow> []
             | Some closing \<Rightarrow>
                 let delta = gap D closing (fp_totalEquity bs)
                 in if num_less (Fin 1) delta
                    then [quality_check ''equity-rollforward'' QWarning ''Equity Rollforward Mismatch''
                            ''Equity changes closing balance does not match Balance Sheet equity.'' (Some delta)]
                    else []))"

end
