(* ===== verification/StatementArticulation.thy ===== *)
theory StatementArticulation
  imports StatementGuarantees StatementFlows
begin

text \<open>
  How the statements articulate: the income statement explains the part of equity that the balance
  sheet takes from revenue and expenses, and the statement of changes in equity rolls the opening
  equity forward to the closing equity.
\<close>

section \<open>The income statement in cents\<close>

text \<open>The amount of the line of an entry on the income statement, where interest expense is negative.\<close>

definition pl_cents :: "TrialBalanceEntry \<Rightarrow> int" where
  "pl_cents e = (if te_fsLineId e = Some ''fs_interest_expense'' then - line_cents e else line_cents e)"

definition pl_bucket_cents :: "TrialBalanceEntry list \<Rightarrow> PlBucket \<Rightarrow> int" where
  "pl_bucket_cents = group_total pl_bucket pl_cents"

text \<open>Net income: revenue less the expenses, with the signed other income.\<close>

definition result_cents :: "TrialBalanceEntry list \<Rightarrow> int" where
  "result_cents es =
     pl_bucket_cents es PlRevenue - pl_bucket_cents es PlCogs
     - (pl_bucket_cents es PlOperatingExpenses + pl_bucket_cents es PlExpenses)
     + pl_bucket_cents es PlOtherIncomeExpense - pl_bucket_cents es PlTaxExpense"

lemma pl_cents_abs [simp]: "\<bar>pl_cents e\<bar> = \<bar>net_cents e\<bar>"
  by (simp add: pl_cents_def)

lemma interest_bucket: "pl_bucket e = Some b \<Longrightarrow> b \<noteq> PlOtherIncomeExpense \<Longrightarrow> pl_cents e = line_cents e"
  by (auto simp: pl_cents_def pl_bucket_def fs_in_def OTHER_INCOME_FS_LINES_def DISCONTINUED_FS_LINES_def
      COGS_FS_LINES_def OPEX_FS_LINES_def)

lemma pl_weighted:
  assumes "entries_in_cents es" and "\<And>b. \<bar>w b\<bar> \<le> (1 :: int)"
  shows "\<bar>\<Sum>b\<leftarrow>[PlRevenue, PlCogs, PlOperatingExpenses, PlExpenses, PlOtherIncomeExpense, PlTaxExpense].
           w b * pl_bucket_cents es b\<bar> < 10 ^ 15"
  using weighted_sum_le [OF assms(2)] groups_small [OF assms(1) _ pl_cents_abs, of _ pl_bucket]
  unfolding pl_bucket_cents_def by (rule le_less_trans) simp

lemma pl_bounds:
  assumes "entries_in_cents es"
  shows "\<bar>pl_bucket_cents es b\<bar> < 10 ^ 15"
    and "\<bar>pl_bucket_cents es PlRevenue - pl_bucket_cents es PlCogs\<bar> < 10 ^ 15"
    and "\<bar>pl_bucket_cents es PlOperatingExpenses + pl_bucket_cents es PlExpenses\<bar> < 10 ^ 15"
    and "\<bar>pl_bucket_cents es PlRevenue - pl_bucket_cents es PlCogs
           - (pl_bucket_cents es PlOperatingExpenses + pl_bucket_cents es PlExpenses)\<bar> < 10 ^ 15"
    and "\<bar>pl_bucket_cents es PlRevenue - pl_bucket_cents es PlCogs
           - (pl_bucket_cents es PlOperatingExpenses + pl_bucket_cents es PlExpenses)
           + pl_bucket_cents es PlOtherIncomeExpense\<bar> < 10 ^ 15"
    and "\<bar>result_cents es\<bar> < 10 ^ 15"
proof -
  show "\<bar>pl_bucket_cents es b\<bar> < 10 ^ 15"
    using groups_small [OF assms, of "[b]" pl_cents pl_bucket] by (simp add: pl_bucket_cents_def)
  define w :: "PlBucket \<Rightarrow> int \<Rightarrow> int \<Rightarrow> int \<Rightarrow> int \<Rightarrow> int" where
    "w b r x i t = (case b of PlRevenue \<Rightarrow> r | PlCogs \<Rightarrow> - r | PlOperatingExpenses \<Rightarrow> x | PlExpenses \<Rightarrow> x
       | PlOtherIncomeExpense \<Rightarrow> i | PlTaxExpense \<Rightarrow> t | PlDiscontinued \<Rightarrow> 0)" for b r x i t
  have "\<bar>w b r x i t\<bar> \<le> 1" if "\<bar>r\<bar> \<le> 1" "\<bar>x\<bar> \<le> 1" "\<bar>i\<bar> \<le> 1" "\<bar>t\<bar> \<le> 1" for b r x i t
    using that by (simp add: w_def split: PlBucket.split)
  then have sum: "\<bar>r * (pl_bucket_cents es PlRevenue - pl_bucket_cents es PlCogs)
      + x * (pl_bucket_cents es PlOperatingExpenses + pl_bucket_cents es PlExpenses)
      + i * pl_bucket_cents es PlOtherIncomeExpense + t * pl_bucket_cents es PlTaxExpense\<bar> < 10 ^ 15"
    if "\<bar>r\<bar> \<le> 1" "\<bar>x\<bar> \<le> 1" "\<bar>i\<bar> \<le> 1" "\<bar>t\<bar> \<le> 1" for r x i t
    using pl_weighted [OF assms, of "\<lambda>b. w b r x i t"] that by (simp add: w_def algebra_simps)
  show "\<bar>pl_bucket_cents es PlRevenue - pl_bucket_cents es PlCogs\<bar> < 10 ^ 15"
    using sum [of 1 0 0 0] by simp
  show "\<bar>pl_bucket_cents es PlOperatingExpenses + pl_bucket_cents es PlExpenses\<bar> < 10 ^ 15"
    using sum [of 0 1 0 0] by simp
  show "\<bar>pl_bucket_cents es PlRevenue - pl_bucket_cents es PlCogs
      - (pl_bucket_cents es PlOperatingExpenses + pl_bucket_cents es PlExpenses)\<bar> < 10 ^ 15"
    using sum [of 1 "-1" 0 0] by simp
  show "\<bar>pl_bucket_cents es PlRevenue - pl_bucket_cents es PlCogs
      - (pl_bucket_cents es PlOperatingExpenses + pl_bucket_cents es PlExpenses)
      + pl_bucket_cents es PlOtherIncomeExpense\<bar> < 10 ^ 15"
    using sum [of 1 "-1" 1 0] by simp
  show "\<bar>result_cents es\<bar> < 10 ^ 15"
    using sum [of 1 "-1" 1 "-1"] by (simp add: result_cents_def)
qed

context decimal_js
begin

lemma pl_total_cents:
  assumes "entries_in_cents es"
  shows "pl_total D es b = cents_num (pl_bucket_cents es b)"
proof -
  let ?es = "bucketPlByFsLine es b"
  have in_bucket: "e \<in> set es \<and> pl_bucket e = Some b" if "e \<in> set ?es" for e
    using that by (simp add: bucketPlByFsLine_def)
  have amount: "fl_amount (toLine D e) = cents_num (line_cents e)" if "e \<in> set es" for e
    using netAmount_cents [OF assms that] by (simp add: toLine_def)
  have small: "\<bar>line_cents e\<bar> < 10 ^ 15" if "e \<in> set es" for e
    using entry_small(3) [OF assms that] by simp
  have "fl_amount ((if b = PlOtherIncomeExpense then other_line D else toLine D) e) = cents_num (pl_cents e)"
    if "e \<in> set ?es" for e
    using in_bucket [OF that] amount small interest_bucket [of e b]
    by (auto simp: other_line_def negated_def pl_cents_def num_neg_cents rounded2_cents)
  then have "map fl_amount (pl_lines D es b) = map cents_num (map pl_cents ?es)"
    by (simp add: pl_lines_def)
  moreover have "(\<Sum>c\<leftarrow>map pl_cents ?es. \<bar>c\<bar>) < 10 ^ 15"
  proof -
    have "(\<Sum>c\<leftarrow>map pl_cents ?es. \<bar>c\<bar>) = (\<Sum>e\<leftarrow>?es. \<bar>net_cents e\<bar>)" by (simp add: comp_def)
    also have "\<dots> \<le> volume ?es" by (rule net_volume)
    also have "\<dots> \<le> volume es" unfolding bucketPlByFsLine_def by (rule volume_filter)
    finally show ?thesis using assms by (simp add: entries_in_cents_def)
  qed
  ultimately show ?thesis
    using sum_cents_num [of "map pl_cents ?es"]
    by (simp only: pl_total_def sumLines_def pl_bucket_cents_def group_total_def bucketPlByFsLine_def)
qed

lemma net_income_cents:
  assumes "entries_in_cents es"
  shows "net_income D es = cents_num (result_cents es)"
proof -
  note t = pl_total_cents [OF assms] and b = pl_bounds [OF assms]
  have gross: "gross_profit D es = cents_num (pl_bucket_cents es PlRevenue - pl_bucket_cents es PlCogs)"
    using b(1,2) by (simp add: gross_profit_def t minus2_cents rounded2_cents)
  have operating: "operating_income D es = cents_num (pl_bucket_cents es PlRevenue - pl_bucket_cents es PlCogs
      - (pl_bucket_cents es PlOperatingExpenses + pl_bucket_cents es PlExpenses))"
    using b(1-4) by (simp add: operating_income_def gross t minus2_cents plus2_cents rounded2_cents)
  have "income_before_tax D es = cents_num (pl_bucket_cents es PlRevenue - pl_bucket_cents es PlCogs
      - (pl_bucket_cents es PlOperatingExpenses + pl_bucket_cents es PlExpenses)
      + pl_bucket_cents es PlOtherIncomeExpense)"
    using b(1,4,5) by (simp add: income_before_tax_def operating t plus2_cents rounded2_cents)
  then show ?thesis
    using b(1,5,6) by (simp add: net_income_def t minus2_cents rounded2_cents result_cents_def)
qed

end

section \<open>Articulation\<close>

text \<open>An account of the result on the balance sheet, and on the income statement.\<close>

definition bs_result_account :: "TrialBalanceEntry \<Rightarrow> bool" where
  "bs_result_account e \<longleftrightarrow> bs_bucket e = Some Revenue \<or> bs_bucket e = Some Expenses"

definition pl_result_account :: "TrialBalanceEntry \<Rightarrow> bool" where
  "pl_result_account e \<longleftrightarrow> pl_bucket e \<noteq> None \<and> pl_bucket e \<noteq> Some PlDiscontinued"

definition bs_share :: "TrialBalanceEntry \<Rightarrow> int" where
  "bs_share e = (if bs_bucket e = Some Revenue then line_cents e
     else if bs_bucket e = Some Expenses then - line_cents e else 0)"

definition pl_share :: "TrialBalanceEntry \<Rightarrow> int" where
  "pl_share e = (case pl_bucket e of
       None \<Rightarrow> 0 | Some PlDiscontinued \<Rightarrow> 0
     | Some PlRevenue \<Rightarrow> pl_cents e | Some PlOtherIncomeExpense \<Rightarrow> pl_cents e
     | Some _ \<Rightarrow> - pl_cents e)"

lemma bs_shares: "bucket_cents es Revenue - bucket_cents es Expenses = (\<Sum>e\<leftarrow>es. bs_share e)"
  by (induction es) (auto simp: bucket_cents_def bs_share_def)

lemma pl_shares: "result_cents es = (\<Sum>e\<leftarrow>es. pl_share e)"
proof (induction es)
  case (Cons e es)
  then show ?case
    by (simp add: result_cents_def pl_bucket_cents_def pl_share_def split: option.split PlBucket.split)
qed (simp add: result_cents_def pl_bucket_cents_def)

text \<open>On the income statement the sign of a line is that of its category.\<close>

lemma category_signs:
  "fs_in e [''fs_revenue'', ''fs_revenue_contra'', ''fs_revenue_product'', ''fs_revenue_service'', ''fs_revenue_other'']
     \<Longrightarrow> credit_positive e"
  "fs_in e COGS_FS_LINES \<Longrightarrow> \<not> credit_positive e"
  "fs_in e OPEX_FS_LINES \<Longrightarrow> \<not> credit_positive e"
  "fs_in e TAX_FS_LINES \<Longrightarrow> \<not> credit_positive e"
  "te_fsLineId e = Some ''fs_expense'' \<Longrightarrow> \<not> credit_positive e"
  "fs_in e OTHER_INCOME_FS_LINES \<Longrightarrow> credit_positive e \<longleftrightarrow> te_fsLineId e \<noteq> Some ''fs_interest_expense''"
  by (auto simp: fs_in_def credit_positive_def COGS_FS_LINES_def OPEX_FS_LINES_def TAX_FS_LINES_def
      OTHER_INCOME_FS_LINES_def CREDIT_POSITIVE_FS_LINES_def split: option.splits)

lemma type_unique: "isType t a \<Longrightarrow> isType t b \<Longrightarrow> a = b"
  by (auto simp: isType_def split: option.splits)

lemma pl_share_net:
  assumes "pl_bucket e = Some b" and "b \<noteq> PlDiscontinued"
    and "b = PlRevenue \<Longrightarrow> credit_positive e" and "b = PlExpenses \<Longrightarrow> \<not> credit_positive e"
  shows "pl_share e = - net_cents e"
proof (cases "b = PlOtherIncomeExpense")
  case True
  then have "fs_in e OTHER_INCOME_FS_LINES"
    using assms(1) by (auto simp: pl_bucket_def split: if_splits)
  with category_signs(6) True assms(1) show ?thesis
    by (auto simp: pl_share_def pl_cents_def line_cents_def)
next
  case False
  have "credit_positive e \<longleftrightarrow> b = PlRevenue"
    using assms category_signs(1-4) [of e] False
    by (cases b) (auto simp: pl_bucket_def split: if_splits)
  with interest_bucket [OF assms(1) False] assms(1,2) False show ?thesis
    by (cases b) (auto simp: pl_share_def line_cents_def)
qed

lemma bs_result_signs:
  assumes "well_routed e" and "bs_result_account e"
  shows "credit_positive e \<longleftrightarrow> bs_bucket e = Some Revenue" and "bs_share e = - net_cents e"
  using assms by (auto simp: well_routed_def statement_side_def bs_result_account_def bs_share_def line_cents_def
      split: if_splits)

lemma bs_revenue_cases:
  "bs_bucket e = Some Revenue \<Longrightarrow> te_fsLineId e = Some ''fs_revenue'' \<or> isType (te_accountType e) REVENUE"
  "bs_bucket e = Some Expenses \<Longrightarrow> te_fsLineId e = Some ''fs_expense'' \<or> isType (te_accountType e) EXPENSE"
  by (auto simp: bs_bucket_def split: if_splits)

lemma pl_revenue_cases:
  "pl_bucket e = Some PlRevenue \<Longrightarrow> credit_positive e \<or> isType (te_accountType e) REVENUE \<and> te_fsLineId e \<noteq> Some ''fs_expense''"
  "pl_bucket e = Some PlExpenses \<Longrightarrow> \<not> credit_positive e \<or> isType (te_accountType e) EXPENSE \<and> te_fsLineId e \<noteq> Some ''fs_revenue''"
  using category_signs(1,5) [of e] by (auto simp: pl_bucket_def fs_in_def split: if_splits option.splits)

lemma shares_agree:
  assumes "well_routed e" and "bs_result_account e \<longleftrightarrow> pl_result_account e"
  shows "bs_share e = pl_share e"
proof (cases "bs_result_account e")
  case False
  with assms(2) show ?thesis
    by (auto simp: bs_share_def bs_result_account_def pl_share_def pl_result_account_def)
next
  case True
  note signs = bs_result_signs [OF assms(1) True]
  obtain b where b: "pl_bucket e = Some b" "b \<noteq> PlDiscontinued"
    using True assms(2) by (auto simp: pl_result_account_def)
  have "credit_positive e" if "b = PlRevenue"
    using pl_revenue_cases(1) [of e] bs_revenue_cases(2) [of e] signs(1) True b(1) that
      type_unique [of "te_accountType e" REVENUE EXPENSE]
    by (auto simp: bs_result_account_def)
  moreover have "\<not> credit_positive e" if "b = PlExpenses"
    using pl_revenue_cases(2) [of e] bs_revenue_cases(1) [of e] signs(1) b(1) that
      type_unique [of "te_accountType e" EXPENSE REVENUE]
    by auto
  ultimately show ?thesis using pl_share_net [OF b] signs(2) by simp
qed

lemma pl_net_income [simp]: "pl_netIncome (buildProfitAndLoss D es) = net_income D es"
  by (simp add: buildProfitAndLoss_def Let_def)

text \<open>
  C29. The statements articulate: when every entry is routed to the side of its sign and is a result
  account on both statements or on neither, the equity of the balance sheet is that of the equity
  accounts, plus the net income that the income statement shows, plus other comprehensive income.
\<close>

theorem statements_articulate:
  assumes "decimal_js D fin v" and "balanced_ledger file options tb (classified_entries options tb) t"
    and "list_all (\<lambda>e. well_routed e \<and> (bs_result_account e \<longleftrightarrow> pl_result_account e)) (classified_entries options tb)"
  shows "\<exists>st. buildValidatedStatements D file options tb = Inr st
     \<and> cents_of (fp_totalEquity (va_balanceSheet st))
         = cents_of (sumLines D (fp_equity (va_balanceSheet st))) + cents_of (pl_netIncome (va_profitAndLoss st))
           + (case fp_oci (va_balanceSheet st) of None \<Rightarrow> 0 | Some (items, amount) \<Rightarrow> cents_of amount)"
proof -
  let ?es = "classified_entries options tb"
  have es: "entries_in_cents ?es" using assms(2) by (simp add: balanced_ledger_def)
  have routed: "list_all well_routed ?es" and zero: "(\<Sum>e\<leftarrow>?es. misposted e) = 0"
    using assms(3) misposted_zero by (auto simp: list_all_iff cong: map_cong)
  have imb: "imbalance ?es = 0"
    using imbalance_ledger [of ?es] zero balanced_net [OF assms(2)] by simp
  have result: "bucket_cents ?es Revenue - bucket_cents ?es Expenses = result_cents ?es"
    unfolding bs_shares pl_shares using assms(3) shares_agree by (auto simp: list_all_iff intro!: arg_cong [where f = sum_list])
  have one: "sumLines D (bs_lines D ?es b) = cents_num (bucket_cents ?es b)" for b
    using decimal_js.bs_lines_total [OF assms(1) es, of "[b]"] by simp
  note bounds = statement_bounds [OF es] and pl = pl_bounds [OF es]
  have no_oci: "bucket_cents ?es Oci = 0" if "bs_lines D ?es Oci = []"
    using that by (simp add: bs_lines_def bucket_line_total [symmetric] line_total_def)
  have "cents_of (fp_totalEquity (buildBalanceSheet D file m ?es))
      = cents_of (sumLines D (fp_equity (buildBalanceSheet D file m ?es))) + cents_of (net_income D ?es)
        + (case fp_oci (buildBalanceSheet D file m ?es) of None \<Rightarrow> 0 | Some (items, amount) \<Rightarrow> cents_of amount)" for m
    using decimal_js.position_totals(3) [OF assms(1) es, of "file" m] decimal_js.bs_total_equity_cents(3) [OF assms(1) es]
      decimal_js.net_income_cents [OF assms(1) es] bounds(3,6) pl(6) imb no_oci
    by (auto simp: buildBalanceSheet_def Let_def bs_adjusted_def one equity_cents_def rounding_cents_def result)
  with balanced_cases [OF assms(1,2)] zero show ?thesis
    by (auto split: sum.splits)
qed

lemma typed_result_account:
  "te_fsLineId e = None \<Longrightarrow> bs_result_account e \<longleftrightarrow> pl_result_account e"
  using type_unique [of "te_accountType e"]
  by (auto simp: bs_result_account_def pl_result_account_def bs_bucket_def pl_bucket_def fs_in_def isType_def
      split: option.splits if_splits)

theorem statements_articulate_witness:
  "\<exists>st. buildValidatedStatements dec_model RulesMissing no_options (demo_ledger_of demo_books) = Inr st
     \<and> cents_of (fp_totalEquity (va_balanceSheet st))
         = cents_of (sumLines dec_model (fp_equity (va_balanceSheet st))) + cents_of (pl_netIncome (va_profitAndLoss st))
           + (case fp_oci (va_balanceSheet st) of None \<Rightarrow> 0 | Some (items, amount) \<Rightarrow> cents_of amount)"
proof (rule statements_articulate [OF dec.decimal_js_axioms])
  show "balanced_ledger RulesMissing no_options (demo_ledger_of demo_books)
      (classified_entries no_options (demo_ledger_of demo_books)) 1"
    using demo_balanced by (simp add: demo_ledger_of_def)
  have "te_fsLineId e = None" if "e \<in> set (map classify_entry demo_books)" for e
    using that by (auto simp: demo_books_def)
  then show "list_all (\<lambda>e. well_routed e \<and> (bs_result_account e \<longleftrightarrow> pl_result_account e))
      (classified_entries no_options (demo_ledger_of demo_books))"
    using demo_routed typed_result_account by (auto simp: demo_ledger_of_def list_all_iff)
qed

section \<open>Changes in equity\<close>

text \<open>Other comprehensive income of a position: its items in cents, and their total.\<close>

definition oci_in_cents :: "'d decimal_ops \<Rightarrow> FinancialPosition \<Rightarrow> bool" where
  "oci_in_cents D bs \<longleftrightarrow>
     (case fp_oci bs of None \<Rightarrow> True
      | Some (items, amount) \<Rightarrow> lines_in_cents (map statement_line items) \<and> amount = sumLines D items)"

definition oci_cents :: "FinancialPosition \<Rightarrow> int" where
  "oci_cents bs = (case fp_oci bs of None \<Rightarrow> 0 | Some (items, amount) \<Rightarrow> total_cents (map statement_line items))"

text \<open>What neither net income nor other comprehensive income explains.\<close>

definition residual_cents :: "FinancialPosition \<Rightarrow> FinancialPosition \<Rightarrow> ProfitAndLoss \<Rightarrow> int" where
  "residual_cents cur prior pl =
     cents_of (fp_totalEquity cur) - (cents_of (fp_totalEquity prior) + cents_of (pl_netIncome pl) + oci_cents cur)"

lemma sumLines_statement: "sumLines D items = sumRound2 D (map li_amount (map statement_line items))"
  by (simp add: sumLines_def statement_line_def cf_line_def comp_def)

lemma equity_changes_cents:
  assumes "decimal_js D fin v" and "oci_in_cents D cur"
    and "list_all in_cents [fp_totalEquity cur, fp_totalEquity prior, pl_netIncome pl]"
    and "\<bar>cents_of (pl_netIncome pl) + oci_cents cur\<bar> < 10 ^ 15"
    and "\<bar>cents_of (fp_totalEquity prior) + (cents_of (pl_netIncome pl) + oci_cents cur)\<bar> < 10 ^ 15"
    and "\<bar>residual_cents cur prior pl\<bar> < 10 ^ 15"
  shows "eq_changes (buildEquityChangesStatement D cur (Some prior) (Some pl))
      = cf_line ''Net income'' (pl_netIncome pl)
        # (if 1 < \<bar>residual_cents cur prior pl\<bar>
           then [cf_line ''Owner contributions / distributions (net)'' (cents_num (residual_cents cur prior pl))] else [])"
    and "total_cents (js_or (eq_ociChanges (buildEquityChangesStatement D cur (Some prior) (Some pl))) []) = oci_cents cur"
proof -
  let ?ni = "pl_netIncome pl"
  define total_oci where "total_oci = (case fp_oci cur of None \<Rightarrow> Fin 0 | Some (items, amount) \<Rightarrow> amount)"
  define known where "known = (if num_eq total_oci (Fin 0) then ?ni else plus2 D ?ni total_oci)"
  have oci: "in_cents total_oci \<and> cents_of total_oci = oci_cents cur"
    using assms(2) decimal_js.sumRound2_lines [OF assms(1)]
    by (auto simp: total_oci_def oci_in_cents_def oci_cents_def sumLines_statement simp del: map_map
        split: option.splits)
  have zero: "cents_of total_oci = 0" if "num_eq total_oci (Fin 0)"
    using that by (cases total_oci) auto
  have known: "in_cents known \<and> cents_of known = cents_of ?ni + oci_cents cur"
    using oci zero assms(3,4) by (auto simp: known_def decimal_js.plus2_cents [OF assms(1)])
  have r: "minus2 D (fp_totalEquity cur) (plus2 D (fp_totalEquity prior) known) = cents_num (residual_cents cur prior pl)"
    using known assms(3,5)
    by (simp add: decimal_js.plus2_cents [OF assms(1)] decimal_js.minus2_cents [OF assms(1)] residual_cents_def add.assoc)
  have cent: "in_cents (to_num (1 / 100))" "cents_of (to_num (1 / 100)) = 1"
    using in_cents_num [of 1] by (simp_all add: cents_num_def money_def)
  have above: "d_greaterThan D (d_abs D (d_of_num D (cents_num (residual_cents cur prior pl)))) (d_of_num D (to_num (1 / 100)))
      \<longleftrightarrow> 1 < \<bar>residual_cents cur prior pl\<bar>"
    using decimal_js.has_cents_of_num [OF assms(1) has_cents_num [OF assms(6)]]
      decimal_js.has_cents_of_num [OF assms(1), of "to_num (1 / 100)" 1] cent
      decimal_js.abs [OF assms(1)] decimal_js.greaterThan [OF assms(1)]
    by (auto simp: in_cents_def money_abs not_le [symmetric])
  show "eq_changes (buildEquityChangesStatement D cur (Some prior) (Some pl))
      = cf_line ''Net income'' ?ni
        # (if 1 < \<bar>residual_cents cur prior pl\<bar>
           then [cf_line ''Owner contributions / distributions (net)'' (cents_num (residual_cents cur prior pl))] else [])"
    using r above
    by (simp add: buildEquityChangesStatement_def Let_def total_oci_def [symmetric] known_def [symmetric])
  show "total_cents (js_or (eq_ociChanges (buildEquityChangesStatement D cur (Some prior) (Some pl))) []) = oci_cents cur"
    by (auto simp: buildEquityChangesStatement_def Let_def oci_cents_def js_or_def total_cents_def split: option.split)
qed

text \<open>
  C33. The statement of changes in equity rolls the opening equity forward to the closing equity
  exactly, unless what net income and other comprehensive income leave unexplained is one cent:
  then no line takes it up and the statement is off by that cent.
\<close>

theorem equity_rollforward:
  assumes "decimal_js D fin v" and "oci_in_cents D cur"
    and "list_all in_cents [fp_totalEquity cur, fp_totalEquity prior, pl_netIncome pl]"
    and "\<bar>cents_of (pl_netIncome pl) + oci_cents cur\<bar> < 10 ^ 15"
    and "\<bar>cents_of (fp_totalEquity prior) + (cents_of (pl_netIncome pl) + oci_cents cur)\<bar> < 10 ^ 15"
    and "\<bar>residual_cents cur prior pl\<bar> < 10 ^ 15"
  shows "cents_of (fp_totalEquity prior)
        + total_cents (eq_changes (buildEquityChangesStatement D cur (Some prior) (Some pl)))
        + total_cents (js_or (eq_ociChanges (buildEquityChangesStatement D cur (Some prior) (Some pl))) [])
      = cents_of (fp_totalEquity cur) \<longleftrightarrow> \<bar>residual_cents cur prior pl\<bar> \<noteq> 1"
proof -
  have "total_cents (eq_changes (buildEquityChangesStatement D cur (Some prior) (Some pl)))
      = cents_of (pl_netIncome pl) + (if 1 < \<bar>residual_cents cur prior pl\<bar> then residual_cents cur prior pl else 0)"
    using assms(6) unfolding equity_changes_cents(1) [OF assms] by (simp add: total_cents_def cf_line_def)
  with equity_changes_cents(2) [OF assms] show ?thesis
    by (auto simp: residual_cents_def)
qed

definition demo_position :: "int \<Rightarrow> FinancialPosition" where
  "demo_position c = (buildBalanceSheet dec_model RulesMissing None [])\<lparr>fp_totalEquity := cents_num c, fp_oci := None\<rparr>"

definition demo_income :: "int \<Rightarrow> ProfitAndLoss" where
  "demo_income c = (buildProfitAndLoss dec_model [])\<lparr>pl_netIncome := cents_num c\<rparr>"

lemma demo_position_simps [simp]:
  "fp_totalEquity (demo_position c) = cents_num c" "fp_oci (demo_position c) = None" "pl_netIncome (demo_income c) = cents_num c"
  by (simp_all add: demo_position_def demo_income_def)

text \<open>Opening equity 500.00, net income 200.00: it ties at 750.00 with contributions, not at 700.01.\<close>

theorem equity_rollforward_witness:
  "(let eq = buildEquityChangesStatement dec_model (demo_position 75000) (Some (demo_position 50000)) (Some (demo_income 20000))
    in 50000 + total_cents (eq_changes eq) + total_cents (js_or (eq_ociChanges eq) []) = 75000)
   \<and> (let eq = buildEquityChangesStatement dec_model (demo_position 70001) (Some (demo_position 50000)) (Some (demo_income 20000))
    in 50000 + total_cents (eq_changes eq) + total_cents (js_or (eq_ociChanges eq) []) \<noteq> 70001)"
  using equity_rollforward [OF dec.decimal_js_axioms, of "demo_position 75000" "demo_position 50000" "demo_income 20000"]
    equity_rollforward [OF dec.decimal_js_axioms, of "demo_position 70001" "demo_position 50000" "demo_income 20000"]
  by (simp add: oci_in_cents_def oci_cents_def residual_cents_def Let_def)

end
