(* ===== verification/CertifiedStatements.thy ===== *)
theory CertifiedStatements
  imports StatementFlows Certification
begin

text \<open>
  The statements a certification is based on:
  \<open>src/src/services/certified_statements_service.ts\<close>, with
  \<open>src/src/constants/accounting/presentation_references.ts\<close>.

  An entry of a snapshot has no taxonomy line, so its account type alone decides where it goes. The
  amounts of an entry are those of \<open>snapshotEntryToTrialBalanceEntry\<close> (\<open>Certification\<close>), never null.
\<close>

section \<open>presentation\_references.ts\<close>

datatype AccountingStandard = ASPE | IFRS | FRS102 | US_GAAP

text \<open>The references of the balance sheet and of the income statement.\<close>

definition framework_ref :: "string \<Rightarrow> string \<Rightarrow> string \<Rightarrow> CodificationRef" where
  "framework_ref framework citation description =
     \<lparr>cr_framework = framework, cr_citation = citation, cr_description = Some description\<rparr>"

fun getPresentationReferences :: "AccountingStandard \<Rightarrow> CodificationRef \<times> CodificationRef" where
  "getPresentationReferences ASPE =
     (framework_ref ''ASPE'' ''ASPE 1521'' ''Balance Sheet'',
      framework_ref ''ASPE'' ''ASPE 1520'' ''Income Statement'')"
| "getPresentationReferences IFRS =
     (framework_ref ''IASB'' ''IAS 1.54'' ''Statement of financial position'',
      framework_ref ''IASB'' ''IAS 1.81'' ''Statement of profit or loss'')"
| "getPresentationReferences FRS102 =
     (framework_ref ''FRS102'' ''FRS 102 Section 4'' ''Statement of Financial Position'',
      framework_ref ''FRS102'' ''FRS 102 Section 5'' ''Statement of Comprehensive Income and Income Statement'')"
| "getPresentationReferences US_GAAP =
     (framework_ref ''FASB'' ''ASC 210-10-45'' ''Balance Sheet--Overall Presentation'',
      framework_ref ''FASB'' ''ASC 220-10-45'' ''Comprehensive Income--Overall Presentation'')"

text \<open>\<open>None\<close>: the function throws.\<close>

definition normalizeAccountingStandard :: "string \<Rightarrow> AccountingStandard option" where
  "normalizeAccountingStandard value =
     (let normalized = map (\<lambda>c. if c = CHR '' '' \<or> c = CHR ''-'' then CHR ''_'' else c)
            (js_toUpperCase (js_trim value))
      in if normalized = ''ASPE'' then Some ASPE
         else if normalized = ''IFRS'' then Some IFRS
         else if normalized \<in> {''FRS102'', ''FRS_102''} then Some FRS102
         else if normalized \<in> {''GAAP'', ''US_GAAP''} then Some US_GAAP
         else None)"

definition withReference :: "CodificationRef \<Rightarrow> FinancialStatementLine list \<Rightarrow> FinancialStatementLine list" where
  "withReference ref lines = map (\<lambda>l. l\<lparr>fl_codificationRef := Some ref\<rparr>) lines"

definition present_position :: "CodificationRef \<Rightarrow> FinancialPosition \<Rightarrow> FinancialPosition" where
  "present_position ref bs = bs\<lparr>
     fp_codificationRef := ref,
     fp_assets := withReference ref (fp_assets bs),
     fp_liabilities := withReference ref (fp_liabilities bs),
     fp_equity := withReference ref (fp_equity bs),
     fp_currentAssets := withReference ref (fp_currentAssets bs),
     fp_noncurrentAssets := withReference ref (fp_noncurrentAssets bs),
     fp_unclassifiedAssets := withReference ref (fp_unclassifiedAssets bs),
     fp_currentLiabilities := withReference ref (fp_currentLiabilities bs),
     fp_noncurrentLiabilities := withReference ref (fp_noncurrentLiabilities bs),
     fp_unclassifiedLiabilities := withReference ref (fp_unclassifiedLiabilities bs),
     fp_oci := map_option (\<lambda>(items, amount). (withReference ref items, amount)) (fp_oci bs)\<rparr>"

definition present_detail :: "CodificationRef \<Rightarrow> DetailedPL \<Rightarrow> DetailedPL" where
  "present_detail ref d = d\<lparr>
     pd_cogs := withReference ref (pd_cogs d),
     pd_operatingExpenses := map_option (withReference ref) (pd_operatingExpenses d),
     pd_otherIncomeExpense := withReference ref (pd_otherIncomeExpense d),
     pd_taxExpense := withReference ref (pd_taxExpense d)\<rparr>"

definition present_income :: "CodificationRef \<Rightarrow> ProfitAndLoss \<Rightarrow> ProfitAndLoss" where
  "present_income ref pl = pl\<lparr>
     pl_codificationRef := ref,
     pl_revenue := withReference ref (pl_revenue pl),
     pl_expenses := withReference ref (pl_expenses pl),
     pl_detail := map_option (present_detail ref) (pl_detail pl),
     pl_discontinued := map_option (\<lambda>(items, amount). (withReference ref items, amount)) (pl_discontinued pl)\<rparr>"

definition applyPresentationReferences ::
  "AccountingStandard \<Rightarrow> FinancialPosition \<Rightarrow> ProfitAndLoss \<Rightarrow> FinancialPosition \<times> ProfitAndLoss" where
  "applyPresentationReferences standard bs pl =
     (let (balanceSheetRef, incomeStatementRef) = getPresentationReferences standard
      in (present_position balanceSheetRef bs, present_income incomeStatementRef pl))"

definition applyEntryPresentationReferences ::
  "AccountingStandard \<Rightarrow> TrialBalanceEntry list \<Rightarrow> TrialBalanceEntry list" where
  "applyEntryPresentationReferences standard entries =
     (let (balanceSheetRef, incomeStatementRef) = getPresentationReferences standard
      in map (\<lambda>e. e\<lparr>te_codificationRef :=
             Some (if te_accountType e \<in> {Some REVENUE, Some EXPENSE} then incomeStatementRef
                   else balanceSheetRef)\<rparr>) entries)"

section \<open>certified\_statements\_service.ts\<close>

definition trial_entry :: "SnapEntry \<Rightarrow> TrialBalanceEntry" where
  "trial_entry e =
     \<lparr>te_lineId = sn_lineId e, te_accountCode = sn_accountCode e, te_accountName = sn_accountName e,
      te_debit = js_or (sn_debit e) (Fin 0), te_credit = js_or (sn_credit e) (Fin 0),
      te_accountType = sn_accountType e, te_fsLineId = None, te_fsLineCode = None, te_codificationRef = None,
      te_sourceDocumentId = None, te_sourceSheet = None, te_sourceRowIndex = None, te_sourceChunkId = None,
      te_classificationSource = None, te_classificationRationale = None\<rparr>"

text \<open>\<open>snapshotPayloadToTrialBalanceResult\<close> with the entries as the statement builder reads them.\<close>

definition payload_trial_balance :: "'d decimal_ops \<Rightarrow> rules_file \<Rightarrow> SnapPayload \<Rightarrow> TrialBalance" where
  "payload_trial_balance D file payload =
     (let tb = snapshotPayloadToTrialBalanceResult D (getRoundingTolerance file) payload
      in \<lparr>tr_entries = map trial_entry (tb_entries tb), tr_totalDebits = tb_totalDebits tb,
          tr_totalCredits = tb_totalCredits tb, tr_balances = tb_balances tb\<rparr>)"

text \<open>The comparative trial balance; its totals are numbers in a stored payload, null otherwise.\<close>

definition comparative_trial_balance :: "'d decimal_ops \<Rightarrow> rules_file \<Rightarrow> Comparative \<Rightarrow> TrialBalance" where
  "comparative_trial_balance D file c =
     (let debits = js_or (cm_totalDebits c) (Fin 0); credits = js_or (cm_totalCredits c) (Fin 0)
      in \<lparr>tr_entries = map (\<lambda>e. trial_entry (snapshotEntryToTrialBalanceEntry e)) (cm_entries c),
          tr_totalDebits = debits, tr_totalCredits = credits,
          tr_balances = within_tol D debits credits (getRoundingTolerance file)\<rparr>)"

datatype certified_error =
    CertifiedIntegrityError string string
  | Mathematical MathematicalIntegrityError
  | UnsupportedStandard string

record CertifiedStatements =
  ce_trialBalance :: TrialBalance
  ce_balanceSheet :: FinancialPosition
  ce_profitAndLoss :: ProfitAndLoss
  ce_cashFlow :: CashFlow
  ce_equityChanges :: EquityChanges
  ce_standard :: "AccountingStandard option"

text \<open>The result of the builder under the references of the standard of the payload.\<close>

definition presented_statements ::
  "SnapPayload \<Rightarrow> ValidatedStatements
     \<Rightarrow> certified_error + (AccountingStandard option \<times> FinancialPosition \<times> ProfitAndLoss \<times> TrialBalanceEntry list)" where
  "presented_statements payload raw =
     (if truthy (sp_standard payload)
      then (case normalizeAccountingStandard (the (sp_standard payload)) of
              None \<Rightarrow> Inl (UnsupportedStandard (the (sp_standard payload)))
            | Some standard \<Rightarrow>
                let (bs, pl) = applyPresentationReferences standard (va_balanceSheet raw) (va_profitAndLoss raw)
                in Inr (Some standard, bs, pl, applyEntryPresentationReferences standard (va_classifiedEntries raw)))
      else Inr (None, va_balanceSheet raw, va_profitAndLoss raw, va_classifiedEntries raw))"

text \<open>The error that a failed final check raises.\<close>

definition certified_check_error :: "FinalIntegrityCheckResult \<Rightarrow> certified_error" where
  "certified_check_error fc =
     (if fc_plugSuspicious fc
      then CertifiedIntegrityError ''PLUG_ACCOUNTS_DETECTED''
             (js_or (fc_error fc) ''Plug accounts (Suspense/Miscellaneous/Other) exceed threshold.'')
      else if map_option fst (fc_checks fc) = Some False
      then CertifiedIntegrityError ''TRIAL_BALANCE_IMBALANCED''
             (js_or (fc_error fc) ''Trial balance does not balance.'')
      else if map_option snd (fc_checks fc) = Some False
      then CertifiedIntegrityError ''BALANCE_SHEET_EQUATION_FAILED''
             (js_or (fc_error fc) ''Balance sheet equation does not hold.'')
      else CertifiedIntegrityError ''TRIAL_BALANCE_IMBALANCED'' (js_or (fc_error fc) ''Integrity check failed.''))"

definition certified_final_check ::
  "'d decimal_ops \<Rightarrow> rules_file \<Rightarrow> TrialBalance \<Rightarrow> FinancialPosition \<Rightarrow> TrialBalanceEntry list
     \<Rightarrow> FinalIntegrityCheckResult" where
  "certified_final_check D file tb bs classified =
     fst (finalIntegrityCheck D file
       \<lparr>fi_trialBalance = GateTotals (tr_totalDebits tb) (tr_totalCredits tb),
        fi_balanceSheet = position_input bs, fi_entries = Some (map plug_entry classified),
        fi_tolerance = Some (getRoundingTolerance file)\<rparr>)"

text \<open>The balance sheet of the comparative period: none, an error, or the sheet.\<close>

definition prior_position ::
  "'d decimal_ops \<Rightarrow> rules_file \<Rightarrow> TrialBalance option \<Rightarrow> certified_error + FinancialPosition option" where
  "prior_position D file prior =
     (case prior of
        None \<Rightarrow> Inr None
      | Some tb \<Rightarrow>
          if \<not> tr_balances tb
          then Inl (CertifiedIntegrityError ''TRIAL_BALANCE_IMBALANCED''
                 ''Comparative certified trial balance does not balance.'')
          else (case buildValidatedStatements D file no_options tb of
                  Inl e \<Rightarrow> Inl (Mathematical e)
                | Inr v \<Rightarrow> Inr (Some (va_balanceSheet v))))"

definition buildCertifiedStatementsFromSnapshot ::
  "'d decimal_ops \<Rightarrow> rules_file \<Rightarrow> SnapPayload \<Rightarrow> certified_error + CertifiedStatements" where
  "buildCertifiedStatementsFromSnapshot D file payload =
     (let tb = payload_trial_balance D file payload;
          prior = map_option (comparative_trial_balance D file) (sp_comparative payload)
      in case buildValidatedStatements D file no_options tb of
           Inl e \<Rightarrow> Inl (Mathematical e)
         | Inr raw \<Rightarrow>
             (case presented_statements payload raw of
                Inl e \<Rightarrow> Inl e
              | Inr (standard, bs, pl, classified) \<Rightarrow>
                  let finalCheck = certified_final_check D file tb bs classified in
                  if \<not> fc_passed finalCheck then Inl (certified_check_error finalCheck)
                  else (case prior_position D file prior of
                          Inl e \<Rightarrow> Inl e
                        | Inr priorBS \<Rightarrow>
                            Inr \<lparr>ce_trialBalance = \<lparr>tr_entries = classified, tr_totalDebits = tr_totalDebits tb,
                                   tr_totalCredits = tr_totalCredits tb, tr_balances = True\<rparr>,
                                 ce_balanceSheet = bs, ce_profitAndLoss = pl,
                                 ce_cashFlow = buildCashFlowStatement D (tr_entries tb) pl
                                   (map_option tr_entries prior) None,
                                 ce_equityChanges = buildEquityChangesStatement D bs priorBS (Some pl),
                                 ce_standard = standard\<rparr>)))"

section \<open>The statements as the certification reads them\<close>

text \<open>The fields of the statements that the validation between the statements reads.\<close>

definition position_view :: "FinancialPosition \<Rightarrow> BalanceSheet" where
  "position_view bs =
     \<lparr>bs_assets = map statement_line (fp_assets bs), bs_equity = map statement_line (fp_equity bs),
      bs_totalAssets = fp_totalAssets bs, bs_totalLiabilities = fp_totalLiabilities bs,
      bs_totalEquity = fp_totalEquity bs\<rparr>"

definition statements_view :: "CertifiedStatements \<Rightarrow> Statements" where
  "statements_view st =
     \<lparr>st_balanceSheet = position_view (ce_balanceSheet st), st_netIncome = pl_netIncome (ce_profitAndLoss st),
      st_cashFlow = Some (CashFlowStatement.truncate (ce_cashFlow st)),
      st_equityChanges = Some (EquityChangesStatement.truncate (ce_equityChanges st))\<rparr>"

text \<open>The answer of the pipeline to \<open>certifyCloseSession\<close>, which treats every exception alike.\<close>

definition certified_answer :: "'d decimal_ops \<Rightarrow> rules_file \<Rightarrow> SnapPayload \<Rightarrow> Statements option" where
  "certified_answer D file payload =
     (case buildCertifiedStatementsFromSnapshot D file payload of
        Inl e \<Rightarrow> None
      | Inr st \<Rightarrow> Some (statements_view st))"

text \<open>\<open>statementsToExportPayload\<close>: the totals and lines of the statements, and the ledger.\<close>

record ExportPayload =
  xp_assets :: "number \<times> FinancialStatementLine list"
  xp_liabilities :: "number \<times> FinancialStatementLine list"
  xp_equity :: "number \<times> FinancialStatementLine list"
  xp_revenue :: "number \<times> FinancialStatementLine list"
  xp_expenses :: "number \<times> FinancialStatementLine list"
  xp_netIncome :: number
  xp_ledger :: "(string \<times> string \<times> number \<times> number \<times> string) list"

definition statementsToExportPayload :: "CertifiedStatements \<Rightarrow> ExportPayload" where
  "statementsToExportPayload st =
     (let bs = ce_balanceSheet st; pl = ce_profitAndLoss st in
      \<lparr>xp_assets = (fp_totalAssets bs, fp_assets bs), xp_liabilities = (fp_totalLiabilities bs, fp_liabilities bs),
       xp_equity = (fp_totalEquity bs, fp_equity bs), xp_revenue = (pl_totalRevenue pl, pl_revenue pl),
       xp_expenses = (pl_totalExpenses pl, pl_expenses pl), xp_netIncome = pl_netIncome pl,
       xp_ledger = map (\<lambda>e. (js_or (te_accountCode e) [], te_accountName e, te_debit e, te_credit e,
           js_or (te_accountType e) [])) (tr_entries (ce_trialBalance st))\<rparr>)"

end
