(* ===== verification/CertifiedGuarantees.thy ===== *)
theory CertifiedGuarantees
  imports StatementArticulation CertifiedStatements
begin

text \<open>
  What the first certification of an entity requires of its books. The statements come from the
  snapshot alone; of the checks between them the equation of the balance sheet, net income and equity
  hold by construction. What remains are three conditions on the trial balance
  (\<open>first_close_ties\<close>): net income with its add-backs is the cash balance, every account whose name
  contains cash or bank is an asset (or they cancel), and retained earnings have moved by net income.
\<close>

section \<open>Presentation keeps labels and amounts\<close>

lemma withReference_view [simp]:
  "map statement_line (withReference ref ls) = map statement_line ls"
  by (simp add: withReference_def statement_line_def)

lemma present_position_view [simp]:
  "position_view (present_position ref bs) = position_view bs"
  "position_input (present_position ref bs) = position_input bs"
  "fp_totalEquity (present_position ref bs) = fp_totalEquity bs"
  "fp_oci (present_position ref bs) = None \<longleftrightarrow> fp_oci bs = None"
  by (simp_all add: position_view_def present_position_def position_input_def)

lemma present_income_view [simp]:
  "pl_netIncome (present_income ref pl) = pl_netIncome pl"
  "map statement_line (pl_expenses (present_income ref pl)) = map statement_line (pl_expenses pl)"
  by (simp_all add: present_income_def)

lemma sumPLExpense_view:
  "sumPLExpense D pl re
     = sumRound2 D (map li_amount (filter (\<lambda>l. regex_test re (li_label l)) (map statement_line (pl_expenses pl))))"
  by (simp add: sumPLExpense_def statement_line_def cf_line_def filter_map comp_def)

lemma cash_flow_view:
  assumes "pl_netIncome pl = pl_netIncome pl'"
    and "map statement_line (pl_expenses pl) = map statement_line (pl_expenses pl')"
  shows "buildCashFlowStatement D es pl prior cm = buildCashFlowStatement D es pl' prior cm"
  unfolding buildCashFlowStatement_def operating_lines_def sumPLExpense_view assms by (rule refl)

section \<open>The pipeline\<close>

lemma certified_result:
  assumes "buildCertifiedStatementsFromSnapshot D file payload = Inr st" and "sp_comparative payload = None"
  obtains v where "buildValidatedStatements D file no_options (payload_trial_balance D file payload) = Inr v"
    and "position_view (ce_balanceSheet st) = position_view (va_balanceSheet v)"
    and "pl_netIncome (ce_profitAndLoss st) = pl_netIncome (va_profitAndLoss v)"
    and "ce_cashFlow st = buildCashFlowStatement D (tr_entries (payload_trial_balance D file payload))
           (va_profitAndLoss v) None None"
    and "ce_equityChanges st = buildEquityChangesStatement D (ce_balanceSheet st) None (Some (ce_profitAndLoss st))"
    and "fp_oci (ce_balanceSheet st) = None \<longleftrightarrow> fp_oci (va_balanceSheet v) = None"
proof -
  obtain v where v: "buildValidatedStatements D file no_options (payload_trial_balance D file payload) = Inr v"
    using assms(1) by (auto simp: buildCertifiedStatementsFromSnapshot_def Let_def split: sum.splits)
  obtain standard bs pl es where p: "presented_statements payload v = Inr (standard, bs, pl, es)"
    using assms(1) v by (auto simp: buildCertifiedStatementsFromSnapshot_def Let_def split: sum.splits)
  have st: "ce_balanceSheet st = bs" "ce_profitAndLoss st = pl"
    "ce_cashFlow st = buildCashFlowStatement D (tr_entries (payload_trial_balance D file payload)) pl None None"
    "ce_equityChanges st = buildEquityChangesStatement D bs None (Some pl)"
    using assms v p
    by (auto simp: buildCertifiedStatementsFromSnapshot_def Let_def prior_position_def split: if_splits)
  have view: "position_view bs = position_view (va_balanceSheet v)"
    "pl_netIncome pl = pl_netIncome (va_profitAndLoss v)"
    "map statement_line (pl_expenses pl) = map statement_line (pl_expenses (va_profitAndLoss v))"
    "fp_oci bs = None \<longleftrightarrow> fp_oci (va_balanceSheet v) = None"
    using p by (auto simp: presented_statements_def applyPresentationReferences_def Let_def
        split: if_splits option.splits prod.splits)
  show thesis
    by (rule that [OF v]) (simp_all add: st view(1,2,4) cash_flow_view [OF view(2,3)])
qed

section \<open>The amounts of a first close\<close>

text \<open>The entries of a snapshot as the builder classifies them: none has a taxonomy line.\<close>

definition raw_entries :: "'d decimal_ops \<Rightarrow> rules_file \<Rightarrow> SnapPayload \<Rightarrow> TrialBalanceEntry list" where
  "raw_entries D file payload = tr_entries (payload_trial_balance D file payload)"

lemma raw_no_line: "e \<in> set (raw_entries D file payload) \<Longrightarrow> te_fsLineId e = None"
  by (auto simp: raw_entries_def payload_trial_balance_def Let_def trial_entry_def)

text \<open>The amount that the cash flow statement takes of an entry, and the cash balance it reports.\<close>

definition normal_cents :: "TrialBalanceEntry \<Rightarrow> int" where
  "normal_cents e = (if credit_normal (Some DebitBalance) e then - net_cents e else net_cents e)"

definition cash_balance :: "TrialBalanceEntry list \<Rightarrow> int" where
  "cash_balance es = (\<Sum>e\<leftarrow>filter (\<lambda>e. regex_test cash_pattern (te_accountName e)) es. normal_cents e)"

definition has_cash :: "TrialBalanceEntry list \<Rightarrow> bool" where
  "has_cash es \<longleftrightarrow> list_ex (\<lambda>e. regex_test cash_pattern (te_accountName e)) es"

text \<open>The expenses of the income statement whose name matches.\<close>

definition addback :: "pattern_item list list \<Rightarrow> TrialBalanceEntry list \<Rightarrow> int" where
  "addback re es =
     (\<Sum>e\<leftarrow>filter (\<lambda>e. regex_test re (te_accountName e)) (bucketPlByFsLine es PlExpenses). line_cents e)"

text \<open>The cash of the balance sheet, and the account named retained earnings.\<close>

definition asset_entries :: "TrialBalanceEntry list \<Rightarrow> TrialBalanceEntry list" where
  "asset_entries es = bucketBsByFsLine es CurrentAssets @ bucketBsByFsLine es NoncurrentAssets @ bucketBsByFsLine es Assets"

definition sheet_cash :: "TrialBalanceEntry list \<Rightarrow> int" where
  "sheet_cash es = (\<Sum>e\<leftarrow>filter (\<lambda>e. regex_test cash_pattern (te_accountName e)) (asset_entries es). line_cents e)"

definition retained_earnings_entry :: "TrialBalanceEntry list \<Rightarrow> TrialBalanceEntry option" where
  "retained_earnings_entry es =
     find (\<lambda>e. js_includes (js_toLowerCase (te_accountName e)) ''retained earnings'') (bucketBsByFsLine es Equity)"

definition first_close_ties :: "TrialBalanceEntry list \<Rightarrow> number option \<Rightarrow> bool" where
  "first_close_ties raw priorRE \<longleftrightarrow>
     (let es = map classify_entry raw; cash = (if has_cash raw then cash_balance raw else result_cents es)
      in \<bar>result_cents es + addback depreciation_pattern es + addback fx_pattern es + addback sbc_pattern es - cash\<bar> \<le> 1
         \<and> (has_cash raw \<longrightarrow> cash_balance raw = sheet_cash es)
         \<and> (case retained_earnings_entry es of None \<Rightarrow> True
            | Some e \<Rightarrow> \<bar>line_cents e - (cents_of (js_or priorRE (Fin 0)) + result_cents es)\<bar> \<le> 1))"

lemma find_map: "find P (map f xs) = map_option f (find (\<lambda>x. P (f x)) xs)"
  by (induction xs) auto

lemma match_from_lit: "match_from [Lit w] s \<longleftrightarrow> js_includes s w"
  by (induction s) (auto intro: js_startsWith.elims)

lemma cash_pattern_label: "regex_test cash_pattern s \<longleftrightarrow>
    js_includes (js_toLowerCase s) ''cash'' \<or> js_includes (js_toLowerCase s) ''bank''"
  by (simp add: regex_test_def cash_pattern_def words_pattern_def match_from_lit)

lemma normal_cents_abs [simp]: "\<bar>normal_cents e\<bar> = \<bar>net_cents e\<bar>"
  by (simp add: normal_cents_def)

lemma result_small: "\<bar>result_cents es\<bar> \<le> volume es"
proof -
  let ?w = "\<lambda>b. if b = PlRevenue \<or> b = PlOtherIncomeExpense then 1 else (- 1 :: int)"
  let ?bs = "[PlRevenue, PlCogs, PlOperatingExpenses, PlExpenses, PlOtherIncomeExpense, PlTaxExpense]"
  have "\<bar>\<Sum>b\<leftarrow>?bs. ?w b * pl_bucket_cents es b\<bar> \<le> (\<Sum>b\<leftarrow>?bs. \<bar>pl_bucket_cents es b\<bar>)"
    by (rule weighted_sum_le) simp
  also have "\<dots> \<le> volume es"
    unfolding pl_bucket_cents_def by (rule groups_volume) simp_all
  finally show ?thesis by (simp add: result_cents_def algebra_simps)
qed

context decimal_js
begin

lemma normalizeNet_cents:
  "entries_in_cents es \<Longrightarrow> e \<in> set es \<Longrightarrow> normalizeNet D (Some DebitBalance) e = cents_num (normal_cents e)"
  using entry_small [of es e]
  by (auto simp: normalizeNet_def Let_def minus2_cents net_cents_def num_neg_cents rounded2_cents normal_cents_def)

lemma sum_of_entries:
  assumes "entries_in_cents es" and "\<And>e. e \<in> set es \<Longrightarrow> f e = cents_num (c e)" and "\<And>e. \<bar>c e\<bar> = \<bar>net_cents e\<bar>"
  shows "sumRound2 D (map f es) = cents_num (\<Sum>e\<leftarrow>es. c e)" and "\<bar>\<Sum>e\<leftarrow>es. c e\<bar> \<le> volume es"
proof -
  have sum: "(\<Sum>x\<leftarrow>map c es. \<bar>x\<bar>) \<le> volume es"
    using net_volume [of es] by (simp add: comp_def assms(3))
  then have small: "(\<Sum>x\<leftarrow>map c es. \<bar>x\<bar>) < 10 ^ 15" using assms(1) by (simp add: entries_in_cents_def)
  have map: "map f es = map cents_num (map c es)" using assms(2) by simp
  show "sumRound2 D (map f es) = cents_num (\<Sum>e\<leftarrow>es. c e)"
    unfolding map by (rule sum_cents_num [OF small])
  show "\<bar>\<Sum>e\<leftarrow>es. c e\<bar> \<le> volume es"
    using sum_list_abs [of "map c es"] sum by simp
qed

lemma cash_cents:
  assumes "entries_in_cents es"
  shows "getNetAmount D es cash_pattern (Some DebitBalance)
      = (if has_cash es then Some (cents_num (cash_balance es)) else None)"
    and "\<bar>cash_balance es\<bar> \<le> volume es"
proof -
  let ?es = "filter (\<lambda>e. regex_test cash_pattern (te_accountName e)) es"
  note cents = entries_in_cents_filter [OF assms, of "\<lambda>e. regex_test cash_pattern (te_accountName e)"]
  note sum = sum_of_entries [OF cents normalizeNet_cents [OF cents] normal_cents_abs]
  have "?es = [] \<longleftrightarrow> \<not> has_cash es"
    by (auto simp: has_cash_def list_ex_iff filter_empty_conv)
  with sum(1) show "getNetAmount D es cash_pattern (Some DebitBalance)
      = (if has_cash es then Some (cents_num (cash_balance es)) else None)"
    by (simp add: getNetAmount_def Let_def cash_balance_def)
  show "\<bar>cash_balance es\<bar> \<le> volume es"
    using sum(2) volume_filter [of "\<lambda>e. regex_test cash_pattern (te_accountName e)" es]
    by (simp add: cash_balance_def)
qed

lemma validated_sheet:
  assumes "buildValidatedStatements D file no_options tb = Inr st" and "entries_in_cents (map classify_entry (tr_entries tb))"
  shows "\<bar>imbalance (map classify_entry (tr_entries tb))\<bar> \<le> 1"
    and "va_balanceSheet st = buildBalanceSheet D file None (map classify_entry (tr_entries tb))"
    and "va_profitAndLoss st = buildProfitAndLoss D (map classify_entry (tr_entries tb))"
proof -
  let ?es = "map classify_entry (tr_entries tb)"
  let ?bs = "buildBalanceSheet D file None ?es" and ?i = "validation_input no_options tb (buildBalanceSheet D file None ?es)"
  have none: "so_materiality no_options = None" by (simp add: no_options_def)
  have built: "buildValidatedStatements D file no_options tb
      = (case assertIntegrityGateOrThrow D file ?i of Inl err \<Rightarrow> Inl err
         | Inr u \<Rightarrow> Inr (risk_assessed D ?bs (buildProfitAndLoss D ?es) ?es))"
    unfolding buildValidatedStatements_def buildFinancialStatements_def Let_def prod.case no_options_classified none
    by (rule refl)
  from assms(1) obtain u where u: "assertIntegrityGateOrThrow D file ?i = Inr u"
    and st: "st = risk_assessed D ?bs (buildProfitAndLoss D ?es) ?es"
    unfolding built by (auto split: sum.splits)
  show "va_balanceSheet st = ?bs" "va_profitAndLoss st = buildProfitAndLoss D ?es"
    by (simp_all add: st)
  have "gr_balanceSheetBalances (runIntegrityGate D file ?i)"
    using u assert_gate(1) [of D "file" ?i] gate_passed_iff [of D "file" ?i] by simp
  then have "\<not> exceeds D (fp_totalAssets ?bs) (plus2 D (fp_totalLiabilities ?bs) (fp_totalEquity ?bs))
      (getToleranceForGate (getFinancialRules file))"
    by (simp add: runIntegrityGate_def Let_def validation_input_def position_input_def gate_tolerance_def
        no_options_tolerance js_or_def)
  moreover note b = statement_bounds [OF assms(2)] and p = position_totals [OF assms(2)]
  have "imbalance ?es = assets_cents ?es - liabilities_cents ?es - equity_cents ?es"
    by (simp add: imbalance_def)
  then have e: "\<bar>equity_cents ?es + rounding_cents ?es\<bar> < 10 ^ 15"
    "\<bar>liabilities_cents ?es + (equity_cents ?es + rounding_cents ?es)\<bar> < 10 ^ 15"
    using b(1,3,4,9) by (simp_all add: rounding_cents_def)
  have "plus2 D (fp_totalLiabilities ?bs) (fp_totalEquity ?bs)
      = cents_num (liabilities_cents ?es + (equity_cents ?es + rounding_cents ?es))"
    using b(2) e(1) by (simp add: p plus2_cents)
  ultimately have "\<bar>assets_cents ?es - (liabilities_cents ?es + (equity_cents ?es + rounding_cents ?es))\<bar> \<le> 1"
    using within_cap [of "cents_num (assets_cents ?es)" "cents_num (liabilities_cents ?es + (equity_cents ?es + rounding_cents ?es))"]
      b(1) e(2) by (simp only: p in_cents_cents_num cents_of_num simp_thms)
  moreover have "assets_cents ?es - (liabilities_cents ?es + (equity_cents ?es + rounding_cents ?es))
      = imbalance ?es - rounding_cents ?es"
    by (simp add: imbalance_def)
  ultimately show "\<bar>imbalance ?es\<bar> \<le> 1"
    by (auto simp: rounding_cents_def split: if_splits)
qed

lemma entry_lines_in_cents:
  assumes "entries_in_cents es"
  shows "lines_in_cents (map statement_line (map (toLine D) es))"
    and "total_cents (map statement_line (map (toLine D) es)) = line_total es"
    and "(\<Sum>l\<leftarrow>map statement_line (map (toLine D) es). \<bar>cents_of (li_amount l)\<bar>) \<le> volume es"
proof -
  have amount: "li_amount (statement_line (toLine D e)) = cents_num (line_cents e)" "\<bar>line_cents e\<bar> < 10 ^ 15"
    if "e \<in> set es" for e
    using netAmount_cents [OF assms that] entry_small(3) [OF assms that]
    by (simp_all add: statement_line_def cf_line_def toLine_def)
  have "(\<Sum>l\<leftarrow>map statement_line (map (toLine D) es). \<bar>cents_of (li_amount l)\<bar>) = (\<Sum>e\<leftarrow>es. \<bar>line_cents e\<bar>)"
    using amount by (simp add: comp_def cong: map_cong)
  also have "\<dots> \<le> volume es" by (rule abs_sum_lines)
  finally show "(\<Sum>l\<leftarrow>map statement_line (map (toLine D) es). \<bar>cents_of (li_amount l)\<bar>) \<le> volume es" .
  then show "lines_in_cents (map statement_line (map (toLine D) es))"
    using assms amount by (auto simp: lines_in_cents_def entries_in_cents_def list_all_iff)
  show "total_cents (map statement_line (map (toLine D) es)) = line_total es"
    using amount by (simp add: total_cents_def line_total_def comp_def cong: map_cong)
qed

lemma sheet_cash_cents:
  assumes "entries_in_cents es"
  shows "lines_in_cents (map statement_line (bs_asset_lines D es))"
    and "total_cents (filter (\<lambda>a. label_has ''cash'' a \<or> label_has ''bank'' a) (map statement_line (bs_asset_lines D es)))
      = sheet_cash es"
proof -
  have assets: "bs_asset_lines D es = map (toLine D) (asset_entries es)"
    by (simp add: bs_asset_lines_def bs_lines_def asset_entries_def)
  have cents: "entries_in_cents (asset_entries es)"
    using buckets_in_cents [OF assms, of "[CurrentAssets, NoncurrentAssets, Assets]"] by (simp add: asset_entries_def)
  show "lines_in_cents (map statement_line (bs_asset_lines D es))"
    unfolding assets by (rule entry_lines_in_cents(1) [OF cents])
  have "filter (\<lambda>a. label_has ''cash'' a \<or> label_has ''bank'' a) (map statement_line (bs_asset_lines D es))
      = map statement_line (map (toLine D) (filter (\<lambda>e. regex_test cash_pattern (te_accountName e)) (asset_entries es)))"
    unfolding assets
    by (simp add: filter_map comp_def label_has_def statement_line_def cf_line_def toLine_def cash_pattern_label)
  then show "total_cents (filter (\<lambda>a. label_has ''cash'' a \<or> label_has ''bank'' a)
      (map statement_line (bs_asset_lines D es))) = sheet_cash es"
    using entry_lines_in_cents(2) [OF entries_in_cents_filter [OF cents]] by (simp add: sheet_cash_def line_total_def)
qed

lemma addback_cents:
  assumes "entries_in_cents es" and "\<forall>e\<in>set es. te_fsLineId e = None"
  shows "sumPLExpense D (buildProfitAndLoss D es) re = cents_num (addback re es)" and "\<bar>addback re es\<bar> \<le> volume es"
proof -
  have none: "bucketPlByFsLine es b = []" if "b \<notin> {PlRevenue, PlExpenses}" for b
    using assms(2) that by (auto simp: bucketPlByFsLine_def pl_bucket_def fs_in_def filter_empty_conv split: if_splits)
  have lines: "pl_expenses (buildProfitAndLoss D es) = map (toLine D) (bucketPlByFsLine es PlExpenses)"
    by (simp add: buildProfitAndLoss_def Let_def all_expense_lines_def pl_lines_def none)
  let ?es = "filter (\<lambda>e. regex_test re (te_accountName e)) (bucketPlByFsLine es PlExpenses)"
  have cents: "entries_in_cents ?es"
    using assms(1) unfolding bucketPlByFsLine_def by (intro entries_in_cents_filter)
  note sum = sum_of_entries [OF cents, of "netAmount D" line_cents, OF netAmount_cents [OF cents] line_cents_abs]
  have "map fl_amount (filter (\<lambda>l. regex_test re (fl_label l)) (map (toLine D) (bucketPlByFsLine es PlExpenses)))
      = map (netAmount D) ?es"
    by (simp add: filter_map comp_def toLine_def)
  with sum(1) show "sumPLExpense D (buildProfitAndLoss D es) re = cents_num (addback re es)"
    by (simp add: sumPLExpense_def lines addback_def)
  have "volume ?es \<le> volume (bucketPlByFsLine es PlExpenses)" by (rule volume_filter)
  also have "\<dots> \<le> volume es" unfolding bucketPlByFsLine_def by (rule volume_filter)
  finally show "\<bar>addback re es\<bar> \<le> volume es" using sum(2) by (simp add: addback_def)
qed

lemma nonzero_line_cents:
  assumes "\<bar>c\<bar> < 10 ^ 15"
  shows "total_cents (nonzero_line l (cents_num c)) = c"
    and "(\<Sum>x\<leftarrow>nonzero_line l (cents_num c). \<bar>cents_of (li_amount x)\<bar>) = \<bar>c\<bar>"
    and "list_all (\<lambda>x. in_cents (li_amount x)) (nonzero_line l (cents_num c))"
  using cents_num_order(1) [OF assms, of 0] assms
  by (auto simp: nonzero_line_def total_cents_def cf_line_def)

text \<open>The cash flow statement of a first close: net income and its add-backs against the cash balance.\<close>

lemma first_cash_flow:
  assumes es: "entries_in_cents es" "4 * volume es < 10 ^ 15" and none: "\<forall>e\<in>set es. te_fsLineId e = None"
    and raw: "entries_in_cents raw"
  defines "cf \<equiv> buildCashFlowStatement D raw (buildProfitAndLoss D es) None None"
  shows "lines_in_cents (cf_operating cf @ cf_investing cf @ cf_financing cf)"
    and "total_cents (cf_operating cf @ cf_investing cf @ cf_financing cf)
      = result_cents es + addback depreciation_pattern es + addback fx_pattern es + addback sbc_pattern es"
    and "cf_beginningCash cf = Some (Fin 0)"
    and "cf_endingCash cf = (if has_cash raw then Some (cents_num (cash_balance raw)) else None)"
    and "cf_netChangeInCash cf = cents_num (if has_cash raw then cash_balance raw else result_cents es)"
    and "find (label_has ''net income'') (cf_operating cf) = Some (cf_line ''Net income'' (cents_num (result_cents es)))"
proof -
  note add = addback_cents [OF es(1) none] and cash = cash_cents [OF raw]
  note small = result_small [of es]
  have ops: "cf_operating cf = cf_line ''Net income'' (cents_num (result_cents es))
      # nonzero_line ''Depreciation & amortization'' (cents_num (addback depreciation_pattern es))
      @ nonzero_line ''Unrealized (gain)/loss on FX'' (cents_num (addback fx_pattern es))
      @ nonzero_line ''Stock-based compensation'' (cents_num (addback sbc_pattern es))"
    and rest: "cf_investing cf = []" "cf_financing cf = []"
    by (simp_all add: cf_def buildCashFlowStatement_def Let_def operating_lines_def investing_lines_def
        financing_lines_def explicit_movements_def lines_of_class_def add net_income_cents [OF es(1)])
  have bound: "\<bar>addback re es\<bar> < 10 ^ 15" "\<bar>result_cents es\<bar> < 10 ^ 15" for re
    using add(2) [of re] small es(2) volume_nonneg [of es] by auto
  note line = nonzero_line_cents [OF bound(1)]
  show "lines_in_cents (cf_operating cf @ cf_investing cf @ cf_financing cf)"
    using line(2,3) bound(2) small es(2) add(2) [of depreciation_pattern] add(2) [of fx_pattern] add(2) [of sbc_pattern]
    by (simp add: lines_in_cents_def ops rest cf_line_def)
  show "total_cents (cf_operating cf @ cf_investing cf @ cf_financing cf)
      = result_cents es + addback depreciation_pattern es + addback fx_pattern es + addback sbc_pattern es"
    using line(1) bound(2) by (simp add: ops rest total_cents_def cf_line_def)
  show "cf_beginningCash cf = Some (Fin 0)"
    "cf_endingCash cf = (if has_cash raw then Some (cents_num (cash_balance raw)) else None)"
    by (simp_all add: cf_def buildCashFlowStatement_def Let_def explicit_movements_def cash(1))
  have "\<bar>cash_balance raw\<bar> < 10 ^ 15" using cash(2) raw by (simp add: entries_in_cents_def)
  then show "cf_netChangeInCash cf = cents_num (if has_cash raw then cash_balance raw else result_cents es)"
    by (simp add: cf_def buildCashFlowStatement_def Let_def explicit_movements_def cash(1) minus2_cents
        net_income_cents [OF es(1)])
  have "label_has ''net income'' (cf_line ''Net income'' n)" for n
    unfolding label_has_def cf_line_def StatementLine.select_convs by code_simp
  then show "find (label_has ''net income'') (cf_operating cf) = Some (cf_line ''Net income'' (cents_num (result_cents es)))"
    by (simp add: ops)
qed

lemma equity_view:
  fixes f :: rules_file and m :: "number option"
  assumes "entries_in_cents es" and "4 * volume es < 10 ^ 15"
  defines "ls \<equiv> bs_equity (position_view (buildBalanceSheet D f m es))"
  shows "lines_in_cents ls"
    and "map_option (\<lambda>l. cents_of (li_amount l)) (find (label_has ''retained earnings'') ls)
      = map_option line_cents (retained_earnings_entry es)"
proof -
  let ?eq = "bucketBsByFsLine es Equity"
  have cents: "entries_in_cents ?eq"
    using assms(1) unfolding bucketBsByFsLine_def by (rule entries_in_cents_filter)
  have ls: "ls = map statement_line (map (toLine D) ?eq)
      @ (if bs_adjusted (cents_num (imbalance es)) then [cf_line ''Rounding adjustment'' (cents_num (imbalance es))] else [])"
    by (simp add: ls_def position_view_def buildBalanceSheet_def Let_def bs_lines_def
        bs_total_equity_cents(3) [OF assms(1)] statement_line_def bare_line_def cf_line_def)
  note lines = entry_lines_in_cents(1,3) [OF cents]
  have vol: "volume ?eq \<le> volume es" unfolding bucketBsByFsLine_def by (rule volume_filter)
  have small: "\<bar>imbalance es\<bar> < 10 ^ 15" by (rule statement_bounds(5) [OF assms(1)])
  show "lines_in_cents ls"
  proof (cases "bs_adjusted (cents_num (imbalance es))")
    case False
    with lines(1) show ?thesis by (simp add: ls)
  next
    case True
    then have one: "\<bar>imbalance es\<bar> \<le> 1" using adjusted_cents [OF small] by simp
    show ?thesis
      using True one lines vol assms(2) small
      by (simp add: ls lines_in_cents_def cf_line_def)
  qed
  have other: "\<not> label_has ''retained earnings'' (cf_line ''Rounding adjustment'' n)" for n
    unfolding label_has_def cf_line_def StatementLine.select_convs by code_simp
  have "find (label_has ''retained earnings'') (map statement_line (map (toLine D) ?eq))
      = map_option (\<lambda>e. statement_line (toLine D e)) (retained_earnings_entry es)"
    by (simp only: retained_earnings_entry_def find_map option.map_comp comp_def label_has_def statement_line_def
        cf_line_def toLine_def StatementLine.select_convs FinancialStatementLine.select_convs)
  then have found: "find (label_has ''retained earnings'') ls
      = map_option (\<lambda>e. statement_line (toLine D e)) (retained_earnings_entry es)"
    using other by (simp add: ls find_append split: option.split)
  have "cents_of (li_amount (statement_line (toLine D e))) = line_cents e" if "retained_earnings_entry es = Some e" for e
  proof -
    have "e \<in> set es"
      using that by (auto simp: retained_earnings_entry_def bucketBsByFsLine_def dest: find_SomeD)
    from netAmount_cents [OF assms(1) this] entry_small(3) [OF assms(1) this] show ?thesis
      by (simp add: statement_line_def cf_line_def toLine_def)
  qed
  then show "map_option (\<lambda>l. cents_of (li_amount l)) (find (label_has ''retained earnings'') ls)
      = map_option line_cents (retained_earnings_entry es)"
    unfolding found by (cases "retained_earnings_entry es") auto
qed

end

lemma volume_classified [simp]: "volume (map classify_entry es) = volume es"
  by (simp add: volume_def comp_def)

lemma cents_classified [simp]: "entries_in_cents (map classify_entry es) = entries_in_cents es"
  by (simp add: entries_in_cents_def list_all_iff)

lemma no_dividend: "\<not> label_has ''dividend'' (cf_line ''Net income'' n)"
  unfolding label_has_def cf_line_def StatementLine.select_convs by code_simp

lemma first_close_checks:
  assumes "decimal_js D fin v" and "d_of_text D ''0.01'' = Some t" and "fin t" and "v t = 1 / 100"
    and "certified_answer D file payload = Some S" and "sp_comparative payload = None"
    and raw: "entries_in_cents (raw_entries D file payload)" "4 * volume (raw_entries D file payload) < 10 ^ 15"
    and prior: "pred_option in_cents p"
  shows "\<exists>checks. runCrossStatementValidationForCertification D (st_balanceSheet S) (st_netIncome S)
        (st_cashFlow S) (st_equityChanges S) (Some p) = Inr checks
      \<and> (hard_failures checks = [] \<longleftrightarrow> first_close_ties (raw_entries D file payload) p)"
proof -
  let ?raw = "raw_entries D file payload" let ?es = "map classify_entry ?raw"
  obtain st where st: "buildCertifiedStatementsFromSnapshot D file payload = Inr st" and S: "S = statements_view st"
    using assms(5) by (auto simp: certified_answer_def split: sum.splits)
  from certified_result [OF st assms(6)] obtain u where
    u: "buildValidatedStatements D file no_options (payload_trial_balance D file payload) = Inr u"
    and view: "position_view (ce_balanceSheet st) = position_view (va_balanceSheet u)"
    "pl_netIncome (ce_profitAndLoss st) = pl_netIncome (va_profitAndLoss u)"
    "ce_cashFlow st = buildCashFlowStatement D ?raw (va_profitAndLoss u) None None"
    "ce_equityChanges st = buildEquityChangesStatement D (ce_balanceSheet st) None (Some (ce_profitAndLoss st))"
    "fp_oci (ce_balanceSheet st) = None \<longleftrightarrow> fp_oci (va_balanceSheet u) = None"
    unfolding raw_entries_def by blast
  have es: "entries_in_cents ?es" "4 * volume ?es < 10 ^ 15" using raw by simp_all
  note sheet = decimal_js.validated_sheet [OF assms(1) u, folded raw_entries_def, OF es(1)]
  have none: "\<forall>e\<in>set ?es. te_fsLineId e = None" using raw_no_line by auto
  let ?bs = "buildBalanceSheet D file None ?es" and ?ni = "cents_num (result_cents ?es)"
  let ?cf = "buildCashFlowStatement D ?raw (buildProfitAndLoss D ?es) None None"
  note cf = decimal_js.first_cash_flow [OF assms(1) es none raw(1)]
  note totals = decimal_js.position_totals [OF assms(1) es(1), of "file" None]
  note bounds = statement_bounds [OF es(1)] and pl = pl_bounds [OF es(1)]
  note assets = decimal_js.sheet_cash_cents [OF assms(1) es(1)]
  note equity = decimal_js.equity_view [OF assms(1) es, of "file" None]
  have oci: "fp_oci (ce_balanceSheet st) = None"
    using none unfolding view(5) sheet(2)
    by (auto simp: buildBalanceSheet_def Let_def bs_lines_def bucketBsByFsLine_def filter_empty_conv bs_bucket_def
        fs_in_def split: if_splits)
  have closing: "fp_totalEquity (ce_balanceSheet st) = fp_totalEquity ?bs"
    using arg_cong [OF view(1), of bs_totalEquity] by (simp add: position_view_def sheet(2))
  let ?eq = "EquityChangesStatement.truncate (ce_equityChanges st)" and ?c = "CashFlowStatement.truncate ?cf"
  have eq: "eq_openingEquity ?eq = None" "eq_changes ?eq = [cf_line ''Net income'' ?ni]" "eq_ociChanges ?eq = None"
    "eq_closingEquity ?eq = Some (fp_totalEquity ?bs)"
    by (simp_all add: EquityChangesStatement.truncate_def view(2,4) sheet(3) closing buildEquityChangesStatement_def
        Let_def oci decimal_js.net_income_cents [OF assms(1) es(1)])
  have c: "cf_operating ?c = cf_operating ?cf" "cf_investing ?c = cf_investing ?cf" "cf_financing ?c = cf_financing ?cf"
    "cf_netChangeInCash ?c = cf_netChangeInCash ?cf" "cf_beginningCash ?c = cf_beginningCash ?cf"
    "cf_endingCash ?c = cf_endingCash ?cf"
    by (simp_all add: CashFlowStatement.truncate_def)
  have S': "st_balanceSheet S = position_view ?bs" "st_netIncome S = ?ni" "st_cashFlow S = Some ?c"
    "st_equityChanges S = Some ?eq"
    by (simp_all add: S statements_view_def view(1-3) sheet decimal_js.net_income_cents [OF assms(1) es(1)])
  have b: "bs_assets (position_view ?bs) = map statement_line (bs_asset_lines D ?es)"
    "bs_totalAssets (position_view ?bs) = cents_num (assets_cents ?es)"
    "bs_totalLiabilities (position_view ?bs) = cents_num (liabilities_cents ?es)"
    "bs_totalEquity (position_view ?bs) = cents_num (equity_cents ?es + rounding_cents ?es)"
    by (simp_all add: position_view_def totals) (simp add: buildBalanceSheet_def Let_def)
  have sum: "assets_cents ?es = liabilities_cents ?es + (equity_cents ?es + rounding_cents ?es)"
    using sheet(1) by (simp add: rounding_cents_def imbalance_def)
  have small: "\<bar>equity_cents ?es + rounding_cents ?es\<bar> < 10 ^ 15"
    using sum bounds(9) by simp
  have cash: "\<bar>cash_balance ?raw\<bar> < 10 ^ 15"
    using decimal_js.cash_cents(2) [OF assms(1) raw(1)] raw(1) by (simp add: entries_in_cents_def)
  have one: "lines_in_cents [cf_line ''Net income'' ?ni]" "lines_in_cents []"
    using pl(6) by (simp_all add: lines_in_cents_def cf_line_def)
  have "statements_in_cents (position_view ?bs) ?ni ?c ?eq (Some p)"
    using assets(1) equity(1) cf(1) bounds(1,2) small pl(6) cash prior one
    by (simp add: statements_in_cents_def b c eq cf(3-5) js_or_def totals)
  from cross_statement_checks [OF assms(1-4) this] obtain checks where
    run: "runCrossStatementValidationForCertification D (position_view ?bs) ?ni (Some ?c) (Some ?eq) (Some p) = Inr checks"
    and ties: "hard_failures checks = [] \<longleftrightarrow> statements_tie (position_view ?bs) ?ni ?c ?eq (Some p)"
    by blast
  have net: "label_has ''net income'' (cf_line ''Net income'' n)" for n
    unfolding label_has_def cf_line_def StatementLine.select_convs by code_simp
  have line_amount: "li_amount (cf_line l n) = n" for l n by (simp add: cf_line_def)
  note tie_simps = statements_tie_def first_close_ties_def Let_def b c eq cf(2-6) assets(2) net no_dividend totals
    total_cents_def [of "[]"] line_amount
  have "statements_tie (position_view ?bs) ?ni ?c ?eq (Some p) \<longleftrightarrow> first_close_ties ?raw p"
  proof (cases "find (label_has ''retained earnings'') (bs_equity (position_view ?bs))")
    case None
    with equity(2) have "retained_earnings_entry ?es = None" by simp
    with None pl(6) cash sum small bounds(1,2) show ?thesis by (simp add: tie_simps)
  next
    case (Some l)
    with equity(2) obtain e where "retained_earnings_entry ?es = Some e" "cents_of (li_amount l) = line_cents e"
      by (cases "retained_earnings_entry ?es") auto
    with Some pl(6) cash sum small bounds(1,2) show ?thesis by (simp add: tie_simps)
  qed
  with run ties show ?thesis unfolding S' by blast
qed

end
