(* ===== verification/FirstClose.thy ===== *)
theory FirstClose
  imports CertifiedGuarantees
begin

text \<open>
  The first certification of an entity. When a snapshot has certified statements
  (\<open>clean_payload\<close>), and which of those pass the checks between the statements: exactly the books of
  \<open>first_close_ties\<close>.
\<close>

section \<open>The final check\<close>

lemma fold_no_plugs:
  assumes "list_all (\<lambda>e. \<not> is_plug_name (js_trim (pe_accountName e))) es"
  shows "\<exists>n. fold (plug_step D) es (m, p, ns) = (n, p, ns)"
  using assms by (induction es arbitrary: m) (auto simp: plug_step_def Let_def)

lemma no_plugs_not_suspicious:
  assumes "list_all (\<lambda>e. \<not> is_plug_name (js_trim (pe_accountName e))) es"
  shows "\<not> su_isSuspicious (detectSuspiciousPlugs D es th)"
  using fold_no_plugs [OF assms, of D "Fin 0" "Fin 0" "[]"]
  by (auto simp: detectSuspiciousPlugs_def Let_def)

lemma final_check_passed_iff:
  "fc_passed (fst (finalIntegrityCheck D file i)) \<longleftrightarrow>
     gr_passed (runIntegrityGate D file
       \<lparr>gi_trialBalance = fi_trialBalance i, gi_balanceSheet = fi_balanceSheet i, gi_tolerance = fi_tolerance i\<rparr>)
     \<and> \<not> (js_or (fi_entries i) [] \<noteq> []
          \<and> su_isSuspicious (detectSuspiciousPlugs D (js_or (fi_entries i) []) (Some (to_num (9 / 10)))))"
  by (simp add: finalIntegrityCheck_def Let_def split: prod.split)

text \<open>
  A snapshot whose ledger balances in cents, whose accounts have a type of the classifier, none named
  like a plug account, under a supported standard and tolerances of whole cents.
\<close>

definition clean_payload :: "'d decimal_ops \<Rightarrow> rules_file \<Rightarrow> SnapPayload \<Rightarrow> bool" where
  "clean_payload D file payload \<longleftrightarrow>
     (let raw = raw_entries D file payload; tolerance = getRoundingTolerance file in
      (\<exists>t. balanced_ledger file no_options (payload_trial_balance D file payload) (map classify_entry raw) t)
      \<and> list_all (\<lambda>e. list_ex (isType (te_accountType (classify_entry e))) ACCOUNT_TYPES) raw
      \<and> list_all (\<lambda>e. \<not> is_plug_name (js_trim (te_accountName e))) raw
      \<and> (truthy (sp_standard payload) \<longrightarrow> normalizeAccountingStandard (the (sp_standard payload)) \<noteq> None)
      \<and> sp_comparative payload = None \<and> in_cents tolerance \<and> 0 \<le> cents_of tolerance)"

lemma presented:
  assumes "truthy (sp_standard payload) \<longrightarrow> normalizeAccountingStandard (the (sp_standard payload)) \<noteq> None"
  obtains standard bs pl es where "presented_statements payload u = Inr (standard, bs, pl, es)"
    and "position_input bs = position_input (va_balanceSheet u)"
    and "map plug_entry es = map plug_entry (va_classifiedEntries u)"
proof (cases "truthy (sp_standard payload)")
  case True
  with assms obtain standard where "normalizeAccountingStandard (the (sp_standard payload)) = Some standard" by auto
  moreover obtain r1 r2 where "getPresentationReferences standard = (r1, r2)" by fastforce
  ultimately have "presented_statements payload u = Inr (Some standard, present_position r1 (va_balanceSheet u),
      present_income r2 (va_profitAndLoss u), applyEntryPresentationReferences standard (va_classifiedEntries u))"
    using True by (simp add: presented_statements_def applyPresentationReferences_def)
  then show ?thesis
    by (rule that)
      (simp_all add: applyEntryPresentationReferences_def plug_entry_def comp_def split: prod.split)
next
  case False
  show ?thesis by (rule that) (use False in \<open>simp_all add: presented_statements_def\<close>)
qed

lemma certified_exists:
  assumes "decimal_js D fin v" and "clean_payload D file payload"
  shows "certified_answer D file payload \<noteq> None"
proof -
  let ?raw = "raw_entries D file payload" let ?es = "map classify_entry ?raw"
  let ?tb = "payload_trial_balance D file payload" and ?tol = "getRoundingTolerance file"
  have raw: "tr_entries ?tb = ?raw" by (simp add: raw_entries_def)
  obtain t where bal: "balanced_ledger file no_options ?tb ?es t"
    and types: "list_all (\<lambda>e. list_ex (isType (te_accountType (classify_entry e))) ACCOUNT_TYPES) ?raw"
    and plugs: "list_all (\<lambda>e. \<not> is_plug_name (js_trim (te_accountName e))) ?raw"
    and standard: "truthy (sp_standard payload) \<longrightarrow> normalizeAccountingStandard (the (sp_standard payload)) \<noteq> None"
    and first: "sp_comparative payload = None" and tol: "in_cents ?tol" "0 \<le> cents_of ?tol"
    using assms(2) unfolding clean_payload_def Let_def by blast
  have es: "entries_in_cents ?es" using bal by (simp add: balanced_ledger_def)
  have "list_all well_routed ?es"
    using types raw_no_line [of _ D "file" payload] typed_routed by (auto simp: list_all_iff)
  then have zero: "(\<Sum>e\<leftarrow>?es. misposted e) = 0"
    using misposted_zero by (simp add: list_all_iff cong: map_cong)
  have classified: "classified_entries no_options ?tb = ?es" by (simp add: raw)
  from balanced_cases [OF assms(1), of "file" no_options ?tb t] bal zero obtain u where
    u: "buildValidatedStatements D file no_options ?tb = Inr u" "va_classifiedEntries u = ?es"
    "va_balanceSheet u = buildBalanceSheet D file (so_materiality no_options) ?es"
    unfolding classified by (auto split: sum.splits)
  from presented [OF standard] obtain std bs pl cls where
    p: "presented_statements payload u = Inr (std, bs, pl, cls)" "position_input bs = position_input (va_balanceSheet u)"
    "map plug_entry cls = map plug_entry ?es" unfolding u(2) [symmetric] by blast
  note totals = decimal_js.position_totals [OF assms(1) es, of "file" "so_materiality no_options"]
  note bounds = statement_bounds [OF es]
  have round: "rounding_cents ?es = 0" "imbalance ?es = 0"
    using imbalance_ledger [of ?es] zero balanced_net [OF bal] by (simp_all add: rounding_cents_def)
  have "gr_passed (runIntegrityGate D file \<lparr>gi_trialBalance = GateTotals (tr_totalDebits ?tb) (tr_totalCredits ?tb),
      gi_balanceSheet = position_input (va_balanceSheet u), gi_tolerance = Some ?tol\<rparr>)" (is "gr_passed (runIntegrityGate D file ?i)")
  proof -
    have "gate_tolerance file ?i = ?tol" by (simp add: gate_tolerance_def js_or_def)
    moreover have "assets_cents ?es = liabilities_cents ?es + equity_cents ?es"
      using round(2) by (simp add: imbalance_def)
    ultimately show ?thesis
      using decimal_js.gate_cents [OF assms(1), of "tr_totalDebits ?tb" "tr_totalCredits ?tb"
          "cents_num (assets_cents ?es)" "cents_num (liabilities_cents ?es)" "cents_num (equity_cents ?es)" "file" ?i]
        bal tol bounds(1-4)
      by (simp add: gate_passed_iff position_input_def u(3) totals round(1) balanced_ledger_def)
  qed
  moreover have "\<not> su_isSuspicious (detectSuspiciousPlugs D (map plug_entry ?es) th)" for th
    using plugs by (intro no_plugs_not_suspicious) (simp add: list_all_iff plug_entry_def)
  ultimately have "fc_passed (certified_final_check D file ?tb bs cls)"
    by (simp add: certified_final_check_def final_check_passed_iff p(2,3) js_or_def)
  then show ?thesis
    by (simp add: certified_answer_def buildCertifiedStatementsFromSnapshot_def Let_def u(1) p(1) first prior_position_def)
qed

section \<open>The books a first certification accepts\<close>

text \<open>
  C28. Let the certification take its statements from the pipeline, and let the snapshot be the first of
  its entity, clean, and below a quarter of \<open>10 ^ 15\<close> cents in volume. Then the statements pass their
  checks exactly when net income with its add-backs is the cash balance to the cent, the accounts named
  cash or bank sum to those of them that are assets, and the account named retained earnings has moved
  from its prior value by net income to the cent. In particular a capital contribution in the first period
  prevents the certification.
\<close>

theorem first_close_exact:
  assumes "decimal_js D fin v" and "d_of_text D ''0.01'' = Some t" and "fin t" and "v t = 1 / 100"
    and "an_statements A = certified_answer D file" and "clean_payload D file payload"
    and "4 * volume (raw_entries D file payload) < 10 ^ 15" and "pred_option in_cents p"
  shows "(\<exists>checks. validated_statements D A payload p = Inr checks)
    \<longleftrightarrow> first_close_ties (raw_entries D file payload) p"
proof -
  obtain S where S: "certified_answer D file payload = Some S"
    using certified_exists [OF assms(1,6)] by blast
  have "sp_comparative payload = None" "entries_in_cents (raw_entries D file payload)"
    using assms(6) by (auto simp: clean_payload_def Let_def balanced_ledger_def)
  from first_close_checks [OF assms(1-4) S this assms(7,8)] obtain checks where
    "runCrossStatementValidationForCertification D (st_balanceSheet S) (st_netIncome S)
        (st_cashFlow S) (st_equityChanges S) (Some p) = Inr checks"
    "hard_failures checks = [] \<longleftrightarrow> first_close_ties (raw_entries D file payload) p"
    by blast
  with S assms(5) show ?thesis by (auto simp: validated_statements_def)
qed

definition demo_account :: "string \<Rightarrow> int \<Rightarrow> int \<Rightarrow> SnapEntry" where
  "demo_account name d c =
     \<lparr>sn_lineId = None, sn_accountName = name, sn_debit = Some (cents_num d), sn_credit = Some (cents_num c),
      sn_accountCode = None, sn_accountType = None, sn_description = None, sn_provenance = None\<rparr>"

definition demo_payload :: "(string \<times> int \<times> int) list \<Rightarrow> SnapPayload" where
  "demo_payload rows = snapshot_payload dec_model (map (\<lambda>(n, d, c). demo_account n d c) rows) None ''IFRS''"

lemma demo_raw:
  "raw_entries dec_model RulesMissing (demo_payload rows) = map (\<lambda>(n, d, c). demo_entry n d c None None) rows"
  by (simp add: raw_entries_def payload_trial_balance_def snapshotPayloadToTrialBalanceResult_def Let_def
      demo_payload_def snapshot_payload_def payload_entry_def snapshotEntryToTrialBalanceEntry_def trial_entry_def
      demo_account_def demo_entry_def js_or_def comp_def split_def nonempty_def)

lemma demo_totals:
  assumes "(\<Sum>(n, d, c)\<leftarrow>rows. \<bar>d\<bar>) < 10 ^ 15" and "(\<Sum>(n, d, c)\<leftarrow>rows. \<bar>c\<bar>) < 10 ^ 15"
  shows "tr_totalDebits (payload_trial_balance dec_model RulesMissing (demo_payload rows)) = cents_num (\<Sum>(n, d, c)\<leftarrow>rows. d)"
    and "tr_totalCredits (payload_trial_balance dec_model RulesMissing (demo_payload rows)) = cents_num (\<Sum>(n, d, c)\<leftarrow>rows. c)"
  using dec.sum_cents_num [of "map (\<lambda>(n, d, c). d) rows"] dec.sum_cents_num [of "map (\<lambda>(n, d, c). c) rows"] assms
  by (simp_all add: payload_trial_balance_def snapshotPayloadToTrialBalanceResult_def Let_def
      demo_payload_def snapshot_payload_def demo_account_def js_or_def comp_def split_def)

lemma demo_clean:
  assumes "(\<Sum>(n, d, c)\<leftarrow>rows. \<bar>d\<bar> + \<bar>c\<bar>) < 10 ^ 15" and "(\<Sum>(n, d, c)\<leftarrow>rows. d) = (\<Sum>(n, d, c)\<leftarrow>rows. c)"
    and "list_all (\<lambda>(n, d, c). list_ex (isType (Some (classifyAccountName n))) ACCOUNT_TYPES \<and> \<not> is_plug_name (js_trim n)) rows"
  shows "clean_payload dec_model RulesMissing (demo_payload rows)"
    and "volume (raw_entries dec_model RulesMissing (demo_payload rows)) = (\<Sum>(n, d, c)\<leftarrow>rows. \<bar>d\<bar> + \<bar>c\<bar>)"
proof -
  let ?raw = "raw_entries dec_model RulesMissing (demo_payload rows)"
  have small: "\<bar>d\<bar> < 10 ^ 15 \<and> \<bar>c\<bar> < 10 ^ 15" if "(n, d, c) \<in> set rows" for n d c
    using member_le_sum [of "\<lambda>(n, d, c). \<bar>d\<bar> + \<bar>c\<bar>", OF _ that] assms(1) by auto
  have cents: "(\<Sum>x\<leftarrow>rows. f (cents_of (cents_num (fst (snd x)))) (cents_of (cents_num (snd (snd x)))))
      = (\<Sum>x\<leftarrow>rows. f (fst (snd x)) (snd (snd x)))" for f :: "int \<Rightarrow> int \<Rightarrow> int"
    using small by (intro arg_cong [where f = sum_list] map_cong) auto
  show vol: "volume ?raw = (\<Sum>(n, d, c)\<leftarrow>rows. \<bar>d\<bar> + \<bar>c\<bar>)"
    using cents [of "\<lambda>d c. \<bar>d\<bar> + \<bar>c\<bar>"] by (simp add: demo_raw volume_def comp_def split_def)
  have raw: "entries_in_cents ?raw"
    using small vol assms(1) by (auto simp: entries_in_cents_def demo_raw list_all_iff)
  have "(\<Sum>(n, d, c)\<leftarrow>rows. \<bar>d\<bar>) \<le> (\<Sum>(n, d, c)\<leftarrow>rows. \<bar>d\<bar> + \<bar>c\<bar>)"
    "(\<Sum>(n, d, c)\<leftarrow>rows. \<bar>c\<bar>) \<le> (\<Sum>(n, d, c)\<leftarrow>rows. \<bar>d\<bar> + \<bar>c\<bar>)"
    by (auto intro: sum_list_mono)
  then have bounds: "(\<Sum>(n, d, c)\<leftarrow>rows. \<bar>d\<bar>) < 10 ^ 15" "(\<Sum>(n, d, c)\<leftarrow>rows. \<bar>c\<bar>) < 10 ^ 15"
    using assms(1) by simp_all
  then have totals: "\<bar>\<Sum>(n, d, c)\<leftarrow>rows. d\<bar> < 10 ^ 15" "\<bar>\<Sum>(n, d, c)\<leftarrow>rows. c\<bar> < 10 ^ 15"
    using sum_list_abs [of "map (\<lambda>(n, d, c). d) rows"] sum_list_abs [of "map (\<lambda>(n, d, c). c) rows"]
    by (simp_all add: comp_def split_def)
  have "balanced_ledger RulesMissing no_options (payload_trial_balance dec_model RulesMissing (demo_payload rows))
      (map classify_entry ?raw) 1"
    using raw totals assms(2) cents [of "\<lambda>d c. d"] cents [of "\<lambda>d c. c"]
    by (simp add: balanced_ledger_def demo_totals [OF bounds] no_options_tolerance js_or_def default_tolerance)
      (simp add: demo_raw comp_def split_def)
  moreover have "list_all (\<lambda>e. list_ex (isType (te_accountType (classify_entry e))) ACCOUNT_TYPES) ?raw"
    using assms(3) by (auto simp: demo_raw list_all_iff)
  moreover have "getRoundingTolerance RulesMissing = cents_num 1"
    by (simp add: getRoundingTolerance_def getFinancialRules_def default_rules_def DEFAULT_ROUNDING_TOLERANCE_def
        cents_num_def money_def)
  moreover have "normalizeAccountingStandard ''IFRS'' \<noteq> None" by code_simp
  moreover have "list_all (\<lambda>e. \<not> is_plug_name (js_trim (te_accountName e))) ?raw"
    using assms(3) by (auto simp: demo_raw list_all_iff)
  moreover have "sp_comparative (demo_payload rows) = None" "sp_standard (demo_payload rows) = Some ''IFRS''"
    by (simp_all add: demo_payload_def snapshot_payload_def)
  ultimately show "clean_payload dec_model RulesMissing (demo_payload rows)"
    unfolding clean_payload_def Let_def by auto
qed

text \<open>
  Three books: consulting sales collected in cash, a capital contribution paid into the bank, and the
  sales with an expense whose name contains bank.
\<close>

definition demo_sales :: "(string \<times> int \<times> int) list" where
  "demo_sales = [(''Cash'', 70000, 0), (''Consulting Revenue'', 0, 90000), (''Rent Expense'', 20000, 0)]"

definition demo_contribution :: "(string \<times> int \<times> int) list" where
  "demo_contribution = [(''Cash'', 100000, 0), (''Share Capital'', 0, 100000)]"

definition demo_charges :: "(string \<times> int \<times> int) list" where
  "demo_charges = [(''Cash'', 70000, 0), (''Consulting Revenue'', 0, 90000), (''Bank Fees Expense'', 20000, 0)]"

lemma demo_books_clean:
  "clean_payload dec_model RulesMissing (demo_payload demo_sales)"
  "clean_payload dec_model RulesMissing (demo_payload demo_contribution)"
  "clean_payload dec_model RulesMissing (demo_payload demo_charges)"
proof -
  have "list_all (\<lambda>n. list_ex (isType (Some (classifyAccountName n))) ACCOUNT_TYPES \<and> \<not> is_plug_name (js_trim n))
      [''Cash'', ''Consulting Revenue'', ''Rent Expense'', ''Share Capital'', ''Bank Fees Expense'']"
    by code_simp
  then show "clean_payload dec_model RulesMissing (demo_payload demo_sales)"
    "clean_payload dec_model RulesMissing (demo_payload demo_contribution)"
    "clean_payload dec_model RulesMissing (demo_payload demo_charges)"
    by (intro demo_clean(1); simp add: demo_sales_def demo_contribution_def demo_charges_def)+
qed

lemma types_upper: "list_all (\<lambda>t. list_all (\<lambda>u. isType (Some t) u \<longleftrightarrow> t = u) ACCOUNT_TYPES) ACCOUNT_TYPES"
  by code_simp

lemma demo_routes:
  assumes "classifyAccountName n = t" and "t \<in> set ACCOUNT_TYPES"
  shows "bs_bucket (classify_entry (demo_entry n d c None None))
      = (if t = ASSET then Some Assets else if t = LIABILITY then Some Liabilities
         else if t = EQUITY then Some Equity else if t = REVENUE then Some Revenue else Some Expenses)"
    and "pl_bucket (classify_entry (demo_entry n d c None None))
      = (if t = REVENUE then Some PlRevenue else if t = EXPENSE then Some PlExpenses else None)"
    and "credit_positive (classify_entry (demo_entry n d c None None)) \<longleftrightarrow> t \<notin> {ASSET, EXPENSE}"
proof -
  have type: "isType (Some t) u \<longleftrightarrow> t = u" if "u \<in> set ACCOUNT_TYPES" for u
    using types_upper assms(2) that by (simp add: list_all_iff)
  have t: "t = ASSET \<or> t = LIABILITY \<or> t = EQUITY \<or> t = REVENUE \<or> t = EXPENSE"
    using assms(2) by (auto simp: ACCOUNT_TYPES_def)
  have "distinct [ASSET, LIABILITY, EQUITY, REVENUE, EXPENSE]" by code_simp
  with t show "bs_bucket (classify_entry (demo_entry n d c None None))
      = (if t = ASSET then Some Assets else if t = LIABILITY then Some Liabilities
         else if t = EQUITY then Some Equity else if t = REVENUE then Some Revenue else Some Expenses)"
    and "pl_bucket (classify_entry (demo_entry n d c None None))
      = (if t = REVENUE then Some PlRevenue else if t = EXPENSE then Some PlExpenses else None)"
    and "credit_positive (classify_entry (demo_entry n d c None None)) \<longleftrightarrow> t \<notin> {ASSET, EXPENSE}"
    by (auto simp: bs_bucket_def pl_bucket_def credit_positive_def fs_in_def assms(1) type ACCOUNT_TYPES_def)
qed

lemma demo_types_first:
  "classifyAccountName ''Cash'' = ASSET" "classifyAccountName ''Rent Expense'' = EXPENSE"
  "classifyAccountName ''Share Capital'' = EQUITY" "classifyAccountName ''Bank Fees Expense'' = EXPENSE"
  by code_simp+

lemma type_members: "ASSET \<in> set ACCOUNT_TYPES" "EQUITY \<in> set ACCOUNT_TYPES" "REVENUE \<in> set ACCOUNT_TYPES"
  "EXPENSE \<in> set ACCOUNT_TYPES"
  by code_simp+

lemmas demo_routed_accounts [simp] =
  demo_routes [OF demo_types_first(1) type_members(1), simplified]
  demo_routes [OF demo_types(3) type_members(3), simplified]
  demo_routes [OF demo_types_first(2) type_members(4), simplified]
  demo_routes [OF demo_types_first(3) type_members(2), simplified]
  demo_routes [OF demo_types_first(4) type_members(4), simplified]

lemma demo_patterns:
  "regex_test cash_pattern ''Cash''" "\<not> regex_test cash_pattern ''Consulting Revenue''"
  "\<not> regex_test cash_pattern ''Rent Expense''" "\<not> regex_test cash_pattern ''Share Capital''"
  "regex_test cash_pattern ''Bank Fees Expense''"
  "\<not> regex_test depreciation_pattern ''Rent Expense''" "\<not> regex_test depreciation_pattern ''Bank Fees Expense''"
  "\<not> regex_test fx_pattern ''Rent Expense''" "\<not> regex_test fx_pattern ''Bank Fees Expense''"
  "\<not> regex_test sbc_pattern ''Rent Expense''" "\<not> regex_test sbc_pattern ''Bank Fees Expense''"
  "\<not> js_includes (js_toLowerCase ''Share Capital'') ''retained earnings''"
  by code_simp+

lemmas demo_tie_simps = first_close_ties_def Let_def demo_raw has_cash_def cash_balance_def normal_cents_def
  credit_normal_def net_cents_def result_cents_def pl_bucket_cents_def pl_cents_def group_total_def
  line_cents_def addback_def bucketPlByFsLine_def bucketBsByFsLine_def sheet_cash_def
  asset_entries_def retained_earnings_entry_def js_or_def demo_patterns

lemma demo_ties_first:
  "first_close_ties (raw_entries dec_model RulesMissing (demo_payload demo_sales)) None"
  "\<not> first_close_ties (raw_entries dec_model RulesMissing (demo_payload demo_contribution)) None"
  "\<not> first_close_ties (raw_entries dec_model RulesMissing (demo_payload demo_charges)) None"
  by (simp_all add: demo_tie_simps demo_sales_def demo_contribution_def demo_charges_def del: classify_entry_simps(5))

definition demo_pipeline :: certify_answers where
  "demo_pipeline = \<lparr>an_allowSameUserCertify = False, an_hardBlockers = [], an_evidenceBlockers = [],
     an_trialBalance = None, an_statements = certified_answer dec_model RulesMissing, an_generalLedger = None,
     an_manifest = Inr (JObj []), an_gates = None, an_aiMetadata = None, an_mode = ''dev'',
     an_sign = (\<lambda>h. Some (None, ''ed25519''))\<rparr>"

theorem first_close_exact_witness:
  "(\<exists>checks. validated_statements dec_model demo_pipeline (demo_payload demo_sales) None = Inr checks)
   \<and> \<not> (\<exists>checks. validated_statements dec_model demo_pipeline (demo_payload demo_contribution) None = Inr checks)
   \<and> \<not> (\<exists>checks. validated_statements dec_model demo_pipeline (demo_payload demo_charges) None = Inr checks)"
proof -
  note exact = first_close_exact [OF dec.decimal_js_axioms demo_tolerance, of demo_pipeline RulesMissing]
  have "4 * volume (raw_entries dec_model RulesMissing (demo_payload rows)) < 10 ^ 15"
    if "rows \<in> {demo_sales, demo_contribution, demo_charges}" for rows
    using that by (auto simp: demo_raw volume_def demo_sales_def demo_contribution_def demo_charges_def)
  then show ?thesis
    using exact [of "demo_payload demo_sales" None] exact [of "demo_payload demo_contribution" None]
      exact [of "demo_payload demo_charges" None] demo_books_clean demo_ties_first
    by (simp add: demo_pipeline_def dec_model_val_def)
qed

end
