(* ===== verification/TrialBalanceStore.thy ===== *)
theory TrialBalanceStore
  imports SessionAdvance AccountClassifier JournalPosting
begin

text \<open>
  The tables that a trial balance is computed from: \<open>src/src/db/repositories/general_ledger_repository.ts\<close>,
  \<open>coa_repository.ts\<close>, \<open>period_trial_balance_repository.ts\<close> and \<open>close_adjustment_repository.ts\<close>, with
  \<open>src/src/services/trial_balance_store_service.ts\<close> and the period arithmetic of
  \<open>src/src/services/close_context.ts\<close>.

  The services keep a store in memory when no database is configured; the model has the database.
  \<open>cl\<close> is the collation key of a text (\<open>ORDER BY\<close>, \<open>localeCompare\<close>). A NUMERIC(20,2) column is a
  number of cents, and its text is that of PostgreSQL. The columns for currencies and for
  the provenance of a ledger line, which no reader of the model uses, are left out.
\<close>

section \<open>Tables\<close>

record gl_row =
  gn_tenant :: tenant_id
  gn_period :: string
  gn_entry :: string
  gn_line :: int
  gn_date :: string
  gn_code :: string
  gn_name :: "string option"
  gn_debit :: int
  gn_credit :: int
  gn_description :: "string option"
  gn_created_by :: "string option"

record coa_row =
  co_tenant :: tenant_id
  co_code :: string
  co_name :: string
  co_type :: string
  co_subtype :: "string option"
  co_parent :: "string option"
  co_active :: bool

datatype PeriodTrialBalanceSource = Uploaded | Synced | GlDerived

record tb_row =
  pt_tenant :: tenant_id
  pt_period :: string
  pt_source :: PeriodTrialBalanceSource
  pt_entries :: "TrialBalanceEntry list"
  pt_uploaded_at :: "timestamp option"
  pt_uploaded_by :: "string option"
  pt_synced_at :: "timestamp option"
  pt_synced_by :: "string option"
  pt_file_name :: "string option"
  pt_connection_id :: "string option"
  pt_created_at :: timestamp
  pt_updated_at :: timestamp

datatype CloseAdjustmentStatus = AdjPending | AdjApproved | AdjRejected | AdjPosted

record AdjustmentLine =
  aj_account :: string
  aj_amount :: number
  aj_code :: "string option"
  aj_lineId :: "string option"

record adjustment_row =
  ad_id :: string
  ad_tenant :: tenant_id
  ad_period :: string
  ad_source :: string
  ad_description :: string
  ad_debits :: "AdjustmentLine list"
  ad_credits :: "AdjustmentLine list"
  ad_source_detail :: "string option"
  ad_status :: CloseAdjustmentStatus
  ad_created_at :: timestamp
  ad_updated_at :: timestamp
  ad_approved_by :: "string option"
  ad_approved_at :: "timestamp option"
  ad_posted_at :: "timestamp option"
  ad_posted_external_id :: "string option"

record tb_db = module_db +
  general_ledger :: "gl_row list"
  chart_of_accounts :: "coa_row list"
  period_trial_balance :: "tb_row list"
  close_adjustments :: "adjustment_row list"

type_synonym ('a, 'b) tb_op = "'a tb_db_scheme \<Rightarrow> (error + 'b) \<times> 'a tb_db_scheme"

section \<open>general\_ledger\_repository.ts\<close>

text \<open>
  A line as an upload has it: the amounts are texts, read by PostgreSQL as NUMERIC and rounded to cents
  (\<open>num_in\<close> is the value of a text, if it is a numeral).
\<close>

record GLUpload =
  gu_entry :: string
  gu_line :: int
  gu_date :: string
  gu_code :: string
  gu_name :: "string option"
  gu_debit :: "string option"
  gu_credit :: "string option"
  gu_description :: "string option"

definition trimmed :: "string option \<Rightarrow> string option" where
  "trimmed x = nonempty (map_option js_trim x)"

definition numeric_cents :: "(string \<Rightarrow> rat option) \<Rightarrow> string option \<Rightarrow> int option" where
  "numeric_cents num_in x =
     (case num_in (js_or x ''0'') of
        None \<Rightarrow> None
      | Some r \<Rightarrow> let c = round_half_up (r * 100) in if \<bar>c\<bar> < 10 ^ 20 then Some c else None)"

definition insert_gl_row :: "gl_row \<Rightarrow> ('a, unit) tb_op" where
  "insert_gl_row r s =
     (if gn_debit r < 0 \<or> gn_credit r < 0 then (Inl (DbError ''general_ledger_check''), s)
      else if gn_debit r \<noteq> 0 \<and> gn_credit r \<noteq> 0 then (Inl (DbError ''chk_gl_line_debit_or_credit''), s)
      else if list_ex (\<lambda>q. gn_tenant q = gn_tenant r \<and> gn_period q = gn_period r \<and> gn_entry q = gn_entry r
             \<and> gn_line q = gn_line r) (general_ledger s)
      then (Inl (DbError ''general_ledger_tenant_id_period_label_entry_id_line_number_key''), s)
      else (Inr (), s\<lparr>general_ledger := general_ledger s @ [r]\<rparr>))"

fun insert_gl_lines ::
  "(string \<Rightarrow> rat option) \<Rightarrow> tenant_id \<Rightarrow> string \<Rightarrow> string option \<Rightarrow> GLUpload list \<Rightarrow> ('a, unit) tb_op" where
  "insert_gl_lines num_in tenant period user [] s = (Inr (), s)"
| "insert_gl_lines num_in tenant period user (l # ls) s =
     (case (numeric_cents num_in (gu_debit l), numeric_cents num_in (gu_credit l)) of
        (Some d, Some c) \<Rightarrow>
          andThen (insert_gl_row \<lparr>gn_tenant = tenant, gn_period = period, gn_entry = gu_entry l, gn_line = gu_line l,
              gn_date = take 10 (gu_date l), gn_code = gu_code l, gn_name = trimmed (gu_name l), gn_debit = d,
              gn_credit = c, gn_description = trimmed (gu_description l), gn_created_by = user\<rparr> s)
            (\<lambda>_ s. insert_gl_lines num_in tenant period user ls s)
      | _ \<Rightarrow> (Inl (DbError ''invalid input syntax for type numeric''), s))"

text \<open>The trigger of migration 209 refuses to delete a row of a certified period.\<close>

definition deleteGLForPeriod :: "tenant_id \<Rightarrow> string \<Rightarrow> ('a, unit) tb_op" where
  "deleteGLForPeriod tenant period s =
     (let hit = (\<lambda>r. gn_tenant r = tenant \<and> gn_period r = period) in
      if list_ex hit (general_ledger s)
         \<and> list_ex (\<lambda>a. ca_tenant a = tenant \<and> ca_period_label a = period) (certification_artifacts s)
      then (Inl (DbError ''GL entry cannot be modified after period certification''), s)
      else (Inr (), s\<lparr>general_ledger := delete_where hit (general_ledger s)\<rparr>))"

definition upsertGLForPeriod ::
  "(string \<Rightarrow> rat option) \<Rightarrow> tenant_id \<Rightarrow> string \<Rightarrow> GLUpload list \<Rightarrow> string option \<Rightarrow> ('a, unit) tb_op" where
  "upsertGLForPeriod num_in tenant period lines user =
     withTransaction (\<lambda>s. andThen (deleteGLForPeriod tenant period s)
       (\<lambda>_ s. insert_gl_lines num_in tenant period user lines s))"

text \<open>\<open>ORDER BY entry_id, line_number\<close>.\<close>

definition getGLForPeriod :: "(string \<Rightarrow> string) \<Rightarrow> tenant_id \<Rightarrow> string \<Rightarrow> 'a tb_db_scheme \<Rightarrow> gl_row list" where
  "getGLForPeriod cl tenant period s =
     sort_key (\<lambda>r. cl (gn_entry r)) (sort_key gn_line
       (filter (\<lambda>r. gn_tenant r = tenant \<and> gn_period r = period) (general_ledger s)))"

definition getGLEntry :: "tenant_id \<Rightarrow> string \<Rightarrow> string \<Rightarrow> 'a tb_db_scheme \<Rightarrow> gl_row list" where
  "getGLEntry tenant period entryId s =
     sort_key gn_line (filter (\<lambda>r. gn_tenant r = tenant \<and> gn_period r = period \<and> gn_entry r = entryId)
       (general_ledger s))"

definition getEntryIds :: "(string \<Rightarrow> string) \<Rightarrow> tenant_id \<Rightarrow> string \<Rightarrow> 'a tb_db_scheme \<Rightarrow> string list" where
  "getEntryIds cl tenant period s =
     sort_key cl (remdups (map gn_entry
       (filter (\<lambda>r. gn_tenant r = tenant \<and> gn_period r = period) (general_ledger s))))"

section \<open>coa\_repository.ts\<close>

definition VALID_ACCOUNT_TYPES :: "string list" where
  "VALID_ACCOUNT_TYPES = [''Asset'', ''Liability'', ''Equity'', ''Revenue'', ''Expense'']"

record CoaUpload =
  cu_code :: string
  cu_name :: string
  cu_type :: string
  cu_subtype :: "string option"
  cu_parent :: "string option"

definition upsert_account :: "coa_row \<Rightarrow> 'a tb_db_scheme \<Rightarrow> 'a tb_db_scheme" where
  "upsert_account r s =
     (let same = (\<lambda>q. co_tenant q = co_tenant r \<and> co_code q = co_code r) in
      s\<lparr>chart_of_accounts :=
          if list_ex same (chart_of_accounts s)
          then update_where same (\<lambda>q. r\<lparr>co_active := co_active q\<rparr>) (chart_of_accounts s)
          else chart_of_accounts s @ [r]\<rparr>)"

text \<open>The loop runs outside a transaction: the accounts before a bad one stay.\<close>

fun upsert_account_rows :: "tenant_id \<Rightarrow> CoaUpload list \<Rightarrow> ('a, unit) tb_op" where
  "upsert_account_rows tenant [] s = (Inr (), s)"
| "upsert_account_rows tenant (a # accounts) s =
     (if js_trim (cu_code a) = [] \<or> js_trim (cu_name a) = []
      then (Inl (JsError ''account_code and account_name are required''), s)
      else upsert_account_rows tenant accounts
        (upsert_account \<lparr>co_tenant = tenant, co_code = js_trim (cu_code a), co_name = js_trim (cu_name a),
           co_type = js_trim (cu_type a), co_subtype = trimmed (cu_subtype a), co_parent = trimmed (cu_parent a),
           co_active = True\<rparr> s))"

definition upsertAccounts :: "tenant_id \<Rightarrow> CoaUpload list \<Rightarrow> ('a, unit) tb_op" where
  "upsertAccounts tenant accounts s =
     (case find (\<lambda>a. js_trim (cu_type a) \<notin> set VALID_ACCOUNT_TYPES) accounts of
        Some a \<Rightarrow> (Inl (JsError (''Invalid account_type '' @ CHR 0x22 # cu_type a @ CHR 0x22 # ''. Must be one of: ''
                     @ js_join '', '' VALID_ACCOUNT_TYPES)), s)
      | None \<Rightarrow> upsert_account_rows tenant accounts s)"

definition getAccountsByTenant :: "(string \<Rightarrow> string) \<Rightarrow> tenant_id \<Rightarrow> 'a tb_db_scheme \<Rightarrow> coa_row list" where
  "getAccountsByTenant cl tenant s =
     sort_key (\<lambda>r. cl (co_code r)) (filter (\<lambda>r. co_tenant r = tenant \<and> co_active r) (chart_of_accounts s))"

definition getAccountByCode :: "tenant_id \<Rightarrow> string \<Rightarrow> 'a tb_db_scheme \<Rightarrow> coa_row option" where
  "getAccountByCode tenant code s = find (\<lambda>r. co_tenant r = tenant \<and> co_code r = code) (chart_of_accounts s)"

definition deactivateAccount :: "tenant_id \<Rightarrow> string \<Rightarrow> 'a tb_db_scheme \<Rightarrow> bool \<times> 'a tb_db_scheme" where
  "deactivateAccount tenant code s =
     (let hit = (\<lambda>r. co_tenant r = tenant \<and> co_code r = code)
      in (0 < row_count hit (chart_of_accounts s),
          s\<lparr>chart_of_accounts := update_where hit (co_active_update (\<lambda>_. False)) (chart_of_accounts s)\<rparr>))"

definition validateAccountExists :: "tenant_id \<Rightarrow> string \<Rightarrow> 'a tb_db_scheme \<Rightarrow> bool" where
  "validateAccountExists tenant code s \<longleftrightarrow> getAccountByCode tenant code s \<noteq> None"

section \<open>period\_trial\_balance\_repository.ts\<close>

record PeriodTrialBalanceMeta =
  pm_source :: PeriodTrialBalanceSource
  pm_by :: "string option"
  pm_fileName :: "string option"
  pm_connectionId :: "string option"

text \<open>The row of the INSERT: the user and the time go to the columns of the source.\<close>

definition tb_insert_row ::
  "tenant_id \<Rightarrow> string \<Rightarrow> TrialBalanceEntry list \<Rightarrow> PeriodTrialBalanceMeta \<Rightarrow> timestamp \<Rightarrow> tb_row" where
  "tb_insert_row tenant period entries meta t =
     (let up = pm_source meta \<noteq> Synced in
      \<lparr>pt_tenant = tenant, pt_period = period, pt_source = pm_source meta, pt_entries = entries,
       pt_uploaded_at = (if up then Some t else None), pt_uploaded_by = (if up then pm_by meta else None),
       pt_synced_at = (if up then None else Some t), pt_synced_by = (if up then None else pm_by meta),
       pt_file_name = pm_fileName meta, pt_connection_id = pm_connectionId meta,
       pt_created_at = t, pt_updated_at = t\<rparr>)"

text \<open>\<open>ON CONFLICT DO UPDATE\<close>: a null of the new row keeps the old value.\<close>

definition tb_merge_row :: "tb_row \<Rightarrow> tb_row \<Rightarrow> tb_row" where
  "tb_merge_row r q =
     q\<lparr>pt_source := pt_source r, pt_entries := pt_entries r,
       pt_uploaded_at := coalesce (pt_uploaded_at r) (pt_uploaded_at q),
       pt_uploaded_by := coalesce (pt_uploaded_by r) (pt_uploaded_by q),
       pt_synced_at := coalesce (pt_synced_at r) (pt_synced_at q),
       pt_synced_by := coalesce (pt_synced_by r) (pt_synced_by q),
       pt_file_name := coalesce (pt_file_name r) (pt_file_name q),
       pt_connection_id := coalesce (pt_connection_id r) (pt_connection_id q),
       pt_updated_at := pt_updated_at r\<rparr>"

definition tb_of :: "tenant_id \<Rightarrow> string \<Rightarrow> tb_row \<Rightarrow> bool" where
  "tb_of tenant period r \<longleftrightarrow> pt_tenant r = tenant \<and> pt_period r = period"

definition upsertUnadjusted ::
  "tenant_id \<Rightarrow> string \<Rightarrow> TrialBalanceEntry list \<Rightarrow> PeriodTrialBalanceMeta \<Rightarrow> 'a tb_db_scheme \<Rightarrow> 'a tb_db_scheme" where
  "upsertUnadjusted tenant period entries meta s =
     (let (t, s) = now s; r = tb_insert_row tenant period entries meta t; same = tb_of tenant period
      in s\<lparr>period_trial_balance :=
             if list_ex same (period_trial_balance s)
             then update_where same (tb_merge_row r) (period_trial_balance s)
             else period_trial_balance s @ [r]\<rparr>)"

definition stored_tb :: "tenant_id \<Rightarrow> string \<Rightarrow> 'a tb_db_scheme \<Rightarrow> tb_row option" where
  "stored_tb tenant period s = find (tb_of tenant period) (period_trial_balance s)"

definition listPeriodLabelsForTenant :: "(string \<Rightarrow> string) \<Rightarrow> tenant_id \<Rightarrow> 'a tb_db_scheme \<Rightarrow> string list" where
  "listPeriodLabelsForTenant cl tenant s =
     sort_key cl (remdups (map pt_period (filter (\<lambda>r. pt_tenant r = tenant) (period_trial_balance s))))"

section \<open>trial\_balance\_store\_service.ts\<close>

record UnadjustedRecord =
  un_entries :: "TrialBalanceEntry list"
  un_source :: PeriodTrialBalanceSource
  un_at :: "timestamp option"
  un_by :: "string option"
  un_connectionId :: "string option"
  un_fileName :: "string option"

definition saveUnadjustedFromUpload ::
  "tenant_id \<Rightarrow> string \<Rightarrow> TrialBalanceEntry list \<Rightarrow> string option \<Rightarrow> string option \<Rightarrow> 'a tb_db_scheme \<Rightarrow> 'a tb_db_scheme" where
  "saveUnadjustedFromUpload tenant period entries uploadedBy fileName s =
     upsertUnadjusted tenant period entries
       \<lparr>pm_source = Uploaded, pm_by = uploadedBy, pm_fileName = fileName, pm_connectionId = None\<rparr> (snd (now s))"

definition saveUnadjustedFromGLDerived ::
  "tenant_id \<Rightarrow> string \<Rightarrow> TrialBalanceEntry list \<Rightarrow> string option \<Rightarrow> 'a tb_db_scheme \<Rightarrow> 'a tb_db_scheme" where
  "saveUnadjustedFromGLDerived tenant period entries derivedBy s =
     upsertUnadjusted tenant period entries
       \<lparr>pm_source = GlDerived, pm_by = derivedBy, pm_fileName = None, pm_connectionId = None\<rparr> (snd (now s))"

definition saveUnadjustedFromSync ::
  "tenant_id \<Rightarrow> string \<Rightarrow> TrialBalanceEntry list \<Rightarrow> string \<Rightarrow> string option \<Rightarrow> 'a tb_db_scheme \<Rightarrow> 'a tb_db_scheme" where
  "saveUnadjustedFromSync tenant period entries connectionId syncedBy s =
     upsertUnadjusted tenant period entries
       \<lparr>pm_source = Synced, pm_by = syncedBy, pm_fileName = None, pm_connectionId = Some connectionId\<rparr> (snd (now s))"

definition unadjusted_record :: "tb_row \<Rightarrow> UnadjustedRecord" where
  "unadjusted_record r =
     \<lparr>un_entries = pt_entries r, un_source = pt_source r,
      un_at = (if pt_source r = Synced then pt_synced_at r else pt_uploaded_at r),
      un_by = (if pt_source r = Synced then pt_synced_by r else pt_uploaded_by r),
      un_connectionId = pt_connection_id r, un_fileName = pt_file_name r\<rparr>"

definition getUnadjusted :: "tenant_id \<Rightarrow> string \<Rightarrow> 'a tb_db_scheme \<Rightarrow> UnadjustedRecord option" where
  "getUnadjusted tenant period s = map_option unadjusted_record (stored_tb tenant period s)"

text \<open>The source, time, user and connection, without the entries.\<close>

definition getUnadjustedMeta ::
  "tenant_id \<Rightarrow> string \<Rightarrow> 'a tb_db_scheme
     \<Rightarrow> (PeriodTrialBalanceSource \<times> timestamp option \<times> string option \<times> string option) option" where
  "getUnadjustedMeta tenant period s =
     map_option (\<lambda>u. (un_source u, un_at u, un_by u, un_connectionId u)) (getUnadjusted tenant period s)"

section \<open>close\_adjustment\_repository.ts\<close>

definition createAdjustment ::
  "adjustment_row \<Rightarrow> ('a, adjustment_row) tb_op" where
  "createAdjustment r s =
     (let (t0, s) = now s; (rnd, s) = random_text s; (t, s) = now s;
          r' = r\<lparr>ad_id := ''adj-'' @ int_string t0 @ ''-'' @ rnd, ad_created_at := t, ad_updated_at := t\<rparr>
      in if ad_id r' \<in> ad_id ` set (close_adjustments s) then (Inl (DbError ''close_adjustments_pkey''), s)
         else (Inr r', s\<lparr>close_adjustments := close_adjustments s @ [r']\<rparr>))"

definition adjustment_of :: "tenant_id \<Rightarrow> string \<Rightarrow> adjustment_row \<Rightarrow> bool" where
  "adjustment_of tenant i r \<longleftrightarrow> ad_id r = i \<and> ad_tenant r = tenant"

definition getAdjustment :: "string \<Rightarrow> tenant_id \<Rightarrow> 'a tb_db_scheme \<Rightarrow> adjustment_row option" where
  "getAdjustment i tenant s = find (adjustment_of tenant i) (close_adjustments s)"

text \<open>\<open>ORDER BY created_at DESC\<close>.\<close>

definition adjustment_rows :: "tenant_id \<Rightarrow> string option \<Rightarrow> 'a tb_db_scheme \<Rightarrow> adjustment_row list" where
  "adjustment_rows tenant period s =
     rev (sort_key ad_created_at
       (filter (\<lambda>r. ad_tenant r = tenant \<and> (truthy period \<longrightarrow> period = Some (ad_period r))) (close_adjustments s)))"

record AdjustmentPatch =
  ap_approvedBy :: "string option"
  ap_approvedAt :: "timestamp option"
  ap_postedAt :: "timestamp option"
  ap_postedExternalId :: "string option"

definition patch_adjustment ::
  "string \<Rightarrow> tenant_id \<Rightarrow> CloseAdjustmentStatus \<Rightarrow> AdjustmentPatch \<Rightarrow> 'a tb_db_scheme
     \<Rightarrow> adjustment_row option \<times> 'a tb_db_scheme" where
  "patch_adjustment i tenant status patch s =
     (let (t, s) = now s;
          s = s\<lparr>close_adjustments := update_where (adjustment_of tenant i)
            (\<lambda>r. r\<lparr>ad_status := status, ad_updated_at := t,
               ad_approved_by := coalesce (ap_approvedBy patch) (ad_approved_by r),
               ad_approved_at := coalesce (ap_approvedAt patch) (ad_approved_at r),
               ad_posted_at := coalesce (ap_postedAt patch) (ad_posted_at r),
               ad_posted_external_id := coalesce (ap_postedExternalId patch) (ad_posted_external_id r)\<rparr>)
            (close_adjustments s)\<rparr>
      in (getAdjustment i tenant s, s))"

end
