(* ===== verification/Accumulation.thy ===== *)
theory Accumulation
  imports StatementCents
begin

text \<open>
  A JavaScript \<open>Map\<close> filled in a loop: the entry of a key is created by the first item with the key and
  updated by the later ones. It is a list of pairs in the order of insertion. The locale
  \<open>accumulation\<close> is what the loops over ledger lines share; its clients get the sums by key.
\<close>

section \<open>Maps in the order of insertion\<close>

primrec upsert :: "'k \<Rightarrow> ('v \<Rightarrow> 'v) \<Rightarrow> 'v \<Rightarrow> ('k \<times> 'v) list \<Rightarrow> ('k \<times> 'v) list" where
  "upsert k f v [] = [(k, v)]"
| "upsert k f v (p # m) = (if fst p = k then (k, f (snd p)) # m else p # upsert k f v m)"

lemma map_of_upsert:
  "map_of (upsert k f v m) = (map_of m)(k \<mapsto> case map_of m k of None \<Rightarrow> v | Some w \<Rightarrow> f w)"
  by (induction m) (auto split: option.split)

lemma keys_upsert: "map fst (upsert k f v m) = (if k \<in> fst ` set m then map fst m else map fst m @ [k])"
  by (induction m) auto

lemma distinct_upsert: "distinct (map fst m) \<Longrightarrow> distinct (map fst (upsert k f v m))"
  by (simp add: keys_upsert)

section \<open>Sums by key\<close>

definition by_key :: "('x \<Rightarrow> 'k) \<Rightarrow> 'k \<Rightarrow> 'x list \<Rightarrow> 'x list" where
  "by_key key k xs = filter (\<lambda>x. key x = k) xs"

lemma by_key_snoc [simp]: "by_key key k (xs @ [x]) = by_key key k xs @ (if key x = k then [x] else [])"
  by (simp add: by_key_def)

lemma by_key_Nil [simp]: "by_key key k [] = []"
  by (simp add: by_key_def)

lemma sum_indicator:
  fixes c :: int
  assumes "j \<in> set ks" and "distinct ks"
  shows "(\<Sum>k\<leftarrow>ks. if j = k then c else 0) = c"
proof -
  have none: "(\<Sum>k\<leftarrow>l. if j = k then c else 0) = 0" if "j \<notin> set l" for l
    using that by (induction l) auto
  show ?thesis using assms by (induction ks) (auto simp: none)
qed

lemma sum_by_key:
  fixes f :: "'x \<Rightarrow> int"
  assumes "distinct ks" and "key ` set xs \<subseteq> set ks"
  shows "(\<Sum>k\<leftarrow>ks. \<Sum>x\<leftarrow>by_key key k xs. f x) = (\<Sum>x\<leftarrow>xs. f x)"
  using assms(2)
proof (induction xs)
  case (Cons x xs)
  have "key x \<in> set ks" using Cons.prems by simp
  then have "(\<Sum>k\<leftarrow>ks. if key x = k then f x else 0) = f x"
    using assms(1) by (rule sum_indicator)
  moreover have "(\<Sum>x\<leftarrow>by_key key k (x # xs). f x) = (if key x = k then f x else 0) + (\<Sum>x\<leftarrow>by_key key k xs. f x)" for k
    by (simp add: by_key_def)
  ultimately show ?case using Cons by (simp add: sum_list_addf)
qed (simp add: by_key_def)

lemma abs_by_key: "(\<Sum>x\<leftarrow>by_key key k xs. \<bar>f x\<bar>) \<le> (\<Sum>x\<leftarrow>xs. \<bar>f x :: int\<bar>)"
  unfolding by_key_def by (rule sum_list_filter_le) simp

text \<open>A number that holds a whole amount of cents.\<close>

definition cell :: "number \<Rightarrow> int \<Rightarrow> bool" where
  "cell n c \<longleftrightarrow> in_cents n \<and> cents_of n = c"

lemma cell_num [simp]: "\<bar>c\<bar> < 10 ^ 15 \<Longrightarrow> cell (cents_num c) c"
  by (simp add: cell_def)

lemma cell_zero [simp]: "cell (Fin 0) 0"
  using cell_num [of 0] by simp

section \<open>The loops\<close>

definition collect :: "('x \<Rightarrow> 'k) \<Rightarrow> ('x \<Rightarrow> 'v) \<Rightarrow> ('x \<Rightarrow> 'v \<Rightarrow> 'v) \<Rightarrow> 'x list \<Rightarrow> ('k \<times> 'v) list" where
  "collect key start add xs = fold (\<lambda>x. upsert (key x) (add x) (start x)) xs []"

lemma collect_Nil [simp]: "collect key start add [] = []"
  by (simp add: collect_def)

lemma collect_snoc: "collect key start add (xs @ [x]) = upsert (key x) (add x) (start x) (collect key start add xs)"
  by (simp add: collect_def)

lemma collect_keys:
  "distinct (map fst (collect key start add xs))" "fst ` set (collect key start add xs) = key ` set xs"
proof (induction xs rule: rev_induct)
  case (snoc x xs)
  { case 1 show ?case using snoc(1) by (simp add: collect_snoc distinct_upsert) }
  have "set (map fst (collect key start add (xs @ [x]))) = insert (key x) (set (map fst (collect key start add xs)))"
    unfolding collect_snoc keys_upsert by auto
  with snoc(2) have "fst ` set (collect key start add (xs @ [x])) = key ` set (xs @ [x])" by simp
  { case 2 show ?case by fact }
qed simp_all

lemma single_key: "distinct (map fst m) \<Longrightarrow> map_of m k = Some w \<Longrightarrow> by_key fst k m = [(k, w)]"
proof (induction m)
  case (Cons p m)
  have "by_key fst k m = []" if "fst p = k"
  proof -
    have "k \<notin> set (map fst m)" using that Cons.prems(1) by simp
    then show ?thesis by (force simp: by_key_def filter_empty_conv)
  qed
  with Cons show ?case by (cases p) (auto simp: by_key_def split: if_splits)
qed simp

locale accumulation =
  fixes key :: "'x \<Rightarrow> 'k" and start :: "'x \<Rightarrow> 'v" and add :: "'x \<Rightarrow> 'v \<Rightarrow> 'v"
    and debit :: "'x \<Rightarrow> int" and credit :: "'x \<Rightarrow> int"
    and debits :: "'v \<Rightarrow> number" and credits :: "'v \<Rightarrow> number" and label :: "'v \<Rightarrow> 'l"
    and valid :: "'x \<Rightarrow> bool"
  assumes start: "valid x \<Longrightarrow> cell (debits (start x)) (debit x) \<and> cell (credits (start x)) (credit x)"
    and add: "valid x \<Longrightarrow> cell (debits v) d \<Longrightarrow> cell (credits v) c \<Longrightarrow> \<bar>d + debit x\<bar> < 10 ^ 15 \<Longrightarrow>
      \<bar>c + credit x\<bar> < 10 ^ 15 \<Longrightarrow> cell (debits (add x v)) (d + debit x) \<and> cell (credits (add x v)) (c + credit x)"
    and label: "label (add x v) = label v"
begin

lemma collect_label:
  "map_of (collect key start add xs) k = Some v \<Longrightarrow> label v = label (start (hd (by_key key k xs)))"
proof (induction xs arbitrary: v rule: rev_induct)
  case (snoc x xs)
  show ?case
  proof (cases "map_of (collect key start add xs) k")
    case None
    then have "k \<notin> key ` set xs" using collect_keys(2) [of key start add xs] by (simp add: map_of_eq_None_iff)
    then have "by_key key k xs = []" by (auto simp: by_key_def filter_empty_conv)
    with None snoc.prems show ?thesis by (auto simp: collect_snoc map_of_upsert split: if_splits)
  next
    case (Some w)
    then have "k \<in> key ` set xs" using collect_keys(2) [of key start add xs] by (metis domI map_of_eq_None_iff domIff)
    then have "by_key key k xs \<noteq> []" by (auto simp: by_key_def filter_empty_conv)
    with Some snoc show ?thesis by (auto simp: collect_snoc map_of_upsert label split: if_splits)
  qed
qed simp_all

text \<open>The entry of a key holds the sums of the items with the key.\<close>

lemma collect_cells:
  assumes "list_all valid xs" and "(\<Sum>x\<leftarrow>xs. \<bar>debit x\<bar>) < 10 ^ 15" and "(\<Sum>x\<leftarrow>xs. \<bar>credit x\<bar>) < 10 ^ 15"
  shows "map_of (collect key start add xs) k = Some v \<Longrightarrow> cell (debits v) (\<Sum>x\<leftarrow>by_key key k xs. debit x)"
    and "map_of (collect key start add xs) k = Some v \<Longrightarrow> cell (credits v) (\<Sum>x\<leftarrow>by_key key k xs. credit x)"
proof -
  have "map_of (collect key start add xs) k = Some v \<Longrightarrow> cell (debits v) (\<Sum>x\<leftarrow>by_key key k xs. debit x)
      \<and> cell (credits v) (\<Sum>x\<leftarrow>by_key key k xs. credit x)"
    using assms
  proof (induction xs arbitrary: v rule: rev_induct)
    case (snoc x xs)
    have small: "\<bar>\<Sum>x\<leftarrow>by_key key k (xs @ [x]). f x\<bar> < 10 ^ 15" if "(\<Sum>x\<leftarrow>xs @ [x]. \<bar>f x\<bar>) < 10 ^ 15" for f :: "'x \<Rightarrow> int"
      using sum_list_abs [of "map f (by_key key k (xs @ [x]))"] abs_by_key [of f key k "xs @ [x]"] that
      by (simp only: map_map comp_def)
    note bounds = small [OF snoc.prems(3)] small [OF snoc.prems(4)]
    have less: "(\<Sum>x\<leftarrow>xs. \<bar>debit x\<bar>) < 10 ^ 15" "(\<Sum>x\<leftarrow>xs. \<bar>credit x\<bar>) < 10 ^ 15"
      using snoc.prems(3,4) by simp_all
    show ?case
    proof (cases "key x = k")
      case False
      with snoc less show ?thesis by (simp add: collect_snoc map_of_upsert)
    next
      case True
      show ?thesis
      proof (cases "map_of (collect key start add xs) k")
        case None
        then have "k \<notin> key ` set xs" using collect_keys(2) [of key start add xs] by (simp add: map_of_eq_None_iff)
        then have "by_key key k xs = []" by (auto simp: by_key_def filter_empty_conv)
        with None True snoc.prems start [of x] show ?thesis by (auto simp: collect_snoc map_of_upsert)
      next
        case (Some w)
        with snoc.IH less snoc.prems(2) have "cell (debits w) (\<Sum>x\<leftarrow>by_key key k xs. debit x)"
          "cell (credits w) (\<Sum>x\<leftarrow>by_key key k xs. credit x)" by simp_all
        from add [OF _ this, of x] bounds snoc.prems(1,2) True Some show ?thesis
          by (auto simp: collect_snoc map_of_upsert)
      qed
    qed
  qed simp_all
  then show "map_of (collect key start add xs) k = Some v \<Longrightarrow> cell (debits v) (\<Sum>x\<leftarrow>by_key key k xs. debit x)"
    and "map_of (collect key start add xs) k = Some v \<Longrightarrow> cell (credits v) (\<Sum>x\<leftarrow>by_key key k xs. credit x)" by auto
qed

text \<open>What the map holds under a key, and in all.\<close>

lemma collect_by_key:
  assumes "list_all valid xs" and "(\<Sum>x\<leftarrow>xs. \<bar>debit x\<bar>) < 10 ^ 15" and "(\<Sum>x\<leftarrow>xs. \<bar>credit x\<bar>) < 10 ^ 15"
  shows "(\<Sum>p\<leftarrow>by_key fst k (collect key start add xs). cents_of (debits (snd p))) = (\<Sum>x\<leftarrow>by_key key k xs. debit x)"
    and "(\<Sum>p\<leftarrow>by_key fst k (collect key start add xs). cents_of (credits (snd p))) = (\<Sum>x\<leftarrow>by_key key k xs. credit x)"
proof -
  let ?m = "collect key start add xs"
  have "(\<Sum>p\<leftarrow>by_key fst k ?m. cents_of (debits (snd p))) = (\<Sum>x\<leftarrow>by_key key k xs. debit x)
      \<and> (\<Sum>p\<leftarrow>by_key fst k ?m. cents_of (credits (snd p))) = (\<Sum>x\<leftarrow>by_key key k xs. credit x)"
  proof (cases "map_of ?m k")
    case None
    then have "k \<notin> fst ` set ?m" by (simp add: map_of_eq_None_iff)
    moreover from this have "k \<notin> key ` set xs" by (simp add: collect_keys(2))
    ultimately have "by_key fst k ?m = []" "by_key key k xs = []" by (auto simp: by_key_def filter_empty_conv)
    then show ?thesis by simp
  next
    case (Some w)
    with single_key [OF collect_keys(1)] have "by_key fst k ?m = [(k, w)]" .
    with collect_cells [OF assms Some] show ?thesis by (simp add: cell_def)
  qed
  then show "(\<Sum>p\<leftarrow>by_key fst k ?m. cents_of (debits (snd p))) = (\<Sum>x\<leftarrow>by_key key k xs. debit x)"
    and "(\<Sum>p\<leftarrow>by_key fst k ?m. cents_of (credits (snd p))) = (\<Sum>x\<leftarrow>by_key key k xs. credit x)" by auto
qed

lemma collect_entry:
  assumes "list_all valid xs" and "(\<Sum>x\<leftarrow>xs. \<bar>debit x\<bar>) < 10 ^ 15" and "(\<Sum>x\<leftarrow>xs. \<bar>credit x\<bar>) < 10 ^ 15"
    and "p \<in> set (collect key start add xs)"
  shows "cell (debits (snd p)) (\<Sum>x\<leftarrow>by_key key (fst p) xs. debit x)"
    and "cell (credits (snd p)) (\<Sum>x\<leftarrow>by_key key (fst p) xs. credit x)"
proof -
  have "map_of (collect key start add xs) (fst p) = Some (snd p)"
    by (rule map_of_is_SomeI [OF collect_keys(1)]) (simp add: assms(4))
  from collect_cells [OF assms(1-3) this] show "cell (debits (snd p)) (\<Sum>x\<leftarrow>by_key key (fst p) xs. debit x)"
    and "cell (credits (snd p)) (\<Sum>x\<leftarrow>by_key key (fst p) xs. credit x)" .
qed

lemma collect_partition:
  "(\<Sum>p\<leftarrow>collect key start add xs. \<Sum>x\<leftarrow>by_key key (fst p) xs. f x) = (\<Sum>x\<leftarrow>xs. f x)" for f :: "'x \<Rightarrow> int"
  using sum_by_key [OF collect_keys(1) [of key start add xs], of key xs f] collect_keys(2) [of key start add xs]
  by (simp add: comp_def)

lemma collect_totals:
  assumes "list_all valid xs" and "(\<Sum>x\<leftarrow>xs. \<bar>debit x\<bar>) < 10 ^ 15" and "(\<Sum>x\<leftarrow>xs. \<bar>credit x\<bar>) < 10 ^ 15"
  shows "(\<Sum>p\<leftarrow>collect key start add xs. cents_of (debits (snd p))) = (\<Sum>x\<leftarrow>xs. debit x)"
    and "(\<Sum>p\<leftarrow>collect key start add xs. cents_of (credits (snd p))) = (\<Sum>x\<leftarrow>xs. credit x)"
  using collect_partition [where xs = xs and f = debit] collect_partition [where xs = xs and f = credit] collect_entry [OF assms]
  by (simp_all add: cell_def cong: map_cong)

lemma collect_volume:
  assumes "list_all valid xs" and "(\<Sum>x\<leftarrow>xs. \<bar>debit x\<bar>) < 10 ^ 15" and "(\<Sum>x\<leftarrow>xs. \<bar>credit x\<bar>) < 10 ^ 15"
  shows "(\<Sum>p\<leftarrow>collect key start add xs. \<bar>cents_of (debits (snd p))\<bar>) \<le> (\<Sum>x\<leftarrow>xs. \<bar>debit x\<bar>)"
    and "(\<Sum>p\<leftarrow>collect key start add xs. \<bar>cents_of (credits (snd p))\<bar>) \<le> (\<Sum>x\<leftarrow>xs. \<bar>credit x\<bar>)"
proof -
  have abs: "\<bar>\<Sum>x\<leftarrow>by_key key k xs. f x\<bar> \<le> (\<Sum>x\<leftarrow>by_key key k xs. \<bar>f x\<bar>)" for f :: "'x \<Rightarrow> int" and k
    using sum_list_abs [of "map f (by_key key k xs)"] by (simp add: comp_def)
  note cells = collect_entry [OF assms, unfolded cell_def]
  show "(\<Sum>p\<leftarrow>collect key start add xs. \<bar>cents_of (debits (snd p))\<bar>) \<le> (\<Sum>x\<leftarrow>xs. \<bar>debit x\<bar>)"
    unfolding collect_partition [where xs = xs and f = "\<lambda>x. \<bar>debit x\<bar>", symmetric] by (rule sum_list_mono) (simp add: cells(1) abs)
  show "(\<Sum>p\<leftarrow>collect key start add xs. \<bar>cents_of (credits (snd p))\<bar>) \<le> (\<Sum>x\<leftarrow>xs. \<bar>credit x\<bar>)"
    unfolding collect_partition [where xs = xs and f = "\<lambda>x. \<bar>credit x\<bar>", symmetric] by (rule sum_list_mono) (simp add: cells(2) abs)
qed

end

end
