(* ===== verification/TrialBalances.thy ===== *)
theory TrialBalances
  imports TrialBalanceStore Accumulation
begin

text \<open>
  How the trial balance of a period comes about: \<open>src/src/services/trial_balance_rollup_service.ts\<close>,
  \<open>gl_to_tb_aggregation_service.ts\<close>, \<open>close_adjustments_service.ts\<close> and
  \<open>adjusted_trial_balance_service.ts\<close>.

  Certification reads \<open>getTrialBalanceForCertification\<close>; the statement packages and the reports read
  \<open>getAdjustedTrialBalance\<close>. \<open>cl\<close> is the collation key of a text.
\<close>

section \<open>close\_context.ts\<close>

text \<open>A year as four digits; \<open>QuarterLabel\<close> is \<open>YYYY[-]Qn\<close>, \<open>YearLabel\<close> is \<open>YYYY\<close> or with F or FY in front.\<close>

datatype period_label_parts = QuarterLabel nat nat | MonthLabel nat nat | YearLabel nat | FiscalYearLabel nat

definition year_of :: "string \<Rightarrow> nat option" where
  "year_of s = (if length s = 4 \<and> list_all is_digit s then Some (digits_value s) else None)"

definition quarter_label :: "string \<Rightarrow> period_label_parts option" where
  "quarter_label s =
     (let rest = drop 4 s; rest' = (if js_startsWith rest ''-'' then tl rest else rest) in
      case (year_of (take 4 s), rest') of
        (Some y, [q, n]) \<Rightarrow>
          if (q = CHR ''Q'' \<or> q = CHR ''q'') \<and> n \<in> set ''1234'' then Some (QuarterLabel y (digit_val n)) else None
      | _ \<Rightarrow> None)"

definition month_label :: "string \<Rightarrow> period_label_parts option" where
  "month_label s =
     (let m = drop 5 s in
      case year_of (take 4 s) of
        None \<Rightarrow> None
      | Some y \<Rightarrow>
          if take 1 (drop 4 s) = ''-'' \<and> (length m = 1 \<or> length m = 2) \<and> list_all is_digit m
             \<and> 1 \<le> digits_value m \<and> digits_value m \<le> 12
          then Some (MonthLabel y (digits_value m)) else None)"

definition fiscal_year_label :: "string \<Rightarrow> period_label_parts option" where
  "fiscal_year_label s =
     (case s of
        [] \<Rightarrow> None
      | f # rest \<Rightarrow>
          if f \<in> set ''Ff''
          then map_option FiscalYearLabel
                 (year_of (if rest \<noteq> [] \<and> hd rest \<in> set ''Yy'' then tl rest else rest))
          else None)"

definition year_label :: "string \<Rightarrow> period_label_parts option" where
  "year_label s = map_option YearLabel (year_of s)"

definition month_text :: "nat \<Rightarrow> nat \<Rightarrow> string" where
  "month_text y m = nat_string y @ ''-'' @ pad_zero 2 (nat_string m)"

definition getConstituentMonthLabels :: "string \<Rightarrow> string list option" where
  "getConstituentMonthLabels periodLabel =
     (let trimmed = js_trim periodLabel in
      case quarter_label trimmed of
        Some (QuarterLabel y q) \<Rightarrow> Some (map (month_text y) [(q - 1) * 3 + 1, (q - 1) * 3 + 2, (q - 1) * 3 + 3])
      | _ \<Rightarrow>
          (case coalesce (fiscal_year_label trimmed) (year_label trimmed) of
             Some (YearLabel y) \<Rightarrow> Some (map (month_text y) [1..<13])
           | Some (FiscalYearLabel y) \<Rightarrow> Some (map (month_text y) [1..<13])
           | _ \<Rightarrow>
               (case month_label trimmed of
                  Some (MonthLabel y m) \<Rightarrow> Some [month_text y m]
                | _ \<Rightarrow> None)))"

definition parsePeriodToComparable :: "string \<Rightarrow> nat option" where
  "parsePeriodToComparable label =
     (let trimmed = js_trim label in
      case quarter_label trimmed of
        Some (QuarterLabel y q) \<Rightarrow> Some (y * 12 + (q - 1) * 3)
      | _ \<Rightarrow>
          (case month_label trimmed of
             Some (MonthLabel y m) \<Rightarrow> Some (y * 12 + m)
           | _ \<Rightarrow>
               (case year_label trimmed of
                  Some (YearLabel y) \<Rightarrow> Some (y * 12)
                | _ \<Rightarrow> None)))"

definition isPriorPeriodBeforeCurrent :: "string \<Rightarrow> string \<Rightarrow> bool" where
  "isPriorPeriodBeforeCurrent priorLabel currentLabel =
     (case (parsePeriodToComparable priorLabel, parsePeriodToComparable currentLabel) of
        (Some p, Some c) \<Rightarrow> p < c
      | _ \<Rightarrow> False)"

section \<open>trial\_balance\_rollup\_service.ts\<close>

text \<open>An entry with a code, a name, amounts and a type only.\<close>

definition plain_entry ::
  "string option \<Rightarrow> string \<Rightarrow> number \<Rightarrow> number \<Rightarrow> string option \<Rightarrow> TrialBalanceEntry" where
  "plain_entry code name d c t =
     \<lparr>te_lineId = None, te_accountCode = code, te_accountName = name, te_debit = d, te_credit = c,
      te_accountType = t, te_fsLineId = None, te_fsLineCode = None, te_codificationRef = None,
      te_sourceDocumentId = None, te_sourceSheet = None, te_sourceRowIndex = None, te_sourceChunkId = None,
      te_classificationSource = None, te_classificationRationale = None\<rparr>"

definition plain_of :: "TrialBalanceEntry \<Rightarrow> TrialBalanceEntry" where
  "plain_of e = plain_entry (te_accountCode e) (te_accountName e) (te_debit e) (te_credit e) (te_accountType e)"

definition add_entry :: "'d decimal_ops \<Rightarrow> TrialBalanceEntry \<Rightarrow> TrialBalanceEntry \<Rightarrow> TrialBalanceEntry" where
  "add_entry D e v = v\<lparr>te_debit := plus2 D (te_debit v) (te_debit e), te_credit := plus2 D (te_credit v) (te_credit e)\<rparr>"

definition rollup_key :: "TrialBalanceEntry \<Rightarrow> string \<times> string" where
  "rollup_key e = (js_or (te_accountCode e) [], te_accountName e)"

text \<open>The key of the source joins code and name with a NUL character, which neither contains.\<close>

definition aggregateEntries ::
  "'d decimal_ops \<Rightarrow> (string \<Rightarrow> string) \<Rightarrow> TrialBalanceEntry list list \<Rightarrow> TrialBalanceEntry list" where
  "aggregateEntries D cl arrays =
     (let byKey = fold (\<lambda>es m. fold (\<lambda>e. upsert (rollup_key e) (add_entry D e) (plain_of e)) es m) arrays []
      in sort_key (\<lambda>e. cl (te_accountName e))
           (filter (\<lambda>e. \<not> (num_eq (te_debit e) (Fin 0) \<and> num_eq (te_credit e) (Fin 0))) (map snd byKey)))"

text \<open>The answer: the entries, and the constituent months of a roll-up.\<close>

definition getUnadjustedOrRollup ::
  "'d decimal_ops \<Rightarrow> (string \<Rightarrow> string) \<Rightarrow> tenant_id \<Rightarrow> string \<Rightarrow> 'a tb_db_scheme
     \<Rightarrow> (TrialBalanceEntry list \<times> string list option) option" where
  "getUnadjustedOrRollup D cl tenant period s =
     (case getUnadjusted tenant period s of
        Some direct \<Rightarrow> Some (un_entries direct, None)
      | None \<Rightarrow>
          (case getConstituentMonthLabels period of
             None \<Rightarrow> None
           | Some months \<Rightarrow>
               let records = List.map_filter (\<lambda>m. getUnadjusted tenant m s) months in
               if length months \<le> 1 \<or> records = [] then None
               else Some (aggregateEntries D cl (map un_entries records), Some months)))"

section \<open>gl\_to\_tb\_aggregation\_service.ts\<close>

text \<open>The amount of a GL line is the text of a NUMERIC(20,2) column.\<close>

definition numeric_text :: "int \<Rightarrow> string" where
  "numeric_text c = fixed_text 2 (money c)"

definition inferAccountType :: "string \<Rightarrow> string option" where
  "inferAccountType accountCode =
     (case accountCode of
        [] \<Rightarrow> None
      | c # _ \<Rightarrow>
          if c = CHR ''1'' then Some ''Asset'' else if c = CHR ''2'' then Some ''Liability''
          else if c = CHR ''3'' then Some ''Equity'' else if c = CHR ''4'' then Some ''Revenue''
          else if c = CHR ''5'' \<or> c = CHR ''6'' then Some ''Expense'' else None)"

record account_totals =
  ac_debits :: number
  ac_credits :: number
  ac_name :: "string option"

text \<open>
  \<open>plus(total, line.debit)\<close> with a text: NaN stands for the exception of an unreadable text, which a
  NUMERIC column never has.
\<close>

definition plus_text :: "'d decimal_ops \<Rightarrow> number \<Rightarrow> string \<Rightarrow> number" where
  "plus_text D n t = js_or (decimal_plus D (ANum n) (AText t)) NaN"

definition no_totals :: account_totals where
  "no_totals = \<lparr>ac_debits = Fin 0, ac_credits = Fin 0, ac_name = None\<rparr>"

definition add_line :: "'d decimal_ops \<Rightarrow> gl_row \<Rightarrow> account_totals \<Rightarrow> account_totals" where
  "add_line D r v =
     \<lparr>ac_debits = plus_text D (ac_debits v) (numeric_text (gn_debit r)),
      ac_credits = plus_text D (ac_credits v) (numeric_text (gn_credit r)),
      ac_name = (if \<not> truthy (ac_name v) \<and> truthy (gn_name r) then gn_name r else ac_name v)\<rparr>"

record DerivedEntry =
  de_code :: string
  de_name :: string
  de_type :: "string option"
  de_total_debits :: number
  de_total_credits :: number
  de_net :: number
  de_debit :: number
  de_credit :: number

definition derived_entry :: "'d decimal_ops \<Rightarrow> coa_row option \<Rightarrow> string \<Rightarrow> account_totals \<Rightarrow> DerivedEntry" where
  "derived_entry D account code v =
     (let net = minus2 D (ac_debits v) (ac_credits v); netD = d_of_num D net; zero = d_of_num D (Fin 0)
      in \<lparr>de_code = code,
          de_name = (case account of Some a \<Rightarrow> co_name a | None \<Rightarrow> js_or (ac_name v) code),
          de_type = (case account of Some a \<Rightarrow> Some (co_type a) | None \<Rightarrow> inferAccountType code),
          de_total_debits = ac_debits v, de_total_credits = ac_credits v, de_net = net,
          de_debit = (if d_greaterThan D netD zero then net else Fin 0),
          de_credit = (if d_greaterThan D zero netD then rounded2 D (d_toNumber D (d_abs D netD)) else Fin 0)\<rparr>)"

text \<open>A later account of the list replaces an earlier one with the same code in \<open>coaMap\<close>.\<close>

definition aggregateGLToTB ::
  "'d decimal_ops \<Rightarrow> (string \<Rightarrow> string) \<Rightarrow> gl_row list \<Rightarrow> coa_row list \<Rightarrow> DerivedEntry list" where
  "aggregateGLToTB D cl glLines coaAccounts =
     (let accountMap = fold (\<lambda>r. upsert (gn_code r) (add_line D r) (add_line D r no_totals)) glLines [];
          coa = (\<lambda>code. find (\<lambda>a. co_code a = code) (rev coaAccounts))
      in sort_key (\<lambda>e. cl (de_code e)) (map (\<lambda>(code, v). derived_entry D (coa code) code v) accountMap))"

text \<open>Assets, liabilities and equity.\<close>

definition balance_step :: "'d decimal_ops \<Rightarrow> DerivedEntry \<Rightarrow> number \<times> number \<times> number \<Rightarrow> number \<times> number \<times> number" where
  "balance_step D e acc =
     (case acc of (assets, liabilities, equity) \<Rightarrow>
        let nbAbs = rounded2 D (d_toNumber D (d_abs D (d_of_num D (de_net e)))) in
        if de_type e = Some ''Asset'' then (plus2 D assets (de_net e), liabilities, equity)
        else if de_type e = Some ''Liability'' then (assets, plus2 D liabilities nbAbs, equity)
        else if de_type e = Some ''Equity'' then (assets, liabilities, plus2 D equity nbAbs)
        else if de_type e \<in> {Some ''Revenue'', Some ''Expense''} then (assets, liabilities, minus2 D equity (de_net e))
        else acc)"

definition computeBalanceSheetTotals :: "'d decimal_ops \<Rightarrow> DerivedEntry list \<Rightarrow> number \<times> number \<times> number" where
  "computeBalanceSheetTotals D entries = fold (balance_step D) entries (Fin 0, Fin 0, Fin 0)"

record DerivedTrialBalance =
  dt_entries :: "DerivedEntry list"
  dt_total_debits :: number
  dt_total_credits :: number
  dt_totals :: "number \<times> number \<times> number"

definition buildDerivedTrialBalance ::
  "'d decimal_ops \<Rightarrow> (string \<Rightarrow> string) \<Rightarrow> tenant_id \<Rightarrow> string \<Rightarrow> 'a tb_db_scheme \<Rightarrow> error + DerivedTrialBalance" where
  "buildDerivedTrialBalance D cl tenant period s =
     (let glLines = getGLForPeriod cl tenant period s in
      if glLines = []
      then Inl (JsError (''No GL data found for tenant '' @ tenant @ '', period '' @ period))
      else let entries = aggregateGLToTB D cl glLines (getAccountsByTenant cl tenant s)
           in Inr \<lparr>dt_entries = entries, dt_total_debits = sumRound2 D (map de_total_debits entries),
                   dt_total_credits = sumRound2 D (map de_total_credits entries),
                   dt_totals = computeBalanceSheetTotals D entries\<rparr>)"

text \<open>The two errors by name: the trial balance, the balance sheet equation.\<close>

datatype derived_error = DerivedImbalance number number | DerivedEquation number number number

definition validateDerivedTB :: "'d decimal_ops \<Rightarrow> DerivedTrialBalance \<Rightarrow> number \<Rightarrow> derived_error list" where
  "validateDerivedTB D tb tolerance =
     (case dt_totals tb of (assets, liabilities, equity) \<Rightarrow>
        (if exceeds D (dt_total_debits tb) (dt_total_credits tb) tolerance
         then [DerivedImbalance (dt_total_debits tb) (dt_total_credits tb)] else [])
        @ (if exceeds D assets (plus2 D liabilities equity) tolerance
           then [DerivedEquation assets liabilities equity] else []))"

end
