(* ===== verification/AdjustedBalance.thy ===== *)
theory AdjustedBalance
  imports TrialBalances
begin

text \<open>
  The adjustments of a period and the adjusted trial balance:
  \<open>src/src/services/close_adjustments_service.ts\<close>, with \<open>src/src/utils/line_id.ts\<close>, and
  \<open>src/src/services/adjusted_trial_balance_service.ts\<close>.

  Certification reads \<open>getTrialBalanceForCertification\<close>; the statement packages and the reports read
  \<open>getAdjustedTrialBalance\<close>.
\<close>

section \<open>line\_id.ts\<close>

definition LINE_ID_LENGTH :: nat where
  "LINE_ID_LENGTH = 16"

definition computeLineId ::
  "'d env \<Rightarrow> string \<Rightarrow> number option \<Rightarrow> number option \<Rightarrow> string option \<Rightarrow> string option \<Rightarrow> string" where
  "computeLineId E accountName debit credit code description =
     take LINE_ID_LENGTH (e_sha256 E
       (js_trim accountName @ ''|'' @ normalizeMoney (e_decimal E) (Some (js_or debit (Fin 0))) @ ''|''
        @ normalizeMoney (e_decimal E) (Some (js_or credit (Fin 0))) @ ''|''
        @ js_or (map_option js_trim code) [] @ ''|'' @ js_or (map_option js_trim description) []))"

section \<open>close\_adjustments\_service.ts\<close>

record JESuggestion =
  sg_description :: string
  sg_debits :: "ProvLine list"
  sg_credits :: "ProvLine list"
  sg_source :: string
  sg_sourceDetail :: "string option"

record AccrualSuggestion =
  ag_description :: string
  ag_debitAccount :: string
  ag_creditAccount :: string
  ag_amount :: number
  ag_sourceDetail :: "string option"

definition debit_line :: "'d env \<Rightarrow> string \<Rightarrow> number \<Rightarrow> AdjustmentLine" where
  "debit_line E account amount =
     \<lparr>aj_account = account, aj_amount = amount, aj_code = None,
      aj_lineId = Some (computeLineId E account (Some amount) (Some (Fin 0)) None None)\<rparr>"

definition credit_line :: "'d env \<Rightarrow> string \<Rightarrow> number \<Rightarrow> AdjustmentLine" where
  "credit_line E account amount =
     \<lparr>aj_account = account, aj_amount = amount, aj_code = None,
      aj_lineId = Some (computeLineId E account (Some (Fin 0)) (Some amount) None None)\<rparr>"

text \<open>A new adjustment: pending, without times and identifier, which the repository sets.\<close>

definition pending_adjustment ::
  "tenant_id \<Rightarrow> string \<Rightarrow> string \<Rightarrow> string \<Rightarrow> AdjustmentLine list \<Rightarrow> AdjustmentLine list \<Rightarrow> string option
     \<Rightarrow> adjustment_row" where
  "pending_adjustment tenant period src descr debits credits detail =
     \<lparr>ad_id = [], ad_tenant = tenant, ad_period = period, ad_source = src, ad_description = descr,
      ad_debits = debits, ad_credits = credits, ad_source_detail = detail, ad_status = AdjPending,
      ad_created_at = 0, ad_updated_at = 0, ad_approved_by = None, ad_approved_at = None, ad_posted_at = None,
      ad_posted_external_id = None\<rparr>"

fun create_all :: "adjustment_row list \<Rightarrow> ('a, adjustment_row list) tb_op" where
  "create_all [] s = (Inr [], s)"
| "create_all (r # rs) s =
     andThen (createAdjustment r s) (\<lambda>a s. andThen (create_all rs s) (\<lambda>as s. (Inr (a # as), s)))"

definition suggestion_adjustment :: "'d env \<Rightarrow> tenant_id \<Rightarrow> string \<Rightarrow> JESuggestion \<Rightarrow> adjustment_row" where
  "suggestion_adjustment E tenant period g =
     pending_adjustment tenant period (sg_source g) (sg_description g)
       (map (\<lambda>l. debit_line E (pl_account l) (js_or (pl_amount l) (Fin 0))) (sg_debits g))
       (map (\<lambda>l. credit_line E (pl_account l) (js_or (pl_amount l) (Fin 0))) (sg_credits g)) (sg_sourceDetail g)"

text \<open>Every suggestion is validated before the first is stored; the inserts are not in a transaction.\<close>

definition addJEAsAdjustments ::
  "'d env \<Rightarrow> tenant_id \<Rightarrow> string \<Rightarrow> JESuggestion list \<Rightarrow> ('a, adjustment_row list) tb_op" where
  "addJEAsAdjustments E tenant period suggestions s =
     (case find (\<lambda>g. validateJEProvenance (sg_debits g) (sg_credits g) \<noteq> []) suggestions of
        Some g \<Rightarrow> (Inl (JsError (js_join ''; '' (validateJEProvenance (sg_debits g) (sg_credits g)))), s)
      | None \<Rightarrow> create_all (map (suggestion_adjustment E tenant period) suggestions) s)"

definition accrual_adjustment :: "'d env \<Rightarrow> tenant_id \<Rightarrow> string \<Rightarrow> AccrualSuggestion \<Rightarrow> adjustment_row" where
  "accrual_adjustment E tenant period g =
     pending_adjustment tenant period ''accrual'' (ag_description g)
       (if ag_debitAccount g = [] then [] else [debit_line E (ag_debitAccount g) (ag_amount g)])
       (if ag_creditAccount g = [] then [] else [credit_line E (ag_creditAccount g) (ag_amount g)])
       (ag_sourceDetail g)"

definition addAccrualsAsAdjustments ::
  "'d env \<Rightarrow> tenant_id \<Rightarrow> string \<Rightarrow> AccrualSuggestion list \<Rightarrow> ('a, adjustment_row list) tb_op" where
  "addAccrualsAsAdjustments E tenant period suggestions =
     create_all (map (accrual_adjustment E tenant period) suggestions)"

text \<open>
  The comparator of the sort calls \<open>localeCompare\<close> on \<open>createdAt\<close>, which the driver returns as a
  \<open>Date\<close> for a TIMESTAMPTZ column: from two elements on, the sort calls the comparator and throws.
\<close>

definition listAdjustments ::
  "tenant_id \<Rightarrow> string option \<Rightarrow> CloseAdjustmentStatus option \<Rightarrow> 'a tb_db_scheme \<Rightarrow> error + adjustment_row list" where
  "listAdjustments tenant period status s =
     (let found = filter (\<lambda>r. case status of None \<Rightarrow> True | Some t \<Rightarrow> ad_status r = t) (adjustment_rows tenant period s)
      in if 2 \<le> length found then Inl (JsError ''a.createdAt.localeCompare is not a function'') else Inr found)"

definition updateAdjustmentStatus ::
  "string \<Rightarrow> CloseAdjustmentStatus \<Rightarrow> string option \<Rightarrow> tenant_id \<Rightarrow> timestamp option \<Rightarrow> string option
     \<Rightarrow> 'a tb_db_scheme \<Rightarrow> adjustment_row option \<times> 'a tb_db_scheme" where
  "updateAdjustmentStatus i status actor tenant postTime externalId s =
     (let (t, s) = now s;
          none = \<lparr>ap_approvedBy = None, ap_approvedAt = None, ap_postedAt = None, ap_postedExternalId = None\<rparr>;
          patch = (if status = AdjApproved \<or> status = AdjRejected
            then none\<lparr>ap_approvedBy := actor, ap_approvedAt := Some t\<rparr>
            else if status = AdjPosted
            then none\<lparr>ap_postedAt := Some (js_or postTime t), ap_postedExternalId := externalId\<rparr>
            else none)
      in patch_adjustment i tenant status patch s)"

section \<open>adjusted\_trial\_balance\_service.ts\<close>

subsection \<open>Merging\<close>

type_synonym adjustment = "AdjustmentLine list \<times> AdjustmentLine list"

definition accountKey :: "string option \<Rightarrow> string \<Rightarrow> string" where
  "accountKey code name = (let k = js_trim (js_or code name) in if k = [] then name else k)"

definition entry_account :: "TrialBalanceEntry \<Rightarrow> string" where
  "entry_account e = accountKey (te_accountCode e) (te_accountName e)"

definition line_name :: "AdjustmentLine \<Rightarrow> string" where
  "line_name l = (let n = js_trim (aj_account l) in if n = [] then ''Unknown'' else n)"

definition line_code :: "AdjustmentLine \<Rightarrow> string option" where
  "line_code l = map_option js_trim (aj_code l)"

definition line_account :: "AdjustmentLine \<Rightarrow> string" where
  "line_account l = accountKey (line_code l) (line_name l)"

definition merge_entry ::
  "'d decimal_ops \<Rightarrow> TrialBalanceEntry \<Rightarrow> (string \<times> TrialBalanceEntry) list \<Rightarrow> (string \<times> TrialBalanceEntry) list" where
  "merge_entry D e = upsert (entry_account e) (add_entry D e) (plain_of e)"

definition merge_debit ::
  "'d decimal_ops \<Rightarrow> AdjustmentLine \<Rightarrow> (string \<times> TrialBalanceEntry) list \<Rightarrow> (string \<times> TrialBalanceEntry) list" where
  "merge_debit D l = upsert (line_account l)
     (\<lambda>v. v\<lparr>te_debit := plus2 D (te_debit v) (aj_amount l)\<rparr>)
     (plain_entry (line_code l) (line_name l) (aj_amount l) (Fin 0) None)"

definition merge_credit ::
  "'d decimal_ops \<Rightarrow> AdjustmentLine \<Rightarrow> (string \<times> TrialBalanceEntry) list \<Rightarrow> (string \<times> TrialBalanceEntry) list" where
  "merge_credit D l = upsert (line_account l)
     (\<lambda>v. v\<lparr>te_credit := plus2 D (te_credit v) (aj_amount l)\<rparr>)
     (plain_entry (line_code l) (line_name l) (Fin 0) (aj_amount l) None)"

definition merge_adjustment ::
  "'d decimal_ops \<Rightarrow> adjustment \<Rightarrow> (string \<times> TrialBalanceEntry) list \<Rightarrow> (string \<times> TrialBalanceEntry) list" where
  "merge_adjustment D a m = fold (merge_credit D) (snd a) (fold (merge_debit D) (fst a) m)"

definition mergeAdjustmentsIntoEntries ::
  "'d decimal_ops \<Rightarrow> TrialBalanceEntry list \<Rightarrow> adjustment list \<Rightarrow> TrialBalanceEntry list" where
  "mergeAdjustmentsIntoEntries D entries adjustments =
     map snd (fold (merge_adjustment D) adjustments (fold (merge_entry D) entries []))"

subsection \<open>The sources\<close>

text \<open>The posted adjustments of the period, then the posted journal entries of the session.\<close>

definition je_adjustments :: "tenant_id \<Rightarrow> string option \<Rightarrow> 'a tb_db_scheme \<Rightarrow> adjustment list" where
  "je_adjustments tenant sessionId s =
     (if truthy sessionId
      then map (\<lambda>(ds, cs).
             (map (\<lambda>(a, n). \<lparr>aj_account = a, aj_amount = n, aj_code = None, aj_lineId = None\<rparr>) ds,
              map (\<lambda>(a, n). \<lparr>aj_account = a, aj_amount = n, aj_code = None, aj_lineId = None\<rparr>) cs))
             (getPostableJEAdjustments tenant sessionId s)
      else [])"

definition adjustment_payloads ::
  "tenant_id \<Rightarrow> string \<Rightarrow> string option \<Rightarrow> 'a tb_db_scheme \<Rightarrow> error + adjustment list" where
  "adjustment_payloads tenant period sessionId s =
     (case listAdjustments tenant (Some period) (Some AdjPosted) s of
        Inl e \<Rightarrow> Inl e
      | Inr adjustments \<Rightarrow>
          Inr (map (\<lambda>a. (ad_debits a, ad_credits a)) adjustments @ je_adjustments tenant sessionId s))"

definition mapAccountTypeToFinancial :: "string option \<Rightarrow> string option" where
  "mapAccountTypeToFinancial t =
     (case t of
        None \<Rightarrow> None
      | Some u \<Rightarrow> if js_toUpperCase u \<in> set ACCOUNT_TYPES then Some (js_toUpperCase u) else None)"

definition gl_entry :: "DerivedEntry \<Rightarrow> TrialBalanceEntry" where
  "gl_entry e = plain_entry (Some (de_code e)) (de_name e) (de_debit e) (de_credit e)
     (mapAccountTypeToFinancial (de_type e))"

datatype tb_source = GlSource | UploadedSource | AdjustedSource

text \<open>\<open>getTrialBalanceForCertification\<close>: the entries, their source, and whether there is a ledger.\<close>

definition getTrialBalanceForCertification ::
  "'d decimal_ops \<Rightarrow> (string \<Rightarrow> string) \<Rightarrow> tenant_id \<Rightarrow> string \<Rightarrow> string option \<Rightarrow> 'a tb_db_scheme
     \<Rightarrow> error + (TrialBalanceEntry list \<times> tb_source \<times> bool)" where
  "getTrialBalanceForCertification D cl tenant period sessionId s =
     (if getGLForPeriod cl tenant period s \<noteq> []
      then (case buildDerivedTrialBalance D cl tenant period s of
              Inl e \<Rightarrow> Inl e
            | Inr tb \<Rightarrow> Inr (map gl_entry (dt_entries tb), GlSource, True))
      else (case getUnadjustedOrRollup D cl tenant period s of
              None \<Rightarrow> Inr ([], UploadedSource, False)
            | Some (uploaded, _) \<Rightarrow>
                if uploaded = [] then Inr ([], UploadedSource, False)
                else (case adjustment_payloads tenant period sessionId s of
                        Inl e \<Rightarrow> Inl e
                      | Inr payloads \<Rightarrow>
                          Inr (if payloads = [] then uploaded else mergeAdjustmentsIntoEntries D uploaded payloads,
                               AdjustedSource, False))))"

text \<open>With a pool, which is how every caller but none of the tests calls it.\<close>

definition getAdjustedTrialBalance ::
  "'d decimal_ops \<Rightarrow> (string \<Rightarrow> string) \<Rightarrow> tenant_id \<Rightarrow> string \<Rightarrow> string option \<Rightarrow> 'a tb_db_scheme
     \<Rightarrow> error + TrialBalanceEntry list" where
  "getAdjustedTrialBalance D cl tenant period sessionId s =
     (case getTrialBalanceForCertification D cl tenant period sessionId s of
        Inl e \<Rightarrow> Inl e
      | Inr (base, _) \<Rightarrow>
          (case adjustment_payloads tenant period sessionId s of
             Inl e \<Rightarrow> Inl e
           | Inr payloads \<Rightarrow> Inr (if payloads = [] then base else mergeAdjustmentsIntoEntries D base payloads)))"

subsection \<open>Opening balances\<close>

text \<open>\<open>YYYY-MM\<close> to the month before.\<close>

definition getPriorPeriodLabel :: "string \<Rightarrow> string option" where
  "getPriorPeriodLabel periodLabel =
     (case js_split (CHR ''-'') periodLabel of
        [y, m] \<Rightarrow>
          if length y = 4 \<and> length m = 2 \<and> list_all is_digit (y @ m)
          then (let year = int (digits_value y); month = int (digits_value m) - 1
                in if month = 0 then Some (int_text (year - 1) @ ''-12'')
                   else Some (int_text year @ ''-'' @ pad_zero 2 (int_text month)))
          else None
      | _ \<Rightarrow> None)"

text \<open>\<open>Number(d.toFixed(2))\<close> of the net balance; the opening balance of each entry, if it has one.\<close>

definition net_balance :: "'d decimal_ops \<Rightarrow> TrialBalanceEntry \<Rightarrow> number" where
  "net_balance D e =
     number_of_text (d_toFixed D (d_minus D (d_of_num D (te_debit e)) (d_of_num D (te_credit e))) 2)"

definition opening_balances ::
  "'d decimal_ops \<Rightarrow> TrialBalanceEntry list \<Rightarrow> TrialBalanceEntry list \<Rightarrow> (TrialBalanceEntry \<times> number option) list" where
  "opening_balances D priorEntries entries =
     (let priorByAccount = (\<lambda>k. map_option (net_balance D) (find (\<lambda>e. entry_account e = k) (rev priorEntries)))
      in map (\<lambda>e. (e, if te_accountType e \<in> {Some ASSET, Some LIABILITY, Some EQUITY}
            then priorByAccount (entry_account e) else None)) entries)"

definition enrichWithOpeningBalances ::
  "'d decimal_ops \<Rightarrow> (string \<Rightarrow> string) \<Rightarrow> tenant_id \<Rightarrow> string \<Rightarrow> TrialBalanceEntry list \<Rightarrow> 'a tb_db_scheme
     \<Rightarrow> (TrialBalanceEntry \<times> number option) list" where
  "enrichWithOpeningBalances D cl tenant period entries s =
     (case getPriorPeriodLabel period of
        None \<Rightarrow> map (\<lambda>e. (e, None)) entries
      | Some priorLabel \<Rightarrow>
          opening_balances D
            (case getAdjustedTrialBalance D cl tenant priorLabel None s of
               Inr prior \<Rightarrow> prior
             | Inl e \<Rightarrow> (case getUnadjustedOrRollup D cl tenant priorLabel s of
                           None \<Rightarrow> [] | Some (prior, _) \<Rightarrow> prior))
            entries)"

end
