(* ===== verification/TrialBalanceGuarantees.thy ===== *)
theory TrialBalanceGuarantees
  imports AdjustedBalance
begin

text \<open>
  What a trial balance holds: by account, the sum of its sources. The loops of the services are
  instances of \<open>accumulation\<close>; on whole cents they lose nothing. The adjusted trial balance of the
  reports is that of the certification plus the adjustments once more.
\<close>

section \<open>Merging\<close>

text \<open>The loop of the merge as one list of steps.\<close>

datatype merge_step = FromEntry TrialBalanceEntry | DebitLine AdjustmentLine | CreditLine AdjustmentLine

fun step_account :: "merge_step \<Rightarrow> string" where
  "step_account (FromEntry e) = entry_account e"
| "step_account (DebitLine l) = line_account l"
| "step_account (CreditLine l) = line_account l"

fun step_start :: "merge_step \<Rightarrow> TrialBalanceEntry" where
  "step_start (FromEntry e) = plain_of e"
| "step_start (DebitLine l) = plain_entry (line_code l) (line_name l) (aj_amount l) (Fin 0) None"
| "step_start (CreditLine l) = plain_entry (line_code l) (line_name l) (Fin 0) (aj_amount l) None"

fun step_add :: "'d decimal_ops \<Rightarrow> merge_step \<Rightarrow> TrialBalanceEntry \<Rightarrow> TrialBalanceEntry" where
  "step_add D (FromEntry e) v = add_entry D e v"
| "step_add D (DebitLine l) v = v\<lparr>te_debit := plus2 D (te_debit v) (aj_amount l)\<rparr>"
| "step_add D (CreditLine l) v = v\<lparr>te_credit := plus2 D (te_credit v) (aj_amount l)\<rparr>"

fun step_debit :: "merge_step \<Rightarrow> int" where
  "step_debit (FromEntry e) = cents_of (te_debit e)"
| "step_debit (DebitLine l) = cents_of (aj_amount l)"
| "step_debit (CreditLine l) = 0"

fun step_credit :: "merge_step \<Rightarrow> int" where
  "step_credit (FromEntry e) = cents_of (te_credit e)"
| "step_credit (DebitLine l) = 0"
| "step_credit (CreditLine l) = cents_of (aj_amount l)"

fun step_valid :: "merge_step \<Rightarrow> bool" where
  "step_valid (FromEntry e) = (in_cents (te_debit e) \<and> in_cents (te_credit e))"
| "step_valid (DebitLine l) = in_cents (aj_amount l)"
| "step_valid (CreditLine l) = in_cents (aj_amount l)"

definition adjustment_steps :: "adjustment \<Rightarrow> merge_step list" where
  "adjustment_steps a = map DebitLine (fst a) @ map CreditLine (snd a)"

definition merge_steps :: "TrialBalanceEntry list \<Rightarrow> adjustment list \<Rightarrow> merge_step list" where
  "merge_steps es adjustments = map FromEntry es @ concat (map adjustment_steps adjustments)"

lemma step_upsert:
  "merge_entry D e = upsert (step_account (FromEntry e)) (step_add D (FromEntry e)) (step_start (FromEntry e))"
  "merge_debit D l = upsert (step_account (DebitLine l)) (step_add D (DebitLine l)) (step_start (DebitLine l))"
  "merge_credit D l = upsert (step_account (CreditLine l)) (step_add D (CreditLine l)) (step_start (CreditLine l))"
proof -
  have "step_add D (FromEntry e) = add_entry D e" "step_add D (DebitLine l) = (\<lambda>v. v\<lparr>te_debit := plus2 D (te_debit v) (aj_amount l)\<rparr>)"
    "step_add D (CreditLine l) = (\<lambda>v. v\<lparr>te_credit := plus2 D (te_credit v) (aj_amount l)\<rparr>)"
    by (simp_all add: fun_eq_iff)
  then show "merge_entry D e = upsert (step_account (FromEntry e)) (step_add D (FromEntry e)) (step_start (FromEntry e))"
    "merge_debit D l = upsert (step_account (DebitLine l)) (step_add D (DebitLine l)) (step_start (DebitLine l))"
    "merge_credit D l = upsert (step_account (CreditLine l)) (step_add D (CreditLine l)) (step_start (CreditLine l))"
    by (simp_all add: merge_entry_def merge_debit_def merge_credit_def)
qed

lemma merge_collect:
  "mergeAdjustmentsIntoEntries D es adjustments
     = map snd (collect step_account step_start (step_add D) (merge_steps es adjustments))"
proof -
  let ?step = "\<lambda>x. upsert (step_account x) (step_add D x) (step_start x)"
  have loops: "merge_entry D = (\<lambda>e. ?step (FromEntry e))" "merge_debit D = (\<lambda>l. ?step (DebitLine l))"
    "merge_credit D = (\<lambda>l. ?step (CreditLine l))"
    by (rule ext, rule step_upsert)+
  have "merge_adjustment D a = fold ?step (adjustment_steps a)" for a
    by (simp only: fun_eq_iff merge_adjustment_def adjustment_steps_def fold_map fold_append comp_def loops simp_thms)
  then have "fold (merge_adjustment D) adjustments m = fold ?step (concat (map adjustment_steps adjustments)) m" for m
    by (induction adjustments arbitrary: m) simp_all
  then show ?thesis
    by (simp only: mergeAdjustmentsIntoEntries_def merge_steps_def collect_def fold_map fold_append comp_def loops simp_thms)
qed

lemma cell_plus2:
  assumes "decimal_js D fin v" and "cell a c" and "in_cents b" and "\<bar>c + cents_of b\<bar> < 10 ^ 15"
  shows "cell (plus2 D a b) (c + cents_of b)"
  using decimal_js.plus2_cents [OF assms(1), of a b] assms(2-4) by (auto simp: cell_def)

lemma cell_in_cents: "in_cents n \<Longrightarrow> cell n (cents_of n)"
  by (simp add: cell_def)

sublocale decimal_js \<subseteq> merging: accumulation step_account step_start "step_add D" step_debit step_credit
    te_debit te_credit entry_account step_valid
proof
  fix x v d c
  show "step_valid x \<Longrightarrow> cell (te_debit (step_start x)) (step_debit x) \<and> cell (te_credit (step_start x)) (step_credit x)"
    by (cases x) (simp_all add: plain_of_def plain_entry_def cell_in_cents)
  show "entry_account (step_add D x v) = entry_account v"
    by (cases x) (simp_all add: add_entry_def entry_account_def)
  assume "step_valid x" "cell (te_debit v) d" "cell (te_credit v) c" "\<bar>d + step_debit x\<bar> < 10 ^ 15" "\<bar>c + step_credit x\<bar> < 10 ^ 15"
  then show "cell (te_debit (step_add D x v)) (d + step_debit x) \<and> cell (te_credit (step_add D x v)) (c + step_credit x)"
    using cell_plus2 [OF decimal_js_axioms] by (cases x) (simp_all add: add_entry_def)
qed

lemma start_account: "entry_account (step_start x) = step_account x"
  by (cases x) (simp_all add: plain_of_def plain_entry_def entry_account_def line_account_def)

section \<open>By account\<close>

definition account_debit :: "string \<Rightarrow> TrialBalanceEntry list \<Rightarrow> int" where
  "account_debit k es = (\<Sum>e\<leftarrow>by_key entry_account k es. cents_of (te_debit e))"

definition account_credit :: "string \<Rightarrow> TrialBalanceEntry list \<Rightarrow> int" where
  "account_credit k es = (\<Sum>e\<leftarrow>by_key entry_account k es. cents_of (te_credit e))"

definition adjusted_debit :: "string \<Rightarrow> adjustment list \<Rightarrow> int" where
  "adjusted_debit k adjustments = (\<Sum>a\<leftarrow>adjustments. \<Sum>l\<leftarrow>by_key line_account k (fst a). cents_of (aj_amount l))"

definition adjusted_credit :: "string \<Rightarrow> adjustment list \<Rightarrow> int" where
  "adjusted_credit k adjustments = (\<Sum>a\<leftarrow>adjustments. \<Sum>l\<leftarrow>by_key line_account k (snd a). cents_of (aj_amount l))"

text \<open>The absolute amounts of the adjustments.\<close>

definition adjusted_volume :: "adjustment list \<Rightarrow> int" where
  "adjusted_volume adjustments = (\<Sum>a\<leftarrow>adjustments. \<Sum>l\<leftarrow>fst a @ snd a. \<bar>cents_of (aj_amount l)\<bar>)"

definition adjustments_in_cents :: "adjustment list \<Rightarrow> bool" where
  "adjustments_in_cents adjustments \<longleftrightarrow> list_all (\<lambda>a. list_all (\<lambda>l. in_cents (aj_amount l)) (fst a @ snd a)) adjustments"

text \<open>Everything is in whole cents and small enough to be merged exactly.\<close>

definition mergeable :: "TrialBalanceEntry list \<Rightarrow> adjustment list \<Rightarrow> bool" where
  "mergeable es adjustments \<longleftrightarrow>
     entries_in_cents es \<and> adjustments_in_cents adjustments \<and> volume es + adjusted_volume adjustments < 10 ^ 15"

lemma step_sums:
  "(\<Sum>x\<leftarrow>by_key step_account k (merge_steps es adjustments). step_debit x)
     = account_debit k es + adjusted_debit k adjustments"
  "(\<Sum>x\<leftarrow>by_key step_account k (merge_steps es adjustments). step_credit x)
     = account_credit k es + adjusted_credit k adjustments"
  "(\<Sum>x\<leftarrow>merge_steps es adjustments. \<bar>step_debit x\<bar>) + (\<Sum>x\<leftarrow>merge_steps es adjustments. \<bar>step_credit x\<bar>)
     = volume es + adjusted_volume adjustments"
proof -
  have entries: "(\<Sum>x\<leftarrow>by_key step_account k (map FromEntry es). step_debit x) = account_debit k es"
    "(\<Sum>x\<leftarrow>by_key step_account k (map FromEntry es). step_credit x) = account_credit k es"
    by (simp_all add: by_key_def filter_map comp_def account_debit_def account_credit_def)
  have lines: "(\<Sum>x\<leftarrow>by_key step_account k (map DebitLine ls). step_debit x) = (\<Sum>l\<leftarrow>by_key line_account k ls. cents_of (aj_amount l))"
    "(\<Sum>x\<leftarrow>by_key step_account k (map CreditLine ls). step_credit x) = (\<Sum>l\<leftarrow>by_key line_account k ls. cents_of (aj_amount l))"
    "(\<Sum>x\<leftarrow>by_key step_account k (map CreditLine ls). step_debit x) = 0"
    "(\<Sum>x\<leftarrow>by_key step_account k (map DebitLine ls). step_credit x) = 0" for ls
    by (simp_all add: by_key_def filter_map comp_def)
  have append: "by_key step_account k (xs @ ys) = by_key step_account k xs @ by_key step_account k ys" for xs ys
    by (simp add: by_key_def)
  have debits: "(\<Sum>x\<leftarrow>by_key step_account k (concat (map adjustment_steps adjustments)). step_debit x) = adjusted_debit k adjustments"
    by (induction adjustments) (simp_all add: adjusted_debit_def adjustment_steps_def append lines)
  have credits: "(\<Sum>x\<leftarrow>by_key step_account k (concat (map adjustment_steps adjustments)). step_credit x) = adjusted_credit k adjustments"
    by (induction adjustments) (simp_all add: adjusted_credit_def adjustment_steps_def append lines)
  show "(\<Sum>x\<leftarrow>by_key step_account k (merge_steps es adjustments). step_debit x) = account_debit k es + adjusted_debit k adjustments"
    "(\<Sum>x\<leftarrow>by_key step_account k (merge_steps es adjustments). step_credit x) = account_credit k es + adjusted_credit k adjustments"
    by (simp_all add: merge_steps_def append entries debits credits)
  have "(\<Sum>x\<leftarrow>concat (map adjustment_steps adjustments). \<bar>step_debit x\<bar>)
      + (\<Sum>x\<leftarrow>concat (map adjustment_steps adjustments). \<bar>step_credit x\<bar>) = adjusted_volume adjustments"
    by (induction adjustments) (simp_all add: adjusted_volume_def adjustment_steps_def comp_def)
  moreover have "(\<Sum>e\<leftarrow>es. \<bar>cents_of (te_debit e)\<bar>) + (\<Sum>e\<leftarrow>es. \<bar>cents_of (te_credit e)\<bar>) = volume es"
    by (simp add: volume_def sum_list_addf)
  ultimately show "(\<Sum>x\<leftarrow>merge_steps es adjustments. \<bar>step_debit x\<bar>) + (\<Sum>x\<leftarrow>merge_steps es adjustments. \<bar>step_credit x\<bar>)
      = volume es + adjusted_volume adjustments"
    by (simp add: merge_steps_def comp_def)
qed

lemma steps_valid:
  assumes "mergeable es adjustments"
  shows "list_all step_valid (merge_steps es adjustments)"
    and "(\<Sum>x\<leftarrow>merge_steps es adjustments. \<bar>step_debit x\<bar>) < 10 ^ 15"
    and "(\<Sum>x\<leftarrow>merge_steps es adjustments. \<bar>step_credit x\<bar>) < 10 ^ 15"
proof -
  show "list_all step_valid (merge_steps es adjustments)"
    using assms by (auto simp: mergeable_def entries_in_cents_def adjustments_in_cents_def list_all_iff merge_steps_def
        adjustment_steps_def)
  have "0 \<le> (\<Sum>x\<leftarrow>merge_steps es adjustments. \<bar>step_debit x\<bar>)" "0 \<le> (\<Sum>x\<leftarrow>merge_steps es adjustments. \<bar>step_credit x\<bar>)"
    by (rule sum_list_nonneg, auto)+
  with step_sums(3) [of es adjustments] assms
  show "(\<Sum>x\<leftarrow>merge_steps es adjustments. \<bar>step_debit x\<bar>) < 10 ^ 15"
    "(\<Sum>x\<leftarrow>merge_steps es adjustments. \<bar>step_credit x\<bar>) < 10 ^ 15"
    by (auto simp: mergeable_def)
qed

definition posted_accounts :: "TrialBalanceEntry list \<Rightarrow> adjustment list \<Rightarrow> string set" where
  "posted_accounts es adjustments =
     entry_account ` set es \<union> line_account ` (\<Union>a\<in>set adjustments. set (fst a @ snd a))"

context decimal_js begin

lemma merged:
  assumes "mergeable es adjustments"
  shows "distinct (map entry_account (mergeAdjustmentsIntoEntries D es adjustments))"
    and "entry_account ` set (mergeAdjustmentsIntoEntries D es adjustments) = posted_accounts es adjustments"
    and "account_debit k (mergeAdjustmentsIntoEntries D es adjustments) = account_debit k es + adjusted_debit k adjustments"
    and "account_credit k (mergeAdjustmentsIntoEntries D es adjustments) = account_credit k es + adjusted_credit k adjustments"
    and "list_all (\<lambda>e. in_cents (te_debit e) \<and> in_cents (te_credit e)) (mergeAdjustmentsIntoEntries D es adjustments)"
proof -
  let ?steps = "merge_steps es adjustments"
  let ?m = "collect step_account step_start (step_add D) ?steps"
  note valid = steps_valid [OF assms]
  have account: "entry_account (snd p) = fst p" if "p \<in> set ?m" for p
  proof -
    have "map_of ?m (fst p) = Some (snd p)"
      by (rule map_of_is_SomeI [OF collect_keys(1)]) (simp add: that)
    from merging.collect_label [OF this]
    have "entry_account (snd p) = step_account (hd (by_key step_account (fst p) ?steps))"
      by (simp add: start_account)
    moreover have "fst p \<in> step_account ` set ?steps"
      using that collect_keys(2) [of step_account step_start "step_add D" ?steps] by (metis image_eqI)
    then have "hd (by_key step_account (fst p) ?steps) \<in> set (by_key step_account (fst p) ?steps)"
      by (intro hd_in_set) (auto simp: by_key_def filter_empty_conv)
    ultimately show ?thesis by (simp add: by_key_def)
  qed
  have keys: "map entry_account (map snd ?m) = map fst ?m"
    using account by simp
  then show "distinct (map entry_account (mergeAdjustmentsIntoEntries D es adjustments))"
    by (simp only: merge_collect collect_keys(1))
  have "entry_account ` set (map snd ?m) = step_account ` set ?steps"
    using arg_cong [OF keys, of set] by (simp add: collect_keys(2) del: map_map)
  moreover have "step_account ` set ?steps = posted_accounts es adjustments"
    by (simp add: posted_accounts_def merge_steps_def adjustment_steps_def image_Un image_UN image_image UN_Un_distrib comp_def)
  ultimately show "entry_account ` set (mergeAdjustmentsIntoEntries D es adjustments) = posted_accounts es adjustments"
    by (simp only: merge_collect)
  have "filter (\<lambda>p. entry_account (snd p) = k) ?m = filter (\<lambda>p. fst p = k) ?m"
    by (rule filter_cong [OF refl]) (simp add: account)
  then have "by_key entry_account k (map snd ?m) = map snd (by_key fst k ?m)"
    by (simp add: by_key_def filter_map comp_def)
  then have "account_debit k (map snd ?m) = (\<Sum>p\<leftarrow>by_key fst k ?m. cents_of (te_debit (snd p)))"
    "account_credit k (map snd ?m) = (\<Sum>p\<leftarrow>by_key fst k ?m. cents_of (te_credit (snd p)))"
    by (simp_all add: account_debit_def account_credit_def comp_def)
  then show "account_debit k (mergeAdjustmentsIntoEntries D es adjustments) = account_debit k es + adjusted_debit k adjustments"
    "account_credit k (mergeAdjustmentsIntoEntries D es adjustments) = account_credit k es + adjusted_credit k adjustments"
    by (simp_all only: merge_collect merging.collect_by_key [OF valid] step_sums)
  show "list_all (\<lambda>e. in_cents (te_debit e) \<and> in_cents (te_credit e)) (mergeAdjustmentsIntoEntries D es adjustments)"
    using merging.collect_entry [OF valid] by (auto simp: merge_collect list_all_iff cell_def)
qed

text \<open>Nothing grows: what is merged can be merged again.\<close>

lemma merged_volume:
  assumes "mergeable es adjustments"
  shows "volume (mergeAdjustmentsIntoEntries D es adjustments) \<le> volume es + adjusted_volume adjustments"
proof -
  let ?steps = "merge_steps es adjustments"
  have "volume (mergeAdjustmentsIntoEntries D es adjustments)
      = (\<Sum>p\<leftarrow>collect step_account step_start (step_add D) ?steps. \<bar>cents_of (te_debit (snd p))\<bar>)
        + (\<Sum>p\<leftarrow>collect step_account step_start (step_add D) ?steps. \<bar>cents_of (te_credit (snd p))\<bar>)"
    by (simp add: merge_collect volume_def sum_list_addf comp_def)
  also have "\<dots> \<le> (\<Sum>x\<leftarrow>?steps. \<bar>step_debit x\<bar>) + (\<Sum>x\<leftarrow>?steps. \<bar>step_credit x\<bar>)"
    by (rule add_mono [OF merging.collect_volume [OF steps_valid [OF assms]]])
  finally show ?thesis by (simp only: step_sums(3))
qed

lemma mergeable_again:
  assumes "mergeable es (adjustments @ adjustments)"
  shows "mergeable es adjustments" and "mergeable (mergeAdjustmentsIntoEntries D es adjustments) adjustments"
proof -
  have nonneg: "0 \<le> adjusted_volume adjustments" by (auto simp: adjusted_volume_def intro!: sum_list_nonneg add_nonneg_nonneg)
  have double: "adjusted_volume (adjustments @ adjustments) = 2 * adjusted_volume adjustments"
    by (simp add: adjusted_volume_def)
  with assms nonneg show once: "mergeable es adjustments" by (auto simp: mergeable_def adjustments_in_cents_def)
  from merged_volume [OF once] merged(5) [OF once] assms double nonneg
  show "mergeable (mergeAdjustmentsIntoEntries D es adjustments) adjustments"
    by (auto simp: mergeable_def entries_in_cents_def adjustments_in_cents_def)
qed

end

end
