(* ===== verification/AdjustmentGuarantees.thy ===== *)
theory AdjustmentGuarantees
  imports TrialBalanceGuarantees CloseProperties
begin

text \<open>
  The adjusted trial balance: what merging adjustments gives by account, how the two trial balances of a
  period differ, and that a period with two posted adjustments can neither be reported nor certified.
\<close>

section \<open>The trial balance of the certification\<close>

text \<open>Lines 330 to 341 of \<open>close_session_service.ts\<close>: \<open>None\<close> is the exception that the caller catches.\<close>

definition snapshot_entry :: "TrialBalanceEntry \<Rightarrow> SnapEntry" where
  "snapshot_entry e =
     \<lparr>sn_lineId = te_lineId e, sn_accountName = te_accountName e, sn_debit = Some (te_debit e),
      sn_credit = Some (te_credit e), sn_accountCode = te_accountCode e, sn_accountType = te_accountType e,
      sn_description = None, sn_provenance = None\<rparr>"

definition certification_balance ::
  "'d decimal_ops \<Rightarrow> (string \<Rightarrow> string) \<Rightarrow> CertifyCloseInput \<Rightarrow> CloseSession \<Rightarrow> 'a tb_db_scheme
     \<Rightarrow> (SnapEntry list \<times> bool) option" where
  "certification_balance D cl input session s =
     (case getTrialBalanceForCertification D cl (cy_tenantId input) (js_or (cy_periodLabel input) (period_of session))
         (Some (cy_closeSessionId input)) s of
        Inl e \<Rightarrow> None
      | Inr (entries, _, hasGL) \<Rightarrow> Some (map snapshot_entry entries, hasGL))"

section \<open>Concrete books\<close>

definition adjustment_line :: "string \<Rightarrow> int \<Rightarrow> AdjustmentLine" where
  "adjustment_line name c = \<lparr>aj_account = name, aj_amount = cents_num c, aj_code = None, aj_lineId = None\<rparr>"

definition demo_uploaded :: "TrialBalanceEntry list" where
  "demo_uploaded = [plain_entry None ''Cash'' (cents_num 10000) (Fin 0) None,
     plain_entry None ''Sales'' (Fin 0) (cents_num 10000) None]"

definition demo_adjustments :: "adjustment list" where
  "demo_adjustments = [([adjustment_line ''Rent'' 250], [adjustment_line ''Cash'' 250])]"

lemma demo_mergeable: "mergeable demo_uploaded (demo_adjustments @ demo_adjustments)"
  by (simp add: mergeable_def entries_in_cents_def adjustments_in_cents_def volume_def adjusted_volume_def
      demo_uploaded_def demo_adjustments_def adjustment_line_def plain_entry_def)

lemma demo_names:
  "js_trim ''Cash'' = ''Cash''" "js_trim ''Sales'' = ''Sales''" "js_trim ''Rent'' = ''Rent''"
  by code_simp+

lemma demo_keys:
  "entry_account (plain_entry None ''Cash'' d c t) = ''Cash''" "entry_account (plain_entry None ''Sales'' d c t) = ''Sales''"
  "line_account (adjustment_line ''Cash'' n) = ''Cash''" "line_account (adjustment_line ''Rent'' n) = ''Rent''"
  by (simp_all add: entry_account_def line_account_def line_code_def line_name_def accountKey_def plain_entry_def
      adjustment_line_def demo_names js_or_def)

lemma demo_accounts:
  "account_debit ''Rent'' demo_uploaded = 0" "adjusted_debit ''Rent'' demo_adjustments = 250"
  "account_credit ''Rent'' demo_uploaded = 0" "adjusted_credit ''Rent'' demo_adjustments = 0"
  by (simp_all add: account_debit_def adjusted_debit_def account_credit_def adjusted_credit_def by_key_def
      demo_uploaded_def demo_adjustments_def demo_keys)
    (simp add: adjustment_line_def)

definition demo_upload_row :: tb_row where
  "demo_upload_row = \<lparr>pt_tenant = ''t1'', pt_period = ''2025-06'', pt_source = Uploaded, pt_entries = demo_uploaded,
     pt_uploaded_at = Some 1, pt_uploaded_by = None, pt_synced_at = None, pt_synced_by = None, pt_file_name = None,
     pt_connection_id = None, pt_created_at = 1, pt_updated_at = 1\<rparr>"

definition demo_posted :: "string \<Rightarrow> adjustment_row" where
  "demo_posted i = (pending_adjustment ''t1'' ''2025-06'' ''accrual'' ''Rent'' [adjustment_line ''Rent'' 250]
     [adjustment_line ''Cash'' 250] None)\<lparr>ad_id := i, ad_status := AdjPosted\<rparr>"

definition demo_tb :: "adjustment_row list \<Rightarrow> tb_db" where
  "demo_tb adjustments = module_db.extend demo_review (tb_db.fields [] [] [demo_upload_row] adjustments)"

lemma demo_tb_simps [simp]:
  "general_ledger (demo_tb as) = []" "chart_of_accounts (demo_tb as) = []"
  "period_trial_balance (demo_tb as) = [demo_upload_row]" "close_adjustments (demo_tb as) = as"
  "close_sessions (demo_tb as) = close_sessions demo_review" "journal_entries (demo_tb as) = []"
  by (simp_all add: demo_tb_def module_db.extend_def tb_db.fields_def demo_review_def demo_books_def)

lemma demo_tb_reads:
  "getGLForPeriod cl ''t1'' ''2025-06'' (demo_tb as) = []"
  "getUnadjustedOrRollup D cl ''t1'' ''2025-06'' (demo_tb as) = Some (demo_uploaded, None)"
  "demo_uploaded \<noteq> []"
  by (simp_all add: getGLForPeriod_def getUnadjustedOrRollup_def getUnadjusted_def stored_tb_def tb_of_def
      demo_upload_row_def unadjusted_record_def demo_uploaded_def)

section \<open>By account\<close>

text \<open>
  C34. Merging adjustments into a trial balance, in whole cents and below ten to the fifteen, gives one
  entry per account, for the accounts of the entries and of the lines, and the debits and credits of an
  account are to the cent the sums of those of its entries and of its adjustment lines. What decimal.js
  does is the hypothesis \<open>decimal_js\<close>.
\<close>

theorem merged_by_account:
  assumes "decimal_js D fin v" and "mergeable es adjustments"
  shows "distinct (map entry_account (mergeAdjustmentsIntoEntries D es adjustments))
    \<and> entry_account ` set (mergeAdjustmentsIntoEntries D es adjustments) = posted_accounts es adjustments
    \<and> account_debit k (mergeAdjustmentsIntoEntries D es adjustments) = account_debit k es + adjusted_debit k adjustments
    \<and> account_credit k (mergeAdjustmentsIntoEntries D es adjustments) = account_credit k es + adjusted_credit k adjustments"
  using decimal_js.merged [OF assms] by blast

theorem merged_by_account_witness:
  "account_debit ''Rent'' (mergeAdjustmentsIntoEntries dec_model demo_uploaded demo_adjustments) = 250"
  using merged_by_account [OF dec.decimal_js_axioms dec.mergeable_again(1) [OF demo_mergeable], of "''Rent''"]
  by (simp add: demo_accounts)

section \<open>Two trial balances\<close>

text \<open>
  C35. Without a general ledger, the trial balance that is certified has the adjustments of the period
  merged into what was uploaded, and the adjusted trial balance that the statements are generated from
  merges them a second time: by account, in cents, it is ahead of the certified one by one more round of
  adjustments.
\<close>

theorem adjustments_counted_twice:
  assumes "decimal_js D fin v" and "mergeable uploaded (adjustments @ adjustments)"
    and "getGLForPeriod cl tenant period s = []" and "getUnadjustedOrRollup D cl tenant period s = Some (uploaded, months)"
    and "uploaded \<noteq> []" and "adjustment_payloads tenant period sessionId s = Inr adjustments"
  shows "\<exists>certified adjusted.
    getTrialBalanceForCertification D cl tenant period sessionId s = Inr (certified, AdjustedSource, False)
    \<and> getAdjustedTrialBalance D cl tenant period sessionId s = Inr adjusted
    \<and> account_debit k certified = account_debit k uploaded + adjusted_debit k adjustments
    \<and> account_credit k certified = account_credit k uploaded + adjusted_credit k adjustments
    \<and> account_debit k adjusted = account_debit k uploaded + 2 * adjusted_debit k adjustments
    \<and> account_credit k adjusted = account_credit k uploaded + 2 * adjusted_credit k adjustments"
proof -
  let ?once = "mergeAdjustmentsIntoEntries D uploaded adjustments"
  note fits = decimal_js.mergeable_again [OF assms(1,2)]
  note sums = decimal_js.merged(3,4) [OF assms(1) fits(1)] decimal_js.merged(3,4) [OF assms(1) fits(2)]
  have none: "adjusted_debit k [] = 0" "adjusted_credit k [] = 0"
    by (simp_all add: adjusted_debit_def adjusted_credit_def)
  have certified: "getTrialBalanceForCertification D cl tenant period sessionId s
      = Inr (if adjustments = [] then uploaded else ?once, AdjustedSource, False)"
    using assms(3-6) by (simp add: getTrialBalanceForCertification_def)
  then have "getAdjustedTrialBalance D cl tenant period sessionId s
      = Inr (if adjustments = [] then uploaded else mergeAdjustmentsIntoEntries D ?once adjustments)"
    using assms(6) by (simp add: getAdjustedTrialBalance_def)
  with certified show ?thesis by (cases "adjustments = []") (simp_all add: sums none)
qed

lemma demo_payloads:
  "adjustment_payloads ''t1'' ''2025-06'' None (demo_tb [demo_posted ''a1'']) = Inr demo_adjustments"
  by (simp add: adjustment_payloads_def listAdjustments_def adjustment_rows_def je_adjustments_def demo_posted_def
      pending_adjustment_def demo_adjustments_def Let_def)

theorem adjustments_counted_twice_witness:
  "\<exists>certified adjusted.
    getTrialBalanceForCertification dec_model (\<lambda>x. x) ''t1'' ''2025-06'' None (demo_tb [demo_posted ''a1''])
      = Inr (certified, AdjustedSource, False)
    \<and> getAdjustedTrialBalance dec_model (\<lambda>x. x) ''t1'' ''2025-06'' None (demo_tb [demo_posted ''a1'']) = Inr adjusted
    \<and> account_debit ''Rent'' certified = 250 \<and> account_debit ''Rent'' adjusted = 500"
  using adjustments_counted_twice [OF dec.decimal_js_axioms demo_mergeable demo_tb_reads demo_payloads, of "\<lambda>x. x" "''Rent''"]
  by (auto simp: demo_accounts)

section \<open>Two posted adjustments\<close>

definition posted_rows :: "tenant_id \<Rightarrow> string \<Rightarrow> 'a tb_db_scheme \<Rightarrow> adjustment_row list" where
  "posted_rows tenant period s = filter (\<lambda>r. ad_status r = AdjPosted) (adjustment_rows tenant (Some period) s)"

lemma two_adjustments_fail:
  "2 \<le> length (posted_rows tenant period s) \<Longrightarrow>
     adjustment_payloads tenant period sessionId s = Inl (JsError ''a.createdAt.localeCompare is not a function'')"
  by (simp add: adjustment_payloads_def listAdjustments_def posted_rows_def Let_def)

lemma certify_no_balance:
  assumes "an_trialBalance A = None"
  shows "\<exists>e. fst (certifyCloseSession store E S A input role s) = Inl e"
proof -
  have "certify_transaction E S A input s \<noteq> (Inr ses, s')" for ses s'
    using assms by (auto simp: certify_transaction_def anchored_trial_balance_def split: option.splits sum.splits)
  then have "certifyCloseSession store E S A input role s \<noteq> (Inr ses, s')" for ses s'
    by (simp add: certify_Inr)
  then show ?thesis by (metis old.sum.exhaust prod.collapse)
qed

text \<open>
  C36. Two posted adjustments in a period that has no general ledger stop its close: \<open>listAdjustments\<close>
  throws, since the creation times it compares as texts are dates, so there is no adjusted trial balance,
  and the certification of a session of the period, whose trial balance comes from the same call, fails
  for every certifier and role.
\<close>

theorem two_adjustments_stop_close:
  assumes "getCloseSessionById tenant i s = Some session" and "input = \<lparr>cy_tenantId = tenant,
      cy_closeSessionId = i, cy_certifiedBy = user, cy_periodLabel = None, cy_memo = note_text\<rparr>"
    and "2 \<le> length (posted_rows tenant (period_of session) s)"
    and "getGLForPeriod cl tenant (period_of session) s = []"
    and "getUnadjustedOrRollup (e_decimal E) cl tenant (period_of session) s = Some (uploaded, months)" and "uploaded \<noteq> []"
    and "an_trialBalance A = certification_balance (e_decimal E) cl input session s"
  shows "(\<exists>e. getAdjustedTrialBalance (e_decimal E) cl tenant (period_of session) (Some i) s = Inl e)
    \<and> (\<exists>e. fst (certifyCloseSession store E S A input role s) = Inl e)"
proof -
  note fails = two_adjustments_fail [OF assms(3)]
  have certified: "getTrialBalanceForCertification (e_decimal E) cl tenant (period_of session) (Some i) s
      = Inl (JsError ''a.createdAt.localeCompare is not a function'')"
    using assms(4-6) fails by (simp add: getTrialBalanceForCertification_def)
  then have "an_trialBalance A = None"
    using assms(2,7) by (simp add: certification_balance_def js_or_def)
  with certified certify_no_balance show ?thesis by (auto simp: getAdjustedTrialBalance_def)
qed

theorem two_adjustments_stop_close_witness:
  "(\<exists>e. getAdjustedTrialBalance dec_model (\<lambda>x. x) ''t1'' ''2025-06'' (Some ''s2'') (demo_tb [demo_posted ''a1'', demo_posted ''a2'']) = Inl e)
   \<and> (\<exists>e. fst (certifyCloseSession None demo_env demo_snap_env (demo_answers\<lparr>an_trialBalance := None\<rparr>) demo_certify Approver
        (demo_tb [demo_posted ''a1'', demo_posted ''a2''])) = Inl e)"
proof -
  let ?s = "demo_tb [demo_posted ''a1'', demo_posted ''a2'']" and ?session = "rowToSession (demo_row ''s2'' ''2025-06-01'' ''2025-06-30'' UnderReview)"
  have found: "getCloseSessionById ''t1'' ''s2'' ?s = Some ?session"
    by (simp add: getCloseSessionById_def session_row_def session_key_def demo_review_simps demo_row_def)
  have "toISODateString ''2025-06-30'' = ''2025-06-30''" by code_simp
  then have period: "period_of ?session = ''2025-06''"
    by (simp add: period_of_def rowToSession_def demo_row_def)
  have two: "2 \<le> length (posted_rows ''t1'' (period_of ?session) ?s)"
    by (simp add: period posted_rows_def adjustment_rows_def demo_posted_def pending_adjustment_def)
  note reads = demo_tb_reads [folded period]
  have dec: "e_decimal demo_env = dec_model" by (simp add: demo_env_def)
  have none: "certification_balance (e_decimal demo_env) (\<lambda>x. x) demo_certify ?session ?s = None"
    by (simp add: certification_balance_def demo_certify_def js_or_def getTrialBalanceForCertification_def period
        demo_tb_reads two_adjustments_fail [OF two, unfolded period])
  let ?A = "demo_answers\<lparr>an_trialBalance := None\<rparr>"
  have answer: "an_trialBalance ?A = certification_balance (e_decimal demo_env) (\<lambda>x. x) demo_certify ?session ?s"
    using none by simp
  from two_adjustments_stop_close [OF found demo_certify_def two reads answer, of None demo_snap_env Approver]
  show ?thesis by (simp add: dec period)
qed

section \<open>Storing\<close>

lemma coalesce_None: "coalesce x None = x"
  by (cases x) simp_all

text \<open>A column of the row that the period had before the call.\<close>

definition kept :: "(tb_row \<Rightarrow> string option) \<Rightarrow> tb_row option \<Rightarrow> string option" where
  "kept f old = (case old of None \<Rightarrow> None | Some r \<Rightarrow> f r)"


end
