(* ===== verification/DerivedBalance.thy ===== *)
theory DerivedBalance
  imports AdjustmentGuarantees
begin

text \<open>
  The trial balance that is derived from the general ledger: by account the sums of its lines, in whole
  cents, and how far the balance sheet equation of \<open>validateDerivedTB\<close> is from the balance of the ledger.
\<close>

section \<open>Texts of NUMERIC columns\<close>

text \<open>What the aggregation relies on: decimal.js reads the text of a NUMERIC(20,2) column.\<close>

locale decimal_text = decimal_js +
  assumes of_numeric: "0 \<le> c \<Longrightarrow> c < 10 ^ 20 \<Longrightarrow> \<exists>d. d_of_text D (numeric_text c) = Some d \<and> fin d \<and> v d = money c"

lemma digits_value_append: "digits_value (a @ b) = digits_value a * 10 ^ length b + digits_value b"
proof (induction b rule: rev_induct)
  case (snoc c b)
  have "digits_value ((a @ b) @ [c]) = 10 * digits_value (a @ b) + digit_val c" by (rule digits_value_snoc)
  with snoc show ?case by (simp add: digits_value_snoc algebra_simps)
qed (simp add: digits_value_def)

lemma int_string_nat: "0 \<le> n \<Longrightarrow> int_string n = nat_string (nat n)"
proof (induction n rule: int_string.induct)
  case (1 n)
  show ?case
  proof (cases "n < 10")
    case True
    with 1(2) show ?thesis by (subst int_string.simps, subst nat_string.simps) simp
  next
    case False
    with 1 have "int_string (n div 10) = nat_string (nat n div 10)" by (simp add: nat_div_distrib)
    with 1(2) False show ?thesis by (subst int_string.simps, subst nat_string.simps) (simp add: nat_mod_distrib)
  qed
qed

lemma numeric_text_nat:
  assumes "0 \<le> c"
  shows "numeric_text c = nat_string (nat c div 100) @ CHR ''.'' # pad_zero 2 (nat_string (nat c mod 100))"
proof -
  have "round_half_up (\<bar>money c\<bar> * 10 ^ 2) = c"
    using assms by (simp add: money_def)
  moreover have "\<not> money c < 0" using assms by (simp add: money_def)
  ultimately show ?thesis
    using assms by (simp add: numeric_text_def fixed_text_def Let_def int_string_nat nat_div_distrib nat_mod_distrib)
qed

lemma dec_model_numeric:
  assumes "0 \<le> c"
  shows "d_of_text dec_model (numeric_text c) = Some (Some (money c))"
proof -
  let ?w = "nat_string (nat c div 100)" and ?f = "pad_zero 2 (nat_string (nat c mod 100))"
  have digits: "list_all is_digit ?w" "list_all is_digit ?f"
    by (simp_all add: list_all_nat_string pad_zero_digits)
  have len: "length ?f = 2"
    by (rule length_pad_zero) (rule length_nat_string_le, simp_all)
  have "CHR ''.'' \<notin> set ?w" "CHR ''.'' \<notin> set ?f"
    using digits by (auto simp: list_all_iff is_digit_def)
  then have split: "js_split (CHR ''.'') (numeric_text c) = [?w, ?f]"
    by (simp add: numeric_text_nat [OF assms] js_split_append js_split_no_sep)
  have "digits_value (?w @ ?f) = nat c"
    by (simp add: digits_value_append len)
  moreover have "?f \<noteq> []" using len by auto
  ultimately show ?thesis
    using digits assms by (simp add: dec_model_def split len money_def)
qed

interpretation dect: decimal_text dec_model "\<lambda>a. a \<noteq> None" dec_model_val
  by unfold_locales (simp add: dec_model_numeric dec_model_val_def)

section \<open>Ledger lines\<close>

definition line_ok :: "gl_row \<Rightarrow> bool" where
  "line_ok r \<longleftrightarrow> 0 \<le> gn_debit r \<and> gn_debit r < 10 ^ 15 \<and> 0 \<le> gn_credit r \<and> gn_credit r < 10 ^ 15"

context decimal_text begin

lemma plus_text_cents:
  assumes "cell n c" and "0 \<le> b" and "b < 10 ^ 20" and "\<bar>c + b\<bar> < 10 ^ 15"
  shows "cell (plus_text D n (numeric_text b)) (c + b)"
proof -
  obtain d where d: "d_of_text D (numeric_text b) = Some d" "fin d" "v d = money b"
    using of_numeric [OF assms(2,3)] by blast
  have n: "fin (d_of_num D n)" "v (d_of_num D n) = money c"
    using has_cents_of_num [of n c] assms(1) by (auto simp: cell_def in_cents_def)
  have sum: "v (d_plus D (d_of_num D n) d) = money (c + b)"
    using plus_exact [OF n(1) d(2)] prec20_money [of "c + b"] assms(4) by (simp add: n d money_add)
  have "has_cents (plus_text D n (numeric_text b)) (c + b)"
    using out_cents [OF fin_plus [OF n(1) d(2)] sum assms(4)]
    by (simp add: plus_text_def decimal_plus_def binary2_def d js_or_def)
  then show ?thesis using assms(4) cents_of_has by (auto simp: cell_def in_cents_def)
qed

end

sublocale decimal_text \<subseteq> ledger: accumulation gn_code "\<lambda>r. add_line D r no_totals" "add_line D" gn_debit gn_credit
    ac_debits ac_credits "\<lambda>_. ()" line_ok
proof
  fix r d c and w :: account_totals
  show "line_ok r \<Longrightarrow>
      cell (ac_debits (add_line D r no_totals)) (gn_debit r) \<and> cell (ac_credits (add_line D r no_totals)) (gn_credit r)"
    using plus_text_cents [OF cell_zero, of "gn_debit r"] plus_text_cents [OF cell_zero, of "gn_credit r"]
    by (simp add: add_line_def no_totals_def line_ok_def)
  assume "line_ok r" "cell (ac_debits w) d" "cell (ac_credits w) c"
    "\<bar>d + gn_debit r\<bar> < 10 ^ 15" "\<bar>c + gn_credit r\<bar> < 10 ^ 15"
  then show "cell (ac_debits (add_line D r w)) (d + gn_debit r) \<and> cell (ac_credits (add_line D r w)) (c + gn_credit r)"
    using plus_text_cents by (simp add: add_line_def line_ok_def)
qed simp

section \<open>The derived trial balance\<close>

definition ledger_debit :: "string \<Rightarrow> gl_row list \<Rightarrow> int" where
  "ledger_debit k lines = (\<Sum>r\<leftarrow>by_key gn_code k lines. gn_debit r)"

definition ledger_credit :: "string \<Rightarrow> gl_row list \<Rightarrow> int" where
  "ledger_credit k lines = (\<Sum>r\<leftarrow>by_key gn_code k lines. gn_credit r)"

definition ledger_net :: "string \<Rightarrow> gl_row list \<Rightarrow> int" where
  "ledger_net k lines = ledger_debit k lines - ledger_credit k lines"

text \<open>The imbalance of a ledger, in cents.\<close>

definition ledger_gap :: "gl_row list \<Rightarrow> int" where
  "ledger_gap lines = (\<Sum>r\<leftarrow>lines. gn_debit r) - (\<Sum>r\<leftarrow>lines. gn_credit r)"

definition ledger_in_cents :: "gl_row list \<Rightarrow> bool" where
  "ledger_in_cents lines \<longleftrightarrow>
     list_all line_ok lines \<and> (\<Sum>r\<leftarrow>lines. gn_debit r) + (\<Sum>r\<leftarrow>lines. gn_credit r) < 10 ^ 15"

text \<open>An entry that says of its account what the ledger says: the totals, the net, and the side of the net.\<close>

definition derived_cells :: "gl_row list \<Rightarrow> DerivedEntry \<Rightarrow> bool" where
  "derived_cells lines e \<longleftrightarrow>
     cell (de_total_debits e) (ledger_debit (de_code e) lines) \<and> cell (de_total_credits e) (ledger_credit (de_code e) lines)
     \<and> cell (de_net e) (ledger_net (de_code e) lines) \<and> cell (de_debit e) (max 0 (ledger_net (de_code e) lines))
     \<and> cell (de_credit e) (max 0 (- ledger_net (de_code e) lines))"

lemma ledger_valid:
  assumes "ledger_in_cents lines"
  shows "list_all line_ok lines" and "(\<Sum>r\<leftarrow>lines. \<bar>gn_debit r\<bar>) < 10 ^ 15" and "(\<Sum>r\<leftarrow>lines. \<bar>gn_credit r\<bar>) < 10 ^ 15"
    and "(\<Sum>r\<leftarrow>lines. \<bar>gn_debit r\<bar>) + (\<Sum>r\<leftarrow>lines. \<bar>gn_credit r\<bar>) < 10 ^ 15"
proof -
  show lines: "list_all line_ok lines" using assms by (simp add: ledger_in_cents_def)
  have same: "(\<Sum>r\<leftarrow>lines. \<bar>gn_debit r\<bar>) = (\<Sum>r\<leftarrow>lines. gn_debit r)" "(\<Sum>r\<leftarrow>lines. \<bar>gn_credit r\<bar>) = (\<Sum>r\<leftarrow>lines. gn_credit r)"
    using lines by (auto simp: list_all_iff line_ok_def cong: map_cong)
  show all: "(\<Sum>r\<leftarrow>lines. \<bar>gn_debit r\<bar>) + (\<Sum>r\<leftarrow>lines. \<bar>gn_credit r\<bar>) < 10 ^ 15"
    using assms by (simp add: ledger_in_cents_def same)
  have "0 \<le> (\<Sum>r\<leftarrow>lines. \<bar>gn_debit r\<bar>)" "0 \<le> (\<Sum>r\<leftarrow>lines. \<bar>gn_credit r\<bar>)"
    by (rule sum_list_nonneg, auto)+
  with all show "(\<Sum>r\<leftarrow>lines. \<bar>gn_debit r\<bar>) < 10 ^ 15" "(\<Sum>r\<leftarrow>lines. \<bar>gn_credit r\<bar>) < 10 ^ 15" by linarith+
qed

lemma sum_list_sort: "(\<Sum>x\<leftarrow>sort_key f xs. g x) = (\<Sum>x\<leftarrow>xs. (g x :: int))"
  by (metis mset_map mset_sort sum_mset_sum_list)

lemma net_sum: "(\<Sum>k\<leftarrow>ks. ledger_net k lines) = (\<Sum>k\<leftarrow>ks. ledger_debit k lines) - (\<Sum>k\<leftarrow>ks. ledger_credit k lines)"
  by (induction ks) (simp_all add: ledger_net_def)

context decimal_js begin

lemma cells_minus2:
  assumes "cell a c" and "cell b d" and "\<bar>c - d\<bar> < 10 ^ 15"
  shows "cell (minus2 D a b) (c - d)"
  using minus2_cents [of a b] assms by (auto simp: cell_def)

lemma cells_greater: "cell a c \<Longrightarrow> cell b d \<Longrightarrow> d_greaterThan D (d_of_num D a) (d_of_num D b) \<longleftrightarrow> d < c"
  using has_cents_of_num [of a c] has_cents_of_num [of b d] money_le_iff [of c d]
  by (auto simp: cell_def in_cents_def greaterThan not_le [symmetric])

lemma cells_abs: "cell a c \<Longrightarrow> cell (rounded2 D (d_toNumber D (d_abs D (d_of_num D a)))) \<bar>c\<bar>"
proof -
  assume a: "cell a c"
  then have n: "fin (d_of_num D a)" "v (d_of_num D a) = money c" and small: "\<bar>c\<bar> < 10 ^ 15"
    using has_cents_of_num [of a c] by (auto simp: cell_def in_cents_def)
  have "d_toNumber D (d_abs D (d_of_num D a)) = cents_num \<bar>c\<bar>"
    using n by (simp add: toNumber abs money_abs cents_num_def)
  with small show ?thesis by (simp add: rounded2_cents in_cents_num)
qed

end

context decimal_text begin

lemma derived_entry_cells:
  assumes "cell (ac_debits w) (ledger_debit k lines)" and "cell (ac_credits w) (ledger_credit k lines)"
    and "\<bar>ledger_net k lines\<bar> < 10 ^ 15"
  shows "derived_cells lines (derived_entry D account k w)"
proof -
  have net: "cell (minus2 D (ac_debits w) (ac_credits w)) (ledger_net k lines)"
    unfolding ledger_net_def by (rule cells_minus2 [OF assms(1,2)]) (use assms(3) in \<open>simp add: ledger_net_def\<close>)
  from cells_abs [OF this] cells_greater [OF net cell_zero] cells_greater [OF cell_zero net] net assms show ?thesis
    by (auto simp: derived_cells_def derived_entry_def Let_def max_def)
qed

lemma derived_ledger:
  assumes "ledger_in_cents lines"
  shows "distinct (map de_code (aggregateGLToTB D cl lines accounts))"
    and "de_code ` set (aggregateGLToTB D cl lines accounts) = gn_code ` set lines"
    and "e \<in> set (aggregateGLToTB D cl lines accounts) \<Longrightarrow> derived_cells lines e"
    and "(\<Sum>e\<leftarrow>aggregateGLToTB D cl lines accounts. ledger_debit (de_code e) lines) = (\<Sum>r\<leftarrow>lines. gn_debit r)"
    and "(\<Sum>e\<leftarrow>aggregateGLToTB D cl lines accounts. ledger_credit (de_code e) lines) = (\<Sum>r\<leftarrow>lines. gn_credit r)"
proof -
  let ?m = "collect gn_code (\<lambda>r. add_line D r no_totals) (add_line D) lines"
  let ?coa = "\<lambda>code. find (\<lambda>a. co_code a = code) (rev accounts)"
  let ?es = "map (\<lambda>(code, w). derived_entry D (?coa code) code w) ?m"
  note valid = ledger_valid [OF assms]
  have aggregate: "aggregateGLToTB D cl lines accounts = sort_key (\<lambda>e. cl (de_code e)) ?es"
    by (simp add: aggregateGLToTB_def collect_def Let_def)
  have code [simp]: "de_code (derived_entry D a k w) = k" for a k w
    by (simp add: derived_entry_def Let_def)
  have codes: "map de_code ?es = map fst ?m" by (simp add: case_prod_beta comp_def)
  have "mset (map de_code (aggregateGLToTB D cl lines accounts)) = mset (map fst ?m)"
    unfolding codes [symmetric] aggregate mset_map mset_sort ..
  then show "distinct (map de_code (aggregateGLToTB D cl lines accounts))"
    using collect_keys(1) mset_eq_imp_distinct_iff by blast
  show "de_code ` set (aggregateGLToTB D cl lines accounts) = gn_code ` set lines"
    using collect_keys(2) [of gn_code _ _ lines] by (simp add: aggregate image_image case_prod_beta)
  have sums: "(\<Sum>e\<leftarrow>aggregateGLToTB D cl lines accounts. f (de_code e)) = (\<Sum>p\<leftarrow>?m. f (fst p))" for f :: "string \<Rightarrow> int"
    by (simp add: aggregate sum_list_sort comp_def case_prod_beta)
  show "(\<Sum>e\<leftarrow>aggregateGLToTB D cl lines accounts. ledger_debit (de_code e) lines) = (\<Sum>r\<leftarrow>lines. gn_debit r)"
    unfolding sums [of "\<lambda>k. ledger_debit k lines"] unfolding ledger_debit_def by (rule ledger.collect_partition)
  show "(\<Sum>e\<leftarrow>aggregateGLToTB D cl lines accounts. ledger_credit (de_code e) lines) = (\<Sum>r\<leftarrow>lines. gn_credit r)"
    unfolding sums [of "\<lambda>k. ledger_credit k lines"] unfolding ledger_credit_def by (rule ledger.collect_partition)
  assume "e \<in> set (aggregateGLToTB D cl lines accounts)"
  then obtain p where p: "p \<in> set ?m" and e: "e = derived_entry D (?coa (fst p)) (fst p) (snd p)"
    by (auto simp: aggregate case_prod_beta)
  have cells: "cell (ac_debits (snd p)) (ledger_debit (fst p) lines)" "cell (ac_credits (snd p)) (ledger_credit (fst p) lines)"
    using ledger.collect_entry [OF valid(1-3) p] by (simp_all add: ledger_debit_def ledger_credit_def)
  have "\<bar>ledger_debit (fst p) lines\<bar> \<le> (\<Sum>r\<leftarrow>lines. \<bar>gn_debit r\<bar>)" "\<bar>ledger_credit (fst p) lines\<bar> \<le> (\<Sum>r\<leftarrow>lines. \<bar>gn_credit r\<bar>)"
    using abs_by_key [of gn_debit gn_code "fst p" lines] abs_by_key [of gn_credit gn_code "fst p" lines]
      sum_list_abs [of "map gn_debit (by_key gn_code (fst p) lines)"] sum_list_abs [of "map gn_credit (by_key gn_code (fst p) lines)"]
    by (simp_all add: ledger_debit_def ledger_credit_def comp_def)
  with valid(4) have "\<bar>ledger_net (fst p) lines\<bar> < 10 ^ 15" by (simp add: ledger_net_def)
  from derived_entry_cells [OF cells this] show "derived_cells lines e" by (simp add: e)
qed

end

section \<open>The certified balances\<close>

definition certified_as :: "gl_row list \<Rightarrow> TrialBalanceEntry \<Rightarrow> bool" where
  "certified_as lines e \<longleftrightarrow>
     (\<exists>k. te_accountCode e = Some k \<and> cell (te_debit e) (max 0 (ledger_net k lines))
        \<and> cell (te_credit e) (max 0 (- ledger_net k lines)))"

lemma gl_entry_fields:
  "te_accountCode (gl_entry e) = Some (de_code e)" "te_debit (gl_entry e) = de_debit e" "te_credit (gl_entry e) = de_credit e"
  by (simp_all add: gl_entry_def plain_entry_def)

text \<open>
  C15. With a general ledger, the trial balance that is certified is the ledger's: one entry per account
  of the lines, on the side and in the amount of the account's net to the cent, so that its debits and
  credits differ by what the lines differ by. The hypotheses are what decimal.js does, reading the
  texts of NUMERIC columns included, and that the amounts of the period stay below ten to the fifteen
  cents.
\<close>

theorem ledger_certified:
  assumes "decimal_text D fin v" and "getGLForPeriod cl tenant period s \<noteq> []"
    and "ledger_in_cents (getGLForPeriod cl tenant period s)"
  shows "\<exists>es. getTrialBalanceForCertification D cl tenant period sessionId s = Inr (es, GlSource, True)
    \<and> distinct (map te_accountCode es)
    \<and> te_accountCode ` set es = Some ` gn_code ` set (getGLForPeriod cl tenant period s)
    \<and> list_all (certified_as (getGLForPeriod cl tenant period s)) es
    \<and> (\<Sum>e\<leftarrow>es. cents_of (te_debit e)) - (\<Sum>e\<leftarrow>es. cents_of (te_credit e)) = ledger_gap (getGLForPeriod cl tenant period s)"
proof -
  let ?lines = "getGLForPeriod cl tenant period s"
  let ?es = "aggregateGLToTB D cl ?lines (getAccountsByTenant cl tenant s)"
  note derived = decimal_text.derived_ledger [OF assms(1,3), where cl = cl and accounts = "getAccountsByTenant cl tenant s"]
  have answer: "getTrialBalanceForCertification D cl tenant period sessionId s = Inr (map gl_entry ?es, GlSource, True)"
    using assms(2) by (simp add: getTrialBalanceForCertification_def buildDerivedTrialBalance_def Let_def)
  have codes: "map te_accountCode (map gl_entry ?es) = map Some (map de_code ?es)"
    by (simp add: gl_entry_fields)
  then have "distinct (map te_accountCode (map gl_entry ?es))"
    using derived(1) by (simp only: distinct_map [of Some] inj_Some inj_on_subset [OF inj_Some subset_UNIV] simp_thms)
  moreover have "te_accountCode ` set (map gl_entry ?es) = Some ` gn_code ` set ?lines"
    using arg_cong [OF codes, of set] derived(2) by (simp add: image_image [symmetric])
  moreover have "list_all (certified_as ?lines) (map gl_entry ?es)"
    using derived(3) by (auto simp: list_all_iff certified_as_def gl_entry_fields derived_cells_def)
  moreover have "(\<Sum>e\<leftarrow>map gl_entry ?es. cents_of (te_debit e)) - (\<Sum>e\<leftarrow>map gl_entry ?es. cents_of (te_credit e)) = ledger_gap ?lines"
  proof -
    have "cents_of (de_debit e) - cents_of (de_credit e) = ledger_debit (de_code e) ?lines - ledger_credit (de_code e) ?lines"
      if "e \<in> set ?es" for e
      using derived(3) [OF that] by (auto simp: derived_cells_def cell_def ledger_net_def)
    then have "(\<Sum>e\<leftarrow>?es. cents_of (de_debit e) - cents_of (de_credit e))
        = (\<Sum>e\<leftarrow>?es. ledger_debit (de_code e) ?lines - ledger_credit (de_code e) ?lines)"
      by (simp cong: map_cong)
    then show ?thesis using derived(4,5)
      by (simp add: sum_list_subtractf ledger_gap_def gl_entry_fields comp_def)
  qed
  ultimately show ?thesis using answer by blast
qed

section \<open>The balance sheet equation of the derived trial balance\<close>

text \<open>What an entry with a net of \<open>n\<close> cents adds to assets, liabilities and equity.\<close>

definition equation_parts :: "string option \<Rightarrow> int \<Rightarrow> int \<times> int \<times> int" where
  "equation_parts t n =
     (if t = Some ''Asset'' then (n, 0, 0) else if t = Some ''Liability'' then (0, \<bar>n\<bar>, 0)
      else if t = Some ''Equity'' then (0, 0, \<bar>n\<bar>)
      else if t \<in> {Some ''Revenue'', Some ''Expense''} then (0, 0, - n) else (0, 0, 0))"

text \<open>What the equation misses of it: twice a debit balance of a liability or of equity, and an entry without type.\<close>

definition equation_loss :: "string option \<Rightarrow> int \<Rightarrow> int" where
  "equation_loss t n =
     (if t \<in> {Some ''Liability'', Some ''Equity''} then 2 * max 0 n
      else if t \<in> {Some ''Asset'', Some ''Revenue'', Some ''Expense''} then 0 else n)"

lemma equation_parts_gap: "fst (equation_parts t n) - (fst (snd (equation_parts t n)) + snd (snd (equation_parts t n)))
    = n - equation_loss t n"
proof -
  consider "t = Some ''Asset''" | "t = Some ''Liability''" | "t = Some ''Equity''" | "t = Some ''Revenue''"
    | "t = Some ''Expense''" | "t \<notin> {Some ''Asset'', Some ''Liability'', Some ''Equity'', Some ''Revenue'', Some ''Expense''}"
    by blast
  then show ?thesis by cases (simp_all add: equation_parts_def equation_loss_def)
qed

definition cells3 :: "number \<times> number \<times> number \<Rightarrow> int \<times> int \<times> int \<Rightarrow> bool" where
  "cells3 x c \<longleftrightarrow> cell (fst x) (fst c) \<and> cell (fst (snd x)) (fst (snd c)) \<and> cell (snd (snd x)) (snd (snd c))"

context decimal_js begin

lemma balance_step_cells:
  assumes "cells3 acc (a, l, q)" and "cell (de_net e) n" and "equation_parts (de_type e) n = (a', l', q')"
    and "\<bar>a\<bar> + \<bar>l\<bar> + \<bar>q\<bar> + \<bar>n\<bar> < 10 ^ 15"
  shows "cells3 (balance_step D e acc) (a + a', l + l', q + q')"
proof -
  have acc: "cell (fst acc) a" "cell (fst (snd acc)) l" "cell (snd (snd acc)) q"
    using assms(1) by (simp_all add: cells3_def)
  have plus: "cell (plus2 D x y) (c + d)" if "cell x c" "cell y d" "\<bar>c + d\<bar> < 10 ^ 15" for x y c d
    using plus2_cents [of x y] that by (auto simp: cell_def)
  note steps = plus [OF acc(1) assms(2)] plus [OF acc(2) cells_abs [OF assms(2)]] plus [OF acc(3) cells_abs [OF assms(2)]]
    cells_minus2 [OF acc(3) assms(2)]
  have small: "\<bar>a + n\<bar> < 10 ^ 15" "\<bar>l + \<bar>n\<bar>\<bar> < 10 ^ 15" "\<bar>q + \<bar>n\<bar>\<bar> < 10 ^ 15" "\<bar>q - n\<bar> < 10 ^ 15"
    using assms(4) by arith+
  show ?thesis
    using steps assms(3) acc small
    by (cases acc) (auto simp: balance_step_def equation_parts_def cells3_def Let_def split: if_splits)
qed

text \<open>The sums of the parts over entries whose nets are \<open>net\<close>.\<close>

definition parts_total :: "(DerivedEntry \<Rightarrow> int) \<Rightarrow> DerivedEntry list \<Rightarrow> int \<times> int \<times> int" where
  "parts_total net es =
     ((\<Sum>e\<leftarrow>es. fst (equation_parts (de_type e) (net e))), (\<Sum>e\<leftarrow>es. fst (snd (equation_parts (de_type e) (net e)))),
      (\<Sum>e\<leftarrow>es. snd (snd (equation_parts (de_type e) (net e)))))"

lemma parts_small: "\<bar>fst (equation_parts t n)\<bar> + \<bar>fst (snd (equation_parts t n))\<bar> + \<bar>snd (snd (equation_parts t n))\<bar> \<le> \<bar>n\<bar>"
  by (simp add: equation_parts_def)

lemma parts_total_gap:
  "fst (parts_total net es) - (fst (snd (parts_total net es)) + snd (snd (parts_total net es)))
     = (\<Sum>e\<leftarrow>es. net e) - (\<Sum>e\<leftarrow>es. equation_loss (de_type e) (net e))"
proof (induction es)
  case (Cons e es)
  with equation_parts_gap [of "de_type e" "net e"] show ?case by (simp add: parts_total_def)
qed (simp add: parts_total_def)

lemma parts_total_small:
  "\<bar>fst (parts_total net es)\<bar> + \<bar>fst (snd (parts_total net es))\<bar> + \<bar>snd (snd (parts_total net es))\<bar> \<le> (\<Sum>e\<leftarrow>es. \<bar>net e\<bar>)"
proof (induction es)
  case (Cons e es)
  with parts_small [of "de_type e" "net e"] show ?case unfolding parts_total_def list.map sum_list.Cons fst_conv snd_conv by linarith
qed (simp add: parts_total_def)

lemma parts_total_snoc:
  "parts_total net (es @ [e]) =
     (fst (parts_total net es) + fst (equation_parts (de_type e) (net e)),
      fst (snd (parts_total net es)) + fst (snd (equation_parts (de_type e) (net e))),
      snd (snd (parts_total net es)) + snd (snd (equation_parts (de_type e) (net e))))"
  by (simp add: parts_total_def)

lemma balance_totals_cells:
  assumes "\<And>e. e \<in> set es \<Longrightarrow> cell (de_net e) (net e)" and "(\<Sum>e\<leftarrow>es. \<bar>net e\<bar>) < 10 ^ 15"
  shows "cells3 (computeBalanceSheetTotals D es) (parts_total net es)"
  using assms
proof (induction es rule: rev_induct)
  case Nil
  show ?case by (simp add: computeBalanceSheetTotals_def cells3_def parts_total_def)
next
  case (snoc e es)
  have less: "(\<Sum>e\<leftarrow>es. \<bar>net e\<bar>) < 10 ^ 15" using snoc.prems(2) by simp
  have "cells3 (computeBalanceSheetTotals D es) (fst (parts_total net es), fst (snd (parts_total net es)), snd (snd (parts_total net es)))"
    using snoc.IH [OF snoc.prems(1) less] by simp
  moreover have "cell (de_net e) (net e)" by (rule snoc.prems(1)) simp
  moreover have "\<bar>fst (parts_total net es)\<bar> + \<bar>fst (snd (parts_total net es))\<bar> + \<bar>snd (snd (parts_total net es))\<bar> + \<bar>net e\<bar> < 10 ^ 15"
    using parts_total_small [of net es] snoc.prems(2) by simp
  ultimately have "cells3 (balance_step D e (computeBalanceSheetTotals D es)) (parts_total net (es @ [e]))"
    unfolding parts_total_snoc by (intro balance_step_cells) simp_all
  then show ?case by (simp add: computeBalanceSheetTotals_def)
qed

end

text \<open>The loss of a ledger: over the accounts of its derived trial balance.\<close>

definition ledger_loss :: "gl_row list \<Rightarrow> DerivedEntry list \<Rightarrow> int" where
  "ledger_loss lines es = (\<Sum>e\<leftarrow>es. equation_loss (de_type e) (ledger_net (de_code e) lines))"

lemma ledger_net_volume:
  assumes "list_all line_ok lines"
  shows "\<bar>ledger_net k lines\<bar> \<le> ledger_debit k lines + ledger_credit k lines"
proof -
  have "0 \<le> ledger_debit k lines" "0 \<le> ledger_credit k lines"
    unfolding ledger_debit_def ledger_credit_def
    by (rule sum_list_nonneg, use assms in \<open>auto simp: by_key_def list_all_iff line_ok_def\<close>)+
  then show ?thesis by (simp add: ledger_net_def)
qed

context decimal_text begin

lemma derived_totals:
  assumes "ledger_in_cents lines" and "es = aggregateGLToTB D cl lines accounts"
  shows "cell (sumRound2 D (map de_total_debits es)) (\<Sum>r\<leftarrow>lines. gn_debit r)"
    and "cell (sumRound2 D (map de_total_credits es)) (\<Sum>r\<leftarrow>lines. gn_credit r)"
    and "\<exists>a l q. cells3 (computeBalanceSheetTotals D es) (a, l, q) \<and> \<bar>l + q\<bar> < 10 ^ 15
      \<and> a - (l + q) = ledger_gap lines - ledger_loss lines es"
proof -
  note derived = derived_ledger [OF assms(1), where cl = cl and accounts = accounts, folded assms(2)]
  note valid = ledger_valid [OF assms(1)]
  have total: "cell (sumRound2 D (map f es)) (\<Sum>e\<leftarrow>es. g e)"
    if "\<And>e. e \<in> set es \<Longrightarrow> cell (f e) (g e)" "\<And>e. 0 \<le> g e" "(\<Sum>e\<leftarrow>es. g e) < 10 ^ 15" for f g
  proof -
    have "list_all2 has_cents (map f es) (map g es)"
      using that(1) unfolding cell_def in_cents_def list.rel_map list_all2_same by metis
    moreover have "(\<Sum>c\<leftarrow>map g es. \<bar>c\<bar>) < 10 ^ 20" "\<bar>\<Sum>e\<leftarrow>es. g e\<bar> < 10 ^ 15"
    proof -
      have "0 \<le> (\<Sum>e\<leftarrow>es. g e)" by (rule sum_list_nonneg) (use that(2) in auto)
      then show "(\<Sum>c\<leftarrow>map g es. \<bar>c\<bar>) < 10 ^ 20" "\<bar>\<Sum>e\<leftarrow>es. g e\<bar> < 10 ^ 15"
        using that(2,3) by (simp_all add: comp_def)
    qed
    ultimately show ?thesis
      using sumRound2_cents [of "map f es" "map g es"] cell_num by (simp add: cents_num_def)
  qed
  have nonneg: "0 \<le> ledger_debit k lines" "0 \<le> ledger_credit k lines" for k
    unfolding ledger_debit_def ledger_credit_def
    by (rule sum_list_nonneg, use valid(1) in \<open>auto simp: by_key_def list_all_iff line_ok_def\<close>)+
  have small: "(\<Sum>r\<leftarrow>lines. gn_debit r) + (\<Sum>r\<leftarrow>lines. gn_credit r) < 10 ^ 15"
    using assms(1) by (simp add: ledger_in_cents_def)
  have "0 \<le> (\<Sum>r\<leftarrow>lines. gn_debit r)" "0 \<le> (\<Sum>r\<leftarrow>lines. gn_credit r)"
    by (rule sum_list_nonneg, use valid(1) in \<open>auto simp: list_all_iff line_ok_def\<close>)+
  with small have each: "(\<Sum>r\<leftarrow>lines. gn_debit r) < 10 ^ 15" "(\<Sum>r\<leftarrow>lines. gn_credit r) < 10 ^ 15" by linarith+
  show "cell (sumRound2 D (map de_total_debits es)) (\<Sum>r\<leftarrow>lines. gn_debit r)"
    using total [of de_total_debits "\<lambda>e. ledger_debit (de_code e) lines"] derived(3,4) nonneg(1) each(1)
    by (simp add: derived_cells_def)
  show "cell (sumRound2 D (map de_total_credits es)) (\<Sum>r\<leftarrow>lines. gn_credit r)"
    using total [of de_total_credits "\<lambda>e. ledger_credit (de_code e) lines"] derived(3,5) nonneg(2) each(2)
    by (simp add: derived_cells_def)
  let ?net = "\<lambda>e. ledger_net (de_code e) lines"
  have "(\<Sum>e\<leftarrow>es. \<bar>?net e\<bar>) \<le> (\<Sum>e\<leftarrow>es. ledger_debit (de_code e) lines + ledger_credit (de_code e) lines)"
    by (rule sum_list_mono) (rule ledger_net_volume [OF valid(1)])
  also have "\<dots> < 10 ^ 15" using small by (simp add: sum_list_addf derived(4,5))
  finally have volume: "(\<Sum>e\<leftarrow>es. \<bar>?net e\<bar>) < 10 ^ 15" .
  have "cells3 (computeBalanceSheetTotals D es) (parts_total ?net es)"
    by (rule balance_totals_cells [OF _ volume]) (use derived(3) in \<open>simp add: derived_cells_def\<close>)
  moreover have "\<bar>fst (snd (parts_total ?net es)) + snd (snd (parts_total ?net es))\<bar> < 10 ^ 15"
    using parts_total_small [of ?net es] volume by linarith
  moreover have "fst (parts_total ?net es) - (fst (snd (parts_total ?net es)) + snd (snd (parts_total ?net es)))
      = ledger_gap lines - ledger_loss lines es"
    using derived(4,5) by (simp add: parts_total_gap ledger_loss_def ledger_gap_def ledger_net_def sum_list_subtractf)
  ultimately show "\<exists>a l q. cells3 (computeBalanceSheetTotals D es) (a, l, q) \<and> \<bar>l + q\<bar> < 10 ^ 15
      \<and> a - (l + q) = ledger_gap lines - ledger_loss lines es"
    by (metis prod.collapse)
qed

end

text \<open>
  C37. The validation of a derived trial balance reports the imbalance of the ledger exactly when it
  exceeds the tolerance, to the cent, but the balance sheet equation it checks is off by the loss of the
  ledger: twice every debit balance of a liability or of equity, since it adds their absolute values,
  and the net of every account without a type. It is reported exactly when the two together exceed the
  tolerance.
\<close>

theorem derived_equation_exact:
  assumes "decimal_text D fin v" and "buildDerivedTrialBalance D cl tenant period s = Inr tb"
    and "ledger_in_cents (getGLForPeriod cl tenant period s)" and "in_cents tolerance"
  shows "validateDerivedTB D tb tolerance =
    (if cents_of tolerance < \<bar>ledger_gap (getGLForPeriod cl tenant period s)\<bar>
     then [DerivedImbalance (dt_total_debits tb) (dt_total_credits tb)] else [])
    @ (if cents_of tolerance < \<bar>ledger_gap (getGLForPeriod cl tenant period s)
            - ledger_loss (getGLForPeriod cl tenant period s) (dt_entries tb)\<bar>
       then [case dt_totals tb of (assets, liabilities, equity) \<Rightarrow> DerivedEquation assets liabilities equity] else [])"
proof -
  let ?lines = "getGLForPeriod cl tenant period s"
  have tb: "dt_entries tb = aggregateGLToTB D cl ?lines (getAccountsByTenant cl tenant s)"
    "dt_total_debits tb = sumRound2 D (map de_total_debits (dt_entries tb))"
    "dt_total_credits tb = sumRound2 D (map de_total_credits (dt_entries tb))"
    "dt_totals tb = computeBalanceSheetTotals D (dt_entries tb)"
    using assms(2) by (auto simp: buildDerivedTrialBalance_def Let_def split: if_splits)
  note totals = decimal_text.derived_totals [OF assms(1,3) tb(1)]
  note js = decimal_text.axioms(1) [OF assms(1)]
  obtain a l q where parts: "cells3 (dt_totals tb) (a, l, q)" "\<bar>l + q\<bar> < 10 ^ 15"
    "a - (l + q) = ledger_gap ?lines - ledger_loss ?lines (dt_entries tb)"
    using totals(3) unfolding tb(4) [symmetric] by blast
  obtain x y z where sheet: "dt_totals tb = (x, y, z)" by (cases "dt_totals tb")
  have cells: "cell x a" "cell y l" "cell z q" using parts(1) by (simp_all add: cells3_def sheet)
  have "cell (plus2 D y z) (l + q)"
    using cell_plus2 [OF js cells(2), of z] cells(3) parts(2) by (simp add: cell_def)
  then have "exceeds D x (plus2 D y z) tolerance \<longleftrightarrow> cents_of tolerance < \<bar>ledger_gap ?lines - ledger_loss ?lines (dt_entries tb)\<bar>"
    using decimal_js.exceeds_cents [OF js _ _ assms(4)] cells(1) parts(3) by (simp add: cell_def)
  moreover have "exceeds D (dt_total_debits tb) (dt_total_credits tb) tolerance \<longleftrightarrow> cents_of tolerance < \<bar>ledger_gap ?lines\<bar>"
    using decimal_js.exceeds_cents [OF js _ _ assms(4)] totals(1,2) by (simp add: cell_def ledger_gap_def tb(2,3))
  ultimately show ?thesis by (simp add: validateDerivedTB_def sheet)
qed

section \<open>A ledger with a dividend\<close>

definition demo_gl_line :: "int \<Rightarrow> string \<Rightarrow> int \<Rightarrow> int \<Rightarrow> gl_row" where
  "demo_gl_line n code d c =
     \<lparr>gn_tenant = ''t1'', gn_period = ''2025-06'', gn_entry = ''e1'', gn_line = n, gn_date = ''2025-06-30'', gn_code = code,
      gn_name = None, gn_debit = d, gn_credit = c, gn_description = None, gn_created_by = None\<rparr>"

definition demo_gl :: tb_db where
  "demo_gl = module_db.extend demo_review (tb_db.fields
     [demo_gl_line 1 ''1000'' 10000 0, demo_gl_line 2 ''4000'' 0 12000, demo_gl_line 3 ''3100'' 2000 0] [] [] [])"

lemma demo_gl_lines:
  "getGLForPeriod (\<lambda>x. x) ''t1'' ''2025-06'' demo_gl
     = [demo_gl_line 1 ''1000'' 10000 0, demo_gl_line 2 ''4000'' 0 12000, demo_gl_line 3 ''3100'' 2000 0]"
  by (simp add: getGLForPeriod_def demo_gl_def module_db.extend_def tb_db.fields_def demo_gl_line_def)

lemma demo_gl_ok:
  "ledger_in_cents (getGLForPeriod (\<lambda>x. x) ''t1'' ''2025-06'' demo_gl)"
  "ledger_gap (getGLForPeriod (\<lambda>x. x) ''t1'' ''2025-06'' demo_gl) = 0"
  "getGLForPeriod (\<lambda>x. x) ''t1'' ''2025-06'' demo_gl \<noteq> []"
  unfolding demo_gl_lines by (simp_all add: ledger_in_cents_def line_ok_def ledger_gap_def demo_gl_line_def)

theorem ledger_certified_witness:
  "\<exists>es. getTrialBalanceForCertification dec_model (\<lambda>x. x) ''t1'' ''2025-06'' None demo_gl = Inr (es, GlSource, True)
    \<and> te_accountCode ` set es = {Some ''1000'', Some ''4000'', Some ''3100''}
    \<and> (\<Sum>e\<leftarrow>es. cents_of (te_debit e)) = (\<Sum>e\<leftarrow>es. cents_of (te_credit e))"
proof -
  have codes: "Some ` gn_code ` set (getGLForPeriod (\<lambda>x. x) ''t1'' ''2025-06'' demo_gl) = {Some ''1000'', Some ''4000'', Some ''3100''}"
    unfolding demo_gl_lines by (simp add: demo_gl_line_def)
  from ledger_certified [OF dect.decimal_text_axioms demo_gl_ok(3,1), of None] show ?thesis
    unfolding codes demo_gl_ok(2) by auto
qed

lemma demo_gl_loss:
  "ledger_loss (getGLForPeriod (\<lambda>x. x) ''t1'' ''2025-06'' demo_gl)
     (aggregateGLToTB D (\<lambda>x. x) (getGLForPeriod (\<lambda>x. x) ''t1'' ''2025-06'' demo_gl) []) = 4000"
  unfolding demo_gl_lines
  by (simp add: ledger_loss_def aggregateGLToTB_def sum_list_sort Let_def derived_entry_def inferAccountType_def
      equation_loss_def ledger_net_def ledger_debit_def ledger_credit_def by_key_def demo_gl_line_def)

theorem derived_equation_exact_witness:
  "\<exists>tb a l q. buildDerivedTrialBalance dec_model (\<lambda>x. x) ''t1'' ''2025-06'' demo_gl = Inr tb
     \<and> validateDerivedTB dec_model tb (cents_num 1) = [DerivedEquation a l q]"
proof -
  have "getAccountsByTenant (\<lambda>x. x) ''t1'' demo_gl = []"
    by (simp add: getAccountsByTenant_def demo_gl_def module_db.extend_def tb_db.fields_def)
  then obtain tb where tb: "buildDerivedTrialBalance dec_model (\<lambda>x. x) ''t1'' ''2025-06'' demo_gl = Inr tb"
    "dt_entries tb = aggregateGLToTB dec_model (\<lambda>x. x) (getGLForPeriod (\<lambda>x. x) ''t1'' ''2025-06'' demo_gl) []"
    using demo_gl_ok(3) by (simp add: buildDerivedTrialBalance_def Let_def)
  obtain a l q where "dt_totals tb = (a, l, q)" by (cases "dt_totals tb")
  with derived_equation_exact [OF dect.decimal_text_axioms tb(1) demo_gl_ok(1), of "cents_num 1"] tb
  show ?thesis by (simp add: demo_gl_ok(2) demo_gl_loss in_cents_num)
qed

end
