(* ===== verification/AccountTypes.thy ===== *)
theory AccountTypes
  imports FinancialStatements
begin

text \<open>
  The classifier assigns account types: which names make it leave the five types, and that every typed
  entry has a place on the balance sheet.
\<close>

section \<open>The rules\<close>

text \<open>The words that \<open>SUFFIX_OVERRIDES\<close> finds in the prototype of an object.\<close>

definition inherited_words :: "string set" where
  "inherited_words = {''constructor'', ''__proto__''}"

text \<open>An entry that declares one of the five types, or whose name has none of those words.\<close>

definition classifiable :: "TrialBalanceEntry \<Rightarrow> bool" where
  "classifiable e \<longleftrightarrow>
     (if truthy (te_accountType e) then the (te_accountType e) \<in> set ACCOUNT_TYPES
      else set (name_words (js_trim (js_toLowerCase (te_accountName e)))) \<inter> inherited_words = {})"

lemma rules_typed:
  "list_all (\<lambda>r. snd r \<in> set ACCOUNT_TYPES) COMPOUND_OVERRIDES"
  "list_all (\<lambda>r. snd r \<in> set ACCOUNT_TYPES) DEFAULT_KEYWORDS"
  "list_all (\<lambda>r. snd r \<in> set ACCOUNT_TYPES) SUFFIX_OVERRIDES"
  by code_simp+

lemma rule_match_typed:
  assumes "rule_match rules s = Some r" and "list_all (\<lambda>r. snd r \<in> set ACCOUNT_TYPES) rules"
  shows "snd r \<in> set ACCOUNT_TYPES"
  using assms by (auto simp: rule_match_def list_all_iff dest: find_Some_iff [THEN iffD1])

lemma suffix_override_typed: "suffix_override w = Some t \<Longrightarrow> w \<notin> inherited_words \<Longrightarrow> t \<in> set ACCOUNT_TYPES"
  using rules_typed(3)
  by (auto simp: suffix_override_def inherited_words_def list_all_iff split: option.splits if_splits dest!: map_of_SomeD)

lemma suffix_match_typed:
  assumes "suffix_match ws = Some r" and "set ws \<inter> inherited_words = {}"
  shows "snd r \<in> set ACCOUNT_TYPES"
proof -
  have words: "w \<in> set (rev ws) \<Longrightarrow> w \<notin> inherited_words" for w using assms(2) by auto
  show ?thesis
    using assms(1) words suffix_override_typed
    by (auto simp: suffix_match_def split: list.splits option.splits)
qed

lemma name_typed:
  assumes "set (name_words (js_trim (js_toLowerCase name))) \<inter> inherited_words = {}"
  shows "snd (classifyAccountNameWithKeyword name) \<in> set ACCOUNT_TYPES"
proof -
  have sorted: "list_all (\<lambda>r. snd r \<in> set ACCOUNT_TYPES) SORTED_COMPOUND_OVERRIDES"
    using rules_typed(1) by (simp add: SORTED_COMPOUND_OVERRIDES_def list_all_iff)
  have default: "ASSET \<in> set ACCOUNT_TYPES" by (simp add: ACCOUNT_TYPES_def)
  show ?thesis
    using rule_match_typed [OF _ sorted] rule_match_typed [OF _ rules_typed(2)] suffix_match_typed [OF _ assms] default
    by (auto simp: classifyAccountNameWithKeyword_def Let_def split: option.split)
qed

lemma classified_entry:
  assumes "classifiable e"
  shows "\<exists>t\<in>set ACCOUNT_TYPES. te_accountType (classify_entry e) = Some t"
proof (cases "truthy (te_accountType e)")
  case True
  then obtain t where "te_accountType e = Some t" by (cases "te_accountType e") auto
  with True assms show ?thesis by (simp add: classifiable_def classify_entry_def)
next
  case False
  with assms name_typed [of "te_accountName e"] show ?thesis
    by (auto simp: classifiable_def classify_entry_def Let_def split: prod.split)
qed

section \<open>Places\<close>

lemma types_found: "list_all (\<lambda>t. isType (Some t) t) ACCOUNT_TYPES"
  by code_simp

lemma typed_placed:
  assumes "te_accountType e = Some t" and "t \<in> set ACCOUNT_TYPES"
  shows "bs_bucket e \<noteq> None"
proof -
  have "isType (te_accountType e) t" using types_found assms by (simp add: list_all_iff)
  moreover have "t = ASSET \<or> t = LIABILITY \<or> t = EQUITY \<or> t = REVENUE \<or> t = EXPENSE"
    using assms(2) by (simp add: ACCOUNT_TYPES_def)
  ultimately show ?thesis by (auto simp: bs_bucket_def)
qed

text \<open>
  C38. The classifier is typed: over entries that declare one of the five account types, or whose name has
  none of the words that an object literal inherits, every classified entry has one of the five types, and
  every such entry has a bucket of the balance sheet, whatever its taxonomy line, so that none is lost.
\<close>

theorem classified_type:
  assumes "list_all classifiable entries"
  shows "list_all (\<lambda>e. (\<exists>t\<in>set ACCOUNT_TYPES. te_accountType e = Some t) \<and> bs_bucket e \<noteq> None)
    (classifyTrialBalanceDeterministic entries)"
  unfolding classifyTrialBalanceDeterministic_def list_all_iff
  using assms classified_entry typed_placed by (fastforce simp: list_all_iff)

definition typed_entry :: "string \<Rightarrow> string option \<Rightarrow> TrialBalanceEntry" where
  "typed_entry name t =
     \<lparr>te_lineId = None, te_accountCode = None, te_accountName = name, te_debit = Fin 0, te_credit = Fin 0,
      te_accountType = t, te_fsLineId = None, te_fsLineCode = None, te_codificationRef = None,
      te_sourceDocumentId = None, te_sourceSheet = None, te_sourceRowIndex = None, te_sourceChunkId = None,
      te_classificationSource = None, te_classificationRationale = None\<rparr>"

lemma demo_words: "name_words (js_trim (js_toLowerCase ''Fees & Charges'')) = [''fees'', ''charges'']"
  by code_simp

theorem classified_type_witness:
  "bs_bucket (classify_entry (typed_entry ''Fees & Charges'' None)) \<noteq> None
   \<and> bs_bucket (classify_entry (typed_entry ''Constructor'' (Some EQUITY))) \<noteq> None"
proof -
  have "list_all classifiable [typed_entry ''Fees & Charges'' None, typed_entry ''Constructor'' (Some EQUITY)]"
    by (simp add: classifiable_def typed_entry_def demo_words inherited_words_def ACCOUNT_TYPES_def)
  from classified_type [OF this] show ?thesis by (simp add: classifyTrialBalanceDeterministic_def)
qed

end
