(* ===== verification/Checklist.thy ===== *)
theory Checklist
  imports AdjustedBalance
begin

text \<open>
  The close checklist: \<open>src/src/db/repositories/close_checklist_item_repository.ts\<close>, the profile
  \<open>src/src/services/canadian_aspe_close_profile.ts\<close> and the checklist operations of
  \<open>src/src/services/close_checklist_readiness_service.ts\<close>.

  The queries join \<open>close_checklist_items\<close> with the sessions of the tenant. Of a requirement of the
  profile the model has what the code reads: its code, name, frequencies and whether it can be skipped.
\<close>

section \<open>Items\<close>

datatype ChecklistStatus = ItemPending | ItemInProgress | ItemCompleted | ItemSkipped

fun checklist_status_text :: "ChecklistStatus \<Rightarrow> string" where
  "checklist_status_text ItemPending = ''pending''"
| "checklist_status_text ItemInProgress = ''in_progress''"
| "checklist_status_text ItemCompleted = ''completed''"
| "checklist_status_text ItemSkipped = ''skipped''"

record CloseChecklistItem =
  ck_id :: string
  ck_session :: string
  ck_code :: string
  ck_name :: string
  ck_status :: ChecklistStatus
  ck_required :: bool
  ck_completed_by :: "string option"
  ck_completed_at :: "timestamp option"
  ck_notes :: "string option"
  ck_created_at :: timestamp
  ck_updated_at :: timestamp

record control_db = tb_db +
  close_checklist_items :: "CloseChecklistItem list"

type_synonym ('a, 'b) control_op = "'a control_db_scheme \<Rightarrow> (error + 'b) \<times> 'a control_db_scheme"

section \<open>close\_checklist\_item\_repository.ts\<close>

text \<open>The join: the session of the item is one of the tenant.\<close>

definition item_of :: "tenant_id \<Rightarrow> 'a control_db_scheme \<Rightarrow> CloseChecklistItem \<Rightarrow> bool" where
  "item_of tenant s r \<longleftrightarrow> list_ex (\<lambda>c. cs_id c = ck_session r \<and> cs_tenant c = tenant) (close_sessions s)"

definition getChecklistItemById :: "tenant_id \<Rightarrow> string \<Rightarrow> 'a control_db_scheme \<Rightarrow> CloseChecklistItem option" where
  "getChecklistItemById tenant i s = find (\<lambda>r. item_of tenant s r \<and> ck_id r = i) (close_checklist_items s)"

text \<open>\<open>ORDER BY cci.code\<close>, with the collation key \<open>cl\<close>.\<close>

definition listChecklistItemsBySessionId ::
  "(string \<Rightarrow> string) \<Rightarrow> tenant_id \<Rightarrow> string \<Rightarrow> 'a control_db_scheme \<Rightarrow> CloseChecklistItem list" where
  "listChecklistItemsBySessionId cl tenant sessionId s =
     sort_key (\<lambda>r. cl (ck_code r)) (filter (\<lambda>r. item_of tenant s r \<and> ck_session r = sessionId) (close_checklist_items s))"

definition hasChecklistForSession :: "tenant_id \<Rightarrow> string \<Rightarrow> 'a control_db_scheme \<Rightarrow> bool" where
  "hasChecklistForSession tenant sessionId s \<longleftrightarrow>
     list_ex (\<lambda>r. item_of tenant s r \<and> ck_session r = sessionId) (close_checklist_items s)"

definition insertChecklistItem ::
  "tenant_id \<Rightarrow> string \<Rightarrow> string \<Rightarrow> string \<Rightarrow> string \<Rightarrow> bool \<Rightarrow> ('a, CloseChecklistItem) control_op" where
  "insertChecklistItem tenant i sessionId code name req s =
     (let (t, s) = now s;
          r = \<lparr>ck_id = i, ck_session = sessionId, ck_code = code, ck_name = name, ck_status = ItemPending, ck_required = req,
               ck_completed_by = None, ck_completed_at = None, ck_notes = None, ck_created_at = t, ck_updated_at = t\<rparr>
      in if i \<in> ck_id ` set (close_checklist_items s) then (Inl (DbError ''close_checklist_items_pkey''), s)
         else let s = s\<lparr>close_checklist_items := close_checklist_items s @ [r]\<rparr>
              in (case getChecklistItemById tenant i s of
                    None \<Rightarrow> (Inl (JsError ''Failed to fetch checklist item after insert''), s)
                  | Some q \<Rightarrow> (Inr q, s)))"

text \<open>\<open>None\<close> of the result stands for \<open>null\<close>.\<close>

definition updateChecklistItemStatus ::
  "tenant_id \<Rightarrow> string \<Rightarrow> ChecklistStatus \<Rightarrow> string option \<Rightarrow> timestamp option \<Rightarrow> string option
     \<Rightarrow> ('a, CloseChecklistItem option) control_op" where
  "updateChecklistItemStatus tenant i st user completedAt notes s =
     (let (t, s) = now s; hit = (\<lambda>r. item_of tenant s r \<and> ck_id r = i);
          rows = update_where hit (\<lambda>r. r\<lparr>ck_status := st, ck_updated_at := t,
            ck_completed_by := coalesce user (ck_completed_by r),
            ck_completed_at := (if st = ItemCompleted \<or> st = ItemSkipped then Some (js_or completedAt t) else ck_completed_at r),
            ck_notes := coalesce notes (ck_notes r)\<rparr>) (close_checklist_items s)
      in if row_count hit (close_checklist_items s) = 0 then (Inr None, s)
         else let s = s\<lparr>close_checklist_items := rows\<rparr> in (Inr (getChecklistItemById tenant i s), s))"

section \<open>canadian\_aspe\_close\_profile.ts\<close>

record CloseRequirement =
  rq_code :: string
  rq_name :: string
  rq_skippable :: bool
  rq_frequencies :: "string list"

definition requirement :: "string \<Rightarrow> string \<Rightarrow> bool \<Rightarrow> string list \<Rightarrow> CloseRequirement" where
  "requirement code name skippable frequencies =
     \<lparr>rq_code = code, rq_name = name, rq_skippable = skippable, rq_frequencies = frequencies\<rparr>"

abbreviation EVERY_CLOSE :: "string list" where "EVERY_CLOSE \<equiv> [''monthly'', ''quarterly'']"
abbreviation QUARTERLY :: "string list" where "QUARTERLY \<equiv> [''quarterly'']"

definition REQUIREMENTS :: "CloseRequirement list" where
  "REQUIREMENTS = [
      requirement ''CA_SCOPE_CONFIRMED'' ''Canadian ASPE close scope confirmed'' False EVERY_CLOSE,
      requirement ''ERP_CUTOFF_COMPLETE'' ''ERP source cutoff and control totals complete'' False EVERY_CLOSE,
      requirement ''INTEGRITY_CHECKS'' ''General-ledger mathematical integrity checks pass'' False EVERY_CLOSE,
      requirement ''CASH_REC'' ''All bank and cash accounts reconciled'' False EVERY_CLOSE,
      requirement ''AR_SUBLEDGER_RECONCILIATION'' ''Accounts receivable reconciled and valued'' True EVERY_CLOSE,
      requirement ''AP_SUBLEDGER_RECONCILIATION'' ''Accounts payable reconciled and cutoff tested'' True EVERY_CLOSE,
      requirement ''PAYROLL_REMITTANCE_RECONCILIATION'' ''Payroll and CRA remittances reconciled'' True EVERY_CLOSE,
      requirement ''SALES_TAX_RECONCILIATION'' ''GST/HST and applicable provincial sales taxes reconciled'' True EVERY_CLOSE,
      requirement ''FOREIGN_CURRENCY_REMEASUREMENT'' ''Foreign-currency balances remeasured and reviewed'' True EVERY_CLOSE,
      requirement ''REVENUE_CUTOFF_REVIEW'' ''Revenue recognition and cutoff reviewed'' False EVERY_CLOSE,
      requirement ''EXPENSE_CUTOFF_AND_ACCRUALS'' ''Expense cutoff and accruals completed'' False EVERY_CLOSE,
      requirement ''PREPAID_AMORTIZATION'' ''Prepaids and amortization reconciled'' True EVERY_CLOSE,
      requirement ''INVENTORY_RECONCILIATION'' ''Inventory reconciled and valued'' True EVERY_CLOSE,
      requirement ''FIXED_ASSET_ROLLFORWARD'' ''Property and equipment rollforward completed'' True EVERY_CLOSE,
      requirement ''DEBT_AND_INTEREST_RECONCILIATION'' ''Debt, interest, and classification reconciled'' True EVERY_CLOSE,
      requirement ''LEASE_RECONCILIATION'' ''Lease obligations and expense reviewed'' True EVERY_CLOSE,
      requirement ''DEFERRED_REVENUE_RECONCILIATION'' ''Deferred revenue reconciled'' True EVERY_CLOSE,
      requirement ''BALANCE_SHEET_RECONCILIATIONS'' ''All material balance-sheet accounts reconciled'' False EVERY_CLOSE,
      requirement ''MATERIAL_JES_APPROVED'' ''All material journal entries resolved'' False EVERY_CLOSE,
      requirement ''MAPPING_COMPLETENESS'' ''Chart-of-accounts mapping complete'' False EVERY_CLOSE,
      requirement ''FINANCIAL_STATEMENT_TIE_OUT'' ''Financial statements tie to the adjusted trial balance'' False EVERY_CLOSE,
      requirement ''CASH_FLOW_RECONCILIATION'' ''Cash-flow statement reconciled to cash movement'' False EVERY_CLOSE,
      requirement ''MATERIAL_VARIANCE_REVIEW'' ''Material fluctuations explained and reviewed'' False EVERY_CLOSE,
      requirement ''EVIDENCE_COMPLETE'' ''Close evidence package complete'' False EVERY_CLOSE,
      requirement ''NO_CRITICAL_ISSUES'' ''No unresolved critical close issues'' False EVERY_CLOSE,
      requirement ''CONTROLLER_REVIEW_SIGNOFF'' ''Controller review and close recommendation complete'' False EVERY_CLOSE,
      requirement ''INCOME_TAX_PROVISION_REVIEW'' ''Corporate income-tax provision and instalments reviewed'' False QUARTERLY,
      requirement ''IMPAIRMENT_INDICATOR_REVIEW'' ''Impairment indicators reviewed'' False QUARTERLY,
      requirement ''DEBT_COVENANT_REVIEW'' ''Debt covenants and liquidity classification reviewed'' True QUARTERLY,
      requirement ''COMMITMENTS_CONTINGENCIES_REVIEW'' ''Commitments and contingencies reviewed'' False QUARTERLY,
      requirement ''RELATED_PARTY_REVIEW'' ''Related-party balances and transactions reviewed'' False QUARTERLY,
      requirement ''SUBSEQUENT_EVENTS_REVIEW'' ''Subsequent events reviewed'' False QUARTERLY,
      requirement ''ASPE_DISCLOSURE_REVIEW'' ''ASPE presentation and disclosures reviewed'' False QUARTERLY,
      requirement ''QUARTERLY_REPORT_PACKAGE'' ''Quarterly reporting package assembled and tied out'' False QUARTERLY]"

text \<open>A null or an absent value is \<open>None\<close>, a value that is no text \<open>Some None\<close>.\<close>

definition parseCloseFrequency :: "string option option \<Rightarrow> string \<Rightarrow> error + string" where
  "parseCloseFrequency value fallback =
     (case value of
        None \<Rightarrow> Inr fallback
      | Some None \<Rightarrow> Inl (ServiceError ''INVALID_FREQUENCY'' ''frequency must be monthly or quarterly'')
      | Some (Some v) \<Rightarrow>
          if v = [] then Inr fallback
          else if v = ''monthly'' \<or> v = ''quarterly'' then Inr v
          else Inl (ServiceError ''INVALID_FREQUENCY'' ''frequency must be monthly or quarterly''))"

definition profile_requirements :: "string \<Rightarrow> CloseRequirement list" where
  "profile_requirements frequency = filter (\<lambda>r. frequency \<in> set (rq_frequencies r)) REQUIREMENTS"

definition getCanadianAspeRequirement :: "string \<Rightarrow> CloseRequirement option" where
  "getCanadianAspeRequirement code = find (\<lambda>r. rq_code r = code) REQUIREMENTS"

definition isCanadianAspeRequirementCode :: "string \<Rightarrow> bool" where
  "isCanadianAspeRequirementCode code \<longleftrightarrow> getCanadianAspeRequirement code \<noteq> None"

definition isChecklistRequirementSkippable :: "string \<Rightarrow> bool" where
  "isChecklistRequirementSkippable code \<longleftrightarrow>
     (case getCanadianAspeRequirement code of None \<Rightarrow> False | Some r \<Rightarrow> rq_skippable r)"

record Disposition =
  dp_code :: string
  dp_status :: ChecklistStatus
  dp_notes :: "string option"

datatype BlockerReason = Missing | Duplicate | Incomplete | SkipNotPermitted | SkipReasonRequired

record ProfileBlocker =
  pb_code :: string
  pb_reason :: BlockerReason
  pb_message :: string

record ProfileEvaluation =
  pe_ready :: bool
  pe_blockers :: "ProfileBlocker list"
  pe_completed :: "string list"
  pe_notApplicable :: "string list"

text \<open>One requirement: a blocker, a completed code, or one that does not apply.\<close>

datatype item_verdict = Blocked ProfileBlocker | Complete string | NotApplicable string

definition requirement_verdict :: "Disposition list \<Rightarrow> CloseRequirement \<Rightarrow> item_verdict" where
  "requirement_verdict dispositions r =
     (let block = (\<lambda>reason message. Blocked \<lparr>pb_code = rq_code r, pb_reason = reason, pb_message = rq_name r @ message\<rparr>);
          mine = filter (\<lambda>d. dp_code d = rq_code r) dispositions
      in if 1 < length mine then block Duplicate '' has duplicate dispositions.''
         else case find (\<lambda>d. dp_code d = rq_code r) (rev dispositions) of
           None \<Rightarrow> block Missing '' has no disposition.''
         | Some d \<Rightarrow>
             if dp_status d = ItemCompleted then Complete (rq_code r)
             else if dp_status d = ItemSkipped then
               (if \<not> rq_skippable r then block SkipNotPermitted '' is a core control and cannot be skipped.''
                else if js_trim (js_or (dp_notes d) []) = [] then block SkipReasonRequired '' requires a documented not-applicable reason.''
                else NotApplicable (rq_code r))
             else block Incomplete ('' is '' @ checklist_status_text (dp_status d) @ ''.''))"

definition evaluateCanadianAspeCloseProfile :: "CloseRequirement list \<Rightarrow> Disposition list \<Rightarrow> ProfileEvaluation" where
  "evaluateCanadianAspeCloseProfile requirements dispositions =
     (let verdicts = map (requirement_verdict dispositions) requirements;
          blockers = List.map_filter (\<lambda>v. case v of Blocked b \<Rightarrow> Some b | _ \<Rightarrow> None) verdicts
      in \<lparr>pe_ready = (blockers = []), pe_blockers = blockers,
          pe_completed = List.map_filter (\<lambda>v. case v of Complete c \<Rightarrow> Some c | _ \<Rightarrow> None) verdicts,
          pe_notApplicable = List.map_filter (\<lambda>v. case v of NotApplicable c \<Rightarrow> Some c | _ \<Rightarrow> None) verdicts\<rparr>)"

section \<open>The checklist of a session\<close>

record TemplateItem =
  ti_code :: string
  ti_name :: string
  ti_required :: bool

definition DEFAULT_ITEMS :: "TemplateItem list" where
  "DEFAULT_ITEMS =
     [\<lparr>ti_code = ''CASH_REC'', ti_name = ''Cash reconciliation complete'', ti_required = True\<rparr>,
      \<lparr>ti_code = ''NO_CRITICAL_ISSUES'', ti_name = ''No critical issues open'', ti_required = True\<rparr>,
      \<lparr>ti_code = ''MATERIAL_JES_APPROVED'', ti_name = ''All material JEs approved or rejected'', ti_required = True\<rparr>,
      \<lparr>ti_code = ''INTEGRITY_CHECKS'', ti_name = ''Integrity checks pass'', ti_required = True\<rparr>]"

fun insert_items :: "tenant_id \<Rightarrow> string \<Rightarrow> TemplateItem list \<Rightarrow> ('a, CloseChecklistItem list) control_op" where
  "insert_items tenant sessionId [] s = (Inr [], s)"
| "insert_items tenant sessionId (t # ts) s =
     (let (i, s) = random_text s in
      andThen (insertChecklistItem tenant i sessionId (ti_code t) (ti_name t) (ti_required t) s)
        (\<lambda>r s. andThen (insert_items tenant sessionId ts s) (\<lambda>rs s. (Inr (r # rs), s))))"

text \<open>The items and the number of those that were created; the inserts are not in a transaction.\<close>

definition initializeChecklistTemplate ::
  "(string \<Rightarrow> string) \<Rightarrow> tenant_id \<Rightarrow> string \<Rightarrow> TemplateItem list option \<Rightarrow> ('a, CloseChecklistItem list \<times> bool \<times> nat) control_op" where
  "initializeChecklistTemplate cl tenant sessionId items s =
     (let template = js_or items DEFAULT_ITEMS in
      if hasChecklistForSession tenant sessionId s
      then let old = listChecklistItemsBySessionId cl tenant sessionId s;
               missing = filter (\<lambda>t. ti_code t \<notin> ck_code ` set old) template
           in andThen (insert_items tenant sessionId missing s)
                (\<lambda>new s. (Inr (old @ new, missing \<noteq> [], length missing), s))
      else andThen (insert_items tenant sessionId template s) (\<lambda>new s. (Inr (new, True, length new), s)))"

definition checklistItemSatisfied :: "CloseChecklistItem \<Rightarrow> bool" where
  "checklistItemSatisfied item \<longleftrightarrow>
     ck_status item = ItemCompleted \<or> ck_status item = ItemSkipped \<and> isChecklistRequirementSkippable (ck_code item)"

definition completeChecklistItem ::
  "tenant_id \<Rightarrow> string \<Rightarrow> string \<Rightarrow> string option \<Rightarrow> ('a, CloseChecklistItem option) control_op" where
  "completeChecklistItem tenant i user notes s =
     (let (t, s) = now s in updateChecklistItemStatus tenant i ItemCompleted (Some user) (Some t) notes s)"

definition skipChecklistItem ::
  "tenant_id \<Rightarrow> string \<Rightarrow> string \<Rightarrow> string option \<Rightarrow> ('a, CloseChecklistItem option) control_op" where
  "skipChecklistItem tenant i user notes s =
     (case getChecklistItemById tenant i s of
        None \<Rightarrow> (Inr None, s)
      | Some item \<Rightarrow>
          if \<not> isChecklistRequirementSkippable (ck_code item)
          then (Inl (ServiceError ''SKIP_NOT_PERMITTED'' (ck_name item @ '' is a core close control and cannot be skipped.'')), s)
          else if js_trim (js_or notes []) = []
          then (Inl (ServiceError ''SKIP_REASON_REQUIRED''
            ''A documented not-applicable reason is required to skip a conditional close control.''), s)
          else updateChecklistItemStatus tenant i ItemSkipped (Some user) None (Some (js_trim (js_or notes []))) s)"

definition emitIssuesForStuckChecklist ::
  "(string \<Rightarrow> string) \<Rightarrow> tenant_id \<Rightarrow> string \<Rightarrow> ('a, string option) control_op" where
  "emitIssuesForStuckChecklist cl tenant sessionId s =
     (let stuck = filter (\<lambda>i. ck_required i \<and> \<not> checklistItemSatisfied i) (listChecklistItemsBySessionId cl tenant sessionId s)
      in if stuck = [] then (Inr None, s)
         else andThen (createIssueForSession
           \<lparr>fs_closeSessionId = sessionId, fs_tenantId = tenant, fs_entityId = None, fs_issueType = None,
            fs_category = ''reconciliation'', fs_severity = ''high'', fs_title = ''Close checklist: required items incomplete'',
            fs_description = Some (''Required items not complete: '' @ js_join '', '' (map ck_name stuck)
              @ ''. Complete each core control or document an allowed not-applicable disposition before close.''),
            fs_sourceRef = Some (JObj [(''closeSessionId'', JStr sessionId),
              (''itemCodes'', JArr (map (\<lambda>i. JStr (ck_code i)) stuck))])\<rparr> s) (\<lambda>issue s. (Inr (Some (ci_id issue)), s)))"

end
