(* ===== verification/Readiness.thy ===== *)
theory Readiness
  imports Checklist StatementFlows
begin

text \<open>
  Whether a session is ready for review and certification: \<open>computeReadiness\<close> of
  \<open>src/src/services/close_checklist_readiness_service.ts\<close> and the gates it asks:
  \<open>runbook_readiness_service.ts\<close>, \<open>erp_writeback_close_gate_service.ts\<close>, \<open>evidence_policy_service.ts\<close>,
  \<open>recon_completeness_gate.ts\<close>, \<open>variance_analysis_service.ts\<close> (the gate), \<open>template_completeness_gate.ts\<close>
  and \<open>mapping_completeness_gate.ts\<close> with \<open>src/src/utils/gl_pattern_matching.ts\<close>.

  Sessions, issues, journal entries, module proposals, the checklist, the trial balance and the audit
  chain are tables of the state, as are evidence links and the thresholds of the policies. What the gates
  read from tables outside the model, for the session and its entity, is a record \<open>controls\<close>. An ellipsis
  is written as three dots, a long dash as two hyphens.
\<close>

section \<open>What the gates read\<close>

text \<open>
  The execution of the session with the statuses of its tasks, or else the number of tasks of the
  approved runbook of the entity, if there is one.
\<close>

datatype RunbookState = NoRunbook | RunbookNotStarted nat | RunbookExecution string "string list"

text \<open>The configuration of write-backs and, by journal entry, the status of its write-back; or a failed query.\<close>

datatype ErpState = ErpFailure | ErpDisabled | ErpEnabled "string \<Rightarrow> string option"

datatype EvidenceEnforcementMode = EvidenceOff | EvidenceWarnOnly | EvidenceHardBlock

record EvidencePolicy =
  ep_mode :: EvidenceEnforcementMode
  ep_threshold :: "string option"
  ep_required :: "string \<Rightarrow> string list option"

record ReconRequirement =
  rr_accountCode :: string
  rr_accountName :: "string option"
  rr_isRequired :: bool
  rr_requiresReviewerApproval :: bool

datatype PeriodReconStatus = ReconNotStarted | ReconInProgress | ReconCompleted | ReconApproved

record PeriodReconciliation =
  pr_reconId :: string
  pr_accountCode :: string
  pr_glBalance :: "string option"
  pr_toleranceAmount :: string
  pr_unexplainedVariance :: "string option"
  pr_varianceExplanation :: "string option"
  pr_status :: PeriodReconStatus

record Variance =
  va_priorAmount :: string
  va_changeAmount :: string
  va_changePercentage :: "string option"
  va_materialThresholdPct :: string
  va_explanation :: "string option"
  va_explanationSource :: "string option"
  va_humanReviewedBy :: "string option"
  va_approvedAt :: "timestamp option"

record CoaMappingRule =
  mr_namePattern :: string
  mr_numberPattern :: "string option"

record controls =
  ct_strict :: bool
  ct_runbook :: RunbookState
  ct_bankRuns :: "(string \<times> bool) list"
  ct_erp :: ErpState
  ct_exportChecks :: "(bool \<times> bool) option"
  ct_evidenceMode :: EvidenceEnforcementMode
  ct_requiredTypes :: "string \<Rightarrow> string list option"
  ct_assertionType :: "string \<Rightarrow> string option"
  ct_requirements :: "ReconRequirement list"
  ct_recons :: "PeriodReconciliation list"
  ct_variances :: "Variance list"
  ct_templates :: "(string \<times> string) list"
  ct_modulesReadable :: bool
  ct_rules :: "CoaMappingRule list"
  ct_excluded :: "string list"
  ct_packages :: nat

section \<open>The runbook\<close>

record RunbookReadiness =
  rb_required :: bool
  rb_passing :: bool
  rb_total :: nat
  rb_completed :: nat
  rb_waitingHuman :: nat
  rb_blocked :: nat
  rb_active :: nat
  rb_pending :: nat
  rb_detail :: string

definition tasks_in :: "string list \<Rightarrow> string list \<Rightarrow> nat" where
  "tasks_in statuses tasks = length (filter (\<lambda>t. t \<in> set statuses) tasks)"

definition checkRunbookReadiness :: "RunbookState \<Rightarrow> RunbookReadiness" where
  "checkRunbookReadiness r =
     (case r of
        RunbookExecution status tasks \<Rightarrow>
          let completed = tasks_in [''completed'', ''skipped''] tasks; waiting = tasks_in [''waiting_human''] tasks;
              blocked = tasks_in [''blocked'', ''failed''] tasks; active = tasks_in [''queued'', ''running''] tasks;
              passing = (tasks \<noteq> [] \<and> completed = length tasks \<and> status = ''completed'')
          in \<lparr>rb_required = True, rb_passing = passing, rb_total = length tasks, rb_completed = completed,
              rb_waitingHuman = waiting, rb_blocked = blocked, rb_active = active,
              rb_pending = tasks_in [''pending''] tasks,
              rb_detail = nat_string completed @ ''/'' @ nat_string (length tasks)
                @ (if passing then '' approved runbook tasks complete''
                   else '' complete '' @ CHR 0xB7 # '' '' @ nat_string waiting @ '' awaiting review '' @ CHR 0xB7 # '' ''
                     @ nat_string blocked @ '' blocked/failed '' @ CHR 0xB7 # '' '' @ nat_string active @ '' active'')\<rparr>
      | RunbookNotStarted n \<Rightarrow>
          \<lparr>rb_required = True, rb_passing = False, rb_total = n, rb_completed = 0, rb_waitingHuman = 0, rb_blocked = 0,
           rb_active = 0, rb_pending = n,
           rb_detail = ''The configured approved runbook has not started for this close session''\<rparr>
      | NoRunbook \<Rightarrow>
          \<lparr>rb_required = False, rb_passing = True, rb_total = 0, rb_completed = 0, rb_waitingHuman = 0, rb_blocked = 0,
           rb_active = 0, rb_pending = 0, rb_detail = ''No approved runbook is required for this close session''\<rparr>)"

section \<open>ERP write-backs\<close>

text \<open>The entries without a posting receipt, with the status of their write-back; none when it is not enabled.\<close>

definition evaluateErpWritebackCloseGate ::
  "(string \<Rightarrow> string option) option \<Rightarrow> tenant_id \<Rightarrow> string \<Rightarrow> 'a control_db_scheme \<Rightarrow> (string \<times> string) list" where
  "evaluateErpWritebackCloseGate writebacks tenant sessionId s =
     (case writebacks of
        None \<Rightarrow> []
      | Some w \<Rightarrow>
          map (\<lambda>r. (je_id r, js_or (w (je_id r)) ''missing''))
            (sort_key je_created_at (filter (\<lambda>r. je_tenant r = tenant \<and> je_session r = sessionId
               \<and> je_status r \<in> {Approved, Posted, Exported} \<and> w (je_id r) \<noteq> Some ''posted'') (journal_entries s))))"

definition summarizeUnresolvedErpWritebacks :: "(string \<Rightarrow> string) \<Rightarrow> (string \<times> string) list \<Rightarrow> string" where
  "summarizeUnresolvedErpWritebacks cl unresolved =
     js_join '', '' (map (\<lambda>st. st @ '': '' @ nat_string (length (filter (\<lambda>u. snd u = st) unresolved)))
       (sort_key cl (remdups (map snd unresolved))))"

section \<open>Evidence\<close>

text \<open>
  The row of the tenant in \<open>evidence_policy\<close> and the assertion types of the evidence of an object, by the
  identifiers of its links.
\<close>

definition getEvidencePolicy :: "controls \<Rightarrow> tenant_id \<Rightarrow> 'a control_db_scheme \<Rightarrow> EvidencePolicy option" where
  "getEvidencePolicy C tenant s =
     map_option (\<lambda>t. \<lparr>ep_mode = ct_evidenceMode C, ep_threshold = t, ep_required = ct_requiredTypes C\<rparr>)
       (map_of (evidence_policies s) tenant)"

definition assertion_types :: "controls \<Rightarrow> tenant_id \<Rightarrow> string \<Rightarrow> string \<Rightarrow> 'a control_db_scheme \<Rightarrow> string list" where
  "assertion_types C tenant objectType i s =
     List.map_filter (\<lambda>l. nonempty (ct_assertionType C (el_id l))) (evidence_for_object tenant objectType i s)"

definition has_evidence :: "tenant_id \<Rightarrow> string \<Rightarrow> 'a control_db_scheme \<Rightarrow> string \<Rightarrow> bool" where
  "has_evidence tenant objectType s i \<longleftrightarrow> evidence_for_object tenant objectType i s \<noteq> []"

definition deriveJeType :: "JournalEntry \<Rightarrow> string" where
  "deriveJeType je = (if source je = Recon then ''reconciliation'' else ''manual_entry'')"

definition computeJeAmount :: "'d decimal_ops \<Rightarrow> line_row list \<Rightarrow> number" where
  "computeJeAmount D lines =
     num_max (sumRound2 D (map (\<lambda>l. cents_num (jl_debit l)) lines)) (sumRound2 D (map (\<lambda>l. cents_num (jl_credit l)) lines))"

definition threshold_number :: "EvidencePolicy \<Rightarrow> number" where
  "threshold_number p = (case ep_threshold p of None \<Rightarrow> Fin 0 | Some t \<Rightarrow> if t = [] then Fin 0 else number_of_text t)"

definition je_missing_evidence ::
  "'d decimal_ops \<Rightarrow> controls \<Rightarrow> EvidencePolicy \<Rightarrow> tenant_id \<Rightarrow> 'a control_db_scheme \<Rightarrow> JournalEntry \<Rightarrow> string option" where
  "je_missing_evidence D C p tenant s je =
     (if num_less (computeJeAmount D (listJournalEntryLines (entry_id je) s)) (threshold_number p) then None
      else case ep_required p (deriveJeType je) of
        None \<Rightarrow> None
      | Some required \<Rightarrow>
          if required = [] \<or> list_ex (\<lambda>r. r \<in> set (assertion_types C tenant ''journal_entry'' (entry_id je) s)) required then None
          else Some (''Journal entry '' @ entry_id je @ '' (type: '' @ deriveJeType je @ '', amount >= ''
            @ js_or (ep_threshold p) ''undefined'' @ '') requires evidence with assertion type(s): '' @ js_join '', '' required))"

definition recon_balance :: "'d decimal_ops \<Rightarrow> PeriodReconciliation \<Rightarrow> number" where
  "recon_balance D r =
     (case pr_glBalance r of
        None \<Rightarrow> Fin 0
      | Some t \<Rightarrow> (case decimal_from D (AText t) of
          None \<Rightarrow> NaN | Some d \<Rightarrow> d_toNumber D (d_toDecimalPlaces D (d_abs D d) 2)))"

definition recon_missing_evidence ::
  "'d decimal_ops \<Rightarrow> controls \<Rightarrow> EvidencePolicy \<Rightarrow> tenant_id \<Rightarrow> 'a control_db_scheme \<Rightarrow> PeriodReconciliation
     \<Rightarrow> string option" where
  "recon_missing_evidence D C p tenant s r =
     (case ep_required p ''reconciliation'' of
        None \<Rightarrow> None
      | Some required \<Rightarrow>
          if required = [] \<or> pr_status r \<notin> {ReconCompleted, ReconApproved} \<or> num_less (recon_balance D r) (threshold_number p)
             \<or> list_ex (\<lambda>a. a \<in> set (assertion_types C tenant ''reconciliation'' (pr_reconId r) s)) required
          then None
          else Some (''Reconciliation '' @ pr_accountCode r @ '' (balance: '' @ js_or (pr_glBalance r) ''null''
            @ '') requires evidence with assertion type(s): '' @ js_join '', '' required))"

text \<open>The messages of the hard blockers and of the warnings.\<close>

definition checkEvidencePolicyForCertification ::
  "'d decimal_ops \<Rightarrow> controls \<Rightarrow> tenant_id \<Rightarrow> string \<Rightarrow> 'a control_db_scheme \<Rightarrow> string list \<times> string list" where
  "checkEvidencePolicyForCertification D C tenant sessionId s =
     (case getEvidencePolicy C tenant s of
        None \<Rightarrow> ([], [])
      | Some p \<Rightarrow>
          let found = List.map_filter (je_missing_evidence D C p tenant s) (listJournalEntries tenant (Some sessionId) None (Some 1000) s)
                @ List.map_filter (recon_missing_evidence D C p tenant s) (ct_recons C)
          in case ep_mode p of
               EvidenceOff \<Rightarrow> ([], []) | EvidenceHardBlock \<Rightarrow> (found, []) | EvidenceWarnOnly \<Rightarrow> ([], found))"

section \<open>Reconciliations\<close>

record ReconBlocker =
  bk_recon_id :: string
  bk_account_code :: string
  bk_account_name :: string
  bk_reason :: string

text \<open>What a required account counts as.\<close>

datatype recon_count = CountCompleted | CountApproved | CountNotStarted | CountInProgress | CountOverTolerance | CountAwaiting

definition progress_verdict :: "PeriodReconciliation \<Rightarrow> recon_count \<times> string" where
  "progress_verdict r =
     (case map_option (\<lambda>t. num_abs (number_of_text t)) (pr_unexplainedVariance r) of
        None \<Rightarrow> (CountInProgress, ''In progress'')
      | Some a \<Rightarrow>
          if num_less (number_of_text (pr_toleranceAmount r)) a
          then (CountOverTolerance, ''Unexplained variance of $'' @ js_or (pr_unexplainedVariance r) ''?'')
          else if num_less (Fin 0) a \<and> num_le a (number_of_text (pr_toleranceAmount r))
                  \<and> js_trim (js_or (pr_varianceExplanation r) []) = []
          then (CountInProgress, ''Variance explanation required'')
          else (CountInProgress, ''In progress''))"

definition recon_verdict :: "PeriodReconciliation list \<Rightarrow> ReconRequirement \<Rightarrow> recon_count \<times> ReconBlocker option" where
  "recon_verdict recons q =
     (let block = (\<lambda>i reason. Some \<lparr>bk_recon_id = i, bk_account_code = rr_accountCode q,
            bk_account_name = js_or (rr_accountName q) (rr_accountCode q), bk_reason = reason\<rparr>)
      in case find (\<lambda>r. pr_accountCode r = rr_accountCode q) (rev recons) of
           None \<Rightarrow> (CountNotStarted, block [] ''Not initialized'')
         | Some r \<Rightarrow>
             (case pr_status r of
                ReconNotStarted \<Rightarrow> (CountNotStarted, block (pr_reconId r) ''Not started'')
              | ReconInProgress \<Rightarrow>
                  (fst (progress_verdict r), block (pr_reconId r) (snd (progress_verdict r)))
              | ReconCompleted \<Rightarrow>
                  if rr_requiresReviewerApproval q then (CountAwaiting, block (pr_reconId r) ''Awaiting reviewer approval'')
                  else (CountCompleted, None)
              | ReconApproved \<Rightarrow> (CountApproved, None)))"

record ReconGateResult =
  rg_passes :: bool
  rg_total :: nat
  rg_count :: "recon_count \<Rightarrow> nat"
  rg_blockers :: "ReconBlocker list"

definition checkReconCompleteness :: "bool \<Rightarrow> ReconRequirement list \<Rightarrow> PeriodReconciliation list \<Rightarrow> ReconGateResult" where
  "checkReconCompleteness sessionExists requirements recons =
     (let required = filter rr_isRequired requirements; verdicts = map (recon_verdict recons) required;
          blockers = List.map_filter snd verdicts
      in if \<not> sessionExists then \<lparr>rg_passes = False, rg_total = 0, rg_count = (\<lambda>_. 0), rg_blockers = []\<rparr>
         else if required = []
         then \<lparr>rg_passes = False, rg_total = 0, rg_count = (\<lambda>_. 0),
               rg_blockers = [\<lparr>bk_recon_id = [], bk_account_code = [], bk_account_name = ''Reconciliation population'',
                 bk_reason = ''No required reconciliation accounts are configured for this entity''\<rparr>]\<rparr>
         else \<lparr>rg_passes = (blockers = []), rg_total = length required,
               rg_count = (\<lambda>k. length (filter (\<lambda>v. fst v = k) verdicts)), rg_blockers = blockers\<rparr>)"

section \<open>Variances and templates\<close>

definition is_material :: "Variance \<Rightarrow> bool" where
  "is_material v =
     (if num_eq (number_of_text (va_priorAmount v)) (Fin 0)
      then num_less (to_num (1 / 100)) (num_abs (number_of_text (va_changeAmount v)))
      else num_le (number_of_text (va_materialThresholdPct v))
             (num_abs (number_of_text (js_or (va_changePercentage v) ''0''))))"

definition is_explained :: "Variance \<Rightarrow> bool" where
  "is_explained v \<longleftrightarrow> js_trim (js_or (va_explanation v) []) \<noteq> []"

record VarianceCompletenessResult =
  vx_passes :: bool
  vx_totalMaterial :: nat
  vx_explained :: nat
  vx_approved :: nat
  vx_unexplained :: "Variance list"
  vx_unreviewedAi :: nat

definition checkVarianceCompleteness :: "Variance list \<Rightarrow> VarianceCompletenessResult" where
  "checkVarianceCompleteness variances =
     (let material = filter is_material variances; explained = filter is_explained material;
          unexplained = filter (\<lambda>v. \<not> is_explained v) material;
          unreviewed = filter (\<lambda>v. va_explanationSource v = Some ''ai_draft'' \<and> \<not> truthy (va_humanReviewedBy v)) explained
      in \<lparr>vx_passes = (unexplained = [] \<and> unreviewed = []), vx_totalMaterial = length material,
          vx_explained = length explained, vx_approved = length (filter (\<lambda>v. va_approvedAt v \<noteq> None) material),
          vx_unexplained = unexplained, vx_unreviewedAi = length unreviewed\<rparr>)"

record TemplateCompletenessResult =
  tc_passes :: bool
  tc_total_proposed :: nat
  tc_applied :: nat
  tc_skipped :: nat
  tc_pending :: nat
  tc_pending_names :: "string list"

definition checkTemplateCompleteness :: "(string \<times> string) list \<Rightarrow> TemplateCompletenessResult" where
  "checkTemplateCompleteness applications =
     (let proposed = filter (\<lambda>a. snd a = ''proposed'') applications
      in \<lparr>tc_passes = (length proposed = 0), tc_total_proposed = length applications,
          tc_applied = length (filter (\<lambda>a. snd a = ''applied'') applications),
          tc_skipped = length (filter (\<lambda>a. snd a = ''skipped'') applications),
          tc_pending = length proposed, tc_pending_names = map fst proposed\<rparr>)"

section \<open>The mapping of accounts\<close>

text \<open>
  \<open>patternToRegExp\<close> and the test: every character of the pattern stands for itself but \<open>%\<close>, which matches
  any characters of one line; case does not count.
\<close>

fun pattern_match :: "string \<Rightarrow> string \<Rightarrow> bool" where
  "pattern_match [] s = (s = [])"
| "pattern_match (c # p) [] = (c = CHR ''%'' \<and> pattern_match p [])"
| "pattern_match (c # p) (d # s) =
     (if c = CHR ''%'' then pattern_match p (d # s) \<or> (\<not> line_end d \<and> pattern_match (c # p) s)
      else js_lower_char c = js_lower_char d \<and> pattern_match p s)"

definition ruleMatchesAccount :: "CoaMappingRule \<Rightarrow> string \<Rightarrow> string option \<Rightarrow> bool" where
  "ruleMatchesAccount rule name code \<longleftrightarrow>
     pattern_match (mr_namePattern rule) (js_trim name)
     \<and> (truthy (mr_numberPattern rule) \<longrightarrow> pattern_match (the (mr_numberPattern rule)) (js_trim (js_or code [])))"

definition formatBalance :: "number \<Rightarrow> number \<Rightarrow> string option \<Rightarrow> string" where
  "formatBalance d c t =
     num_toFixed2 (if js_toUpperCase (js_or t []) \<in> {''LIABILITY'', ''EQUITY'', ''REVENUE''} then num_minus c d else num_minus d c)"

definition account_ref :: "TrialBalanceEntry \<Rightarrow> string" where
  "account_ref e = (if js_or (te_accountCode e) [] = [] then te_accountName e else js_or (te_accountCode e) [])"

definition is_mapped :: "CoaMappingRule list \<Rightarrow> TrialBalanceEntry \<Rightarrow> bool" where
  "is_mapped rules e \<longleftrightarrow> list_ex (\<lambda>r. ruleMatchesAccount r (te_accountName e) (nonempty (Some (account_ref e)))) rules"

record MappingCompletenessResult =
  mc_passes :: bool
  mc_total :: nat
  mc_mapped :: nat
  mc_unmapped :: "(string \<times> string \<times> string) list"

definition no_mapping :: MappingCompletenessResult where
  "no_mapping = \<lparr>mc_passes = False, mc_total = 0, mc_mapped = 0, mc_unmapped = []\<rparr>"

text \<open>An unmapped account: its reference, its name and its balance.\<close>

definition checkMappingCompleteness ::
  "'d decimal_ops \<Rightarrow> (string \<Rightarrow> string) \<Rightarrow> controls \<Rightarrow> tenant_id \<Rightarrow> string \<Rightarrow> 'a control_db_scheme \<Rightarrow> MappingCompletenessResult" where
  "checkMappingCompleteness D cl C tenant sessionId s =
     (case getCloseSessionById tenant sessionId s of
        None \<Rightarrow> no_mapping
      | Some session \<Rightarrow>
          if period_of session = [] then no_mapping
          else (case getTrialBalanceForCertification D cl tenant (period_of session) (Some sessionId) s of
            Inl e \<Rightarrow> no_mapping
          | Inr (entries, _) \<Rightarrow>
              if entries = [] then no_mapping
              else let included = filter (\<lambda>e. account_ref e \<noteq> [] \<and> account_ref e \<notin> set (ct_excluded C)) entries;
                       unmapped = filter (\<lambda>e. \<not> is_mapped (ct_rules C) e) included
                   in \<lparr>mc_passes = (unmapped = []), mc_total = length included,
                       mc_mapped = length (filter (is_mapped (ct_rules C)) included),
                       mc_unmapped = map (\<lambda>e. (account_ref e, te_accountName e,
                         formatBalance (te_debit e) (te_credit e) (te_accountType e))) unmapped\<rparr>))"

section \<open>computeReadiness\<close>

definition count_text :: "nat \<Rightarrow> string \<Rightarrow> string" where
  "count_text n message = nat_string n @ message"

definition checklist_blockers :: "CloseChecklistItem list \<Rightarrow> string list" where
  "checklist_blockers items =
     (if items = [] then [''Checklist not initialized; run initializeChecklistTemplate first.'']
      else let codes = map ck_code items;
               duplicates = filter (\<lambda>c. 1 < count_list codes c) (rev (remdups (rev codes)));
               incomplete = filter (\<lambda>i. ck_required i \<and> \<not> checklistItemSatisfied i) items
           in (if duplicates = [] then [] else [''Duplicate checklist control codes detected: '' @ js_join '', '' duplicates])
              @ (if incomplete = [] then [] else [''Required checklist items not complete: '' @ js_join '', '' (map ck_name incomplete)]))"

definition runbook_blockers :: "RunbookReadiness \<Rightarrow> string list" where
  "runbook_blockers r = (if rb_passing r then [] else [''Approved close runbook incomplete: '' @ rb_detail r @ ''.''])"

definition cash_blockers :: "(string \<times> bool) list \<Rightarrow> CloseChecklistItem list \<Rightarrow> string list" where
  "cash_blockers runs items =
     (if runs \<noteq> []
      then let unsigned = length (filter (\<lambda>r. \<not> snd r) runs)
           in if unsigned = 0 then []
              else [''Cash reconciliation not complete; '' @ count_text unsigned '' bank reconciliation run(s) require sign-off.'']
      else if list_ex (\<lambda>i. ck_code i = ''CA_SCOPE_CONFIRMED'') items
      then [''No bank reconciliation run exists for this Canadian ASPE close session.''] else [])"

definition cash_warnings :: "(string \<times> bool) list \<Rightarrow> CloseChecklistItem list \<Rightarrow> string list" where
  "cash_warnings runs items =
     (if runs = [] \<and> \<not> list_ex (\<lambda>i. ck_code i = ''CA_SCOPE_CONFIRMED'') items
      then [''No bank reconciliation run for this session.''] else [])"

definition issue_blockers :: "CloseIssue list \<Rightarrow> string list" where
  "issue_blockers blocking =
     (if blocking = [] then []
      else [count_text (length blocking) '' critical/blocking issue(s) open; resolve or waive before close.''])"

definition unapproved_blockers :: "JournalEntry list \<Rightarrow> string list" where
  "unapproved_blockers jes =
     (let unapproved = filter (\<lambda>j. entry_status j \<in> {Draft, Proposed}) jes
      in if unapproved = [] then []
         else [count_text (length unapproved) '' journal entry(ies) remain unapproved; approve or reject before close.''])"

definition erp_blockers ::
  "(string \<Rightarrow> string) \<Rightarrow> controls \<Rightarrow> tenant_id \<Rightarrow> string \<Rightarrow> 'a control_db_scheme \<Rightarrow> string list" where
  "erp_blockers cl C tenant sessionId s =
     (case ct_erp C of
        ErpFailure \<Rightarrow>
          if ct_strict C then [''ERP writeback gate could not be verified; resolve the control failure before close.''] else []
      | ErpDisabled \<Rightarrow> []
      | ErpEnabled w \<Rightarrow>
          (let unresolved = evaluateErpWritebackCloseGate (Some w) tenant sessionId s
           in if unresolved = [] then []
              else [count_text (length unresolved) '' approved journal entry ERP writeback(s) unresolved (''
                @ summarizeUnresolvedErpWritebacks cl unresolved
                @ ''); obtain a confirmed ERP posting receipt or reconcile the external ledger before close.'']))"

definition chain_blockers :: "VerifyResult option \<Rightarrow> string list" where
  "chain_blockers chain =
     (case chain of
        None \<Rightarrow> []
      | Some r \<Rightarrow> if vr_valid r then [] else [js_or (vr_message r) ''Audit ledger chain verification failed.''])"

definition export_blockers :: "(bool \<times> bool) option \<Rightarrow> string list" where
  "export_blockers checks =
     (case checks of
        None \<Rightarrow> []
      | Some (single, aggregate) \<Rightarrow>
          (if single then [''Rounding gap exceeds materiality; resolve before close.''] else [])
          @ (if aggregate then [''Aggregate rounding exceeds materiality; resolve before close.''] else []))"

definition recon_blockers :: "ReconGateResult \<Rightarrow> string list" where
  "recon_blockers r =
     (if rg_total r = 0
      then [''No required reconciliation population is configured; generate and review reconciliation requirements before close.'']
      else if rg_passes r then []
      else [count_text (length (rg_blockers r)) '' reconciliation(s) incomplete: ''
        @ js_join ''; '' (map (\<lambda>b. bk_account_code b @ '' ('' @ bk_reason b @ '')'') (take 3 (rg_blockers r)))
        @ (if 3 < length (rg_blockers r) then ''...'' else [])])"

definition variance_blockers :: "VarianceCompletenessResult \<Rightarrow> string list" where
  "variance_blockers r =
     (if \<not> vx_passes r \<and> vx_unexplained r \<noteq> []
      then [count_text (length (vx_unexplained r)) '' material variance(s) without explanation; explain or approve before close.'']
      else [])"

definition template_blockers :: "TemplateCompletenessResult \<Rightarrow> string list" where
  "template_blockers r =
     (if \<not> tc_passes r \<and> 0 < tc_pending r
      then [count_text (tc_pending r)
        '' AJE template(s) proposed but not yet applied or skipped; review and apply or skip before close.'']
      else [])"

definition unresolved_modules :: "tenant_id \<Rightarrow> string \<Rightarrow> 'a control_db_scheme \<Rightarrow> proposal_row list" where
  "unresolved_modules tenant sessionId s =
     filter (\<lambda>p. mp_tenant p = tenant \<and> mp_session p = sessionId
       \<and> mp_status p \<in> {''failed'', ''needs_review'', ''pending'', ''proposed''}) (module_proposals s)"

definition module_blockers :: "controls \<Rightarrow> tenant_id \<Rightarrow> string \<Rightarrow> 'a control_db_scheme \<Rightarrow> string list" where
  "module_blockers C tenant sessionId s =
     (if \<not> ct_modulesReadable C
      then (if ct_strict C
            then [''Module proposal gate check failed -- cannot verify module status. Resolve before advancing.''] else [])
      else let rows = unresolved_modules tenant sessionId s
           in if rows = [] then []
              else [count_text (length rows) '' module proposal(s) unresolved: ''
                @ js_join '', '' (map (\<lambda>r. mp_module r @ '' ('' @ mp_status r @ '')'') rows)
                @ ''. Approve, skip with reason, or mark not applicable before advancing.''])"

definition undocumented_blockers :: "controls \<Rightarrow> tenant_id \<Rightarrow> 'a control_db_scheme \<Rightarrow> string list" where
  "undocumented_blockers C tenant s =
     map (\<lambda>r. ''Reconciliation for '' @ pr_accountCode r
         @ '' is completed but missing supporting documentation. Upload the source document before close.'')
       (filter (\<lambda>r. pr_status r \<in> {ReconCompleted, ReconApproved} \<and> \<not> has_evidence tenant ''reconciliation'' s (pr_reconId r))
          (ct_recons C))"

definition je_threshold :: "controls \<Rightarrow> tenant_id \<Rightarrow> 'a control_db_scheme \<Rightarrow> number" where
  "je_threshold C tenant s = (case getEvidencePolicy C tenant s of None \<Rightarrow> Fin 0 | Some p \<Rightarrow> threshold_number p)"

definition undocumented_warnings ::
  "'d decimal_ops \<Rightarrow> controls \<Rightarrow> tenant_id \<Rightarrow> JournalEntry list \<Rightarrow> 'a control_db_scheme \<Rightarrow> string list" where
  "undocumented_warnings D C tenant jes s =
     (let posted = filter (\<lambda>j. entry_status j \<in> {Posted, Exported}) jes;
          linesByJe = listJournalEntryLinesBatch (map entry_id posted) s;
          amount = (\<lambda>j. sumRound2 D (map (\<lambda>l. cents_num (jl_debit l)) (js_or (linesByJe (entry_id j)) [])));
          material = filter (\<lambda>j. num_le (je_threshold C tenant s) (amount j)) posted
      in if \<not> num_less (Fin 0) (je_threshold C tenant s) then []
         else map (\<lambda>j. ''Posted journal entry '' @ js_or (memo j) (entry_id j) @ '' ($'' @ num_toFixed2 (amount j)
             @ '') above threshold lacks supporting documentation.'')
           (filter (\<lambda>j. \<not> has_evidence tenant ''journal_entry'' s (entry_id j)) material))"

definition mapping_blockers :: "MappingCompletenessResult \<Rightarrow> string list" where
  "mapping_blockers r =
     (if mc_total r = 0
      then [''No session-anchored trial balance is available; sync or upload the accounting source before close.'']
      else if \<not> mc_passes r \<and> mc_unmapped r \<noteq> []
      then [count_text (length (mc_unmapped r)) '' account(s) not mapped to reporting line items: ''
        @ js_join '', '' (map (\<lambda>(code, name, balance). (if code = [] then name else code) @ '' ($'' @ balance @ '')'') (take 5 (mc_unmapped r)))
        @ (if 5 < length (mc_unmapped r) then ''...'' else [])]
      else [])"

definition package_blockers :: "nat \<Rightarrow> CloseSession \<Rightarrow> string list" where
  "package_blockers packages session =
     (if packages = 0 then [''No financial statement package has been generated for this close session.'']
      else if truthy (ses_statementsStaleSince session)
      then [''Financial statements are stale after an accounting change; regenerate them before close.'']
      else [])"

record CloseReadinessResult =
  rd_ready :: bool
  rd_hardBlockers :: "string list"
  rd_softWarnings :: "string list"
  rd_checklistComplete :: bool
  rd_cashRecComplete :: bool
  rd_noCriticalIssues :: bool
  rd_materialJesApproved :: bool
  rd_integrityChecksPass :: bool
  rd_runbookComplete :: bool
  rd_runbookDetail :: string
  rd_jeTotal :: nat

text \<open>The blockers before and after the verification of the chain, which may move its checkpoint.\<close>

definition early_blockers ::
  "(string \<Rightarrow> string) \<Rightarrow> controls \<Rightarrow> tenant_id \<Rightarrow> string \<Rightarrow> 'a control_db_scheme \<Rightarrow> string list" where
  "early_blockers cl C tenant sessionId s =
     (let items = listChecklistItemsBySessionId cl tenant sessionId s
      in checklist_blockers items @ runbook_blockers (checkRunbookReadiness (ct_runbook C)) @ cash_blockers (ct_bankRuns C) items
         @ issue_blockers (getBlockingIssuesForPeriod sessionId tenant s)
         @ unapproved_blockers (listJournalEntries tenant (Some sessionId) None (Some 1000) s) @ erp_blockers cl C tenant sessionId s)"

definition gate_blockers ::
  "'d decimal_ops \<Rightarrow> controls \<Rightarrow> tenant_id \<Rightarrow> string \<Rightarrow> 'a control_db_scheme \<Rightarrow> string list" where
  "gate_blockers D C tenant sessionId s =
     export_blockers (ct_exportChecks C) @ fst (checkEvidencePolicyForCertification D C tenant sessionId s)
     @ recon_blockers (checkReconCompleteness (getCloseSessionById tenant sessionId s \<noteq> None) (ct_requirements C) (ct_recons C))
     @ variance_blockers (checkVarianceCompleteness (ct_variances C)) @ template_blockers (checkTemplateCompleteness (ct_templates C))
     @ module_blockers C tenant sessionId s"

definition full_blockers ::
  "'d decimal_ops \<Rightarrow> (string \<Rightarrow> string) \<Rightarrow> controls \<Rightarrow> tenant_id \<Rightarrow> CloseSession \<Rightarrow> 'a control_db_scheme \<Rightarrow> string list" where
  "full_blockers D cl C tenant session s =
     undocumented_blockers C tenant s @ mapping_blockers (checkMappingCompleteness D cl C tenant (ses_id session) s)
     @ package_blockers (ct_packages C) session"

definition computeReadiness ::
  "'d env \<Rightarrow> (string \<Rightarrow> string) \<Rightarrow> controls \<Rightarrow> bool \<Rightarrow> tenant_id \<Rightarrow> CloseSession \<Rightarrow> 'a control_db_scheme
     \<Rightarrow> CloseReadinessResult \<times> 'a control_db_scheme" where
  "computeReadiness E cl C lightweight tenant session s =
     (let D = e_decimal E; i = ses_id session; items = listChecklistItemsBySessionId cl tenant i s;
          jes = listJournalEntries tenant (Some i) None (Some 1000) s;
          early = early_blockers cl C tenant i s;
          (chain, s') = (if lightweight then (None, s)
                         else let (r, t) = verifyChain (e_sha256 E) tenant s in (Some r, t));
          hard = early @ chain_blockers chain @ gate_blockers D C tenant i s'
            @ (if lightweight then [] else full_blockers D cl C tenant session s');
          runbook = checkRunbookReadiness (ct_runbook C)
      in (\<lparr>rd_ready = (hard = []), rd_hardBlockers = hard,
           rd_softWarnings = cash_warnings (ct_bankRuns C) items
             @ snd (checkEvidencePolicyForCertification D C tenant i s')
             @ (if lightweight then [] else undocumented_warnings D C tenant jes s'),
           rd_checklistComplete = (checklist_blockers items = []),
           rd_cashRecComplete = (cash_blockers (ct_bankRuns C) items = []),
           rd_noCriticalIssues = (getBlockingIssuesForPeriod i tenant s = []),
           rd_materialJesApproved = (unapproved_blockers jes = [] \<and> erp_blockers cl C tenant i s = []),
           rd_integrityChecksPass = (chain_blockers chain = [] \<and> export_blockers (ct_exportChecks C) = []),
           rd_runbookComplete = rb_passing runbook, rd_runbookDetail = rb_detail runbook, rd_jeTotal = length jes\<rparr>, s'))"

end
