(* ===== verification/ChecklistGuarantees.thy ===== *)
theory ChecklistGuarantees
  imports Checklist AdjustmentGuarantees
begin

text \<open>
  What the operations of the checklist keep of its items, and that the two judges of a checklist, the
  profile and the gate of the readiness check, agree on it.
\<close>

section \<open>Items that are signed off\<close>

text \<open>
  A closed item names who closed it and when; a skipped one is a control that may be skipped, with a
  reason that is not blank.
\<close>

definition signed_off :: "CloseChecklistItem \<Rightarrow> bool" where
  "signed_off r \<longleftrightarrow>
     (ck_status r \<in> {ItemCompleted, ItemSkipped} \<longrightarrow> ck_completed_by r \<noteq> None \<and> ck_completed_at r \<noteq> None)
     \<and> (ck_status r = ItemSkipped \<longrightarrow> isChecklistRequirementSkippable (ck_code r) \<and> (\<exists>n. ck_notes r = Some n \<and> js_trim n \<noteq> []))"

definition checklist_ok :: "'a control_db_scheme \<Rightarrow> bool" where
  "checklist_ok s \<longleftrightarrow> distinct (map ck_id (close_checklist_items s)) \<and> list_all signed_off (close_checklist_items s)"

text \<open>What an item is, whatever its state: no operation changes this.\<close>

definition ck_key :: "CloseChecklistItem \<Rightarrow> string \<times> string \<times> string \<times> string \<times> bool" where
  "ck_key r = (ck_id r, ck_session r, ck_code r, ck_name r, ck_required r)"

definition checklist_keeps :: "'a control_db_scheme \<Rightarrow> 'a control_db_scheme \<Rightarrow> bool" where
  "checklist_keeps s s' \<longleftrightarrow>
     (checklist_ok s \<longrightarrow> checklist_ok s')
     \<and> (\<exists>new. map ck_key (close_checklist_items s') = map ck_key (close_checklist_items s) @ new)"

lemma checklist_keeps_same [intro]: "close_checklist_items s' = close_checklist_items s \<Longrightarrow> checklist_keeps s s'"
  by (simp add: checklist_keeps_def checklist_ok_def)

lemma checklist_keeps_trans: "checklist_keeps s t \<Longrightarrow> checklist_keeps t u \<Longrightarrow> checklist_keeps s u"
  by (auto simp: checklist_keeps_def)

lemma items_ticked [simp]:
  "close_checklist_items (snd (now s)) = close_checklist_items s"
  "close_checklist_items (snd (random_text s)) = close_checklist_items s"
  "item_of tenant (s\<lparr>ticks := a\<rparr>) = item_of tenant s"
  by (simp_all add: now_def random_text_def item_of_def fun_eq_iff)

lemma trim_blank: "js_trim s = [] \<longleftrightarrow> list_all js_space s"
proof -
  have none: "dropWhile js_space xs = [] \<longleftrightarrow> list_all js_space xs" for xs
    by (auto simp: dropWhile_eq_Nil_conv list_all_iff)
  have "list_all js_space (dropWhile js_space s) \<longleftrightarrow> list_all js_space s"
    by (induction s) auto
  then show ?thesis by (simp add: js_trim_def none) (simp add: list_all_iff)
qed

lemma trim_kept: "js_trim s \<noteq> [] \<Longrightarrow> js_trim (js_trim s) \<noteq> []"
proof -
  have drop: "list_all js_space (dropWhile js_space xs) \<longleftrightarrow> list_all js_space xs" for xs by (induction xs) auto
  show "js_trim s \<noteq> [] \<Longrightarrow> js_trim (js_trim s) \<noteq> []"
    using drop [of "rev (dropWhile js_space s)"] drop [of s] unfolding trim_blank
    by (simp add: js_trim_def list_all_iff)
qed

section \<open>The operations\<close>

lemma insert_keeps: "checklist_keeps s (snd (insertChecklistItem tenant i sessionId code name req s))"
proof -
  have "list_all signed_off [\<lparr>ck_id = i, ck_session = sessionId, ck_code = code, ck_name = name, ck_status = ItemPending,
      ck_required = req, ck_completed_by = None, ck_completed_at = None, ck_notes = None, ck_created_at = t, ck_updated_at = t\<rparr>]" for t
    by (simp add: signed_off_def)
  then show ?thesis
    by (auto simp: insertChecklistItem_def checklist_keeps_def checklist_ok_def case_prod_beta Let_def split: option.split)
qed

lemma insert_items_keeps: "checklist_keeps s (snd (insert_items tenant sessionId items s))"
proof (induction items arbitrary: s)
  case (Cons t ts)
  let ?s = "snd (random_text s)"
  have "checklist_keeps s ?s" by (rule checklist_keeps_same) simp
  moreover have "checklist_keeps ?s (snd (andThen (insertChecklistItem tenant (fst (random_text s)) sessionId (ti_code t) (ti_name t) (ti_required t) ?s)
      (\<lambda>r s. andThen (insert_items tenant sessionId ts s) (\<lambda>rs s. (Inr (r # rs), s)))))"
    by (rule andThen_keeps [where P = "checklist_keeps ?s"])
      (auto intro: insert_keeps checklist_keeps_trans Cons simp: andThen_state split: sum.split)
  ultimately show ?case by (auto simp: case_prod_beta intro: checklist_keeps_trans)
qed auto

lemma initialize_keeps: "checklist_keeps s (snd (initializeChecklistTemplate cl tenant sessionId items s))"
  by (auto simp: initializeChecklistTemplate_def Let_def andThen_state insert_items_keeps split: sum.split)

lemma update_keeps:
  assumes "\<And>r. r \<in> set (close_checklist_items s) \<Longrightarrow> item_of tenant s r \<Longrightarrow> ck_id r = i \<Longrightarrow> signed_off r \<Longrightarrow>
      signed_off (r\<lparr>ck_status := st, ck_updated_at := clock s (ticks s), ck_completed_by := coalesce user (ck_completed_by r),
        ck_completed_at := (if st = ItemCompleted \<or> st = ItemSkipped then Some (js_or completedAt (clock s (ticks s))) else ck_completed_at r),
        ck_notes := coalesce notes (ck_notes r)\<rparr>)"
  shows "checklist_keeps s (snd (updateChecklistItemStatus tenant i st user completedAt notes s))"
proof -
  let ?hit = "\<lambda>r. item_of tenant s r \<and> ck_id r = i"
  let ?f = "\<lambda>r. r\<lparr>ck_status := st, ck_updated_at := clock s (ticks s), ck_completed_by := coalesce user (ck_completed_by r),
        ck_completed_at := (if st = ItemCompleted \<or> st = ItemSkipped then Some (js_or completedAt (clock s (ticks s))) else ck_completed_at r),
        ck_notes := coalesce notes (ck_notes r)\<rparr>"
  let ?xs = "close_checklist_items s"
  have keys: "map ck_key (update_where ?hit ?f ?xs) = map ck_key ?xs" "map ck_id (update_where ?hit ?f ?xs) = map ck_id ?xs"
    by (simp_all add: map_update_where ck_key_def)
  have "list_all signed_off ?xs \<Longrightarrow> list_all signed_off (update_where ?hit ?f ?xs)"
    using assms by (auto simp: list_all_iff set_update_where)
  with keys show ?thesis
    unfolding updateChecklistItemStatus_def case_prod_beta Let_def ticks_now
    by (simp add: checklist_keeps_def checklist_ok_def)
qed

lemma coalesce_some: "user \<noteq> None \<Longrightarrow> coalesce user old \<noteq> None"
  by (cases user) auto

lemma complete_keeps: "checklist_keeps s (snd (completeChecklistItem tenant i user notes s))"
proof -
  have "checklist_keeps s (snd (now s))" by (rule checklist_keeps_same) simp
  moreover have "checklist_keeps (snd (now s)) (snd (updateChecklistItemStatus tenant i ItemCompleted (Some user)
      (Some (fst (now s))) notes (snd (now s))))"
    by (rule update_keeps) (simp add: signed_off_def)
  ultimately show ?thesis by (auto simp: completeChecklistItem_def case_prod_beta intro: checklist_keeps_trans)
qed

lemma skip_keeps:
  assumes "checklist_ok s"
  shows "checklist_keeps s (snd (skipChecklistItem tenant i user notes s))"
proof (cases "getChecklistItemById tenant i s")
  case (Some item)
  show ?thesis
  proof (cases "isChecklistRequirementSkippable (ck_code item) \<and> js_trim (js_or notes []) \<noteq> []")
    case True
    have "checklist_keeps s (snd (updateChecklistItemStatus tenant i ItemSkipped (Some user) None
        (Some (js_trim (js_or notes []))) s))"
    proof (rule update_keeps)
      fix r assume r: "r \<in> set (close_checklist_items s)" "ck_id r = i"
      have "item \<in> set (close_checklist_items s)" "ck_id item = i"
        using Some by (auto simp: getChecklistItemById_def dest: find_SomeD)
      with r assms have "r = item" by (auto simp: checklist_ok_def intro: distinct_key_unique)
      with True trim_kept show "signed_off (r\<lparr>ck_status := ItemSkipped, ck_updated_at := clock s (ticks s),
          ck_completed_by := coalesce (Some user) (ck_completed_by r),
          ck_completed_at := (if ItemSkipped = ItemCompleted \<or> ItemSkipped = ItemSkipped then Some (js_or None (clock s (ticks s))) else ck_completed_at r),
          ck_notes := coalesce (Some (js_trim (js_or notes []))) (ck_notes r)\<rparr>)"
        by (auto simp: signed_off_def)
    qed
    with Some True show ?thesis by (simp add: skipChecklistItem_def)
  qed (use Some in \<open>auto simp: skipChecklistItem_def\<close>)
qed (auto simp: skipChecklistItem_def)

lemma issue_keeps: "close_checklist_items (snd (createIssueForSession input s)) = close_checklist_items s"
proof -
  let ?same = "\<lambda>u. close_checklist_items u = close_checklist_items s"
  have insert: "?same u \<Longrightarrow> ?same (snd (insertCloseIssue i new st u))" for i new st u
    by (simp add: insertCloseIssue_def insert_issue_row_def now_def Let_def andThen_state split: option.split)
  have history: "?same u \<Longrightarrow> ?same (snd (appendIssueHistory i a b who note_text u))" for i a b who note_text u
    by (simp add: appendIssueHistory_def insert_history_row_def random_text_def now_def Let_def)
  have "?same (snd (createIssue new s))" for new
    unfolding createIssue_def case_prod_beta Let_def
    by (rule andThen_keeps [where P = ?same], rule insert, simp,
      rule andThen_keeps [where P = ?same], erule history) (simp add: record_call_def)
  then show ?thesis by (simp add: createIssueForSession_def)
qed

lemma emit_keeps: "checklist_keeps s (snd (emitIssuesForStuckChecklist cl tenant sessionId s))"
  by (rule checklist_keeps_same)
    (simp add: emitIssuesForStuckChecklist_def Let_def andThen_state issue_keeps split: sum.split)

section \<open>Sequences of calls\<close>

inductive checklist_step :: "(string \<Rightarrow> string) \<Rightarrow> 'a control_db_scheme \<Rightarrow> 'a control_db_scheme \<Rightarrow> bool" for cl where
  initialize: "checklist_step cl s (snd (initializeChecklistTemplate cl tenant sessionId items s))"
| complete: "checklist_step cl s (snd (completeChecklistItem tenant i user notes s))"
| skip: "checklist_step cl s (snd (skipChecklistItem tenant i user notes s))"
| emit: "checklist_step cl s (snd (emitIssuesForStuckChecklist cl tenant sessionId s))"

text \<open>
  C14. Whatever sequence of calls is made on the checklists: identifiers stay distinct, every closed item
  names who closed it and when, only controls that may be skipped are skipped, each with a reason that is
  not blank, and no item is removed or changes its session, its control or whether it is required.
\<close>

theorem checklist_invariant:
  assumes "(checklist_step cl)\<^sup>*\<^sup>* s s'" and "checklist_ok s"
  shows "checklist_ok s' \<and> (\<exists>new. map ck_key (close_checklist_items s') = map ck_key (close_checklist_items s) @ new)"
  using assms(1)
proof (induction rule: rtranclp_induct)
  case (step t u)
  from step.hyps(2) have "checklist_keeps t u"
    using step.IH by (cases rule: checklist_step.cases) (auto intro: initialize_keeps complete_keeps skip_keeps emit_keeps)
  with step.IH show ?case by (auto simp: checklist_keeps_def)
qed (use assms(2) in simp)

definition demo_item :: "string \<Rightarrow> ChecklistStatus \<Rightarrow> CloseChecklistItem" where
  "demo_item code st = \<lparr>ck_id = code, ck_session = ''s2'', ck_code = code, ck_name = code, ck_status = st, ck_required = True,
     ck_completed_by = (if st = ItemPending then None else Some ''ann''),
     ck_completed_at = (if st = ItemPending then None else Some 0), ck_notes = None, ck_created_at = 0, ck_updated_at = 0\<rparr>"

definition demo_control :: "CloseChecklistItem list \<Rightarrow> control_db" where
  "demo_control items = tb_db.extend (demo_tb []) (control_db.fields items)"

lemma demo_control_items [simp]: "close_checklist_items (demo_control items) = items"
  by (simp add: demo_control_def tb_db.extend_def control_db.fields_def)

theorem checklist_invariant_witness:
  "checklist_ok (snd (skipChecklistItem ''t1'' ''INVENTORY_RECONCILIATION'' ''ann'' (Some '' no stock '')
     (demo_control [demo_item ''CASH_REC'' ItemCompleted, demo_item ''INVENTORY_RECONCILIATION'' ItemPending])))"
proof -
  have "checklist_ok (demo_control [demo_item ''CASH_REC'' ItemCompleted, demo_item ''INVENTORY_RECONCILIATION'' ItemPending])"
    by (simp add: checklist_ok_def signed_off_def demo_item_def)
  from checklist_invariant [OF r_into_rtranclp [of "checklist_step (\<lambda>x. x)", OF checklist_step.skip] this]
  show ?thesis by blast
qed

end
