(* ===== verification/ReadinessGuarantees.thy ===== *)
theory ReadinessGuarantees
  imports Readiness ChecklistGuarantees CloseProperties Issues
begin

text \<open>
  What it means that a session is ready, and what a certification therefore says of the books.
\<close>

section \<open>The gates, one by one\<close>

definition checklist_done :: "CloseChecklistItem list \<Rightarrow> bool" where
  "checklist_done items \<longleftrightarrow>
     items \<noteq> [] \<and> distinct (map ck_code items) \<and> list_all (\<lambda>i. ck_required i \<longrightarrow> checklistItemSatisfied i) items"

definition runbook_done :: "RunbookState \<Rightarrow> bool" where
  "runbook_done r =
     (case r of
        NoRunbook \<Rightarrow> True
      | RunbookNotStarted n \<Rightarrow> False
      | RunbookExecution status tasks \<Rightarrow>
          status = ''completed'' \<and> tasks \<noteq> [] \<and> list_all (\<lambda>t. t = ''completed'' \<or> t = ''skipped'') tasks)"

definition cash_done :: "(string \<times> bool) list \<Rightarrow> CloseChecklistItem list \<Rightarrow> bool" where
  "cash_done runs items \<longleftrightarrow>
     list_all snd runs \<and> (runs = [] \<longrightarrow> \<not> list_ex (\<lambda>i. ck_code i = ''CA_SCOPE_CONFIRMED'') items)"

definition receipts_done :: "controls \<Rightarrow> tenant_id \<Rightarrow> string \<Rightarrow> 'a control_db_scheme \<Rightarrow> bool" where
  "receipts_done C tenant i s =
     (case ct_erp C of
        ErpFailure \<Rightarrow> \<not> ct_strict C
      | ErpDisabled \<Rightarrow> True
      | ErpEnabled w \<Rightarrow> list_all (\<lambda>r. je_tenant r = tenant \<and> je_session r = i \<and> je_status r \<in> {Approved, Posted, Exported}
          \<longrightarrow> w (je_id r) = Some ''posted'') (journal_entries s))"

definition reconciled :: "PeriodReconciliation list \<Rightarrow> ReconRequirement \<Rightarrow> bool" where
  "reconciled recons q =
     (case find (\<lambda>r. pr_accountCode r = rr_accountCode q) (rev recons) of
        None \<Rightarrow> False
      | Some r \<Rightarrow> pr_status r = ReconApproved \<or> pr_status r = ReconCompleted \<and> \<not> rr_requiresReviewerApproval q)"

definition recons_done :: "ReconRequirement list \<Rightarrow> PeriodReconciliation list \<Rightarrow> bool" where
  "recons_done requirements recons \<longleftrightarrow>
     list_ex rr_isRequired requirements \<and> list_all (\<lambda>q. rr_isRequired q \<longrightarrow> reconciled recons q) requirements"

definition variances_explained :: "Variance list \<Rightarrow> bool" where
  "variances_explained vs \<longleftrightarrow> list_all (\<lambda>v. is_material v \<longrightarrow> is_explained v) vs"

definition modules_done :: "controls \<Rightarrow> tenant_id \<Rightarrow> string \<Rightarrow> 'a control_db_scheme \<Rightarrow> bool" where
  "modules_done C tenant i s \<longleftrightarrow>
     (if ct_modulesReadable C then unresolved_modules tenant i s = [] else \<not> ct_strict C)"

definition recons_documented :: "controls \<Rightarrow> tenant_id \<Rightarrow> 'a control_db_scheme \<Rightarrow> bool" where
  "recons_documented C tenant s \<longleftrightarrow>
     list_all (\<lambda>r. pr_status r \<in> {ReconCompleted, ReconApproved} \<longrightarrow> has_evidence tenant ''reconciliation'' s (pr_reconId r))
       (ct_recons C)"

text \<open>The accounts of the certification's trial balance that are not excluded: there are some and all are mapped.\<close>

definition accounts_mapped ::
  "'d decimal_ops \<Rightarrow> (string \<Rightarrow> string) \<Rightarrow> controls \<Rightarrow> tenant_id \<Rightarrow> CloseSession \<Rightarrow> 'a control_db_scheme \<Rightarrow> bool" where
  "accounts_mapped D cl C tenant session s =
     (period_of session \<noteq> [] \<and>
      (case getTrialBalanceForCertification D cl tenant (period_of session) (Some (ses_id session)) s of
         Inl e \<Rightarrow> False
       | Inr (entries, _) \<Rightarrow>
           let included = filter (\<lambda>e. account_ref e \<noteq> [] \<and> account_ref e \<notin> set (ct_excluded C)) entries
           in included \<noteq> [] \<and> list_all (is_mapped (ct_rules C)) included))"

lemma if_singleton [simp]: "(if b then [] else [x]) = [] \<longleftrightarrow> b" "(if b then [x] else []) = [] \<longleftrightarrow> \<not> b"
  by simp_all

lemma distinct_counts: "distinct xs \<longleftrightarrow> filter (\<lambda>c. 1 < count_list xs c) (rev (remdups (rev xs))) = []"
proof -
  have zero: "count_list xs c \<noteq> 0" if "c \<in> set xs" for c
    using that by (simp add: count_list_0_iff)
  have "distinct xs \<longleftrightarrow> (\<forall>c\<in>set xs. count_list xs c = 1)"
    by (auto simp: distinct_count_atmost_1 count_mset count_list_0_iff)
  also have "\<dots> \<longleftrightarrow> (\<forall>c\<in>set xs. \<not> 1 < count_list xs c)"
    by (rule ball_cong [OF refl]) (use zero in force)
  finally show ?thesis by (simp add: filter_empty_conv)
qed

lemma checklist_none: "checklist_blockers items = [] \<longleftrightarrow> checklist_done items"
proof -
  have "filter (\<lambda>i. ck_required i \<and> \<not> checklistItemSatisfied i) items = []
      \<longleftrightarrow> list_all (\<lambda>i. ck_required i \<longrightarrow> checklistItemSatisfied i) items"
    by (auto simp: filter_empty_conv list_all_iff)
  then show ?thesis
    using distinct_counts [of "map ck_code items"] by (auto simp: checklist_blockers_def checklist_done_def Let_def)
qed

lemma tasks_all: "tasks_in statuses tasks = length tasks \<longleftrightarrow> list_all (\<lambda>t. t \<in> set statuses) tasks"
proof -
  have "length (filter P xs) = length xs \<longleftrightarrow> list_all P xs" for P and xs :: "string list"
  proof (induction xs)
    case (Cons x xs)
    have "length (filter P xs) \<noteq> Suc (length xs)" using length_filter_le [of P xs] by linarith
    with Cons show ?case by auto
  qed simp
  then show ?thesis by (simp add: tasks_in_def)
qed

lemma runbook_none: "runbook_blockers (checkRunbookReadiness r) = [] \<longleftrightarrow> runbook_done r"
  using tasks_all [of "[''completed'', ''skipped'']"]
  by (cases r) (auto simp: runbook_blockers_def checkRunbookReadiness_def runbook_done_def Let_def)

lemma cash_none: "cash_blockers runs items = [] \<longleftrightarrow> cash_done runs items"
  by (auto simp: cash_blockers_def cash_done_def Let_def filter_empty_conv list_all_iff)

lemma issues_none: "issue_blockers xs = [] \<longleftrightarrow> xs = []"
  by (simp add: issue_blockers_def)

lemma unapproved_none: "unapproved_blockers jes = [] \<longleftrightarrow> list_all (\<lambda>j. entry_status j \<notin> {Draft, Proposed}) jes"
  by (auto simp: unapproved_blockers_def Let_def filter_empty_conv list_all_iff)

lemma set_sort_empty: "sort_key f xs = [] \<longleftrightarrow> xs = []"
  by (metis set_empty set_sort)

lemma receipts_none: "erp_blockers cl C tenant i s = [] \<longleftrightarrow> receipts_done C tenant i s"
  by (auto simp: erp_blockers_def receipts_done_def evaluateErpWritebackCloseGate_def Let_def set_sort_empty
      filter_empty_conv list_all_iff split: ErpState.split)

lemma chain_none: "chain_blockers (Some r) = [] \<longleftrightarrow> vr_valid r"
  by (simp add: chain_blockers_def)

lemma recons_none:
  "recon_blockers (checkReconCompleteness True requirements recons) = [] \<longleftrightarrow> recons_done requirements recons"
proof -
  have one: "snd (recon_verdict recons q) = None \<longleftrightarrow> reconciled recons q" for q
    by (auto simp: recon_verdict_def reconciled_def Let_def split: option.split PeriodReconStatus.split)
  have none: "List.map_filter f xs = [] \<longleftrightarrow> list_all (\<lambda>x. f x = None) xs" for f :: "'x \<Rightarrow> 'y option" and xs
    by (induction xs) (auto simp: map_filter_simps split: option.split)
  have "List.map_filter snd (map (recon_verdict recons) (filter rr_isRequired requirements)) = []
      \<longleftrightarrow> list_all (\<lambda>q. rr_isRequired q \<longrightarrow> reconciled recons q) requirements"
    by (auto simp: none list_all_iff one)
  moreover have "filter rr_isRequired requirements = [] \<longleftrightarrow> \<not> list_ex rr_isRequired requirements"
    by (auto simp: filter_empty_conv list_ex_iff)
  ultimately show ?thesis
    by (auto simp: recon_blockers_def checkReconCompleteness_def recons_done_def Let_def)
qed

lemma variances_none: "variance_blockers (checkVarianceCompleteness vs) = [] \<longleftrightarrow> variances_explained vs"
  by (auto simp: variance_blockers_def checkVarianceCompleteness_def variances_explained_def Let_def filter_empty_conv
      list_all_iff)

lemma templates_none:
  "template_blockers (checkTemplateCompleteness as) = [] \<longleftrightarrow> list_all (\<lambda>a. snd a \<noteq> ''proposed'') as"
  by (auto simp: template_blockers_def checkTemplateCompleteness_def Let_def filter_empty_conv list_all_iff)

lemma modules_none: "module_blockers C tenant i s = [] \<longleftrightarrow> modules_done C tenant i s"
  by (auto simp: module_blockers_def modules_done_def Let_def)

lemma documents_none: "undocumented_blockers C tenant s = [] \<longleftrightarrow> recons_documented C tenant s"
  by (auto simp: undocumented_blockers_def recons_documented_def filter_empty_conv list_all_iff)

lemma mapping_none:
  assumes "getCloseSessionById tenant (ses_id session) s = Some session"
  shows "mapping_blockers (checkMappingCompleteness D cl C tenant (ses_id session) s) = []
    \<longleftrightarrow> accounts_mapped D cl C tenant session s"
  using assms
  by (auto simp: mapping_blockers_def checkMappingCompleteness_def accounts_mapped_def no_mapping_def Let_def
      filter_empty_conv list_all_iff split: sum.split)

section \<open>Verifying the chain keeps the tables\<close>

lemma verdict_state:
  assumes "\<exists>b. h = u b"
  shows "snd (case v of None \<Rightarrow> (g, if c then h else s) | Some p \<Rightarrow> (f p, s)) = s
    \<or> (\<exists>b. snd (case v of None \<Rightarrow> (g, if c then h else s) | Some p \<Rightarrow> (f p, s)) = u b)"
  using assms by (simp split: option.split)

lemma verifyChain_moves:
  "snd (verifyChain H t s) = snd (now s) \<or> (\<exists>b. snd (verifyChain H t s) = snd (now s)\<lparr>checkpoints := b\<rparr>)"
  unfolding verifyChain_def verifyChainInternal_def Let_def case_prod_beta by (rule verdict_state) blast

lemma verifyChain_tables: "\<exists>a b. snd (verifyChain H t s) = s\<lparr>ticks := a, checkpoints := b\<rparr>"
proof -
  have "s\<lparr>ticks := a\<rparr> = s\<lparr>ticks := a, checkpoints := checkpoints s\<rparr>" for a by simp
  then show ?thesis using verifyChain_moves [of H t s] by (metis now_def snd_conv)
qed

abbreviation moved :: "'a control_db_scheme \<Rightarrow> nat \<Rightarrow> checkpoint list \<Rightarrow> 'a control_db_scheme" where
  "moved s a b \<equiv> s\<lparr>ticks := a, checkpoints := b\<rparr>"

lemma moved_reads [simp]:
  "getCloseSessionById t i (moved s a b) = getCloseSessionById t i s"
  "listJournalEntries t j st n (moved s a b) = listJournalEntries t j st n s"
  "listJournalEntryLines i (moved s a b) = listJournalEntryLines i s"
  "evidence_for_object t x i (moved s a b) = evidence_for_object t x i s"
  "unresolved_modules t i (moved s a b) = unresolved_modules t i s"
  by (simp_all add: getCloseSessionById_def session_row_def listJournalEntries_def listJournalEntryLines_def lines_of_def
      evidence_for_object_def unresolved_modules_def)

lemma moved_balances [simp]:
  "getGLForPeriod cl t p (moved s a b) = getGLForPeriod cl t p s"
  "getAccountsByTenant cl t (moved s a b) = getAccountsByTenant cl t s"
  "getUnadjusted t p (moved s a b) = getUnadjusted t p s"
  "adjustment_rows t q (moved s a b) = adjustment_rows t q s"
  "getPostableJEAdjustments t q (moved s a b) = getPostableJEAdjustments t q s"
  by (simp_all add: getGLForPeriod_def getAccountsByTenant_def getUnadjusted_def stored_tb_def adjustment_rows_def
      getPostableJEAdjustments_def listPostableJournalEntries_def listJournalEntryLinesBatch_def)

lemma moved_balance_services:
  "getUnadjustedOrRollup D cl t p (moved s a b) = getUnadjustedOrRollup D cl t p s"
  "listAdjustments t q st (moved s a b) = listAdjustments t q st s"
  "je_adjustments t i (moved s a b) = je_adjustments t i s"
  "buildDerivedTrialBalance D cl t p (moved s a b) = buildDerivedTrialBalance D cl t p s"
  unfolding getUnadjustedOrRollup_def listAdjustments_def je_adjustments_def buildDerivedTrialBalance_def moved_balances
  by (rule refl)+

lemma moved_certified:
  "getTrialBalanceForCertification D cl t p i (moved s a b) = getTrialBalanceForCertification D cl t p i s"
  unfolding getTrialBalanceForCertification_def adjustment_payloads_def moved_balances moved_balance_services by (rule refl)

lemma moved_mapping: "checkMappingCompleteness D cl C t i (moved s a b) = checkMappingCompleteness D cl C t i s"
  unfolding checkMappingCompleteness_def moved_reads moved_certified by (rule refl)

lemma moved_evidence [simp]:
  "checkEvidencePolicyForCertification D C t i (moved s a b) = checkEvidencePolicyForCertification D C t i s"
proof -
  have policy: "getEvidencePolicy C t (moved s a b) = getEvidencePolicy C t s"
    by (simp add: getEvidencePolicy_def)
  have types: "assertion_types C t x j (moved s a b) = assertion_types C t x j s" for x j
    by (simp add: assertion_types_def)
  have "je_missing_evidence D C p t (moved s a b) = je_missing_evidence D C p t s"
    "recon_missing_evidence D C p t (moved s a b) = recon_missing_evidence D C p t s" for p
    by (simp_all add: fun_eq_iff je_missing_evidence_def recon_missing_evidence_def types cong: option.case_cong)
  then show ?thesis by (simp add: checkEvidencePolicyForCertification_def policy cong: option.case_cong)
qed

lemma moved_blockers:
  "gate_blockers D C t i (moved s a b) = gate_blockers D C t i s"
  "full_blockers D cl C t session (moved s a b) = full_blockers D cl C t session s"
  by (simp_all add: gate_blockers_def full_blockers_def module_blockers_def undocumented_blockers_def has_evidence_def
      moved_mapping)

section \<open>Readiness\<close>

text \<open>The books are ready: what each gate asks for.\<close>

definition ready_books ::
  "'d env \<Rightarrow> (string \<Rightarrow> string) \<Rightarrow> controls \<Rightarrow> tenant_id \<Rightarrow> CloseSession \<Rightarrow> 'a control_db_scheme \<Rightarrow> bool" where
  "ready_books E cl C tenant session s \<longleftrightarrow>
     (let i = ses_id session; items = listChecklistItemsBySessionId cl tenant i s in
        checklist_done items \<and> runbook_done (ct_runbook C) \<and> cash_done (ct_bankRuns C) items
        \<and> getBlockingIssuesForPeriod i tenant s = []
        \<and> list_all (\<lambda>j. entry_status j \<notin> {Draft, Proposed}) (listJournalEntries tenant (Some i) None (Some 1000) s)
        \<and> receipts_done C tenant i s \<and> vr_valid (fst (verifyChain (e_sha256 E) tenant s))
        \<and> ct_exportChecks C \<in> {None, Some (False, False)}
        \<and> fst (checkEvidencePolicyForCertification (e_decimal E) C tenant i s) = []
        \<and> recons_done (ct_requirements C) (ct_recons C) \<and> variances_explained (ct_variances C)
        \<and> list_all (\<lambda>a. snd a \<noteq> ''proposed'') (ct_templates C) \<and> modules_done C tenant i s
        \<and> recons_documented C tenant s \<and> accounts_mapped (e_decimal E) cl C tenant session s
        \<and> 0 < ct_packages C \<and> \<not> truthy (ses_statementsStaleSince session))"

lemma export_none: "export_blockers c = [] \<longleftrightarrow> c \<in> {None, Some (False, False)}"
  by (auto simp: export_blockers_def split: option.split prod.split)

lemma package_none: "package_blockers n session = [] \<longleftrightarrow> 0 < n \<and> \<not> truthy (ses_statementsStaleSince session)"
  by (simp add: package_blockers_def)

lemma readiness_blockers:
  "rd_hardBlockers (fst (computeReadiness E cl C False tenant session s)) =
     early_blockers cl C tenant (ses_id session) s @ chain_blockers (Some (fst (verifyChain (e_sha256 E) tenant s)))
     @ gate_blockers (e_decimal E) C tenant (ses_id session) s @ full_blockers (e_decimal E) cl C tenant session s"
proof -
  obtain a b where "snd (verifyChain (e_sha256 E) tenant s) = moved s a b" using verifyChain_tables by blast
  then show ?thesis
    by (simp add: computeReadiness_def Let_def case_prod_beta moved_blockers)
qed

lemma ready_when:
  assumes "getCloseSessionById tenant (ses_id session) s = Some session"
  shows "rd_hardBlockers (fst (computeReadiness E cl C False tenant session s)) = [] \<longleftrightarrow> ready_books E cl C tenant session s"
  unfolding readiness_blockers early_blockers_def gate_blockers_def full_blockers_def ready_books_def Let_def append_is_Nil_conv
    checklist_none runbook_none cash_none issues_none unapproved_none receipts_none chain_none export_none variances_none
    templates_none modules_none documents_none package_none mapping_none [OF assms]
  using recons_none assms by simp

lemma readiness_flag: "rd_ready (fst (computeReadiness E cl C l tenant session s)) \<longleftrightarrow>
    rd_hardBlockers (fst (computeReadiness E cl C l tenant session s)) = []"
  by (simp add: computeReadiness_def Let_def case_prod_beta)

lemma found_session: "getCloseSessionById t i s = Some session \<Longrightarrow> ses_id session = i"
  by (auto simp: getCloseSessionById_def session_row_def session_key_def rowToSession_def dest: find_SomeD)

text \<open>
  C13. A session is ready exactly when every gate of the close is satisfied: the checklist is complete
  without duplicates, the runbook has run, the bank runs are signed off, no critical or blocking issue is
  open, no journal entry awaits approval among those that are read, the write-backs have their receipts,
  the audit chain verifies, the evidence policy and the exports have no objection, the reconciliations are
  done and documented, the material variances explained, the templates and module proposals decided, all
  accounts of the certification's trial balance mapped, and a statement package that is not stale exists.
\<close>

theorem ready_exact:
  assumes "getCloseSessionById tenant (ses_id session) s = Some session"
  shows "rd_ready (fst (computeReadiness E cl C False tenant session s)) \<longleftrightarrow> ready_books E cl C tenant session s"
  unfolding readiness_flag by (rule ready_when [OF assms])

definition demo_recon :: PeriodReconciliation where
  "demo_recon = \<lparr>pr_reconId = ''r1'', pr_accountCode = ''1000'', pr_glBalance = Some ''100.00'', pr_toleranceAmount = ''0.01'',
     pr_unexplainedVariance = None, pr_varianceExplanation = None, pr_status = ReconApproved\<rparr>"

definition demo_controls :: controls where
  "demo_controls = \<lparr>ct_strict = True, ct_runbook = RunbookExecution ''completed'' [''completed'', ''skipped''],
     ct_bankRuns = [(''b1'', True)], ct_erp = ErpDisabled, ct_exportChecks = None, ct_evidenceMode = EvidenceHardBlock,
     ct_requiredTypes = (\<lambda>_. None), ct_assertionType = (\<lambda>_. None),
     ct_requirements = [\<lparr>rr_accountCode = ''1000'', rr_accountName = None, rr_isRequired = True, rr_requiresReviewerApproval = True\<rparr>],
     ct_recons = [demo_recon], ct_variances = [], ct_templates = [(''rent'', ''applied'')], ct_modulesReadable = True,
     ct_rules = [\<lparr>mr_namePattern = ''%'', mr_numberPattern = None\<rparr>], ct_excluded = [], ct_packages = 1\<rparr>"

definition demo_ready :: control_db where
  "demo_ready = (demo_control [demo_item ''CASH_REC'' ItemCompleted])
     \<lparr>evidence_links := [\<lparr>el_id = ''l1'', el_tenant = ''t1'', el_evidence = ''e1'', el_object_type = ''reconciliation'', el_object_id = ''r1''\<rparr>]\<rparr>"

abbreviation demo_under_review :: CloseSession where
  "demo_under_review \<equiv> rowToSession (demo_row ''s2'' ''2025-06-01'' ''2025-06-30'' UnderReview)"

lemma demo_ready_simps [simp]:
  "close_checklist_items demo_ready = [demo_item ''CASH_REC'' ItemCompleted]"
  "general_ledger demo_ready = []" "chart_of_accounts demo_ready = []" "period_trial_balance demo_ready = [demo_upload_row]"
  "close_adjustments demo_ready = []" "module_proposals demo_ready = []" "journal_entries demo_ready = []"
  "close_sessions demo_ready = [demo_row ''s2'' ''2025-06-01'' ''2025-06-30'' UnderReview]" "close_issues demo_ready = []"
  "audit_ledger demo_ready = []" "checkpoints demo_ready = []" "evidence_policies demo_ready = []"
  "ledger_snapshots demo_ready = []" "certification_artifacts demo_ready = []"
  "evidence_links demo_ready = [\<lparr>el_id = ''l1'', el_tenant = ''t1'', el_evidence = ''e1'', el_object_type = ''reconciliation'', el_object_id = ''r1''\<rparr>]"
  by (simp_all add: demo_ready_def demo_control_def demo_tb_def tb_db.extend_def control_db.fields_def module_db.extend_def
      tb_db.fields_def demo_review_def demo_books_def)

lemma demo_ready_session: "getCloseSessionById ''t1'' ''s2'' demo_ready = Some demo_under_review" "ses_id demo_under_review = ''s2''"
  by (simp_all add: getCloseSessionById_def session_row_def session_key_def demo_row_def rowToSession_def)

lemma demo_ready_lists [simp]:
  "listJournalEntries t i st n demo_ready = []" "getBlockingIssuesForPeriod p t demo_ready = []"
  by (auto simp: listJournalEntries_def getBlockingIssuesForPeriod_def getOpenIssuesForPeriod_def listCloseIssues_def
      split: option.split)

lemmas demo_gates_simps = demo_controls_def demo_recon_def runbook_done_def receipts_done_def recons_done_def reconciled_def
  variances_explained_def modules_done_def unresolved_modules_def recons_documented_def has_evidence_def
  evidence_for_object_def checkEvidencePolicyForCertification_def getEvidencePolicy_def demo_row_def

lemma demo_period: "period_of demo_under_review = ''2025-06''"
proof -
  have "toISODateString ''2025-06-30'' = ''2025-06-30''" by code_simp
  then show ?thesis by (simp add: period_of_def rowToSession_def demo_row_def)
qed

lemma any_name: "list_all (\<lambda>c. \<not> line_end c) s \<Longrightarrow> pattern_match ''%'' s"
  by (induction s) auto

lemma demo_mapped: "accounts_mapped dec_model (\<lambda>x. x) demo_controls ''t1'' demo_under_review demo_ready"
proof -
  have uploaded: "getTrialBalanceForCertification dec_model (\<lambda>x. x) ''t1'' ''2025-06'' (Some ''s2'') demo_ready
      = Inr (demo_uploaded, AdjustedSource, False)"
    by (simp add: getTrialBalanceForCertification_def getGLForPeriod_def getUnadjustedOrRollup_def getUnadjusted_def stored_tb_def
        tb_of_def demo_upload_row_def unadjusted_record_def adjustment_payloads_def listAdjustments_def adjustment_rows_def
        je_adjustments_def getPostableJEAdjustments_def listPostableJournalEntries_def Let_def demo_uploaded_def)
  have "list_all (\<lambda>e. list_all (\<lambda>c. \<not> line_end c) (js_trim (te_accountName e))) demo_uploaded
      \<and> list_all (\<lambda>e. account_ref e \<noteq> []) demo_uploaded \<and> demo_uploaded \<noteq> []"
    by code_simp
  then show ?thesis
    unfolding accounts_mapped_def demo_period demo_ready_session(2) uploaded
    by (auto simp: Let_def demo_controls_def is_mapped_def ruleMatchesAccount_def any_name list_all_iff filter_empty_conv ex_in_conv)
qed

lemma demo_chain: "vr_valid (fst (verifyChain H ''t1'' demo_ready))"
  by (simp add: verifyChain_def verifyChainInternal_def usable_checkpoint_def tenant_rows_def by_time_def case_prod_beta Let_def)

lemma demo_books_ready: "ready_books demo_env (\<lambda>x. x) demo_controls ''t1'' demo_under_review demo_ready"
  unfolding ready_books_def Let_def demo_ready_session(2)
proof (intro conjI)
  let ?items = "listChecklistItemsBySessionId (\<lambda>x. x) ''t1'' ''s2'' demo_ready"
  have items: "?items = [demo_item ''CASH_REC'' ItemCompleted]"
    by (simp add: listChecklistItemsBySessionId_def item_of_def demo_item_def demo_row_def)
  show "checklist_done ?items" "cash_done (ct_bankRuns demo_controls) ?items"
    unfolding items
    by (simp_all add: checklist_done_def demo_item_def checklistItemSatisfied_def cash_done_def demo_controls_def)
qed (use demo_mapped demo_chain in \<open>simp_all add: demo_env_def demo_gates_simps rowToSession_def\<close>)

theorem ready_exact_witness:
  "rd_ready (fst (computeReadiness demo_env (\<lambda>x. x) demo_controls False ''t1'' demo_under_review demo_ready))
   \<and> \<not> rd_ready (fst (computeReadiness demo_env (\<lambda>x. x) (demo_controls\<lparr>ct_packages := 0\<rparr>) False ''t1'' demo_under_review demo_ready))"
proof -
  have found: "getCloseSessionById ''t1'' (ses_id demo_under_review) demo_ready = Some demo_under_review"
    unfolding demo_ready_session(2) by (rule demo_ready_session(1))
  have "\<not> ready_books demo_env (\<lambda>x. x) (demo_controls\<lparr>ct_packages := 0\<rparr>) ''t1'' demo_under_review demo_ready"
    by (simp add: ready_books_def Let_def)
  then show ?thesis
    using ready_exact [OF found, of demo_env "\<lambda>x. x"] demo_books_ready by blast
qed

text \<open>
  C12. A certification whose blockers come from the readiness check, as the code reads them in the same
  transaction, says that the books are ready: when it succeeds, every gate was satisfied in the state in
  which it was called.
\<close>

theorem certified_books_ready:
  fixes s :: "'a control_db_scheme"
  assumes "certifyCloseSession store E S A input role s = (Inr ses, s')"
    and "getCloseSessionById (cy_tenantId input) (cy_closeSessionId input) s = Some session"
    and "an_hardBlockers A = rd_hardBlockers (fst (computeReadiness E cl C False (cy_tenantId input) session s))"
  shows "ready_books E cl C (cy_tenantId input) session s \<and> ses_status session = UnderReview
    \<and> (\<exists>n. ledger_snapshots s' = ledger_snapshots s @ [n] \<and> ls_session n = Some (ses_id session))"
proof -
  have i: "ses_id session = cy_closeSessionId input" by (rule found_session [OF assms(2)])
  from certification_result [OF assms(1)] obtain r n where
    r: "session_row (cy_tenantId input) (cy_closeSessionId input) s = Some r" "cs_status r = UnderReview"
    and none: "an_hardBlockers A = []"
    and n: "ledger_snapshots s' = ledger_snapshots s @ [n]" "ls_session n = Some (cy_closeSessionId input)"
    by blast
  have "session = rowToSession r" using assms(2) r(1) by (simp add: getCloseSessionById_def)
  then have "ses_status session = UnderReview" using r(2) by (simp add: rowToSession_def)
  moreover have "ready_books E cl C (cy_tenantId input) session s"
    using ready_when [of "cy_tenantId input" session s E cl C] assms(2,3) none i by simp
  ultimately show ?thesis using n i by simp
qed

lemma demo_ready_certified:
  obtains ses s' where "certifyCloseSession None demo_env demo_snap_env demo_answers demo_certify Approver demo_ready = (Inr ses, s')"
proof -
  have "session_row t i demo_ready = session_row t i demo_review"
    "getPriorPeriodRetainedEarnings t e p demo_ready = getPriorPeriodRetainedEarnings t e p demo_review"
    "getPriorCertifiedSnapshotForEntity t e p demo_ready = getPriorCertifiedSnapshotForEntity t e p demo_review" for t i e p
    by (simp_all add: session_row_def getPriorPeriodRetainedEarnings_def prior_artifacts_def demo_review_simps
        getPriorCertifiedSnapshotForEntity_def)
  then have "gates_open demo_env demo_snap_env demo_answers demo_certify demo_ready"
    using demo_gates by (simp add: gates_open_def)
  moreover have "ledger_ok (e_sha256 demo_env) demo_ready" "clock_ok demo_ready"
    by (simp_all add: ledger_ok_def tenant_rows_def clock_ok_def strict_mono_def)
      (simp add: demo_ready_def demo_control_def demo_tb_def tb_db.extend_def control_db.fields_def module_db.extend_def
        demo_review_def demo_books_def strict_mono_def)
  ultimately show ?thesis
    using certify_succeeds [where E = demo_env and S = demo_snap_env and A = demo_answers and input = demo_certify
      and s = demo_ready and store = None] demo_answers_sign that by auto
qed

theorem certified_books_ready_witness:
  "\<exists>ses s'. certifyCloseSession None demo_env demo_snap_env demo_answers demo_certify Approver demo_ready = (Inr ses, s')
     \<and> ready_books demo_env (\<lambda>x. x) demo_controls ''t1'' demo_under_review demo_ready"
proof -
  obtain ses s' where run: "certifyCloseSession None demo_env demo_snap_env demo_answers demo_certify Approver demo_ready = (Inr ses, s')"
    by (rule demo_ready_certified)
  have found: "getCloseSessionById (cy_tenantId demo_certify) (cy_closeSessionId demo_certify) demo_ready = Some demo_under_review"
    using demo_ready_session(1) by (simp add: demo_certify_def)
  have "rd_hardBlockers (fst (computeReadiness demo_env (\<lambda>x. x) demo_controls False ''t1'' demo_under_review demo_ready)) = []"
    using ready_when [of "''t1''" demo_under_review demo_ready demo_env "\<lambda>x. x" demo_controls] demo_ready_session demo_books_ready
    by (metis (no_types, lifting))
  then have "an_hardBlockers demo_answers = rd_hardBlockers (fst (computeReadiness demo_env (\<lambda>x. x) demo_controls False
      (cy_tenantId demo_certify) demo_under_review demo_ready))"
    by (simp add: demo_answers_def demo_certify_def)
  from certified_books_ready [OF run found this] run show ?thesis by (auto simp: demo_certify_def)
qed

section \<open>The profile and the checklist\<close>

text \<open>The checklist of a session as the dispositions of the profile.\<close>

definition disposition :: "CloseChecklistItem \<Rightarrow> Disposition" where
  "disposition r = \<lparr>dp_code = ck_code r, dp_status = ck_status r, dp_notes = ck_notes r\<rparr>"

lemma requirement_codes: "distinct (map rq_code REQUIREMENTS)"
  by code_simp

lemma find_requirement: "q \<in> set REQUIREMENTS \<Longrightarrow> getCanadianAspeRequirement (rq_code q) = Some q"
  using find_key_unique [OF requirement_codes, of q "rq_code q" "\<lambda>_. True"] by (simp add: getCanadianAspeRequirement_def)

lemma many_codes:
  assumes "\<not> distinct xs"
  shows "\<exists>x\<in>set xs. 1 < length (filter (\<lambda>y. y = x) xs)"
proof -
  from assms obtain as bs cs x where "xs = as @ [x] @ bs @ [x] @ cs" using not_distinct_decomp by blast
  then show ?thesis by (intro bexI [of _ x]) auto
qed

lemma one_code:
  assumes "distinct (map f xs)" and "x \<in> set xs"
  shows "filter (\<lambda>y. f y = f x) xs = [x]"
  using assms
proof (induction xs)
  case (Cons z zs)
  then show ?case by (cases "z = x") (auto simp: filter_empty_conv image_iff)
qed simp

lemma find_hd: "filter p xs = x # ys \<Longrightarrow> find p xs = Some x"
  by (induction xs) (auto split: if_splits)

lemma verdict_single:
  assumes "distinct (map ck_code items)" and "r \<in> set items" and "ck_code r = rq_code q" and "q \<in> set REQUIREMENTS"
    and "signed_off r"
  shows "(\<exists>b. requirement_verdict (map disposition items) q = Blocked b) \<longleftrightarrow> \<not> checklistItemSatisfied r"
proof -
  have "distinct (map dp_code (map disposition items))"
    using assms(1) by (simp add: comp_def disposition_def)
  moreover have "disposition r \<in> set (map disposition items)" using assms(2) by simp
  ultimately have one: "filter (\<lambda>d. dp_code d = rq_code q) (map disposition items) = [disposition r]"
    using one_code [of dp_code "map disposition items" "disposition r"] assms(3) by (simp add: disposition_def)
  have "filter (\<lambda>d. dp_code d = rq_code q) (rev (map disposition items)) = [disposition r]"
    using one by (simp add: rev_filter [symmetric])
  then have found: "find (\<lambda>d. dp_code d = rq_code q) (rev (map disposition items)) = Some (disposition r)"
    by (rule find_hd)
  show ?thesis
    using assms(3,5) find_requirement [OF assms(4)]
    unfolding requirement_verdict_def Let_def one found
    by (cases "ck_status r")
      (auto simp: disposition_def checklistItemSatisfied_def isChecklistRequirementSkippable_def signed_off_def js_or_def)
qed


definition demo_monthly :: "ChecklistStatus \<Rightarrow> CloseChecklistItem list" where
  "demo_monthly st = map (\<lambda>q. demo_item (rq_code q) st) (profile_requirements ''monthly'')"


end
