(* ===== verification/Spec2Isabelle.thy ===== *)
theory Spec2Isabelle
  imports JournalAmounts LedgerGuarantees SessionWork CloseProperties FirstClose AdjustmentGuarantees
    DerivedBalance AccountTypes ReadinessGuarantees
begin

text \<open>
  A verification library for the close backend (\<open>src/src\<close>): the services with which an accountant
  closes a period, and the records that make the close auditable.

  \<^bold>\<open>The program.\<close> A close session (\<open>services/close_session_service.ts\<close>) is opened for an entity and
  a period, worked on, reviewed, certified, reviewed again for subsequent events, and locked. While
  it is open, issues are raised and verified (\<open>services/issue_service.ts\<close>) and journal entries are
  drafted, approved by a second person and posted (\<open>services/journal_entry_service.ts\<close>).
  Certification takes a snapshot of the trial balance (\<open>services/ledger_snapshot_service.ts\<close>,
  \<open>lib/snapshot_hash.ts\<close>), checks that the four statements tie
  (\<open>services/cross_statement_validation.ts\<close>), signs an artifact
  (\<open>services/certification_artifact_service.ts\<close>) and records everything in a hash chain
  (\<open>db/repositories/audit_ledger_repository.ts\<close>).

  \<^bold>\<open>The state.\<close> A database state is a record that grows by extension: \<open>world\<close> (clock, random
  identifiers, noted calls), \<open>ledger_db\<close>, \<open>session_db\<close>, \<open>issue_db\<close>, \<open>event_db\<close>, \<open>je_db\<close>, \<open>close_db\<close>,
  \<open>module_db\<close>, \<open>tb_db\<close>, \<open>control_db\<close>. An operation maps a state to a result, \<open>error + value\<close>, and a state; a table is a
  list of rows in the order of insertion; keys, foreign keys, checks and triggers of the migrations
  are tests of the statements that write. Time advances by a strictly increasing clock; random
  identifiers come from a supply. \<open>withTransaction\<close> restores the tables when its body fails.
  Calls of the modelled code outside the model (notifications, the cascade, the set-up services) are
  noted in \<open>calls\<close>; the answers it reads from them are arguments (records such as
  \<open>certify_answers\<close>, \<open>advance_answers\<close>, \<open>env\<close>).

  \<^bold>\<open>The theories.\<close>
  \<^item> \<open>Prelude\<close>, \<open>JsNumber\<close>, \<open>Json\<close>, \<open>JsonText\<close>, \<open>World\<close>: lists and texts as JavaScript has them, the
    doubles and their shortest decimal texts, JSON with its serialisation and that of \<open>jsonb\<close>, the
    state and the transaction.
  \<^item> \<open>Decimal\<close>, \<open>Period\<close>: \<open>utils/decimal.ts\<close> over an interface of decimal.js (locale \<open>decimal_js\<close>,
    interpreted by exact rational arithmetic with twenty digits), \<open>utils/period.ts\<close>.
  \<^item> \<open>AuditLedger\<close>, \<open>AuditService\<close>, \<open>LedgerGuarantees\<close>, \<open>AuditKept\<close>: the chain (locale
    \<open>hash_chain\<close>), its writers, its properties, and the interface by which other components keep it.
  \<^item> \<open>SessionRepo\<close>, \<open>IssueService\<close>, \<open>SubsequentEvents\<close>, \<open>Segregation\<close>: the repositories and services
    below the session, with \<open>Lifecycle\<close> (locale \<open>lifecycle\<close>) for the paths of a status and \<open>Issues\<close>
    for the properties of issues.
  \<^item> \<open>JournalEntryRepo\<close>, \<open>Provenance\<close>, \<open>JournalEntryService\<close>, \<open>JournalPosting\<close>, \<open>JournalEntries\<close>,
    \<open>JournalAmounts\<close>, \<open>JournalGuarantees\<close>: journal entries; \<open>JournalEntries\<close> refines the service to a
    step relation on entries and lines.
  \<^item> \<open>LedgerSnapshot\<close>, \<open>Snapshots\<close>, \<open>CrossStatement\<close>, \<open>CrossStatementTies\<close>, \<open>CertificationArtifact\<close>:
    snapshots and their hashes, the checks between statements, the artifact.
  \<^item> \<open>IntegrityGate\<close>, \<open>AccountClassifier\<close>, \<open>FinancialStatements\<close>, \<open>StatementFlows\<close>,
    \<open>CertifiedStatements\<close>: the pipeline from a trial balance to the statements
    (\<open>services/integrity_gate_service.ts\<close>, \<open>accountClassifier.ts\<close>, \<open>financialStatements.ts\<close>,
    \<open>cashFlow.ts\<close>, \<open>equityChanges.ts\<close>, \<open>certified_statements_service.ts\<close>). \<open>StatementCents\<close> and
    \<open>StatementBalance\<close> compute it in whole cents; \<open>StatementGuarantees\<close>, \<open>StatementArticulation\<close> and
    \<open>CertifiedGuarantees\<close> say which ledgers have statements, and \<open>FirstClose\<close> which of them pass the
    checks of a first certification.
  \<^item> \<open>TrialBalanceStore\<close>, \<open>TrialBalances\<close>, \<open>AdjustedBalance\<close>: where the trial balance comes from: the tables
    of ledger lines, accounts, uploaded balances and adjustments, the aggregation and the roll-up
    (\<open>services/gl_to_tb_aggregation_service.ts\<close>, \<open>trial_balance_rollup_service.ts\<close>), the adjustments
    (\<open>services/close_adjustments_service.ts\<close>) and the trial balances of the certification and of the
    reports (\<open>services/adjusted_trial_balance_service.ts\<close>). \<open>Accumulation\<close> (locale \<open>accumulation\<close>) is the
    loop that sums amounts by key; \<open>TrialBalanceGuarantees\<close>, \<open>AdjustmentGuarantees\<close> and \<open>DerivedBalance\<close>
    (locale \<open>decimal_text\<close>) hold what the balances contain. \<open>AccountTypes\<close> types the classifier.
  \<^item> \<open>Checklist\<close>, \<open>Readiness\<close>: the checklist of a session with the profile it comes from
    (\<open>services/canadian_aspe_close_profile.ts\<close>) and the gates between a session and its review
    (\<open>computeReadiness\<close> of \<open>services/close_checklist_readiness_service.ts\<close>), with their selections from
    tables outside the model in a record \<open>controls\<close>. \<open>ChecklistGuarantees\<close> has the invariant of the
    checklist; \<open>ReadinessGuarantees\<close> says what a ready session is and what a certification therefore says
    of the books.
  \<^item> \<open>CloseSession\<close>, \<open>Certification\<close>, \<open>SessionAdvance\<close>: every operation of the session service.
    \<open>Refinement\<close> (locale \<open>refined\<close>) and \<open>CloseBooks\<close> refine it to a step relation \<open>book_step\<close> on
    sessions, snapshots and artifacts; \<open>CloseGuarantees\<close>, \<open>CloseAudit\<close>, \<open>CloseProperties\<close>,
    \<open>SessionProperties\<close>, \<open>SessionMoves\<close> and \<open>SessionWork\<close> hold the properties.

  \<^bold>\<open>Bounds.\<close> No fuel is used: every function is total. Amounts are exact where they are doubles; the
  equivalences with cents hold below the bounds of their statements, \<open>10 ^ 15\<close> cents, where a double
  still determines the cents.

  \<^bold>\<open>Not modelled.\<close> HTTP routes, the frontend, file parsing, the language-model services, the
  accounting modules themselves, the computation of reconciliations and variances, and the cascade
  that orchestrates them. Concurrency inside a
  transaction is that of PostgreSQL: the model runs one operation after the other, \<open>FOR UPDATE\<close> has
  no effect in it.
\<close>

end
